(* ===== verification/Prelude.thy ===== *)
theory Prelude imports Complex_Main "HOL-Library.AList" "HOL-Library.Sublist" "HOL-Library.Multiset" begin

section \<open>Shared vocabulary of the development\<close>

text \<open>
  What every component uses: thrown errors and results, the insertion-ordered \<open>Map\<close> of
  JavaScript, stable sorting with a comparator, and the two store interfaces the components
  rely on. \<open>keyed_store\<close> is the contract of a \<open>Map\<close> or of a table with a primary key;
  \<open>once_store\<close> is the contract of a store that accepts every key once (the in-memory checks
  and the \<open>on conflict do nothing\<close> statements), with the replay lemma proved once.
\<close>

named_theorems eval_simps \<open>equations that evaluate closed terms of the model\<close>
named_theorems store_simps \<open>lookups after updates\<close>

subsection \<open>Errors and results\<close>

text \<open>A thrown error or an object given to \<open>next(...)\<close>: the HTTP status and the code it
  carries, when it carries them, and its message.\<close>

record js_error =
  statusCode :: "nat option"
  code :: "string option"
  message :: string

definition plain_error :: "string \<Rightarrow> js_error" where
  "plain_error m = \<lparr>statusCode = None, code = None, message = m\<rparr>"

definition http_error :: "nat \<Rightarrow> string \<Rightarrow> string \<Rightarrow> js_error" where
  "http_error st c m = \<lparr>statusCode = Some st, code = Some c, message = m\<rparr>"

lemma http_error_sel [simp]:
  "statusCode (http_error st c m) = Some st" "code (http_error st c m) = Some c"
  "message (http_error st c m) = m"
  by (simp_all add: http_error_def)

type_synonym 'a res = "js_error + 'a"

definition bindR :: "'a res \<Rightarrow> ('a \<Rightarrow> 'b res) \<Rightarrow> 'b res" where
  "bindR r f = (case r of Inl e \<Rightarrow> Inl e | Inr x \<Rightarrow> f x)"

lemma bindR_simps [simp]: "bindR (Inl e) f = Inl e" "bindR (Inr x) f = f x"
  by (simp_all add: bindR_def)

lemma bindR_eq_Inr [simp]: "bindR r f = Inr y \<longleftrightarrow> (\<exists>x. r = Inr x \<and> f x = Inr y)"
  by (cases r) auto

text \<open>A \<open>map\<close> whose function may throw stops at the first error.\<close>

fun map_res :: "('a \<Rightarrow> 'b res) \<Rightarrow> 'a list \<Rightarrow> 'b list res" where
  "map_res f [] = Inr []"
| "map_res f (x # xs) = bindR (f x) (\<lambda>y. bindR (map_res f xs) (\<lambda>ys. Inr (y # ys)))"

lemma map_res_Inr: "map_res f xs = Inr ys \<longleftrightarrow> list_all2 (\<lambda>x y. f x = Inr y) xs ys"
proof (induction xs arbitrary: ys)
  case (Cons x xs)
  then show ?case by (cases ys) auto
qed auto

text \<open>\<open>x ?? d\<close> on an optional value.\<close>

abbreviation or_else :: "'a option \<Rightarrow> 'a \<Rightarrow> 'a" where
  "or_else x d \<equiv> (case x of None \<Rightarrow> d | Some v \<Rightarrow> v)"

subsection \<open>The JavaScript \<open>Map\<close>\<close>

text \<open>A \<open>Map\<close> iterates in insertion order, and setting a key again keeps its place: an
  association list with the library's \<open>update\<close>.\<close>

type_synonym ('k, 'v) jsmap = "('k \<times> 'v) list"

abbreviation jm_get :: "('k, 'v) jsmap \<Rightarrow> 'k \<Rightarrow> 'v option" where
  "jm_get m k \<equiv> map_of m k"

abbreviation jm_set :: "'k \<Rightarrow> 'v \<Rightarrow> ('k, 'v) jsmap \<Rightarrow> ('k, 'v) jsmap" where
  "jm_set k v m \<equiv> AList.update k v m"

abbreviation jm_has :: "('k, 'v) jsmap \<Rightarrow> 'k \<Rightarrow> bool" where
  "jm_has m k \<equiv> map_of m k \<noteq> None"

abbreviation jm_values :: "('k, 'v) jsmap \<Rightarrow> 'v list" where
  "jm_values m \<equiv> map snd m"

abbreviation jm_wf :: "('k, 'v) jsmap \<Rightarrow> bool" where
  "jm_wf m \<equiv> distinct (map fst m)"

declare map_of_eq_Some_iff [simp del]

lemma jm_getI: "jm_wf m \<Longrightarrow> (k, v) \<in> set m \<Longrightarrow> jm_get m k = Some v"
  by simp

lemma jm_get_set [simp, store_simps]:
  "jm_get (jm_set k v m) k' = (if k' = k then Some v else jm_get m k')"
  by (simp add: update_conv)

lemma jm_wf_set [simp, intro]: "jm_wf m \<Longrightarrow> jm_wf (jm_set k v m)"
  by (rule distinct_update)

lemma jm_set_new: "jm_get m k = None \<Longrightarrow> jm_set k v m = m @ [(k, v)]"
  by (induction m) (auto split: if_splits)

lemma jm_values_set_new: "jm_get m k = None \<Longrightarrow> jm_values (jm_set k v m) = jm_values m @ [v]"
  by (simp add: jm_set_new)

lemma jm_get_in_values: "jm_get m k = Some v \<Longrightarrow> v \<in> set (jm_values m)"
  by (force dest: map_of_SomeD)

lemma jm_values_set_subset: "set (jm_values (jm_set k v m)) \<subseteq> insert v (set (jm_values m))"
  by (induction m) auto

subsection \<open>\<open>Array.prototype.sort\<close>\<close>

text \<open>\<open>sort\<close> is stable and calls a comparator whose sign orders two elements: insertion of
  each element behind the elements it is not smaller than.\<close>

fun insert_by :: "('a \<Rightarrow> 'a \<Rightarrow> int) \<Rightarrow> 'a \<Rightarrow> 'a list \<Rightarrow> 'a list" where
  "insert_by cmp x [] = [x]"
| "insert_by cmp x (y # ys) = (if cmp x y \<le> 0 then x # y # ys else y # insert_by cmp x ys)"

fun js_sort :: "('a \<Rightarrow> 'a \<Rightarrow> int) \<Rightarrow> 'a list \<Rightarrow> 'a list" where
  "js_sort cmp [] = []"
| "js_sort cmp (x # xs) = insert_by cmp x (js_sort cmp xs)"

lemma mset_insert_by [simp]: "mset (insert_by cmp x xs) = add_mset x (mset xs)"
  by (induction xs) auto

lemma mset_js_sort [simp]: "mset (js_sort cmp xs) = mset xs"
  by (induction xs) auto

lemma set_js_sort [simp]: "set (js_sort cmp xs) = set xs"
  by (metis mset_js_sort set_mset_mset)

lemma length_js_sort [simp]: "length (js_sort cmp xs) = length xs"
  by (metis mset_js_sort size_mset)

lemma distinct_js_sort [simp]: "distinct (js_sort cmp xs) = distinct xs"
  by (metis mset_js_sort mset_eq_imp_distinct_iff)

text \<open>Sorting by a comparator whose sign agrees with a key orders the keys.\<close>

lemma insert_by_sorted:
  assumes "\<And>a b. f a < f b \<Longrightarrow> cmp a b < 0" "\<And>a b. f b < f a \<Longrightarrow> 0 < cmp a b"
    and "sorted (map f xs)"
  shows "sorted (map (f :: 'a \<Rightarrow> 'b::linorder) (insert_by cmp x xs))"
  using assms(3)
proof (induction xs)
  case (Cons y ys)
  have le: "f x \<le> f y" if "cmp x y \<le> 0" using assms(2)[of y x] that by fastforce
  have ge: "f y \<le> f x" if "\<not> cmp x y \<le> 0" using assms(1)[of x y] that by fastforce
  have set_ins: "set (insert_by cmp x ys) = insert x (set ys)"
    by (metis mset_insert_by set_mset_add_mset_insert set_mset_mset)
  from Cons le ge show ?case by (fastforce simp: set_ins)
qed simp

lemma js_sort_sorted:
  assumes "\<And>a b. f a < f b \<Longrightarrow> cmp a b < 0" "\<And>a b. f b < f a \<Longrightarrow> 0 < cmp a b"
  shows "sorted (map (f :: 'a \<Rightarrow> 'b::linorder) (js_sort cmp xs))"
  using assms by (induction xs) (auto intro: insert_by_sorted)

text \<open>Sorting by a strict total order: the result only depends on the set of the elements.\<close>

definition strict_total_on :: "('a \<Rightarrow> 'a \<Rightarrow> bool) \<Rightarrow> 'a set \<Rightarrow> bool" where
  "strict_total_on R A \<longleftrightarrow>
     (\<forall>a \<in> A. \<not> R a a) \<and>
     (\<forall>a \<in> A. \<forall>b \<in> A. a \<noteq> b \<longrightarrow> R a b \<or> R b a) \<and>
     (\<forall>a \<in> A. \<forall>b \<in> A. \<forall>c \<in> A. R a b \<longrightarrow> R b c \<longrightarrow> R a c)"

lemma strict_total_on_subset: "strict_total_on R A \<Longrightarrow> B \<subseteq> A \<Longrightarrow> strict_total_on R B"
  unfolding strict_total_on_def by blast

lemma set_insert_by [simp]: "set (insert_by cmp x xs) = insert x (set xs)"
  by (metis mset_insert_by set_mset_add_mset_insert set_mset_mset)

lemma strict_total_onD:
  assumes "strict_total_on R A" "a \<in> A"
  shows "\<not> R a a" "b \<in> A \<Longrightarrow> a \<noteq> b \<Longrightarrow> R a b \<or> R b a"
    "b \<in> A \<Longrightarrow> c \<in> A \<Longrightarrow> R a b \<Longrightarrow> R b c \<Longrightarrow> R a c"
  using assms unfolding strict_total_on_def by blast+

lemma insert_by_strict:
  assumes "strict_total_on R (insert x (set xs))" "x \<notin> set xs" "sorted_wrt R xs"
  shows "sorted_wrt R (insert_by (\<lambda>a b. if R a b then - 1 else 1) x xs)"
  using assms
proof (induction xs)
  case (Cons y ys)
  have sub: "strict_total_on R (insert x (set ys))"
    using Cons.prems(1) by (rule strict_total_on_subset) auto
  show ?case
  proof (cases "R x y")
    case True
    have "R x z" if "z \<in> set ys" for z
      using strict_total_onD(3)[OF Cons.prems(1), of x y z] Cons.prems(3) True that by simp
    with True Cons.prems(3) show ?thesis by auto
  next
    case False
    with Cons.prems(2) strict_total_onD(2)[OF Cons.prems(1), of x y] have "R y x" by simp
    with False Cons.IH[OF sub] Cons.prems show ?thesis by auto
  qed
qed simp

lemma js_sort_strict:
  "strict_total_on R (set xs) \<Longrightarrow> distinct xs \<Longrightarrow>
     sorted_wrt R (js_sort (\<lambda>a b. if R a b then - 1 else 1) xs)"
proof (induction xs)
  case (Cons x xs)
  have "strict_total_on R (set xs)"
    using Cons.prems(1) by (rule strict_total_on_subset) auto
  with Cons show ?case by (auto intro!: insert_by_strict)
qed simp

lemma strict_sorted_unique:
  assumes "strict_total_on R (set xs)" "set xs = set ys" "sorted_wrt R xs" "sorted_wrt R ys"
  shows "xs = ys"
  using assms
proof (induction xs arbitrary: ys)
  case (Cons x xs)
  then obtain y ys' where ys: "ys = y # ys'" by (cases ys) auto
  have irr: "\<not> R a a" if "a \<in> set (x # xs)" for a
    using Cons.prems(1) that unfolding strict_total_on_def by blast
  have asym: "R a b \<Longrightarrow> \<not> R b a" if "a \<in> set (x # xs)" "b \<in> set (x # xs)" for a b
    using strict_total_onD(3)[OF Cons.prems(1), of a b a] irr that by blast
  have xy: "x = y"
  proof (rule ccontr)
    assume "x \<noteq> y"
    then have "y \<in> set xs" "x \<in> set ys'" using Cons.prems(2) ys by auto
    then have "R x y" "R y x" using Cons.prems(3,4) ys by auto
    with asym Cons.prems(2) ys show False by (metis list.set_intros(1))
  qed
  have "x \<notin> set xs" "x \<notin> set ys'" using Cons.prems(2-4) ys xy irr by auto
  then have "set xs = set ys'" using Cons.prems(2) ys xy by auto
  moreover have "strict_total_on R (set xs)"
    using Cons.prems(1) by (rule strict_total_on_subset) auto
  ultimately have "xs = ys'" using Cons.IH Cons.prems(3,4) ys by simp
  with xy ys show ?case by simp
qed simp

lemma js_sort_unique:
  assumes "strict_total_on R (set xs)" "set xs = set ys" "distinct xs" "distinct ys"
  shows "js_sort (\<lambda>a b. if R a b then - 1 else 1) xs = js_sort (\<lambda>a b. if R a b then - 1 else 1) ys"
  using assms by (intro strict_sorted_unique[of R]) (auto intro: js_sort_strict)

subsection \<open>Interfaces\<close>

locale keyed_store =
  fixes lookup :: "'s \<Rightarrow> 'k \<Rightarrow> 'v option" and put :: "'k \<Rightarrow> 'v \<Rightarrow> 's \<Rightarrow> 's"
    and invar :: "'s \<Rightarrow> bool"
  assumes lookup_put: "invar s \<Longrightarrow> lookup (put k v s) k' = (if k' = k then Some v else lookup s k')"
    and invar_put: "invar s \<Longrightarrow> invar (put k v s)"
begin

lemma put_get: "invar s \<Longrightarrow> lookup (put k v s) k = Some v"
  by (simp add: lookup_put)

lemma put_frame: "invar s \<Longrightarrow> k' \<noteq> k \<Longrightarrow> lookup (put k v s) k' = lookup s k'"
  by (simp add: lookup_put)

lemma put_put: "invar s \<Longrightarrow> lookup (put k v (put k w s)) = lookup (put k v s)"
  by (rule ext) (simp add: lookup_put invar_put)

lemma fold_put:
  "invar s \<Longrightarrow> lookup (fold (\<lambda>(k, v). put k v) kvs s) k =
     (case map_of (rev kvs) k of None \<Rightarrow> lookup s k | Some v \<Rightarrow> Some v)"
  by (induction kvs arbitrary: s)
    (auto simp: lookup_put invar_put map_add_def split: option.splits)

end

text \<open>Items offered one after the other to a store that tells whether the item was new.\<close>

fun offer_all :: "('s \<Rightarrow> 'i \<Rightarrow> bool \<times> 's) \<Rightarrow> 's \<Rightarrow> 'i list \<Rightarrow> ('i \<times> bool) list" where
  "offer_all step s [] = []"
| "offer_all step s (i # is) = (let (new, s') = step s i in (i, new) # offer_all step s' is)"

definition accepted :: "('i \<Rightarrow> 'k) \<Rightarrow> 'k \<Rightarrow> ('i \<times> bool) list \<Rightarrow> nat" where
  "accepted key k offers = length (filter (\<lambda>(i, new). new \<and> key i = k) offers)"

locale once_store =
  fixes seen :: "'s \<Rightarrow> 'k \<Rightarrow> bool" and step :: "'s \<Rightarrow> 'i \<Rightarrow> bool \<times> 's"
    and key :: "'i \<Rightarrow> 'k" and invar :: "'s \<Rightarrow> bool" and ok :: "'i \<Rightarrow> bool"
  assumes new_iff: "invar s \<Longrightarrow> ok i \<Longrightarrow> fst (step s i) \<longleftrightarrow> \<not> seen s (key i)"
    and seen_step: "invar s \<Longrightarrow> ok i \<Longrightarrow> seen (snd (step s i)) k \<longleftrightarrow> seen s k \<or> k = key i"
    and invar_step: "invar s \<Longrightarrow> ok i \<Longrightarrow> invar (snd (step s i))"
begin

lemma accepted_exactly:
  "invar s \<Longrightarrow> list_all ok is \<Longrightarrow> accepted key k (offer_all step s is) =
     (if seen s k \<or> k \<notin> key ` set is then 0 else 1)"
proof (induction "is" arbitrary: s)
  case Nil
  then show ?case by (simp add: accepted_def)
next
  case (Cons i "is")
  then have ok: "ok i" "list_all ok is" by simp_all
  obtain new s' where st: "step s i = (new, s')" by fastforce
  have new: "new \<longleftrightarrow> \<not> seen s (key i)" using new_iff[OF Cons.prems(1) ok(1)] st by simp
  have seen': "seen s' k \<longleftrightarrow> seen s k \<or> k = key i"
    using seen_step[OF Cons.prems(1) ok(1), of k] st by simp
  have "invar s'" using invar_step[OF Cons.prems(1) ok(1)] st by simp
  from Cons.IH[OF this ok(2)] new seen' show ?case by (auto simp: st accepted_def)
qed

lemma accepted_at_most_once:
  "invar s \<Longrightarrow> list_all ok is \<Longrightarrow> accepted key k (offer_all step s is) \<le> 1"
  by (simp add: accepted_exactly)

end

text \<open>A store that accepts every key a fixed number of times: a counter per key, as rate limiters
  keep it.\<close>

locale quota_store =
  fixes used :: "'s \<Rightarrow> 'k \<Rightarrow> nat" and step :: "'s \<Rightarrow> 'i \<Rightarrow> bool \<times> 's"
    and key :: "'i \<Rightarrow> 'k" and invar :: "'s \<Rightarrow> bool" and quota :: nat
  assumes pass_iff: "invar s \<Longrightarrow> fst (step s i) \<longleftrightarrow> used s (key i) < quota"
    and used_step: "invar s \<Longrightarrow> used (snd (step s i)) k = (if k = key i then Suc (used s k) else used s k)"
    and invar_step: "invar s \<Longrightarrow> invar (snd (step s i))"
begin

lemma accepted_quota:
  "invar s \<Longrightarrow> accepted key k (offer_all step s is) =
     min (quota - used s k) (length (filter (\<lambda>i. key i = k) is))"
proof (induction "is" arbitrary: s)
  case (Cons i "is")
  obtain new s' where st: "step s i = (new, s')" by fastforce
  have new: "new \<longleftrightarrow> used s (key i) < quota" using pass_iff[OF Cons.prems, of i] st by simp
  have used': "used s' k = (if k = key i then Suc (used s k) else used s k)"
    using used_step[OF Cons.prems, of i k] st by simp
  have "invar s'" using invar_step[OF Cons.prems, of i] st by simp
  from Cons.IH[OF this] new used' show ?case by (auto simp: st accepted_def)
qed (simp add: accepted_def)

end

interpretation jm: keyed_store "jm_get" "jm_set" "jm_wf"
  by unfold_locales auto

end
