(* ===== verification/Js_String.thy ===== *)
theory Js_String imports Prelude begin

section \<open>JavaScript strings\<close>

text \<open>
  Strings are lists of characters; the model covers strings whose code units are ASCII, which
  is what identifiers, wallets, environment values, ISO dates and JSON keys of the program
  are. Case mapping acts on letters a-z, \<open>trim\<close> removes the ASCII white space. The theory
  holds the string functions the program calls and their laws; \<open>digits_w\<close> and \<open>read_digits\<close>
  are the fixed-width decimal leaves of the date printer and parser, with their round trip.
\<close>

definition ccode :: "char \<Rightarrow> nat" where "ccode c = of_char c"

lemma ccode_char_of [simp]: "ccode (char_of n) = n mod 256"
  by (simp add: ccode_def)

lemma ccode_inject: "ccode a = ccode b \<longleftrightarrow> a = b"
  by (simp add: ccode_def)

definition is_digit :: "char \<Rightarrow> bool" where
  "is_digit c \<longleftrightarrow> 48 \<le> ccode c \<and> ccode c \<le> 57"

definition is_lower :: "char \<Rightarrow> bool" where
  "is_lower c \<longleftrightarrow> 97 \<le> ccode c \<and> ccode c \<le> 122"

definition is_upper :: "char \<Rightarrow> bool" where
  "is_upper c \<longleftrightarrow> 65 \<le> ccode c \<and> ccode c \<le> 90"

definition is_space :: "char \<Rightarrow> bool" where
  "is_space c \<longleftrightarrow> 9 \<le> ccode c \<and> ccode c \<le> 13 \<or> ccode c = 32"

text \<open>A word character of a regular expression, \<open>[A-Za-z0-9_]\<close>.\<close>

definition is_word_char :: "char \<Rightarrow> bool" where
  "is_word_char c \<longleftrightarrow> is_digit c \<or> is_lower c \<or> is_upper c \<or> c = CHR ''_''"

definition is_hex :: "char \<Rightarrow> bool" where
  "is_hex c \<longleftrightarrow> is_digit c \<or> 97 \<le> ccode c \<and> ccode c \<le> 102 \<or> 65 \<le> ccode c \<and> ccode c \<le> 70"

subsection \<open>Case, trimming, searching, splitting\<close>

definition lower_char :: "char \<Rightarrow> char" where
  "lower_char c = (if is_upper c then char_of (ccode c + 32) else c)"

definition upper_char :: "char \<Rightarrow> char" where
  "upper_char c = (if is_lower c then char_of (ccode c - 32) else c)"

abbreviation to_lower :: "string \<Rightarrow> string" where "to_lower s \<equiv> map lower_char s"
abbreviation to_upper :: "string \<Rightarrow> string" where "to_upper s \<equiv> map upper_char s"

lemma lower_char_idem [simp]: "lower_char (lower_char c) = lower_char c"
proof (cases "is_upper c")
  case True
  then have "ccode (char_of (ccode c + 32)) = ccode c + 32" by (simp add: is_upper_def)
  with True have "\<not> is_upper (lower_char c)"
    by (simp add: lower_char_def) (simp add: is_upper_def)
  then show ?thesis by (simp add: lower_char_def[of "lower_char c"])
qed (simp add: lower_char_def)

lemma to_lower_idem [simp]: "to_lower (to_lower s) = to_lower s"
  by simp

definition trim_start :: "string \<Rightarrow> string" where
  "trim_start s = dropWhile is_space s"

definition trim :: "string \<Rightarrow> string" where
  "trim s = rev (dropWhile is_space (rev (dropWhile is_space s)))"

lemma dropWhile_idem [simp]: "dropWhile P (dropWhile P xs) = dropWhile P xs"
  by (induction xs) auto

lemma dropWhile_rev_dropWhile:
  "dropWhile P (rev (dropWhile P (rev (dropWhile P xs)))) = rev (dropWhile P (rev (dropWhile P xs)))"
proof (cases "dropWhile P xs")
  case Nil
  then show ?thesis by (simp only: dropWhile.simps rev.simps)
next
  case (Cons y ys)
  then have ny: "\<not> P y" by (metis dropWhile_eq_Cons_conv)
  then have "dropWhile P (rev (y # ys)) = dropWhile P (rev ys) @ [y] \<or>
      dropWhile P (rev (y # ys)) = [y]"
    by (simp add: dropWhile_append)
  with ny Cons show ?thesis by auto
qed

lemma trim_idem [simp]: "trim (trim s) = trim s"
  by (simp add: trim_def dropWhile_rev_dropWhile)

abbreviation starts_with :: "string \<Rightarrow> string \<Rightarrow> bool" where "starts_with s p \<equiv> prefix p s"
abbreviation ends_with :: "string \<Rightarrow> string \<Rightarrow> bool" where "ends_with s p \<equiv> suffix p s"

fun includes_str :: "string \<Rightarrow> string \<Rightarrow> bool" where
  "includes_str [] p = (p = [])"
| "includes_str (c # s) p = (prefix p (c # s) \<or> includes_str s p)"

text \<open>\<open>s.split(c)\<close> for a separator of one character: never empty.\<close>

fun split_on :: "char \<Rightarrow> string \<Rightarrow> string list" where
  "split_on d [] = [[]]"
| "split_on d (c # s) =
     (if c = d then [] # split_on d s
      else case split_on d s of [] \<Rightarrow> [[c]] | p # ps \<Rightarrow> (c # p) # ps)"

fun join_with :: "string \<Rightarrow> string list \<Rightarrow> string" where
  "join_with sep [] = []"
| "join_with sep [x] = x"
| "join_with sep (x # y # xs) = x @ sep @ join_with sep (y # xs)"

lemma split_on_nonempty [simp]: "split_on d s \<noteq> []"
  by (induction s) (auto split: list.splits)

lemma split_on_no_sep: "d \<notin> set s \<Longrightarrow> split_on d s = [s]"
  by (induction s) auto

lemma split_on_append:
  "d \<notin> set p \<Longrightarrow> split_on d (p @ d # s) = p # split_on d s"
  by (induction p) auto

lemma join_split: "join_with [d] (split_on d s) = s"
proof (induction s)
  case (Cons c s)
  obtain p ps where sp: "split_on d s = p # ps" using split_on_nonempty by (metis neq_Nil_conv)
  with Cons.IH show ?case by (cases ps) auto
qed simp

lemma split_join:
  "xs \<noteq> [] \<Longrightarrow> \<forall>x \<in> set xs. d \<notin> set x \<Longrightarrow> split_on d (join_with [d] xs) = xs"
  by (induction "[d]" xs rule: join_with.induct)
    (auto simp: split_on_no_sep split_on_append)

text \<open>\<open>s.replace(/\/$/, "")\<close> and \<open>s.replace(/\/+$/, "")\<close>.\<close>

definition drop_last_slash :: "string \<Rightarrow> string" where
  "drop_last_slash s = (if s \<noteq> [] \<and> last s = CHR ''/'' then butlast s else s)"

definition drop_last_slashes :: "string \<Rightarrow> string" where
  "drop_last_slashes s = rev (dropWhile (\<lambda>c. c = CHR ''/'') (rev s))"

text \<open>Whether a word occurs between word boundaries, \<open>/\b(w)\b/.test(s)\<close> for a word that
  starts and ends with word characters; \<open>prev\<close> tells whether a word character precedes.\<close>

fun has_word_from :: "bool \<Rightarrow> string \<Rightarrow> string \<Rightarrow> bool" where
  "has_word_from prev w [] = False"
| "has_word_from prev w (c # s) =
     ((\<not> prev \<and> prefix w (c # s) \<and>
       (case drop (length w) (c # s) of [] \<Rightarrow> True | d # _ \<Rightarrow> \<not> is_word_char d))
      \<or> has_word_from (is_word_char c) w s)"

definition has_word :: "string \<Rightarrow> string \<Rightarrow> bool" where
  "has_word s w = has_word_from False w s"

text \<open>\<open>/^0x[a-fA-F0-9]{n}$/.test(s)\<close>.\<close>

definition hex_string :: "nat \<Rightarrow> string \<Rightarrow> bool" where
  "hex_string n s \<longleftrightarrow> take 2 s = ''0x'' \<and> length s = n + 2 \<and> list_all is_hex (drop 2 s)"

subsection \<open>Decimal digits\<close>

definition digit_char :: "int \<Rightarrow> char" where
  "digit_char d = char_of (nat (48 + d))"

definition digit_val :: "char \<Rightarrow> int option" where
  "digit_val c = (if is_digit c then Some (int (ccode c) - 48) else None)"

lemma ccode_digit_char [simp]: "0 \<le> d \<Longrightarrow> d < 10 \<Longrightarrow> ccode (digit_char d) = nat (48 + d)"
  by (simp add: digit_char_def)

lemma digit_val_digit_char [simp]: "0 \<le> d \<Longrightarrow> d < 10 \<Longrightarrow> digit_val (digit_char d) = Some d"
  by (auto simp: digit_val_def is_digit_def)

text \<open>A number printed with exactly \<open>w\<close> digits, as \<open>String(n).padStart(w, "0")\<close> prints a
  number below 10 to the \<open>w\<close>.\<close>

fun digits_w :: "nat \<Rightarrow> int \<Rightarrow> string" where
  "digits_w 0 n = []"
| "digits_w (Suc w) n = digits_w w (n div 10) @ [digit_char (n mod 10)]"

fun read_digits :: "nat \<Rightarrow> int \<Rightarrow> string \<Rightarrow> (int \<times> string) option" where
  "read_digits 0 acc s = Some (acc, s)"
| "read_digits (Suc w) acc [] = None"
| "read_digits (Suc w) acc (c # s) =
     (case digit_val c of None \<Rightarrow> None | Some d \<Rightarrow> read_digits w (10 * acc + d) s)"

lemma length_digits_w [simp]: "length (digits_w w n) = w"
  by (induction w arbitrary: n) auto

lemma read_digits_append:
  "read_digits (v + w) acc s =
     (case read_digits v acc s of None \<Rightarrow> None | Some (a, s') \<Rightarrow> read_digits w a s')"
  by (induction v acc s rule: read_digits.induct) (auto split: option.splits)

lemma read_digits_w:
  assumes "0 \<le> n" "n < 10 ^ w"
  shows "read_digits w acc (digits_w w n @ s) = Some (acc * 10 ^ w + n, s)"
  using assms
proof (induction w arbitrary: n acc s)
  case (Suc w)
  have bounds: "0 \<le> n div 10" "n div 10 < 10 ^ w" using Suc.prems by auto
  have "read_digits (w + 1) acc (digits_w w (n div 10) @ digit_char (n mod 10) # s) =
      Some (acc * 10 ^ Suc w + n, s)"
    by (simp add: read_digits_append Suc.IH[OF bounds] del: Suc_eq_plus1 add_Suc_right)
  then show ?case by simp
qed simp

text \<open>\<open>String(n)\<close> of an integer.\<close>

fun nat_string :: "nat \<Rightarrow> string" where
  "nat_string n = (if n < 10 then [digit_char (int n)] else nat_string (n div 10) @ [digit_char (int (n mod 10))])"

declare nat_string.simps [simp del]

definition int_string :: "int \<Rightarrow> string" where
  "int_string n = (if n < 0 then CHR ''-'' # nat_string (nat (- n)) else nat_string (nat n))"

fun digits_val :: "int \<Rightarrow> string \<Rightarrow> int" where
  "digits_val acc [] = acc"
| "digits_val acc (c # s) = digits_val (10 * acc + or_else (digit_val c) 0) s"

text \<open>\<open>Number.parseInt(s, 10)\<close>: leading white space, a sign, then the longest run of digits;
  None stands for NaN.\<close>

definition parse_int :: "string \<Rightarrow> int option" where
  "parse_int s =
     (let t = trim_start s;
          neg = (case t of [] \<Rightarrow> False | c # _ \<Rightarrow> c = CHR ''-'');
          u = (case t of [] \<Rightarrow> [] | c # r \<Rightarrow> if c = CHR ''-'' \<or> c = CHR ''+'' then r else t);
          ds = takeWhile is_digit u
      in if ds = [] then None else Some (if neg then - digits_val 0 ds else digits_val 0 ds))"

lemma digits_val_append: "digits_val acc (xs @ ys) = digits_val (digits_val acc xs) ys"
  by (induction xs arbitrary: acc) auto

lemma is_digit_other:
  "is_digit c \<Longrightarrow> c \<noteq> CHR '':'' \<and> c \<noteq> CHR ''-'' \<and> \<not> is_space c \<and> c \<noteq> CHR ''+'' \<and> c \<noteq> CHR ''.''"
  by (auto simp: is_digit_def ccode_def is_space_def)

lemma digit_char_facts [simp]:
  assumes "0 \<le> d" "d < 10"
  shows "is_digit (digit_char d)" "digit_char d \<noteq> CHR '':''"
    "digit_char d \<noteq> CHR ''-''" "\<not> is_space (digit_char d)" "digit_char d \<noteq> CHR ''+''" "digit_char d \<noteq> CHR ''.''"
proof -
  show "is_digit (digit_char d)" using assms by (auto simp: is_digit_def)
  from is_digit_other[OF this] show "digit_char d \<noteq> CHR '':''"
    "digit_char d \<noteq> CHR ''-''" "\<not> is_space (digit_char d)" "digit_char d \<noteq> CHR ''+''" "digit_char d \<noteq> CHR ''.''"
    by simp_all
qed

lemma nat_string_digits: "list_all (\<lambda>c. is_digit c \<and> c \<noteq> CHR '':'' \<and> c \<noteq> CHR ''-'' \<and> \<not> is_space c \<and> c \<noteq> CHR ''+'' \<and>
    c \<noteq> CHR ''.'') (nat_string n)"
  and nat_string_val: "digits_val 0 (nat_string n) = int n" and nat_string_nonempty: "nat_string n \<noteq> []"
proof (induction n rule: nat_string.induct)
  case (1 n)
  {
    case 1
    then show ?case using "1.IH"(1) by (subst nat_string.simps) (auto simp: digit_char_facts)
  next
    case 2
    then show ?case using "1.IH"(2) by (subst nat_string.simps) (auto simp: digit_char_facts digits_val_append zdiv_int zmod_int)
  next
    case 3
    then show ?case by (subst nat_string.simps) auto
  }
qed

lemma parse_int_string [simp]: "parse_int (int_string n) = Some n"
proof -
  have all: "takeWhile is_digit (nat_string k) = nat_string k" for k
    using nat_string_digits[of k] by (simp add: takeWhile_eq_all_conv list_all_iff)
  obtain c cs where cs: "nat_string (nat n) = c # cs" using nat_string_nonempty by (metis neq_Nil_conv)
  then have "\<not> is_space c" "c \<noteq> CHR ''-''" "c \<noteq> CHR ''+''" using nat_string_digits[of "nat n"] by simp_all
  moreover have "\<not> is_space CHR ''-''" by code_simp
  ultimately show ?thesis
    using all[of "nat n"] all[of "nat (- n)"] cs nat_string_nonempty nat_string_val[of "nat n"] nat_string_val[of "nat (- n)"]
    by (cases "n < 0") (auto simp: parse_int_def int_string_def Let_def trim_start_def simp del: takeWhile_eq_all_conv)
qed

lemma int_string_inject [simp]: "int_string a = int_string b \<longleftrightarrow> a = b"
  by (metis parse_int_string option.inject)

lemma int_string_no_colon: "CHR '':'' \<notin> set (int_string n)"
  using nat_string_digits[of "nat n"] nat_string_digits[of "nat (- n)"]
  by (auto simp: int_string_def list_all_iff)

subsection \<open>Comparing\<close>

text \<open>Code unit order, which is also the order of \<open>uuid\<close> and of ISO timestamps in the database.\<close>

fun text_compare :: "string \<Rightarrow> string \<Rightarrow> int" where
  "text_compare [] [] = 0"
| "text_compare [] (b # bs) = - 1"
| "text_compare (a # as) [] = 1"
| "text_compare (a # as) (b # bs) =
     (if ccode a < ccode b then - 1 else if ccode b < ccode a then 1 else text_compare as bs)"

lemma text_compare_0 [simp]: "text_compare a b = 0 \<longleftrightarrow> a = b"
proof (induction a b rule: text_compare.induct)
  case (4 a as b bs)
  have "a = b" if "\<not> ccode a < ccode b" "\<not> ccode b < ccode a"
    using that ccode_inject[of a b] by simp
  with 4 show ?case by auto
qed simp_all

lemma text_compare_swap: "text_compare b a = - text_compare a b"
  by (induction a b rule: text_compare.induct) auto

lemma text_compare_trans: "text_compare a b < 0 \<Longrightarrow> text_compare b c < 0 \<Longrightarrow> text_compare a c < 0"
proof (induction a b arbitrary: c rule: text_compare.induct)
  case (4 a as b bs)
  from "4.prems"(2) obtain d ds where c: "c = d # ds" by (cases c) simp_all
  consider "ccode a < ccode d" | "ccode a = ccode b" "ccode b = ccode d" "text_compare as bs < 0"
      "text_compare bs ds < 0"
    using "4.prems" unfolding c by (simp split: if_split_asm)
  then show ?case
  proof cases
    case 2
    with "4.IH"[of ds] show ?thesis by (simp add: c)
  qed (simp add: c)
next
  case (2 b bs)
  then show ?case by (cases c) auto
qed auto

lemma text_compare_total: "strict_total_on (\<lambda>a b. text_compare a b < 0) A"
proof -
  have irr: "\<not> text_compare a a < 0" for a by (metis less_irrefl text_compare_0)
  have tot: "a \<noteq> b \<Longrightarrow> text_compare a b < 0 \<or> text_compare b a < 0" for a b
    using text_compare_swap[of b a] text_compare_0[of a b] by linarith
  from irr tot text_compare_trans show ?thesis unfolding strict_total_on_def by blast
qed

end
