(* ===== verification/Js_Number.thy ===== *)
theory Js_Number imports Js_String begin

section \<open>JavaScript numbers\<close>

text \<open>
  A finite IEEE-754 double is a rational number. The theory models the arithmetic the
  program does on confidences, voltages and votes: every operation computes the exact
  rational result and rounds it to 53 significant bits, ties to even (\<open>fl\<close>), as ECMAScript
  requires of addition, multiplication and division; a decimal literal such as \<open>0.85\<close> is
  the double nearest to it. Comparisons are exact. \<open>Math.round\<close> rounds to the nearest
  integer, ties upwards. Overflow to infinity and subnormal numbers are outside the model:
  the program's numbers are confidences in [0, 1], their multiples by 10000, voltages, and
  times below 2 to the 53. NaN only arises from unparsable dates and is a \<open>None\<close> of
  \<open>Js_Date\<close>.
  \<open>number_string\<close> prints a number the way \<open>String\<close> and \<open>JSON.stringify\<close> do.
  The lemmas show that rounding is monotone and that it fixes the constants of the program,
  so the bounds of the detection rules survive the rounding.
\<close>

subsection \<open>Rounding to 53 bits\<close>

definition round_even :: "rat \<Rightarrow> int" where
  "round_even t =
     (let f = \<lfloor>t\<rfloor>; d = t - of_int f
      in if d < 1/2 then f
         else if 1/2 < d then f + 1
         else if even f then f else f + 1)"

text \<open>The significand of a positive number is scaled into [1, 2), where the step between
  doubles is 2 to the power -52.\<close>

function fl_pos :: "rat \<Rightarrow> rat" where
  "fl_pos x =
     (if x \<le> 0 then 0
      else if 2 \<le> x then 2 * fl_pos (x / 2)
      else if x < 1 then fl_pos (2 * x) / 2
      else of_int (round_even (x * 4503599627370496)) / 4503599627370496)"
  by pat_completeness auto

lemma halving_decreases:
  fixes x :: rat
  assumes "2 \<le> x"
  shows "nat \<lfloor>x / 2\<rfloor> < nat \<lfloor>x\<rfloor>"
proof -
  have "of_int \<lfloor>x / 2\<rfloor> \<le> x / 2" by (rule of_int_floor_le)
  also have "\<dots> \<le> x - 1" using assms by simp
  finally have "\<lfloor>x / 2\<rfloor> \<le> \<lfloor>x - 1\<rfloor>" by (simp only: le_floor_iff)
  moreover have "1 \<le> \<lfloor>x\<rfloor>" using assms by (simp add: le_floor_iff)
  ultimately show ?thesis by simp
qed

definition fl_measure :: "rat \<Rightarrow> nat" where
  "fl_measure x = (if 2 \<le> x then nat \<lfloor>x\<rfloor> else if x < 1 then nat \<lfloor>1 / x\<rfloor> else 0)"

lemma fl_measure_halve: "2 \<le> x \<Longrightarrow> fl_measure (x / 2) < fl_measure x"
  using halving_decreases[of x] by (simp add: fl_measure_def)

lemma fl_measure_double:
  assumes "0 < x" "x < 1"
  shows "fl_measure (2 * x) < fl_measure x"
proof (cases "2 * x < 1")
  case True
  have "nat \<lfloor>1 / x / 2\<rfloor> < nat \<lfloor>1 / x\<rfloor>"
    using True assms by (intro halving_decreases) (simp add: le_divide_eq)
  with True assms show ?thesis by (simp add: fl_measure_def mult.commute)
next
  case False
  have "1 \<le> \<lfloor>1 / x\<rfloor>" using assms by (simp add: le_floor_iff le_divide_eq)
  with False assms show ?thesis by (simp add: fl_measure_def)
qed

termination fl_pos
  by (relation "measure fl_measure") (auto intro: fl_measure_halve fl_measure_double)

declare fl_pos.simps [simp del]

definition fl :: "rat \<Rightarrow> rat" where
  "fl x = (if x < 0 then - fl_pos (- x) else fl_pos x)"

definition fadd :: "rat \<Rightarrow> rat \<Rightarrow> rat" where "fadd x y = fl (x + y)"
definition fsub :: "rat \<Rightarrow> rat \<Rightarrow> rat" where "fsub x y = fl (x - y)"
definition fmul :: "rat \<Rightarrow> rat \<Rightarrow> rat" where "fmul x y = fl (x * y)"
definition fdiv :: "rat \<Rightarrow> rat \<Rightarrow> rat" where "fdiv x y = fl (x / y)"

text \<open>\<open>Math.round\<close>: the integer nearest to the number, the greater of two equally near.\<close>

definition math_round :: "rat \<Rightarrow> int" where
  "math_round x = \<lfloor>x + 1/2\<rfloor>"

subsection \<open>Monotonicity\<close>

lemma round_even_bounds: "\<lfloor>t\<rfloor> \<le> round_even t" "round_even t \<le> \<lfloor>t\<rfloor> + 1"
  by (auto simp: round_even_def Let_def)

lemma round_even_of_int [simp]: "round_even (of_int n) = n"
  by (simp add: round_even_def)

lemma round_even_mono:
  assumes "s \<le> t"
  shows "round_even s \<le> round_even t"
proof (cases "\<lfloor>s\<rfloor> = \<lfloor>t\<rfloor>")
  case True
  with assms show ?thesis by (auto simp: round_even_def Let_def)
next
  case False
  with floor_mono[OF assms] have "\<lfloor>s\<rfloor> + 1 \<le> \<lfloor>t\<rfloor>" by simp
  with round_even_bounds[of s] round_even_bounds[of t] show ?thesis by simp
qed

lemma fl_pos_unit:
  assumes "1 \<le> x" "x < 2"
  shows "fl_pos x = of_int (round_even (x * 4503599627370496)) / 4503599627370496"
  using assms by (subst fl_pos.simps) simp

lemma fl_pos_double:
  assumes "0 < x"
  shows "fl_pos (2 * x) = 2 * fl_pos x"
proof (cases "1 \<le> x")
  case True
  then show ?thesis by (subst fl_pos.simps) simp
next
  case False
  with assms show ?thesis by (subst (2) fl_pos.simps) simp
qed

lemma fl_pos_halve: "0 < x \<Longrightarrow> fl_pos (x / 2) = fl_pos x / 2"
  using fl_pos_double[of "x / 2"] by simp

lemma fl_pos_unit_bounds:
  assumes "1 \<le> x" "x < 2"
  shows "1 \<le> fl_pos x" "fl_pos x \<le> 2"
proof -
  let ?m = "x * 4503599627370496 :: rat"
  have "round_even (of_int 4503599627370496) \<le> round_even ?m"
    using assms by (intro round_even_mono) simp
  then have "4503599627370496 \<le> round_even ?m" by (simp only: round_even_of_int)
  then have "(4503599627370496::rat) \<le> of_int (round_even ?m)"
    using of_int_le_iff[where 'a = rat, of 4503599627370496 "round_even ?m"] by simp
  then show "1 \<le> fl_pos x" using assms by (simp add: fl_pos_unit)
  have "round_even ?m \<le> round_even (of_int 9007199254740992)"
    using assms by (intro round_even_mono) simp
  then have "round_even ?m \<le> 9007199254740992" by (simp only: round_even_of_int)
  then have "of_int (round_even ?m) \<le> (9007199254740992::rat)"
    using of_int_le_iff[where 'a = rat, of "round_even ?m" 9007199254740992] by simp
  then show "fl_pos x \<le> 2" using assms by (simp add: fl_pos_unit)
qed

lemma fl_pos_ge1: "1 \<le> x \<Longrightarrow> 1 \<le> fl_pos x"
proof (induction x rule: fl_pos.induct)
  case (1 x)
  show ?case
  proof (cases "2 \<le> x")
    case True
    with "1.IH"(1) have "1 \<le> fl_pos (x / 2)" by simp
    with True show ?thesis by (subst fl_pos.simps) simp
  next
    case False
    with "1.prems" show ?thesis by (simp add: fl_pos_unit_bounds)
  qed
qed

lemma fl_pos_mono:
  assumes "0 < x" "x \<le> y"
  shows "fl_pos x \<le> fl_pos y"
  using assms
proof (induction x arbitrary: y rule: fl_pos.induct)
  case (1 x)
  consider (big) "2 \<le> x" | (small) "x < 1" | (unit) "1 \<le> x" "x < 2" by linarith
  then show ?case
  proof cases
    case big
    with 1 have "fl_pos (x / 2) \<le> fl_pos (y / 2)" by simp
    with 1 show ?thesis by (simp add: fl_pos_halve)
  next
    case small
    with 1 have "fl_pos (2 * x) \<le> fl_pos (2 * y)" by simp
    with 1 show ?thesis by (simp add: fl_pos_double)
  next
    case unit
    show ?thesis
    proof (cases "y < 2")
      case True
      with unit "1.prems" show ?thesis
        by (simp add: fl_pos_unit divide_right_mono round_even_mono)
    next
      case False
      then have "1 \<le> fl_pos (y / 2)" by (simp add: fl_pos_ge1)
      with False have "2 \<le> fl_pos y" by (simp add: fl_pos_halve)
      with fl_pos_unit_bounds(2)[OF unit] show ?thesis by simp
    qed
  qed
qed

lemma fl_pos_nonneg: "0 \<le> fl_pos x"
proof (induction x rule: fl_pos.induct)
  case (1 x)
  then show ?case
    using fl_pos_unit_bounds(1)[of x] by (subst fl_pos.simps) (auto simp: fl_pos_unit)
qed

lemma fl_0 [simp]: "fl 0 = 0"
  by (simp add: fl_def fl_pos.simps)

lemma fl_pos_0 [simp]: "fl_pos 0 = 0"
  by (simp add: fl_pos.simps)

lemma fl_mono:
  assumes "x \<le> y"
  shows "fl x \<le> fl y"
proof -
  consider "0 < x" | "x \<le> 0" "0 \<le> y" | "y < 0" using assms by linarith
  then show ?thesis
  proof cases
    case 1 with assms show ?thesis by (simp add: fl_def fl_pos_mono)
  next
    case 2
    then show ?thesis
      using fl_pos_nonneg[of y] fl_pos_nonneg[of "- x"] by (auto simp: fl_def fl_pos.simps[of 0])
  next
    case 3 with assms show ?thesis by (simp add: fl_def fl_pos_mono)
  qed
qed

lemma fl_minus: "fl (- x) = - fl x"
  by (auto simp: fl_def not_less)

lemma fl_nonneg: "0 \<le> x \<Longrightarrow> 0 \<le> fl x"
  using fl_mono[of 0 x] by simp

lemma math_round_mono: "x \<le> y \<Longrightarrow> math_round x \<le> math_round y"
  unfolding math_round_def by (intro floor_mono) simp

lemma math_round_of_int [simp]: "math_round (of_int n) = n"
proof -
  have "\<lfloor>of_int n + 1/2 :: rat\<rfloor> = n" by (simp add: floor_unique)
  then show ?thesis by (simp add: math_round_def)
qed

lemma math_round_nonneg: "0 \<le> x \<Longrightarrow> 0 \<le> math_round x"
  using math_round_mono[of 0 x] math_round_of_int[of 0] by simp

subsection \<open>Doubles are fixed by rounding\<close>

definition is_double :: "rat \<Rightarrow> bool" where
  "is_double x \<longleftrightarrow> (\<exists>m e. \<bar>m\<bar> \<le> 9007199254740992 \<and> x = of_int m * 2 powi e)"

lemma is_double_of_int: "\<bar>n\<bar> \<le> 9007199254740992 \<Longrightarrow> is_double (of_int n)"
  unfolding is_double_def by (rule exI[of _ n], rule exI[of _ 0]) simp

lemma is_double_scale:
  assumes "is_double x"
  shows "is_double (x / 2)" "is_double (2 * x)"
proof -
  obtain m e where m: "\<bar>m\<bar> \<le> 9007199254740992" "x = of_int m * 2 powi e"
    using assms by (auto simp: is_double_def)
  have "x / 2 = of_int m * 2 powi (e - 1)" "2 * x = of_int m * 2 powi (e + 1)"
    using m by (simp_all add: power_int_diff power_int_add)
  with m(1) show "is_double (x / 2)" "is_double (2 * x)" unfolding is_double_def by blast+
qed

lemma is_double_unit_scaled:
  assumes "is_double x" "1 \<le> x" "x < 2"
  shows "\<exists>n. x * 4503599627370496 = of_int n"
proof -
  obtain m e where m: "\<bar>m\<bar> \<le> 9007199254740992" "x = of_int m * 2 powi e"
    using assms by (auto simp: is_double_def)
  have split52: "(2::rat) powi (e + 52) = 2 powi e * 2 powi 52"
    by (rule power_int_add) simp
  show ?thesis
  proof (cases "e \<ge> -52")
    case True
    have "x * 4503599627370496 = of_int m * (2 powi e * 2 powi 52)"
      using m by simp
    also have "\<dots> = of_int m * 2 powi (e + 52)"
      by (simp only: split52)
    also have "\<dots> = of_int (m * 2 ^ nat (e + 52))" using True by (simp add: power_int_def)
    finally show ?thesis by blast
  next
    case False
    then have "(2::rat) powi e \<le> 2 powi (-53)" by (intro power_int_increasing) auto
    moreover have "of_int m \<le> (9007199254740992::rat)"
      using m(1) of_int_le_iff[where 'a = rat, of m 9007199254740992] by simp
    ultimately have "x \<le> 9007199254740992 * 2 powi (-53)"
      unfolding m(2) by (intro mult_mono) auto
    then have "x = 1" using assms(2) by (simp add: power_int_minus)
    then have "x * 4503599627370496 = of_int 4503599627370496" by simp
    then show ?thesis by blast
  qed
qed

lemma fl_pos_double_fix: "0 \<le> x \<Longrightarrow> is_double x \<Longrightarrow> fl_pos x = x"
proof (induction x rule: fl_pos.induct)
  case (1 x)
  consider "x = 0" | (big) "2 \<le> x" | (small) "0 < x" "x < 1" | (unit) "1 \<le> x" "x < 2"
    using "1.prems" by linarith
  then show ?case
  proof cases
    case 1 then show ?thesis by (simp add: fl_pos.simps)
  next
    case big
    with 1 is_double_scale have "fl_pos (x / 2) = x / 2" by simp
    with big show ?thesis by (subst fl_pos.simps) simp
  next
    case small
    with 1 is_double_scale have "fl_pos (2 * x) = 2 * x" by simp
    with small show ?thesis by (subst fl_pos.simps) simp
  next
    case unit
    with "1.prems" obtain n where "x * 4503599627370496 = of_int n"
      using is_double_unit_scaled by blast
    with unit show ?thesis by (simp add: fl_pos_unit field_simps)
  qed
qed

lemma is_double_minus: "is_double (- x) \<longleftrightarrow> is_double x"
proof -
  have "is_double (- x)" if "is_double x" for x
  proof -
    obtain m e where "\<bar>m\<bar> \<le> 9007199254740992" "x = of_int m * 2 powi e"
      using \<open>is_double x\<close> by (auto simp: is_double_def)
    then have "\<bar>- m\<bar> \<le> 9007199254740992 \<and> - x = of_int (- m) * 2 powi e" by simp
    then show ?thesis unfolding is_double_def by blast
  qed
  from this[of x] this[of "- x"] show ?thesis by auto
qed

lemma fl_fix:
  assumes "is_double x"
  shows "fl x = x"
proof (cases "x < 0")
  case True
  have "fl_pos (- x) = - x"
    using True assms is_double_minus[of x] by (intro fl_pos_double_fix) auto
  with True show ?thesis by (simp add: fl_def)
next
  case False
  with assms show ?thesis by (simp add: fl_def fl_pos_double_fix)
qed

lemma fl_of_int: "\<bar>n\<bar> \<le> 9007199254740992 \<Longrightarrow> fl (of_int n) = of_int n"
  by (intro fl_fix is_double_of_int)

lemma fl_numeral [simp]:
  assumes "(numeral k :: int) \<le> 9007199254740992"
  shows "fl (numeral k) = numeral k"
  using fl_of_int[of "numeral k"] assms by simp

lemma fl_1 [simp]: "fl 1 = 1"
  using fl_of_int[of 1] by simp

lemma floor_rat_numeral: "\<lfloor>(numeral a :: rat) / numeral b\<rfloor> = numeral a div numeral b"
  by (metis floor_divide_of_int_eq of_int_numeral)

lemma floor_rat_1_numeral: "\<lfloor>(1 :: rat) / numeral b\<rfloor> = 1 div numeral b"
  by (metis floor_divide_of_int_eq of_int_numeral of_int_1)

text \<open>What evaluates the arithmetic on closed terms.\<close>

lemmas fl_eval = fl_def fl_pos.simps round_even_def Let_def floor_rat_numeral
  floor_rat_1_numeral math_round_def fadd_def fsub_def fmul_def fdiv_def

subsection \<open>Printing numbers\<close>

text \<open>\<open>String(x)\<close> and \<open>JSON.stringify(x)\<close> print the shortest digit string that reads back as
  the same double. For x with 10^(n-1) <= x < 10^n the k digits tried are the integer nearest
  to x * 10^(k-n); 17 digits always suffice.\<close>

definition pow10 :: "int \<Rightarrow> rat" where
  "pow10 e = (if 0 \<le> e then 10 ^ nat e else 1 / 10 ^ nat (- e))"

function dec_exponent :: "rat \<Rightarrow> int" where
  "dec_exponent x =
     (if x \<le> 0 then 0
      else if 1 \<le> x then dec_exponent (x / 10) + 1
      else if x < 1/10 then dec_exponent (x * 10) - 1
      else 0)"
  by pat_completeness auto

definition dec_measure :: "rat \<Rightarrow> nat" where
  "dec_measure x =
     (if 1 \<le> x then nat \<lfloor>x\<rfloor> else if x < 1/10 then nat \<lfloor>1 / x\<rfloor> else 0)"

lemma tenth_decreases:
  fixes x :: rat
  assumes "1 \<le> x"
  shows "nat \<lfloor>x / 10\<rfloor> < nat \<lfloor>x\<rfloor>"
proof (cases "x < 2")
  case True
  then have "\<lfloor>x / 10\<rfloor> < 1" by (simp add: floor_less_iff)
  moreover have "1 \<le> \<lfloor>x\<rfloor>" using assms by (simp add: le_floor_iff)
  ultimately show ?thesis by simp
next
  case False
  have "nat \<lfloor>x / 10\<rfloor> \<le> nat \<lfloor>x / 2\<rfloor>" using assms by (intro nat_mono floor_mono) simp
  also have "\<dots> < nat \<lfloor>x\<rfloor>" using halving_decreases[of x] False by linarith
  finally show ?thesis .
qed

lemma dec_measure_tenth:
  assumes "1 \<le> x" shows "dec_measure (x / 10) < dec_measure x"
proof -
  have "0 < nat \<lfloor>x\<rfloor>" using assms by (simp add: le_floor_iff)
  with tenth_decreases[OF assms] assms show ?thesis by (auto simp: dec_measure_def)
qed

lemma dec_measure_times:
  assumes "0 < x" "x < 1/10" shows "dec_measure (x * 10) < dec_measure x"
proof -
  have "1 \<le> 1 / x" using assms by (simp add: le_divide_eq)
  from tenth_decreases[OF this] have "nat \<lfloor>1 / (x * 10)\<rfloor> < nat \<lfloor>1 / x\<rfloor>" by (simp add: field_simps)
  with assms show ?thesis by (auto simp: dec_measure_def)
qed

termination dec_exponent
  by (relation "measure dec_measure") (auto intro: dec_measure_tenth dec_measure_times)

declare dec_exponent.simps [simp del]

definition try_digits :: "rat \<Rightarrow> int \<Rightarrow> nat \<Rightarrow> int" where
  "try_digits x n k = round_even (x * pow10 (int k - n))"

fun shortest_digits :: "nat \<Rightarrow> rat \<Rightarrow> int \<Rightarrow> nat \<Rightarrow> nat \<times> nat" where
  "shortest_digits 0 x n k = (nat (try_digits x n k), k)"
| "shortest_digits (Suc fuel) x n k =
     (if fl (of_int (try_digits x n k) * pow10 (n - int k)) = x
      then (nat (try_digits x n k), k)
      else shortest_digits fuel x n (Suc k))"

text \<open>The digit string and the exponent; trailing zeros never occur in a shortest string.\<close>

definition positive_string :: "rat \<Rightarrow> string" where
  "positive_string x =
     (let n = dec_exponent x; (d, k) = shortest_digits 16 x n 1; s = nat_string d
      in if int k \<le> n \<and> n \<le> 21 then s @ replicate (nat n - k) CHR ''0''
         else if 0 < n \<and> n \<le> 21 then take (nat n) s @ ''.'' @ drop (nat n) s
         else if - 6 < n \<and> n \<le> 0 then ''0.'' @ replicate (nat (- n)) CHR ''0'' @ s
         else (case s of [] \<Rightarrow> [] | c # cs \<Rightarrow> if cs = [] then [c] else c # CHR ''.'' # cs)
           @ ''e'' @ (if 0 < n then ''+'' else []) @ int_string (n - 1))"

definition number_string :: "rat \<Rightarrow> string" where
  "number_string x =
     (if x = 0 then ''0'' else if x < 0 then CHR ''-'' # positive_string (- x)
      else positive_string x)"

subsection \<open>Strings as numbers\<close>

text \<open>\<open>Number(s)\<close>: white space around the literal is dropped, the empty string is 0, and otherwise the
  whole string is a decimal, hexadecimal, octal or binary literal. \<open>None\<close> stands for NaN and for
  the infinities, which the program rejects alike.\<close>

fun radix_val :: "int \<Rightarrow> int \<Rightarrow> string \<Rightarrow> int option" where
  "radix_val b acc [] = Some acc"
| "radix_val b acc (c # s) =
     (let d = (if is_digit c then int (ccode c) - 48
          else if is_hex (lower_char c) then int (ccode (lower_char c)) - 87 else b)
      in if d < b then radix_val b (acc * b + d) s else None)"

definition radix_literal :: "int \<Rightarrow> string \<Rightarrow> rat option" where
  "radix_literal b s = (if s = [] then None else map_option (\<lambda>n. fl (of_int n)) (radix_val b 0 s))"

definition exponent_part :: "string \<Rightarrow> int option" where
  "exponent_part s =
     (case s of
        [] \<Rightarrow> Some 0
      | c # r \<Rightarrow>
          if lower_char c \<noteq> CHR ''e'' then None
          else let neg = (take 1 r = ''-''); ds = (if take 1 r = ''-'' \<or> take 1 r = ''+'' then drop 1 r else r)
            in if ds = [] \<or> \<not> list_all is_digit ds then None
              else Some (if neg then - digits_val 0 ds else digits_val 0 ds))"

definition unsigned_decimal :: "string \<Rightarrow> rat option" where
  "unsigned_decimal s =
     (let whole = takeWhile is_digit s; r = dropWhile is_digit s;
          frac = (if take 1 r = ''.'' then takeWhile is_digit (drop 1 r) else []);
          r = (if take 1 r = ''.'' then dropWhile is_digit (drop 1 r) else r)
      in if whole = [] \<and> frac = [] then None
         else case exponent_part r of
           None \<Rightarrow> None
         | Some e \<Rightarrow>
             let v = fl (of_int (digits_val 0 (whole @ frac)) * pow10 (e - int (length frac))) in
             if v < 2 ^ 1024 then Some v else None)"

definition number_of_string :: "string \<Rightarrow> rat option" where
  "number_of_string str =
     (let s = trim str; p = map lower_char (take 2 s) in
      if s = [] then Some 0
      else if p = ''0x'' then radix_literal 16 (drop 2 s)
      else if p = ''0o'' then radix_literal 8 (drop 2 s)
      else if p = ''0b'' then radix_literal 2 (drop 2 s)
      else if take 1 s = ''-'' then map_option uminus (unsigned_decimal (drop 1 s))
      else if take 1 s = ''+'' then unsigned_decimal (drop 1 s)
      else unsigned_decimal s)"

text \<open>\<open>Number.isInteger(Number(s))\<close> with the integer.\<close>

definition integer_of_string :: "string \<Rightarrow> int option" where
  "integer_of_string s = (case number_of_string s of
     Some v \<Rightarrow> if of_int \<lfloor>v\<rfloor> = v then Some \<lfloor>v\<rfloor> else None
   | None \<Rightarrow> None)"

end
