(* ===== verification/Js_Date.thy ===== *)
theory Js_Date imports Js_String begin

section \<open>JavaScript dates\<close>

text \<open>
  A time value is an integer number of milliseconds since 1970. \<open>to_iso\<close> is
  \<open>Date.prototype.toISOString\<close> and \<open>date_parse\<close> is \<open>Date.parse\<close> on the ISO strings the
  program exchanges, \<open>YYYY-MM-DDTHH:MM:SS[.fff]\<close> followed by \<open>Z\<close> or an offset; \<open>None\<close> is
  NaN. Strings with no offset, which JavaScript reads in local time, and the legacy formats
  are outside the model: request bodies are validated to carry an offset and every string
  the program writes ends in \<open>Z\<close>. The calendar follows the functions DayFromYear,
  YearFromTime and MonthFromTime of ECMAScript; \<open>date_parse_to_iso\<close> is the round trip.
\<close>

subsection \<open>The calendar\<close>

definition day_from_year :: "int \<Rightarrow> int" where
  "day_from_year y = 365 * (y - 1970) + (y - 1969) div 4 - (y - 1901) div 100 + (y - 1601) div 400"

definition is_leap :: "int \<Rightarrow> bool" where
  "is_leap y \<longleftrightarrow> y mod 4 = 0 \<and> (y mod 100 \<noteq> 0 \<or> y mod 400 = 0)"


lemma div_step:
  fixes a k :: int
  assumes "0 < k"
  shows "(a + 1) div k = a div k + (if (a + 1) mod k = 0 then 1 else 0)"
proof -
  define q r where "q = (a + 1) div k" and "r = (a + 1) mod k"
  have qr: "a + 1 = k * q + r" "0 \<le> r" "r < k" using assms by (auto simp: q_def r_def)
  show ?thesis
  proof (cases "r = 0")
    case True
    with qr have "a div k = q - 1"
      by (intro int_div_pos_eq[of _ _ _ "k - 1"]) (auto simp: algebra_simps)
    with True show ?thesis by (simp add: q_def r_def)
  next
    case False
    with qr have "a div k = q" by (intro int_div_pos_eq[of _ _ _ "r - 1"]) auto
    with False show ?thesis by (simp add: q_def r_def)
  qed
qed

lemma mod_shift:
  fixes y k c :: int
  shows "(y - c * k) mod k = y mod k"
  using mod_mult_self1[of "y - c * k" c k] by simp

lemma leap_count:
  "(r \<Longrightarrow> q) \<Longrightarrow> (q \<Longrightarrow> p) \<Longrightarrow>
   365 + (if p then 1 else 0) - (if q then 1 else 0) + (if r then 1 else 0)
     = (if p \<and> (\<not> q \<or> r) then 366 else 365 :: int)"
  by (cases p; cases q; cases r) simp_all

lemma year_length: "day_from_year (y + 1) - day_from_year y = (if is_leap y then 366 else 365)"
proof -
  have succ: "y + 1 - 1969 = y - 1969 + 1" "y + 1 - 1901 = y - 1901 + 1" "y + 1 - 1601 = y - 1601 + 1"
    by simp_all
  have shifts: "y - 1969 + 1 = y - 492 * 4" "y - 1901 + 1 = y - 19 * 100" "y - 1601 + 1 = y - 4 * 400"
    by simp_all
  have mods: "(y - 1969 + 1) mod 4 = y mod 4" "(y - 1901 + 1) mod 100 = y mod 100"
    "(y - 1601 + 1) mod 400 = y mod 400"
    unfolding shifts by (rule mod_shift)+
  have regroup: "365 * (y + 1 - 1970) + (a + p) - (b + q) + (c + r)
      - (365 * (y - 1970) + a - b + c) = 365 + p - q + r" for a b c p q r :: int
    by simp
  note steps = div_step[of 4 "y - 1969", OF zero_less_numeral]
    div_step[of 100 "y - 1901", OF zero_less_numeral] div_step[of 400 "y - 1601", OF zero_less_numeral]
  have "day_from_year (y + 1) - day_from_year y =
      365 + (if y mod 4 = 0 then 1 else 0) - (if y mod 100 = 0 then 1 else 0)
      + (if y mod 400 = 0 then 1 else 0)"
    unfolding day_from_year_def succ steps mods by (rule regroup)
  also have "\<dots> = (if is_leap y then 366 else 365)"
    unfolding is_leap_def
  proof (rule leap_count)
    show "y mod 100 = 0" if "y mod 400 = 0" using mod_mod_cancel[of 100 400 y] that by simp
    show "y mod 4 = 0" if "y mod 100 = 0" using mod_mod_cancel[of 4 100 y] that by simp
  qed
  finally show ?thesis .
qed

text \<open>The year of a day is the greatest one that starts no later; the search starts from a
  year that does.\<close>

function year_up :: "int \<Rightarrow> int \<Rightarrow> int" where
  "year_up d y = (if day_from_year (y + 1) \<le> d then year_up d (y + 1) else y)"
  by pat_completeness auto
termination
proof (relation "measure (\<lambda>(d, y). nat (d - day_from_year y))", goal_cases)
  case (2 d y)
  with year_length[of y] show ?case by (auto split: if_splits)
qed simp

declare year_up.simps [simp del]

definition year_from_day :: "int \<Rightarrow> int" where
  "year_from_day d = year_up d (1970 + (if 0 \<le> d then d div 366 else d div 365))"

lemma year_up_bounds:
  "day_from_year y \<le> d \<Longrightarrow>
   day_from_year (year_up d y) \<le> d \<and> d < day_from_year (year_up d y + 1) \<and> y \<le> year_up d y"
proof (induction d y rule: year_up.induct)
  case (1 d y)
  then show ?case by (subst (1 2 3) year_up.simps) (auto split: if_splits)
qed

lemma day_from_year_start: "day_from_year (1970 + (if 0 \<le> d then d div 366 else d div 365)) \<le> d"
proof -
  have bounds: "k * (a div k) \<le> a" "a < k * (a div k) + k" if "0 < k" for a k :: int
  proof -
    have "k * (a div k) + a mod k = a" "0 \<le> a mod k" "a mod k < k" using that by simp_all
    then show "k * (a div k) \<le> a" "a < k * (a div k) + k" by linarith+
  qed
  have shift: "day_from_year (1970 + k) =
      365 * k + (k + 1) div 4 - (k + 69) div 100 + (k + 369) div 400" for k
    by (simp add: day_from_year_def add.commute)
  have pos: "day_from_year (1970 + k) \<le> 366 * k" if "0 \<le> k" for k
  proof -
    have "(k + 1) div 4 \<le> k" "0 \<le> (k + 69) div 100"
      using that bounds[of 4 "k + 1", OF zero_less_numeral] by linarith+
    moreover from this have "(k + 369) div 400 \<le> (k + 69) div 100"
      using bounds[of 100 "k + 69", OF zero_less_numeral] bounds[of 400 "k + 369", OF zero_less_numeral]
      by linarith
    ultimately show ?thesis unfolding shift by linarith
  qed
  have neg: "day_from_year (1970 + k) \<le> 365 * k" if "k < 0" for k
  proof (cases "k \<le> -7")
    case True
    then show ?thesis
      using bounds[of 4 "k + 1", OF zero_less_numeral] bounds[of 100 "k + 69", OF zero_less_numeral]
        bounds[of 400 "k + 369", OF zero_less_numeral]
      unfolding shift by linarith
  next
    case False
    then have "(k + 1) div 4 \<le> 0" "0 \<le> (k + 69) div 100" "(k + 369) div 400 \<le> 0"
      using that by simp_all
    then show ?thesis unfolding shift by linarith
  qed
  show ?thesis
  proof (cases "0 \<le> d")
    case True
    then have "0 \<le> d div 366" by (simp add: pos_imp_zdiv_nonneg_iff)
    from pos[OF this] bounds(1)[of 366 d, OF zero_less_numeral] True show ?thesis by simp
  next
    case False
    then have "d div 365 < 0" by simp
    from neg[OF this] bounds(1)[of 365 d, OF zero_less_numeral] False show ?thesis by simp
  qed
qed

lemma year_from_day_bounds:
  "day_from_year (year_from_day d) \<le> d" "d < day_from_year (year_from_day d + 1)"
  using year_up_bounds[OF day_from_year_start] by (auto simp: year_from_day_def)

lemma day_from_year_mono:
  assumes "y \<le> z"
  shows "day_from_year y \<le> day_from_year z"
proof -
  have "day_from_year y \<le> day_from_year (y + int n)" for n
  proof (induction n)
    case (Suc n)
    with year_length[of "y + int n"] show ?case by (auto simp: algebra_simps split: if_splits)
  qed simp
  from this[of "nat (z - y)"] assms show ?thesis by simp
qed

text \<open>Days before a month, and the month of a day of the year.\<close>

definition days_before_month :: "bool \<Rightarrow> int \<Rightarrow> int" where
  "days_before_month leap m =
     (let l = (if leap then 1 else 0)
      in if m \<le> 1 then 0 else if m = 2 then 31 else if m = 3 then 59 + l
         else if m = 4 then 90 + l else if m = 5 then 120 + l else if m = 6 then 151 + l
         else if m = 7 then 181 + l else if m = 8 then 212 + l else if m = 9 then 243 + l
         else if m = 10 then 273 + l else if m = 11 then 304 + l else 334 + l)"

definition month_of_doy :: "bool \<Rightarrow> int \<Rightarrow> int" where
  "month_of_doy leap n =
     (let l = (if leap then 1 else 0)
      in if n < 31 then 1 else if n < 59 + l then 2 else if n < 90 + l then 3
         else if n < 120 + l then 4 else if n < 151 + l then 5 else if n < 181 + l then 6
         else if n < 212 + l then 7 else if n < 243 + l then 8 else if n < 273 + l then 9
         else if n < 304 + l then 10 else if n < 334 + l then 11 else 12)"

lemma month_of_doy_range: "1 \<le> month_of_doy leap n" "month_of_doy leap n \<le> 12"
  by (cases leap; simp add: month_of_doy_def)+

lemma month_of_doy_day:
  assumes "0 \<le> n" "n < (if leap then 366 else 365)"
  shows "0 \<le> n - days_before_month leap (month_of_doy leap n)"
    "n - days_before_month leap (month_of_doy leap n) < 31"
  using assms by (cases leap; simp add: month_of_doy_def; simp add: days_before_month_def split: if_splits)+

subsection \<open>Printing and parsing\<close>

definition ms_per_day :: int where "ms_per_day = 86400000"

definition days_from_civil :: "int \<Rightarrow> int \<Rightarrow> int \<Rightarrow> int" where
  "days_from_civil y m d = day_from_year y + days_before_month (is_leap y) m + (d - 1)"

definition iso_year :: "int \<Rightarrow> string" where
  "iso_year y = (if 0 \<le> y \<and> y \<le> 9999 then digits_w 4 y
                 else if y < 0 then CHR ''-'' # digits_w 6 (- y) else CHR ''+'' # digits_w 6 y)"

definition to_iso :: "int \<Rightarrow> string" where
  "to_iso t =
     (let d = t div ms_per_day; ms = t mod ms_per_day; y = year_from_day d;
          n = d - day_from_year y; m = month_of_doy (is_leap y) n
      in iso_year y @ ''-'' @ digits_w 2 m @ ''-'' @
         digits_w 2 (n - days_before_month (is_leap y) m + 1) @ ''T'' @
         digits_w 2 (ms div 3600000) @ '':'' @ digits_w 2 (ms div 60000 mod 60) @ '':'' @
         digits_w 2 (ms div 1000 mod 60) @ ''.'' @ digits_w 3 (ms mod 1000) @ ''Z'')"

definition expect :: "char \<Rightarrow> (int \<times> string) option \<Rightarrow> (int \<times> string) option" where
  "expect c r = (case r of Some (n, d # s) \<Rightarrow> (if d = c then Some (n, s) else None) | _ \<Rightarrow> None)"

text \<open>Fractions of a second: the first three digits count, missing ones are zero.\<close>

definition read_fraction :: "string \<Rightarrow> (int \<times> string) option" where
  "read_fraction s =
     (case s of
        [] \<Rightarrow> Some (0, s)
      | c # r \<Rightarrow>
          if c \<noteq> CHR ''.'' then Some (0, s)
          else let ds = takeWhile is_digit r
               in if ds = [] then None
                  else Some (digits_val 0 (take 3 (ds @ ''00'')), dropWhile is_digit r))"

definition read_offset :: "string \<Rightarrow> int option" where
  "read_offset s =
     (case s of
        [] \<Rightarrow> None
      | c # r \<Rightarrow>
          if c = CHR ''Z'' \<and> r = [] then Some 0
          else if c = CHR ''+'' \<or> c = CHR ''-'' then
            (case expect (CHR '':'') (read_digits 2 0 r) of
               None \<Rightarrow> None
             | Some (hh, r1) \<Rightarrow>
                 (case read_digits 2 0 r1 of
                    Some (mm, []) \<Rightarrow>
                      if hh \<le> 23 \<and> mm \<le> 59
                      then Some ((if c = CHR ''-'' then -1 else 1) * (hh * 60 + mm) * 60000)
                      else None
                  | _ \<Rightarrow> None))
          else None)"

definition time_ms :: "int \<Rightarrow> int \<Rightarrow> int \<Rightarrow> int \<Rightarrow> int option" where
  "time_ms hh mi ss ms =
     (if hh \<le> 23 \<and> mi \<le> 59 \<and> ss \<le> 59 \<or> hh = 24 \<and> mi = 0 \<and> ss = 0 \<and> ms = 0
      then Some (((hh * 60 + mi) * 60 + ss) * 1000 + ms) else None)"

definition date_parse :: "string \<Rightarrow> int option" where
  "date_parse s0 =
     Option.bind (expect (CHR ''-'') (read_digits 4 0 s0)) (\<lambda>(y, s1).
     Option.bind (expect (CHR ''-'') (read_digits 2 0 s1)) (\<lambda>(m, s2).
     Option.bind (expect (CHR ''T'') (read_digits 2 0 s2)) (\<lambda>(d, s3).
     Option.bind (expect (CHR '':'') (read_digits 2 0 s3)) (\<lambda>(hh, s4).
     Option.bind (expect (CHR '':'') (read_digits 2 0 s4)) (\<lambda>(mi, s5).
     Option.bind (read_digits 2 0 s5) (\<lambda>(ss, s6).
     Option.bind (read_fraction s6) (\<lambda>(ms, s7).
     Option.bind (read_offset s7) (\<lambda>off.
     Option.bind (time_ms hh mi ss ms) (\<lambda>tod.
     if 1 \<le> m \<and> m \<le> 12 \<and> 1 \<le> d \<and> d \<le> 31
     then Some (days_from_civil y m d * ms_per_day + tod - off) else None)))))))))"

subsection \<open>The round trip\<close>

lemma expect_digits:
  "0 \<le> n \<Longrightarrow> n < 10 ^ w \<Longrightarrow> expect c (read_digits w 0 (digits_w w n @ c # s)) = Some (n, s)"
  by (simp add: read_digits_w expect_def)

lemma is_digit_digit_char [simp]: "0 \<le> d \<Longrightarrow> d < 10 \<Longrightarrow> is_digit (digit_char d)"
  by (auto simp: is_digit_def)

lemma digits_w_digits: "\<forall>c \<in> set (digits_w w n). is_digit c"
  by (induction w arbitrary: n) auto

lemma digits_val_w: "0 \<le> n \<Longrightarrow> n < 10 ^ w \<Longrightarrow> digits_val 0 (digits_w w n) = n"
  by (induction w arbitrary: n) (auto simp: digits_val_append)

lemma read_fraction_w3:
  assumes "0 \<le> n" "n < 1000"
  shows "read_fraction (CHR ''.'' # digits_w 3 n @ ''Z'') = Some (n, ''Z'')"
proof -
  have z: "\<not> is_digit (CHR ''Z'')" by (simp add: is_digit_def ccode_def)
  have tw: "takeWhile is_digit (digits_w 3 n @ ''Z'') = digits_w 3 n"
    "dropWhile is_digit (digits_w 3 n @ ''Z'') = ''Z''"
    using digits_w_digits[of 3 n] z by (simp_all add: takeWhile_append dropWhile_append)
  have ne: "digits_w 3 n \<noteq> []" using length_digits_w[of 3 n] by force
  have "take 3 (digits_w 3 n @ ''00'') = digits_w 3 n" by simp
  with digits_val_w[of n 3] assms tw ne show ?thesis by (simp add: read_fraction_def)
qed

lemma year_from_day_range:
  assumes "0 \<le> d" "d < 2932897"
  shows "1970 \<le> year_from_day d" "year_from_day d \<le> 9999"
proof -
  have "day_from_year 10000 = 2932897" "day_from_year 1970 = 0" by (simp_all add: day_from_year_def)
  then show "1970 \<le> year_from_day d" "year_from_day d \<le> 9999"
    using assms year_from_day_bounds[of d] day_from_year_mono[of 10000 "year_from_day d"]
      day_from_year_mono[of "year_from_day d + 1" 1970] by (smt (verit))+
qed

lemma time_ms_split:
  assumes "0 \<le> ms" "ms < 86400000"
  shows "time_ms (ms div 3600000) (ms div 60000 mod 60) (ms div 1000 mod 60) (ms mod 1000) = Some ms"
proof -
  define a b c where "a = ms div 1000" and "b = a div 60" and "c = b div 60"
  have bc: "ms div 60000 = b" "ms div 3600000 = c"
    unfolding a_def b_def c_def by (simp_all add: div_mult2_eq[symmetric])
  have "1000 * a + ms mod 1000 = ms" "60 * b + a mod 60 = a" "60 * c + b mod 60 = b"
    unfolding a_def b_def c_def by (simp_all only: mult_div_mod_eq)
  moreover have "1000 * a' + x = m' \<Longrightarrow> 60 * b' + y = a' \<Longrightarrow> 60 * c' + z = b' \<Longrightarrow>
      ((c' * 60 + z) * 60 + y) * 1000 + x = m'" for a' b' c' m' x y z :: int by simp
  ultimately have sum: "((c * 60 + b mod 60) * 60 + a mod 60) * 1000 + ms mod 1000 = ms" by blast
  have le: "x mod 60 \<le> 59" for x :: int using pos_mod_bound[of 60 x] by linarith
  have "c \<le> 23" using assms bc(2) by linarith
  then have ok: "(c \<le> 23 \<and> b mod 60 \<le> 59 \<and> a mod 60 \<le> 59 \<or> x) = True" for x using le by blast
  show ?thesis unfolding bc a_def[symmetric] time_ms_def ok sum by simp
qed

lemma to_iso_parts:
  assumes "0 \<le> t" "t < 253402300800000"
  shows "\<exists>p. to_iso t = p @ CHR ''.'' # digits_w 3 (t mod 1000) @ ''Z'' \<and> length p = 19 \<and>
    (\<forall>r f. read_fraction r = Some (f, ''Z'') \<longrightarrow> 0 \<le> f \<longrightarrow> f < 1000 \<longrightarrow> date_parse (p @ r) = Some (t - t mod 1000 + f))"
proof -
  define d ms y n m where "d = t div ms_per_day" and "ms = t mod ms_per_day"
    and "y = year_from_day d" and "n = d - day_from_year y" and "m = month_of_doy (is_leap y) n"
  note defs = this
  have d: "0 \<le> d" "d < 2932897" using assms by (auto simp: d_def ms_per_day_def)
  have ms: "0 \<le> ms" "ms < 86400000" by (auto simp: ms_def ms_per_day_def)
  have y: "0 \<le> y" "y < 10 ^ 4" using year_from_day_range[OF d] by (auto simp: y_def)
  have n: "0 \<le> n" "n < (if is_leap y then 366 else 365)"
    using year_from_day_bounds[of d] year_length[of y] by (auto simp: n_def y_def)
  have m: "1 \<le> m" "m \<le> 12" using month_of_doy_range by (auto simp: m_def)
  have day: "0 \<le> n - days_before_month (is_leap y) m" "n - days_before_month (is_leap y) m < 31"
    using month_of_doy_day[OF n] by (auto simp: m_def)
  define dd hh mi ss where "dd = n - days_before_month (is_leap y) m + 1"
    and "hh = ms div 3600000" and "mi = ms div 60000 mod 60" and "ss = ms div 1000 mod 60"
  note fields = this
  define p where "p = digits_w 4 y @ CHR ''-'' # digits_w 2 m @ CHR ''-'' # digits_w 2 dd @ CHR ''T'' #
      digits_w 2 hh @ CHR '':'' # digits_w 2 mi @ CHR '':'' # digits_w 2 ss"
  have dd: "1 \<le> dd" "dd \<le> 31" using day by (auto simp: dd_def)
  have ranges: "0 \<le> hh" "hh \<le> 23" "0 \<le> mi" "mi < 60" "0 \<le> ss" "ss < 60"
    using ms by (auto simp: fields)
  have third: "ms mod 1000 = t mod 1000" unfolding ms_def ms_per_day_def by (intro mod_mod_cancel) simp
  have "to_iso t = p @ CHR ''.'' # digits_w 3 (t mod 1000) @ ''Z''"
    using y third unfolding to_iso_def Let_def defs[symmetric] fields[symmetric] p_def by (simp add: iso_year_def)
  moreover have "length p = 19" by (simp add: p_def eval_nat_numeral)
  moreover have "date_parse (p @ r) = Some (t - t mod 1000 + f)" if r: "read_fraction r = Some (f, ''Z'')" "0 \<le> f" "f < 1000" for r f
  proof -
    have two: "expect c (read_digits 2 0 (digits_w 2 k @ c # s)) = Some (k, s)"
      if "0 \<le> k" "k \<le> 60" for c k s using that by (intro expect_digits) auto
    have year: "expect c (read_digits 4 0 (digits_w 4 y @ c # s)) = Some (y, s)" for c s
      using y by (intro expect_digits) auto
    have sec: "read_digits 2 0 (digits_w 2 ss @ s) = Some (ss, s)" for s
      using read_digits_w[of ss 2 0 s] ranges by simp
    have offset: "read_offset ''Z'' = Some 0" by (simp add: read_offset_def)
    have tod: "time_ms hh mi ss f = Some (((hh * 60 + mi) * 60 + ss) * 1000 + f)" using ranges by (simp add: time_ms_def)
    have civil: "days_from_civil y m dd = d" by (simp add: days_from_civil_def n_def dd_def)
    have "date_parse (p @ r) = Some (days_from_civil y m dd * ms_per_day + (((hh * 60 + mi) * 60 + ss) * 1000 + f) - 0)"
      unfolding date_parse_def p_def append_assoc append_Cons
      using two[of m] two[of dd] two[of hh] two[of mi] m dd ranges
      by (simp only: year sec r(1) offset tod bind.bind_lunit prod.case if_True simp_thms)
    also have "((hh * 60 + mi) * 60 + ss) * 1000 = ms - ms mod 1000"
      using time_ms_split[OF ms] ranges unfolding fields[symmetric] by (simp add: time_ms_def)
    also have "days_from_civil y m dd * ms_per_day = t - ms" unfolding civil
      by (simp add: d_def ms_def minus_mod_eq_div_mult)
    finally show ?thesis using third by simp
  qed
  ultimately show ?thesis by blast
qed

theorem date_parse_to_iso:
  assumes "0 \<le> t" "t < 253402300800000"
  shows "date_parse (to_iso t) = Some t"
proof -
  have "read_fraction (CHR ''.'' # digits_w 3 (t mod 1000) @ ''Z'') = Some (t mod 1000, ''Z'')"
    by (rule read_fraction_w3) simp_all
  with to_iso_parts[OF assms] show ?thesis by fastforce
qed

text \<open>The firmware writes instants without milliseconds.\<close>

lemma date_parse_seconds:
  assumes "0 \<le> u" "u * 1000 < 253402300800000"
  shows "date_parse (take 19 (to_iso (u * 1000)) @ ''Z'') = Some (u * 1000)"
proof -
  obtain p where p: "to_iso (u * 1000) = p @ CHR ''.'' # digits_w 3 (u * 1000 mod 1000) @ ''Z''" "length p = 19"
    "\<forall>r f. read_fraction r = Some (f, ''Z'') \<longrightarrow> 0 \<le> f \<longrightarrow> f < 1000 \<longrightarrow> date_parse (p @ r) = Some (u * 1000 - u * 1000 mod 1000 + f)"
    using to_iso_parts[of "u * 1000"] assms by auto
  have "read_fraction ''Z'' = Some (0, ''Z'')" by (simp add: read_fraction_def)
  with p(3) have "date_parse (p @ ''Z'') = Some (u * 1000)" by fastforce
  then show ?thesis by (simp add: p(1,2))
qed

lemma to_iso_inject:
  assumes "0 \<le> s" "s < 253402300800000" "0 \<le> t" "t < 253402300800000" "to_iso s = to_iso t"
  shows "s = t"
proof -
  have "Some s = Some t"
    using assms(5) by (metis date_parse_to_iso[OF assms(1,2)] date_parse_to_iso[OF assms(3,4)])
  then show ?thesis by simp
qed

end
