(* ===== verification/Domain.thy ===== *)
theory Domain imports Js_Number Js_Date begin

section \<open>The domain types shared by the services\<close>

text \<open>
  The types of \<open>packages/shared-types/src/domain.ts\<close>. Every zod object is a record with the
  fields of the object (prefixed, because several objects have an \<open>id\<close>, a \<open>zoneId\<close> or a
  \<open>status\<close>), every zod enum a datatype, and the refinements a schema puts on the field
  values (lengths, ranges, regular expressions) the predicate \<open>valid_...\<close>. The formats that
  zod itself implements (\<open>uuid\<close>, \<open>datetime\<close>, \<open>url\<close>) are not code of the repository: they are
  the parameter \<open>zod_formats\<close>. An optional or nullable field is an option; numbers are
  doubles (\<open>rat\<close>), integer-valued ones \<open>int\<close>.
\<close>

subsection \<open>JSON values\<close>

datatype json = JNull | JBool bool | JNum rat | JStr string | JArr "json list"
  | JObj "(string \<times> json) list"

type_synonym json_object = "(string \<times> json) list"

text \<open>\<open>JSON.stringify\<close>: quotes, backslashes and control characters are escaped.\<close>

definition hex_digit :: "nat \<Rightarrow> char" where
  "hex_digit n = (if n < 10 then char_of (48 + n) else char_of (87 + n))"

definition json_escape_char :: "char \<Rightarrow> string" where
  "json_escape_char c =
     (if ccode c = 34 then [CHR 0x5C, CHR 0x22]
      else if ccode c = 92 then [CHR 0x5C, CHR 0x5C]
      else if ccode c = 8 then [CHR 0x5C, CHR ''b'']
      else if ccode c = 9 then [CHR 0x5C, CHR ''t'']
      else if ccode c = 10 then [CHR 0x5C, CHR ''n'']
      else if ccode c = 12 then [CHR 0x5C, CHR ''f'']
      else if ccode c = 13 then [CHR 0x5C, CHR ''r'']
      else if ccode c < 32 then [CHR 0x5C, CHR ''u'', CHR ''0'', CHR ''0'',
          hex_digit (ccode c div 16), hex_digit (ccode c mod 16)]
      else [c])"

definition json_quote :: "string \<Rightarrow> string" where
  "json_quote s = CHR 0x22 # concat (map json_escape_char s) @ [CHR 0x22]"

fun json_stringify :: "json \<Rightarrow> string" where
  "json_stringify JNull = ''null''"
| "json_stringify (JBool b) = (if b then ''true'' else ''false'')"
| "json_stringify (JNum x) = number_string x"
| "json_stringify (JStr s) = json_quote s"
| "json_stringify (JArr xs) = ''['' @ join_with '','' (map json_stringify xs) @ '']''"
| "json_stringify (JObj kvs) =
     ''{'' @ join_with '','' (map (\<lambda>(k, v). json_quote k @ '':'' @ json_stringify v) kvs) @ ''}''"

definition json_of_option :: "('a \<Rightarrow> json) \<Rightarrow> 'a option \<Rightarrow> json" where
  "json_of_option f x = (case x of None \<Rightarrow> JNull | Some v \<Rightarrow> f v)"

subsection \<open>Formats and regular expressions\<close>

record zod_formats =
  fmt_uuid :: "string \<Rightarrow> bool"
  fmt_datetime :: "string \<Rightarrow> bool"
  fmt_url :: "string \<Rightarrow> bool"

definition isoDateTimeSchema :: "zod_formats \<Rightarrow> string \<Rightarrow> bool" where
  "isoDateTimeSchema F s = fmt_datetime F s"

definition uuidSchema :: "zod_formats \<Rightarrow> string \<Rightarrow> bool" where
  "uuidSchema F s = fmt_uuid F s"

text \<open>The regular expressions \<open>^0x[a-fA-F0-9]{n}$\<close> are \<open>hex_string n\<close>.\<close>

definition walletAddressSchema :: "string \<Rightarrow> bool" where
  "walletAddressSchema s = hex_string 40 s"

definition bytes32Schema :: "string \<Rightarrow> bool" where
  "bytes32Schema s = hex_string 64 s"

definition txHashSchema :: "string \<Rightarrow> bool" where
  "txHashSchema s = hex_string 64 s"

definition opt_all :: "('a \<Rightarrow> bool) \<Rightarrow> 'a option \<Rightarrow> bool" where
  "opt_all P x = (case x of None \<Rightarrow> True | Some v \<Rightarrow> P v)"

lemma opt_all_simps [simp]: "opt_all P None" "opt_all P (Some v) = P v"
  by (simp_all add: opt_all_def)

definition opt_any :: "('a \<Rightarrow> bool) \<Rightarrow> 'a option \<Rightarrow> bool" where
  "opt_any P x = (case x of None \<Rightarrow> False | Some v \<Rightarrow> P v)"

lemma opt_any_simps [simp]: "opt_any P None = False" "opt_any P (Some v) = P v"
  by (simp_all add: opt_any_def)

subsection \<open>Enumerations\<close>

datatype user_role = Public | Reporter | Reviewer | Admin
datatype provider_type = SensorProvider | ReporterProvider
datatype evidence_status = GridUp | GridDown | Unknown
datatype candidate_status = Outage | Restored
datatype agent_decision_status = Approve | Escalate | Reject
datatype chain_commitment_status = Pending | Confirmed | Failed

fun role_string :: "user_role \<Rightarrow> string" where
  "role_string Public = ''public''"
| "role_string Reporter = ''reporter''"
| "role_string Reviewer = ''reviewer''"
| "role_string Admin = ''admin''"

definition parse_role :: "string \<Rightarrow> user_role option" where
  "parse_role s =
     (if s = ''public'' then Some Public else if s = ''reporter'' then Some Reporter
      else if s = ''reviewer'' then Some Reviewer else if s = ''admin'' then Some Admin
      else None)"

fun provider_type_string :: "provider_type \<Rightarrow> string" where
  "provider_type_string SensorProvider = ''sensor''"
| "provider_type_string ReporterProvider = ''reporter''"

fun evidence_status_string :: "evidence_status \<Rightarrow> string" where
  "evidence_status_string GridUp = ''grid_up''"
| "evidence_status_string GridDown = ''grid_down''"
| "evidence_status_string Unknown = ''unknown''"

fun candidate_status_string :: "candidate_status \<Rightarrow> string" where
  "candidate_status_string Outage = ''outage''"
| "candidate_status_string Restored = ''restored''"

fun decision_string :: "agent_decision_status \<Rightarrow> string" where
  "decision_string Approve = ''approve''"
| "decision_string Escalate = ''escalate''"
| "decision_string Reject = ''reject''"

fun commitment_status_string :: "chain_commitment_status \<Rightarrow> string" where
  "commitment_status_string Pending = ''pending''"
| "commitment_status_string Confirmed = ''confirmed''"
| "commitment_status_string Failed = ''failed''"

lemma parse_role_string [simp]: "parse_role (role_string r) = Some r"
  by (cases r) (simp_all add: parse_role_def)

lemma role_string_inject [simp]: "role_string r = role_string r' \<longleftrightarrow> r = r'"
  by (cases r; cases r') simp_all

subsection \<open>Objects\<close>

record user =
  us_id :: string
  us_role :: user_role
  us_phoneOrEmail :: string
  us_createdAt :: string

definition userSchema :: "zod_formats \<Rightarrow> user \<Rightarrow> bool" where
  "userSchema F u \<longleftrightarrow> uuidSchema F (us_id u) \<and> 3 \<le> length (us_phoneOrEmail u) \<and>
     isoDateTimeSchema F (us_createdAt u)"

record zone =
  zo_id :: string
  zo_zoneKey :: string
  zo_name :: string
  zo_discosFeederCode :: string
  zo_region :: string
  zo_lat :: rat
  zo_lng :: rat

definition zoneSchema :: "zod_formats \<Rightarrow> zone \<Rightarrow> bool" where
  "zoneSchema F z \<longleftrightarrow> uuidSchema F (zo_id z) \<and> bytes32Schema (zo_zoneKey z) \<and>
     1 \<le> length (zo_name z) \<and> 1 \<le> length (zo_discosFeederCode z) \<and>
     1 \<le> length (zo_region z) \<and> - 90 \<le> zo_lat z \<and> zo_lat z \<le> 90 \<and>
     - 180 \<le> zo_lng z \<and> zo_lng z \<le> 180"

record provider =
  pr_id :: string
  pr_userId :: "string option"
  pr_walletAddress :: string
  pr_providerType :: provider_type
  pr_zoneId :: string
  pr_reputationCache :: int
  pr_active :: bool
  pr_lastSeenAt :: "string option"

definition providerSchema :: "zod_formats \<Rightarrow> provider \<Rightarrow> bool" where
  "providerSchema F p \<longleftrightarrow> uuidSchema F (pr_id p) \<and> opt_all (uuidSchema F) (pr_userId p) \<and>
     walletAddressSchema (pr_walletAddress p) \<and> uuidSchema F (pr_zoneId p) \<and>
     opt_all (isoDateTimeSchema F) (pr_lastSeenAt p)"

record evidence_event =
  ev_id :: string
  ev_providerId :: string
  ev_zoneId :: string
  ev_idempotencyKey :: string
  ev_source :: provider_type
  ev_status :: evidence_status
  ev_voltage :: "rat option"
  ev_currentAmps :: "rat option"
  ev_confidenceHint :: "rat option"
  ev_rawPayload :: json_object
  ev_observedAt :: string
  ev_receivedAt :: string

definition evidenceEventSchema :: "zod_formats \<Rightarrow> evidence_event \<Rightarrow> bool" where
  "evidenceEventSchema F e \<longleftrightarrow> uuidSchema F (ev_id e) \<and> uuidSchema F (ev_providerId e) \<and>
     uuidSchema F (ev_zoneId e) \<and> 12 \<le> length (ev_idempotencyKey e) \<and>
     opt_all (\<lambda>v. 0 \<le> v) (ev_voltage e) \<and> opt_all (\<lambda>v. 0 \<le> v) (ev_currentAmps e) \<and>
     opt_all (\<lambda>v. 0 \<le> v \<and> v \<le> 1) (ev_confidenceHint e) \<and>
     isoDateTimeSchema F (ev_observedAt e) \<and> isoDateTimeSchema F (ev_receivedAt e)"

record candidate_event =
  ca_id :: string
  ca_zoneId :: string
  ca_status :: candidate_status
  ca_confidence :: rat
  ca_windowStart :: string
  ca_windowEnd :: string
  ca_evidenceEventIds :: "string list"
  ca_createdAt :: string

definition candidateEventSchema :: "zod_formats \<Rightarrow> candidate_event \<Rightarrow> bool" where
  "candidateEventSchema F c \<longleftrightarrow> uuidSchema F (ca_id c) \<and> uuidSchema F (ca_zoneId c) \<and>
     0 \<le> ca_confidence c \<and> ca_confidence c \<le> 1 \<and>
     isoDateTimeSchema F (ca_windowStart c) \<and> isoDateTimeSchema F (ca_windowEnd c) \<and>
     list_all (uuidSchema F) (ca_evidenceEventIds c) \<and> 1 \<le> length (ca_evidenceEventIds c) \<and>
     isoDateTimeSchema F (ca_createdAt c)"

record agent_decision =
  ad_id :: string
  ad_candidateEventId :: string
  ad_agentName :: string
  ad_confidence :: rat
  ad_decision :: agent_decision_status
  ad_hypothesis :: string
  ad_supportingEvidenceIds :: "string list"
  ad_notificationDraft :: "string option"
  ad_reasoningTrace :: json_object
  ad_createdAt :: string

definition agentDecisionSchema :: "zod_formats \<Rightarrow> agent_decision \<Rightarrow> bool" where
  "agentDecisionSchema F d \<longleftrightarrow> uuidSchema F (ad_id d) \<and> uuidSchema F (ad_candidateEventId d) \<and>
     1 \<le> length (ad_agentName d) \<and> 0 \<le> ad_confidence d \<and> ad_confidence d \<le> 1 \<and>
     1 \<le> length (ad_hypothesis d) \<and> list_all (uuidSchema F) (ad_supportingEvidenceIds d) \<and>
     isoDateTimeSchema F (ad_createdAt d)"

record epoch_score =
  es_id :: string
  es_zoneId :: string
  es_epochStart :: string
  es_uptimeBps :: int
  es_evidenceHash :: string
  es_createdAt :: string

definition epochScoreSchema :: "zod_formats \<Rightarrow> epoch_score \<Rightarrow> bool" where
  "epochScoreSchema F s \<longleftrightarrow> uuidSchema F (es_id s) \<and> uuidSchema F (es_zoneId s) \<and>
     isoDateTimeSchema F (es_epochStart s) \<and> 0 \<le> es_uptimeBps s \<and> es_uptimeBps s \<le> 10000 \<and>
     bytes32Schema (es_evidenceHash s) \<and> isoDateTimeSchema F (es_createdAt s)"

record chain_commitment =
  cc_id :: string
  cc_epochScoreId :: string
  cc_txHash :: "string option"
  cc_blockNumber :: "int option"
  cc_status :: chain_commitment_status
  cc_explorerUrl :: "string option"
  cc_createdAt :: string
  cc_confirmedAt :: "string option"

definition chainCommitmentSchema :: "zod_formats \<Rightarrow> chain_commitment \<Rightarrow> bool" where
  "chainCommitmentSchema F c \<longleftrightarrow> uuidSchema F (cc_id c) \<and> uuidSchema F (cc_epochScoreId c) \<and>
     opt_all txHashSchema (cc_txHash c) \<and> opt_all (\<lambda>n. 0 \<le> n) (cc_blockNumber c) \<and>
     opt_all (fmt_url F) (cc_explorerUrl c) \<and> isoDateTimeSchema F (cc_createdAt c) \<and>
     opt_all (isoDateTimeSchema F) (cc_confirmedAt c)"

record audit_log =
  au_id :: string
  au_actorUserId :: "string option"
  au_subjectProviderId :: "string option"
  au_action :: string
  au_before :: "json_object option"
  au_after :: "json_object option"
  au_createdAt :: string

definition auditLogSchema :: "zod_formats \<Rightarrow> audit_log \<Rightarrow> bool" where
  "auditLogSchema F a \<longleftrightarrow> uuidSchema F (au_id a) \<and> opt_all (uuidSchema F) (au_actorUserId a) \<and>
     opt_all (uuidSchema F) (au_subjectProviderId a) \<and> 1 \<le> length (au_action a) \<and>
     isoDateTimeSchema F (au_createdAt a)"

end
