(* ===== verification/Detection.thy ===== *)
theory Detection imports Domain begin

section \<open>Detection rules\<close>

text \<open>
  \<open>apps/api/src/modules/detection/identity.ts\<close> and \<open>rules.ts\<close>: who is behind a reading, the
  agreement of a reading with the recent evidence of its zone, and the candidate event a
  reading gives. \<open>localeCompare\<close> is the parameter \<open>lc\<close> (its order depends on the locale data of
  the runtime), the random identifier and the current time are arguments.

  The lemmas reduce the loop over the recent evidence to the set of comparable readings:
  which witnesses count, how many there are, and that the score does not depend on the order
  in which the store lists the evidence.
\<close>

subsection \<open>identity.ts\<close>

fun trimmedString :: "json option \<Rightarrow> string" where
  "trimmedString (Some (JStr s)) = trim s"
| "trimmedString _ = []"

definition evidenceSourceIdentity :: "evidence_event \<Rightarrow> string" where
  "evidenceSourceIdentity evidence =
     (let payload = ev_rawPayload evidence;
          deviceId = trimmedString (map_of payload ''deviceId'');
          reporterWallet = trimmedString (map_of payload ''reporterWallet'');
          providerWallet = trimmedString (map_of payload ''providerWallet'')
      in if deviceId \<noteq> [] then ''device:'' @ to_lower deviceId
         else if reporterWallet \<noteq> [] then ''wallet:'' @ to_lower reporterWallet
         else if providerWallet \<noteq> [] then ''wallet:'' @ to_lower providerWallet
         else ''provider:'' @ ev_providerId evidence)"

subsection \<open>rules.ts: constants\<close>

definition AGREEMENT_WINDOW_MS :: int where "AGREEMENT_WINDOW_MS = 10 * 60 * 1000"
definition CONFLICT_CONFIDENCE_CEILING :: rat where "CONFLICT_CONFIDENCE_CEILING = fl (8/10)"
definition CROSS_SOURCE_BONUS :: rat where "CROSS_SOURCE_BONUS = fl (8/100)"
definition SAME_SOURCE_BONUS :: rat where "SAME_SOURCE_BONUS = fl (4/100)"
definition MAX_AGREEMENT_BONUS :: rat where "MAX_AGREEMENT_BONUS = fl (16/100)"
definition MAX_AGREED_CONFIDENCE :: rat where "MAX_AGREED_CONFIDENCE = fl (97/100)"

subsection \<open>rules.ts: operations\<close>

definition isEarlier :: "(string \<Rightarrow> string \<Rightarrow> int) \<Rightarrow> evidence_event \<Rightarrow> evidence_event \<Rightarrow> bool" where
  "isEarlier lc left right =
     (case (date_parse (ev_observedAt left), date_parse (ev_observedAt right)) of
        (Some l, Some r) \<Rightarrow> if l \<noteq> r then l < r else lc (ev_id left) (ev_id right) < 0
      | _ \<Rightarrow> False)"

definition roundConfidence :: "rat \<Rightarrow> rat" where
  "roundConfidence value = fdiv (of_int (math_round (fmul value 10000))) 10000"

record agreement_score =
  agreeing :: nat
  conflicting :: nat
  crossSource :: bool
  bonus :: rat
  supportingEvidenceIds :: "string list"

type_synonym witnesses = "(string, evidence_event) jsmap \<times> string list"

definition add_to_set :: "'a \<Rightarrow> 'a list \<Rightarrow> 'a list" where
  "add_to_set x xs = (if x \<in> set xs then xs else xs @ [x])"

text \<open>One turn of the loop over the recent evidence.\<close>

definition agreement_step ::
  "(string \<Rightarrow> string \<Rightarrow> int) \<Rightarrow> evidence_event \<Rightarrow> int \<Rightarrow> evidence_event \<Rightarrow> witnesses \<Rightarrow> witnesses" where
  "agreement_step lc subject subjectAt other w =
     (let (agreeingByIdentity, conflictingIdentities) = w;
          identity = evidenceSourceIdentity other in
      if ev_id other = ev_id subject then w
      else if ev_zoneId other \<noteq> ev_zoneId subject then w
      else if ev_status other = Unknown then w
      else if identity = evidenceSourceIdentity subject then w
      else case date_parse (ev_observedAt other) of
        None \<Rightarrow> w
      | Some otherAt \<Rightarrow>
          if \<bar>otherAt - subjectAt\<bar> > AGREEMENT_WINDOW_MS then w
          else if ev_status other \<noteq> ev_status subject
          then (agreeingByIdentity, add_to_set identity conflictingIdentities)
          else case jm_get agreeingByIdentity identity of
              None \<Rightarrow> (jm_set identity other agreeingByIdentity, conflictingIdentities)
            | Some existing \<Rightarrow>
                if isEarlier lc other existing
                then (jm_set identity other agreeingByIdentity, conflictingIdentities)
                else w)"

definition agreement_loop ::
  "(string \<Rightarrow> string \<Rightarrow> int) \<Rightarrow> evidence_event \<Rightarrow> evidence_event list \<Rightarrow> witnesses" where
  "agreement_loop lc subject recentEvidence =
     (case date_parse (ev_observedAt subject) of
        None \<Rightarrow> ([], [])
      | Some subjectAt \<Rightarrow> fold (agreement_step lc subject subjectAt) recentEvidence ([], []))"

definition source_bonus :: "evidence_event \<Rightarrow> evidence_event \<Rightarrow> rat" where
  "source_bonus subject event =
     (if ev_source event = ev_source subject then SAME_SOURCE_BONUS else CROSS_SOURCE_BONUS)"

definition scoreCrossSourceAgreement ::
  "(string \<Rightarrow> string \<Rightarrow> int) \<Rightarrow> evidence_event \<Rightarrow> evidence_event list \<Rightarrow> agreement_score" where
  "scoreCrossSourceAgreement lc subject recentEvidence =
     (let (agreeingByIdentity, conflictingIdentities) = agreement_loop lc subject recentEvidence;
          agreeingEvents = js_sort (\<lambda>left right. if isEarlier lc left right then - 1 else 1)
            (jm_values agreeingByIdentity);
          total = fold (\<lambda>event b. fadd b (source_bonus subject event)) agreeingEvents 0
      in \<lparr>agreeing = length agreeingEvents,
          conflicting = length conflictingIdentities,
          crossSource = list_ex (\<lambda>event. ev_source event \<noteq> ev_source subject) agreeingEvents,
          bonus = roundConfidence (min total MAX_AGREEMENT_BONUS),
          supportingEvidenceIds = map ev_id agreeingEvents\<rparr>)"

definition applyAgreement :: "rat \<Rightarrow> agreement_score \<Rightarrow> rat" where
  "applyAgreement base agreement =
     (let corroborated = min (fadd base (bonus agreement)) MAX_AGREED_CONFIDENCE;
          contested = (if 0 < conflicting agreement
            then min corroborated CONFLICT_CONFIDENCE_CEILING else corroborated)
      in roundConfidence (min (max contested 0) 1))"

definition confidenceForEvidence :: "evidence_event \<Rightarrow> rat" where
  "confidenceForEvidence evidence =
     (if ev_source evidence = ReporterProvider then or_else (ev_confidenceHint evidence) (fl (65/100))
      else if ev_status evidence = GridDown \<and> opt_any (\<lambda>v. v \<le> 5) (ev_voltage evidence)
      then fl (95/100)
      else if ev_status evidence = GridUp \<and> opt_any (\<lambda>v. v \<ge> 180) (ev_voltage evidence)
      then fl (9/10)
      else or_else (ev_confidenceHint evidence) (fl (72/100)))"

definition detectCandidateFromEvidence ::
  "(string \<Rightarrow> string \<Rightarrow> int) \<Rightarrow> string \<Rightarrow> int \<Rightarrow> evidence_event \<Rightarrow> evidence_event list \<Rightarrow>
     candidate_event option res" where
  "detectCandidateFromEvidence lc uuid now evidence recentEvidence =
     (if ev_status evidence = Unknown then Inr None
      else let agreement = scoreCrossSourceAgreement lc evidence recentEvidence in
        case date_parse (ev_observedAt evidence) of
          None \<Rightarrow> Inl (plain_error ''Invalid time value'')
        | Some observedAt \<Rightarrow> Inr (Some \<lparr>
            ca_id = uuid,
            ca_zoneId = ev_zoneId evidence,
            ca_status = (if ev_status evidence = GridDown then Outage else Restored),
            ca_confidence = applyAgreement (confidenceForEvidence evidence) agreement,
            ca_windowStart = to_iso (observedAt - 5 * 60 * 1000),
            ca_windowEnd = ev_observedAt evidence,
            ca_evidenceEventIds = ev_id evidence # supportingEvidenceIds agreement,
            ca_createdAt = to_iso now\<rparr>))"

subsection \<open>Bounds of a confidence\<close>

lemma roundConfidence_mono: "x \<le> y \<Longrightarrow> roundConfidence x \<le> roundConfidence y"
  unfolding roundConfidence_def fdiv_def fmul_def
  by (intro fl_mono divide_right_mono of_int_le_iff[THEN iffD2] math_round_mono mult_right_mono) simp_all

lemma roundConfidence_literals:
  "roundConfidence 0 = 0" "roundConfidence 1 = 1"
  "roundConfidence CONFLICT_CONFIDENCE_CEILING = CONFLICT_CONFIDENCE_CEILING"
  "roundConfidence MAX_AGREEMENT_BONUS = MAX_AGREEMENT_BONUS"
  "roundConfidence MAX_AGREED_CONFIDENCE = MAX_AGREED_CONFIDENCE"
  by (simp_all add: roundConfidence_def CONFLICT_CONFIDENCE_CEILING_def MAX_AGREEMENT_BONUS_def
      MAX_AGREED_CONFIDENCE_def fl_eval)

lemma ceilings: "0 \<le> CONFLICT_CONFIDENCE_CEILING" "CONFLICT_CONFIDENCE_CEILING \<le> 1"
  "0 \<le> MAX_AGREED_CONFIDENCE" "MAX_AGREED_CONFIDENCE \<le> 1"
  by (simp_all add: CONFLICT_CONFIDENCE_CEILING_def MAX_AGREED_CONFIDENCE_def fl_eval)

lemma applyAgreement_bounds:
  "0 \<le> applyAgreement base agreement" "applyAgreement base agreement \<le> MAX_AGREED_CONFIDENCE"
proof -
  let ?c = "if 0 < conflicting agreement
    then min (min (fadd base (bonus agreement)) MAX_AGREED_CONFIDENCE) CONFLICT_CONFIDENCE_CEILING
    else min (fadd base (bonus agreement)) MAX_AGREED_CONFIDENCE"
  have eq: "applyAgreement base agreement = roundConfidence (min (max ?c 0) 1)"
    by (simp add: applyAgreement_def Let_def)
  have "roundConfidence 0 \<le> roundConfidence (min (max ?c 0) 1)"
    by (intro roundConfidence_mono) simp
  then show "0 \<le> applyAgreement base agreement" by (simp only: eq roundConfidence_literals)
  have "?c \<le> MAX_AGREED_CONFIDENCE" by (auto intro: min.coboundedI1)
  then have "min (max ?c 0) 1 \<le> MAX_AGREED_CONFIDENCE" using ceilings by linarith
  from roundConfidence_mono[OF this]
  show "applyAgreement base agreement \<le> MAX_AGREED_CONFIDENCE"
    by (simp only: eq roundConfidence_literals)
qed

lemma applyAgreement_contested:
  assumes "0 < conflicting agreement"
  shows "applyAgreement base agreement \<le> CONFLICT_CONFIDENCE_CEILING"
proof -
  have "min (max (min c CONFLICT_CONFIDENCE_CEILING) 0) 1 \<le> CONFLICT_CONFIDENCE_CEILING" for c
    using ceilings by linarith
  from roundConfidence_mono[OF this] assms show ?thesis
    by (simp add: applyAgreement_def Let_def roundConfidence_literals)
qed

subsection \<open>The loop over the recent evidence\<close>

definition comparable :: "evidence_event \<Rightarrow> evidence_event \<Rightarrow> bool" where
  "comparable subject other \<longleftrightarrow>
     ev_id other \<noteq> ev_id subject \<and> ev_zoneId other = ev_zoneId subject \<and>
     ev_status other \<noteq> Unknown \<and>
     evidenceSourceIdentity other \<noteq> evidenceSourceIdentity subject \<and>
     (case (date_parse (ev_observedAt subject), date_parse (ev_observedAt other)) of
        (Some s, Some t) \<Rightarrow> \<bar>t - s\<bar> \<le> AGREEMENT_WINDOW_MS
      | _ \<Rightarrow> False)"

definition agrees :: "evidence_event \<Rightarrow> evidence_event \<Rightarrow> bool" where
  "agrees subject other \<longleftrightarrow> comparable subject other \<and> ev_status other = ev_status subject"

definition conflicts :: "evidence_event \<Rightarrow> evidence_event \<Rightarrow> bool" where
  "conflicts subject other \<longleftrightarrow> comparable subject other \<and> ev_status other \<noteq> ev_status subject"

lemma agreement_step_cases:
  assumes "date_parse (ev_observedAt subject) = Some subjectAt"
  shows "agreement_step lc subject subjectAt other (m, s) =
    (if agrees subject other then
       ((case jm_get m (evidenceSourceIdentity other) of
          None \<Rightarrow> jm_set (evidenceSourceIdentity other) other m
        | Some e \<Rightarrow> if isEarlier lc other e then jm_set (evidenceSourceIdentity other) other m else m), s)
     else if conflicts subject other then (m, add_to_set (evidenceSourceIdentity other) s)
     else (m, s))"
  using assms
  by (auto simp: agreement_step_def agrees_def conflicts_def comparable_def Let_def
      split: option.splits)

lemma set_add_to_set [simp]: "set (add_to_set x xs) = insert x (set xs)"
  by (auto simp: add_to_set_def)

lemma distinct_add_to_set [simp]: "distinct (add_to_set x xs) = distinct xs"
  by (auto simp: add_to_set_def)

text \<open>What holds of the two collections after the readings \<open>es\<close>: the keys are the identities
  of the agreeing witnesses, each is represented by one of its own readings, and the set holds
  the identities of the conflicting ones.\<close>

definition witnesses_of :: "evidence_event \<Rightarrow> evidence_event set \<Rightarrow> witnesses \<Rightarrow> bool" where
  "witnesses_of subject es w \<longleftrightarrow>
     jm_wf (fst w) \<and> distinct (snd w) \<and>
     (\<forall>k e. jm_get (fst w) k = Some e \<longrightarrow>
        e \<in> es \<and> agrees subject e \<and> evidenceSourceIdentity e = k) \<and>
     (\<forall>e \<in> es. agrees subject e \<longrightarrow> jm_get (fst w) (evidenceSourceIdentity e) \<noteq> None) \<and>
     set (snd w) = evidenceSourceIdentity ` {e \<in> es. conflicts subject e}"

lemma witnesses_of_step:
  assumes "date_parse (ev_observedAt subject) = Some subjectAt" "witnesses_of subject es w"
  shows "witnesses_of subject (insert e es) (agreement_step lc subject subjectAt e w)"
proof -
  obtain m s where w: "w = (m, s)" by fastforce
  have *: "agrees subject e \<Longrightarrow> \<not> conflicts subject e" by (simp add: agrees_def conflicts_def)
  have **: "{x \<in> insert e es. conflicts subject x} = (if conflicts subject e
      then insert e {x \<in> es. conflicts subject x} else {x \<in> es. conflicts subject x})" by auto
  from assms(2) show ?thesis
    unfolding w agreement_step_cases[OF assms(1)] witnesses_of_def ** using *
    by (auto split: option.splits if_splits)
qed

lemma agreement_loop_witnesses:
  "witnesses_of subject (set recentEvidence) (agreement_loop lc subject recentEvidence)"
proof (cases "date_parse (ev_observedAt subject)")
  case None
  then show ?thesis
    by (auto simp: agreement_loop_def witnesses_of_def agrees_def conflicts_def comparable_def)
next
  case (Some subjectAt)
  have "witnesses_of subject (es \<union> set xs) (fold (agreement_step lc subject subjectAt) xs w)"
    if "witnesses_of subject es w" for es xs w
    using that
  proof (induction xs arbitrary: es w)
    case (Cons x xs)
    from Cons.IH[OF witnesses_of_step[OF Some Cons.prems]] show ?case by simp
  qed simp
  from this[of "{}" "([], [])" recentEvidence] Some show ?thesis
    by (simp add: agreement_loop_def witnesses_of_def[of _ "{}"])
qed

lemma card_identities:
  assumes "witnesses_of subject es (m, s)"
  shows "length (jm_values m) = card (evidenceSourceIdentity ` {e \<in> es. agrees subject e})"
    and "length s = card (evidenceSourceIdentity ` {e \<in> es. conflicts subject e})"
proof -
  have "fst ` set m = dom (map_of m)" by (simp add: dom_map_of_conv_image_fst)
  also have "\<dots> = evidenceSourceIdentity ` {e \<in> es. agrees subject e}"
    using assms by (fastforce simp: witnesses_of_def)
  finally have keys: "fst ` set m = evidenceSourceIdentity ` {e \<in> es. agrees subject e}" .
  have "jm_wf m" "distinct s" "set s = evidenceSourceIdentity ` {e \<in> es. conflicts subject e}"
    using assms by (simp_all add: witnesses_of_def)
  with keys show "length (jm_values m) = card (evidenceSourceIdentity ` {e \<in> es. agrees subject e})"
    "length s = card (evidenceSourceIdentity ` {e \<in> es. conflicts subject e})"
    by (metis distinct_card length_map list.set_map, metis distinct_card)
qed

text \<open>Witnesses are counted per identity.\<close>

lemma score_counts:
  "agreeing (scoreCrossSourceAgreement lc subject recentEvidence) =
     card (evidenceSourceIdentity ` {e \<in> set recentEvidence. agrees subject e})"
  "conflicting (scoreCrossSourceAgreement lc subject recentEvidence) =
     card (evidenceSourceIdentity ` {e \<in> set recentEvidence. conflicts subject e})"
  using card_identities[of subject "set recentEvidence" "fst (agreement_loop lc subject recentEvidence)"
      "snd (agreement_loop lc subject recentEvidence)"] agreement_loop_witnesses[of subject recentEvidence lc]
  by (simp_all add: scoreCrossSourceAgreement_def case_prod_beta Let_def)

lemma bonus_le: "bonus (scoreCrossSourceAgreement lc subject recentEvidence) \<le> MAX_AGREEMENT_BONUS"
proof -
  have "roundConfidence (min x MAX_AGREEMENT_BONUS) \<le> MAX_AGREEMENT_BONUS" for x
    using roundConfidence_mono[of "min x MAX_AGREEMENT_BONUS" MAX_AGREEMENT_BONUS]
    by (simp add: roundConfidence_literals)
  then show ?thesis by (simp add: scoreCrossSourceAgreement_def case_prod_beta Let_def)
qed

text \<open>The supporting readings: agreeing ones, one per witness.\<close>

definition supporting_events ::
  "(string \<Rightarrow> string \<Rightarrow> int) \<Rightarrow> evidence_event \<Rightarrow> evidence_event list \<Rightarrow> evidence_event list" where
  "supporting_events lc subject recentEvidence =
     js_sort (\<lambda>left right. if isEarlier lc left right then - 1 else 1)
       (jm_values (fst (agreement_loop lc subject recentEvidence)))"

lemma supporting_ids:
  "supportingEvidenceIds (scoreCrossSourceAgreement lc subject recentEvidence) =
     map ev_id (supporting_events lc subject recentEvidence)"
  by (simp add: supporting_events_def scoreCrossSourceAgreement_def case_prod_beta Let_def)

lemma supporting_agree:
  assumes "e \<in> set (supporting_events lc subject recentEvidence)"
  shows "e \<in> set recentEvidence" "agrees subject e"
proof -
  let ?m = "fst (agreement_loop lc subject recentEvidence)"
  have w: "witnesses_of subject (set recentEvidence) (agreement_loop lc subject recentEvidence)"
    by (rule agreement_loop_witnesses)
  obtain k where "(k, e) \<in> set ?m" using assms by (auto simp: supporting_events_def)
  moreover have "jm_wf ?m" using w by (simp add: witnesses_of_def)
  ultimately have "jm_get ?m k = Some e" by (intro jm_getI)
  with w show "e \<in> set recentEvidence" "agrees subject e"
    unfolding witnesses_of_def by (auto dest: spec[of _ k])
qed

lemma supporting_identities_distinct:
  "distinct (map evidenceSourceIdentity (supporting_events lc subject recentEvidence))"
proof -
  let ?m = "fst (agreement_loop lc subject recentEvidence)"
  have w: "witnesses_of subject (set recentEvidence) (agreement_loop lc subject recentEvidence)"
    by (rule agreement_loop_witnesses)
  then have wf: "jm_wf ?m" by (simp add: witnesses_of_def)
  have "map evidenceSourceIdentity (jm_values ?m) = map fst ?m"
    unfolding map_map
  proof -
    have "evidenceSourceIdentity e = k" if "(k, e) \<in> set ?m" for k e
    proof -
      have "jm_get ?m k = Some e" using wf that by (intro jm_getI)
      with w show ?thesis unfolding witnesses_of_def by (auto dest: spec[of _ k])
    qed
    then show "map (evidenceSourceIdentity \<circ> snd) ?m = map fst ?m" by auto
  qed
  then have "distinct (map evidenceSourceIdentity (jm_values ?m))" using wf by (simp only:)
  then show ?thesis unfolding supporting_events_def
    by (metis distinct_map distinct_js_sort set_js_sort)
qed

subsection \<open>The score does not depend on the order of the evidence\<close>

text \<open>The documented behaviour of \<open>localeCompare\<close> that the sort relies on, for the identifiers at hand: the
  sign is antisymmetric and transitive, and only equal identifiers compare as equal.\<close>

definition lc_total :: "(string \<Rightarrow> string \<Rightarrow> int) \<Rightarrow> string set \<Rightarrow> bool" where
  "lc_total lc A \<longleftrightarrow> strict_total_on (\<lambda>a b. lc a b < 0) A"

lemma isEarlier_strict_total:
  assumes "lc_total lc (ev_id ` E)" "inj_on ev_id E"
    and "\<forall>e \<in> E. date_parse (ev_observedAt e) \<noteq> None"
  shows "strict_total_on (isEarlier lc) E"
proof -
  have at: "\<exists>t. date_parse (ev_observedAt e) = Some t" if "e \<in> E" for e using assms(3) that by auto
  have irr: "\<not> isEarlier lc e e" if "e \<in> E" for e
  proof -
    have "\<not> lc (ev_id e) (ev_id e) < 0"
      using assms(1) that unfolding lc_total_def strict_total_on_def by blast
    with at[OF that] show ?thesis by (auto simp: isEarlier_def)
  qed
  have tot: "isEarlier lc e f \<or> isEarlier lc f e" if "e \<in> E" "f \<in> E" "e \<noteq> f" for e f
  proof -
    have "ev_id e \<noteq> ev_id f" using assms(2) that by (auto dest: inj_onD)
    then have "lc (ev_id e) (ev_id f) < 0 \<or> lc (ev_id f) (ev_id e) < 0"
      using assms(1) that unfolding lc_total_def strict_total_on_def by blast
    with at[OF that(1)] at[OF that(2)] show ?thesis by (auto simp: isEarlier_def)
  qed
  have trn: "isEarlier lc e g" if "e \<in> E" "f \<in> E" "g \<in> E" "isEarlier lc e f" "isEarlier lc f g" for e f g
  proof -
    have "lc (ev_id e) (ev_id f) < 0 \<Longrightarrow> lc (ev_id f) (ev_id g) < 0 \<Longrightarrow> lc (ev_id e) (ev_id g) < 0"
      using assms(1) that(1-3) unfolding lc_total_def strict_total_on_def by blast
    with that at[OF that(1)] at[OF that(2)] at[OF that(3)] show ?thesis
      by (auto simp: isEarlier_def split: if_splits)
  qed
  from irr tot trn show ?thesis unfolding strict_total_on_def by blast
qed

lemma agrees_date: "agrees subject e \<Longrightarrow> date_parse (ev_observedAt e) \<noteq> None"
  by (auto simp: agrees_def comparable_def split: option.splits)

text \<open>Every witness is represented by its earliest agreeing reading.\<close>

definition earliest_kept :: "(string \<Rightarrow> string \<Rightarrow> int) \<Rightarrow> evidence_event \<Rightarrow> evidence_event set \<Rightarrow> witnesses \<Rightarrow> bool" where
  "earliest_kept lc subject es w \<longleftrightarrow>
     (\<forall>k e. jm_get (fst w) k = Some e \<longrightarrow>
        (\<forall>x \<in> es. agrees subject x \<longrightarrow> evidenceSourceIdentity x = k \<longrightarrow> \<not> isEarlier lc x e))"

lemma earliest_kept_step:
  assumes "date_parse (ev_observedAt subject) = Some subjectAt"
    and "strict_total_on (isEarlier lc) {x \<in> insert e es. agrees subject x}"
    and "witnesses_of subject es w" "earliest_kept lc subject es w"
  shows "earliest_kept lc subject (insert e es) (agreement_step lc subject subjectAt e w)"
proof -
  obtain m s where w: "w = (m, s)" by fastforce
  show ?thesis
  proof (cases "agrees subject e")
    case True
    have irr: "\<not> isEarlier lc e e" using assms(2) True unfolding strict_total_on_def by blast
    have old: "\<not> isEarlier lc x e'" if "x \<in> es" "agrees subject x" "evidenceSourceIdentity x = k"
      "jm_get m k = Some e'" for x k e'
      using assms(4) that by (simp add: earliest_kept_def w)
    have new: "\<not> isEarlier lc x e" if "x \<in> es" "agrees subject x"
      "evidenceSourceIdentity x = evidenceSourceIdentity e"
      "jm_get m (evidenceSourceIdentity e) = Some e'" "isEarlier lc e e'" for x e'
    proof
      assume "isEarlier lc x e"
      moreover have "e' \<in> es" "agrees subject e'" using assms(3) that(4) by (auto simp: witnesses_of_def w)
      ultimately have "isEarlier lc x e'"
        using strict_total_onD(3)[OF assms(2), of x e e'] that True by simp
      with old[OF that(1,2,3)] that(3,4) show False by simp
    qed
    have none: "jm_get m (evidenceSourceIdentity e) = None \<Longrightarrow> x \<in> es \<Longrightarrow> agrees subject x \<Longrightarrow>
        evidenceSourceIdentity x \<noteq> evidenceSourceIdentity e" for x
      using assms(3) by (force simp: witnesses_of_def w)
    let ?k = "evidenceSourceIdentity e"
    have set_case: "earliest_kept lc subject (insert e es) (jm_set ?k e m, s)"
      if "\<And>x. x \<in> es \<Longrightarrow> agrees subject x \<Longrightarrow> evidenceSourceIdentity x = ?k \<Longrightarrow> \<not> isEarlier lc x e"
      unfolding earliest_kept_def fst_conv
    proof (intro allI impI ballI)
      fix k f x
      assume f: "jm_get (jm_set ?k e m) k = Some f" and x: "x \<in> insert e es" "agrees subject x"
        "evidenceSourceIdentity x = k"
      show "\<not> isEarlier lc x f"
      proof (cases "k = ?k")
        case True
        with f have "f = e" by simp
        with x True that irr show ?thesis by blast
      next
        case False
        with f x have "jm_get m k = Some f" "x \<in> es" by auto
        with old x(2,3) show ?thesis by blast
      qed
    qed
    show ?thesis
    proof (cases "jm_get m ?k")
      case None
      with True set_case none show ?thesis by (simp add: w agreement_step_cases[OF assms(1)])
    next
      case (Some e')
      have keep: "earliest_kept lc subject (insert e es) (m, s)" if "\<not> isEarlier lc e e'"
      proof -
        have "\<not> isEarlier lc x f" if "jm_get m k = Some f" "x \<in> insert e es" "agrees subject x"
          "evidenceSourceIdentity x = k" for k f x
          using that old \<open>\<not> isEarlier lc e e'\<close> Some by (metis insertE option.inject)
        then show ?thesis unfolding earliest_kept_def fst_conv by blast
      qed
      from Some True new set_case keep show ?thesis
        by (simp add: w agreement_step_cases[OF assms(1)])
    qed
  next
    case False
    with assms(4) show ?thesis
      unfolding w agreement_step_cases[OF assms(1)] earliest_kept_def by auto
  qed
qed

lemma agreement_loop_earliest:
  assumes "strict_total_on (isEarlier lc) {x \<in> set recentEvidence. agrees subject x}"
  shows "earliest_kept lc subject (set recentEvidence) (agreement_loop lc subject recentEvidence)"
proof (cases "date_parse (ev_observedAt subject)")
  case None
  then show ?thesis by (simp add: agreement_loop_def earliest_kept_def)
next
  case (Some subjectAt)
  have "earliest_kept lc subject (es \<union> set xs) (fold (agreement_step lc subject subjectAt) xs w)"
    if "witnesses_of subject es w" "earliest_kept lc subject es w"
      "strict_total_on (isEarlier lc) {x \<in> es \<union> set xs. agrees subject x}" for es xs w
    using that
  proof (induction xs arbitrary: es w)
    case (Cons x xs)
    have sub: "strict_total_on (isEarlier lc) {y \<in> insert x es. agrees subject y}"
      using Cons.prems(3) by (rule strict_total_on_subset) auto
    from Cons.IH[OF witnesses_of_step[OF Some Cons.prems(1)]
        earliest_kept_step[OF Some sub Cons.prems(1,2)]] Cons.prems(3) show ?case by simp
  qed simp
  from this[of "{}" "([], [])" recentEvidence] assms Some show ?thesis
    by (simp add: agreement_loop_def earliest_kept_def[of _ _ "{}"] witnesses_of_def[of _ "{}"])
qed

definition earliest_witnesses :: "(string \<Rightarrow> string \<Rightarrow> int) \<Rightarrow> evidence_event \<Rightarrow> evidence_event set \<Rightarrow> evidence_event set" where
  "earliest_witnesses lc subject es = {e \<in> es. agrees subject e \<and>
     (\<forall>x \<in> es. agrees subject x \<longrightarrow> evidenceSourceIdentity x = evidenceSourceIdentity e \<longrightarrow>
        \<not> isEarlier lc x e)}"

lemma agreement_loop_values:
  assumes "strict_total_on (isEarlier lc) {x \<in> set recentEvidence. agrees subject x}"
  shows "set (jm_values (fst (agreement_loop lc subject recentEvidence))) =
    earliest_witnesses lc subject (set recentEvidence)" (is "?V = ?W")
proof
  let ?m = "fst (agreement_loop lc subject recentEvidence)"
  have w: "witnesses_of subject (set recentEvidence) (agreement_loop lc subject recentEvidence)"
    by (rule agreement_loop_witnesses)
  have kept: "earliest_kept lc subject (set recentEvidence) (agreement_loop lc subject recentEvidence)"
    by (rule agreement_loop_earliest[OF assms])
  have rep: "e \<in> ?W" if "jm_get ?m k = Some e" for k e
    using w kept that by (auto simp: earliest_witnesses_def witnesses_of_def earliest_kept_def)
  have "jm_wf ?m" using w by (simp add: witnesses_of_def)
  then show "?V \<subseteq> ?W" using rep by (fastforce dest: jm_getI)
  show "?W \<subseteq> ?V"
  proof
    fix e assume e: "e \<in> ?W"
    then obtain r where r: "jm_get ?m (evidenceSourceIdentity e) = Some r"
      using w by (auto simp: witnesses_of_def earliest_witnesses_def)
    then have id: "evidenceSourceIdentity r = evidenceSourceIdentity e" "r \<in> ?W"
      using w rep by (auto simp: witnesses_of_def)
    have "r = e"
    proof (rule ccontr)
      assume "r \<noteq> e"
      then have "isEarlier lc r e \<or> isEarlier lc e r"
        using assms e id(2) unfolding strict_total_on_def earliest_witnesses_def by blast
      with e id show False by (auto simp: earliest_witnesses_def)
    qed
    with r show "e \<in> ?V" by (auto dest: jm_get_in_values)
  qed
qed

lemma loop_values_distinct:
  "distinct (jm_values (fst (agreement_loop lc subject recentEvidence)))"
proof -
  have "distinct (supporting_events lc subject recentEvidence)"
    using supporting_identities_distinct[of lc subject recentEvidence] by (simp add: distinct_map)
  then show ?thesis by (simp add: supporting_events_def)
qed

lemma supporting_events_set:
  assumes "strict_total_on (isEarlier lc) {x \<in> set xs. agrees subject x}" "set xs = set ys"
  shows "supporting_events lc subject xs = supporting_events lc subject ys"
proof -
  have "set (jm_values (fst (agreement_loop lc subject xs))) =
      set (jm_values (fst (agreement_loop lc subject ys)))"
    using agreement_loop_values[OF assms(1)] agreement_loop_values[of lc ys subject] assms
    by simp
  moreover have "strict_total_on (isEarlier lc) (set (jm_values (fst (agreement_loop lc subject xs))))"
    unfolding agreement_loop_values[OF assms(1)]
    by (rule strict_total_on_subset[OF assms(1)]) (auto simp: earliest_witnesses_def)
  ultimately show ?thesis unfolding supporting_events_def
    by (intro js_sort_unique loop_values_distinct)
qed

lemma score_by_events:
  "scoreCrossSourceAgreement lc subject recentEvidence =
     (let ev = supporting_events lc subject recentEvidence in
      \<lparr>agreeing = length ev,
       conflicting = card (evidenceSourceIdentity ` {e \<in> set recentEvidence. conflicts subject e}),
       crossSource = list_ex (\<lambda>event. ev_source event \<noteq> ev_source subject) ev,
       bonus = roundConfidence (min (fold (\<lambda>event b. fadd b (source_bonus subject event)) ev 0)
         MAX_AGREEMENT_BONUS),
       supportingEvidenceIds = map ev_id ev\<rparr>)"
  using score_counts(2)[of lc subject recentEvidence]
  by (simp add: scoreCrossSourceAgreement_def case_prod_beta Let_def supporting_events_def)

lemma score_order_irrelevant:
  assumes "lc_total lc (ev_id ` set xs)" "inj_on ev_id (set xs)" "set xs = set ys"
  shows "scoreCrossSourceAgreement lc subject xs = scoreCrossSourceAgreement lc subject ys"
proof -
  have "strict_total_on (isEarlier lc) {x \<in> set xs. agrees subject x}"
  proof (rule isEarlier_strict_total)
    show "lc_total lc (ev_id ` {x \<in> set xs. agrees subject x})"
      using assms(1) unfolding lc_total_def by (rule strict_total_on_subset) auto
    show "inj_on ev_id {x \<in> set xs. agrees subject x}"
      using assms(2) by (rule inj_on_subset) auto
  qed (auto dest: agrees_date)
  from supporting_events_set[OF this assms(3)] assms(3) show ?thesis
    by (simp add: score_by_events)
qed

end
