(* ===== verification/Heartbeat.thy ===== *)
theory Heartbeat imports Detection begin

section \<open>Heartbeat gaps\<close>

text \<open>
  \<open>apps/api/src/modules/detection/heartbeat.ts\<close>: every stretch of silence of a zone's sensors
  longer than the threshold is one outage candidate. The evaluation instant is the argument
  \<open>now\<close> (the code's \<open>options.now\<close>), the threshold \<open>gapMs\<close> the code's \<open>options.gapMs\<close> with its
  default; the identifiers of the candidates come from \<open>uuid\<close>, applied to the number of
  candidates already built, as \<open>randomUUID\<close> is called once per candidate.

  The lemmas count the candidates (one per silence), bound their confidences and show that the
  dedupe key of a silence does not depend on when it is observed.
\<close>

subsection \<open>Constants and types\<close>

definition HEARTBEAT_INTERVAL_MS :: int where "HEARTBEAT_INTERVAL_MS = 60 * 1000"
definition HEARTBEAT_GAP_MS :: int where "HEARTBEAT_GAP_MS = 6 * HEARTBEAT_INTERVAL_MS"
definition MIN_GAP_CONFIDENCE :: rat where "MIN_GAP_CONFIDENCE = fl (6/10)"
definition GAP_LENGTH_WEIGHT :: rat where "GAP_LENGTH_WEIGHT = fl (2/10)"
definition SINGLE_NODE_CEILING :: rat where "SINGLE_NODE_CEILING = fl (8/10)"
definition CORROBORATION_BONUS :: rat where "CORROBORATION_BONUS = fl (6/100)"
definition MAX_GAP_CONFIDENCE :: rat where "MAX_GAP_CONFIDENCE = fl (95/100)"

record heartbeat =
  hb_event :: evidence_event
  hb_at :: int

subsection \<open>Operations\<close>

definition heartbeatGapKey :: "string \<Rightarrow> string \<Rightarrow> string" where
  "heartbeatGapKey zoneId windowStart = ''heartbeat-gap:'' @ zoneId @ '':'' @ windowStart"

definition beat_of :: "evidence_event \<Rightarrow> heartbeat option" where
  "beat_of event =
     map_option (\<lambda>t. \<lparr>hb_event = event, hb_at = t\<rparr>) (date_parse (ev_observedAt event))"

definition heartbeatsFor ::
  "(string \<Rightarrow> string \<Rightarrow> int) \<Rightarrow> string \<Rightarrow> evidence_event list \<Rightarrow> heartbeat list" where
  "heartbeatsFor lc zoneId evidence =
     js_sort (\<lambda>left right. if hb_at left - hb_at right \<noteq> 0 then hb_at left - hb_at right
         else lc (ev_id (hb_event left)) (ev_id (hb_event right)))
       (List.map_filter beat_of
         (filter (\<lambda>event. ev_zoneId event = zoneId \<and> ev_source event = SensorProvider) evidence))"

text \<open>The loop runs from the first beat of the silence backwards, over \<open>earlier\<close>.\<close>

fun nodes_back :: "int \<Rightarrow> int \<Rightarrow> heartbeat list \<Rightarrow> string list \<Rightarrow> string list" where
  "nodes_back startedAt gapMs [] identities = identities"
| "nodes_back startedAt gapMs (beat # earlier) identities =
     (if startedAt - hb_at beat > gapMs then identities
      else nodes_back startedAt gapMs earlier
        (add_to_set (evidenceSourceIdentity (hb_event beat)) identities))"

definition nodesReportingBefore :: "heartbeat list \<Rightarrow> nat \<Rightarrow> int \<Rightarrow> string list" where
  "nodesReportingBefore beats startIndex gapMs =
     nodes_back (hb_at (beats ! startIndex)) gapMs (rev (take (Suc startIndex) beats)) []"

definition gapConfidence :: "int \<Rightarrow> int \<Rightarrow> nat \<Rightarrow> rat" where
  "gapConfidence observedGapMs thresholdMs silentNodes =
     (let overrun = min (fdiv (of_int (max (observedGapMs - thresholdMs) 0))
            (of_int (2 * thresholdMs))) 1;
          confidence = fadd MIN_GAP_CONFIDENCE (fmul GAP_LENGTH_WEIGHT overrun);
          confidence = fadd confidence (fmul CORROBORATION_BONUS (of_int (max (int silentNodes - 1) 0)));
          confidence = (if silentNodes < 2 then min confidence SINGLE_NODE_CEILING else confidence)
      in roundConfidence (min confidence MAX_GAP_CONFIDENCE))"

definition buildGapCandidate ::
  "string \<Rightarrow> string \<Rightarrow> int \<Rightarrow> heartbeat list \<Rightarrow> nat \<Rightarrow> string \<Rightarrow> int \<Rightarrow> heartbeat option \<Rightarrow> int \<Rightarrow>
     candidate_event" where
  "buildGapCandidate uuid zoneId gapMs beats startIndex windowEnd endsAt closingBeat createdAt =
     (let startBeat = beats ! startIndex;
          silentNodes = nodesReportingBefore beats startIndex gapMs
      in \<lparr>ca_id = uuid,
          ca_zoneId = zoneId,
          ca_status = Outage,
          ca_confidence = gapConfidence (endsAt - hb_at startBeat) gapMs (length silentNodes),
          ca_windowStart = ev_observedAt (hb_event startBeat),
          ca_windowEnd = windowEnd,
          ca_evidenceEventIds = ev_id (hb_event startBeat) #
            (case closingBeat of
               None \<Rightarrow> []
             | Some b \<Rightarrow> if ev_id (hb_event b) \<noteq> ev_id (hb_event startBeat)
                 then [ev_id (hb_event b)] else []),
          ca_createdAt = to_iso createdAt\<rparr>)"

text \<open>The turns of the loop for the indexes in the list; \<open>acc\<close> holds the candidates so far.\<close>

fun gap_loop :: "(nat \<Rightarrow> string) \<Rightarrow> string \<Rightarrow> int \<Rightarrow> int \<Rightarrow> heartbeat list \<Rightarrow> nat list \<Rightarrow>
     candidate_event list \<Rightarrow> candidate_event list" where
  "gap_loop uuid zoneId gapMs now beats [] acc = acc"
| "gap_loop uuid zoneId gapMs now beats (index # rest) acc =
     (let previous = beats ! (index - 1); next_beat = beats ! index in
      if hb_at next_beat - hb_at previous \<le> gapMs
      then gap_loop uuid zoneId gapMs now beats rest acc
      else gap_loop uuid zoneId gapMs now beats rest
        (acc @ [buildGapCandidate (uuid (length acc)) zoneId gapMs beats (index - 1)
          (ev_observedAt (hb_event next_beat)) (hb_at next_beat) (Some next_beat) now]))"

definition detectHeartbeatGapCandidates ::
  "(string \<Rightarrow> string \<Rightarrow> int) \<Rightarrow> (nat \<Rightarrow> string) \<Rightarrow> string \<Rightarrow> evidence_event list \<Rightarrow> int option \<Rightarrow>
     int \<Rightarrow> candidate_event list" where
  "detectHeartbeatGapCandidates lc uuid zoneId evidence gap_option now =
     (let gapMs = or_else gap_option HEARTBEAT_GAP_MS in
      if gapMs \<le> 0 then []
      else let beats = heartbeatsFor lc zoneId evidence in
        if beats = [] then []
        else let candidates = gap_loop uuid zoneId gapMs now beats [1..<length beats] [];
                 last_beat = last beats
             in if now - hb_at last_beat > gapMs
                then candidates @ [buildGapCandidate (uuid (length candidates)) zoneId gapMs beats
                  (length beats - 1) (to_iso now) now None now]
                else candidates)"

subsection \<open>The confidence of a gap\<close>

lemma gap_constants:
  "0 \<le> GAP_LENGTH_WEIGHT" "0 \<le> CORROBORATION_BONUS" "MIN_GAP_CONFIDENCE \<le> SINGLE_NODE_CEILING"
  "MIN_GAP_CONFIDENCE \<le> MAX_GAP_CONFIDENCE" "SINGLE_NODE_CEILING \<le> MAX_GAP_CONFIDENCE"
  "roundConfidence MIN_GAP_CONFIDENCE = MIN_GAP_CONFIDENCE"
  "roundConfidence SINGLE_NODE_CEILING = SINGLE_NODE_CEILING"
  "roundConfidence MAX_GAP_CONFIDENCE = MAX_GAP_CONFIDENCE"
  "fl MIN_GAP_CONFIDENCE = MIN_GAP_CONFIDENCE"
  by (simp_all add: roundConfidence_def GAP_LENGTH_WEIGHT_def CORROBORATION_BONUS_def
      MIN_GAP_CONFIDENCE_def SINGLE_NODE_CEILING_def MAX_GAP_CONFIDENCE_def fl_eval)

text \<open>The confidence before the ceilings, for the overrun as a fraction of twice the threshold.\<close>

definition raw_gap_confidence :: "int \<Rightarrow> int \<Rightarrow> nat \<Rightarrow> rat" where
  "raw_gap_confidence observedGapMs thresholdMs silentNodes =
     fadd (fadd MIN_GAP_CONFIDENCE (fmul GAP_LENGTH_WEIGHT
         (min (fdiv (of_int (max (observedGapMs - thresholdMs) 0)) (of_int (2 * thresholdMs))) 1)))
       (fmul CORROBORATION_BONUS (of_int (max (int silentNodes - 1) 0)))"

lemma gapConfidence_raw:
  "gapConfidence observedGapMs thresholdMs silentNodes =
     roundConfidence (min (if silentNodes < 2
       then min (raw_gap_confidence observedGapMs thresholdMs silentNodes) SINGLE_NODE_CEILING
       else raw_gap_confidence observedGapMs thresholdMs silentNodes) MAX_GAP_CONFIDENCE)"
  by (simp only: gapConfidence_def raw_gap_confidence_def Let_def)

lemma fadd_mono: "a \<le> a' \<Longrightarrow> b \<le> b' \<Longrightarrow> fadd a b \<le> fadd a' b'"
  unfolding fadd_def by (intro fl_mono add_mono)

lemma fmul_left_mono: "0 \<le> c \<Longrightarrow> b \<le> b' \<Longrightarrow> fmul c b \<le> fmul c b'"
  unfolding fmul_def by (intro fl_mono mult_left_mono)

lemma fdiv_mono: "0 \<le> c \<Longrightarrow> b \<le> b' \<Longrightarrow> fdiv b c \<le> fdiv b' c"
  unfolding fdiv_def by (intro fl_mono divide_right_mono)

lemma raw_gap_mono:
  assumes "0 < thresholdMs" "g \<le> g'" "n \<le> n'"
  shows "raw_gap_confidence g thresholdMs n \<le> raw_gap_confidence g' thresholdMs n'"
  unfolding raw_gap_confidence_def
  using assms gap_constants(1,2)
  by (intro fadd_mono fmul_left_mono fdiv_mono min.mono of_int_le_iff[THEN iffD2] max.mono order_refl)
    simp_all

lemma raw_gap_min:
  assumes "0 < thresholdMs" shows "MIN_GAP_CONFIDENCE \<le> raw_gap_confidence g thresholdMs n"
proof -
  have "raw_gap_confidence (min g 0) thresholdMs 0 = MIN_GAP_CONFIDENCE"
    using assms by (simp add: raw_gap_confidence_def fmul_def fadd_def fdiv_def fl_0 gap_constants(9))
  moreover have "raw_gap_confidence (min g 0) thresholdMs 0 \<le> raw_gap_confidence g thresholdMs n"
    using assms by (intro raw_gap_mono) simp_all
  ultimately show ?thesis by simp
qed

lemma gapConfidence_le_max: "gapConfidence g t n \<le> MAX_GAP_CONFIDENCE"
proof -
  have "roundConfidence (min x MAX_GAP_CONFIDENCE) \<le> roundConfidence MAX_GAP_CONFIDENCE" for x
    by (intro roundConfidence_mono) simp
  then show ?thesis by (simp only: gapConfidence_raw gap_constants(8))
qed

lemma gapConfidence_single: "n < 2 \<Longrightarrow> gapConfidence g t n \<le> SINGLE_NODE_CEILING"
proof -
  assume n: "n < 2"
  have "roundConfidence (min (min x SINGLE_NODE_CEILING) MAX_GAP_CONFIDENCE) \<le>
      roundConfidence SINGLE_NODE_CEILING" for x
    by (intro roundConfidence_mono) (simp add: min.coboundedI1)
  with n show ?thesis by (simp add: gapConfidence_raw gap_constants(7))
qed

lemma gapConfidence_min:
  assumes "0 < t" shows "MIN_GAP_CONFIDENCE \<le> gapConfidence g t n"
proof -
  have "MIN_GAP_CONFIDENCE \<le> min (if n < 2 then min (raw_gap_confidence g t n) SINGLE_NODE_CEILING
      else raw_gap_confidence g t n) MAX_GAP_CONFIDENCE"
    using raw_gap_min[OF assms, of g n] gap_constants(3,4) by simp
  from roundConfidence_mono[OF this] show ?thesis by (simp only: gapConfidence_raw gap_constants(6))
qed

lemma gapConfidence_mono:
  assumes "0 < t" "g \<le> g'" "n \<le> n'"
  shows "gapConfidence g t n \<le> gapConfidence g' t n'"
proof -
  have le: "raw_gap_confidence g t n \<le> raw_gap_confidence g' t n'"
    using assms by (rule raw_gap_mono)
  show ?thesis unfolding gapConfidence_raw
    using le assms(3) by (intro roundConfidence_mono min.mono) (auto simp: min_def)
qed

subsection \<open>The candidates of a zone\<close>

text \<open>The silences among the beats, as the indexes of the beats that close them.\<close>

definition closed_gaps :: "int \<Rightarrow> heartbeat list \<Rightarrow> nat list" where
  "closed_gaps gapMs beats =
     filter (\<lambda>i. hb_at (beats ! i) - hb_at (beats ! (i - 1)) > gapMs) [1..<length beats]"

definition gap_starts :: "int \<Rightarrow> int \<Rightarrow> heartbeat list \<Rightarrow> nat list" where
  "gap_starts gapMs now beats = map (\<lambda>i. i - 1) (closed_gaps gapMs beats) @
     (if beats \<noteq> [] \<and> now - hb_at (last beats) > gapMs then [length beats - 1] else [])"

lemma buildGapCandidate_sel [simp]:
  "ca_windowStart (buildGapCandidate u z g beats i we ends cb now) = ev_observedAt (hb_event (beats ! i))"
  "ca_zoneId (buildGapCandidate u z g beats i we ends cb now) = z"
  "ca_status (buildGapCandidate u z g beats i we ends cb now) = Outage"
  "ca_confidence (buildGapCandidate u z g beats i we ends cb now) =
     gapConfidence (ends - hb_at (beats ! i)) g (length (nodesReportingBefore beats i g))"
  by (simp_all add: buildGapCandidate_def Let_def)

lemma gap_loop_starts:
  "map ca_windowStart (gap_loop uuid z g now beats js acc) = map ca_windowStart acc @
     map (\<lambda>i. ev_observedAt (hb_event (beats ! (i - 1))))
       (filter (\<lambda>i. hb_at (beats ! i) - hb_at (beats ! (i - 1)) > g) js)"
  by (induction uuid z g now beats js acc rule: gap_loop.induct) (auto simp: Let_def)

lemma detect_starts:
  assumes "0 < or_else g HEARTBEAT_GAP_MS"
  shows "map ca_windowStart (detectHeartbeatGapCandidates lc uuid z ev g now) =
    (let beats = heartbeatsFor lc z ev in
     map (\<lambda>i. ev_observedAt (hb_event (beats ! i)))
       (gap_starts (or_else g HEARTBEAT_GAP_MS) now beats))"
  using assms
  by (simp add: detectHeartbeatGapCandidates_def Let_def gap_starts_def closed_gaps_def gap_loop_starts)

text \<open>Every property of the candidates that building one establishes.\<close>

lemma gap_loop_all:
  assumes "\<And>u i we ends cb. P (buildGapCandidate u z g beats i we ends cb now)"
    and "\<forall>c \<in> set acc. P c"
  shows "\<forall>c \<in> set (gap_loop uuid z g now beats js acc). P c"
  using assms by (induction uuid z g now beats js acc rule: gap_loop.induct) (auto simp: Let_def)

lemma detect_all:
  assumes "\<And>u beats i we ends cb g. 0 < g \<Longrightarrow> P (buildGapCandidate u z g beats i we ends cb now)"
    and "c \<in> set (detectHeartbeatGapCandidates lc uuid z ev g now)"
  shows "P c"
proof -
  let ?g = "or_else g HEARTBEAT_GAP_MS" and ?b = "heartbeatsFor lc z ev"
  have pos: "0 < ?g" using assms(2) by (auto simp: detectHeartbeatGapCandidates_def Let_def split: if_splits)
  have "\<forall>c \<in> set (gap_loop uuid z ?g now ?b [1..<length ?b] []). P c"
    using assms(1)[OF pos] by (intro gap_loop_all) auto
  with assms(1)[OF pos] assms(2) show ?thesis
    by (auto simp: detectHeartbeatGapCandidates_def Let_def split: if_splits)
qed

subsection \<open>The timeline of a zone\<close>

lemma beat_of_at: "beat_of event = Some b \<Longrightarrow> date_parse (ev_observedAt (hb_event b)) = Some (hb_at b)"
  by (auto simp: beat_of_def)

lemma beats_at:
  "b \<in> set (heartbeatsFor lc z ev) \<Longrightarrow> date_parse (ev_observedAt (hb_event b)) = Some (hb_at b)"
  by (auto simp: heartbeatsFor_def List.map_filter_def intro: beat_of_at)

lemma beats_sorted: "sorted (map hb_at (heartbeatsFor lc z ev))"
  unfolding heartbeatsFor_def by (rule js_sort_sorted) auto

lemma beats_nth_mono:
  "i \<le> j \<Longrightarrow> j < length (heartbeatsFor lc z ev) \<Longrightarrow>
     hb_at (heartbeatsFor lc z ev ! i) \<le> hb_at (heartbeatsFor lc z ev ! j)"
  using sorted_nth_mono[OF beats_sorted, of i j lc z ev] by simp

lemma closed_gaps_iff:
  "i \<in> set (closed_gaps g beats) \<longleftrightarrow>
     1 \<le> i \<and> i < length beats \<and> hb_at (beats ! i) - hb_at (beats ! (i - 1)) > g"
  by (auto simp: closed_gaps_def)

lemma gap_starts_iff:
  "i \<in> set (gap_starts g now beats) \<longleftrightarrow>
     i < length beats \<and>
     (if Suc i < length beats then hb_at (beats ! Suc i) - hb_at (beats ! i) > g
      else now - hb_at (beats ! i) > g)"
proof -
  have closed: "i \<in> (\<lambda>j. j - 1) ` set (closed_gaps g beats) \<longleftrightarrow>
      Suc i < length beats \<and> hb_at (beats ! Suc i) - hb_at (beats ! i) > g"
    by (auto simp: closed_gaps_iff image_iff intro!: bexI[of _ "Suc i"])
  have last: "beats \<noteq> [] \<Longrightarrow> last beats = beats ! (length beats - 1)" by (rule last_conv_nth)
  have end_iff: "i = length beats - 1 \<and> beats \<noteq> [] \<longleftrightarrow> i < length beats \<and> \<not> Suc i < length beats"
    by (cases beats) auto
  have "i \<in> set (gap_starts g now beats) \<longleftrightarrow> i \<in> (\<lambda>j. j - 1) ` set (closed_gaps g beats) \<or>
      (i = length beats - 1 \<and> beats \<noteq> []) \<and> now - hb_at (beats ! i) > g"
    using last by (auto simp: gap_starts_def)
  then show ?thesis unfolding closed end_iff by auto
qed

lemma sorted_wrt_upt_filter: "sorted_wrt (<) (filter P [a..<b])"
  by (intro sorted_wrt_filter sorted_wrt_upt)

lemma distinct_gap_starts: "distinct (gap_starts g now beats)"
proof -
  have "inj_on (\<lambda>i. i - (1 :: nat)) (set (closed_gaps g beats))"
    by (auto simp: inj_on_def closed_gaps_iff)
  moreover have "distinct (closed_gaps g beats)" by (simp add: closed_gaps_def)
  ultimately show ?thesis
    by (auto simp: gap_starts_def distinct_map closed_gaps_iff)
qed

text \<open>Two different silences start at different instants.\<close>

lemma gap_starts_at_less:
  assumes "0 < g" "i \<in> set (gap_starts g now beats)" "j \<in> set (gap_starts g now beats)" "i < j"
    and "beats = heartbeatsFor lc z ev"
  shows "hb_at (beats ! i) < hb_at (beats ! j)"
proof -
  have j: "Suc i \<le> j" "j < length beats" using assms(3,4) by (auto simp: gap_starts_iff)
  then have "hb_at (beats ! Suc i) - hb_at (beats ! i) > g" using assms(2) by (auto simp: gap_starts_iff)
  moreover have "hb_at (beats ! Suc i) \<le> hb_at (beats ! j)"
    using j beats_nth_mono[of "Suc i" j lc z ev] assms(5) by simp
  ultimately show ?thesis using assms(1) by simp
qed

lemma distinct_window_starts:
  assumes "0 < g"
  shows "distinct (map (\<lambda>i. ev_observedAt (hb_event (heartbeatsFor lc z ev ! i)))
    (gap_starts g now (heartbeatsFor lc z ev)))"
proof -
  let ?b = "heartbeatsFor lc z ev"
  have "inj_on (\<lambda>i. ev_observedAt (hb_event (?b ! i))) (set (gap_starts g now ?b))"
  proof (rule inj_onI)
    fix i j assume ij: "i \<in> set (gap_starts g now ?b)" "j \<in> set (gap_starts g now ?b)"
      and eq: "ev_observedAt (hb_event (?b ! i)) = ev_observedAt (hb_event (?b ! j))"
    have "?b ! i \<in> set ?b" "?b ! j \<in> set ?b" using ij by (auto simp: gap_starts_iff)
    with eq beats_at have "hb_at (?b ! i) = hb_at (?b ! j)" by (metis option.inject)
    then show "i = j"
      using gap_starts_at_less[OF assms ij _ refl] gap_starts_at_less[OF assms ij(2,1) _ refl]
      by (metis less_irrefl linorder_neqE_nat)
  qed
  then show ?thesis by (simp add: distinct_map distinct_gap_starts)
qed

text \<open>The number of silences of a timeline, as a set of indexes.\<close>

definition silences :: "int \<Rightarrow> int \<Rightarrow> heartbeat list \<Rightarrow> nat set" where
  "silences g now beats = {i. i < length beats \<and>
     (if Suc i < length beats then hb_at (beats ! Suc i) else now) - hb_at (beats ! i) > g}"

lemma set_gap_starts: "set (gap_starts g now beats) = silences g now beats"
  by (auto simp: gap_starts_iff silences_def split: if_splits)

lemma detect_zone: "c \<in> set (detectHeartbeatGapCandidates lc uuid z ev g now) \<Longrightarrow> ca_zoneId c = z"
  by (rule detect_all[of "\<lambda>c. ca_zoneId c = z" z]) simp_all

lemma heartbeatGapKey_inject [simp]:
  "heartbeatGapKey z a = heartbeatGapKey z b \<longleftrightarrow> a = b"
  by (simp add: heartbeatGapKey_def)

definition gap_keys :: "candidate_event list \<Rightarrow> string list" where
  "gap_keys cs = map (\<lambda>c. heartbeatGapKey (ca_zoneId c) (ca_windowStart c)) cs"

lemma gap_keys_detect:
  "gap_keys (detectHeartbeatGapCandidates lc uuid z ev g now) =
     map (heartbeatGapKey z) (map ca_windowStart (detectHeartbeatGapCandidates lc uuid z ev g now))"
  unfolding gap_keys_def map_map by (rule map_cong) (auto dest: detect_zone)

subsection \<open>Later readings\<close>

lemma insert_by_append:
  "\<forall>y \<in> set ys. cmp x y \<le> 0 \<Longrightarrow> insert_by cmp x (xs @ ys) = insert_by cmp x xs @ ys"
  by (induction xs) (auto, cases ys, auto)

lemma js_sort_append:
  "\<forall>x \<in> set xs. \<forall>y \<in> set ys. cmp x y \<le> 0 \<Longrightarrow> js_sort cmp (xs @ ys) = js_sort cmp xs @ js_sort cmp ys"
  by (induction xs) (auto simp: insert_by_append)

definition sensor_beats :: "string \<Rightarrow> evidence_event list \<Rightarrow> heartbeat list" where
  "sensor_beats z ev = List.map_filter beat_of
     (filter (\<lambda>event. ev_zoneId event = z \<and> ev_source event = SensorProvider) ev)"

lemma heartbeatsFor_later:
  assumes "\<forall>b \<in> set (sensor_beats z ev). \<forall>b' \<in> set (sensor_beats z later). hb_at b < hb_at b'"
  shows "heartbeatsFor lc z (ev @ later) = heartbeatsFor lc z ev @ heartbeatsFor lc z later"
proof -
  have "sensor_beats z (ev @ later) = sensor_beats z ev @ sensor_beats z later"
    by (simp add: sensor_beats_def List.map_filter_def)
  show ?thesis
    using assms unfolding heartbeatsFor_def sensor_beats_def[symmetric] \<open>sensor_beats z (ev @ later) = _\<close>
    by (intro js_sort_append ballI) (fastforce dest: bspec)
qed

text \<open>A silence seen by a sweep stays one, with the same start, when later readings close it
  and when the sweep runs again later.\<close>

lemma silences_persist:
  assumes "silences g now beats \<subseteq> silences g now' beats \<or> later \<noteq> []"
    and "\<forall>b \<in> set later. now \<le> hb_at b" "i \<in> silences g now beats"
  shows "i \<in> silences g now' (beats @ later)"
proof (cases "Suc i < length beats")
  case True
  with assms(3) show ?thesis by (auto simp: silences_def nth_append)
next
  case False
  with assms(3) have i: "Suc i = length beats" "now - hb_at (beats ! i) > g" by (auto simp: silences_def)
  show ?thesis
  proof (cases later)
    case Nil
    with assms(1,3) show ?thesis by auto
  next
    case (Cons b bs)
    with assms(2) have "now \<le> hb_at b" by simp
    with i Cons show ?thesis by (auto simp: silences_def nth_append)
  qed
qed

lemma gap_keys_persist:
  assumes "now \<le> now'" "\<forall>b \<in> set (sensor_beats z later). now \<le> hb_at b"
    and "\<forall>b \<in> set (sensor_beats z ev). \<forall>b' \<in> set (sensor_beats z later). hb_at b < hb_at b'"
  shows "set (gap_keys (detectHeartbeatGapCandidates lc uuid z ev g now)) \<subseteq>
    set (gap_keys (detectHeartbeatGapCandidates lc uuid' z (ev @ later) g now'))"
proof (cases "0 < or_else g HEARTBEAT_GAP_MS")
  case True
  let ?g = "or_else g HEARTBEAT_GAP_MS" and ?b = "heartbeatsFor lc z ev" and ?l = "heartbeatsFor lc z later"
  have later: "\<forall>b \<in> set ?l. now \<le> hb_at b"
    using assms(2) by (simp add: heartbeatsFor_def sensor_beats_def)
  have "silences ?g now ?b \<subseteq> silences ?g now' ?b" using assms(1) by (auto simp: silences_def)
  then have "silences ?g now ?b \<subseteq> silences ?g now' (?b @ ?l)"
    using silences_persist[OF _ later] by blast
  moreover have "i \<in> silences ?g now ?b \<Longrightarrow> (?b @ ?l) ! i = ?b ! i" for i
    by (simp add: silences_def nth_append)
  ultimately have "(\<lambda>i. heartbeatGapKey z (ev_observedAt (hb_event (?b ! i)))) ` silences ?g now ?b \<subseteq>
      (\<lambda>i. heartbeatGapKey z (ev_observedAt (hb_event ((?b @ ?l) ! i)))) ` silences ?g now' (?b @ ?l)"
    by (intro image_subsetI) (metis (no_types, lifting) imageI subsetD)
  then show ?thesis
    unfolding gap_keys_detect detect_starts[OF True] heartbeatsFor_later[OF assms(3)] Let_def
      set_map image_image set_gap_starts .
next
  case False
  then show ?thesis by (simp add: gap_keys_def detectHeartbeatGapCandidates_def Let_def)
qed

end
