(* ===== verification/World.thy ===== *)
theory World imports Heartbeat begin

section \<open>The state of the API process\<close>

text \<open>
  The state that the modules of \<open>apps/api/src\<close> share: the module-level \<open>Map\<close>s and arrays that
  serve as stores when no database is configured, the tables of the database
  (\<open>infrastructure/migrations\<close>), the metric counters, the domain events emitted so far and the
  clock. A row keeps timestamps as milliseconds, as \<open>timestamptz\<close> does for the values of this
  program, and numbers as the doubles they were written with.

  \<open>runtime\<close> collects what the code calls but does not define: \<open>randomUUID\<close> (a sequence of
  identifiers, the world counts the calls), \<open>localeCompare\<close>, SHA-256 and HMAC as hex strings,
  the environment variables and the job queue of BullMQ (the job identifier, or \<open>None\<close> when
  adding throws).

  An operation is a function of the world whose result is a thrown error or a value; a throw
  keeps the effects made so far. Every operation runs as one step: interleavings at \<open>await\<close>
  points are the sequences of operations.
\<close>

subsection \<open>Runtime\<close>

record simulation =
  sim_runId :: string
  sim_initiatedBy :: string
  sim_allowChainWrite :: bool

record agent_review_job =
  jb_candidate :: candidate_event
  jb_evidence :: "evidence_event list"
  jb_providers :: "provider list"
  jb_simulation :: "simulation option"

record runtime =
  rt_uuid :: "nat \<Rightarrow> string"
  rt_lc :: "string \<Rightarrow> string \<Rightarrow> int"
  rt_sha256 :: "string \<Rightarrow> string"
  rt_hmac :: "string \<Rightarrow> string \<Rightarrow> string"
  rt_env :: "string \<Rightarrow> string option"
  rt_bull_add :: "agent_review_job \<Rightarrow> string option"

text \<open>\<open>process.env.X\<close> used as a condition: unset and empty are false.\<close>

definition env_truthy :: "runtime \<Rightarrow> string \<Rightarrow> string option" where
  "env_truthy rt name = (case rt_env rt name of None \<Rightarrow> None | Some v \<Rightarrow> if v = [] then None else Some v)"

text \<open>The helper \<open>envInt\<close> of the modules that parse with \<open>Number.parseInt\<close>.\<close>

definition positive_env_int :: "runtime \<Rightarrow> string \<Rightarrow> int \<Rightarrow> int" where
  "positive_env_int rt name fallback =
     (case env_truthy rt name of
        None \<Rightarrow> fallback
      | Some raw \<Rightarrow> (case parse_int raw of
          Some n \<Rightarrow> if 0 < n then n else fallback
        | None \<Rightarrow> fallback))"

lemma positive_env_int_pos: "0 < fallback \<Longrightarrow> 0 < positive_env_int rt name fallback"
  by (simp add: positive_env_int_def split: option.split)

definition isDatabaseConfigured :: "runtime \<Rightarrow> bool" where
  "isDatabaseConfigured rt \<longleftrightarrow> env_truthy rt ''DATABASE_URL'' \<noteq> None"

subsection \<open>Events and counters\<close>

datatype domain_event =
    EvidenceReceived evidence_event
  | CandidateDetected candidate_event
  | ChainCommitted string "string option" string chain_commitment_status
    \<comment> \<open>zoneId, epochStart, txHash, status\<close>
  | ReviewRequired string string string
    \<comment> \<open>candidateEventId, zoneId, reason\<close>

record metric_counters =
  evidenceIngested :: nat
  candidatesDetected :: nat
  agentDecisions :: nat
  chainSubmissions :: nat
  failures :: nat

definition zero_counters :: metric_counters where
  "zero_counters = \<lparr>evidenceIngested = 0, candidatesDetected = 0, agentDecisions = 0,
     chainSubmissions = 0, failures = 0\<rparr>"

record metrics_snapshot =
  uptimeSeconds :: int
  snapshot_counters :: metric_counters

definition metricsSnapshot :: "int \<Rightarrow> int \<Rightarrow> metric_counters \<Rightarrow> metrics_snapshot" where
  "metricsSnapshot startedAt now counters =
     \<lparr>uptimeSeconds = (now - startedAt) div 1000, snapshot_counters = counters\<rparr>"

definition resetMetrics :: "metric_counters \<Rightarrow> metric_counters" where
  "resetMetrics counters = counters\<lparr>evidenceIngested := 0, candidatesDetected := 0,
     agentDecisions := 0, chainSubmissions := 0, failures := 0\<rparr>"

subsection \<open>Rows\<close>

record evidence_row =
  er_id :: string
  er_provider_id :: string
  er_zone_id :: string
  er_idempotency_key :: string
  er_source :: provider_type
  er_status :: evidence_status
  er_voltage :: "rat option"
  er_confidence_hint :: "rat option"
  er_raw_payload :: json_object
  er_observed_at :: int
  er_received_at :: int

record candidate_row =
  cr_id :: string
  cr_candidate_key :: "string option"
  cr_zone_id :: string
  cr_status :: candidate_status
  cr_confidence :: rat
  cr_window_start :: int
  cr_window_end :: int
  cr_evidence_event_ids :: "string list"
  cr_created_at :: int

record decision_row =
  dr_id :: string
  dr_candidate_event_id :: string
  dr_agent_name :: string
  dr_confidence :: rat
  dr_decision :: agent_decision_status
  dr_hypothesis :: string
  dr_supporting_evidence_ids :: "string list"
  dr_notification_draft :: "string option"
  dr_reasoning_trace :: json_object
  dr_created_at :: int

record epoch_row =
  ep_id :: string
  ep_zone_id :: string
  ep_epoch_start :: int
  ep_uptime_bps :: int
  ep_evidence_hash :: string
  ep_created_at :: int

record commitment_row =
  cm_id :: string
  cm_epoch_score_id :: string
  cm_tx_hash :: "string option"
  cm_block_number :: "int option"
  cm_status :: chain_commitment_status
  cm_explorer_url :: "string option"
  cm_created_at :: int
  cm_confirmed_at :: "int option"

record provider_row =
  pv_id :: string
  pv_user_id :: "string option"
  pv_wallet_address :: string
  pv_provider_type :: provider_type
  pv_zone_id :: string
  pv_reputation_cache :: int
  pv_active :: bool
  pv_created_at :: int
  pv_updated_at :: int

record zone_row =
  zr_id :: string
  zr_zone_key :: string
  zr_name :: string
  zr_discos_feeder_code :: string
  zr_region :: string
  zr_lat :: rat
  zr_lng :: rat
  zr_created_at :: int

record user_row =
  ur_id :: string
  ur_role :: user_role
  ur_phone_or_email :: string
  ur_created_at :: int

record audit_row =
  ar_id :: string
  ar_actor_user_id :: "string option"
  ar_subject_provider_id :: "string option"
  ar_action :: string
  ar_before :: "json_object option"
  ar_after :: "json_object option"
  ar_created_at :: int

text \<open>Notifications of \<open>modules/notifications\<close>; a row of the outbox may lack a message.\<close>

datatype notification_kind = KindReviewRequired | KindChainCommitted
datatype notification_audience = AudienceReviewer | AudienceOperator | AudiencePublic
datatype notification_channel = Outbox | Webhook
datatype notification_status = Queued | Sent | DeliveryFailed

record notification_record =
  nt_id :: string
  nt_kind :: notification_kind
  nt_audience :: notification_audience
  nt_channel :: notification_channel
  nt_title :: string
  nt_message :: string
  nt_payload :: json_object
  nt_status :: notification_status
  nt_attempts :: nat
  nt_lastError :: "string option"
  nt_createdAt :: string
  nt_sentAt :: "string option"

record notification_row =
  nr_id :: string
  nr_kind :: notification_kind
  nr_audience :: notification_audience
  nr_channel :: notification_channel
  nr_title :: string
  nr_message :: "string option"
  nr_payload :: json_object
  nr_status :: notification_status
  nr_attempts :: nat
  nr_last_error :: "string option"
  nr_created_at :: int
  nr_sent_at :: "int option"

text \<open>Challenges and runs of the demo lab. A run that is read back from the database takes its
  scenario, device and current from JSON text: \<open>None\<close> is a value that is not of the declared type
  (null, or NaN for the current).\<close>

datatype demo_scenario = AmbiguousOutage | ConfirmedOutage | Restoration

record demo_challenge =
  dc_nonce :: string
  dc_walletAddress :: string
  dc_message :: string
  dc_expiresAt :: string
  dc_zoneId :: string
  dc_scenario :: demo_scenario
  dc_publishToChain :: bool
  dc_used :: bool

record demo_telemetry =
  dt_evidenceId :: string
  dt_deviceId :: "string option"
  dt_status :: evidence_status
  dt_voltage :: rat
  dt_currentAmps :: "rat option"
  dt_observedAt :: string

record demo_run_record =
  rn_id :: string
  rn_initiatedBy :: string
  rn_scenario :: "demo_scenario option"
  rn_zoneId :: string
  rn_evidenceId :: string
  rn_candidateId :: string
  rn_policyDecision :: agent_decision
  rn_telemetry :: demo_telemetry
  rn_createdAt :: string
  rn_allowChainWrite :: bool

text \<open>A bucket of the rate limiter.\<close>

record rate_counter =
  rate_count :: nat
  rate_resetAt :: int

record tables =
  t_users :: "user_row list"
  t_zones :: "zone_row list"
  t_providers :: "provider_row list"
  t_evidence_events :: "evidence_row list"
  t_candidate_events :: "candidate_row list"
  t_agent_decisions :: "decision_row list"
  t_epoch_scores :: "epoch_row list"
  t_chain_commitments :: "commitment_row list"
  t_audit_logs :: "audit_row list"
  t_notification_outbox :: "notification_row list"

datatype queue_backend = BullMQ | MemoryQueue

record queued_job =
  qj_id :: string
  qj_queueName :: string
  qj_name :: string
  qj_data :: agent_review_job
  qj_backend :: queue_backend
  qj_createdAt :: string

record world =
  w_now :: int
  w_uuids :: nat
  w_counters :: metric_counters
  w_events :: "domain_event list"
  memoryAuditLogs :: "audit_log list"
  memoryJobs :: "queued_job list"
  bullJobs :: "agent_review_job list"
  redisUnavailable :: bool
  memoryDecisions :: "(string, agent_decision) jsmap"
  memoryCandidatesById :: "(string, candidate_event) jsmap"
  memoryEpochScoresByKey :: "(string, epoch_score) jsmap"
  memoryCommitmentsByEpochScore :: "(string, chain_commitment) jsmap"
  evidenceByIdempotencyKey :: "(string, evidence_event) jsmap"
  candidatesByKey :: "(string, candidate_event) jsmap"
  memoryCounters :: "(string, rate_counter) jsmap"
  redisFallbackKeys :: "string list"
  memoryUsersByIdentity :: "(string, user) jsmap"
  memoryProvidersByWallet :: "(string, provider) jsmap"
  memoryNotifications :: "(string, notification_record) jsmap"
  memoryChallenges :: "(string, demo_challenge) jsmap"
  memoryRuns :: "(string, demo_run_record) jsmap"
  sentryInitialized :: bool
  db :: tables

definition empty_tables :: tables where
  "empty_tables = \<lparr>t_users = [], t_zones = [], t_providers = [], t_evidence_events = [],
     t_candidate_events = [], t_agent_decisions = [], t_epoch_scores = [],
     t_chain_commitments = [], t_audit_logs = [], t_notification_outbox = []\<rparr>"

definition empty_world :: "int \<Rightarrow> world" where
  "empty_world now = \<lparr>w_now = now, w_uuids = 0, w_counters = zero_counters, w_events = [],
     memoryAuditLogs = [], memoryJobs = [], bullJobs = [], redisUnavailable = False,
     memoryDecisions = [], memoryCandidatesById = [], memoryEpochScoresByKey = [],
     memoryCommitmentsByEpochScore = [], evidenceByIdempotencyKey = [], candidatesByKey = [],
     memoryCounters = [], redisFallbackKeys = [], memoryUsersByIdentity = [],
     memoryProvidersByWallet = [], memoryNotifications = [], memoryChallenges = [], memoryRuns = [],
     sentryInitialized = False, db = empty_tables\<rparr>"

subsection \<open>Operations as functions of the world\<close>

type_synonym 'a act = "world \<Rightarrow> 'a res \<times> world"

definition returnS :: "'a \<Rightarrow> 'a act" where "returnS x w = (Inr x, w)"
definition throwS :: "js_error \<Rightarrow> 'a act" where "throwS e w = (Inl e, w)"
definition liftS :: "'a res \<Rightarrow> 'a act" where "liftS r w = (r, w)"
definition getS :: "(world \<Rightarrow> 'a) \<Rightarrow> 'a act" where "getS f w = (Inr (f w), w)"
definition modifyS :: "(world \<Rightarrow> world) \<Rightarrow> unit act" where "modifyS f w = (Inr (), f w)"

definition bindS :: "'a act \<Rightarrow> ('a \<Rightarrow> 'b act) \<Rightarrow> 'b act" where
  "bindS m f w = (case m w of (Inl e, w') \<Rightarrow> (Inl e, w') | (Inr x, w') \<Rightarrow> f x w')"

lemmas act_defs = returnS_def throwS_def liftS_def getS_def modifyS_def

lemma bindS_simps [simp]:
  "bindS (returnS x) f w = f x w" "bindS (throwS e) f w = (Inl e, w)"
  "bindS (getS g) f2 w = f2 (g w) w" "bindS (modifyS h) f3 w = f3 () (h w)"
  "bindS (liftS (Inr x)) f w = f x w" "bindS (liftS (Inl e)) f w = (Inl e, w)"
  by (simp_all add: bindS_def act_defs)

lemma bindS_assoc: "bindS (bindS m f) g = bindS m (\<lambda>x. bindS (f x) g)"
  by (rule ext) (auto simp: bindS_def split: prod.splits sum.splits)

lemma act_apply [simp]:
  "returnS x w = (Inr x, w)" "throwS e w = (Inl e, w)" "liftS r w = (r, w)"
  "getS h w = (Inr (h w), w)" "modifyS k w = (Inr (), k w)"
  by (simp_all add: act_defs)

lemma bindS_Inr: "m w = (Inr x, w') \<Longrightarrow> bindS m f w = f x w'"
  and bindS_Inl: "m w = (Inl e, w') \<Longrightarrow> bindS m f w = (Inl e, w')"
  by (simp_all add: bindS_def)

lemma bindS_eq_Inr:
  "bindS m f w = (Inr y, w2) \<longleftrightarrow> (\<exists>x w1. m w = (Inr x, w1) \<and> f x w1 = (Inr y, w2))"
  by (auto simp: bindS_def split: prod.splits sum.splits)

definition randomUUID :: "runtime \<Rightarrow> string act" where
  "randomUUID rt w = (Inr (rt_uuid rt (w_uuids w)), w\<lparr>w_uuids := Suc (w_uuids w)\<rparr>)"

definition emit :: "domain_event \<Rightarrow> unit act" where
  "emit e = modifyS (\<lambda>w. w\<lparr>w_events := w_events w @ [e]\<rparr>)"

definition count :: "(metric_counters \<Rightarrow> metric_counters) \<Rightarrow> unit act" where
  "count f = modifyS (\<lambda>w. w\<lparr>w_counters := f (w_counters w)\<rparr>)"

definition modify_db :: "(tables \<Rightarrow> tables) \<Rightarrow> unit act" where
  "modify_db f = modifyS (\<lambda>w. w\<lparr>db := f (db w)\<rparr>)"

text \<open>A timestamp parameter of a statement: PostgreSQL refuses a string that is not one.\<close>

definition db_timestamp :: "string \<Rightarrow> int act" where
  "db_timestamp s = (case date_parse s of
     None \<Rightarrow> throwS (plain_error ''invalid input syntax for type timestamp with time zone'')
   | Some t \<Rightarrow> returnS t)"

lemma act_prims [simp]:
  "randomUUID rt w = (Inr (rt_uuid rt (w_uuids w)), w\<lparr>w_uuids := Suc (w_uuids w)\<rparr>)"
  "bindS (randomUUID rt) g w = g (rt_uuid rt (w_uuids w)) (w\<lparr>w_uuids := Suc (w_uuids w)\<rparr>)"
  "bindS (emit e) f' w = f' () (w\<lparr>w_events := w_events w @ [e]\<rparr>)"
  "bindS (count c) f' w = f' () (w\<lparr>w_counters := c (w_counters w)\<rparr>)"
  "bindS (modify_db d) f' w = f' () (w\<lparr>db := d (db w)\<rparr>)"
  by (simp_all add: randomUUID_def emit_def count_def modify_db_def bindS_def)

subsection \<open>SQL\<close>

text \<open>\<open>insert ... on conflict (key) do nothing\<close> tells whether a row was inserted;
  \<open>insert ... on conflict (key) do update\<close> returns the row that is stored afterwards.\<close>

definition sql_insert_new :: "('r \<Rightarrow> 'k) \<Rightarrow> 'r list \<Rightarrow> 'r \<Rightarrow> bool \<times> 'r list" where
  "sql_insert_new key rows r =
     (if \<exists>x \<in> set rows. key x = key r then (False, rows) else (True, rows @ [r]))"

definition sql_find :: "('r \<Rightarrow> 'k) \<Rightarrow> 'r list \<Rightarrow> 'k \<Rightarrow> 'r option" where
  "sql_find key rows k = List.find (\<lambda>x. key x = k) rows"

definition sql_upsert :: "('r \<Rightarrow> 'k) \<Rightarrow> ('r \<Rightarrow> 'r) \<Rightarrow> 'r \<Rightarrow> 'r list \<Rightarrow> 'r \<times> 'r list" where
  "sql_upsert key upd r rows =
     (case sql_find key rows (key r) of
        None \<Rightarrow> (r, rows @ [r])
      | Some x \<Rightarrow> (upd x, map (\<lambda>y. if key y = key r then upd y else y) rows))"

definition sql_update :: "('r \<Rightarrow> bool) \<Rightarrow> ('r \<Rightarrow> 'r) \<Rightarrow> 'r list \<Rightarrow> 'r list" where
  "sql_update P upd rows = map (\<lambda>y. if P y then upd y else y) rows"

lemma sql_find_None: "sql_find key rows k = None \<longleftrightarrow> k \<notin> key ` set rows"
  by (auto simp: sql_find_def find_None_iff)

lemma sql_find_Some:
  "sql_find key rows k = Some r \<Longrightarrow> r \<in> set rows \<and> key r = k"
  by (auto simp: sql_find_def find_Some_iff)

lemma sql_find_distinct:
  "distinct (map key rows) \<Longrightarrow> r \<in> set rows \<Longrightarrow> sql_find key rows (key r) = Some r"
  by (induction rows) (auto simp: sql_find_def)

lemma sql_find_append: "sql_find key (xs @ ys) k =
    (case sql_find key xs k of None \<Rightarrow> sql_find key ys k | Some r \<Rightarrow> Some r)"
  by (induction xs) (auto simp: sql_find_def)

lemma sql_find_one: "sql_find key [r] k = (if key r = k then Some r else None)"
  by (simp add: sql_find_def)

lemma sql_find_map_key:
  "(\<And>x. key (f x) = key x) \<Longrightarrow> sql_find key (map f rows) k = map_option f (sql_find key rows k)"
  by (induction rows) (auto simp: sql_find_def)

lemma sql_find_upsert:
  assumes "\<And>x. key (upd x) = key x"
  shows "sql_find key (snd (sql_upsert key upd r rows)) k =
    (if k = key r then Some (fst (sql_upsert key upd r rows)) else sql_find key rows k)"
proof -
  let ?f = "\<lambda>y. if key y = key r then upd y else y"
  have key: "key (?f x) = key x" for x using assms by simp
  show ?thesis
  proof (cases "sql_find key rows (key r)")
    case None
    then show ?thesis
      by (auto simp: sql_upsert_def sql_find_append sql_find_one split: option.splits)
  next
    case (Some x)
    then have "key x = key r" by (auto dest: sql_find_Some)
    with Some show ?thesis
      by (cases "sql_find key rows k")
        (auto simp: sql_upsert_def sql_find_map_key[of key ?f, OF key] dest: sql_find_Some)
  qed
qed

lemma distinct_sql_upsert:
  assumes "\<And>x. key (upd x) = key x" "distinct (map key rows)"
  shows "distinct (map key (snd (sql_upsert key upd r rows)))"
proof -
  have eq: "map key (map (\<lambda>y. if key y = key r then upd y else y) rows) = map key rows"
    using assms(1) by auto
  show ?thesis
  proof (cases "sql_find key rows (key r)")
    case None
    then show ?thesis using assms(2) sql_find_None[of key rows "key r"] by (simp add: sql_upsert_def)
  next
    case (Some x)
    then show ?thesis using assms(2) by (simp only: sql_upsert_def option.case snd_conv eq)
  qed
qed

interpretation sql_insert: once_store "\<lambda>rows k. \<exists>r \<in> set rows. key r = k" "sql_insert_new key"
  key "\<lambda>rows. distinct (map key rows)" "\<lambda>r. True" for key :: "'r \<Rightarrow> 'k"
  by unfold_locales (auto simp: sql_insert_new_def)

subsection \<open>lib/db-values.ts\<close>

text \<open>The argument is null (\<open>None\<close>), or the number that \<open>Number\<close> gives for it, where NaN is
  \<open>Some None\<close>.\<close>

definition MAX_SAFE_INTEGER :: int where "MAX_SAFE_INTEGER = 9007199254740991"

definition blockNumberFromDatabase :: "rat option option \<Rightarrow> rat option res" where
  "blockNumberFromDatabase v =
     (case v of
        None \<Rightarrow> Inr None
      | Some None \<Rightarrow> Inl (plain_error ''Invalid database block number'')
      | Some (Some n) \<Rightarrow>
          if of_int \<lfloor>n\<rfloor> = n \<and> \<bar>n\<bar> \<le> of_int MAX_SAFE_INTEGER \<and> 0 \<le> n then Inr (Some n)
          else Inl (plain_error ''Invalid database block number''))"

lemma blockNumber_safe:
  "0 \<le> n \<Longrightarrow> n \<le> MAX_SAFE_INTEGER \<Longrightarrow> blockNumberFromDatabase (Some (Some (of_int n))) = Inr (Some (of_int n))"
  by (simp add: blockNumberFromDatabase_def flip: of_int_abs)

end
