(* ===== verification/Audit_Jobs.thy ===== *)
theory Audit_Jobs imports World begin

section \<open>Audit log and job queue\<close>

text \<open>
  \<open>modules/audit/service.ts\<close> and \<open>modules/jobs/queue.ts\<close>, and the JSON values that the services
  write into audit rows. An audit row whose actor or provider does not exist violates a foreign
  key of the database: the error is caught and logged, the row is dropped.
\<close>

subsection \<open>JSON of the domain objects\<close>

text \<open>A property whose value is \<open>undefined\<close> is left out.\<close>

definition json_field :: "string \<Rightarrow> json option \<Rightarrow> json_object" where
  "json_field k v = (case v of None \<Rightarrow> [] | Some x \<Rightarrow> [(k, x)])"

definition json_strings :: "string list \<Rightarrow> json" where
  "json_strings xs = JArr (map JStr xs)"

definition json_of_decision :: "agent_decision \<Rightarrow> json" where
  "json_of_decision d = JObj
     ([(''id'', JStr (ad_id d)),
       (''candidateEventId'', JStr (ad_candidateEventId d)),
       (''agentName'', JStr (ad_agentName d)),
       (''confidence'', JNum (ad_confidence d)),
       (''decision'', JStr (decision_string (ad_decision d))),
       (''hypothesis'', JStr (ad_hypothesis d)),
       (''supportingEvidenceIds'', json_strings (ad_supportingEvidenceIds d))] @
      json_field ''notificationDraft'' (map_option JStr (ad_notificationDraft d)) @
      [(''reasoningTrace'', JObj (ad_reasoningTrace d)),
       (''createdAt'', JStr (ad_createdAt d))])"

definition json_of_epoch_score :: "epoch_score \<Rightarrow> json" where
  "json_of_epoch_score s = JObj
     [(''id'', JStr (es_id s)), (''zoneId'', JStr (es_zoneId s)),
      (''epochStart'', JStr (es_epochStart s)), (''uptimeBps'', JNum (of_int (es_uptimeBps s))),
      (''evidenceHash'', JStr (es_evidenceHash s)), (''createdAt'', JStr (es_createdAt s))]"

definition json_of_commitment :: "chain_commitment \<Rightarrow> json" where
  "json_of_commitment c = JObj
     [(''id'', JStr (cc_id c)), (''epochScoreId'', JStr (cc_epochScoreId c)),
      (''txHash'', json_of_option JStr (cc_txHash c)),
      (''blockNumber'', json_of_option (\<lambda>n. JNum (of_int n)) (cc_blockNumber c)),
      (''status'', JStr (commitment_status_string (cc_status c))),
      (''explorerUrl'', json_of_option JStr (cc_explorerUrl c)),
      (''createdAt'', JStr (cc_createdAt c)),
      (''confirmedAt'', json_of_option JStr (cc_confirmedAt c))]"

subsection \<open>audit/service.ts\<close>

record append_audit_log_input =
  in_actorUserId :: "string option"
  in_subjectProviderId :: "string option"
  in_action :: string
  in_before :: "json_object option"
  in_after :: "json_object option"

definition references_exist :: "tables \<Rightarrow> append_audit_log_input \<Rightarrow> bool" where
  "references_exist t i \<longleftrightarrow>
     opt_all (\<lambda>a. \<exists>u \<in> set (t_users t). ur_id u = a) (in_actorUserId i) \<and>
     opt_all (\<lambda>a. \<exists>p \<in> set (t_providers t). pv_id p = a) (in_subjectProviderId i)"

definition appendAuditLog :: "runtime \<Rightarrow> append_audit_log_input \<Rightarrow> unit act" where
  "appendAuditLog rt i = bindS (randomUUID rt) (\<lambda>uuid w.
     if \<not> isDatabaseConfigured rt
     then (Inr (), w\<lparr>memoryAuditLogs := memoryAuditLogs w @
       [\<lparr>au_id = uuid, au_actorUserId = in_actorUserId i,
         au_subjectProviderId = in_subjectProviderId i, au_action = in_action i,
         au_before = in_before i, au_after = in_after i, au_createdAt = to_iso (w_now w)\<rparr>]\<rparr>)
     else if references_exist (db w) i
     then (Inr (), w\<lparr>db := db w\<lparr>t_audit_logs := t_audit_logs (db w) @
       [\<lparr>ar_id = uuid, ar_actor_user_id = in_actorUserId i,
         ar_subject_provider_id = in_subjectProviderId i, ar_action = in_action i,
         ar_before = in_before i, ar_after = in_after i, ar_created_at = w_now w\<rparr>]\<rparr>\<rparr>)
     else (Inr (), w))"

definition listMemoryAuditLogs :: "string option \<Rightarrow> world \<Rightarrow> audit_log list" where
  "listMemoryAuditLogs action w =
     filter (\<lambda>item. action = None \<or> action = Some [] \<or> action = Some (au_action item))
       (memoryAuditLogs w)"

definition clearAuditLogStore :: "world \<Rightarrow> world" where
  "clearAuditLogStore w = w\<lparr>memoryAuditLogs := []\<rparr>"

text \<open>The audit entry of an action without actor or provider.\<close>

definition audit_entry :: "string \<Rightarrow> json_object \<Rightarrow> append_audit_log_input" where
  "audit_entry action after = \<lparr>in_actorUserId = None, in_subjectProviderId = None,
     in_action = action, in_before = None, in_after = Some after\<rparr>"

subsection \<open>jobs/queue.ts\<close>

definition AGENT_REVIEW_QUEUE :: string where "AGENT_REVIEW_QUEUE = ''agent-review''"

text \<open>\<open>queueFromEnv\<close>: whether there is a queue; the queue object itself is BullMQ's.\<close>

definition queueFromEnv :: "runtime \<Rightarrow> world \<Rightarrow> bool" where
  "queueFromEnv rt w \<longleftrightarrow> \<not> redisUnavailable w \<and> env_truthy rt ''REDIS_URL'' \<noteq> None \<and>
     \<not> (rt_env rt ''NODE_ENV'' = Some ''test'' \<and>
       rt_env rt ''JOB_QUEUE_USE_REDIS_FOR_TESTS'' \<noteq> Some ''true'')"

definition enqueueMemoryJob :: "string \<Rightarrow> string \<Rightarrow> agent_review_job \<Rightarrow> queued_job act" where
  "enqueueMemoryJob queueName name data w =
     (let record = \<lparr>qj_id = queueName @ '':'' @ nat_string (length (memoryJobs w) + 1),
            qj_queueName = queueName, qj_name = name, qj_data = data,
            qj_backend = MemoryQueue, qj_createdAt = to_iso (w_now w)\<rparr>
      in (Inr record, w\<lparr>memoryJobs := memoryJobs w @ [record]\<rparr>))"

definition enqueueAgentReviewJob :: "runtime \<Rightarrow> agent_review_job \<Rightarrow> queued_job act" where
  "enqueueAgentReviewJob rt data w =
     (if \<not> queueFromEnv rt w then enqueueMemoryJob AGENT_REVIEW_QUEUE ''candidate-review'' data w
      else case rt_bull_add rt data of
        Some jobId \<Rightarrow>
          (Inr \<lparr>qj_id = jobId, qj_queueName = AGENT_REVIEW_QUEUE, qj_name = ''candidate-review'',
             qj_data = data, qj_backend = BullMQ, qj_createdAt = to_iso (w_now w)\<rparr>,
           w\<lparr>bullJobs := bullJobs w @ [data]\<rparr>)
      | None \<Rightarrow>
          enqueueMemoryJob AGENT_REVIEW_QUEUE ''candidate-review'' data (w\<lparr>redisUnavailable := True\<rparr>))"

definition listMemoryJobs :: "string option \<Rightarrow> world \<Rightarrow> queued_job list" where
  "listMemoryJobs queueName w =
     filter (\<lambda>job. queueName = None \<or> queueName = Some [] \<or> queueName = Some (qj_queueName job))
       (memoryJobs w)"

definition closeJobQueues :: "world \<Rightarrow> world" where
  "closeJobQueues w = w\<lparr>redisUnavailable := False\<rparr>"

definition clearJobQueueStore :: "world \<Rightarrow> world" where
  "clearJobQueueStore w = w\<lparr>memoryJobs := [], redisUnavailable := False\<rparr>"

subsection \<open>Frames\<close>

text \<open>What an operation leaves alone: \<open>same_pipeline\<close> for the stores of decisions, candidates,
  scores and commitments, \<open>same_tables\<close> for the tables other than the audit log.\<close>

definition same_stores :: "world \<Rightarrow> world \<Rightarrow> bool" where
  "same_stores w w' \<longleftrightarrow>
     w_now w' = w_now w \<and>
     memoryDecisions w' = memoryDecisions w \<and>
     memoryCandidatesById w' = memoryCandidatesById w \<and>
     memoryEpochScoresByKey w' = memoryEpochScoresByKey w \<and>
     memoryCommitmentsByEpochScore w' = memoryCommitmentsByEpochScore w \<and>
     evidenceByIdempotencyKey w' = evidenceByIdempotencyKey w \<and>
     candidatesByKey w' = candidatesByKey w \<and>
     db w' = (db w)\<lparr>t_audit_logs := t_audit_logs (db w')\<rparr>"

lemma same_stores_refl [simp]: "same_stores w w"
  by (simp add: same_stores_def)

lemma same_stores_trans: "same_stores a b \<Longrightarrow> same_stores b c \<Longrightarrow> same_stores a c"
  unfolding same_stores_def by (metis tables.surjective tables.update_convs(9))

text \<open>Appending to the audit log never throws and changes nothing else but the identifiers drawn.\<close>

definition audited :: "runtime \<Rightarrow> append_audit_log_input \<Rightarrow> world \<Rightarrow> world" where
  "audited rt i w = snd (appendAuditLog rt i w)"

lemma appendAuditLog_run: "appendAuditLog rt i w = (Inr (), audited rt i w)"
  by (simp add: appendAuditLog_def audited_def)

lemma bind_audit: "bindS (appendAuditLog rt i) f w = f () (audited rt i w)"
  by (simp add: appendAuditLog_run bindS_def)

lemma audited_sel [simp]:
  "w_now (audited rt i w) = w_now w" "w_counters (audited rt i w) = w_counters w"
  "w_events (audited rt i w) = w_events w" "memoryJobs (audited rt i w) = memoryJobs w"
  "bullJobs (audited rt i w) = bullJobs w" "memoryDecisions (audited rt i w) = memoryDecisions w"
  "memoryCandidatesById (audited rt i w) = memoryCandidatesById w"
  "memoryEpochScoresByKey (audited rt i w) = memoryEpochScoresByKey w"
  "memoryCommitmentsByEpochScore (audited rt i w) = memoryCommitmentsByEpochScore w"
  "evidenceByIdempotencyKey (audited rt i w) = evidenceByIdempotencyKey w"
  "candidatesByKey (audited rt i w) = candidatesByKey w"
  "memoryCounters (audited rt i w) = memoryCounters w"
  "redisFallbackKeys (audited rt i w) = redisFallbackKeys w"
  "memoryUsersByIdentity (audited rt i w) = memoryUsersByIdentity w"
  "memoryProvidersByWallet (audited rt i w) = memoryProvidersByWallet w"
  "memoryNotifications (audited rt i w) = memoryNotifications w"
  "memoryChallenges (audited rt i w) = memoryChallenges w"
  "memoryRuns (audited rt i w) = memoryRuns w"
  "t_notification_outbox (db (audited rt i w)) = t_notification_outbox (db w)"
  "t_users (db (audited rt i w)) = t_users (db w)" "t_zones (db (audited rt i w)) = t_zones (db w)"
  "t_providers (db (audited rt i w)) = t_providers (db w)"
  "t_evidence_events (db (audited rt i w)) = t_evidence_events (db w)"
  "t_candidate_events (db (audited rt i w)) = t_candidate_events (db w)"
  "t_agent_decisions (db (audited rt i w)) = t_agent_decisions (db w)"
  "t_epoch_scores (db (audited rt i w)) = t_epoch_scores (db w)"
  "t_chain_commitments (db (audited rt i w)) = t_chain_commitments (db w)"
  by (simp_all add: audited_def appendAuditLog_def)

lemma appendAuditLog_total:
  "\<exists>w'. appendAuditLog rt i w = (Inr (), w') \<and> same_stores w w' \<and>
     w_counters w' = w_counters w \<and> w_events w' = w_events w \<and> memoryJobs w' = memoryJobs w \<and>
     bullJobs w' = bullJobs w"
  by (simp add: appendAuditLog_def same_stores_def)

lemma enqueueAgentReviewJob_total:
  "\<exists>job w'. enqueueAgentReviewJob rt data w = (Inr job, w') \<and> same_stores w w' \<and>
     w_counters w' = w_counters w \<and> w_events w' = w_events w \<and>
     map qj_data (memoryJobs w') @ bullJobs w' \<in>
       {map qj_data (memoryJobs w) @ data # bullJobs w, map qj_data (memoryJobs w) @ bullJobs w @ [data]}"
  by (auto simp: enqueueAgentReviewJob_def enqueueMemoryJob_def same_stores_def Let_def
      split: option.split)

end
