(* ===== verification/Pipeline.thy ===== *)
theory Pipeline imports Audit_Jobs begin

section \<open>The candidate pipeline\<close>

text \<open>
  \<open>modules/pipeline/service.ts\<close>: the policy gate turns a candidate into a decision; an approved
  candidate gives the epoch score of its hour and a pending chain commitment, an escalated one
  a review job; a reviewer resolves an escalated decision. Both backends are modelled, the
  memory maps and the tables, in the order of effects of the code.
\<close>

subsection \<open>Constants and pure parts\<close>

definition AUTO_APPROVE_THRESHOLD :: rat where "AUTO_APPROVE_THRESHOLD = fl (85/100)"
definition ESCALATE_THRESHOLD :: rat where "ESCALATE_THRESHOLD = fl (1/2)"
definition EPOCH_DURATION_MS :: int where "EPOCH_DURATION_MS = 60 * 60 * 1000"

record pipeline_result =
  res_decision :: agent_decision
  res_epochScore :: "epoch_score option"
  res_commitment :: "chain_commitment option"

definition decisionForConfidence :: "rat \<Rightarrow> agent_decision_status" where
  "decisionForConfidence confidence =
     (if confidence \<ge> AUTO_APPROVE_THRESHOLD then Approve
      else if confidence \<ge> ESCALATE_THRESHOLD then Escalate else Reject)"

definition hypothesisFor :: "candidate_event \<Rightarrow> agent_decision_status \<Rightarrow> string" where
  "hypothesisFor candidate decision =
     (if decision = Approve
      then ''Candidate '' @ candidate_status_string (ca_status candidate) @
        '' passed deterministic confidence threshold.''
      else if decision = Escalate
      then ''Candidate '' @ candidate_status_string (ca_status candidate) @
        '' is plausible but below auto-approval confidence; reviewer confirmation required.''
      else ''Candidate '' @ candidate_status_string (ca_status candidate) @
        '' fell below the minimum confidence threshold.'')"

definition POLICY_GATE :: string where "POLICY_GATE = ''deterministic-policy-gate''"

definition decisionForCandidate :: "string \<Rightarrow> int \<Rightarrow> candidate_event \<Rightarrow> agent_decision" where
  "decisionForCandidate uuid now candidate =
     (let decision = decisionForConfidence (ca_confidence candidate) in
      \<lparr>ad_id = uuid,
       ad_candidateEventId = ca_id candidate,
       ad_agentName = POLICY_GATE,
       ad_confidence = ca_confidence candidate,
       ad_decision = decision,
       ad_hypothesis = hypothesisFor candidate decision,
       ad_supportingEvidenceIds = ca_evidenceEventIds candidate,
       ad_notificationDraft =
         (if decision = Approve then Some ''Evidence approved for epoch commitment.'' else None),
       ad_reasoningTrace =
         [(''source'', JStr ''deterministic''),
          (''approveAt'', JNum AUTO_APPROVE_THRESHOLD),
          (''escalateAt'', JNum ESCALATE_THRESHOLD),
          (''candidateStatus'', JStr (candidate_status_string (ca_status candidate)))],
       ad_createdAt = to_iso now\<rparr>)"

definition floor_epoch_ms :: "int \<Rightarrow> int" where
  "floor_epoch_ms timestamp = (timestamp div EPOCH_DURATION_MS) * EPOCH_DURATION_MS"

definition floorToEpoch :: "string \<Rightarrow> string res" where
  "floorToEpoch isoDate =
     (case date_parse isoDate of
        None \<Rightarrow> Inl (plain_error ''Invalid time value'')
      | Some timestamp \<Rightarrow> Inr (to_iso (floor_epoch_ms timestamp)))"

definition slice :: "nat \<Rightarrow> nat \<Rightarrow> string \<Rightarrow> string" where
  "slice a b s = take (b - a) (drop a s)"

definition stableUuid :: "runtime \<Rightarrow> string \<Rightarrow> string" where
  "stableUuid rt value =
     (let hex = slice 0 32 (rt_sha256 rt value)
      in slice 0 8 hex @ ''-'' @ slice 8 12 hex @ ''-4'' @ slice 13 16 hex @ ''-8'' @
         slice 17 20 hex @ ''-'' @ slice 20 32 hex)"

definition epochKey :: "string \<Rightarrow> string \<Rightarrow> string" where
  "epochKey zoneId epochStart = zoneId @ '':'' @ epochStart"

text \<open>The text whose SHA-256 is the evidence hash.\<close>

definition evidence_json :: "string \<Rightarrow> string \<Rightarrow> candidate_event list \<Rightarrow> json" where
  "evidence_json zoneId epochStart approvedCandidates = JObj
     [(''zoneId'', JStr zoneId),
      (''epochStart'', JStr epochStart),
      (''approvedCandidates'', JArr (map (\<lambda>item. JObj
         [(''id'', JStr (ca_id item)),
          (''status'', JStr (candidate_status_string (ca_status item))),
          (''confidence'', JNum (ca_confidence item)),
          (''evidenceEventIds'', json_strings (ca_evidenceEventIds item))]) approvedCandidates))]"

definition uptime_bps :: "candidate_event list \<Rightarrow> int" where
  "uptime_bps approvedCandidates =
     (let upVotes = length (filter (\<lambda>item. ca_status item = Restored) approvedCandidates);
          totalVotes = length approvedCandidates
      in if totalVotes = 0 then 0
         else math_round (fmul (fdiv (of_nat upVotes) (of_nat totalVotes)) 10000))"

definition epochScoreForApprovedCandidates ::
  "runtime \<Rightarrow> int \<Rightarrow> string \<Rightarrow> string \<Rightarrow> candidate_event list \<Rightarrow> epoch_score" where
  "epochScoreForApprovedCandidates rt now zoneId epochStart approvedCandidates =
     \<lparr>es_id = stableUuid rt (''epoch:'' @ zoneId @ '':'' @ epochStart),
      es_zoneId = zoneId,
      es_epochStart = epochStart,
      es_uptimeBps = uptime_bps approvedCandidates,
      es_evidenceHash = ''0x'' @
        rt_sha256 rt (json_stringify (evidence_json zoneId epochStart approvedCandidates)),
      es_createdAt = to_iso now\<rparr>"

definition pendingCommitmentForEpochScore :: "runtime \<Rightarrow> int \<Rightarrow> epoch_score \<Rightarrow> chain_commitment" where
  "pendingCommitmentForEpochScore rt now epochScore =
     \<lparr>cc_id = stableUuid rt (''commitment:'' @ es_id epochScore),
      cc_epochScoreId = es_id epochScore,
      cc_txHash = None,
      cc_blockNumber = None,
      cc_status = Pending,
      cc_explorerUrl = None,
      cc_createdAt = to_iso now,
      cc_confirmedAt = None\<rparr>"

subsection \<open>Rows and objects\<close>

definition mapDecisionRow :: "decision_row \<Rightarrow> agent_decision" where
  "mapDecisionRow row =
     \<lparr>ad_id = dr_id row, ad_candidateEventId = dr_candidate_event_id row,
      ad_agentName = dr_agent_name row, ad_confidence = dr_confidence row,
      ad_decision = dr_decision row, ad_hypothesis = dr_hypothesis row,
      ad_supportingEvidenceIds = dr_supporting_evidence_ids row,
      ad_notificationDraft = dr_notification_draft row,
      ad_reasoningTrace = dr_reasoning_trace row,
      ad_createdAt = to_iso (dr_created_at row)\<rparr>"

definition candidate_of_row :: "candidate_row \<Rightarrow> candidate_event" where
  "candidate_of_row row =
     \<lparr>ca_id = cr_id row, ca_zoneId = cr_zone_id row, ca_status = cr_status row,
      ca_confidence = cr_confidence row, ca_windowStart = to_iso (cr_window_start row),
      ca_windowEnd = to_iso (cr_window_end row),
      ca_evidenceEventIds = cr_evidence_event_ids row,
      ca_createdAt = to_iso (cr_created_at row)\<rparr>"

definition mapDecisionWithCandidateRow ::
  "decision_row \<Rightarrow> candidate_row \<Rightarrow> agent_decision \<times> candidate_event" where
  "mapDecisionWithCandidateRow d c = (mapDecisionRow d, candidate_of_row c)"

definition epoch_of_row :: "epoch_row \<Rightarrow> epoch_score" where
  "epoch_of_row row =
     \<lparr>es_id = ep_id row, es_zoneId = ep_zone_id row, es_epochStart = to_iso (ep_epoch_start row),
      es_uptimeBps = ep_uptime_bps row, es_evidenceHash = ep_evidence_hash row,
      es_createdAt = to_iso (ep_created_at row)\<rparr>"

text \<open>The block number of a row was written from a receipt, a number of the program, so
  \<open>blockNumberFromDatabase\<close> gives it back (lemma \<open>blockNumber_safe\<close>).\<close>

definition commitment_of_row :: "commitment_row \<Rightarrow> chain_commitment" where
  "commitment_of_row row =
     \<lparr>cc_id = cm_id row, cc_epochScoreId = cm_epoch_score_id row, cc_txHash = cm_tx_hash row,
      cc_blockNumber = cm_block_number row, cc_status = cm_status row,
      cc_explorerUrl = cm_explorer_url row, cc_createdAt = to_iso (cm_created_at row),
      cc_confirmedAt = map_option to_iso (cm_confirmed_at row)\<rparr>"


subsection \<open>Audit entries and the review queue\<close>

definition candidate_summary :: "candidate_event \<Rightarrow> json" where
  "candidate_summary candidate = JObj
     [(''id'', JStr (ca_id candidate)), (''zoneId'', JStr (ca_zoneId candidate)),
      (''status'', JStr (candidate_status_string (ca_status candidate))),
      (''confidence'', JNum (ca_confidence candidate))]"

definition auditAgentDecision ::
  "runtime \<Rightarrow> agent_decision \<Rightarrow> candidate_event \<Rightarrow> evidence_event option \<Rightarrow> unit act" where
  "auditAgentDecision rt decision candidate evidence =
     appendAuditLog rt (audit_entry ''agent_decision.created''
       [(''decision'', json_of_decision decision),
        (''candidate'', candidate_summary candidate),
        (''evidenceEventId'', json_of_option (\<lambda>e. JStr (ev_id e)) evidence)])"

definition queueAgentReview ::
  "runtime \<Rightarrow> candidate_event \<Rightarrow> evidence_event option \<Rightarrow> simulation option \<Rightarrow> unit act" where
  "queueAgentReview rt candidate evidence simulation =
     bindS (enqueueAgentReviewJob rt
       \<lparr>jb_candidate = candidate, jb_evidence = (case evidence of None \<Rightarrow> [] | Some e \<Rightarrow> [e]),
        jb_providers = [], jb_simulation = simulation\<rparr>) (\<lambda>queuedJob.
     appendAuditLog rt (audit_entry ''agent_review.queued''
       [(''jobId'', JStr (qj_id queuedJob)),
        (''queueName'', JStr (qj_queueName queuedJob)),
        (''backend'', JStr (case qj_backend queuedJob of BullMQ \<Rightarrow> ''bullmq'' | MemoryQueue \<Rightarrow> ''memory'')),
        (''candidateEventId'', JStr (ca_id candidate))]))"

definition auditSimulationProofPreview ::
  "runtime \<Rightarrow> candidate_event \<Rightarrow> agent_decision \<Rightarrow> simulation \<Rightarrow> unit act" where
  "auditSimulationProofPreview rt candidate decision simulation =
     appendAuditLog rt (audit_entry ''demo.proof_previewed''
       [(''runId'', JStr (sim_runId simulation)),
        (''initiatedBy'', JStr (sim_initiatedBy simulation)),
        (''candidateEventId'', JStr (ca_id candidate)),
        (''decisionId'', JStr (ad_id decision)),
        (''reason'', JStr ''Synthetic demo chain writes are disabled'')])"

definition auditReviewDecision ::
  "runtime \<Rightarrow> agent_decision option \<Rightarrow> agent_decision \<Rightarrow> string \<Rightarrow> user option \<Rightarrow> unit act" where
  "auditReviewDecision rt before after note reviewer =
     appendAuditLog rt
       \<lparr>in_actorUserId = map_option us_id reviewer,
        in_subjectProviderId = None,
        in_action = ''review.decision_resolved'',
        in_before = map_option (\<lambda>d. [(''decision'', json_of_decision d)]) before,
        in_after = Some
          [(''decision'', json_of_decision after),
           (''note'', JStr note),
           (''reviewer'', json_of_option (\<lambda>r. JObj
              [(''id'', JStr (us_id r)), (''role'', JStr (role_string (us_role r))),
               (''phoneOrEmail'', JStr (us_phoneOrEmail r))]) reviewer)]\<rparr>"

datatype chain_source = AgentAutoApproval | ReviewApproval

definition auditChainQueued ::
  "runtime \<Rightarrow> epoch_score \<Rightarrow> chain_commitment \<Rightarrow> chain_source \<Rightarrow> unit act" where
  "auditChainQueued rt epochScore commitment source =
     appendAuditLog rt (audit_entry ''chain_commitment.queued''
       [(''source'', JStr (case source of AgentAutoApproval \<Rightarrow> ''agent_auto_approval''
           | ReviewApproval \<Rightarrow> ''review_approval'')),
        (''epochScore'', json_of_epoch_score epochScore),
        (''commitment'', json_of_commitment commitment)])"

subsection \<open>The database backend\<close>

definition foreign_key_error :: "string \<Rightarrow> js_error" where
  "foreign_key_error t = plain_error (''violates foreign key constraint on table '' @ t)"

definition decision_key :: "decision_row \<Rightarrow> string \<times> string" where
  "decision_key r = (dr_candidate_event_id r, dr_agent_name r)"

definition upsertDatabaseDecision :: "agent_decision \<Rightarrow> agent_decision act" where
  "upsertDatabaseDecision decision =
     bindS (db_timestamp (ad_createdAt decision)) (\<lambda>createdAt w.
       if \<not> (\<exists>c \<in> set (t_candidate_events (db w)). cr_id c = ad_candidateEventId decision)
       then (Inl (foreign_key_error ''agent_decisions''), w)
       else let excluded = \<lparr>dr_id = ad_id decision,
              dr_candidate_event_id = ad_candidateEventId decision,
              dr_agent_name = ad_agentName decision, dr_confidence = ad_confidence decision,
              dr_decision = ad_decision decision, dr_hypothesis = ad_hypothesis decision,
              dr_supporting_evidence_ids = ad_supportingEvidenceIds decision,
              dr_notification_draft = ad_notificationDraft decision,
              dr_reasoning_trace = ad_reasoningTrace decision, dr_created_at = createdAt\<rparr>;
            (row, rows) = sql_upsert decision_key
              (\<lambda>r. r\<lparr>dr_confidence := dr_confidence excluded, dr_decision := dr_decision excluded,
                 dr_hypothesis := dr_hypothesis excluded,
                 dr_supporting_evidence_ids := dr_supporting_evidence_ids excluded,
                 dr_notification_draft := dr_notification_draft excluded,
                 dr_reasoning_trace := dr_reasoning_trace excluded\<rparr>)
              excluded (t_agent_decisions (db w))
          in (Inr (mapDecisionRow row), w\<lparr>db := db w\<lparr>t_agent_decisions := rows\<rparr>\<rparr>))"

text \<open>The rows the statement selects, in its order.\<close>

definition approved_rows :: "tables \<Rightarrow> string \<Rightarrow> int \<Rightarrow> int \<Rightarrow> candidate_row list" where
  "approved_rows t zoneId epochStart epochEnd =
     js_sort (\<lambda>a b. if cr_window_end a \<noteq> cr_window_end b then cr_window_end a - cr_window_end b
         else text_compare (cr_id a) (cr_id b))
       (concat (map (\<lambda>c. map (\<lambda>d. c)
           (filter (\<lambda>d. dr_candidate_event_id d = cr_id c \<and> dr_decision d = Approve)
             (t_agent_decisions t)))
         (filter (\<lambda>c. cr_zone_id c = zoneId \<and> epochStart \<le> cr_window_end c \<and>
             cr_window_end c < epochEnd) (t_candidate_events t))))"

definition epoch_key :: "epoch_row \<Rightarrow> string \<times> int" where
  "epoch_key r = (ep_zone_id r, ep_epoch_start r)"

definition recomputeDatabaseEpochScore :: "runtime \<Rightarrow> candidate_event \<Rightarrow> epoch_score act" where
  "recomputeDatabaseEpochScore rt candidate =
     bindS (liftS (floorToEpoch (ca_windowEnd candidate))) (\<lambda>epochStart.
     bindS (db_timestamp epochStart) (\<lambda>start w.
       let approved = approved_rows (db w) (ca_zoneId candidate) start (start + EPOCH_DURATION_MS);
           epochScore = epochScoreForApprovedCandidates rt (w_now w) (ca_zoneId candidate) epochStart
             (map candidate_of_row approved);
           excluded = \<lparr>ep_id = es_id epochScore, ep_zone_id = es_zoneId epochScore,
             ep_epoch_start = start, ep_uptime_bps = es_uptimeBps epochScore,
             ep_evidence_hash = es_evidenceHash epochScore, ep_created_at = w_now w\<rparr>;
           (row, rows) = sql_upsert epoch_key
             (\<lambda>r. r\<lparr>ep_uptime_bps := ep_uptime_bps excluded,
                ep_evidence_hash := ep_evidence_hash excluded\<rparr>)
             excluded (t_epoch_scores (db w))
       in (Inr (epoch_of_row row), w\<lparr>db := db w\<lparr>t_epoch_scores := rows\<rparr>\<rparr>)))"

definition upsertDatabasePendingCommitment :: "runtime \<Rightarrow> epoch_score \<Rightarrow> chain_commitment act" where
  "upsertDatabasePendingCommitment rt epochScore w =
     (let commitment = pendingCommitmentForEpochScore rt (w_now w) epochScore;
          excluded = \<lparr>cm_id = cc_id commitment, cm_epoch_score_id = es_id epochScore,
            cm_tx_hash = cc_txHash commitment, cm_block_number = cc_blockNumber commitment,
            cm_status = cc_status commitment, cm_explorer_url = cc_explorerUrl commitment,
            cm_created_at = w_now w, cm_confirmed_at = None\<rparr>;
          (row, rows) = sql_upsert cm_epoch_score_id
            (\<lambda>r. r\<lparr>cm_status := cm_status excluded\<rparr>) excluded (t_chain_commitments (db w))
      in (Inr (commitment_of_row row), w\<lparr>db := db w\<lparr>t_chain_commitments := rows\<rparr>\<rparr>))"

definition findDatabaseCandidate :: "string \<Rightarrow> candidate_event act" where
  "findDatabaseCandidate candidateId w =
     (case sql_find cr_id (t_candidate_events (db w)) candidateId of
        None \<Rightarrow> (Inl (http_error 404 ''CANDIDATE_NOT_FOUND'' ''Candidate not found''), w)
      | Some row \<Rightarrow> (Inr (candidate_of_row row), w))"

subsection \<open>The memory backend\<close>

definition recomputeMemoryEpochScore :: "runtime \<Rightarrow> candidate_event \<Rightarrow> epoch_score act" where
  "recomputeMemoryEpochScore rt candidate =
     bindS (liftS (floorToEpoch (ca_windowEnd candidate))) (\<lambda>epochStart w.
       let approvedCandidates = js_sort
             (\<lambda>a b. if rt_lc rt (ca_windowEnd a) (ca_windowEnd b) \<noteq> 0
                then rt_lc rt (ca_windowEnd a) (ca_windowEnd b)
                else rt_lc rt (ca_id a) (ca_id b))
             (filter (\<lambda>item. ca_zoneId item = ca_zoneId candidate \<and>
                opt_any (\<lambda>d. ad_decision d = Approve) (jm_get (memoryDecisions w) (ca_id item)) \<and>
                opt_any (\<lambda>windowEndTs. opt_any (\<lambda>start. windowEndTs \<ge> start \<and>
                    windowEndTs < start + EPOCH_DURATION_MS) (date_parse epochStart))
                  (date_parse (ca_windowEnd item)))
               (jm_values (memoryCandidatesById w)))
       in (Inr (epochScoreForApprovedCandidates rt (w_now w) (ca_zoneId candidate) epochStart
             approvedCandidates), w))"

subsection \<open>Processing a candidate\<close>

text \<open>What follows an approval in both backends: the audit entry, the counter, the event.\<close>

definition announce_commitment ::
  "runtime \<Rightarrow> candidate_event \<Rightarrow> agent_decision \<Rightarrow> epoch_score \<Rightarrow> chain_commitment \<Rightarrow> chain_source \<Rightarrow>
     pipeline_result act" where
  "announce_commitment rt candidate decision epochScore commitment source =
     bindS (auditChainQueued rt epochScore commitment source) (\<lambda>_.
     bindS (count (\<lambda>c. c\<lparr>chainSubmissions := chainSubmissions c + 1\<rparr>)) (\<lambda>_.
     bindS (emit (ChainCommitted (ca_zoneId candidate) (Some (es_epochStart epochScore))
       (or_else (cc_txHash commitment) []) (cc_status commitment))) (\<lambda>_.
     returnS \<lparr>res_decision = decision, res_epochScore = Some epochScore,
       res_commitment = Some commitment\<rparr>)))"

definition decided :: "agent_decision \<Rightarrow> pipeline_result" where
  "decided decision = \<lparr>res_decision = decision, res_epochScore = None, res_commitment = None\<rparr>"

definition database_commitment ::
  "runtime \<Rightarrow> candidate_event \<Rightarrow> agent_decision \<Rightarrow> chain_source \<Rightarrow> pipeline_result act" where
  "database_commitment rt candidate decision source =
     bindS (recomputeDatabaseEpochScore rt candidate) (\<lambda>epochScore.
     bindS (upsertDatabasePendingCommitment rt epochScore) (\<lambda>commitment.
     announce_commitment rt candidate decision epochScore commitment source))"

definition memory_commitment ::
  "runtime \<Rightarrow> candidate_event \<Rightarrow> agent_decision \<Rightarrow> chain_source \<Rightarrow> pipeline_result act" where
  "memory_commitment rt candidate decision source =
     bindS (recomputeMemoryEpochScore rt candidate) (\<lambda>epochScore.
     bindS (getS (\<lambda>w. pendingCommitmentForEpochScore rt (w_now w) epochScore)) (\<lambda>commitment.
     bindS (modifyS (\<lambda>w. w\<lparr>
         memoryEpochScoresByKey := jm_set (epochKey (es_zoneId epochScore) (es_epochStart epochScore))
           epochScore (memoryEpochScoresByKey w),
         memoryCommitmentsByEpochScore := jm_set (es_id epochScore) commitment
           (memoryCommitmentsByEpochScore w)\<rparr>)) (\<lambda>_.
     announce_commitment rt candidate decision epochScore commitment source)))"

definition review_required ::
  "runtime \<Rightarrow> candidate_event \<Rightarrow> agent_decision \<Rightarrow> evidence_event option \<Rightarrow> simulation option \<Rightarrow>
     unit act" where
  "review_required rt candidate decision evidence simulation =
     bindS (queueAgentReview rt candidate evidence simulation) (\<lambda>_.
     emit (ReviewRequired (ca_id candidate) (ca_zoneId candidate) (ad_hypothesis decision)))"

text \<open>The branches on the decision, with the backend's way to commit an epoch.\<close>

definition act_on_decision ::
  "runtime \<Rightarrow> candidate_event \<Rightarrow> agent_decision \<Rightarrow> evidence_event option \<Rightarrow> simulation option \<Rightarrow>
     pipeline_result act \<Rightarrow> pipeline_result act" where
  "act_on_decision rt candidate decision evidence simulation commit =
     (case ad_decision decision of
        Approve \<Rightarrow>
          (case simulation of
             Some sim \<Rightarrow>
               if \<not> sim_allowChainWrite sim
               then bindS (auditSimulationProofPreview rt candidate decision sim) (\<lambda>_.
                 returnS (decided decision))
               else commit
           | None \<Rightarrow> commit)
      | Escalate \<Rightarrow> bindS (review_required rt candidate decision evidence simulation) (\<lambda>_.
          returnS (decided decision))
      | Reject \<Rightarrow> returnS (decided decision))"

definition processCandidatePipeline ::
  "runtime \<Rightarrow> candidate_event \<Rightarrow> evidence_event option \<Rightarrow> simulation option \<Rightarrow> pipeline_result act" where
  "processCandidatePipeline rt candidate evidence simulation =
     bindS (randomUUID rt) (\<lambda>uuid.
     bindS (getS (\<lambda>w. decisionForCandidate uuid (w_now w) candidate)) (\<lambda>decision.
     if isDatabaseConfigured rt then
       bindS (upsertDatabaseDecision decision) (\<lambda>storedDecision.
       bindS (auditAgentDecision rt storedDecision candidate evidence) (\<lambda>_.
       bindS (count (\<lambda>c. c\<lparr>agentDecisions := agentDecisions c + 1\<rparr>)) (\<lambda>_.
       act_on_decision rt candidate storedDecision evidence simulation
         (database_commitment rt candidate storedDecision AgentAutoApproval))))
     else
       bindS (modifyS (\<lambda>w. w\<lparr>
         memoryDecisions := jm_set (ca_id candidate) decision (memoryDecisions w),
         memoryCandidatesById := jm_set (ca_id candidate) candidate (memoryCandidatesById w)\<rparr>)) (\<lambda>_.
       bindS (auditAgentDecision rt decision candidate evidence) (\<lambda>_.
       bindS (count (\<lambda>c. c\<lparr>agentDecisions := agentDecisions c + 1\<rparr>)) (\<lambda>_.
       act_on_decision rt candidate decision evidence simulation
         (memory_commitment rt candidate decision AgentAutoApproval))))))"

subsection \<open>Resolving a review\<close>

definition review_trace :: "agent_decision_status \<Rightarrow> agent_decision_status \<Rightarrow> string \<Rightarrow> string \<Rightarrow> json" where
  "review_trace initial decision note reviewedAt = JObj
     [(''initialDecision'', JStr (decision_string initial)),
      (''decision'', JStr (decision_string decision)),
      (''note'', JStr note), (''reviewedAt'', JStr reviewedAt)]"

definition review_not_found :: js_error where
  "review_not_found = http_error 404 ''REVIEW_NOT_FOUND'' ''Review item not found''"

definition reviewed_memory_decision ::
  "agent_decision \<Rightarrow> agent_decision_status \<Rightarrow> string \<Rightarrow> string \<Rightarrow> agent_decision" where
  "reviewed_memory_decision current reviewDecision note reviewedAt = current\<lparr>
     ad_decision := reviewDecision,
     ad_hypothesis := ad_hypothesis current @ '' Reviewer note: '' @ note,
     ad_reasoningTrace := AList.update ''review''
       (review_trace (ad_decision current) reviewDecision note reviewedAt) (ad_reasoningTrace current)\<rparr>"

definition resolve_memory ::
  "runtime \<Rightarrow> string \<Rightarrow> agent_decision_status \<Rightarrow> string \<Rightarrow> user option \<Rightarrow> pipeline_result act" where
  "resolve_memory rt decisionId reviewDecision note reviewer w =
     (case List.find (\<lambda>d. ad_id d = decisionId) (jm_values (memoryDecisions w)) of
        None \<Rightarrow> (Inl review_not_found, w)
      | Some current \<Rightarrow>
          let updated = reviewed_memory_decision current reviewDecision note (to_iso (w_now w)) in
          bindS (modifyS (\<lambda>w. w\<lparr>memoryDecisions :=
            jm_set (ad_candidateEventId current) updated (memoryDecisions w)\<rparr>)) (\<lambda>_.
          bindS (auditReviewDecision rt (Some current) updated note reviewer) (\<lambda>_ w.
          case List.find (\<lambda>c. ca_id c = ad_candidateEventId current) (jm_values (candidatesByKey w)) of
            None \<Rightarrow> (Inr (decided updated), w)
          | Some candidate \<Rightarrow>
              bindS (modifyS (\<lambda>w. w\<lparr>memoryCandidatesById :=
                jm_set (ca_id candidate) candidate (memoryCandidatesById w)\<rparr>)) (\<lambda>_.
              if reviewDecision = Approve
              then memory_commitment rt candidate updated ReviewApproval
              else returnS (decided updated)) w)) w)"

definition reviewed_row :: "string \<Rightarrow> agent_decision_status \<Rightarrow> string \<Rightarrow> decision_row \<Rightarrow> decision_row" where
  "reviewed_row reviewedAt reviewDecision note r = r\<lparr>
     dr_decision := reviewDecision,
     dr_hypothesis := dr_hypothesis r @ '' Reviewer note: '' @ note,
     dr_notification_draft := Some note,
     dr_reasoning_trace := AList.update ''review''
       (review_trace (dr_decision r) reviewDecision note reviewedAt) (dr_reasoning_trace r)\<rparr>"

definition resolve_database ::
  "runtime \<Rightarrow> string \<Rightarrow> agent_decision_status \<Rightarrow> string \<Rightarrow> user option \<Rightarrow> pipeline_result act" where
  "resolve_database rt decisionId reviewDecision note reviewer w =
     (case sql_find dr_id (t_agent_decisions (db w)) decisionId of
        None \<Rightarrow> (Inl review_not_found, w)
      | Some row \<Rightarrow>
          let upd = reviewed_row (to_iso (w_now w)) reviewDecision note;
              mappedDecision = mapDecisionRow (upd row) in
          bindS (modify_db (\<lambda>t. t\<lparr>t_agent_decisions :=
            sql_update (\<lambda>r. dr_id r = decisionId) upd (t_agent_decisions t)\<rparr>)) (\<lambda>_.
          bindS (auditReviewDecision rt (Some (mapDecisionRow row)) mappedDecision note reviewer) (\<lambda>_.
          if ad_decision mappedDecision \<noteq> Approve then returnS (decided mappedDecision)
          else bindS (findDatabaseCandidate (ad_candidateEventId mappedDecision)) (\<lambda>candidate.
            database_commitment rt candidate mappedDecision ReviewApproval))) w)"

definition resolveReviewDecision ::
  "runtime \<Rightarrow> string \<Rightarrow> agent_decision_status \<Rightarrow> string \<Rightarrow> user option \<Rightarrow> pipeline_result act" where
  "resolveReviewDecision rt decisionId reviewDecision note reviewer =
     (if \<not> isDatabaseConfigured rt
      then resolve_memory rt decisionId reviewDecision note reviewer
      else resolve_database rt decisionId reviewDecision note reviewer)"

definition listMemoryEpochScores :: "string option \<Rightarrow> world \<Rightarrow> epoch_score list" where
  "listMemoryEpochScores zoneId w =
     filter (\<lambda>score. zoneId = None \<or> zoneId = Some [] \<or> zoneId = Some (es_zoneId score))
       (jm_values (memoryEpochScoresByKey w))"

definition listMemoryCommitments :: "world \<Rightarrow> chain_commitment list" where
  "listMemoryCommitments w = jm_values (memoryCommitmentsByEpochScore w)"

definition clearPipelineStore :: "world \<Rightarrow> world" where
  "clearPipelineStore w = w\<lparr>memoryDecisions := [], memoryCandidatesById := [],
     memoryEpochScoresByKey := [], memoryCommitmentsByEpochScore := []\<rparr>"

subsection \<open>Review items and alerts\<close>

definition listReviewItems :: "runtime \<Rightarrow> world \<Rightarrow> (agent_decision \<times> candidate_event) list" where
  "listReviewItems rt w =
     (if \<not> isDatabaseConfigured rt
      then List.map_filter (\<lambda>candidate. case jm_get (memoryDecisions w) (ca_id candidate) of
          None \<Rightarrow> None
        | Some decision \<Rightarrow> if ad_decision decision = Escalate then Some (decision, candidate) else None)
        (jm_values (candidatesByKey w))
      else map (\<lambda>(d, c). mapDecisionWithCandidateRow d c)
        (js_sort (\<lambda>(d, c) (d', c'). dr_created_at d' - dr_created_at d)
          (concat (map (\<lambda>d. map (Pair d) (filter (\<lambda>c. cr_id c = dr_candidate_event_id d)
              (t_candidate_events (db w))))
            (filter (\<lambda>d. dr_decision d = Escalate) (t_agent_decisions (db w)))))))"

record alert_review =
  rv_initialDecision :: agent_decision_status
  rv_decision :: agent_decision_status
  rv_note :: string
  rv_reviewedAt :: "string option"

record alert_item =
  al_id :: string
  al_candidateEventId :: string
  al_zoneId :: string
  al_status :: candidate_status
  al_confidence :: rat
  al_decision :: agent_decision_status
  al_hypothesis :: string
  al_supportingEvidenceIds :: "string list"
  al_review :: "alert_review option"
  al_createdAt :: string
  al_candidateCreatedAt :: string

definition initialHypothesis :: "string \<Rightarrow> string \<Rightarrow> string" where
  "initialHypothesis hypothesis reviewNote =
     (let suffix_text = '' Reviewer note: '' @ reviewNote in
      if suffix suffix_text hypothesis
      then take (length hypothesis - length suffix_text) hypothesis else hypothesis)"

definition alertFromDecision ::
  "agent_decision \<Rightarrow> candidate_event \<Rightarrow> alert_review option \<Rightarrow> alert_item" where
  "alertFromDecision decision candidate review =
     \<lparr>al_id = ad_id decision, al_candidateEventId = ca_id candidate,
      al_zoneId = ca_zoneId candidate, al_status = ca_status candidate,
      al_confidence = ad_confidence decision, al_decision = ad_decision decision,
      al_hypothesis = (case review of
         Some r \<Rightarrow> initialHypothesis (ad_hypothesis decision) (rv_note r)
       | None \<Rightarrow> ad_hypothesis decision),
      al_supportingEvidenceIds = ad_supportingEvidenceIds decision,
      al_review = review, al_createdAt = ad_createdAt decision,
      al_candidateCreatedAt = ca_createdAt candidate\<rparr>"

definition isAgentDecision :: "string option \<Rightarrow> agent_decision_status option" where
  "isAgentDecision value =
     (if value = Some ''approve'' then Some Approve
      else if value = Some ''escalate'' then Some Escalate
      else if value = Some ''reject'' then Some Reject else None)"

text \<open>A string that is not empty.\<close>

fun nonempty_string :: "json option \<Rightarrow> string option" where
  "nonempty_string (Some (JStr s)) = (if s = [] then None else Some s)"
| "nonempty_string _ = None"

definition directString :: "json_object option \<Rightarrow> string \<Rightarrow> string option" where
  "directString value key =
     (case value of None \<Rightarrow> None | Some obj \<Rightarrow> nonempty_string (map_of obj key))"

definition nestedString :: "json_object option \<Rightarrow> string \<Rightarrow> string \<Rightarrow> string option" where
  "nestedString value objectKey fieldKey =
     (case value of None \<Rightarrow> None | Some obj \<Rightarrow>
       (case map_of obj objectKey of
          Some (JObj nested) \<Rightarrow> nonempty_string (map_of nested fieldKey)
        | _ \<Rightarrow> None))"

text \<open>The guard shared by the readers of a review: a decision before, \<open>approve\<close> or \<open>reject\<close>
  after, a note that is not empty.\<close>

definition review_of ::
  "string option \<Rightarrow> string option \<Rightarrow> string option \<Rightarrow> string option \<Rightarrow> alert_review option" where
  "review_of initial decision note reviewedAt =
     (case (isAgentDecision initial, isAgentDecision decision, note) of
        (Some i, Some d, Some n) \<Rightarrow>
          if d = Escalate \<or> n = [] then None
          else Some \<lparr>rv_initialDecision = i, rv_decision = d, rv_note = n, rv_reviewedAt = reviewedAt\<rparr>
      | _ \<Rightarrow> None)"

definition memoryReviewForDecision :: "string \<Rightarrow> world \<Rightarrow> alert_review option" where
  "memoryReviewForDecision decisionId w =
     (case List.find (\<lambda>item. nestedString (au_after item) ''decision'' ''id'' = Some decisionId)
         (listMemoryAuditLogs (Some ''review.decision_resolved'') w) of
        None \<Rightarrow> None
      | Some audit \<Rightarrow> review_of (nestedString (au_before audit) ''decision'' ''decision'')
          (nestedString (au_after audit) ''decision'' ''decision'')
          (directString (au_after audit) ''note'') (Some (au_createdAt audit)))"

definition json_string :: "json option \<Rightarrow> string option" where
  "json_string j = (case j of Some (JStr s) \<Rightarrow> Some s | _ \<Rightarrow> None)"

definition reviewFromReasoningTrace :: "json_object \<Rightarrow> alert_review option" where
  "reviewFromReasoningTrace trace =
     (case map_of trace ''review'' of
        Some (JObj review) \<Rightarrow>
          (case json_string (map_of review ''reviewedAt'') of
             None \<Rightarrow> None
           | Some reviewedAt \<Rightarrow>
               if reviewedAt = [] then None
               else review_of (json_string (map_of review ''initialDecision''))
                 (json_string (map_of review ''decision'')) (json_string (map_of review ''note''))
                 (Some reviewedAt))
      | _ \<Rightarrow> None)"

text \<open>The columns of the lateral join: the initial decision, the note and the time of the newest
  audit entry of the decision's resolution.\<close>

record review_columns =
  rc_initial_decision :: "string option"
  rc_review_note :: "string option"
  rc_reviewed_at :: "int option"

definition review_columns_of :: "tables \<Rightarrow> string \<Rightarrow> review_columns" where
  "review_columns_of t decisionId =
     (case js_sort (\<lambda>a b. ar_created_at b - ar_created_at a)
         (filter (\<lambda>a. ar_action a = ''review.decision_resolved'' \<and>
            nestedString (ar_after a) ''decision'' ''id'' = Some decisionId) (t_audit_logs t)) of
        [] \<Rightarrow> \<lparr>rc_initial_decision = None, rc_review_note = None, rc_reviewed_at = None\<rparr>
      | a # _ \<Rightarrow> \<lparr>rc_initial_decision = nestedString (ar_before a) ''decision'' ''decision'',
          rc_review_note = directString (ar_after a) ''note'',
          rc_reviewed_at = Some (ar_created_at a)\<rparr>)"

definition reviewFromDecisionRow :: "decision_row \<Rightarrow> review_columns \<Rightarrow> alert_review option" where
  "reviewFromDecisionRow row cols =
     (case reviewFromReasoningTrace (dr_reasoning_trace row) of
        Some tracedReview \<Rightarrow> Some tracedReview
      | None \<Rightarrow>
          (case (review_of (rc_initial_decision cols) (Some (decision_string (dr_decision row)))
                (rc_review_note cols) (map_option to_iso (rc_reviewed_at cols)), rc_reviewed_at cols) of
             (Some r, Some _) \<Rightarrow> Some r
           | _ \<Rightarrow>
               let initialDecision = decisionForConfidence (dr_confidence row) in
               if initialDecision = dr_decision row \<or> dr_decision row = Escalate then None
               else (case dr_notification_draft row of
                   None \<Rightarrow> None
                 | Some draft \<Rightarrow> if draft = [] then None
                     else Some \<lparr>rv_initialDecision = initialDecision, rv_decision = dr_decision row,
                       rv_note = draft, rv_reviewedAt = None\<rparr>)))"

definition listAlertItems :: "runtime \<Rightarrow> nat \<Rightarrow> world \<Rightarrow> alert_item list" where
  "listAlertItems rt limit w =
     (if \<not> isDatabaseConfigured rt
      then take limit (js_sort (\<lambda>left right. rt_lc rt (al_createdAt right) (al_createdAt left))
        (List.map_filter (\<lambda>decision.
            case jm_get (memoryCandidatesById w) (ad_candidateEventId decision) of
              None \<Rightarrow> None
            | Some candidate \<Rightarrow> Some (alertFromDecision decision candidate
                (memoryReviewForDecision (ad_id decision) w)))
          (jm_values (memoryDecisions w))))
      else map (\<lambda>(d, c). alertFromDecision (mapDecisionRow d) (candidate_of_row c)
          (reviewFromDecisionRow d (review_columns_of (db w) (dr_id d))))
        (take limit (js_sort (\<lambda>(d, c) (d', c'). dr_created_at d' - dr_created_at d)
          (concat (map (\<lambda>d. map (Pair d) (filter (\<lambda>c. cr_id c = dr_candidate_event_id d)
              (t_candidate_events (db w)))) (t_agent_decisions (db w)))))))"

section \<open>Properties of the pure parts\<close>

lemma decision_thresholds:
  "decisionForConfidence c = Approve \<longleftrightarrow> AUTO_APPROVE_THRESHOLD \<le> c"
  "decisionForConfidence c = Escalate \<longleftrightarrow> ESCALATE_THRESHOLD \<le> c \<and> c < AUTO_APPROVE_THRESHOLD"
  "decisionForConfidence c = Reject \<longleftrightarrow> c < ESCALATE_THRESHOLD"
proof -
  have "ESCALATE_THRESHOLD \<le> AUTO_APPROVE_THRESHOLD"
    by (simp add: ESCALATE_THRESHOLD_def AUTO_APPROVE_THRESHOLD_def fl_eval)
  then show
    "decisionForConfidence c = Approve \<longleftrightarrow> AUTO_APPROVE_THRESHOLD \<le> c"
    "decisionForConfidence c = Escalate \<longleftrightarrow> ESCALATE_THRESHOLD \<le> c \<and> c < AUTO_APPROVE_THRESHOLD"
    "decisionForConfidence c = Reject \<longleftrightarrow> c < ESCALATE_THRESHOLD"
    by (auto simp: decisionForConfidence_def)
qed

lemma ceilings_below_approval:
  "CONFLICT_CONFIDENCE_CEILING < AUTO_APPROVE_THRESHOLD"
  "SINGLE_NODE_CEILING < AUTO_APPROVE_THRESHOLD"
  "ESCALATE_THRESHOLD \<le> MIN_GAP_CONFIDENCE"
  by (simp_all add: CONFLICT_CONFIDENCE_CEILING_def AUTO_APPROVE_THRESHOLD_def ESCALATE_THRESHOLD_def
      SINGLE_NODE_CEILING_def MIN_GAP_CONFIDENCE_def fl_eval)

lemma floor_epoch_bounds: "floor_epoch_ms t \<le> t" "t < floor_epoch_ms t + EPOCH_DURATION_MS"
proof -
  have pos: "0 < EPOCH_DURATION_MS" by (simp add: EPOCH_DURATION_MS_def)
  have "t = t div EPOCH_DURATION_MS * EPOCH_DURATION_MS + t mod EPOCH_DURATION_MS" by simp
  with pos_mod_bound[OF pos, of t] pos_mod_sign[OF pos, of t]
  show "floor_epoch_ms t \<le> t" "t < floor_epoch_ms t + EPOCH_DURATION_MS"
    unfolding floor_epoch_ms_def by linarith+
qed

lemma floor_epoch_idem [simp]: "floor_epoch_ms (floor_epoch_ms t) = floor_epoch_ms t"
  by (simp add: floor_epoch_ms_def EPOCH_DURATION_MS_def)

lemma floor_epoch_eq_iff:
  "floor_epoch_ms s = floor_epoch_ms t \<longleftrightarrow>
     floor_epoch_ms t \<le> s \<and> s < floor_epoch_ms t + EPOCH_DURATION_MS"
proof
  assume "floor_epoch_ms s = floor_epoch_ms t"
  with floor_epoch_bounds[of s] show "floor_epoch_ms t \<le> s \<and> s < floor_epoch_ms t + EPOCH_DURATION_MS"
    by simp
next
  assume *: "floor_epoch_ms t \<le> s \<and> s < floor_epoch_ms t + EPOCH_DURATION_MS"
  let ?q = "t div EPOCH_DURATION_MS"
  have "s div EPOCH_DURATION_MS = ?q"
    using * by (intro int_div_pos_eq[of _ _ _ "s - ?q * EPOCH_DURATION_MS"])
      (simp_all add: floor_epoch_ms_def algebra_simps)
  then show "floor_epoch_ms s = floor_epoch_ms t" by (simp add: floor_epoch_ms_def)
qed

lemma fdiv_share_bounds:
  assumes "u \<le> n"
  shows "0 \<le> fdiv (of_nat u) (of_nat n)" "fdiv (of_nat u) (of_nat n) \<le> 1"
proof -
  show "0 \<le> fdiv (of_nat u) (of_nat n)" unfolding fdiv_def by (intro fl_nonneg) simp
  have "(of_nat u :: rat) / of_nat n \<le> 1"
    using assms by (cases "n = 0") (simp_all add: divide_le_eq)
  from fl_mono[OF this] show "fdiv (of_nat u) (of_nat n) \<le> 1" by (simp add: fdiv_def)
qed

lemma uptime_bps_bounds: "0 \<le> uptime_bps cs" "uptime_bps cs \<le> 10000"
proof -
  let ?s = "fdiv (of_nat (length (filter (\<lambda>item. ca_status item = Restored) cs))) (of_nat (length cs))"
  have s: "0 \<le> ?s" "?s \<le> 1" by (intro fdiv_share_bounds length_filter_le)+
  have "0 \<le> fmul ?s 10000" unfolding fmul_def using s by (intro fl_nonneg) simp
  then show "0 \<le> uptime_bps cs" by (simp add: uptime_bps_def Let_def math_round_nonneg)
  have "fmul ?s 10000 \<le> fl 10000" unfolding fmul_def using s by (intro fl_mono) simp
  then have "fmul ?s 10000 \<le> of_int 10000" by simp
  from math_round_mono[OF this] have "math_round (fmul ?s 10000) \<le> 10000"
    by (simp only: math_round_of_int)
  then show "uptime_bps cs \<le> 10000" by (simp add: uptime_bps_def Let_def)
qed

lemma uptime_bps_extremes:
  assumes "cs \<noteq> []"
  shows "\<forall>c \<in> set cs. ca_status c = Restored \<Longrightarrow> uptime_bps cs = 10000"
    and "\<forall>c \<in> set cs. ca_status c = Outage \<Longrightarrow> uptime_bps cs = 0"
proof -
  have "math_round (fmul (fdiv (of_nat (length cs)) (of_nat (length cs))) 10000) = 10000"
  proof -
    have "fmul (fdiv (of_nat (length cs)) (of_nat (length cs))) 10000 = of_int 10000"
      using assms by (simp add: fdiv_def fmul_def)
    then show ?thesis by (simp only: math_round_of_int)
  qed
  then show "\<forall>c \<in> set cs. ca_status c = Restored \<Longrightarrow> uptime_bps cs = 10000"
    by (simp add: uptime_bps_def Let_def filter_id_conv[THEN iffD2] assms)
  assume "\<forall>c \<in> set cs. ca_status c = Outage"
  then have none: "filter (\<lambda>item. ca_status item = Restored) cs = []" by (auto simp: filter_empty_conv)
  show "uptime_bps cs = 0"
    unfolding uptime_bps_def none using math_round_of_int[of 0] by (simp add: fdiv_def fmul_def fl_0)
qed

text \<open>One more restored vote never lowers, one more outage vote never raises the uptime.\<close>

lemma uptime_bps_mono:
  assumes "cs \<noteq> []" "cs' \<noteq> []"
    and "length (filter (\<lambda>c. ca_status c = Restored) cs) * length cs' \<le>
      length (filter (\<lambda>c. ca_status c = Restored) cs') * length cs"
  shows "uptime_bps cs \<le> uptime_bps cs'"
proof -
  let ?u = "\<lambda>cs. length (filter (\<lambda>c. ca_status c = Restored) cs)"
  have pos: "0 < length cs" "0 < length cs'" using assms(1,2) by simp_all
  have "(of_nat (?u cs) :: rat) * of_nat (length cs') \<le> of_nat (?u cs') * of_nat (length cs)"
    using assms(3) by (simp only: of_nat_mult[symmetric] of_nat_le_iff)
  then have "(of_nat (?u cs) :: rat) / of_nat (length cs) \<le> of_nat (?u cs') / of_nat (length cs')"
    using pos by (simp only: pos_divide_le_eq pos_le_divide_eq times_divide_eq_left of_nat_0_less_iff)
  then have "fmul (fdiv (of_nat (?u cs)) (of_nat (length cs))) 10000 \<le>
      fmul (fdiv (of_nat (?u cs')) (of_nat (length cs'))) 10000"
    unfolding fmul_def fdiv_def by (intro fl_mono mult_right_mono) simp_all
  from math_round_mono[OF this] pos show ?thesis by (simp add: uptime_bps_def Let_def)
qed

subsection \<open>Running the auxiliary operations\<close>

named_theorems run_simps \<open>the effect of an operation that cannot fail, and what it leaves alone\<close>

lemma audit_log_runs [run_simps]:
  "bindS (appendAuditLog rt i) f w = f () (snd (appendAuditLog rt i w))"
  "fst (appendAuditLog rt i w) = Inr ()"
  by (simp_all add: appendAuditLog_def bindS_def)

lemma appendAuditLog_frame [run_simps]:
  "w_now (snd (appendAuditLog rt i w)) = w_now w"
  "w_counters (snd (appendAuditLog rt i w)) = w_counters w"
  "w_events (snd (appendAuditLog rt i w)) = w_events w"
  "memoryJobs (snd (appendAuditLog rt i w)) = memoryJobs w"
  "bullJobs (snd (appendAuditLog rt i w)) = bullJobs w"
  "memoryDecisions (snd (appendAuditLog rt i w)) = memoryDecisions w"
  "memoryCandidatesById (snd (appendAuditLog rt i w)) = memoryCandidatesById w"
  "memoryEpochScoresByKey (snd (appendAuditLog rt i w)) = memoryEpochScoresByKey w"
  "memoryCommitmentsByEpochScore (snd (appendAuditLog rt i w)) = memoryCommitmentsByEpochScore w"
  "evidenceByIdempotencyKey (snd (appendAuditLog rt i w)) = evidenceByIdempotencyKey w"
  "candidatesByKey (snd (appendAuditLog rt i w)) = candidatesByKey w"
  "t_users (db (snd (appendAuditLog rt i w))) = t_users (db w)"
  "t_zones (db (snd (appendAuditLog rt i w))) = t_zones (db w)"
  "t_providers (db (snd (appendAuditLog rt i w))) = t_providers (db w)"
  "t_evidence_events (db (snd (appendAuditLog rt i w))) = t_evidence_events (db w)"
  "t_candidate_events (db (snd (appendAuditLog rt i w))) = t_candidate_events (db w)"
  "t_agent_decisions (db (snd (appendAuditLog rt i w))) = t_agent_decisions (db w)"
  "t_epoch_scores (db (snd (appendAuditLog rt i w))) = t_epoch_scores (db w)"
  "t_chain_commitments (db (snd (appendAuditLog rt i w))) = t_chain_commitments (db w)"
  by (simp_all add: appendAuditLog_def)

lemma emit_apply: "emit e w = (Inr (), w\<lparr>w_events := w_events w @ [e]\<rparr>)"
  by (simp add: emit_def)

definition queued_record :: "runtime \<Rightarrow> agent_review_job \<Rightarrow> world \<Rightarrow> queued_job" where
  "queued_record rt data w = (case fst (enqueueAgentReviewJob rt data w) of Inr j \<Rightarrow> j)"

lemma enqueue_run [run_simps]:
  "bindS (enqueueAgentReviewJob rt data) f w =
     f (queued_record rt data w) (snd (enqueueAgentReviewJob rt data w))"
  by (simp add: enqueueAgentReviewJob_def enqueueMemoryJob_def bindS_def queued_record_def Let_def
      split: option.split)

lemma enqueue_frame [run_simps]:
  "w_now (snd (enqueueAgentReviewJob rt data w)) = w_now w"
  "w_counters (snd (enqueueAgentReviewJob rt data w)) = w_counters w"
  "w_events (snd (enqueueAgentReviewJob rt data w)) = w_events w"
  "memoryDecisions (snd (enqueueAgentReviewJob rt data w)) = memoryDecisions w"
  "memoryCandidatesById (snd (enqueueAgentReviewJob rt data w)) = memoryCandidatesById w"
  "memoryEpochScoresByKey (snd (enqueueAgentReviewJob rt data w)) = memoryEpochScoresByKey w"
  "memoryCommitmentsByEpochScore (snd (enqueueAgentReviewJob rt data w)) = memoryCommitmentsByEpochScore w"
  "evidenceByIdempotencyKey (snd (enqueueAgentReviewJob rt data w)) = evidenceByIdempotencyKey w"
  "candidatesByKey (snd (enqueueAgentReviewJob rt data w)) = candidatesByKey w"
  "db (snd (enqueueAgentReviewJob rt data w)) = db w"
  by (simp_all add: enqueueAgentReviewJob_def enqueueMemoryJob_def Let_def split: option.split)

definition jobs_of :: "world \<Rightarrow> agent_review_job multiset" where
  "jobs_of w = mset (map qj_data (memoryJobs w)) + mset (bullJobs w)"

lemma jobs_of_append [run_simps]: "jobs_of (snd (appendAuditLog rt i w)) = jobs_of w"
  by (simp add: jobs_of_def run_simps)

lemma jobs_of_enqueue [run_simps]:
  "jobs_of (snd (enqueueAgentReviewJob rt data w)) = add_mset data (jobs_of w)"
  by (simp add: jobs_of_def enqueueAgentReviewJob_def enqueueMemoryJob_def Let_def split: option.split)

lemma jobs_of_frame [simp]:
  "jobs_of (w\<lparr>w_uuids := a\<rparr>) = jobs_of w" "jobs_of (w\<lparr>w_counters := b\<rparr>) = jobs_of w"
  "jobs_of (w\<lparr>w_events := c\<rparr>) = jobs_of w" "jobs_of (w\<lparr>db := d\<rparr>) = jobs_of w"
  "jobs_of (w\<lparr>memoryDecisions := e\<rparr>) = jobs_of w" "jobs_of (w\<lparr>memoryCandidatesById := f\<rparr>) = jobs_of w"
  "jobs_of (w\<lparr>memoryEpochScoresByKey := g\<rparr>) = jobs_of w"
  "jobs_of (w\<lparr>memoryCommitmentsByEpochScore := h\<rparr>) = jobs_of w"
  by (simp_all add: jobs_of_def)

lemma audits_run [run_simps]:
  "bindS (auditAgentDecision rt d c e) f w = f () (snd (auditAgentDecision rt d c e w))"
  "bindS (auditChainQueued rt s m src) f w = f () (snd (auditChainQueued rt s m src w))"
  "bindS (auditSimulationProofPreview rt c d sim) f w = f () (snd (auditSimulationProofPreview rt c d sim w))"
  "bindS (auditReviewDecision rt b a n r) f w = f () (snd (auditReviewDecision rt b a n r w))"
  by (simp_all add: auditAgentDecision_def auditChainQueued_def auditSimulationProofPreview_def
      auditReviewDecision_def run_simps)

lemmas audit_defs = auditAgentDecision_def auditChainQueued_def auditSimulationProofPreview_def
  auditReviewDecision_def

lemma announce_run:
  "announce_commitment rt candidate decision s m src w =
    (Inr \<lparr>res_decision = decision, res_epochScore = Some s, res_commitment = Some m\<rparr>,
     let w' = snd (auditChainQueued rt s m src w) in
     w'\<lparr>w_counters := w_counters w\<lparr>chainSubmissions := chainSubmissions (w_counters w) + 1\<rparr>,
        w_events := w_events w @ [ChainCommitted (ca_zoneId candidate) (Some (es_epochStart s))
          (or_else (cc_txHash m) []) (cc_status m)]\<rparr>)"
  by (simp add: announce_commitment_def audit_defs run_simps Let_def)

lemma review_required_run [run_simps]:
  "bindS (review_required rt c d e sim) f w = f () (snd (review_required rt c d e sim w))"
  "fst (review_required rt c d e sim w) = Inr ()"
  by (simp_all add: review_required_def queueAgentReview_def bindS_assoc run_simps emit_apply)

subsection \<open>The memory backend\<close>

definition date_range :: "int \<Rightarrow> bool" where
  "date_range t \<longleftrightarrow> 0 \<le> t \<and> t < 253402300800000"

lemma date_range_floor: "date_range t \<Longrightarrow> date_range (floor_epoch_ms t)"
  using floor_epoch_bounds[of t] by (simp add: date_range_def floor_epoch_ms_def EPOCH_DURATION_MS_def)

lemma date_parse_iso: "date_range t \<Longrightarrow> date_parse (to_iso t) = Some t"
  by (simp add: date_range_def date_parse_to_iso)

text \<open>The approved candidates of a zone whose window ends in the hour of \<open>t\<close>.\<close>

definition in_epoch :: "int \<Rightarrow> string \<Rightarrow> bool" where
  "in_epoch t isoDate \<longleftrightarrow> (\<exists>t'. date_parse isoDate = Some t' \<and> floor_epoch_ms t' = floor_epoch_ms t)"

definition epoch_members :: "world \<Rightarrow> string \<Rightarrow> int \<Rightarrow> candidate_event set" where
  "epoch_members w zoneId t = {c \<in> set (jm_values (memoryCandidatesById w)).
     ca_zoneId c = zoneId \<and> in_epoch t (ca_windowEnd c) \<and>
     (\<exists>d. jm_get (memoryDecisions w) (ca_id c) = Some d \<and> ad_decision d = Approve)}"

definition memory_approved :: "runtime \<Rightarrow> world \<Rightarrow> string \<Rightarrow> int \<Rightarrow> candidate_event list" where
  "memory_approved rt w zoneId t = js_sort
     (\<lambda>a b. if rt_lc rt (ca_windowEnd a) (ca_windowEnd b) \<noteq> 0
        then rt_lc rt (ca_windowEnd a) (ca_windowEnd b) else rt_lc rt (ca_id a) (ca_id b))
     (filter (\<lambda>item. ca_zoneId item = zoneId \<and>
        opt_any (\<lambda>d. ad_decision d = Approve) (jm_get (memoryDecisions w) (ca_id item)) \<and>
        opt_any (\<lambda>t'. t' \<ge> floor_epoch_ms t \<and> t' < floor_epoch_ms t + EPOCH_DURATION_MS)
          (date_parse (ca_windowEnd item)))
       (jm_values (memoryCandidatesById w)))"

lemma opt_any_iff: "opt_any P x \<longleftrightarrow> (\<exists>v. x = Some v \<and> P v)"
  by (cases x) auto

lemma set_memory_approved: "set (memory_approved rt w zoneId t) = epoch_members w zoneId t"
  by (auto simp: memory_approved_def epoch_members_def in_epoch_def opt_any_iff floor_epoch_eq_iff)

lemma recompute_memory:
  assumes "date_parse (ca_windowEnd candidate) = Some t" "date_range t"
  shows "recomputeMemoryEpochScore rt candidate w =
    (Inr (epochScoreForApprovedCandidates rt (w_now w) (ca_zoneId candidate) (to_iso (floor_epoch_ms t))
       (memory_approved rt w (ca_zoneId candidate) t)), w)"
  using assms date_parse_iso[OF date_range_floor[OF assms(2)]]
  by (simp add: recomputeMemoryEpochScore_def floorToEpoch_def memory_approved_def)

definition memory_score :: "runtime \<Rightarrow> world \<Rightarrow> candidate_event \<Rightarrow> int \<Rightarrow> epoch_score" where
  "memory_score rt w candidate t =
     epochScoreForApprovedCandidates rt (w_now w) (ca_zoneId candidate) (to_iso (floor_epoch_ms t))
       (memory_approved rt w (ca_zoneId candidate) t)"

text \<open>What an approval leaves in the memory stores.\<close>

lemma memory_commitment_run:
  assumes "date_parse (ca_windowEnd candidate) = Some t" "date_range t"
  shows "\<exists>w'. memory_commitment rt candidate decision source w =
      (Inr \<lparr>res_decision = decision, res_epochScore = Some (memory_score rt w candidate t),
         res_commitment = Some (pendingCommitmentForEpochScore rt (w_now w) (memory_score rt w candidate t))\<rparr>, w') \<and>
    w_now w' = w_now w \<and> memoryDecisions w' = memoryDecisions w \<and>
    memoryCandidatesById w' = memoryCandidatesById w \<and> candidatesByKey w' = candidatesByKey w \<and>
    evidenceByIdempotencyKey w' = evidenceByIdempotencyKey w \<and> jobs_of w' = jobs_of w \<and>
    memoryEpochScoresByKey w' = jm_set (epochKey (ca_zoneId candidate) (to_iso (floor_epoch_ms t)))
      (memory_score rt w candidate t) (memoryEpochScoresByKey w) \<and>
    memoryCommitmentsByEpochScore w' = jm_set (es_id (memory_score rt w candidate t))
      (pendingCommitmentForEpochScore rt (w_now w) (memory_score rt w candidate t))
      (memoryCommitmentsByEpochScore w) \<and>
    w_counters w' = w_counters w\<lparr>chainSubmissions := chainSubmissions (w_counters w) + 1\<rparr> \<and>
    w_events w' = w_events w @ [ChainCommitted (ca_zoneId candidate) (Some (to_iso (floor_epoch_ms t))) [] Pending]"
proof -
  have sel: "es_zoneId (memory_score rt w candidate t) = ca_zoneId candidate"
    "es_epochStart (memory_score rt w candidate t) = to_iso (floor_epoch_ms t)"
    by (simp_all add: memory_score_def epochScoreForApprovedCandidates_def)
  show ?thesis
    unfolding memory_commitment_def
    by (simp add: bindS_Inr[OF recompute_memory[OF assms]] memory_score_def[symmetric] announce_run
        sel Let_def audit_defs run_simps pendingCommitmentForEpochScore_def)
qed

text \<open>The decision of the gate and the stores in which the branches of the pipeline start.\<close>

definition gate_decision :: "runtime \<Rightarrow> world \<Rightarrow> candidate_event \<Rightarrow> agent_decision" where
  "gate_decision rt w candidate = decisionForCandidate (rt_uuid rt (w_uuids w)) (w_now w) candidate"

lemma gate_decision_sel [simp]:
  "ad_decision (gate_decision rt w c) = decisionForConfidence (ca_confidence c)"
  "ad_candidateEventId (gate_decision rt w c) = ca_id c"
  "ad_confidence (gate_decision rt w c) = ca_confidence c"
  "ad_agentName (gate_decision rt w c) = POLICY_GATE"
  by (simp_all add: gate_decision_def decisionForCandidate_def Let_def)

definition remembered :: "runtime \<Rightarrow> world \<Rightarrow> candidate_event \<Rightarrow> world \<Rightarrow> bool" where
  "remembered rt w candidate w' \<longleftrightarrow>
     w_now w' = w_now w \<and>
     memoryDecisions w' = jm_set (ca_id candidate) (gate_decision rt w candidate) (memoryDecisions w) \<and>
     memoryCandidatesById w' = jm_set (ca_id candidate) candidate (memoryCandidatesById w) \<and>
     evidenceByIdempotencyKey w' = evidenceByIdempotencyKey w \<and>
     candidatesByKey w' = candidatesByKey w"

definition chain_allowed :: "simulation option \<Rightarrow> bool" where
  "chain_allowed simulation \<longleftrightarrow> opt_all sim_allowChainWrite simulation"

text \<open>The world in which the branches on the decision start.\<close>

definition after_gate ::
  "runtime \<Rightarrow> candidate_event \<Rightarrow> evidence_event option \<Rightarrow> world \<Rightarrow> world" where
  "after_gate rt candidate evidence w =
     (let w1 = w\<lparr>w_uuids := Suc (w_uuids w),
            memoryDecisions := jm_set (ca_id candidate) (gate_decision rt w candidate) (memoryDecisions w),
            memoryCandidatesById := jm_set (ca_id candidate) candidate (memoryCandidatesById w)\<rparr>;
          w2 = snd (auditAgentDecision rt (gate_decision rt w candidate) candidate evidence w1)
      in w2\<lparr>w_counters := w_counters w\<lparr>agentDecisions := agentDecisions (w_counters w) + 1\<rparr>\<rparr>)"

lemma process_memory:
  assumes "\<not> isDatabaseConfigured rt"
  shows "processCandidatePipeline rt candidate evidence simulation w =
    act_on_decision rt candidate (gate_decision rt w candidate) evidence simulation
      (memory_commitment rt candidate (gate_decision rt w candidate) AgentAutoApproval)
      (after_gate rt candidate evidence w)"
  using assms
  by (simp add: processCandidatePipeline_def gate_decision_def after_gate_def Let_def audit_defs run_simps)

lemma after_gate_frame [simp]:
  "w_now (after_gate rt c e w) = w_now w" "w_events (after_gate rt c e w) = w_events w"
  "jobs_of (after_gate rt c e w) = jobs_of w"
  "memoryDecisions (after_gate rt c e w) = jm_set (ca_id c) (gate_decision rt w c) (memoryDecisions w)"
  "memoryCandidatesById (after_gate rt c e w) = jm_set (ca_id c) c (memoryCandidatesById w)"
  "memoryEpochScoresByKey (after_gate rt c e w) = memoryEpochScoresByKey w"
  "memoryCommitmentsByEpochScore (after_gate rt c e w) = memoryCommitmentsByEpochScore w"
  "evidenceByIdempotencyKey (after_gate rt c e w) = evidenceByIdempotencyKey w"
  "candidatesByKey (after_gate rt c e w) = candidatesByKey w"
  "w_counters (after_gate rt c e w) = w_counters w\<lparr>agentDecisions := agentDecisions (w_counters w) + 1\<rparr>"
  by (simp_all add: after_gate_def Let_def audit_defs run_simps)

lemma remembered_after_gate: "remembered rt w c (after_gate rt c e w)"
  by (simp add: remembered_def)

lemma process_memory_approve:
  assumes "\<not> isDatabaseConfigured rt" "AUTO_APPROVE_THRESHOLD \<le> ca_confidence candidate"
    and "chain_allowed simulation" "date_parse (ca_windowEnd candidate) = Some t" "date_range t"
  shows "\<exists>w' score commitment.
    processCandidatePipeline rt candidate evidence simulation w =
      (Inr \<lparr>res_decision = gate_decision rt w candidate, res_epochScore = Some score,
         res_commitment = Some commitment\<rparr>, w') \<and>
    remembered rt w candidate w' \<and>
    score = memory_score rt w' candidate t \<and>
    commitment = pendingCommitmentForEpochScore rt (w_now w) score \<and>
    memoryEpochScoresByKey w' = jm_set (epochKey (ca_zoneId candidate) (to_iso (floor_epoch_ms t)))
      score (memoryEpochScoresByKey w) \<and>
    memoryCommitmentsByEpochScore w' = jm_set (es_id score) commitment (memoryCommitmentsByEpochScore w) \<and>
    jobs_of w' = jobs_of w \<and>
    w_counters w' = w_counters w\<lparr>agentDecisions := agentDecisions (w_counters w) + 1,
      chainSubmissions := chainSubmissions (w_counters w) + 1\<rparr>"
proof -
  let ?w1 = "after_gate rt candidate evidence w"
  obtain w' where run: "memory_commitment rt candidate (gate_decision rt w candidate) AgentAutoApproval ?w1 =
      (Inr \<lparr>res_decision = gate_decision rt w candidate,
         res_epochScore = Some (memory_score rt ?w1 candidate t),
         res_commitment = Some (pendingCommitmentForEpochScore rt (w_now ?w1) (memory_score rt ?w1 candidate t))\<rparr>, w')"
    and frame: "w_now w' = w_now ?w1" "memoryDecisions w' = memoryDecisions ?w1"
      "memoryCandidatesById w' = memoryCandidatesById ?w1" "candidatesByKey w' = candidatesByKey ?w1"
      "evidenceByIdempotencyKey w' = evidenceByIdempotencyKey ?w1" "jobs_of w' = jobs_of ?w1"
      "memoryEpochScoresByKey w' = jm_set (epochKey (ca_zoneId candidate) (to_iso (floor_epoch_ms t)))
        (memory_score rt ?w1 candidate t) (memoryEpochScoresByKey ?w1)"
      "memoryCommitmentsByEpochScore w' = jm_set (es_id (memory_score rt ?w1 candidate t))
        (pendingCommitmentForEpochScore rt (w_now ?w1) (memory_score rt ?w1 candidate t))
        (memoryCommitmentsByEpochScore ?w1)"
      "w_counters w' = w_counters ?w1\<lparr>chainSubmissions := chainSubmissions (w_counters ?w1) + 1\<rparr>"
    using memory_commitment_run[OF assms(4,5)] by blast
  have same: "memory_score rt ?w1 candidate t = memory_score rt w' candidate t"
    using frame by (simp add: memory_score_def memory_approved_def)
  have "decisionForConfidence (ca_confidence candidate) = Approve"
    using assms(2) by (simp add: decision_thresholds)
  then have "processCandidatePipeline rt candidate evidence simulation w =
      memory_commitment rt candidate (gate_decision rt w candidate) AgentAutoApproval ?w1"
    using assms(1,3)
    by (cases simulation) (simp_all add: process_memory act_on_decision_def chain_allowed_def)
  with run frame same show ?thesis by (simp add: remembered_def)
qed

text \<open>Without a commitment the stores of scores and commitments stay as they are.\<close>

definition same_chain_stores :: "world \<Rightarrow> world \<Rightarrow> bool" where
  "same_chain_stores w w' \<longleftrightarrow>
     memoryEpochScoresByKey w' = memoryEpochScoresByKey w \<and>
     memoryCommitmentsByEpochScore w' = memoryCommitmentsByEpochScore w \<and>
     t_epoch_scores (db w') = t_epoch_scores (db w) \<and>
     t_chain_commitments (db w') = t_chain_commitments (db w) \<and>
     chainSubmissions (w_counters w') = chainSubmissions (w_counters w)"

definition review_job :: "candidate_event \<Rightarrow> evidence_event option \<Rightarrow> simulation option \<Rightarrow> agent_review_job" where
  "review_job candidate evidence simulation =
     \<lparr>jb_candidate = candidate, jb_evidence = (case evidence of None \<Rightarrow> [] | Some e \<Rightarrow> [e]),
      jb_providers = [], jb_simulation = simulation\<rparr>"

lemma review_required_frame [run_simps]:
  "jobs_of (snd (review_required rt c d e sim w)) = add_mset (review_job c e sim) (jobs_of w)"
  "w_events (snd (review_required rt c d e sim w)) =
     w_events w @ [ReviewRequired (ca_id c) (ca_zoneId c) (ad_hypothesis d)]"
  "w_now (snd (review_required rt c d e sim w)) = w_now w"
  "w_counters (snd (review_required rt c d e sim w)) = w_counters w"
  "memoryDecisions (snd (review_required rt c d e sim w)) = memoryDecisions w"
  "memoryCandidatesById (snd (review_required rt c d e sim w)) = memoryCandidatesById w"
  "memoryEpochScoresByKey (snd (review_required rt c d e sim w)) = memoryEpochScoresByKey w"
  "memoryCommitmentsByEpochScore (snd (review_required rt c d e sim w)) = memoryCommitmentsByEpochScore w"
  "evidenceByIdempotencyKey (snd (review_required rt c d e sim w)) = evidenceByIdempotencyKey w"
  "candidatesByKey (snd (review_required rt c d e sim w)) = candidatesByKey w"
  "t_users (db (snd (review_required rt c d e sim w))) = t_users (db w)"
  "t_providers (db (snd (review_required rt c d e sim w))) = t_providers (db w)"
  "t_evidence_events (db (snd (review_required rt c d e sim w))) = t_evidence_events (db w)"
  "t_candidate_events (db (snd (review_required rt c d e sim w))) = t_candidate_events (db w)"
  "t_agent_decisions (db (snd (review_required rt c d e sim w))) = t_agent_decisions (db w)"
  "t_epoch_scores (db (snd (review_required rt c d e sim w))) = t_epoch_scores (db w)"
  "t_chain_commitments (db (snd (review_required rt c d e sim w))) = t_chain_commitments (db w)"
  by (simp_all add: review_required_def queueAgentReview_def bindS_assoc run_simps emit_apply review_job_def)

lemma after_gate_tables [simp]:
  "t_epoch_scores (db (after_gate rt c e w)) = t_epoch_scores (db w)"
  "t_chain_commitments (db (after_gate rt c e w)) = t_chain_commitments (db w)"
  by (simp_all add: after_gate_def Let_def audit_defs run_simps)

lemma process_memory_escalate:
  assumes "\<not> isDatabaseConfigured rt"
    and "ESCALATE_THRESHOLD \<le> ca_confidence candidate" "ca_confidence candidate < AUTO_APPROVE_THRESHOLD"
  shows "\<exists>w'. processCandidatePipeline rt candidate evidence simulation w =
      (Inr (decided (gate_decision rt w candidate)), w') \<and>
    remembered rt w candidate w' \<and> same_chain_stores w w' \<and>
    jobs_of w' = add_mset (review_job candidate evidence simulation) (jobs_of w) \<and>
    w_events w' = w_events w @ [ReviewRequired (ca_id candidate) (ca_zoneId candidate)
      (ad_hypothesis (gate_decision rt w candidate))]"
proof -
  have "decisionForConfidence (ca_confidence candidate) = Escalate"
    using assms(2,3) by (simp add: decision_thresholds)
  then show ?thesis
    using assms(1) by (simp add: process_memory act_on_decision_def run_simps remembered_def same_chain_stores_def)
qed

lemma process_memory_reject:
  assumes "\<not> isDatabaseConfigured rt" "ca_confidence candidate < ESCALATE_THRESHOLD"
  shows "\<exists>w'. processCandidatePipeline rt candidate evidence simulation w =
      (Inr (decided (gate_decision rt w candidate)), w') \<and>
    remembered rt w candidate w' \<and> same_chain_stores w w' \<and>
    jobs_of w' = jobs_of w \<and> w_events w' = w_events w"
proof -
  have "decisionForConfidence (ca_confidence candidate) = Reject"
    using assms(2) by (simp add: decision_thresholds)
  then show ?thesis
    using assms(1) by (simp add: process_memory act_on_decision_def remembered_def same_chain_stores_def)
qed

subsection \<open>A simulation without chain writes\<close>

text \<open>In both backends, whatever the confidence: no score, no commitment, no submission is counted.\<close>

lemma upsert_decision_frame:
  assumes "upsertDatabaseDecision d w = (r, w')"
  shows "t_epoch_scores (db w') = t_epoch_scores (db w)"
    "t_chain_commitments (db w') = t_chain_commitments (db w)"
    "memoryEpochScoresByKey w' = memoryEpochScoresByKey w"
    "memoryCommitmentsByEpochScore w' = memoryCommitmentsByEpochScore w"
    "w_counters w' = w_counters w" "w_now w' = w_now w" "jobs_of w' = jobs_of w"
    "t_candidate_events (db w') = t_candidate_events (db w)" "w_events w' = w_events w"
  using assms
  by (auto simp: upsertDatabaseDecision_def db_timestamp_def bindS_def Let_def jobs_of_def
      split: option.splits if_splits prod.splits)

lemma act_on_preview:
  "same_chain_stores w (snd (act_on_decision rt c d e (Some sim) commit w))"
  if "\<not> sim_allowChainWrite sim"
  using that
  by (cases "ad_decision d") (simp_all add: act_on_decision_def run_simps audit_defs same_chain_stores_def)

lemma same_chain_stores_trans:
  "same_chain_stores a b \<Longrightarrow> same_chain_stores b c \<Longrightarrow> same_chain_stores a c"
  by (simp add: same_chain_stores_def)

lemma simulation_preview_no_chain:
  assumes "\<not> sim_allowChainWrite sim"
  shows "same_chain_stores w (snd (processCandidatePipeline rt candidate evidence (Some sim) w))"
proof (cases "isDatabaseConfigured rt")
  case False
  have "same_chain_stores w (after_gate rt candidate evidence w)"
    by (simp add: same_chain_stores_def)
  with act_on_preview[OF assms] False show ?thesis
    by (auto simp: process_memory intro: same_chain_stores_trans)
next
  case True
  let ?w = "w\<lparr>w_uuids := Suc (w_uuids w)\<rparr>"
  obtain r w1 where up: "upsertDatabaseDecision (gate_decision rt w candidate) ?w = (r, w1)" by fastforce
  note fr = upsert_decision_frame[OF up]
  show ?thesis
  proof (cases r)
    case (Inl err)
    with True up fr show ?thesis
      by (simp add: processCandidatePipeline_def gate_decision_def[symmetric] bindS_Inl same_chain_stores_def)
  next
    case (Inr stored)
    define w2 where "w2 = (snd (auditAgentDecision rt stored candidate evidence w1))\<lparr>
      w_counters := w_counters w1\<lparr>agentDecisions := agentDecisions (w_counters w1) + 1\<rparr>\<rparr>"
    have "processCandidatePipeline rt candidate evidence (Some sim) w =
        act_on_decision rt candidate stored evidence (Some sim)
          (database_commitment rt candidate stored AgentAutoApproval) w2"
      using True up Inr
      by (simp add: processCandidatePipeline_def gate_decision_def[symmetric] bindS_Inr run_simps audit_defs w2_def)
    moreover have "same_chain_stores w w2"
      using fr by (simp add: same_chain_stores_def w2_def audit_defs run_simps)
    ultimately show ?thesis using act_on_preview[OF assms] by (auto intro: same_chain_stores_trans)
  qed
qed

subsection \<open>The database backend\<close>

text \<open>Rows of approved candidates of a zone whose window ends in the hour of \<open>t\<close>.\<close>

definition epoch_row_members :: "tables \<Rightarrow> string \<Rightarrow> int \<Rightarrow> candidate_row set" where
  "epoch_row_members tb zoneId t = {c \<in> set (t_candidate_events tb). cr_zone_id c = zoneId \<and>
     floor_epoch_ms (cr_window_end c) = floor_epoch_ms t \<and>
     (\<exists>d \<in> set (t_agent_decisions tb). dr_candidate_event_id d = cr_id c \<and> dr_decision d = Approve)}"

lemma set_approved_rows:
  "set (approved_rows tb zoneId (floor_epoch_ms t) (floor_epoch_ms t + EPOCH_DURATION_MS)) =
     epoch_row_members tb zoneId t"
  by (auto simp: approved_rows_def epoch_row_members_def floor_epoch_eq_iff)

text \<open>The join selects a candidate once for each decision that approves it.\<close>

definition approvals :: "tables \<Rightarrow> candidate_row \<Rightarrow> nat" where
  "approvals tb c = length (filter (\<lambda>d. dr_candidate_event_id d = cr_id c \<and> dr_decision d = Approve) (t_agent_decisions tb))"

definition hour_rows :: "tables \<Rightarrow> string \<Rightarrow> int \<Rightarrow> candidate_row multiset" where
  "hour_rows tb zoneId t = filter_mset (\<lambda>c. cr_zone_id c = zoneId \<and>
     floor_epoch_ms (cr_window_end c) = floor_epoch_ms t) (mset (t_candidate_events tb))"

lemma mset_copies:
  "mset (concat (map (\<lambda>c. map (\<lambda>d. c) (g c)) xs)) = (\<Sum>c \<in># mset xs. replicate_mset (length (g c)) c)"
proof (induction xs)
  case (Cons x xs)
  have "mset (map (\<lambda>d. x) ds) = replicate_mset (length ds) x" for ds :: "'b list"
    by (induction ds) simp_all
  with Cons show ?case by simp
qed simp

lemma mset_approved_rows:
  "mset (approved_rows tb zoneId (floor_epoch_ms t) (floor_epoch_ms t + EPOCH_DURATION_MS)) =
     (\<Sum>c \<in># hour_rows tb zoneId t. replicate_mset (approvals tb c) c)"
proof -
  have eq: "(\<lambda>c. cr_zone_id c = zoneId \<and> floor_epoch_ms t \<le> cr_window_end c \<and> cr_window_end c < floor_epoch_ms t + EPOCH_DURATION_MS) =
      (\<lambda>c. cr_zone_id c = zoneId \<and> floor_epoch_ms (cr_window_end c) = floor_epoch_ms t)"
    by (auto simp: floor_epoch_eq_iff fun_eq_iff)
  show ?thesis
    unfolding approved_rows_def mset_js_sort mset_copies hour_rows_def approvals_def mset_filter eq ..
qed

definition database_score :: "runtime \<Rightarrow> world \<Rightarrow> candidate_event \<Rightarrow> int \<Rightarrow> epoch_score" where
  "database_score rt w candidate t =
     epochScoreForApprovedCandidates rt (w_now w) (ca_zoneId candidate) (to_iso (floor_epoch_ms t))
       (map candidate_of_row (approved_rows (db w) (ca_zoneId candidate) (floor_epoch_ms t)
         (floor_epoch_ms t + EPOCH_DURATION_MS)))"

definition stored_epoch :: "runtime \<Rightarrow> world \<Rightarrow> candidate_event \<Rightarrow> int \<Rightarrow> epoch_row \<times> epoch_row list" where
  "stored_epoch rt w candidate t =
     (let s = database_score rt w candidate t in
      sql_upsert epoch_key (\<lambda>r. r\<lparr>ep_uptime_bps := es_uptimeBps s, ep_evidence_hash := es_evidenceHash s\<rparr>)
        \<lparr>ep_id = es_id s, ep_zone_id = ca_zoneId candidate, ep_epoch_start = floor_epoch_ms t,
         ep_uptime_bps = es_uptimeBps s, ep_evidence_hash = es_evidenceHash s, ep_created_at = w_now w\<rparr>
        (t_epoch_scores (db w)))"

lemma recompute_database:
  assumes "date_parse (ca_windowEnd candidate) = Some t" "date_range t"
  shows "recomputeDatabaseEpochScore rt candidate w =
    (Inr (epoch_of_row (fst (stored_epoch rt w candidate t))),
     w\<lparr>db := db w\<lparr>t_epoch_scores := snd (stored_epoch rt w candidate t)\<rparr>\<rparr>)"
  using assms date_parse_iso[OF date_range_floor[OF assms(2)]]
  by (simp add: recomputeDatabaseEpochScore_def floorToEpoch_def db_timestamp_def stored_epoch_def
      database_score_def epochScoreForApprovedCandidates_def Let_def case_prod_beta)

definition stored_commitment :: "runtime \<Rightarrow> world \<Rightarrow> epoch_score \<Rightarrow> commitment_row \<times> commitment_row list" where
  "stored_commitment rt w s =
     (let m = pendingCommitmentForEpochScore rt (w_now w) s in
      sql_upsert cm_epoch_score_id (\<lambda>r. r\<lparr>cm_status := Pending\<rparr>)
        \<lparr>cm_id = cc_id m, cm_epoch_score_id = es_id s, cm_tx_hash = None, cm_block_number = None,
         cm_status = Pending, cm_explorer_url = None, cm_created_at = w_now w, cm_confirmed_at = None\<rparr>
        (t_chain_commitments (db w)))"

lemma upsert_commitment_run:
  "upsertDatabasePendingCommitment rt s w =
    (Inr (commitment_of_row (fst (stored_commitment rt w s))),
     w\<lparr>db := db w\<lparr>t_chain_commitments := snd (stored_commitment rt w s)\<rparr>\<rparr>)"
  by (simp add: upsertDatabasePendingCommitment_def stored_commitment_def Let_def case_prod_beta
      pendingCommitmentForEpochScore_def)

lemma database_commitment_run:
  fixes rt :: runtime and w :: world
  assumes "date_parse (ca_windowEnd candidate) = Some t" "date_range t"
  defines "er \<equiv> stored_epoch rt w candidate t"
  defines "cr \<equiv> stored_commitment rt (w\<lparr>db := db w\<lparr>t_epoch_scores := snd er\<rparr>\<rparr>) (epoch_of_row (fst er))"
  shows "\<exists>w'. database_commitment rt candidate decision source w =
      (Inr \<lparr>res_decision = decision, res_epochScore = Some (epoch_of_row (fst er)),
         res_commitment = Some (commitment_of_row (fst cr))\<rparr>, w') \<and>
    t_epoch_scores (db w') = snd er \<and> t_chain_commitments (db w') = snd cr \<and>
    t_candidate_events (db w') = t_candidate_events (db w) \<and>
    t_agent_decisions (db w') = t_agent_decisions (db w) \<and>
    t_evidence_events (db w') = t_evidence_events (db w) \<and>
    t_providers (db w') = t_providers (db w) \<and> t_users (db w') = t_users (db w) \<and>
    jobs_of w' = jobs_of w \<and> w_now w' = w_now w \<and>
    w_counters w' = w_counters w\<lparr>chainSubmissions := chainSubmissions (w_counters w) + 1\<rparr>"
  by (simp add: database_commitment_def bindS_Inr[OF recompute_database[OF assms(1,2)]]
      bindS_Inr[OF upsert_commitment_run] announce_run Let_def audit_defs run_simps er_def cr_def jobs_of_def)

subsection \<open>The invariant of the tables\<close>

text \<open>Uniqueness as the indexes demand it, references between the tables, uptime in range.\<close>

definition tables_ok :: "tables \<Rightarrow> bool" where
  "tables_ok tb \<longleftrightarrow>
     distinct (map decision_key (t_agent_decisions tb)) \<and>
     distinct (map epoch_key (t_epoch_scores tb)) \<and>
     distinct (map cm_epoch_score_id (t_chain_commitments tb)) \<and>
     (\<forall>d \<in> set (t_agent_decisions tb). \<exists>c \<in> set (t_candidate_events tb). cr_id c = dr_candidate_event_id d) \<and>
     (\<forall>m \<in> set (t_chain_commitments tb). \<exists>s \<in> set (t_epoch_scores tb). ep_id s = cm_epoch_score_id m) \<and>
     (\<forall>s \<in> set (t_epoch_scores tb). 0 \<le> ep_uptime_bps s \<and> ep_uptime_bps s \<le> 10000)"

lemma sql_upsert_set:
  "set (snd (sql_upsert key upd r rows)) \<subseteq>
     {r} \<union> set rows \<union> {upd y | y. y \<in> set rows \<and> key y = key r}"
  by (auto simp: sql_upsert_def split: option.splits)

lemma sql_upsert_all:
  assumes "\<forall>y \<in> set rows. P y" "P r" "\<And>y. P y \<Longrightarrow> P (upd y)"
  shows "\<forall>y \<in> set (snd (sql_upsert key upd r rows)). P y"
  using assms by (auto simp: sql_upsert_def split: option.splits)

lemma sql_upsert_fst:
  assumes "\<And>x. key (upd x) = key x"
  shows "fst (sql_upsert key upd r rows) \<in> set (snd (sql_upsert key upd r rows))"
  using assms by (auto simp: sql_upsert_def dest: sql_find_Some split: option.splits)

lemma sql_upsert_keeps:
  assumes "x \<in> set rows" "\<And>x. f (upd x) = f x"
  shows "\<exists>y \<in> set (snd (sql_upsert key upd r rows)). f y = f x"
  using assms by (auto simp: sql_upsert_def split: option.splits)

lemma decision_key_update [simp]:
  "decision_key (r\<lparr>dr_confidence := a\<rparr>) = decision_key r" "decision_key (r\<lparr>dr_decision := b\<rparr>) = decision_key r"
  "decision_key (r\<lparr>dr_hypothesis := c\<rparr>) = decision_key r"
  "decision_key (r\<lparr>dr_supporting_evidence_ids := d\<rparr>) = decision_key r"
  "decision_key (r\<lparr>dr_notification_draft := e\<rparr>) = decision_key r"
  "decision_key (r\<lparr>dr_reasoning_trace := f\<rparr>) = decision_key r"
  by (simp_all add: decision_key_def)

lemma epoch_key_update [simp]:
  "epoch_key (r\<lparr>ep_uptime_bps := a, ep_evidence_hash := b\<rparr>) = epoch_key r"
  by (simp add: epoch_key_def)

lemma tables_ok_audit [simp]: "tables_ok (tb\<lparr>t_audit_logs := a\<rparr>) = tables_ok tb"
  by (simp add: tables_ok_def)

lemma epoch_row_sel [simp]:
  "es_id (epoch_of_row r) = ep_id r" "es_uptimeBps (epoch_of_row r) = ep_uptime_bps r"
  "es_zoneId (epoch_of_row r) = ep_zone_id r" "es_evidenceHash (epoch_of_row r) = ep_evidence_hash r"
  by (simp_all add: epoch_of_row_def)

lemma stored_epoch_ok:
  fixes rt :: runtime and w :: world and candidate :: candidate_event and t :: int
  assumes "tables_ok (db w)"
  defines "er \<equiv> stored_epoch rt w candidate t"
  shows "tables_ok (db w\<lparr>t_epoch_scores := snd er\<rparr>)" "fst er \<in> set (snd er)"
proof -
  let ?s = "database_score rt w candidate t"
  have b: "0 \<le> es_uptimeBps ?s" "es_uptimeBps ?s \<le> 10000"
    by (simp_all add: database_score_def epochScoreForApprovedCandidates_def uptime_bps_bounds)
  have bounds: "\<forall>s \<in> set (snd er). 0 \<le> ep_uptime_bps s \<and> ep_uptime_bps s \<le> 10000"
    unfolding er_def stored_epoch_def Let_def
    by (rule sql_upsert_all) (use assms(1) b in \<open>simp_all add: tables_ok_def\<close>)
  have dist: "distinct (map epoch_key (snd er))"
    using assms(1) unfolding er_def stored_epoch_def Let_def tables_ok_def
    by (intro distinct_sql_upsert) simp_all
  have keep: "x \<in> set (t_epoch_scores (db w)) \<Longrightarrow> \<exists>y \<in> set (snd er). ep_id y = ep_id x" for x
    unfolding er_def stored_epoch_def Let_def by (rule sql_upsert_keeps) simp_all
  show "tables_ok (db w\<lparr>t_epoch_scores := snd er\<rparr>)"
    using assms(1) bounds dist keep by (simp add: tables_ok_def) metis
  show "fst er \<in> set (snd er)"
    unfolding er_def stored_epoch_def Let_def by (rule sql_upsert_fst) simp
qed

lemma stored_commitment_ok:
  assumes "tables_ok (db w)" "\<exists>s \<in> set (t_epoch_scores (db w)). ep_id s = es_id e"
  shows "tables_ok (db w\<lparr>t_chain_commitments := snd (stored_commitment rt w e)\<rparr>)"
proof -
  have dist: "distinct (map cm_epoch_score_id (snd (stored_commitment rt w e)))"
    using assms(1) unfolding stored_commitment_def Let_def tables_ok_def
    by (intro distinct_sql_upsert) simp_all
  have refs: "\<forall>m \<in> set (snd (stored_commitment rt w e)). \<exists>s \<in> set (t_epoch_scores (db w)). ep_id s = cm_epoch_score_id m"
    unfolding stored_commitment_def Let_def
    by (rule sql_upsert_all) (use assms in \<open>simp_all add: tables_ok_def\<close>)
  show ?thesis using assms(1) dist refs by (simp add: tables_ok_def)
qed

lemma database_commitment_ok:
  assumes "tables_ok (db w)" "date_parse (ca_windowEnd candidate) = Some t" "date_range t"
  shows "tables_ok (db (snd (database_commitment rt candidate decision source w)))"
proof -
  define er where "er = stored_epoch rt w candidate t"
  define w1 where "w1 = w\<lparr>db := db w\<lparr>t_epoch_scores := snd er\<rparr>\<rparr>"
  define cr where "cr = stored_commitment rt w1 (epoch_of_row (fst er))"
  have ok1: "tables_ok (db w1)" and mem: "fst er \<in> set (t_epoch_scores (db w1))"
    using stored_epoch_ok[OF assms(1)] by (simp_all add: w1_def er_def)
  have ok2: "tables_ok (db w1\<lparr>t_chain_commitments := snd cr\<rparr>)"
    unfolding cr_def using mem by (intro stored_commitment_ok[OF ok1] bexI[of _ "fst er"]) simp_all
  obtain r w' where run: "database_commitment rt candidate decision source w = (r, w')"
    and t: "t_epoch_scores (db w') = snd er" "t_chain_commitments (db w') = snd cr"
      "t_candidate_events (db w') = t_candidate_events (db w)"
      "t_agent_decisions (db w') = t_agent_decisions (db w)"
    using database_commitment_run[OF assms(2,3)] unfolding er_def cr_def w1_def by blast
  from ok2 t run show ?thesis by (simp add: tables_ok_def w1_def)
qed

text \<open>The row an upsert of a decision leaves, and the table.\<close>

definition stored_decision :: "agent_decision \<Rightarrow> int \<Rightarrow> decision_row list \<Rightarrow> decision_row \<times> decision_row list" where
  "stored_decision d created rows = sql_upsert decision_key
     (\<lambda>r. r\<lparr>dr_confidence := ad_confidence d, dr_decision := ad_decision d, dr_hypothesis := ad_hypothesis d,
        dr_supporting_evidence_ids := ad_supportingEvidenceIds d,
        dr_notification_draft := ad_notificationDraft d, dr_reasoning_trace := ad_reasoningTrace d\<rparr>)
     \<lparr>dr_id = ad_id d, dr_candidate_event_id = ad_candidateEventId d, dr_agent_name = ad_agentName d,
      dr_confidence = ad_confidence d, dr_decision = ad_decision d, dr_hypothesis = ad_hypothesis d,
      dr_supporting_evidence_ids = ad_supportingEvidenceIds d,
      dr_notification_draft = ad_notificationDraft d, dr_reasoning_trace = ad_reasoningTrace d,
      dr_created_at = created\<rparr> rows"

lemma upsert_decision_run:
  "upsertDatabaseDecision d w =
    (case date_parse (ad_createdAt d) of
       None \<Rightarrow> (Inl (plain_error ''invalid input syntax for type timestamp with time zone''), w)
     | Some created \<Rightarrow>
         if \<exists>c \<in> set (t_candidate_events (db w)). cr_id c = ad_candidateEventId d
         then (Inr (mapDecisionRow (fst (stored_decision d created (t_agent_decisions (db w))))),
           w\<lparr>db := db w\<lparr>t_agent_decisions := snd (stored_decision d created (t_agent_decisions (db w)))\<rparr>\<rparr>)
         else (Inl (foreign_key_error ''agent_decisions''), w))"
  by (cases "date_parse (ad_createdAt d)")
    (auto simp: upsertDatabaseDecision_def db_timestamp_def stored_decision_def Let_def case_prod_beta)

lemma upsert_decision_ok:
  assumes "tables_ok (db w)"
  shows "tables_ok (db (snd (upsertDatabaseDecision d w)))"
proof -
  have "tables_ok (db w\<lparr>t_agent_decisions := snd (stored_decision d created (t_agent_decisions (db w)))\<rparr>)"
    if ex: "\<exists>c \<in> set (t_candidate_events (db w)). cr_id c = ad_candidateEventId d" for created
  proof -
    have "distinct (map decision_key (snd (stored_decision d created (t_agent_decisions (db w)))))"
      using assms unfolding stored_decision_def by (intro distinct_sql_upsert) (simp_all add: tables_ok_def)
    moreover have "\<forall>r \<in> set (snd (stored_decision d created (t_agent_decisions (db w)))).
        \<exists>c \<in> set (t_candidate_events (db w)). cr_id c = dr_candidate_event_id r"
      unfolding stored_decision_def
      by (rule sql_upsert_all) (use assms ex in \<open>simp_all add: tables_ok_def\<close>)
    ultimately show ?thesis using assms by (simp add: tables_ok_def)
  qed
  with assms show ?thesis by (simp add: upsert_decision_run split: option.split)
qed

lemma act_on_ok:
  assumes "tables_ok (db w)" "tables_ok (db (snd (commit w)))"
  shows "tables_ok (db (snd (act_on_decision rt c d e sim commit w)))"
  using assms
  by (auto simp: act_on_decision_def run_simps audit_defs tables_ok_def split: agent_decision_status.splits option.splits)

lemma process_database_stored:
  assumes "isDatabaseConfigured rt"
    and "upsertDatabaseDecision (gate_decision rt w candidate) (w\<lparr>w_uuids := Suc (w_uuids w)\<rparr>) = (Inr stored, w1)"
  shows "\<exists>w2. processCandidatePipeline rt candidate evidence simulation w =
      act_on_decision rt candidate stored evidence simulation
        (database_commitment rt candidate stored AgentAutoApproval) w2 \<and>
    t_agent_decisions (db w2) = t_agent_decisions (db w1) \<and>
    t_candidate_events (db w2) = t_candidate_events (db w1) \<and>
    t_epoch_scores (db w2) = t_epoch_scores (db w1) \<and>
    t_chain_commitments (db w2) = t_chain_commitments (db w1) \<and>
    w_now w2 = w_now w1 \<and> jobs_of w2 = jobs_of w1 \<and> w_events w2 = w_events w1 \<and>
    w_counters w2 = w_counters w1\<lparr>agentDecisions := agentDecisions (w_counters w1) + 1\<rparr>"
proof -
  define w2 where "w2 = (snd (auditAgentDecision rt stored candidate evidence w1))\<lparr>
    w_counters := w_counters w1\<lparr>agentDecisions := agentDecisions (w_counters w1) + 1\<rparr>\<rparr>"
  have "processCandidatePipeline rt candidate evidence simulation w =
      act_on_decision rt candidate stored evidence simulation
        (database_commitment rt candidate stored AgentAutoApproval) w2"
    using assms
    by (simp add: processCandidatePipeline_def gate_decision_def[symmetric] bindS_Inr run_simps audit_defs w2_def)
  then show ?thesis by (intro exI[of _ w2]) (simp add: w2_def audit_defs run_simps)
qed

lemma process_tables_ok:
  assumes "tables_ok (db w)" "date_parse (ca_windowEnd candidate) = Some t" "date_range t"
  shows "tables_ok (db (snd (processCandidatePipeline rt candidate evidence simulation w)))"
proof (cases "isDatabaseConfigured rt")
  case True
  let ?w = "w\<lparr>w_uuids := Suc (w_uuids w)\<rparr>"
  obtain r w1 where up: "upsertDatabaseDecision (gate_decision rt w candidate) ?w = (r, w1)" by fastforce
  have ok1: "tables_ok (db w1)" using upsert_decision_ok[of ?w "gate_decision rt w candidate"] assms(1) up by simp
  show ?thesis
  proof (cases r)
    case (Inl err)
    with True up ok1 show ?thesis
      by (simp add: processCandidatePipeline_def gate_decision_def[symmetric] bindS_Inl)
  next
    case (Inr stored)
    obtain w2 where eq: "processCandidatePipeline rt candidate evidence simulation w =
        act_on_decision rt candidate stored evidence simulation
          (database_commitment rt candidate stored AgentAutoApproval) w2"
      and t: "t_agent_decisions (db w2) = t_agent_decisions (db w1)"
        "t_candidate_events (db w2) = t_candidate_events (db w1)"
        "t_epoch_scores (db w2) = t_epoch_scores (db w1)"
        "t_chain_commitments (db w2) = t_chain_commitments (db w1)"
      using process_database_stored[OF True up[unfolded Inr]] by blast
    have ok2: "tables_ok (db w2)" using ok1 t by (simp add: tables_ok_def)
    show ?thesis unfolding eq by (intro act_on_ok ok2 database_commitment_ok[OF ok2 assms(2,3)])
  qed
next
  case False
  have ok1: "tables_ok (db (after_gate rt candidate evidence w))"
    using assms(1) by (simp add: after_gate_def Let_def audit_defs run_simps tables_ok_def)
  have "tables_ok (db (snd (memory_commitment rt candidate d AgentAutoApproval w0)))" if "tables_ok (db w0)" for d w0
    using that unfolding memory_commitment_def
    by (simp add: bindS_Inr[OF recompute_memory[OF assms(2,3)]] announce_run Let_def audit_defs run_simps tables_ok_def)
  with ok1 False show ?thesis by (simp add: process_memory act_on_ok)
qed

lemma sql_update_keys:
  assumes "\<And>x. f (upd x) = f x"
  shows "map f (sql_update P upd rows) = map f rows"
  using assms by (auto simp: sql_update_def)

lemma decision_key_reviewed [simp]:
  "decision_key (reviewed_row a d n r) = decision_key r"
  "dr_candidate_event_id (reviewed_row a d n r) = dr_candidate_event_id r"
  "dr_id (reviewed_row a d n r) = dr_id r" "dr_decision (reviewed_row a d n r) = d"
  by (simp_all add: reviewed_row_def)

lemma reviewed_tables_ok:
  assumes "tables_ok tb"
  shows "tables_ok (tb\<lparr>t_agent_decisions := sql_update P (reviewed_row a d n) (t_agent_decisions tb)\<rparr>)"
proof -
  have "distinct (map decision_key (sql_update P (reviewed_row a d n) (t_agent_decisions tb)))"
    using assms sql_update_keys[of decision_key "reviewed_row a d n" P] by (simp add: tables_ok_def)
  moreover have "\<forall>r \<in> set (sql_update P (reviewed_row a d n) (t_agent_decisions tb)).
      \<exists>c \<in> set (t_candidate_events tb). cr_id c = dr_candidate_event_id r"
    using assms by (auto simp: sql_update_def tables_ok_def)
  ultimately show ?thesis using assms by (simp add: tables_ok_def)
qed

lemma mapDecisionRow_sel [simp]:
  "ad_decision (mapDecisionRow r) = dr_decision r" "ad_id (mapDecisionRow r) = dr_id r"
  "ad_candidateEventId (mapDecisionRow r) = dr_candidate_event_id r"
  "ad_confidence (mapDecisionRow r) = dr_confidence r" "ad_hypothesis (mapDecisionRow r) = dr_hypothesis r"
  by (simp_all add: mapDecisionRow_def)

text \<open>Timestamps of the database are in the range of ISO dates with a four-digit year.\<close>

definition windows_in_range :: "tables \<Rightarrow> bool" where
  "windows_in_range tb \<longleftrightarrow> (\<forall>c \<in> set (t_candidate_events tb). date_range (cr_window_end c))"

text \<open>The world after the decision row has been updated and the resolution audited.\<close>

definition after_review ::
  "runtime \<Rightarrow> decision_row \<Rightarrow> agent_decision_status \<Rightarrow> string \<Rightarrow> user option \<Rightarrow> world \<Rightarrow> world" where
  "after_review rt row reviewDecision note reviewer w =
     (let upd = reviewed_row (to_iso (w_now w)) reviewDecision note in
      snd (auditReviewDecision rt (Some (mapDecisionRow row)) (mapDecisionRow (upd row)) note reviewer
        (w\<lparr>db := db w\<lparr>t_agent_decisions :=
          sql_update (\<lambda>r. dr_id r = dr_id row) upd (t_agent_decisions (db w))\<rparr>\<rparr>)))"

lemma resolve_database_run:
  "resolve_database rt decisionId reviewDecision note reviewer w =
    (case sql_find dr_id (t_agent_decisions (db w)) decisionId of
       None \<Rightarrow> (Inl review_not_found, w)
     | Some row \<Rightarrow>
         let d = mapDecisionRow (reviewed_row (to_iso (w_now w)) reviewDecision note row) in
         if reviewDecision \<noteq> Approve
         then (Inr (decided d), after_review rt row reviewDecision note reviewer w)
         else bindS (findDatabaseCandidate (dr_candidate_event_id row))
           (\<lambda>candidate. database_commitment rt candidate d ReviewApproval)
           (after_review rt row reviewDecision note reviewer w))"
  by (auto simp: resolve_database_def Let_def run_simps after_review_def dest: sql_find_Some split: option.split)

lemma after_review_frame [simp]:
  "t_candidate_events (db (after_review rt row d n r w)) = t_candidate_events (db w)"
  "t_epoch_scores (db (after_review rt row d n r w)) = t_epoch_scores (db w)"
  "t_chain_commitments (db (after_review rt row d n r w)) = t_chain_commitments (db w)"
  "t_agent_decisions (db (after_review rt row d n r w)) =
     sql_update (\<lambda>x. dr_id x = dr_id row) (reviewed_row (to_iso (w_now w)) d n) (t_agent_decisions (db w))"
  "w_now (after_review rt row d n r w) = w_now w"
  "w_counters (after_review rt row d n r w) = w_counters w"
  by (simp_all add: after_review_def Let_def audit_defs run_simps)

lemma after_review_ok: "tables_ok (db w) \<Longrightarrow> tables_ok (db (after_review rt row d n r w))"
  using reviewed_tables_ok[of "db w"] by (simp add: tables_ok_def)

lemma resolve_database_ok:
  assumes "tables_ok (db w)" "windows_in_range (db w)"
  shows "tables_ok (db (snd (resolve_database rt decisionId reviewDecision note reviewer w)))"
proof -
  have "tables_ok (db (snd (bindS (findDatabaseCandidate cid)
      (\<lambda>candidate. database_commitment rt candidate d ReviewApproval) w1)))"
    if ok1: "tables_ok (db w1)" and win: "windows_in_range (db w1)" for cid d w1
  proof (cases "sql_find cr_id (t_candidate_events (db w1)) cid")
    case None
    then have "findDatabaseCandidate cid w1 =
        (Inl (http_error 404 ''CANDIDATE_NOT_FOUND'' ''Candidate not found''), w1)"
      by (simp add: findDatabaseCandidate_def)
    with ok1 show ?thesis by (simp add: bindS_Inl)
  next
    case (Some c)
    then have "findDatabaseCandidate cid w1 = (Inr (candidate_of_row c), w1)"
      by (simp add: findDatabaseCandidate_def)
    moreover have range: "date_range (cr_window_end c)"
      using Some win by (auto simp: windows_in_range_def dest: sql_find_Some)
    moreover have "date_parse (ca_windowEnd (candidate_of_row c)) = Some (cr_window_end c)"
      using range by (simp add: candidate_of_row_def date_parse_iso)
    ultimately show ?thesis using database_commitment_ok[OF ok1] by (simp add: bindS_Inr)
  qed
  moreover have "windows_in_range (db (after_review rt row d n r w))" for row d n r
    using assms(2) by (simp add: windows_in_range_def)
  ultimately show ?thesis using assms after_review_ok
    by (simp add: resolve_database_run Let_def split: option.split)
qed

end
