(* ===== verification/Ingestion_Store.thy ===== *)
theory Ingestion_Store imports Pipeline begin

section \<open>The evidence store\<close>

text \<open>
  \<open>modules/ingestion/store.ts\<close> with the request types of \<open>packages/shared-types/src/api.ts\<close>:
  evidence is stored once per idempotency key, in the memory map or in the table, and gives a
  candidate; a silence of the heartbeat sweep is recorded once per dedupe key. Identifiers
  that the database generates (\<open>gen_random_uuid()\<close>) come from the same sequence as
  \<open>randomUUID\<close>.
\<close>

subsection \<open>Requests\<close>

record telemetry_request =
  te_deviceId :: string
  te_providerWallet :: string
  te_zoneId :: string
  te_idempotencyKey :: string
  te_observedAt :: string
  te_status :: evidence_status
  te_voltage :: "rat option"
  te_currentAmps :: "rat option"
  te_signature :: string

definition telemetryIngestRequestSchema :: "zod_formats \<Rightarrow> telemetry_request \<Rightarrow> bool" where
  "telemetryIngestRequestSchema F r \<longleftrightarrow> 3 \<le> length (te_deviceId r) \<and>
     walletAddressSchema (te_providerWallet r) \<and> uuidSchema F (te_zoneId r) \<and>
     12 \<le> length (te_idempotencyKey r) \<and> fmt_datetime F (te_observedAt r) \<and>
     opt_all (\<lambda>v. 0 \<le> v) (te_voltage r) \<and> opt_all (\<lambda>v. 0 \<le> v) (te_currentAmps r) \<and>
     32 \<le> length (te_signature r)"

record reporter_request =
  rp_reporterWallet :: string
  rp_zoneId :: string
  rp_idempotencyKey :: string
  rp_observedAt :: string
  rp_status :: evidence_status
  rp_note :: "string option"

definition reporterIngestRequestSchema :: "zod_formats \<Rightarrow> reporter_request \<Rightarrow> bool" where
  "reporterIngestRequestSchema F r \<longleftrightarrow> walletAddressSchema (rp_reporterWallet r) \<and>
     uuidSchema F (rp_zoneId r) \<and> 12 \<le> length (rp_idempotencyKey r) \<and>
     fmt_datetime F (rp_observedAt r) \<and> opt_all (\<lambda>n. length n \<le> 1000) (rp_note r)"

record ingest_store_result =
  ir_duplicate :: bool
  ir_evidenceEvent :: evidence_event
  ir_candidateEvent :: "candidate_event option"

definition ingestResponseSchema :: "zod_formats \<Rightarrow> ingest_store_result \<Rightarrow> bool" where
  "ingestResponseSchema F r \<longleftrightarrow> evidenceEventSchema F (ir_evidenceEvent r) \<and>
     opt_all (candidateEventSchema F) (ir_candidateEvent r)"

subsection \<open>The memory store\<close>

definition candidateKeyFor :: "evidence_event \<Rightarrow> string" where
  "candidateKeyFor evidenceEvent = ev_zoneId evidenceEvent @ '':'' @
     evidence_status_string (ev_status evidenceEvent) @ '':'' @ ev_idempotencyKey evidenceEvent"

definition listMemoryCandidates :: "string option \<Rightarrow> world \<Rightarrow> candidate_event list" where
  "listMemoryCandidates zoneId w =
     filter (\<lambda>c. zoneId = None \<or> zoneId = Some [] \<or> zoneId = Some (ca_zoneId c))
       (jm_values (candidatesByKey w))"

definition listMemoryEvidence :: "string option \<Rightarrow> world \<Rightarrow> evidence_event list" where
  "listMemoryEvidence zoneId w =
     filter (\<lambda>e. zoneId = None \<or> zoneId = Some [] \<or> zoneId = Some (ev_zoneId e))
       (jm_values (evidenceByIdempotencyKey w))"

definition findMemoryCandidate :: "evidence_event \<Rightarrow> world \<Rightarrow> candidate_event option" where
  "findMemoryCandidate evidenceEvent w = jm_get (candidatesByKey w) (candidateKeyFor evidenceEvent)"

text \<open>Detection draws an identifier exactly when it returns a candidate.\<close>

definition run_detection :: "runtime \<Rightarrow> evidence_event \<Rightarrow> evidence_event list \<Rightarrow> candidate_event option act" where
  "run_detection rt evidence recentEvidence w =
     (case detectCandidateFromEvidence (rt_lc rt) (rt_uuid rt (w_uuids w)) (w_now w) evidence recentEvidence of
        Inr (Some c) \<Rightarrow> (Inr (Some c), w\<lparr>w_uuids := Suc (w_uuids w)\<rparr>)
      | r \<Rightarrow> (r, w))"

definition storeMemoryCandidate :: "runtime \<Rightarrow> evidence_event \<Rightarrow> candidate_event option act" where
  "storeMemoryCandidate rt evidenceEvent =
     bindS (getS (listMemoryEvidence (Some (ev_zoneId evidenceEvent)))) (\<lambda>recentEvidence.
     bindS (run_detection rt evidenceEvent recentEvidence) (\<lambda>candidate.
     case candidate of
       None \<Rightarrow> returnS None
     | Some c \<Rightarrow> bindS (modifyS (\<lambda>w. w\<lparr>candidatesByKey :=
         jm_set (candidateKeyFor evidenceEvent) c (candidatesByKey w)\<rparr>)) (\<lambda>_. returnS (Some c))))"

text \<open>Storing new evidence in memory: the parts that depend on the kind of request are the event's
  source, status, readings and payload.\<close>

definition upsert_memory_evidence ::
  "runtime \<Rightarrow> string \<Rightarrow> (string \<Rightarrow> string \<Rightarrow> string \<Rightarrow> evidence_event) \<Rightarrow> ingest_store_result act" where
  "upsert_memory_evidence rt idempotencyKey build w =
     (case jm_get (evidenceByIdempotencyKey w) idempotencyKey of
        Some existing \<Rightarrow> (Inr \<lparr>ir_duplicate = True, ir_evidenceEvent = existing,
          ir_candidateEvent = findMemoryCandidate existing w\<rparr>, w)
      | None \<Rightarrow>
          bindS (randomUUID rt) (\<lambda>event_id.
          bindS (randomUUID rt) (\<lambda>providerId w.
            let evidenceEvent = build event_id providerId (to_iso (w_now w)) in
            bindS (modifyS (\<lambda>w. w\<lparr>evidenceByIdempotencyKey :=
              jm_set idempotencyKey evidenceEvent (evidenceByIdempotencyKey w)\<rparr>)) (\<lambda>_.
            bindS (storeMemoryCandidate rt evidenceEvent) (\<lambda>candidateEvent.
            returnS \<lparr>ir_duplicate = False, ir_evidenceEvent = evidenceEvent,
              ir_candidateEvent = candidateEvent\<rparr>)) w)) w)"

definition telemetry_payload :: "telemetry_request \<Rightarrow> json_object" where
  "telemetry_payload r = [(''deviceId'', JStr (te_deviceId r)),
     (''providerWallet'', JStr (te_providerWallet r))] @
     json_field ''currentAmps'' (map_option JNum (te_currentAmps r))"

definition reporter_payload :: "reporter_request \<Rightarrow> json_object" where
  "reporter_payload r = (''reporterWallet'', JStr (rp_reporterWallet r)) #
     json_field ''note'' (map_option JStr (rp_note r))"

definition telemetry_event :: "telemetry_request \<Rightarrow> string \<Rightarrow> string \<Rightarrow> string \<Rightarrow> evidence_event" where
  "telemetry_event r event_id providerId now =
     \<lparr>ev_id = event_id, ev_providerId = providerId, ev_zoneId = te_zoneId r,
      ev_idempotencyKey = te_idempotencyKey r, ev_source = SensorProvider, ev_status = te_status r,
      ev_voltage = te_voltage r, ev_currentAmps = te_currentAmps r, ev_confidenceHint = None,
      ev_rawPayload = telemetry_payload r, ev_observedAt = te_observedAt r, ev_receivedAt = now\<rparr>"

definition reporter_event :: "reporter_request \<Rightarrow> string \<Rightarrow> string \<Rightarrow> string \<Rightarrow> evidence_event" where
  "reporter_event r event_id providerId now =
     \<lparr>ev_id = event_id, ev_providerId = providerId, ev_zoneId = rp_zoneId r,
      ev_idempotencyKey = rp_idempotencyKey r, ev_source = ReporterProvider, ev_status = rp_status r,
      ev_voltage = None, ev_currentAmps = None, ev_confidenceHint = None,
      ev_rawPayload = reporter_payload r, ev_observedAt = rp_observedAt r, ev_receivedAt = now\<rparr>"

definition clearEvidenceStore :: "world \<Rightarrow> world" where
  "clearEvidenceStore w = w\<lparr>evidenceByIdempotencyKey := [], candidatesByKey := []\<rparr>"

subsection \<open>The database store\<close>

text \<open>\<open>typeof value === "number" && Number.isFinite(value) && value >= 0\<close>\<close>

definition currentAmpsFromRawPayload :: "json_object \<Rightarrow> rat option" where
  "currentAmpsFromRawPayload rawPayload =
     (case map_of rawPayload ''currentAmps'' of
        Some (JNum value) \<Rightarrow> if 0 \<le> value then Some value else None
      | _ \<Rightarrow> None)"

definition mapEvidenceRow :: "evidence_row \<Rightarrow> evidence_event" where
  "mapEvidenceRow row =
     \<lparr>ev_id = er_id row, ev_providerId = er_provider_id row, ev_zoneId = er_zone_id row,
      ev_idempotencyKey = er_idempotency_key row, ev_source = er_source row,
      ev_status = er_status row, ev_voltage = er_voltage row,
      ev_currentAmps = currentAmpsFromRawPayload (er_raw_payload row),
      ev_confidenceHint = er_confidence_hint row, ev_rawPayload = er_raw_payload row,
      ev_observedAt = to_iso (er_observed_at row), ev_receivedAt = to_iso (er_received_at row)\<rparr>"

definition mapCandidateRow :: "candidate_row \<Rightarrow> candidate_event" where
  "mapCandidateRow row =
     \<lparr>ca_id = cr_id row, ca_zoneId = cr_zone_id row, ca_status = cr_status row,
      ca_confidence = cr_confidence row, ca_windowStart = to_iso (cr_window_start row),
      ca_windowEnd = to_iso (cr_window_end row),
      ca_evidenceEventIds = cr_evidence_event_ids row,
      ca_createdAt = to_iso (cr_created_at row)\<rparr>"

definition bytes32From :: "runtime \<Rightarrow> string \<Rightarrow> string" where
  "bytes32From rt value = ''0x'' @ rt_sha256 rt value"

definition ensureZone :: "runtime \<Rightarrow> string \<Rightarrow> unit act" where
  "ensureZone rt zoneId = bindS (getS w_now) (\<lambda>now.
     modify_db (\<lambda>t. t\<lparr>t_zones := snd (sql_insert_new zr_id (t_zones t)
       \<lparr>zr_id = zoneId, zr_zone_key = bytes32From rt (''zone:'' @ zoneId),
        zr_name = ''Zone '' @ take 8 zoneId, zr_discos_feeder_code = ''DEMO-'' @ take 8 zoneId,
        zr_region = ''Demo'', zr_lat = fl (8133/1000), zr_lng = fl (425/100),
        zr_created_at = now\<rparr>)\<rparr>))"

definition ensureProvider :: "runtime \<Rightarrow> string \<Rightarrow> provider_type \<Rightarrow> string \<Rightarrow> string act" where
  "ensureProvider rt walletAddress providerType zoneId =
     bindS (randomUUID rt) (\<lambda>uuid w.
       let excluded = \<lparr>pv_id = uuid, pv_user_id = None, pv_wallet_address = to_lower walletAddress,
             pv_provider_type = providerType, pv_zone_id = zoneId, pv_reputation_cache = 0,
             pv_active = True, pv_created_at = w_now w, pv_updated_at = w_now w\<rparr>;
           (row, rows) = sql_upsert pv_wallet_address
             (\<lambda>r. r\<lparr>pv_zone_id := zoneId, pv_provider_type := providerType, pv_active := True,
                pv_updated_at := w_now w\<rparr>) excluded (t_providers (db w))
       in (Inr (pv_id row), w\<lparr>db := db w\<lparr>t_providers := rows\<rparr>\<rparr>))"

definition findEvidenceByIdempotencyKey :: "string \<Rightarrow> evidence_event act" where
  "findEvidenceByIdempotencyKey idempotencyKey w =
     (case sql_find er_idempotency_key (t_evidence_events (db w)) idempotencyKey of
        None \<Rightarrow> (Inl (plain_error (''Evidence event not found for idempotency key '' @ idempotencyKey)), w)
      | Some row \<Rightarrow> (Inr (mapEvidenceRow row), w))"

definition findRecentZoneEvidence :: "evidence_event \<Rightarrow> world \<Rightarrow> evidence_event list" where
  "findRecentZoneEvidence evidenceEvent w =
     map mapEvidenceRow (take 50 (js_sort (\<lambda>a b. er_observed_at b - er_observed_at a)
       (filter (\<lambda>r. er_zone_id r = ev_zoneId evidenceEvent \<and> er_id r \<noteq> ev_id evidenceEvent \<and>
          opt_any (\<lambda>at0. at0 - AGREEMENT_WINDOW_MS \<le> er_observed_at r \<and>
              er_observed_at r \<le> at0 + AGREEMENT_WINDOW_MS) (date_parse (ev_observedAt evidenceEvent)))
         (t_evidence_events (db w)))))"

definition findDatabaseCandidateByKey :: "evidence_event \<Rightarrow> world \<Rightarrow> candidate_event option" where
  "findDatabaseCandidateByKey evidenceEvent w =
     map_option mapCandidateRow
       (sql_find cr_candidate_key (t_candidate_events (db w)) (Some (candidateKeyFor evidenceEvent)))"

text \<open>\<open>insert into candidate_events ... on conflict (candidate_key) do nothing\<close>: whether a row was
  inserted.\<close>

definition insert_candidate :: "string \<Rightarrow> candidate_event \<Rightarrow> bool act" where
  "insert_candidate key candidate =
     bindS (db_timestamp (ca_windowStart candidate)) (\<lambda>windowStart.
     bindS (db_timestamp (ca_windowEnd candidate)) (\<lambda>windowEnd.
     bindS (db_timestamp (ca_createdAt candidate)) (\<lambda>createdAt w.
       let (inserted, rows) = sql_insert_new cr_candidate_key (t_candidate_events (db w))
             \<lparr>cr_id = ca_id candidate, cr_candidate_key = Some key, cr_zone_id = ca_zoneId candidate,
              cr_status = ca_status candidate, cr_confidence = ca_confidence candidate,
              cr_window_start = windowStart, cr_window_end = windowEnd,
              cr_evidence_event_ids = ca_evidenceEventIds candidate, cr_created_at = createdAt\<rparr>
       in (Inr inserted, w\<lparr>db := db w\<lparr>t_candidate_events := rows\<rparr>\<rparr>))))"

definition storeDatabaseCandidate :: "runtime \<Rightarrow> evidence_event \<Rightarrow> candidate_event option act" where
  "storeDatabaseCandidate rt evidenceEvent =
     bindS (getS (findRecentZoneEvidence evidenceEvent)) (\<lambda>recentEvidence.
     bindS (run_detection rt evidenceEvent recentEvidence) (\<lambda>candidate.
     case candidate of
       None \<Rightarrow> returnS None
     | Some c \<Rightarrow> bindS (insert_candidate (candidateKeyFor evidenceEvent) c) (\<lambda>_.
         getS (findDatabaseCandidateByKey evidenceEvent))))"

record database_evidence_input =
  di_zoneId :: string
  di_providerWallet :: string
  di_source :: provider_type
  di_idempotencyKey :: string
  di_status :: evidence_status
  di_voltage :: "rat option"
  di_rawPayload :: json_object
  di_observedAt :: string

text \<open>The insertion of the evidence row; the row's \<open>id\<close> is generated by the database.\<close>

definition insert_evidence :: "runtime \<Rightarrow> database_evidence_input \<Rightarrow> string \<Rightarrow> bool act" where
  "insert_evidence rt input providerId =
     bindS (db_timestamp (di_observedAt input)) (\<lambda>observedAt.
     bindS (randomUUID rt) (\<lambda>uuid w.
       let (inserted, rows) = sql_insert_new er_idempotency_key (t_evidence_events (db w))
             \<lparr>er_id = uuid, er_provider_id = providerId, er_zone_id = di_zoneId input,
              er_idempotency_key = di_idempotencyKey input, er_source = di_source input,
              er_status = di_status input, er_voltage = di_voltage input, er_confidence_hint = None,
              er_raw_payload = di_rawPayload input, er_observed_at = observedAt,
              er_received_at = w_now w\<rparr>
       in (Inr inserted, w\<lparr>db := db w\<lparr>t_evidence_events := rows\<rparr>\<rparr>)))"

definition upsertDatabaseEvidence :: "runtime \<Rightarrow> database_evidence_input \<Rightarrow> ingest_store_result act" where
  "upsertDatabaseEvidence rt input =
     bindS (ensureZone rt (di_zoneId input)) (\<lambda>_.
     bindS (ensureProvider rt (di_providerWallet input) (di_source input) (di_zoneId input)) (\<lambda>providerId.
     bindS (insert_evidence rt input providerId) (\<lambda>inserted.
     bindS (findEvidenceByIdempotencyKey (di_idempotencyKey input)) (\<lambda>evidenceEvent.
     bindS (if inserted then storeDatabaseCandidate rt evidenceEvent
       else getS (findDatabaseCandidateByKey evidenceEvent)) (\<lambda>candidateEvent.
     returnS \<lparr>ir_duplicate = (\<not> inserted), ir_evidenceEvent = evidenceEvent,
       ir_candidateEvent = candidateEvent\<rparr>)))))"

subsection \<open>The operations of the module\<close>

definition telemetry_input :: "telemetry_request \<Rightarrow> database_evidence_input" where
  "telemetry_input r = \<lparr>di_zoneId = te_zoneId r, di_providerWallet = te_providerWallet r,
     di_source = SensorProvider, di_idempotencyKey = te_idempotencyKey r, di_status = te_status r,
     di_voltage = te_voltage r, di_rawPayload = telemetry_payload r, di_observedAt = te_observedAt r\<rparr>"

definition reporter_input :: "reporter_request \<Rightarrow> database_evidence_input" where
  "reporter_input r = \<lparr>di_zoneId = rp_zoneId r, di_providerWallet = rp_reporterWallet r,
     di_source = ReporterProvider, di_idempotencyKey = rp_idempotencyKey r, di_status = rp_status r,
     di_voltage = None, di_rawPayload = reporter_payload r, di_observedAt = rp_observedAt r\<rparr>"

definition upsertTelemetryEvidence :: "runtime \<Rightarrow> telemetry_request \<Rightarrow> ingest_store_result act" where
  "upsertTelemetryEvidence rt input =
     (if isDatabaseConfigured rt then upsertDatabaseEvidence rt (telemetry_input input)
      else upsert_memory_evidence rt (te_idempotencyKey input) (telemetry_event input))"

definition upsertReporterEvidence :: "runtime \<Rightarrow> reporter_request \<Rightarrow> ingest_store_result act" where
  "upsertReporterEvidence rt input =
     (if isDatabaseConfigured rt then upsertDatabaseEvidence rt (reporter_input input)
      else upsert_memory_evidence rt (rp_idempotencyKey input) (reporter_event input))"

definition recordGapCandidate :: "runtime \<Rightarrow> candidate_event \<Rightarrow> candidate_event option act" where
  "recordGapCandidate rt candidate w =
     (let key = heartbeatGapKey (ca_zoneId candidate) (ca_windowStart candidate) in
      if \<not> isDatabaseConfigured rt
      then if jm_has (candidatesByKey w) key then (Inr None, w)
        else (Inr (Some candidate), w\<lparr>candidatesByKey := jm_set key candidate (candidatesByKey w)\<rparr>)
      else bindS (insert_candidate key candidate) (\<lambda>inserted.
        returnS (if inserted then Some candidate else None)) w)"

definition groupEvidenceByZone :: "evidence_event list \<Rightarrow> (string, evidence_event list) jsmap" where
  "groupEvidenceByZone events = fold (\<lambda>event byZone.
     jm_set (ev_zoneId event) (or_else (jm_get byZone (ev_zoneId event)) [] @ [event]) byZone) events []"

definition listSweepEvidenceByZone ::
  "runtime \<Rightarrow> int \<Rightarrow> int \<Rightarrow> world \<Rightarrow> (string, evidence_event list) jsmap" where
  "listSweepEvidenceByZone rt lookbackMs now w =
     (let sinceMs = now - lookbackMs in
      if \<not> isDatabaseConfigured rt
      then groupEvidenceByZone (filter (\<lambda>event. ev_source event = SensorProvider \<and>
          opt_any (\<lambda>at0. at0 \<ge> sinceMs) (date_parse (ev_observedAt event)))
        (jm_values (evidenceByIdempotencyKey w)))
      else groupEvidenceByZone (map mapEvidenceRow (take 5000
        (js_sort (\<lambda>a b. er_observed_at a - er_observed_at b)
          (filter (\<lambda>r. er_source r = SensorProvider \<and> er_observed_at r \<ge> sinceMs)
            (t_evidence_events (db w)))))))"

section \<open>Evidence is accepted once\<close>

datatype ingest_item = Telemetry telemetry_request | Report reporter_request

fun ingest_key :: "ingest_item \<Rightarrow> string" where
  "ingest_key (Telemetry r) = te_idempotencyKey r"
| "ingest_key (Report r) = rp_idempotencyKey r"

fun ingest_observedAt :: "ingest_item \<Rightarrow> string" where
  "ingest_observedAt (Telemetry r) = te_observedAt r"
| "ingest_observedAt (Report r) = rp_observedAt r"

fun ingest :: "runtime \<Rightarrow> ingest_item \<Rightarrow> ingest_store_result act" where
  "ingest rt (Telemetry r) = upsertTelemetryEvidence rt r"
| "ingest rt (Report r) = upsertReporterEvidence rt r"

text \<open>The abstract state of the store, the set of the idempotency keys it has accepted, and the
  dates for which no operation throws: they and the start of their window have four-digit years.\<close>

definition accepted_keys :: "runtime \<Rightarrow> world \<Rightarrow> string set" where
  "accepted_keys rt w = (if isDatabaseConfigured rt then er_idempotency_key ` set (t_evidence_events (db w))
     else {k. jm_has (evidenceByIdempotencyKey w) k})"

definition datable :: "string \<Rightarrow> bool" where
  "datable s \<longleftrightarrow> (\<exists>t. date_parse s = Some t \<and> date_range t \<and> date_range (t - 300000))"

definition store_ok :: "world \<Rightarrow> bool" where
  "store_ok w \<longleftrightarrow> date_range (w_now w) \<and>
     (\<forall>k e. jm_get (evidenceByIdempotencyKey w) k = Some e \<longrightarrow> ev_idempotencyKey e = k) \<and>
     distinct (map er_idempotency_key (t_evidence_events (db w)))"

lemma run_detection_total:
  assumes "date_parse (ev_observedAt e) \<noteq> None"
  shows "\<exists>c n. run_detection rt e recent w = (Inr c, w\<lparr>w_uuids := n\<rparr>) \<and>
    (\<forall>x. c = Some x \<longrightarrow> (\<exists>t. date_parse (ev_observedAt e) = Some t \<and> ca_windowStart x = to_iso (t - 300000)) \<and>
      ca_windowEnd x = ev_observedAt e \<and> ca_createdAt x = to_iso (w_now w) \<and> ca_zoneId x = ev_zoneId e)"
proof -
  have self: "w = w\<lparr>w_uuids := w_uuids w\<rparr>" by simp
  from assms show ?thesis
    by (auto simp: run_detection_def detectCandidateFromEvidence_def Let_def intro: exI[of _ "w_uuids w"])
qed

lemma storeMemoryCandidate_total:
  assumes "date_parse (ev_observedAt e) \<noteq> None"
  shows "\<exists>c n cs. storeMemoryCandidate rt e w = (Inr c, w\<lparr>w_uuids := n, candidatesByKey := cs\<rparr>)"
proof -
  obtain c n where run: "run_detection rt e (listMemoryEvidence (Some (ev_zoneId e)) w) w = (Inr c, w\<lparr>w_uuids := n\<rparr>)"
    using run_detection_total[OF assms] by blast
  have self: "w\<lparr>w_uuids := n\<rparr> = w\<lparr>w_uuids := n, candidatesByKey := candidatesByKey w\<rparr>" by simp
  show ?thesis using run
    by (cases c) (auto simp: storeMemoryCandidate_def bindS_Inr intro: exI[of _ n] self)
qed

lemma upsert_memory_run:
  assumes "\<And>a b c. date_parse (ev_observedAt (build a b c)) \<noteq> None"
    and "\<And>a b c. ev_idempotencyKey (build a b c) = key"
    and "\<forall>k e. jm_get (evidenceByIdempotencyKey w) k = Some e \<longrightarrow> ev_idempotencyKey e = k"
  shows "\<exists>r n ev cs. upsert_memory_evidence rt key build w =
      (Inr r, w\<lparr>w_uuids := n, evidenceByIdempotencyKey := ev, candidatesByKey := cs\<rparr>) \<and>
    (ir_duplicate r \<longleftrightarrow> jm_has (evidenceByIdempotencyKey w) key) \<and>
    (\<forall>k. jm_has ev k \<longleftrightarrow> jm_has (evidenceByIdempotencyKey w) k \<or> k = key) \<and>
    (\<forall>k e. jm_get ev k = Some e \<longrightarrow> ev_idempotencyKey e = k) \<and>
    ev_idempotencyKey (ir_evidenceEvent r) = key \<and>
    (\<not> ir_duplicate r \<longrightarrow> (\<exists>a b. ir_evidenceEvent r = build a b (to_iso (w_now w))))"
proof (cases "jm_get (evidenceByIdempotencyKey w) key")
  case (Some existing)
  have "w = w\<lparr>w_uuids := w_uuids w, evidenceByIdempotencyKey := evidenceByIdempotencyKey w,
      candidatesByKey := candidatesByKey w\<rparr>" by simp
  with Some assms(3) show ?thesis
    by (intro exI[of _ "\<lparr>ir_duplicate = True, ir_evidenceEvent = existing,
          ir_candidateEvent = findMemoryCandidate existing w\<rparr>"] exI[of _ "w_uuids w"]
        exI[of _ "evidenceByIdempotencyKey w"] exI[of _ "candidatesByKey w"])
      (auto simp: upsert_memory_evidence_def)
next
  case None
  let ?e = "build (rt_uuid rt (w_uuids w)) (rt_uuid rt (Suc (w_uuids w))) (to_iso (w_now w))"
  let ?w1 = "w\<lparr>w_uuids := Suc (Suc (w_uuids w)),
    evidenceByIdempotencyKey := jm_set key ?e (evidenceByIdempotencyKey w)\<rparr>"
  obtain c n cs where run: "storeMemoryCandidate rt ?e ?w1 = (Inr c, ?w1\<lparr>w_uuids := n, candidatesByKey := cs\<rparr>)"
    using storeMemoryCandidate_total[OF assms(1)] by blast
  from None assms(2,3) run show ?thesis
    by (intro exI[of _ "\<lparr>ir_duplicate = False, ir_evidenceEvent = ?e, ir_candidateEvent = c\<rparr>"] exI[of _ n]
        exI[of _ "jm_set key ?e (evidenceByIdempotencyKey w)"] exI[of _ cs])
      (auto simp: upsert_memory_evidence_def Let_def bindS_Inr)
qed

text \<open>The tables besides the audit log, zones and providers that ingestion leaves alone.\<close>

definition same_pipeline_tables :: "world \<Rightarrow> world \<Rightarrow> bool" where
  "same_pipeline_tables w w' \<longleftrightarrow>
     w_now w' = w_now w \<and> w_events w' = w_events w \<and> w_counters w' = w_counters w \<and> jobs_of w' = jobs_of w \<and>
     memoryDecisions w' = memoryDecisions w \<and> memoryEpochScoresByKey w' = memoryEpochScoresByKey w \<and>
     memoryCommitmentsByEpochScore w' = memoryCommitmentsByEpochScore w \<and>
     t_agent_decisions (db w') = t_agent_decisions (db w) \<and>
     t_epoch_scores (db w') = t_epoch_scores (db w) \<and>
     t_chain_commitments (db w') = t_chain_commitments (db w)"

lemma same_pipeline_tables_refl [simp]: "same_pipeline_tables w w"
  by (simp add: same_pipeline_tables_def)

lemma same_pipeline_tables_trans:
  "same_pipeline_tables a b \<Longrightarrow> same_pipeline_tables b c \<Longrightarrow> same_pipeline_tables a c"
  by (simp add: same_pipeline_tables_def)

text \<open>Both tables only grow.\<close>

definition grows :: "world \<Rightarrow> world \<Rightarrow> bool" where
  "grows w w' \<longleftrightarrow> set (t_candidate_events (db w)) \<subseteq> set (t_candidate_events (db w'))"

lemma insert_candidate_run:
  fixes key :: string
  assumes "date_parse (ca_windowStart c) = Some a" "date_parse (ca_windowEnd c) = Some b"
    and "date_parse (ca_createdAt c) = Some d"
  defines "row \<equiv> \<lparr>cr_id = ca_id c, cr_candidate_key = Some key, cr_zone_id = ca_zoneId c,
    cr_status = ca_status c, cr_confidence = ca_confidence c, cr_window_start = a, cr_window_end = b,
    cr_evidence_event_ids = ca_evidenceEventIds c, cr_created_at = d\<rparr>"
  shows "insert_candidate key c w =
    (Inr (fst (sql_insert_new cr_candidate_key (t_candidate_events (db w)) row)),
     w\<lparr>db := db w\<lparr>t_candidate_events := snd (sql_insert_new cr_candidate_key (t_candidate_events (db w)) row)\<rparr>\<rparr>)"
  using assms(1-3) by (simp add: insert_candidate_def db_timestamp_def Let_def case_prod_beta row_def)

lemma sql_insert_new_laws:
  "fst (sql_insert_new key rows r) \<longleftrightarrow> key r \<notin> key ` set rows"
  "key ` set (snd (sql_insert_new key rows r)) = insert (key r) (key ` set rows)"
  "distinct (map key rows) \<Longrightarrow> distinct (map key (snd (sql_insert_new key rows r)))"
  "fst (sql_insert_new key rows r) \<Longrightarrow> x \<in> set (snd (sql_insert_new key rows r)) \<Longrightarrow> key x = key r \<Longrightarrow> x = r"
  by (auto simp: sql_insert_new_def intro: rev_image_eqI split: if_splits)

lemma storeDatabaseCandidate_total:
  assumes "datable (ev_observedAt e)" "date_range (w_now w)"
  shows "\<exists>c n cs. storeDatabaseCandidate rt e w = (Inr c, w\<lparr>w_uuids := n, db := db w\<lparr>t_candidate_events := cs\<rparr>\<rparr>)"
proof -
  obtain t where t: "date_parse (ev_observedAt e) = Some t" "date_range t" "date_range (t - 300000)"
    using assms(1) by (auto simp: datable_def)
  obtain c n where run: "run_detection rt e (findRecentZoneEvidence e w) w = (Inr c, w\<lparr>w_uuids := n\<rparr>)"
    and c: "\<And>x. c = Some x \<Longrightarrow> ca_windowStart x = to_iso (t - 300000) \<and> ca_windowEnd x = ev_observedAt e \<and>
      ca_createdAt x = to_iso (w_now w)"
    using run_detection_total[of e rt "findRecentZoneEvidence e w" w] t(1) by auto
  have self: "w\<lparr>w_uuids := n\<rparr> = w\<lparr>w_uuids := n, db := db w\<lparr>t_candidate_events := t_candidate_events (db w)\<rparr>\<rparr>"
    by simp
  show ?thesis
  proof (cases c)
    case None
    with run show ?thesis by (auto simp: storeDatabaseCandidate_def bindS_Inr intro: exI[of _ n] self)
  next
    case (Some x)
    have "insert_candidate (candidateKeyFor e) x (w\<lparr>w_uuids := n\<rparr>) = (Inr b, w') \<Longrightarrow>
        \<exists>cs. w' = w\<lparr>w_uuids := n, db := db w\<lparr>t_candidate_events := cs\<rparr>\<rparr>" for b w'
      using insert_candidate_run[of x "t - 300000" t "w_now w" "candidateKeyFor e" "w\<lparr>w_uuids := n\<rparr>"] c[OF Some] t assms(2)
      by (auto simp: date_parse_iso)
    moreover have "\<exists>b w'. insert_candidate (candidateKeyFor e) x (w\<lparr>w_uuids := n\<rparr>) = (Inr b, w')"
      using insert_candidate_run[of x "t - 300000" t "w_now w" "candidateKeyFor e" "w\<lparr>w_uuids := n\<rparr>"] c[OF Some] t assms(2)
      by (auto simp: date_parse_iso)
    ultimately obtain b cs where ins: "insert_candidate (candidateKeyFor e) x (w\<lparr>w_uuids := n\<rparr>) =
        (Inr b, w\<lparr>w_uuids := n, db := db w\<lparr>t_candidate_events := cs\<rparr>\<rparr>)" by blast
    from run Some ins show ?thesis by (auto simp: storeDatabaseCandidate_def bindS_Inr)
  qed
qed

lemma mapEvidenceRow_sel [simp]:
  "ev_idempotencyKey (mapEvidenceRow r) = er_idempotency_key r"
  "ev_observedAt (mapEvidenceRow r) = to_iso (er_observed_at r)"
  "ev_zoneId (mapEvidenceRow r) = er_zone_id r" "ev_id (mapEvidenceRow r) = er_id r"
  by (simp_all add: mapEvidenceRow_def)

lemma ensureProvider_run:
  "\<exists>pid ps. ensureProvider rt wallet ty z w =
     (Inr pid, w\<lparr>w_uuids := Suc (w_uuids w), db := db w\<lparr>t_providers := ps\<rparr>\<rparr>)"
  by (simp add: ensureProvider_def Let_def case_prod_beta) (rule exI, rule refl)

lemma modify_db_apply [simp]: "modify_db f w = (Inr (), w\<lparr>db := f (db w)\<rparr>)"
  by (simp add: modify_db_def)

lemma ensureZone_run: "\<exists>zs. ensureZone rt z w = (Inr (), w\<lparr>db := db w\<lparr>t_zones := zs\<rparr>\<rparr>)"
  by (simp add: ensureZone_def) (rule exI, rule refl)

definition evidence_row_of :: "database_evidence_input \<Rightarrow> string \<Rightarrow> string \<Rightarrow> int \<Rightarrow> int \<Rightarrow> evidence_row" where
  "evidence_row_of input uuid providerId observedAt now =
     \<lparr>er_id = uuid, er_provider_id = providerId, er_zone_id = di_zoneId input,
      er_idempotency_key = di_idempotencyKey input, er_source = di_source input,
      er_status = di_status input, er_voltage = di_voltage input, er_confidence_hint = None,
      er_raw_payload = di_rawPayload input, er_observed_at = observedAt, er_received_at = now\<rparr>"

lemma upsert_database_run:
  assumes "datable (di_observedAt input)" "store_ok w"
  shows "\<exists>r w'. upsertDatabaseEvidence rt input w = (Inr r, w') \<and>
    (ir_duplicate r \<longleftrightarrow> di_idempotencyKey input \<in> er_idempotency_key ` set (t_evidence_events (db w))) \<and>
    er_idempotency_key ` set (t_evidence_events (db w')) =
      insert (di_idempotencyKey input) (er_idempotency_key ` set (t_evidence_events (db w))) \<and>
    distinct (map er_idempotency_key (t_evidence_events (db w'))) \<and>
    ev_idempotencyKey (ir_evidenceEvent r) = di_idempotencyKey input \<and>
    (\<not> ir_duplicate r \<longrightarrow> (\<exists>uuid pid t. date_parse (di_observedAt input) = Some t \<and>
      ir_evidenceEvent r = mapEvidenceRow (evidence_row_of input uuid pid t (w_now w)))) \<and>
    evidenceByIdempotencyKey w' = evidenceByIdempotencyKey w \<and> same_pipeline_tables w w'"
proof -
  let ?k = "di_idempotencyKey input" and ?ev = "t_evidence_events (db w)"
  obtain t where t: "date_parse (di_observedAt input) = Some t" "date_range t" "date_range (t - 300000)"
    using assms(1) by (auto simp: datable_def)
  obtain zs where z: "ensureZone rt (di_zoneId input) w = (Inr (), w\<lparr>db := db w\<lparr>t_zones := zs\<rparr>\<rparr>)"
    using ensureZone_run by blast
  let ?w1 = "w\<lparr>db := db w\<lparr>t_zones := zs\<rparr>\<rparr>"
  obtain pid ps where p: "ensureProvider rt (di_providerWallet input) (di_source input) (di_zoneId input) ?w1 =
      (Inr pid, ?w1\<lparr>w_uuids := Suc (w_uuids ?w1), db := db ?w1\<lparr>t_providers := ps\<rparr>\<rparr>)"
    using ensureProvider_run by blast
  let ?w2 = "?w1\<lparr>w_uuids := Suc (w_uuids ?w1), db := db ?w1\<lparr>t_providers := ps\<rparr>\<rparr>"
  define row where "row = evidence_row_of input (rt_uuid rt (w_uuids ?w2)) pid t (w_now w)"
  define rows where "rows = snd (sql_insert_new er_idempotency_key ?ev row)"
  define new where "new = fst (sql_insert_new er_idempotency_key ?ev row)"
  let ?w3 = "?w2\<lparr>w_uuids := Suc (w_uuids ?w2), db := db ?w2\<lparr>t_evidence_events := rows\<rparr>\<rparr>"
  have ins: "insert_evidence rt input pid ?w2 = (Inr new, ?w3)"
    using t(1) by (simp add: insert_evidence_def db_timestamp_def Let_def case_prod_beta row_def rows_def new_def
      evidence_row_of_def)
  have row_key: "er_idempotency_key row = ?k" "er_observed_at row = t" by (simp_all add: row_def evidence_row_of_def)
  have new_iff: "new \<longleftrightarrow> ?k \<notin> er_idempotency_key ` set ?ev"
    using sql_insert_new_laws(1)[of er_idempotency_key ?ev row] by (simp add: new_def row_key)
  have keys: "er_idempotency_key ` set rows = insert ?k (er_idempotency_key ` set ?ev)"
    using sql_insert_new_laws(2)[of er_idempotency_key ?ev row] by (simp add: rows_def row_key)
  have dist: "distinct (map er_idempotency_key rows)"
    using assms(2) unfolding rows_def store_ok_def by (intro sql_insert_new_laws) simp
  obtain x where x: "sql_find er_idempotency_key rows ?k = Some x"
    using keys sql_find_None[of er_idempotency_key rows ?k] by fastforce
  then have xk: "er_idempotency_key x = ?k" "x \<in> set rows" by (auto dest: sql_find_Some)
  have find: "findEvidenceByIdempotencyKey ?k ?w3 = (Inr (mapEvidenceRow x), ?w3)"
    using x by (simp add: findEvidenceByIdempotencyKey_def)
  show ?thesis
  proof (cases new)
    case False
    with z p ins find xk new_iff keys dist show ?thesis
      by (simp add: upsertDatabaseEvidence_def bindS_Inr same_pipeline_tables_def jobs_of_def)
  next
    case True
    then have xrow: "x = row" using xk sql_insert_new_laws(4)[of er_idempotency_key ?ev row x]
      by (simp add: rows_def new_def row_key)
    have "datable (ev_observedAt (mapEvidenceRow x))" "date_range (w_now ?w3)"
      using t assms(2) by (simp_all add: xrow row_key datable_def date_parse_iso store_ok_def)
    from storeDatabaseCandidate_total[OF this]
    obtain c n cs where "storeDatabaseCandidate rt (mapEvidenceRow x) ?w3 =
        (Inr c, ?w3\<lparr>w_uuids := n, db := db ?w3\<lparr>t_candidate_events := cs\<rparr>\<rparr>)" by blast
    moreover have "\<exists>uuid pid t. date_parse (di_observedAt input) = Some t \<and>
        mapEvidenceRow x = mapEvidenceRow (evidence_row_of input uuid pid t (w_now w))"
      using t(1) by (auto simp: xrow row_def)
    ultimately show ?thesis using z p ins find xk new_iff keys dist True
      by (simp add: upsertDatabaseEvidence_def bindS_Inr same_pipeline_tables_def jobs_of_def)
  qed
qed

subsection \<open>The store as a once-only set of keys\<close>

lemma ingest_run:
  assumes "datable (ingest_observedAt item)" "store_ok w"
  shows "\<exists>r w'. ingest rt item w = (Inr r, w') \<and>
    (ir_duplicate r \<longleftrightarrow> ingest_key item \<in> accepted_keys rt w) \<and>
    accepted_keys rt w' = insert (ingest_key item) (accepted_keys rt w) \<and> store_ok w' \<and>
    ev_idempotencyKey (ir_evidenceEvent r) = ingest_key item \<and> same_pipeline_tables w w'"
proof (cases "isDatabaseConfigured rt")
  case True
  obtain input where input: "ingest rt item = upsertDatabaseEvidence rt input"
    "di_idempotencyKey input = ingest_key item" "di_observedAt input = ingest_observedAt item"
  proof (cases item)
    case (Telemetry r)
    with True that[of "telemetry_input r"] show thesis
      by (simp add: upsertTelemetryEvidence_def telemetry_input_def fun_eq_iff)
  next
    case (Report r)
    with True that[of "reporter_input r"] show thesis
      by (simp add: upsertReporterEvidence_def reporter_input_def fun_eq_iff)
  qed
  obtain r w' where "upsertDatabaseEvidence rt input w = (Inr r, w')"
    "ir_duplicate r \<longleftrightarrow> di_idempotencyKey input \<in> er_idempotency_key ` set (t_evidence_events (db w))"
    "er_idempotency_key ` set (t_evidence_events (db w')) =
      insert (di_idempotencyKey input) (er_idempotency_key ` set (t_evidence_events (db w)))"
    "distinct (map er_idempotency_key (t_evidence_events (db w')))"
    "ev_idempotencyKey (ir_evidenceEvent r) = di_idempotencyKey input"
    "evidenceByIdempotencyKey w' = evidenceByIdempotencyKey w" "same_pipeline_tables w w'"
    using upsert_database_run[of input w rt] assms input(3) by auto
  with True input assms(2) show ?thesis
    by (intro exI[of _ r] exI[of _ w']) (simp add: accepted_keys_def store_ok_def same_pipeline_tables_def)
next
  case False
  have "\<exists>t. date_parse (ingest_observedAt item) = Some t" using assms(1) by (auto simp: datable_def)
  with False obtain build where build: "ingest rt item = upsert_memory_evidence rt (ingest_key item) build"
    "\<And>a b c. date_parse (ev_observedAt (build a b c)) \<noteq> None"
    "\<And>a b c. ev_idempotencyKey (build a b c) = ingest_key item"
  proof (cases item)
    case (Telemetry r)
    with False that[of "telemetry_event r"] \<open>\<exists>t. _\<close> show thesis
      by (simp add: upsertTelemetryEvidence_def telemetry_event_def fun_eq_iff)
  next
    case (Report r)
    with False that[of "reporter_event r"] \<open>\<exists>t. _\<close> show thesis
      by (simp add: upsertReporterEvidence_def reporter_event_def fun_eq_iff)
  qed
  have "\<forall>k e. jm_get (evidenceByIdempotencyKey w) k = Some e \<longrightarrow> ev_idempotencyKey e = k"
    using assms(2) by (simp add: store_ok_def)
  from upsert_memory_run[where build = build and key = "ingest_key item" and rt = rt, OF build(2) build(3) this]
  obtain r n ev cs where run: "upsert_memory_evidence rt (ingest_key item) build w =
      (Inr r, w\<lparr>w_uuids := n, evidenceByIdempotencyKey := ev, candidatesByKey := cs\<rparr>)"
    and facts: "ir_duplicate r \<longleftrightarrow> jm_has (evidenceByIdempotencyKey w) (ingest_key item)"
      "\<forall>k. jm_has ev k \<longleftrightarrow> jm_has (evidenceByIdempotencyKey w) k \<or> k = ingest_key item"
      "\<forall>k e. jm_get ev k = Some e \<longrightarrow> ev_idempotencyKey e = k"
      "ev_idempotencyKey (ir_evidenceEvent r) = ingest_key item"
    by (elim exE conjE) (rule that; assumption)
  define w' where "w' = w\<lparr>w_uuids := n, evidenceByIdempotencyKey := ev, candidatesByKey := cs\<rparr>"
  have "ingest rt item w = (Inr r, w')" using build(1) run by (simp add: w'_def)
  moreover have "ir_duplicate r \<longleftrightarrow> ingest_key item \<in> accepted_keys rt w"
    "accepted_keys rt w' = insert (ingest_key item) (accepted_keys rt w)"
    using False facts(1,2) by (simp_all add: accepted_keys_def w'_def set_eq_iff) blast+
  moreover have "store_ok w'" using facts(3) assms(2) by (simp add: store_ok_def w'_def)
  moreover have "same_pipeline_tables w w'" by (simp add: same_pipeline_tables_def jobs_of_def w'_def)
  ultimately show ?thesis using facts(4) by blast
qed

text \<open>Offering an item: whether it was new, and the world afterwards.\<close>

definition ingest_step :: "runtime \<Rightarrow> world \<Rightarrow> ingest_item \<Rightarrow> bool \<times> world" where
  "ingest_step rt w item = (case ingest rt item w of
     (Inr r, w') \<Rightarrow> (\<not> ir_duplicate r, w') | (Inl e, w') \<Rightarrow> (False, w'))"

interpretation evidence: once_store "\<lambda>w k. k \<in> accepted_keys rt w" "ingest_step rt" ingest_key store_ok
  "\<lambda>item. datable (ingest_observedAt item)" for rt
proof unfold_locales
  fix w item k
  assume "store_ok w" "datable (ingest_observedAt item)"
  then obtain r w' where "ingest rt item w = (Inr r, w')"
    "ir_duplicate r \<longleftrightarrow> ingest_key item \<in> accepted_keys rt w"
    "accepted_keys rt w' = insert (ingest_key item) (accepted_keys rt w)" "store_ok w'"
    using ingest_run[of item w rt] by blast
  then show "fst (ingest_step rt w item) \<longleftrightarrow> ingest_key item \<notin> accepted_keys rt w"
    "k \<in> accepted_keys rt (snd (ingest_step rt w item)) \<longleftrightarrow> k \<in> accepted_keys rt w \<or> k = ingest_key item"
    "store_ok (snd (ingest_step rt w item))"
    by (auto simp: ingest_step_def)
qed

text \<open>Recorded silences.\<close>

definition recorded_keys :: "runtime \<Rightarrow> world \<Rightarrow> string set" where
  "recorded_keys rt w = (if isDatabaseConfigured rt
     then {k. Some k \<in> cr_candidate_key ` set (t_candidate_events (db w))}
     else {k. jm_has (candidatesByKey w) k})"

definition gap_step :: "runtime \<Rightarrow> world \<Rightarrow> candidate_event \<Rightarrow> bool \<times> world" where
  "gap_step rt w c = (case recordGapCandidate rt c w of
     (Inr r, w') \<Rightarrow> (r \<noteq> None, w') | (Inl e, w') \<Rightarrow> (False, w'))"

definition gap_key :: "candidate_event \<Rightarrow> string" where
  "gap_key c = heartbeatGapKey (ca_zoneId c) (ca_windowStart c)"

definition gap_dates :: "candidate_event \<Rightarrow> bool" where
  "gap_dates c \<longleftrightarrow> date_parse (ca_windowStart c) \<noteq> None \<and> date_parse (ca_windowEnd c) \<noteq> None \<and>
     date_parse (ca_createdAt c) \<noteq> None"

lemma recordGap_run:
  assumes "gap_dates c"
  shows "\<exists>r w'. recordGapCandidate rt c w = (Inr r, w') \<and>
    r = (if gap_key c \<in> recorded_keys rt w then None else Some c) \<and>
    recorded_keys rt w' = insert (gap_key c) (recorded_keys rt w) \<and> same_pipeline_tables w w'"
proof (cases "isDatabaseConfigured rt")
  case False
  then show ?thesis
    by (auto simp: recordGapCandidate_def gap_key_def recorded_keys_def Let_def same_pipeline_tables_def jobs_of_def)
next
  case True
  obtain a b d where dates: "date_parse (ca_windowStart c) = Some a" "date_parse (ca_windowEnd c) = Some b"
    "date_parse (ca_createdAt c) = Some d" using assms by (auto simp: gap_dates_def)
  define row where "row = \<lparr>cr_id = ca_id c, cr_candidate_key = Some (gap_key c), cr_zone_id = ca_zoneId c,
    cr_status = ca_status c, cr_confidence = ca_confidence c, cr_window_start = a, cr_window_end = b,
    cr_evidence_event_ids = ca_evidenceEventIds c, cr_created_at = d\<rparr>"
  define ins where "ins = sql_insert_new cr_candidate_key (t_candidate_events (db w)) row"
  have "insert_candidate (gap_key c) c w = (Inr (fst ins), w\<lparr>db := db w\<lparr>t_candidate_events := snd ins\<rparr>\<rparr>)"
    using insert_candidate_run[OF dates, of "gap_key c" w] by (simp add: row_def ins_def)
  moreover have "fst ins \<longleftrightarrow> gap_key c \<notin> recorded_keys rt w"
    "recorded_keys rt (w\<lparr>db := db w\<lparr>t_candidate_events := snd ins\<rparr>\<rparr>) = insert (gap_key c) (recorded_keys rt w)"
    using sql_insert_new_laws(1,2)[of cr_candidate_key "t_candidate_events (db w)" row] True
    by (auto simp: ins_def row_def recorded_keys_def)
  ultimately show ?thesis using True
    by (auto simp: recordGapCandidate_def gap_key_def[symmetric] Let_def bindS_Inr same_pipeline_tables_def jobs_of_def)
qed

interpretation silence: once_store "\<lambda>w k. k \<in> recorded_keys rt w" "gap_step rt" gap_key "\<lambda>w. True" gap_dates for rt
proof unfold_locales
  fix w c k
  assume "gap_dates c"
  then obtain r w' where "recordGapCandidate rt c w = (Inr r, w')"
    "r = (if gap_key c \<in> recorded_keys rt w then None else Some c)"
    "recorded_keys rt w' = insert (gap_key c) (recorded_keys rt w)"
    using recordGap_run[of c rt w] by blast
  then show "fst (gap_step rt w c) \<longleftrightarrow> gap_key c \<notin> recorded_keys rt w"
    "k \<in> recorded_keys rt (snd (gap_step rt w c)) \<longleftrightarrow> k \<in> recorded_keys rt w \<or> k = gap_key c"
    by (auto simp: gap_step_def)
qed simp

end
