(* ===== verification/Configuration.thy ===== *)
theory Configuration imports Audit_Jobs begin

section \<open>Configuration of the API\<close>

text \<open>
  \<open>lib/cors.ts\<close>, \<open>lib/observability.ts\<close>, \<open>routes/readiness.ts\<close> and \<open>routes/system.ts\<close>: what the
  environment variables turn on, and the report of what is missing. The Sentry client is a
  parameter: what is modelled is when it is called and with which fields.
\<close>

type_synonym env = "string \<Rightarrow> string option"

text \<open>A condition on \<open>env.X\<close>: unset and empty are false.\<close>

definition env_set :: "env \<Rightarrow> string \<Rightarrow> string option" where
  "env_set env name = (case env name of Some v \<Rightarrow> if v = [] then None else Some v | None \<Rightarrow> None)"

definition is_production :: "env \<Rightarrow> bool" where
  "is_production env \<longleftrightarrow> env ''NODE_ENV'' = Some ''production''"

text \<open>\<open>typeof value === "string" && value.trim().length > 0\<close>\<close>

definition hasValue :: "string option \<Rightarrow> bool" where
  "hasValue value \<longleftrightarrow> (case value of None \<Rightarrow> False | Some v \<Rightarrow> 0 < length (trim v))"

subsection \<open>lib/cors.ts\<close>

datatype cors_source = CorsConfigured | CorsLocalDefault

record gridproof_cors_config =
  cors_origins :: "string list"
  cors_source :: cors_source

definition LOCAL_DEV_ORIGINS :: "string list" where
  "LOCAL_DEV_ORIGINS = [''http://localhost:5173'', ''http://127.0.0.1:5173'']"

text \<open>\<open>Array.from(new Set(xs))\<close> keeps the first occurrences.\<close>

definition js_unique :: "'a list \<Rightarrow> 'a list" where
  "js_unique xs = rev (remdups (rev xs))"

lemma set_js_unique [simp]: "set (js_unique xs) = set xs"
  and distinct_js_unique [simp]: "distinct (js_unique xs)"
  by (simp_all add: js_unique_def)

text \<open>\<open>/^https?:\/\/[^/]+(?::\d+)?$/.test(origin)\<close>: the port is a special case of \<open>[^/]+\<close>.\<close>

definition origin_valid :: "string \<Rightarrow> bool" where
  "origin_valid origin \<longleftrightarrow>
     (let rest = (if starts_with origin ''https://'' then drop 8 origin
        else if starts_with origin ''http://'' then drop 7 origin else [])
      in rest \<noteq> [] \<and> CHR ''/'' \<notin> set rest)"

definition coded_error :: "string \<Rightarrow> string \<Rightarrow> js_error" where
  "coded_error c m = \<lparr>statusCode = None, code = Some c, message = m\<rparr>"

definition parseCorsOrigins :: "string \<Rightarrow> string list res" where
  "parseCorsOrigins raw =
     (let origins = filter (\<lambda>origin. origin \<noteq> []) (map (\<lambda>origin. drop_last_slash (trim origin)) (split_on CHR '','' raw)) in
      if ''*'' \<in> set origins
      then Inl (coded_error ''CORS_WILDCARD_FORBIDDEN''
        ''Wildcard CORS origins are not allowed; list deployed frontend origins explicitly'')
      else case List.find (\<lambda>origin. \<not> origin_valid origin) origins of
        Some invalidOrigin \<Rightarrow> Inl (coded_error ''CORS_ORIGIN_INVALID'' (''Invalid CORS origin: '' @ invalidOrigin))
      | None \<Rightarrow> Inr (js_unique origins))"

definition getCorsConfig :: "env \<Rightarrow> gridproof_cors_config res" where
  "getCorsConfig env =
     (let raw = (case env ''CORS_ORIGINS'' of Some v \<Rightarrow> Some v | None \<Rightarrow> env ''CORS_ORIGIN'') in
      bindR (case raw of
          None \<Rightarrow> Inr []
        | Some v \<Rightarrow> if v = [] then Inr [] else parseCorsOrigins v) (\<lambda>configuredOrigins.
      if 0 < length configuredOrigins
      then Inr \<lparr>cors_origins = configuredOrigins, cors_source = CorsConfigured\<rparr>
      else if is_production env
      then Inl (coded_error ''CORS_ORIGINS_REQUIRED'' ''CORS_ORIGINS must be configured in production'')
      else Inr \<lparr>cors_origins = LOCAL_DEV_ORIGINS, cors_source = CorsLocalDefault\<rparr>))"

definition isCorsOriginAllowed :: "gridproof_cors_config \<Rightarrow> string option \<Rightarrow> bool" where
  "isCorsOriginAllowed config origin =
     (case origin of None \<Rightarrow> True | Some v \<Rightarrow> if v = [] then True else v \<in> set (cors_origins config))"

text \<open>What the callback receives: the origin to allow, or false.\<close>

definition corsOptionsFromConfig :: "gridproof_cors_config \<Rightarrow> string option \<Rightarrow> string option" where
  "corsOptionsFromConfig config origin = (if isCorsOriginAllowed config origin then origin else None)"

subsection \<open>lib/observability.ts\<close>

record api_sentry_config =
  sn_dsn :: string
  sn_environment :: "string option"
  sn_release :: "string option"
  sn_tracesSampleRate :: rat

fun firstNonEmpty :: "string option list \<Rightarrow> string option" where
  "firstNonEmpty [] = None"
| "firstNonEmpty (v # vs) = (if hasValue v then map_option trim v else firstNonEmpty vs)"

definition fractionFromEnv :: "string option \<Rightarrow> rat \<Rightarrow> rat" where
  "fractionFromEnv value fallback =
     (case value of
        None \<Rightarrow> fallback
      | Some v \<Rightarrow> if v = [] then fallback
          else case number_of_string v of
            Some parsed \<Rightarrow> if 0 \<le> parsed \<and> parsed \<le> 1 then parsed else fallback
          | None \<Rightarrow> fallback)"

definition sentryConfigFromEnv :: "env \<Rightarrow> api_sentry_config option" where
  "sentryConfigFromEnv env =
     (case firstNonEmpty [env ''SENTRY_DSN'', env ''API_SENTRY_DSN''] of
        None \<Rightarrow> None
      | Some dsn \<Rightarrow> Some
          \<lparr>sn_dsn = dsn, sn_environment = firstNonEmpty [env ''SENTRY_ENVIRONMENT'', env ''NODE_ENV''],
           sn_release = firstNonEmpty [env ''SENTRY_RELEASE'', env ''API_VERSION''],
           sn_tracesSampleRate = fractionFromEnv (env ''SENTRY_TRACES_SAMPLE_RATE'') 0\<rparr>)"

text \<open>\<open>/authorization|token|secret|private.?key|signature/i.test(key)\<close>; the dot does not match a
  line terminator.\<close>

definition private_key_at :: "string \<Rightarrow> bool" where
  "private_key_at s \<longleftrightarrow> starts_with s ''privatekey'' \<or>
     starts_with s ''private'' \<and> starts_with (drop 8 s) ''key'' \<and>
       (case drop 7 s of c # _ \<Rightarrow> ccode c \<noteq> 10 \<and> ccode c \<noteq> 13 | [] \<Rightarrow> False)"

definition sensitive_key :: "string \<Rightarrow> bool" where
  "sensitive_key key =
     (let k = to_lower key in
      includes_str k ''authorization'' \<or> includes_str k ''token'' \<or> includes_str k ''secret'' \<or>
      includes_str k ''signature'' \<or> list_ex private_key_at (suffixes k))"

definition redactSensitiveExtra :: "json_object \<Rightarrow> json_object" where
  "redactSensitiveExtra extra = filter (\<lambda>(key, v). \<not> sensitive_key key) extra"

text \<open>What \<open>runtime.init\<close> and \<open>runtime.captureException\<close> are called with, when they are called.\<close>

definition initApiObservability :: "env \<Rightarrow> world \<Rightarrow> (bool \<times> api_sentry_config option) \<times> world" where
  "initApiObservability env w =
     (case sentryConfigFromEnv env of
        None \<Rightarrow> ((False, None), w)
      | Some config \<Rightarrow> ((True, Some config), w\<lparr>sentryInitialized := True\<rparr>))"

definition captureApiException :: "js_error \<Rightarrow> json_object \<Rightarrow> world \<Rightarrow> (js_error \<times> json_object) option" where
  "captureApiException error extra w =
     (if \<not> sentryInitialized w then None else Some (error, redactSensitiveExtra extra))"

definition resetApiObservabilityForTests :: "world \<Rightarrow> world" where
  "resetApiObservabilityForTests w = w\<lparr>sentryInitialized := False\<rparr>"

subsection \<open>routes/readiness.ts\<close>

datatype check_status = CheckPass | CheckWarn | CheckFail
datatype ready_status = Ready | Degraded | NotReady
datatype evidence_mode = SensorMode | ReporterMode | HybridMode

record readiness_check =
  rc_name :: string
  rc_check :: check_status
  rc_required :: bool
  rc_message :: string
  rc_missingEnv :: "string list"

record readiness_response =
  rs_ok :: bool
  rs_service :: string
  rs_status :: ready_status
  rs_timestamp :: string
  rs_checks :: "readiness_check list"

fun evidence_mode_string :: "evidence_mode \<Rightarrow> string" where
  "evidence_mode_string SensorMode = ''sensor''"
| "evidence_mode_string ReporterMode = ''reporter''"
| "evidence_mode_string HybridMode = ''hybrid''"

text \<open>The same function in \<open>readiness.ts\<close> (\<open>evidenceMode\<close>) and \<open>ingestion/routes.ts\<close>
  (\<open>evidenceModeFromEnv\<close>).\<close>

definition evidenceMode :: "env \<Rightarrow> evidence_mode option" where
  "evidenceMode env =
     (let raw = (case env ''GRIDPROOF_EVIDENCE_MODE'' of None \<Rightarrow> [] | Some v \<Rightarrow> to_lower (trim v)) in
      if raw = [] then Some HybridMode
      else if raw = ''sensor'' then Some SensorMode
      else if raw = ''reporter'' then Some ReporterMode
      else if raw = ''hybrid'' then Some HybridMode
      else None)"

definition configuredCheck :: "env \<Rightarrow> string \<Rightarrow> string list \<Rightarrow> bool \<Rightarrow> string \<Rightarrow> string \<Rightarrow> readiness_check" where
  "configuredCheck env check keys required passMessage missingMessage =
     (let missingEnv = filter (\<lambda>key. \<not> hasValue (env key)) keys; configured = (length missingEnv = 0) in
      \<lparr>rc_name = check, rc_check = (if configured then CheckPass else if required then CheckFail else CheckWarn),
       rc_required = required, rc_message = (if configured then passMessage else missingMessage),
       rc_missingEnv = missingEnv\<rparr>)"

definition corsCheck :: "env \<Rightarrow> readiness_check" where
  "corsCheck env =
     (let configured = (hasValue (env ''CORS_ORIGINS'') \<or> hasValue (env ''CORS_ORIGIN''));
          required = is_production env in
      \<lparr>rc_name = ''browser_cors'',
       rc_check = (if configured then CheckPass else if required then CheckFail else CheckWarn),
       rc_required = required,
       rc_message = (if configured then ''Browser CORS origins are explicitly configured.''
         else if required then ''Production API requires CORS_ORIGINS to match deployed frontend origins.''
         else ''Using local-only CORS defaults; set CORS_ORIGINS before deployment.''),
       rc_missingEnv = (if configured then [] else [''CORS_ORIGINS''])\<rparr>)"

definition databaseCheck :: "env \<Rightarrow> readiness_check" where
  "databaseCheck env = configuredCheck env ''database'' [''DATABASE_URL''] True
     ''Postgres/Supabase database URL is configured.''
     ''DATABASE_URL is required for durable evidence, reviews, proofs, audits, and demo seed data.''"

definition redisCheck :: "env \<Rightarrow> readiness_check" where
  "redisCheck env = configuredCheck env ''redis_queue_and_rate_limits'' [''REDIS_URL''] True
     ''Redis/Upstash URL is configured for queues and distributed rate limits.''
     ''REDIS_URL is required for durable agent queues and deployment-safe rate limiting.''"

definition authCheck :: "env \<Rightarrow> readiness_check" where
  "authCheck env = configuredCheck env ''auth'' [''SUPABASE_JWT_SECRET'', ''GRIDPROOF_AUTH_INVITE_CODE''] True
     ''JWT verification and reviewer/admin invite configuration are present.''
     ''SUPABASE_JWT_SECRET and GRIDPROOF_AUTH_INVITE_CODE are required for production RBAC.''"

definition evidenceModeCheck :: "env \<Rightarrow> readiness_check" where
  "evidenceModeCheck env =
     (case evidenceMode env of
        Some mode \<Rightarrow>
          \<lparr>rc_name = ''evidence_mode'', rc_check = CheckPass, rc_required = True,
           rc_message = ''GRIDPROOF_EVIDENCE_MODE is valid ('' @ evidence_mode_string mode @ '').'', rc_missingEnv = []\<rparr>
      | None \<Rightarrow>
          let raw = (case env ''GRIDPROOF_EVIDENCE_MODE'' of None \<Rightarrow> [] | Some v \<Rightarrow> trim v) in
          \<lparr>rc_name = ''evidence_mode'', rc_check = (if raw \<noteq> [] then CheckFail else CheckWarn), rc_required = True,
           rc_message = (if raw \<noteq> [] then ''GRIDPROOF_EVIDENCE_MODE must be one of sensor, reporter, or hybrid.''
             else ''GRIDPROOF_EVIDENCE_MODE is not set; API will default to hybrid.''),
           rc_missingEnv = (if raw \<noteq> [] then [] else [''GRIDPROOF_EVIDENCE_MODE''])\<rparr>)"

definition telemetrySigningCheck :: "env \<Rightarrow> readiness_check" where
  "telemetrySigningCheck env =
     (let mode = or_else (evidenceMode env) HybridMode in
      configuredCheck env ''sensor_ingestion_signing'' [''TELEMETRY_HMAC_SECRET'']
        (mode = SensorMode \<or> mode = HybridMode) ''Sensor telemetry HMAC signing secret is configured.''
        (if mode = ReporterMode
         then ''Sensor mode is disabled; telemetry HMAC secret is optional for this deployment.''
         else ''TELEMETRY_HMAC_SECRET is required before accepting production sensor telemetry.''))"

definition webhookSigningCheck :: "env \<Rightarrow> readiness_check" where
  "webhookSigningCheck env =
     (let mode = or_else (evidenceMode env) HybridMode in
      configuredCheck env ''whatsapp_webhook_signing'' [''WHATSAPP_WEBHOOK_SECRET'']
        (mode = ReporterMode \<or> mode = HybridMode) ''WhatsApp webhook HMAC signing secret is configured.''
        (if mode = SensorMode
         then ''Reporter mode is disabled; WhatsApp webhook secret is optional for this deployment.''
         else ''WHATSAPP_WEBHOOK_SECRET is required before accepting production webhook reporter evidence.''))"

definition RELAYER_KEYS :: "string list" where
  "RELAYER_KEYS = [''BOTCHAIN_RPC_URL'', ''BOTCHAIN_CHAIN_ID'', ''BOTCHAIN_EXPLORER_BASE_URL'',
     ''BOTCHAIN_NODE_REGISTRY_ADDRESS'', ''BOTCHAIN_UPTIME_ATTESTATION_ADDRESS'',
     ''BOTCHAIN_REPUTATION_ESCROW_ADDRESS'', ''RELAYER_PRIVATE_KEY'']"

definition botChainRelayerCheck :: "env \<Rightarrow> readiness_check" where
  "botChainRelayerCheck env = configuredCheck env ''bot_chain_relayer'' RELAYER_KEYS True
     ''BOT Chain RPC, contract addresses, explorer URL, and relayer key are configured.''
     ''BOT Chain relayer configuration is incomplete; on-chain proof submission cannot run.''"

definition notificationCheck :: "env \<Rightarrow> readiness_check" where
  "notificationCheck env = configuredCheck env ''notifications'' [''NOTIFICATION_WEBHOOK_URL''] False
     ''Notification webhook is configured.''
     ''Notification webhook is not configured; notifications will remain in the local outbox.''"

definition observabilityCheck :: "env \<Rightarrow> readiness_check" where
  "observabilityCheck env = configuredCheck env ''observability'' [''SENTRY_DSN''] False
     ''Sentry error tracking is configured.''
     ''Sentry DSN is not configured; rely on platform logs and /metrics during the demo.''"

definition readinessSnapshot :: "env \<Rightarrow> int \<Rightarrow> readiness_response" where
  "readinessSnapshot env now =
     (let checks = [corsCheck env, databaseCheck env, redisCheck env, authCheck env, evidenceModeCheck env,
            telemetrySigningCheck env, webhookSigningCheck env, botChainRelayerCheck env, notificationCheck env,
            observabilityCheck env];
          status = (if list_ex (\<lambda>c. rc_check c = CheckFail) checks then NotReady
            else if list_ex (\<lambda>c. rc_check c = CheckWarn) checks then Degraded else Ready) in
      \<lparr>rs_ok = (status \<noteq> NotReady), rs_service = ''gridproof-api'', rs_status = status,
       rs_timestamp = to_iso now, rs_checks = checks\<rparr>)"

definition readinessResponseSchema :: "zod_formats \<Rightarrow> readiness_response \<Rightarrow> bool" where
  "readinessResponseSchema F r \<longleftrightarrow> rs_service r = ''gridproof-api'' \<and> fmt_datetime F (rs_timestamp r) \<and>
     list_all (\<lambda>c. 1 \<le> length (rc_name c) \<and> 1 \<le> length (rc_message c) \<and>
       list_all (\<lambda>m. 1 \<le> length m) (rc_missingEnv c)) (rs_checks r)"

subsection \<open>routes/system.ts\<close>

record health_response =
  hl_ok :: bool
  hl_service :: string
  hl_version :: string
  hl_timestamp :: string

definition health_handler :: "env \<Rightarrow> int \<Rightarrow> health_response" where
  "health_handler env now = \<lparr>hl_ok = True, hl_service = ''gridproof-api'',
     hl_version = or_else (env ''API_VERSION'') ''0.1.0'', hl_timestamp = to_iso now\<rparr>"

definition healthResponseSchema :: "zod_formats \<Rightarrow> health_response \<Rightarrow> bool" where
  "healthResponseSchema F r \<longleftrightarrow> hl_ok r \<and> hl_service r = ''gridproof-api'' \<and> fmt_datetime F (hl_timestamp r)"

definition metrics_handler :: "int \<Rightarrow> world \<Rightarrow> metrics_snapshot" where
  "metrics_handler startedAt w = metricsSnapshot startedAt (w_now w) (w_counters w)"

definition metricsResponseSchema :: "metrics_snapshot \<Rightarrow> bool" where
  "metricsResponseSchema r \<longleftrightarrow> 0 \<le> uptimeSeconds r"

definition readiness_handler :: "env \<Rightarrow> int \<Rightarrow> nat \<times> readiness_response" where
  "readiness_handler env now =
     (let readiness = readinessSnapshot env now in (if rs_ok readiness then 200 else 503, readiness))"

section \<open>What the configuration guarantees\<close>

lemma trim_empty: "trim s = [] \<longleftrightarrow> (\<forall>c \<in> set s. is_space c)"
  by (metis append_Nil2 dropWhile_eq_Nil_conv rev_is_Nil_conv set_rev takeWhile_dropWhile_id trim_def
      dropWhile_idem set_takeWhileD set_append Un_iff)

lemma split_on_chars: "item \<in> set (split_on d s) \<Longrightarrow> set item \<subseteq> set s"
proof (induction d s arbitrary: item rule: split_on.induct)
  case (2 d c s)
  then show ?case by (cases "split_on d s") (auto split: if_splits, blast+)
qed simp

lemma hasValue_iff: "hasValue v \<longleftrightarrow> (\<exists>s. v = Some s \<and> trim s \<noteq> [])"
  by (auto simp: hasValue_def split: option.splits)

lemma configuredCheck_iff:
  "rc_check (configuredCheck env check keys required pm mm) = CheckFail \<longleftrightarrow>
     required \<and> \<not> list_all (\<lambda>key. hasValue (env key)) keys"
  by (auto simp: configuredCheck_def Let_def list_all_iff filter_empty_conv)

lemma evidenceMode_unset: "evidenceMode env = None \<Longrightarrow> hasValue (env ''GRIDPROOF_EVIDENCE_MODE'')"
  by (auto simp: evidenceMode_def Let_def hasValue_def split: option.splits if_splits)

text \<open>The readiness report is ready or degraded exactly when nothing required is missing: the
  database, the queue, the secrets of authentication, a valid evidence mode, the signing secret of
  every kind of evidence the mode admits, the chain relayer, and in production the browser origins.
  The check of the evidence mode never warns: an unset mode passes as hybrid, so its message
  about an unset mode is never shown.\<close>

theorem readiness_ok_iff:
  "(rs_ok (readinessSnapshot env now) \<longleftrightarrow>
     (is_production env \<longrightarrow> hasValue (env ''CORS_ORIGINS'') \<or> hasValue (env ''CORS_ORIGIN'')) \<and>
     hasValue (env ''DATABASE_URL'') \<and> hasValue (env ''REDIS_URL'') \<and>
     hasValue (env ''SUPABASE_JWT_SECRET'') \<and> hasValue (env ''GRIDPROOF_AUTH_INVITE_CODE'') \<and>
     (\<exists>mode. evidenceMode env = Some mode \<and>
       (mode \<noteq> ReporterMode \<longrightarrow> hasValue (env ''TELEMETRY_HMAC_SECRET'')) \<and>
       (mode \<noteq> SensorMode \<longrightarrow> hasValue (env ''WHATSAPP_WEBHOOK_SECRET''))) \<and>
     list_all (\<lambda>key. hasValue (env key)) RELAYER_KEYS)
   \<and> rc_check (evidenceModeCheck env) \<noteq> CheckWarn"
proof -
  have ok: "rs_ok (readinessSnapshot env now) \<longleftrightarrow> (\<forall>c \<in> set (rs_checks (readinessSnapshot env now)). rc_check c \<noteq> CheckFail)"
    by (simp add: readinessSnapshot_def Let_def)
  have mode: "rc_check (evidenceModeCheck env) \<noteq> CheckFail \<longleftrightarrow> evidenceMode env \<noteq> None"
    "rc_check (evidenceModeCheck env) \<noteq> CheckWarn"
    using evidenceMode_unset[of env] by (cases "evidenceMode env"; auto simp: evidenceModeCheck_def hasValue_iff Let_def)+
  have cors: "rc_check (corsCheck env) \<noteq> CheckFail \<longleftrightarrow>
      (is_production env \<longrightarrow> hasValue (env ''CORS_ORIGINS'') \<or> hasValue (env ''CORS_ORIGIN''))"
    by (simp add: corsCheck_def Let_def)
  show ?thesis
  proof (cases "evidenceMode env")
    case None
    then show ?thesis using mode unfolding ok by (simp add: readinessSnapshot_def Let_def)
  next
    case (Some m)
    have checks: "set (rs_checks (readinessSnapshot env now)) = {corsCheck env, databaseCheck env, redisCheck env,
        authCheck env, evidenceModeCheck env, telemetrySigningCheck env, webhookSigningCheck env,
        botChainRelayerCheck env, notificationCheck env, observabilityCheck env}"
      by (simp add: readinessSnapshot_def Let_def)
    have failing: "rc_check (databaseCheck env) \<noteq> CheckFail \<longleftrightarrow> hasValue (env ''DATABASE_URL'')"
      "rc_check (redisCheck env) \<noteq> CheckFail \<longleftrightarrow> hasValue (env ''REDIS_URL'')"
      "rc_check (authCheck env) \<noteq> CheckFail \<longleftrightarrow> hasValue (env ''SUPABASE_JWT_SECRET'') \<and> hasValue (env ''GRIDPROOF_AUTH_INVITE_CODE'')"
      "rc_check (botChainRelayerCheck env) \<noteq> CheckFail \<longleftrightarrow> list_all (\<lambda>key. hasValue (env key)) RELAYER_KEYS"
      "rc_check (notificationCheck env) \<noteq> CheckFail" "rc_check (observabilityCheck env) \<noteq> CheckFail"
      by (simp_all only: databaseCheck_def redisCheck_def authCheck_def botChainRelayerCheck_def notificationCheck_def
          observabilityCheck_def configuredCheck_iff list.pred_inject simp_thms)
    have signing: "rc_check (telemetrySigningCheck env) \<noteq> CheckFail \<longleftrightarrow> (m \<noteq> ReporterMode \<longrightarrow> hasValue (env ''TELEMETRY_HMAC_SECRET''))"
      "rc_check (webhookSigningCheck env) \<noteq> CheckFail \<longleftrightarrow> (m \<noteq> SensorMode \<longrightarrow> hasValue (env ''WHATSAPP_WEBHOOK_SECRET''))"
      unfolding telemetrySigningCheck_def webhookSigningCheck_def Let_def configuredCheck_iff by (cases m; simp add: Some)+
    show ?thesis unfolding ok checks
      by (simp only: ball_simps failing signing cors mode Some option.distinct(2) option.inject simp_thms ex_simps not_False_eq_True conj_assoc)
  qed
qed

text \<open>The browser origins of a production server are exactly the configured ones: a server that
  starts in production allows a non-empty origin only when it is an item of the configured list
  without surrounding space and final slash, it is an http or https origin without a path, and it
  is not the wildcard; the readiness report then passes the origin check.\<close>

theorem production_cors_is_configured:
  assumes "getCorsConfig env = Inr config" "is_production env"
    and "isCorsOriginAllowed config (Some origin)" "origin \<noteq> []"
  shows "origin_valid origin \<and> origin \<noteq> ''*'' \<and> cors_source config = CorsConfigured \<and>
    rc_check (corsCheck env) = CheckPass \<and>
    (\<exists>raw item. (env ''CORS_ORIGINS'' = Some raw \<or> env ''CORS_ORIGINS'' = None \<and> env ''CORS_ORIGIN'' = Some raw) \<and>
      item \<in> set (split_on CHR '','' raw) \<and> origin = drop_last_slash (trim item))"
proof -
  obtain raw origins where raw: "env ''CORS_ORIGINS'' = Some raw \<or> env ''CORS_ORIGINS'' = None \<and> env ''CORS_ORIGIN'' = Some raw"
    and parse: "parseCorsOrigins raw = Inr origins" "config = \<lparr>cors_origins = origins, cors_source = CorsConfigured\<rparr>"
    using assms(1,2) by (auto simp: getCorsConfig_def Let_def split: option.splits if_splits)
  have mem: "origin \<in> set origins" using assms(3,4) parse(2) by (simp add: isCorsOriginAllowed_def)
  then have "origin \<noteq> ''*''" "origin_valid origin"
    and item: "\<exists>item \<in> set (split_on CHR '','' raw). origin = drop_last_slash (trim item)"
    using parse(1) by (auto simp: parseCorsOrigins_def Let_def find_None_iff split: if_splits option.splits)
  moreover have "hasValue (Some raw)"
  proof -
    obtain i where "i \<in> set (split_on CHR '','' raw)" "origin = drop_last_slash (trim i)" using item by blast
    then have "trim i \<noteq> []" "set i \<subseteq> set raw" using assms(4) split_on_chars by (auto simp: drop_last_slash_def split: if_splits)
    then have "trim raw \<noteq> []" by (auto simp: trim_empty)
    then show ?thesis by (simp add: hasValue_def)
  qed
  ultimately show ?thesis using raw parse(2) item by (auto simp: corsCheck_def Let_def)
qed

theorem production_cors_is_configured_witness:
  "origin_valid ''https://grid.example'' \<and> ''https://grid.example'' \<noteq> ''*''"
proof -
  let ?env = "\<lambda>name. if name = ''NODE_ENV'' then Some ''production'' else if name = ''CORS_ORIGINS''
    then Some '' https://grid.example/ ,http://localhost:5173'' else None"
  have "getCorsConfig ?env = Inr \<lparr>cors_origins = [''https://grid.example'', ''http://localhost:5173''], cors_source = CorsConfigured\<rparr>"
    by code_simp
  from production_cors_is_configured[OF this, of "''https://grid.example''"]
  show ?thesis by (simp add: is_production_def isCorsOriginAllowed_def)
qed

theorem readiness_ok_iff_witness:
  "rs_ok (readinessSnapshot (\<lambda>key. Some ''hybrid'') 0) \<and> \<not> rs_ok (readinessSnapshot (\<lambda>key. None) 0)"
proof -
  have "evidenceMode (\<lambda>key. Some ''hybrid'') = Some HybridMode" by code_simp
  moreover have "trim ''hybrid'' \<noteq> []" by code_simp
  ultimately have "rs_ok (readinessSnapshot (\<lambda>key. Some ''hybrid'') 0)"
    by (subst readiness_ok_iff[THEN conjunct1]) (simp add: hasValue_iff list_all_iff)
  moreover have "\<not> rs_ok (readinessSnapshot (\<lambda>key. None) 0)"
    by (subst readiness_ok_iff[THEN conjunct1]) (simp add: hasValue_iff)
  ultimately show ?thesis by simp
qed

end
