(* ===== verification/Agent_Tools.thy ===== *)
theory Agent_Tools imports Ingestion_Store Configuration begin

section \<open>The read-only tools of the agents\<close>

text \<open>
  \<open>packages/ai/src/tools.ts\<close>: what the agents are told about a candidate, read from the tables. The
  average is the database's (a parameter), as are the formats and the errors of the schemas. The
  session of the database has no daylight saving, so a day is 24 hours; the four queries of a context are
  evaluated in their order, which decides only which of several errors is reported.
\<close>

record agent_lib =
  al_formats :: zod_formats
  al_zod :: "string \<Rightarrow> js_error"
    \<comment> \<open>what the schema of this name throws\<close>
  al_avg :: "rat list \<Rightarrow> rat"

definition zod_parse :: "agent_lib \<Rightarrow> string \<Rightarrow> (zod_formats \<Rightarrow> 'a \<Rightarrow> bool) \<Rightarrow> 'a \<Rightarrow> 'a res" where
  "zod_parse al name schema v = (if schema (al_formats al) v then Inr v else Inl (al_zod al name))"

definition pg_time :: "string \<Rightarrow> int res" where
  "pg_time s = (case date_parse s of
     None \<Rightarrow> Inl (plain_error ''invalid input syntax for type timestamp with time zone'')
   | Some t \<Rightarrow> Inr t)"

subsection \<open>Inputs and outputs\<close>

record time_range =
  tr_start :: string
  tr_end :: string

definition rangeSchema :: "zod_formats \<Rightarrow> time_range \<Rightarrow> bool" where
  "rangeSchema F r \<longleftrightarrow> isoDateTimeSchema F (tr_start r) \<and> isoDateTimeSchema F (tr_end r)"

record telemetry_window_input =
  wi_zoneId :: string
  wi_range :: time_range
  wi_limit :: "int option"

definition telemetryWindowInputSchema :: "zod_formats \<Rightarrow> telemetry_window_input \<Rightarrow> bool" where
  "telemetryWindowInputSchema F i \<longleftrightarrow> uuidSchema F (wi_zoneId i) \<and> rangeSchema F (wi_range i) \<and>
     opt_all (\<lambda>n. 0 < n \<and> n \<le> 500) (wi_limit i)"

record telemetry_window =
  tw_zoneId :: string
  tw_range :: time_range
  tw_events :: "evidence_event list"

definition telemetryWindowOutputSchema :: "zod_formats \<Rightarrow> telemetry_window \<Rightarrow> bool" where
  "telemetryWindowOutputSchema F w \<longleftrightarrow> uuidSchema F (tw_zoneId w) \<and> rangeSchema F (tw_range w) \<and>
     list_all (evidenceEventSchema F) (tw_events w)"

record historical_baseline_input =
  bi_zoneId :: string
  bi_asOf :: string
  bi_windowDays :: "int option"

definition historicalBaselineInputSchema :: "zod_formats \<Rightarrow> historical_baseline_input \<Rightarrow> bool" where
  "historicalBaselineInputSchema F i \<longleftrightarrow> uuidSchema F (bi_zoneId i) \<and> isoDateTimeSchema F (bi_asOf i) \<and>
     opt_all (\<lambda>n. 0 < n \<and> n \<le> 90) (bi_windowDays i)"

record historical_baseline =
  hb_zoneId :: string
  hb_sampleSize :: nat
  hb_gridUp :: nat
  hb_gridDown :: nat
  hb_unknown :: nat
  hb_averageVoltage :: "rat option"
  hb_firstObservedAt :: "string option"
  hb_lastObservedAt :: "string option"

definition historicalBaselineOutputSchema :: "zod_formats \<Rightarrow> historical_baseline \<Rightarrow> bool" where
  "historicalBaselineOutputSchema F b \<longleftrightarrow> uuidSchema F (hb_zoneId b) \<and> opt_all (\<lambda>v. 0 \<le> v) (hb_averageVoltage b) \<and>
     opt_all (isoDateTimeSchema F) (hb_firstObservedAt b) \<and> opt_all (isoDateTimeSchema F) (hb_lastObservedAt b)"

record provider_metadata_input =
  mi_providerId :: string
  mi_asOf :: string
  mi_windowDays :: "int option"

definition providerMetadataInputSchema :: "zod_formats \<Rightarrow> provider_metadata_input \<Rightarrow> bool" where
  "providerMetadataInputSchema F i \<longleftrightarrow> uuidSchema F (mi_providerId i) \<and> isoDateTimeSchema F (mi_asOf i) \<and>
     opt_all (\<lambda>n. 0 < n \<and> n \<le> 90) (mi_windowDays i)"

record provider_metadata =
  md_provider :: provider
  md_recentEvidenceCount :: nat
  md_lastEvidenceAt :: "string option"
  md_latestStatus :: "evidence_status option"

definition providerMetadataOutputSchema :: "zod_formats \<Rightarrow> provider_metadata \<Rightarrow> bool" where
  "providerMetadataOutputSchema F m \<longleftrightarrow> providerSchema F (md_provider m) \<and> opt_all (isoDateTimeSchema F) (md_lastEvidenceAt m)"

record conflicting_reports_input =
  ci_zoneId :: string
  ci_range :: time_range

definition conflictingReportsInputSchema :: "zod_formats \<Rightarrow> conflicting_reports_input \<Rightarrow> bool" where
  "conflictingReportsInputSchema F i \<longleftrightarrow> uuidSchema F (ci_zoneId i) \<and> rangeSchema F (ci_range i)"

record conflict_group =
  cg_status :: evidence_status
  cg_count :: nat
  cg_evidenceEventIds :: "string list"

definition reportConflictGroupSchema :: "zod_formats \<Rightarrow> conflict_group \<Rightarrow> bool" where
  "reportConflictGroupSchema F g \<longleftrightarrow> list_all (uuidSchema F) (cg_evidenceEventIds g)"

record conflicting_reports =
  cf_zoneId :: string
  cf_range :: time_range
  cf_hasConflict :: bool
  cf_reports :: "evidence_event list"
  cf_statusGroups :: "conflict_group list"

definition conflictingReportsOutputSchema :: "zod_formats \<Rightarrow> conflicting_reports \<Rightarrow> bool" where
  "conflictingReportsOutputSchema F c \<longleftrightarrow> uuidSchema F (cf_zoneId c) \<and> rangeSchema F (cf_range c) \<and>
     list_all (evidenceEventSchema F) (cf_reports c) \<and> list_all (reportConflictGroupSchema F) (cf_statusGroups c)"

record agent_tool_context =
  tc_telemetryWindow :: telemetry_window
  tc_historicalBaseline :: historical_baseline
  tc_conflictingReports :: conflicting_reports
  tc_providerMetadata :: "provider_metadata list"

definition agentToolContextSchema :: "zod_formats \<Rightarrow> agent_tool_context \<Rightarrow> bool" where
  "agentToolContextSchema F c \<longleftrightarrow> telemetryWindowOutputSchema F (tc_telemetryWindow c) \<and>
     historicalBaselineOutputSchema F (tc_historicalBaseline c) \<and>
     conflictingReportsOutputSchema F (tc_conflictingReports c) \<and>
     list_all (providerMetadataOutputSchema F) (tc_providerMetadata c)"

subsection \<open>The tools\<close>

text \<open>The row as an event, without the current that the event of the ingestion store carries.\<close>

definition mapEvidenceRow_tools :: "agent_lib \<Rightarrow> evidence_row \<Rightarrow> evidence_event res" where
  "mapEvidenceRow_tools al row = zod_parse al ''evidenceEvent'' evidenceEventSchema
     \<lparr>ev_id = er_id row, ev_providerId = er_provider_id row, ev_zoneId = er_zone_id row,
      ev_idempotencyKey = er_idempotency_key row, ev_source = er_source row, ev_status = er_status row,
      ev_voltage = er_voltage row, ev_currentAmps = None, ev_confidenceHint = er_confidence_hint row,
      ev_rawPayload = er_raw_payload row, ev_observedAt = to_iso (er_observed_at row),
      ev_receivedAt = to_iso (er_received_at row)\<rparr>"

text \<open>\<open>order by observed_at asc, received_at asc, id asc\<close>.\<close>

definition evidence_order :: "evidence_row \<Rightarrow> evidence_row \<Rightarrow> int" where
  "evidence_order a b =
     (if er_observed_at a \<noteq> er_observed_at b then er_observed_at a - er_observed_at b
      else if er_received_at a \<noteq> er_received_at b then er_received_at a - er_received_at b
      else text_compare (er_id a) (er_id b))"

definition getTelemetryWindow :: "agent_lib \<Rightarrow> tables \<Rightarrow> telemetry_window_input \<Rightarrow> telemetry_window res" where
  "getTelemetryWindow al t input =
     bindR (zod_parse al ''telemetryWindowInput'' telemetryWindowInputSchema input) (\<lambda>parsed.
     bindR (pg_time (tr_start (wi_range parsed))) (\<lambda>from.
     bindR (pg_time (tr_end (wi_range parsed))) (\<lambda>until.
     let rows = take (nat (or_else (wi_limit parsed) 200)) (js_sort evidence_order
           (filter (\<lambda>e. er_zone_id e = wi_zoneId parsed \<and> from \<le> er_observed_at e \<and> er_observed_at e \<le> until)
             (t_evidence_events t))) in
     bindR (map_res (mapEvidenceRow_tools al) rows) (\<lambda>events.
     zod_parse al ''telemetryWindowOutput'' telemetryWindowOutputSchema
       \<lparr>tw_zoneId = wi_zoneId parsed, tw_range = wi_range parsed, tw_events = events\<rparr>))))"

definition pg_days :: "int \<Rightarrow> int" where "pg_days n = n * ms_per_day"

definition pg_min :: "int list \<Rightarrow> int option" where "pg_min xs = (if xs = [] then None else Some (Min (set xs)))"
definition pg_max :: "int list \<Rightarrow> int option" where "pg_max xs = (if xs = [] then None else Some (Max (set xs)))"

definition getHistoricalBaseline :: "agent_lib \<Rightarrow> tables \<Rightarrow> historical_baseline_input \<Rightarrow> historical_baseline res" where
  "getHistoricalBaseline al t input =
     bindR (zod_parse al ''historicalBaselineInput'' historicalBaselineInputSchema input) (\<lambda>parsed.
     bindR (pg_time (bi_asOf parsed)) (\<lambda>asOf.
     let rows = filter (\<lambda>e. er_zone_id e = bi_zoneId parsed \<and>
           asOf - pg_days (or_else (bi_windowDays parsed) 7) \<le> er_observed_at e \<and> er_observed_at e < asOf)
           (t_evidence_events t);
         status = (\<lambda>s. length (filter (\<lambda>e. er_status e = s) rows));
         voltages = concat (map (\<lambda>e. case er_voltage e of None \<Rightarrow> [] | Some v \<Rightarrow> [v]) rows) in
     zod_parse al ''historicalBaselineOutput'' historicalBaselineOutputSchema
       \<lparr>hb_zoneId = bi_zoneId parsed, hb_sampleSize = length rows, hb_gridUp = status GridUp,
        hb_gridDown = status GridDown, hb_unknown = status Unknown,
        hb_averageVoltage = (if voltages = [] then None else Some (al_avg al voltages)),
        hb_firstObservedAt = map_option to_iso (pg_min (map er_observed_at rows)),
        hb_lastObservedAt = map_option to_iso (pg_max (map er_observed_at rows))\<rparr>))"

text \<open>\<open>order by observed_at desc, received_at desc\<close>, of which the first is the latest.\<close>

definition latest_first :: "evidence_row \<Rightarrow> evidence_row \<Rightarrow> int" where
  "latest_first a b =
     (if er_observed_at a \<noteq> er_observed_at b then er_observed_at b - er_observed_at a
      else er_received_at b - er_received_at a)"

definition provider_of_row :: "provider_row \<Rightarrow> string option \<Rightarrow> provider" where
  "provider_of_row row lastSeenAt =
     \<lparr>pr_id = pv_id row, pr_userId = pv_user_id row, pr_walletAddress = pv_wallet_address row,
      pr_providerType = pv_provider_type row, pr_zoneId = pv_zone_id row, pr_reputationCache = pv_reputation_cache row,
      pr_active = pv_active row, pr_lastSeenAt = lastSeenAt\<rparr>"

definition getProviderMetadata :: "agent_lib \<Rightarrow> tables \<Rightarrow> provider_metadata_input \<Rightarrow> provider_metadata res" where
  "getProviderMetadata al t input =
     bindR (zod_parse al ''providerMetadataInput'' providerMetadataInputSchema input) (\<lambda>parsed.
     bindR (pg_time (mi_asOf parsed)) (\<lambda>asOf.
     let rows = filter (\<lambda>e. er_provider_id e = mi_providerId parsed \<and>
           asOf - pg_days (or_else (mi_windowDays parsed) 7) \<le> er_observed_at e \<and> er_observed_at e \<le> asOf)
           (t_evidence_events t);
         last_evidence_at = map_option to_iso (pg_max (map er_observed_at rows)) in
     case sql_find pv_id (t_providers t) (mi_providerId parsed) of
       None \<Rightarrow> Inl (plain_error (''Provider metadata not found for '' @ mi_providerId parsed))
     | Some row \<Rightarrow>
         zod_parse al ''providerMetadataOutput'' providerMetadataOutputSchema
           \<lparr>md_provider = provider_of_row row last_evidence_at, md_recentEvidenceCount = length rows,
            md_lastEvidenceAt = last_evidence_at,
            md_latestStatus = (case js_sort latest_first rows of [] \<Rightarrow> None | e # _ \<Rightarrow> Some (er_status e))\<rparr>))"

definition groupReportsByStatus :: "evidence_event list \<Rightarrow> conflict_group list" where
  "groupReportsByStatus reports =
     map (\<lambda>(status, ids). \<lparr>cg_status = status, cg_count = length ids, cg_evidenceEventIds = ids\<rparr>)
       (fold (\<lambda>report groups. jm_set (ev_status report)
           (or_else (jm_get groups (ev_status report)) [] @ [ev_id report]) groups) reports [])"

definition getConflictingReports :: "agent_lib \<Rightarrow> tables \<Rightarrow> conflicting_reports_input \<Rightarrow> conflicting_reports res" where
  "getConflictingReports al t input =
     bindR (zod_parse al ''conflictingReportsInput'' conflictingReportsInputSchema input) (\<lambda>parsed.
     bindR (pg_time (tr_start (ci_range parsed))) (\<lambda>from.
     bindR (pg_time (tr_end (ci_range parsed))) (\<lambda>until.
     let rows = js_sort evidence_order
           (filter (\<lambda>e. er_zone_id e = ci_zoneId parsed \<and> er_source e = ReporterProvider \<and>
             from \<le> er_observed_at e \<and> er_observed_at e \<le> until) (t_evidence_events t)) in
     bindR (map_res (mapEvidenceRow_tools al) rows) (\<lambda>reports.
     let statusGroups = groupReportsByStatus reports in
     zod_parse al ''conflictingReportsOutput'' conflictingReportsOutputSchema
       \<lparr>cf_zoneId = ci_zoneId parsed, cf_range = ci_range parsed,
        cf_hasConflict = (1 < length (filter (\<lambda>g. 0 < cg_count g \<and> cg_status g \<noteq> Unknown) statusGroups)),
        cf_reports = reports, cf_statusGroups = statusGroups\<rparr>))))"

definition context_providers :: "provider list \<Rightarrow> telemetry_window \<Rightarrow> conflicting_reports \<Rightarrow> string list" where
  "context_providers providers window reports =
     js_unique (map pr_id providers @ map ev_providerId (tw_events window) @ map ev_providerId (cf_reports reports))"

definition collectAgentToolContext ::
  "agent_lib \<Rightarrow> tables \<Rightarrow> candidate_event \<Rightarrow> provider list \<Rightarrow> agent_tool_context res" where
  "collectAgentToolContext al t candidate providers =
     (let range = \<lparr>tr_start = ca_windowStart candidate, tr_end = ca_windowEnd candidate\<rparr> in
      bindR (getTelemetryWindow al t \<lparr>wi_zoneId = ca_zoneId candidate, wi_range = range, wi_limit = None\<rparr>) (\<lambda>telemetryWindow.
      bindR (getHistoricalBaseline al t
        \<lparr>bi_zoneId = ca_zoneId candidate, bi_asOf = ca_windowEnd candidate, bi_windowDays = None\<rparr>) (\<lambda>historicalBaseline.
      bindR (getConflictingReports al t \<lparr>ci_zoneId = ca_zoneId candidate, ci_range = range\<rparr>) (\<lambda>conflictingReports.
      bindR (map_res (\<lambda>providerId. getProviderMetadata al t
          \<lparr>mi_providerId = providerId, mi_asOf = ca_windowEnd candidate, mi_windowDays = None\<rparr>)
        (context_providers providers telemetryWindow conflictingReports)) (\<lambda>providerMetadata.
      zod_parse al ''agentToolContext'' agentToolContextSchema
        \<lparr>tc_telemetryWindow = telemetryWindow, tc_historicalBaseline = historicalBaseline,
         tc_conflictingReports = conflictingReports, tc_providerMetadata = providerMetadata\<rparr>)))))"

end
