(* ===== verification/Js_Json.thy ===== *)
theory Js_Json imports Domain begin

section \<open>\<open>JSON.parse\<close>\<close>

text \<open>
  The parser of the language, as the agent worker uses it on the replies of a language model. An object
  keeps the last value of a repeated key. Strings are ASCII: an escape beyond it is outside the model and
  refused, as is a number beyond the doubles, which no schema of the program accepts. The fuel is more
  than the nesting of any text of that length, so it never runs out (\<open>fuel_enough\<close>).
\<close>

definition is_json_space :: "char \<Rightarrow> bool" where
  "is_json_space c \<longleftrightarrow> ccode c \<in> {32, 9, 10, 13}"

abbreviation skip_ws :: "string \<Rightarrow> string" where "skip_ws \<equiv> dropWhile is_json_space"

definition simple_escape :: "char \<Rightarrow> char option" where
  "simple_escape c =
     (if c = CHR 0x22 \<or> c = CHR 0x5C \<or> c = CHR ''/'' then Some c
      else if c = CHR ''b'' then Some (CHR 0x08) else if c = CHR ''f'' then Some (CHR 0x0C)
      else if c = CHR ''n'' then Some (CHR 0x0A) else if c = CHR ''r'' then Some (CHR 0x0D)
      else if c = CHR ''t'' then Some (CHR 0x09) else None)"

definition ascii_escape :: "string \<Rightarrow> char option" where
  "ascii_escape s = (if length s \<noteq> 4 then None else case radix_val 16 0 s of
     Some n \<Rightarrow> if n < 128 then Some (char_of (nat n)) else None | None \<Rightarrow> None)"

abbreviation prepend :: "'a \<Rightarrow> ('a list \<times> 'b) option \<Rightarrow> ('a list \<times> 'b) option" where
  "prepend x \<equiv> map_option (\<lambda>(xs, r). (x # xs, r))"

text \<open>From behind the opening quotation mark: the string and what follows the closing one.\<close>

fun string_body :: "string \<Rightarrow> (string \<times> string) option" where
  "string_body [] = None"
| "string_body (c # s) =
     (if c = CHR 0x22 then Some ([], s)
      else if c = CHR 0x5C then
        (case s of
           [] \<Rightarrow> None
         | e # r \<Rightarrow>
             if e = CHR ''u'' then
               (case ascii_escape (take 4 r) of None \<Rightarrow> None | Some d \<Rightarrow> prepend d (string_body (drop 4 r)))
             else (case simple_escape e of None \<Rightarrow> None | Some d \<Rightarrow> prepend d (string_body r)))
      else if ccode c < 32 then None
      else prepend c (string_body s))"

definition number_char :: "char \<Rightarrow> bool" where
  "number_char c \<longleftrightarrow> is_digit c \<or> c = CHR ''.'' \<or> c = CHR ''e'' \<or> c = CHR ''E'' \<or> c = CHR ''+'' \<or> c = CHR ''-''"

text \<open>The grammar of a literal: no leading zeros, digits on both sides of the point and in the exponent.\<close>

definition json_literal :: "string \<Rightarrow> bool" where
  "json_literal s =
     (let t = (if take 1 s = ''-'' then drop 1 s else s);
          whole = takeWhile is_digit t; r = dropWhile is_digit t;
          r2 = (if take 1 r = ''.'' then dropWhile is_digit (drop 1 r) else r);
          e = drop 1 r2; digits = (if take 1 e = ''+'' \<or> take 1 e = ''-'' then drop 1 e else e)
      in whole \<noteq> [] \<and> (take 1 whole = ''0'' \<longrightarrow> whole = ''0'') \<and>
         (take 1 r = ''.'' \<longrightarrow> takeWhile is_digit (drop 1 r) \<noteq> []) \<and>
         (r2 = [] \<or> (take 1 r2 = ''e'' \<or> take 1 r2 = ''E'') \<and> digits \<noteq> [] \<and> list_all is_digit digits))"

definition json_number_at :: "string \<Rightarrow> (rat \<times> string) option" where
  "json_number_at s =
     (let lit = takeWhile number_char s in
      if json_literal lit then map_option (\<lambda>v. (v, dropWhile number_char s)) (number_of_string lit) else None)"

abbreviation merge_members :: "json_object \<Rightarrow> json_object" where
  "merge_members kvs \<equiv> fold (\<lambda>(k, v). jm_set k v) kvs []"

function (sequential) value_at :: "nat \<Rightarrow> string \<Rightarrow> (json \<times> string) option"
  and elements_at :: "nat \<Rightarrow> string \<Rightarrow> (json list \<times> string) option"
  and members_at :: "nat \<Rightarrow> string \<Rightarrow> (json_object \<times> string) option" where
  "value_at 0 s = None"
| "value_at (Suc f) s =
     (let t = skip_ws s; r = skip_ws (drop 1 t) in
      if take 1 t = ''{'' then
        (if take 1 r = ''}'' then Some (JObj [], drop 1 r)
         else map_option (\<lambda>(kvs, q). (JObj (merge_members kvs), q)) (members_at f r))
      else if take 1 t = ''['' then
        (if take 1 r = '']'' then Some (JArr [], drop 1 r)
         else map_option (\<lambda>(xs, q). (JArr xs, q)) (elements_at f r))
      else if take 1 t = [CHR 0x22] then map_option (\<lambda>(x, q). (JStr x, q)) (string_body (drop 1 t))
      else if take 4 t = ''null'' then Some (JNull, drop 4 t)
      else if take 4 t = ''true'' then Some (JBool True, drop 4 t)
      else if take 5 t = ''false'' then Some (JBool False, drop 5 t)
      else map_option (\<lambda>(x, q). (JNum x, q)) (json_number_at t))"
| "elements_at 0 s = None"
| "elements_at (Suc f) s =
     (case value_at f s of
        None \<Rightarrow> None
      | Some (v, r) \<Rightarrow>
          let q = skip_ws r in
          if take 1 q = '']'' then Some ([v], drop 1 q)
          else if take 1 q = '','' then prepend v (elements_at f (drop 1 q))
          else None)"
| "members_at 0 s = None"
| "members_at (Suc f) s =
     (let t = skip_ws s in
      if take 1 t \<noteq> [CHR 0x22] then None
      else case string_body (drop 1 t) of
        None \<Rightarrow> None
      | Some (k, r) \<Rightarrow>
          let q = skip_ws r in
          if take 1 q \<noteq> '':'' then None
          else case value_at f (drop 1 q) of
            None \<Rightarrow> None
          | Some (v, r') \<Rightarrow>
              let q' = skip_ws r' in
              if take 1 q' = ''}'' then Some ([(k, v)], drop 1 q')
              else if take 1 q' = '','' then prepend (k, v) (members_at f (drop 1 q'))
              else None)"
  by pat_completeness auto

termination
  by (relation "measure (case_sum fst (case_sum fst fst))") auto

definition json_parse :: "string \<Rightarrow> json option" where
  "json_parse s = (case value_at (2 * length s + 2) s of
     Some (v, r) \<Rightarrow> if skip_ws r = [] then Some v else None
   | None \<Rightarrow> None)"

subsection \<open>The fuel is enough\<close>

lemma prepend_Some: "prepend x p = Some (ys, r) \<longleftrightarrow> (\<exists>xs. p = Some (xs, r) \<and> ys = x # xs)"
  by auto

lemma string_body_length: "string_body s = Some (x, r) \<Longrightarrow> length r < length s"
proof (induction s arbitrary: x r rule: string_body.induct)
  case (2 c s)
  consider (quote) "c = CHR 0x22" | (escape) "c \<noteq> CHR 0x22" "c = CHR 0x5C" | (plain) "c \<noteq> CHR 0x22" "c \<noteq> CHR 0x5C" by blast
  then show ?case
  proof cases
    case escape
    then obtain e q where s: "s = e # q" using 2(4) by (cases s) auto
    show ?thesis
    proof (cases "e = CHR ''u''")
      case True
      with 2(4) escape s obtain d xs where "ascii_escape (take 4 q) = Some d" "string_body (drop 4 q) = Some (xs, r)"
        by (auto simp: prepend_Some split: option.splits)
      with 2(1)[OF escape s True] s show ?thesis by force
    next
      case False
      with 2(4) escape s obtain d xs where "simple_escape e = Some d" "string_body q = Some (xs, r)"
        by (auto simp: prepend_Some split: option.splits)
      with 2(2)[OF escape s False] s show ?thesis by force
    qed
  next
    case plain
    with 2(3)[OF plain] 2(4) show ?thesis by (fastforce simp: prepend_Some split: if_splits)
  qed (use 2(4) in auto)
qed simp

lemma skip_ws_length: "length (skip_ws s) \<le> length s" by (rule length_dropWhile_le)

lemma json_number_length: "json_number_at s = Some (x, r) \<Longrightarrow> length r \<le> length s"
  by (auto simp: json_number_at_def Let_def length_dropWhile_le split: if_splits)

lemma after_one: "take 1 (skip_ws s) = [c] \<Longrightarrow> length (drop 1 (skip_ws s)) < length s"
  using skip_ws_length[of s] by (cases "skip_ws s") auto

lemma value_step:
  assumes "value_at (Suc f) s = Some (v, r)"
  shows "(\<exists>kvs. members_at f (skip_ws (drop 1 (skip_ws s))) = Some (kvs, r) \<and> take 1 (skip_ws s) = ''{'') \<or>
    (\<exists>xs. elements_at f (skip_ws (drop 1 (skip_ws s))) = Some (xs, r) \<and> take 1 (skip_ws s) = ''['') \<or>
    (\<exists>x. string_body (drop 1 (skip_ws s)) = Some (x, r)) \<or> (\<exists>x. json_number_at (skip_ws s) = Some (x, r)) \<or>
    (\<exists>n. r = drop n (skip_ws s) \<or> r = drop n (skip_ws (drop 1 (skip_ws s))))"
  using assms by (auto simp: Let_def split: if_splits)

lemma shorter:
  "length t \<le> n \<Longrightarrow> length (drop k t) \<le> n" "length t \<le> n \<Longrightarrow> length (skip_ws t) \<le> n"
  using skip_ws_length[of t] by auto

lemma elements_step:
  assumes "elements_at (Suc f) s = Some (vs, r)"
  obtains v q where "value_at f s = Some (v, q)" "r = drop 1 (skip_ws q) \<or> (\<exists>us. elements_at f (drop 1 (skip_ws q)) = Some (us, r))"
  using assms by (auto simp: Let_def prepend_Some split: option.splits prod.splits if_splits)

lemma members_step:
  assumes "members_at (Suc f) s = Some (kvs, r)"
  obtains k p v q where "string_body (drop 1 (skip_ws s)) = Some (k, p)" "value_at f (drop 1 (skip_ws p)) = Some (v, q)"
    "r = drop 1 (skip_ws q) \<or> (\<exists>us. members_at f (drop 1 (skip_ws q)) = Some (us, r))"
  using assms by (auto simp: Let_def prepend_Some split: option.splits prod.splits if_splits)

lemma rest_length:
  "(\<forall>s v r. value_at f s = Some (v, r) \<longrightarrow> length r \<le> length s) \<and>
   (\<forall>s vs r. elements_at f s = Some (vs, r) \<longrightarrow> length r \<le> length s) \<and>
   (\<forall>s kvs r. members_at f s = Some (kvs, r) \<longrightarrow> length r \<le> length s)"
proof (induction f)
  case (Suc f)
  have bound: "length r \<le> n" if "length r \<le> length t" "length t \<le> n" for r t :: string and n using that by simp
  have V: "length r \<le> length s" if "value_at (Suc f) s = Some (v, r)" for s v r
  proof -
    have inner: "length (skip_ws (drop 1 (skip_ws s))) \<le> length s" "length (drop 1 (skip_ws s)) \<le> length s"
      by (intro shorter order_refl)+
    from value_step[OF that] show ?thesis
    proof (elim disjE exE conjE)
      fix kvs assume "members_at f (skip_ws (drop 1 (skip_ws s))) = Some (kvs, r)"
      with Suc inner show ?thesis by (meson bound)
    next
      fix xs assume "elements_at f (skip_ws (drop 1 (skip_ws s))) = Some (xs, r)"
      with Suc inner show ?thesis by (meson bound)
    next
      fix x assume "string_body (drop 1 (skip_ws s)) = Some (x, r)"
      from string_body_length[OF this] inner show ?thesis by linarith
    next
      fix x assume "json_number_at (skip_ws s) = Some (x, r)"
      from json_number_length[OF this] skip_ws_length[of s] show ?thesis by linarith
    next
      fix n assume "r = drop n (skip_ws s)"
      then show ?thesis by (simp only:) (intro shorter order_refl)
    next
      fix n assume "r = drop n (skip_ws (drop 1 (skip_ws s)))"
      then show ?thesis by (simp only:) (intro shorter order_refl)
    qed
  qed
  have E: "length r \<le> length s" if e: "elements_at (Suc f) s = Some (vs, r)" for s vs r
  proof -
    obtain v q where q: "value_at f s = Some (v, q)"
      "r = drop 1 (skip_ws q) \<or> (\<exists>us. elements_at f (drop 1 (skip_ws q)) = Some (us, r))" using elements_step[OF e] .
    from q(1) Suc have "length q \<le> length s" by blast
    then have "length (drop 1 (skip_ws q)) \<le> length s" by (intro shorter)
    with q(2) Suc show ?thesis by (meson bound)
  qed
  have M: "length r \<le> length s" if m: "members_at (Suc f) s = Some (kvs, r)" for s kvs r
  proof -
    obtain k p v q where q: "string_body (drop 1 (skip_ws s)) = Some (k, p)" "value_at f (drop 1 (skip_ws p)) = Some (v, q)"
      "r = drop 1 (skip_ws q) \<or> (\<exists>us. members_at f (drop 1 (skip_ws q)) = Some (us, r))" using members_step[OF m] .
    have "length (drop 1 (skip_ws s)) \<le> length s" by (intro shorter order_refl)
    with string_body_length[OF q(1)] have "length (drop 1 (skip_ws p)) \<le> length s" by (intro shorter) linarith
    moreover from q(2) Suc have "length q \<le> length (drop 1 (skip_ws p))" by blast
    ultimately have "length (drop 1 (skip_ws q)) \<le> length s" by (intro shorter) linarith
    with q(3) Suc show ?thesis by (meson bound)
  qed
  from V E M show ?case by blast
qed simp

text \<open>From twice the length on, the fuel makes no difference.\<close>

lemma fuel_enough:
  "(\<forall>g s. 2 * length s + 1 \<le> f \<longrightarrow> 2 * length s + 1 \<le> g \<longrightarrow> value_at f s = value_at g s) \<and>
   (\<forall>g s. 2 * length s + 2 \<le> f \<longrightarrow> 2 * length s + 2 \<le> g \<longrightarrow> elements_at f s = elements_at g s) \<and>
   (\<forall>g s. 2 * length s + 2 \<le> f \<longrightarrow> 2 * length s + 2 \<le> g \<longrightarrow> members_at f s = members_at g s)"
proof (induction f)
  case (Suc f)
  have V: "value_at (Suc f) s = value_at g s" if le: "2 * length s + 1 \<le> Suc f" "2 * length s + 1 \<le> g" for g s
  proof -
    from le(2) obtain g' where g: "g = Suc g'" by (cases g) auto
    let ?r = "skip_ws (drop 1 (skip_ws s))"
    have short: "2 * length ?r + 2 \<le> f \<and> 2 * length ?r + 2 \<le> g'" if "take 1 (skip_ws s) = [c]" for c
      using after_one[OF that] skip_ws_length[of "drop 1 (skip_ws s)"] le g by linarith
    have "members_at f ?r = members_at g' ?r" if "take 1 (skip_ws s) = ''{''"
      using short[OF that] Suc by blast
    moreover have "elements_at f ?r = elements_at g' ?r" if "take 1 (skip_ws s) = ''[''"
      using short[OF that] Suc by blast
    ultimately show ?thesis unfolding g value_at.simps Let_def by (simp only: cong: if_cong)
  qed
  have E: "elements_at (Suc f) s = elements_at g s" if le: "2 * length s + 2 \<le> Suc f" "2 * length s + 2 \<le> g" for g s
  proof -
    from le(2) obtain g' where g: "g = Suc g'" by (cases g) auto
    have "2 * length s + 1 \<le> f \<and> 2 * length s + 1 \<le> g'" using le g by linarith
    then have "value_at f s = value_at g' s" using Suc by blast
    moreover have "elements_at f (drop 1 (skip_ws q)) = elements_at g' (drop 1 (skip_ws q))"
      if "value_at f s = Some (v, q)" "take 1 (skip_ws q) = '',''" for v q
    proof -
      have "length q \<le> length s" using rest_length that(1) by blast
      with after_one[OF that(2)] le g have "2 * length (drop 1 (skip_ws q)) + 2 \<le> f \<and> 2 * length (drop 1 (skip_ws q)) + 2 \<le> g'" by linarith
      with Suc show ?thesis by blast
    qed
    ultimately show ?thesis unfolding g elements_at.simps Let_def
      by (auto split: option.split prod.split)
  qed
  have M: "members_at (Suc f) s = members_at g s" if le: "2 * length s + 2 \<le> Suc f" "2 * length s + 2 \<le> g" for g s
  proof -
    from le(2) obtain g' where g: "g = Suc g'" by (cases g) auto
    have 1: "value_at f (drop 1 (skip_ws p)) = value_at g' (drop 1 (skip_ws p)) \<and> length (drop 1 (skip_ws p)) < length s"
      if "string_body (drop 1 (skip_ws s)) = Some (k, p)" for k p
    proof -
      have "length (drop 1 (skip_ws s)) \<le> length s" by (intro shorter order_refl)
      with string_body_length[OF that] have "length p < length s" by linarith
      moreover have "length (drop 1 (skip_ws p)) \<le> length p" by (intro shorter order_refl)
      ultimately have "length (drop 1 (skip_ws p)) < length s" by linarith
      moreover with le g have "2 * length (drop 1 (skip_ws p)) + 1 \<le> f \<and> 2 * length (drop 1 (skip_ws p)) + 1 \<le> g'" by linarith
      ultimately show ?thesis using Suc by blast
    qed
    have 2: "members_at f (drop 1 (skip_ws q)) = members_at g' (drop 1 (skip_ws q))"
      if "length t < length s" "value_at f t = Some (v, q)" for t v q
    proof -
      have "length q \<le> length t" using rest_length that(2) by blast
      moreover have "length (drop 1 (skip_ws q)) \<le> length q" by (intro shorter order_refl)
      ultimately have "2 * length (drop 1 (skip_ws q)) + 2 \<le> f \<and> 2 * length (drop 1 (skip_ws q)) + 2 \<le> g'"
        using that(1) le g by linarith
      with Suc show ?thesis by blast
    qed
    show ?thesis
    proof (cases "string_body (drop 1 (skip_ws s))")
      case (Some kp)
      obtain k p where kp: "kp = (k, p)" by force
      note v = 1[OF Some[unfolded kp]]
      have "members_at f (drop 1 (skip_ws q)) = members_at g' (drop 1 (skip_ws q))"
        if "value_at g' (drop 1 (skip_ws p)) = Some (v, q)" for v q
        using 2[OF conjunct2[OF v]] that v by simp
      then show ?thesis unfolding g members_at.simps Let_def Some kp option.case prod.case conjunct1[OF v]
        by (auto split: option.split prod.split)
    next
      case None
      then show ?thesis unfolding g members_at.simps Let_def None option.case by (simp only: if_cancel)
    qed
  qed
  from V E M show ?case by blast
qed simp

theorem parse_enough:
  assumes "2 * length s + 1 \<le> f"
  shows "json_parse s = (case value_at f s of Some (v, r) \<Rightarrow> if skip_ws r = [] then Some v else None | None \<Rightarrow> None)"
proof -
  have "value_at (2 * length s + 2) s = value_at f s" using fuel_enough[of "2 * length s + 2"] assms by simp
  then show ?thesis by (simp only: json_parse_def)
qed

subsection \<open>Reading what was written\<close>

lemma char_of_ccode: "char_of (ccode c) = c" by (simp add: ccode_def)

lemma hex_digit_read: "d < 16 \<Longrightarrow> radix_val 16 acc (hex_digit d # s) = radix_val 16 (acc * 16 + int d) s"
  by (auto simp: hex_digit_def is_digit_def is_hex_def is_lower_def lower_char_def is_upper_def Let_def)

lemma control_escape: "n < 32 \<Longrightarrow> ascii_escape [CHR ''0'', CHR ''0'', hex_digit (n div 16), hex_digit (n mod 16)] = Some (char_of n)"
proof -
  assume n: "n < 32"
  have zero: "CHR ''0'' = hex_digit 0" using char_of_ccode[of "CHR ''0''"] by (simp add: hex_digit_def ccode_def del: char_of_char)
  have eq: "int (n div 16) * 16 + int (n mod 16) = int n"
    by (metis div_mult_mod_eq of_nat_add of_nat_mult of_nat_numeral)
  have "radix_val 16 0 [CHR ''0'', CHR ''0'', hex_digit (n div 16), hex_digit (n mod 16)] = Some (int n)"
    unfolding zero using n eq by (simp only: hex_digit_read) simp
  with n show ?thesis by (simp add: ascii_escape_def)
qed

lemma escape_read:
  assumes "ccode c < 128"
  shows "string_body (json_escape_char c @ r) = prepend c (string_body r)"
proof -
  have special: "c = d" if "ccode c = ccode d" for d using that by (simp add: ccode_inject)
  have codes: "ccode (CHR 0x22) = 34" "ccode (CHR 0x5C) = 92" "ccode (CHR 0x08) = 8" "ccode (CHR 0x09) = 9"
    "ccode (CHR 0x0A) = 10" "ccode (CHR 0x0C) = 12" "ccode (CHR 0x0D) = 13"
    by (simp_all add: ccode_def)
  consider d where "d \<in> {CHR 0x22, CHR 0x5C, CHR 0x08, CHR 0x09, CHR 0x0A, CHR 0x0C, CHR 0x0D}" "c = d"
    | "ccode c < 32" "ccode c \<notin> {34, 92, 8, 9, 10, 12, 13}" | "32 \<le> ccode c" "ccode c \<notin> {34, 92, 8, 9, 10, 12, 13}"
  proof (cases "ccode c \<in> {34, 92, 8, 9, 10, 12, 13}")
    case True
    then have "c \<in> {CHR 0x22, CHR 0x5C, CHR 0x08, CHR 0x09, CHR 0x0A, CHR 0x0C, CHR 0x0D}"
      unfolding codes[symmetric] insert_iff empty_iff using special by blast
    then show thesis using that(1) by blast
  next
    case False
    then show thesis using that(2,3) by (cases "ccode c < 32") simp_all
  qed
  then show ?thesis
  proof cases
    case 1
    have written:
    "json_escape_char (CHR 0x22) = [CHR 0x5C, CHR 0x22]"
    "json_escape_char (CHR 0x5C) = [CHR 0x5C, CHR 0x5C]"
    "json_escape_char (CHR 0x08) = [CHR 0x5C, CHR ''b'']"
    "json_escape_char (CHR 0x09) = [CHR 0x5C, CHR ''t'']"
    "json_escape_char (CHR 0x0A) = [CHR 0x5C, CHR ''n'']"
    "json_escape_char (CHR 0x0C) = [CHR 0x5C, CHR ''f'']"
    "json_escape_char (CHR 0x0D) = [CHR 0x5C, CHR ''r'']"
      by (simp_all only: json_escape_char_def codes) simp_all
    have unescaped:
    "simple_escape (CHR 0x22) = Some (CHR 0x22)"
    "simple_escape (CHR 0x5C) = Some (CHR 0x5C)"
    "simple_escape (CHR ''b'') = Some (CHR 0x08)"
    "simple_escape (CHR ''t'') = Some (CHR 0x09)"
    "simple_escape (CHR ''n'') = Some (CHR 0x0A)"
    "simple_escape (CHR ''f'') = Some (CHR 0x0C)"
    "simple_escape (CHR ''r'') = Some (CHR 0x0D)"
      by (simp_all add: simple_escape_def)
    have "CHR 0x5C \<noteq> CHR 0x22" by simp
    with 1 show ?thesis by (elim insertE emptyE) (simp_all add: written unescaped)
  next
    case 2
    then have "json_escape_char c = [CHR 0x5C, CHR ''u'', CHR ''0'', CHR ''0'', hex_digit (ccode c div 16), hex_digit (ccode c mod 16)]"
      by (simp add: json_escape_char_def)
    with 2 show ?thesis by (simp add: control_escape char_of_ccode)
  next
    case 3
    then have "json_escape_char c = [c]" "c \<noteq> CHR 0x22" "c \<noteq> CHR 0x5C" using codes by (auto simp: json_escape_char_def)
    with 3 show ?thesis by simp
  qed
qed

definition number_ok :: "rat \<Rightarrow> bool" where
  "number_ok x \<longleftrightarrow> list_all number_char (number_string x) \<and> json_literal (number_string x) \<and>
     number_of_string (number_string x) = Some x"

fun json_ok :: "json \<Rightarrow> bool" where
  "json_ok JNull = True"
| "json_ok (JBool b) = True"
| "json_ok (JNum x) = number_ok x"
| "json_ok (JStr s) = list_all (\<lambda>c. ccode c < 128) s"
| "json_ok (JArr xs) = list_all json_ok xs"
| "json_ok (JObj kvs) = (distinct (map fst kvs) \<and> list_all (\<lambda>(k, v). list_all (\<lambda>c. ccode c < 128) k \<and> json_ok v) kvs)"

lemma string_read: "list_all (\<lambda>c. ccode c < 128) s \<Longrightarrow> string_body (concat (map json_escape_char s) @ CHR 0x22 # r) = Some (s, r)"
  by (induction s) (simp_all add: escape_read)

definition stops :: "string \<Rightarrow> bool" where
  "stops r \<longleftrightarrow> (r = [] \<or> \<not> number_char (hd r))"

definition reads :: "json \<Rightarrow> bool" where
  "reads v \<longleftrightarrow> (\<forall>r. stops r \<longrightarrow> (\<exists>f0. \<forall>f\<ge>f0. value_at f (json_stringify v @ r) = Some (v, r)))"

lemma readsD: "reads v \<Longrightarrow> stops r \<Longrightarrow> \<exists>f0. \<forall>f\<ge>f0. value_at f (json_stringify v @ r) = Some (v, r)"
  unfolding reads_def by blast

lemma takeWhile_stop: "list_all P s \<Longrightarrow> r = [] \<or> \<not> P (hd r) \<Longrightarrow> takeWhile P (s @ r) = s \<and> dropWhile P (s @ r) = r"
  by (induction s) (auto simp: takeWhile_eq_Nil_iff dropWhile_eq_self_iff)

lemma number_read:
  assumes "number_ok x" "stops r"
  shows "json_number_at (number_string x @ r) = Some (x, r)"
  using assms takeWhile_stop[of number_char "number_string x" r]
  by (simp add: json_number_at_def number_ok_def stops_def Let_def)

lemma number_head:
  assumes "number_ok x"
  obtains c s where "number_string x = c # s" "is_digit c \<or> c = CHR ''-''"
proof -
  have "json_literal (number_string x)" using assms by (simp add: number_ok_def)
  then have "takeWhile is_digit (if take 1 (number_string x) = ''-'' then drop 1 (number_string x) else number_string x) \<noteq> []"
    unfolding json_literal_def Let_def by (rule conjunct1)
  then show thesis using that by (cases "number_string x") (auto split: if_splits)
qed

lemma digit_not:
  assumes "is_digit c \<or> c = CHR ''-''"
  shows "\<not> is_json_space c" "c \<noteq> CHR '']''" "c \<noteq> CHR ''{''" "c \<noteq> CHR ''[''" "c \<noteq> CHR 0x22" "c \<noteq> CHR ''n''" "c \<noteq> CHR ''t''" "c \<noteq> CHR ''f''"
  using assms by (auto simp: is_digit_def is_json_space_def ccode_def)

lemma reads_number: "number_ok x \<Longrightarrow> reads (JNum x)"
  unfolding reads_def
proof (intro allI impI exI)
  fix r f assume x: "number_ok x" and r: "stops r" and f: "Suc 0 \<le> (f :: nat)"
  obtain g where g: "f = Suc g" using f by (cases f) auto
  obtain c s where cs: "number_string x = c # s" "is_digit c \<or> c = CHR ''-''" using number_head[OF x] .
  show "value_at f (json_stringify (JNum x) @ r) = Some (JNum x, r)"
    using number_read[OF x r] digit_not[OF cs(2)]
    by (simp add: g Let_def cs(1))
qed

lemma stringify_head:
  assumes "json_ok v"
  obtains c s where "json_stringify v = c # s" "\<not> is_json_space c" "c \<noteq> CHR '']''"
proof (cases v)
  case (JNum x)
  then obtain c s where "number_string x = c # s" "is_digit c \<or> c = CHR ''-''" using assms number_head[of x] by auto
  with digit_not(1,2)[OF this(2)] that JNum show thesis by simp
next
  case (JBool b)
  then show thesis using that by (cases b) (simp_all add: is_json_space_def ccode_def)
qed (use that in \<open>simp_all add: is_json_space_def ccode_def json_quote_def\<close>)

lemma space_not [simp]:
  "\<not> is_json_space (CHR '','')" "\<not> is_json_space (CHR '':'')" "\<not> is_json_space (CHR ''{'')" "\<not> is_json_space (CHR ''}'')"
  "\<not> is_json_space (CHR ''['')" "\<not> is_json_space (CHR '']'')" "\<not> is_json_space (CHR 0x22)" "\<not> is_json_space (CHR ''n'')"
  "\<not> is_json_space (CHR ''t'')" "\<not> is_json_space (CHR ''f'')"
  by (simp_all add: is_json_space_def ccode_def)

lemma stops_at [simp]: "stops (CHR '','' # r)" "stops (CHR ''}'' # r)" "stops (CHR '']'' # r)" "stops []"
  by (simp_all add: stops_def number_char_def is_digit_def ccode_def)

lemma readsI:
  assumes "\<And>r f. stops r \<Longrightarrow> value_at (Suc f) (json_stringify v @ r) = Some (v, r)"
  shows "reads v"
  unfolding reads_def
proof (intro allI impI exI)
  fix r f assume "stops r" "Suc 0 \<le> (f :: nat)"
  then show "value_at f (json_stringify v @ r) = Some (v, r)" using assms[of r "f - 1"] by simp
qed

lemma reads_atoms: "reads JNull" "reads (JBool b)" "list_all (\<lambda>c. ccode c < 128) s \<Longrightarrow> reads (JStr s)"
  by (rule readsI, simp add: Let_def json_quote_def string_read split: if_split)+

lemma elements_read:
  assumes "xs \<noteq> []" "\<forall>x \<in> set xs. reads x"
  shows "\<exists>f0. \<forall>f\<ge>f0. elements_at f (join_with '','' (map json_stringify xs) @ CHR '']'' # r) = Some (xs, r)"
  using assms
proof (induction xs rule: induct_list012)
  case (2 x)
  then obtain f0 where "\<forall>f\<ge>f0. value_at f (json_stringify x @ CHR '']'' # r) = Some (x, CHR '']'' # r)"
    using readsD stops_at(1,3) by (metis list.set_intros(1))
  then have "\<forall>f\<ge>Suc f0. elements_at f (json_stringify x @ CHR '']'' # r) = Some ([x], r)"
    by (auto simp: Suc_le_eq Let_def elim!: less_natE)
  then show ?case by auto
next
  case (3 x y ys)
  let ?rest = "join_with '','' (map json_stringify (y # ys)) @ CHR '']'' # r"
  from 3 obtain f0 where f0: "\<forall>f\<ge>f0. elements_at f ?rest = Some (y # ys, r)" by auto
  from 3 obtain f1 where f1: "\<forall>f\<ge>f1. value_at f (json_stringify x @ CHR '','' # ?rest) = Some (x, CHR '','' # ?rest)"
    using readsD stops_at(1,3) by (metis list.set_intros(1))
  have "\<forall>f\<ge>Suc (max f0 f1). elements_at f (json_stringify x @ CHR '','' # ?rest) = Some (x # y # ys, r)"
  proof (intro allI impI)
    fix f assume f: "Suc (max f0 f1) \<le> f"
    then obtain g where "f = Suc g" "f0 \<le> g" "f1 \<le> g" by (cases f) auto
    with f0 f1 show "elements_at f (json_stringify x @ CHR '','' # ?rest) = Some (x # y # ys, r)"
      by (simp add: Let_def)
  qed
  then show ?case by auto
qed simp

definition member_text :: "string \<times> json \<Rightarrow> string" where
  "member_text kv = json_quote (fst kv) @ '':'' @ json_stringify (snd kv)"

lemma key_read:
  assumes "list_all (\<lambda>c. ccode c < 128) k"
  shows "string_body (drop 1 (json_quote k @ r)) = Some (k, r)"
  using string_read[OF assms] by (simp add: json_quote_def)

lemma members_step_read:
  assumes "list_all (\<lambda>c. ccode c < 128) k" "value_at f (json_stringify v @ c # q) = Some (v, c # q)" "\<not> is_json_space c"
  shows "members_at (Suc f) (member_text (k, v) @ c # q) =
    (if c = CHR ''}'' then Some ([(k, v)], q) else if c = CHR '','' then prepend (k, v) (members_at f q) else None)"
proof -
  have "take 1 (json_quote k @ t) = [CHR 0x22]" "skip_ws (json_quote k @ t) = json_quote k @ t" for t
    by (simp_all add: json_quote_def)
  with assms key_read[OF assms(1), of "'':'' @ json_stringify v @ c # q"] show ?thesis
    by (simp add: member_text_def Let_def del: drop_append)
qed

lemma members_read:
  assumes "kvs \<noteq> []" "\<forall>kv \<in> set kvs. reads (snd kv) \<and> list_all (\<lambda>c. ccode c < 128) (fst kv)"
  shows "\<exists>f0. \<forall>f\<ge>f0. members_at f (join_with '','' (map member_text kvs) @ CHR ''}'' # r) = Some (kvs, r)"
  using assms
proof (induction kvs rule: induct_list012)
  case (2 kv)
  obtain k v where kv: "kv = (k, v)" by force
  with 2 obtain f0 where "\<forall>f\<ge>f0. value_at f (json_stringify v @ CHR ''}'' # r) = Some (v, CHR ''}'' # r)"
    using readsD[of v "CHR ''}'' # r"] by auto
  then have "members_at (Suc f) (member_text kv @ CHR ''}'' # r) = Some ([kv], r)" if "f0 \<le> f" for f
    using 2 that unfolding kv by (subst members_step_read) simp_all
  then have "\<forall>f\<ge>Suc f0. members_at f (member_text kv @ CHR ''}'' # r) = Some ([kv], r)"
    by (metis Suc_le_D Suc_le_mono)
  then show ?case by auto
next
  case (3 kv kv' kvs)
  obtain k v where kv: "kv = (k, v)" by force
  let ?rest = "join_with '','' (map member_text (kv' # kvs)) @ CHR ''}'' # r"
  from 3 obtain f0 where f0: "\<forall>f\<ge>f0. members_at f ?rest = Some (kv' # kvs, r)" by auto
  from 3 kv obtain f1 where f1: "\<forall>f\<ge>f1. value_at f (json_stringify v @ CHR '','' # ?rest) = Some (v, CHR '','' # ?rest)"
    using readsD[of v "CHR '','' # ?rest"] by auto
  have "members_at (Suc f) (member_text kv @ CHR '','' # ?rest) = Some (kv # kv' # kvs, r)" if "max f0 f1 \<le> f" for f
    using 3 f0 f1 that unfolding kv by (subst members_step_read) simp_all
  then have "\<forall>f\<ge>Suc (max f0 f1). members_at f (member_text kv @ CHR '','' # ?rest) = Some (kv # kv' # kvs, r)"
    by (metis Suc_le_D Suc_le_mono)
  then show ?case by auto
qed simp

lemma merge_distinct: "distinct (map fst (acc @ kvs)) \<Longrightarrow> fold (\<lambda>(k, v). jm_set k v) kvs acc = acc @ kvs"
proof (induction kvs arbitrary: acc)
  case (Cons kv kvs)
  obtain k v where kv: "kv = (k, v)" by force
  with Cons.prems have "jm_get acc k = None" by (auto simp: map_of_eq_None_iff)
  with Cons.IH[of "acc @ [kv]"] Cons.prems kv show ?case by (simp add: jm_set_new)
qed simp

lemma reads_compound:
  assumes "\<forall>x \<in> set xs. reads x \<and> json_ok x"
  shows "reads (JArr xs)"
proof (cases xs)
  case Nil
  then show ?thesis by (simp, intro readsI) (simp add: Let_def)
next
  case (Cons x ys)
  then have ne: "xs \<noteq> []" by simp
  obtain c s where c: "json_stringify x = c # s" "\<not> is_json_space c" "c \<noteq> CHR '']''"
    using stringify_head[of x] assms Cons by auto
  let ?body = "join_with '','' (map json_stringify xs)"
  obtain t where t: "?body = c # t" using c(1) Cons by (cases ys) auto
  have "\<exists>f0. \<forall>f\<ge>f0. value_at f (json_stringify (JArr xs) @ r) = Some (JArr xs, r)" for r
  proof -
    obtain f0 where f0: "\<forall>f\<ge>f0. elements_at f (?body @ CHR '']'' # r) = Some (xs, r)"
      using elements_read[OF ne] assms by blast
    have "value_at (Suc f) (json_stringify (JArr xs) @ r) = Some (JArr xs, r)" if "f0 \<le> f" for f
      using f0[rule_format, OF that] c t by (simp add: Let_def)
    then have "\<forall>f\<ge>Suc f0. value_at f (json_stringify (JArr xs) @ r) = Some (JArr xs, r)" by (metis Suc_le_D Suc_le_mono)
    then show ?thesis by blast
  qed
  then show ?thesis unfolding reads_def by blast
qed

lemma reads_object:
  assumes "\<forall>kv \<in> set kvs. reads (snd kv) \<and> list_all (\<lambda>c. ccode c < 128) (fst kv)" "distinct (map fst kvs)"
  shows "reads (JObj kvs)"
proof (cases "kvs = []")
  case True
  then show ?thesis by (simp, intro readsI) (simp add: Let_def)
next
  case False
  let ?body = "join_with '','' (map member_text kvs)"
  have body: "json_stringify (JObj kvs) = ''{'' @ ?body @ ''}''" by (simp add: member_text_def[abs_def] case_prod_unfold)
  obtain kv rest where "kvs = kv # rest" using False by (cases kvs) auto
  then obtain t where t: "?body = CHR 0x22 # t" by (cases rest) (auto simp: member_text_def json_quote_def)
  have "\<exists>f0. \<forall>f\<ge>f0. value_at f (json_stringify (JObj kvs) @ r) = Some (JObj kvs, r)" for r
  proof -
    obtain f0 where f0: "\<forall>f\<ge>f0. members_at f (?body @ CHR ''}'' # r) = Some (kvs, r)"
      using members_read[OF False assms(1)] by blast
    have "value_at (Suc f) (json_stringify (JObj kvs) @ r) = Some (JObj kvs, r)" if "f0 \<le> f" for f
      using f0[rule_format, OF that] t merge_distinct[of "[]" kvs] assms(2) unfolding body by (simp add: Let_def)
    then have "\<forall>f\<ge>Suc f0. value_at f (json_stringify (JObj kvs) @ r) = Some (JObj kvs, r)" by (metis Suc_le_D Suc_le_mono)
    then show ?thesis by blast
  qed
  then show ?thesis unfolding reads_def by blast
qed

lemma reads_all: "json_ok v \<Longrightarrow> reads v"
proof (induction v)
  case (JArr xs)
  then show ?case by (intro reads_compound) (auto simp: list_all_iff)
next
  case (JObj kvs)
  then show ?case by (intro reads_object) (fastforce simp: list_all_iff)+
qed (simp_all add: reads_atoms reads_number)

theorem json_roundtrip:
  assumes "json_ok v"
  shows "json_parse (json_stringify v) = Some v"
proof -
  obtain f0 where f0: "\<forall>f\<ge>f0. value_at f (json_stringify v @ []) = Some (v, [])"
    using readsD[OF reads_all[OF assms] stops_at(4)] by blast
  define f where "f = max f0 (2 * length (json_stringify v) + 1)"
  have "value_at f (json_stringify v) = Some (v, [])" using f0 by (simp add: f_def)
  with parse_enough[of "json_stringify v" f] show ?thesis by (simp add: f_def)
qed

end
