(* ===== verification/Agent_Review.thy ===== *)
theory Agent_Review imports Agent_Tools Js_Json Pipeline begin

section \<open>The agents and their orchestration\<close>

text \<open>
  \<open>apps/agent-worker/src/llm-config.ts\<close> and \<open>orchestrator.ts\<close>, \<open>packages/ai/src/llm-client.ts\<close> and
  \<open>agents.ts\<close>. The language model behind the router is a parameter that may answer anything to a request
  or fail; its replies are texts that are parsed and checked as the code does. A message whose content is
  \<open>JSON.stringify\<close> of a value carries that value.
\<close>

subsection \<open>llm-config.ts\<close>

definition DEFAULT_LLM_BASE_URL :: string where "DEFAULT_LLM_BASE_URL = ''http://localhost:3001''"
definition DEFAULT_LLM_TIMEOUT_MS :: rat where "DEFAULT_LLM_TIMEOUT_MS = 20000"
definition PLACEHOLDER_MODELS :: "string list" where
  "PLACEHOLDER_MODELS = [''fast-free-model'', ''strong-free-model'']"

record llm_options =
  lo_baseUrl :: string
  lo_apiKey :: string
  lo_model :: string
  lo_timeoutMs :: "rat option"

record llm_config_issue =
  li_env :: string
  li_message :: string

record llm_config =
  lc_analysis :: llm_options
  lc_verification :: llm_options
  lc_issues :: "llm_config_issue list"

definition drop_v1 :: "string \<Rightarrow> string" where
  "drop_v1 s = (if 3 \<le> length s \<and> to_lower (drop (length s - 3) s) = ''/v1'' then take (length s - 3) s else s)"

definition normalizeLlmBaseUrl :: "string \<Rightarrow> string" where
  "normalizeLlmBaseUrl raw = drop_v1 (drop_last_slashes (trim raw))"

definition issue :: "string \<Rightarrow> string \<Rightarrow> llm_config_issue" where
  "issue name msg = \<lparr>li_env = name, li_message = msg\<rparr>"

definition quoted :: "string \<Rightarrow> string" where "quoted s = CHR 0x22 # s @ [CHR 0x22]"

text \<open>The functions that push issues return them.\<close>

definition parseTimeoutMs :: "string option \<Rightarrow> rat \<times> llm_config_issue list" where
  "parseTimeoutMs raw =
     (case raw of
        None \<Rightarrow> (DEFAULT_LLM_TIMEOUT_MS, [])
      | Some text' \<Rightarrow>
          if trim text' = [] then (DEFAULT_LLM_TIMEOUT_MS, [])
          else case number_of_string text' of
            Some parsed \<Rightarrow> if 0 < parsed then (parsed, []) else
              (DEFAULT_LLM_TIMEOUT_MS, [issue ''LLM_TIMEOUT_MS''
                (''LLM_TIMEOUT_MS must be a positive number of milliseconds, got '' @ quoted text' @ ''. Falling back to 20000.'')])
          | None \<Rightarrow>
              (DEFAULT_LLM_TIMEOUT_MS, [issue ''LLM_TIMEOUT_MS''
                (''LLM_TIMEOUT_MS must be a positive number of milliseconds, got '' @ quoted text' @ ''. Falling back to 20000.'')]))"

definition resolveModel :: "string \<Rightarrow> string option \<Rightarrow> string \<times> llm_config_issue list" where
  "resolveModel envKey raw =
     (let model = (case raw of None \<Rightarrow> [] | Some s \<Rightarrow> trim s) in
      if model = []
      then ([], [issue envKey (envKey @
        '' is not set. Pin a concrete model ID from your router's catalog (GET /v1/models) so demo runs are reproducible.'')])
      else (model, if model \<in> set PLACEHOLDER_MODELS
        then [issue envKey (envKey @ ''='' @ quoted model @
          '' is a placeholder from the code defaults, not a real model. Replace it with an ID your router actually serves.'')]
        else []))"

definition env_trim :: "env \<Rightarrow> string \<Rightarrow> string" where
  "env_trim env name = (case env name of None \<Rightarrow> [] | Some s \<Rightarrow> trim s)"

definition resolveLlmConfig :: "env \<Rightarrow> llm_config" where
  "resolveLlmConfig env =
     (let rawBaseUrl = env_trim env ''LLM_BASE_URL'';
          baseUrl = (if rawBaseUrl = [] then DEFAULT_LLM_BASE_URL else normalizeLlmBaseUrl rawBaseUrl);
          url_issues = (if rawBaseUrl = []
            then [issue ''LLM_BASE_URL'' (''LLM_BASE_URL is not set; defaulting to '' @ DEFAULT_LLM_BASE_URL @ ''.'')]
            else if baseUrl \<noteq> drop_last_slashes rawBaseUrl
            then [issue ''LLM_BASE_URL'' (''LLM_BASE_URL ended in '' @ quoted ''/v1'' @ ''; using '' @ quoted baseUrl @
              '' because the client appends /v1/chat/completions itself.'')]
            else []);
          apiKey = env_trim env ''LLM_API_KEY'';
          key_issues = (if apiKey = [] then [issue ''LLM_API_KEY''
            ''LLM_API_KEY is not set. Use the single unified key from the FreeLLMAPI dashboard, not an upstream provider key.'']
            else []);
          (timeoutMs, timeout_issues) = parseTimeoutMs (env ''LLM_TIMEOUT_MS'');
          (analysis_model, analysis_issues) = resolveModel ''LLM_ANALYSIS_MODEL'' (env ''LLM_ANALYSIS_MODEL'');
          (verification_model, verification_issues) = resolveModel ''LLM_VERIFICATION_MODEL'' (env ''LLM_VERIFICATION_MODEL'');
          analysis = \<lparr>lo_baseUrl = baseUrl, lo_apiKey = apiKey, lo_model = analysis_model, lo_timeoutMs = Some timeoutMs\<rparr>
      in \<lparr>lc_analysis = analysis, lc_verification = analysis\<lparr>lo_model := verification_model\<rparr>,
          lc_issues = url_issues @ key_issues @ timeout_issues @ analysis_issues @ verification_issues\<rparr>)"

subsection \<open>llm-client.ts\<close>

record anomaly_analysis =
  aa_hypothesis :: string
  aa_confidence :: rat
  aa_supportingEvidenceIds :: "string list"

record verification =
  vf_decision :: agent_decision_status
  vf_finalConfidence :: rat
  vf_notificationDraft :: string

record agent_context =
  ax_job :: agent_review_job
  ax_toolContext :: "agent_tool_context option"

datatype message_content =
    PlainText string
  | ContextJson agent_context
  | VerificationJson agent_context anomaly_analysis rat rat
    \<comment> \<open>context, analysis, policy: approveAt, escalateAt\<close>

datatype chat_role = SystemRole | UserRole | AssistantRole

record chat_message =
  ms_role :: chat_role
  ms_content :: message_content

record llm_request =
  lq_url :: string
  lq_authorization :: string
  lq_model :: string
  lq_messages :: "chat_message list"
  lq_temperature :: rat
  lq_timeoutMs :: rat

datatype llm_reply = LlmFails js_error | LlmReply nat string
  \<comment> \<open>\<open>fetch\<close> or the reading of the body rejects (also when the timer aborts it); status and body\<close>

type_synonym llm = "llm_request \<Rightarrow> llm_reply"

definition json_member :: "string \<Rightarrow> json \<Rightarrow> json option" where
  "json_member key j = (case j of JObj kvs \<Rightarrow> map_of kvs key | _ \<Rightarrow> None)"

definition json_text_of :: "json option \<Rightarrow> string option" where
  "json_text_of j = (case j of Some (JStr s) \<Rightarrow> Some s | _ \<Rightarrow> None)"

definition json_num_of :: "json option \<Rightarrow> rat option" where
  "json_num_of j = (case j of Some (JNum x) \<Rightarrow> Some x | _ \<Rightarrow> None)"

fun all_some :: "'a option list \<Rightarrow> 'a list option" where
  "all_some [] = Some []"
| "all_some (x # xs) = (case (x, all_some xs) of (Some y, Some ys) \<Rightarrow> Some (y # ys) | _ \<Rightarrow> None)"

text \<open>A choice has a message with a text.\<close>

definition chatChoiceSchema :: "json \<Rightarrow> string option" where
  "chatChoiceSchema j = (case json_member ''message'' j of None \<Rightarrow> None | Some m \<Rightarrow> json_text_of (json_member ''content'' m))"

definition chatCompletionSchema :: "json \<Rightarrow> string list option" where
  "chatCompletionSchema j =
     (case json_member ''choices'' j of
        Some (JArr (c # cs)) \<Rightarrow> all_some (map chatChoiceSchema (c # cs))
      | _ \<Rightarrow> None)"

definition or_throw :: "js_error \<Rightarrow> 'a option \<Rightarrow> 'a res" where
  "or_throw e x = (case x of None \<Rightarrow> Inl e | Some v \<Rightarrow> Inr v)"

definition chat_request :: "llm_options \<Rightarrow> chat_message list \<Rightarrow> llm_request" where
  "chat_request options messages =
     \<lparr>lq_url = drop_last_slash (lo_baseUrl options) @ ''/v1/chat/completions'',
      lq_authorization = ''Bearer '' @ lo_apiKey options, lq_model = lo_model options, lq_messages = messages,
      lq_temperature = fl (1/10), lq_timeoutMs = or_else (lo_timeoutMs options) 20000\<rparr>"

text \<open>\<open>schema\<close> names the schema and gives what it makes of a value.\<close>

definition completeJson ::
  "agent_lib \<Rightarrow> llm \<Rightarrow> llm_options \<Rightarrow> chat_message list \<Rightarrow> string \<Rightarrow> (json \<Rightarrow> 'a option) \<Rightarrow> 'a res" where
  "completeJson al llm options messages name schema =
     (case llm (chat_request options messages) of
        LlmFails e \<Rightarrow> Inl e
      | LlmReply status body \<Rightarrow>
          if \<not> (200 \<le> status \<and> status \<le> 299)
          then Inl (plain_error (''LLM request failed with '' @ nat_string status))
          else
            bindR (or_throw (al_zod al ''JSON'') (json_parse body)) (\<lambda>reply.
            bindR (or_throw (al_zod al ''chatCompletion'') (chatCompletionSchema reply)) (\<lambda>contents.
            case contents of
              [] \<Rightarrow> Inl (plain_error ''LLM response did not include a completion choice'')
            | content # _ \<Rightarrow>
                bindR (or_throw (al_zod al ''JSON'') (json_parse content)) (\<lambda>answer.
                or_throw (al_zod al name) (schema answer)))))"

subsection \<open>agents.ts\<close>

definition anomalyAnalysisOutputSchema :: "zod_formats \<Rightarrow> json \<Rightarrow> anomaly_analysis option" where
  "anomalyAnalysisOutputSchema F j =
     (case (json_text_of (json_member ''hypothesis'' j), json_num_of (json_member ''confidence'' j),
         json_member ''supportingEvidenceIds'' j) of
        (Some h, Some c, Some (JArr ids)) \<Rightarrow>
          (case all_some (map (\<lambda>i. json_text_of (Some i)) ids) of
             Some texts \<Rightarrow>
               if h \<noteq> [] \<and> 0 \<le> c \<and> c \<le> 1 \<and> list_all (uuidSchema F) texts
               then Some \<lparr>aa_hypothesis = h, aa_confidence = c, aa_supportingEvidenceIds = texts\<rparr> else None
           | None \<Rightarrow> None)
      | _ \<Rightarrow> None)"

definition parse_decision :: "string \<Rightarrow> agent_decision_status option" where
  "parse_decision s = (if s = ''approve'' then Some Approve else if s = ''escalate'' then Some Escalate
     else if s = ''reject'' then Some Reject else None)"

definition verificationOutputSchema :: "json \<Rightarrow> verification option" where
  "verificationOutputSchema j =
     (case (json_text_of (json_member ''decision'' j), json_num_of (json_member ''finalConfidence'' j),
         json_text_of (json_member ''notificationDraft'' j)) of
        (Some d, Some c, Some n) \<Rightarrow>
          (case parse_decision d of
             Some decision \<Rightarrow>
               if 0 \<le> c \<and> c \<le> 1 \<and> n \<noteq> []
               then Some \<lparr>vf_decision = decision, vf_finalConfidence = c, vf_notificationDraft = n\<rparr> else None
           | None \<Rightarrow> None)
      | _ \<Rightarrow> None)"

definition analysis_messages :: "agent_context \<Rightarrow> chat_message list" where
  "analysis_messages context =
     [\<lparr>ms_role = SystemRole, ms_content = PlainText
        (''You are GridProof's read-only Anomaly Analysis Agent. Explain ambiguous grid-uptime evidence. '' @
         ''Never recommend blockchain writes.'')\<rparr>,
      \<lparr>ms_role = UserRole, ms_content = ContextJson context\<rparr>]"

definition runAnomalyAnalysisAgent :: "agent_lib \<Rightarrow> llm \<Rightarrow> llm_options \<Rightarrow> agent_context \<Rightarrow> anomaly_analysis res" where
  "runAnomalyAnalysisAgent al llm options context = completeJson al llm options (analysis_messages context)
     ''anomalyAnalysisOutput'' (anomalyAnalysisOutputSchema (al_formats al))"

definition verification_messages :: "agent_context \<Rightarrow> anomaly_analysis \<Rightarrow> chat_message list" where
  "verification_messages context analysis =
     [\<lparr>ms_role = SystemRole, ms_content = PlainText
        (''You are GridProof's Evidence Verification Agent. Return approve only when confidence is at least 0.85; '' @
         ''escalate 0.5-0.85; reject below 0.5.'')\<rparr>,
      \<lparr>ms_role = UserRole, ms_content = VerificationJson context analysis (fl (85/100)) (fl (1/2))\<rparr>]"

definition runVerificationAgent ::
  "agent_lib \<Rightarrow> llm \<Rightarrow> llm_options \<Rightarrow> agent_context \<Rightarrow> anomaly_analysis \<Rightarrow> verification res" where
  "runVerificationAgent al llm options context analysis =
     completeJson al llm options (verification_messages context analysis) ''verificationOutput'' verificationOutputSchema"

subsection \<open>orchestrator.ts\<close>

datatype orchestration_result = AgentDecided anomaly_analysis verification | AgentEscalated string

definition run_agents ::
  "agent_lib \<Rightarrow> llm \<Rightarrow> agent_review_job \<Rightarrow> llm_options \<Rightarrow> llm_options \<Rightarrow> tables option \<Rightarrow> orchestration_result res" where
  "run_agents al llm input analysisOptions verificationOptions tools =
     bindR (case tools of
         None \<Rightarrow> Inr None
       | Some t \<Rightarrow> bindR (collectAgentToolContext al t (jb_candidate input) (jb_providers input)) (\<lambda>c. Inr (Some c))) (\<lambda>toolContext.
     let context = \<lparr>ax_job = input, ax_toolContext = toolContext\<rparr> in
     bindR (runAnomalyAnalysisAgent al llm analysisOptions context) (\<lambda>analysis.
     bindR (runVerificationAgent al llm verificationOptions context analysis) (\<lambda>decision.
     if vf_decision decision = Approve \<and> vf_finalConfidence decision < fl (85/100)
     then Inr (AgentEscalated ''Agent attempted low-confidence approval'')
     else Inr (AgentDecided analysis decision))))"

definition orchestrateCandidateReview ::
  "agent_lib \<Rightarrow> llm \<Rightarrow> agent_review_job \<Rightarrow> llm_options \<Rightarrow> llm_options \<Rightarrow> tables option \<Rightarrow> orchestration_result" where
  "orchestrateCandidateReview al llm input analysisOptions verificationOptions tools =
     (case run_agents al llm input analysisOptions verificationOptions tools of
        Inl e \<Rightarrow> AgentEscalated (message e)
      | Inr r \<Rightarrow> r)"

end
