(* ===== verification/Agent_Sink.thy ===== *)
theory Agent_Sink imports Agent_Review begin

section \<open>What the agent worker writes\<close>

text \<open>
  \<open>apps/agent-worker/src/result-sink.ts\<close> and the worker of \<open>index.ts\<close>. The worker is a process of its own
  that shares the database with the API; it has no memory backend. The score and commitment statements
  are the worker's own copies of those of the pipeline.
\<close>

subsection \<open>The decision\<close>

definition AI_AGENT_NAME :: string where "AI_AGENT_NAME = ''ai-evidence-verification-agent''"

definition json_of_analysis :: "anomaly_analysis \<Rightarrow> json" where
  "json_of_analysis a = JObj [(''hypothesis'', JStr (aa_hypothesis a)), (''confidence'', JNum (aa_confidence a)),
     (''supportingEvidenceIds'', json_strings (aa_supportingEvidenceIds a))]"

definition json_of_verification :: "verification \<Rightarrow> json" where
  "json_of_verification v = JObj [(''decision'', JStr (decision_string (vf_decision v))),
     (''finalConfidence'', JNum (vf_finalConfidence v)), (''notificationDraft'', JStr (vf_notificationDraft v))]"

definition agentDecisionFromResult :: "string \<Rightarrow> int \<Rightarrow> agent_review_job \<Rightarrow> orchestration_result \<Rightarrow> agent_decision" where
  "agentDecisionFromResult uuid now input result =
     (let candidate = jb_candidate input in
      case result of
        AgentDecided analysis decision \<Rightarrow>
          \<lparr>ad_id = uuid, ad_candidateEventId = ca_id candidate, ad_agentName = AI_AGENT_NAME,
           ad_confidence = vf_finalConfidence decision, ad_decision = vf_decision decision,
           ad_hypothesis = aa_hypothesis analysis,
           ad_supportingEvidenceIds = (if aa_supportingEvidenceIds analysis \<noteq> []
             then aa_supportingEvidenceIds analysis else ca_evidenceEventIds candidate),
           ad_notificationDraft = Some (vf_notificationDraft decision),
           ad_reasoningTrace =
             [(''source'', JStr ''agent-worker''), (''analysis'', json_of_analysis analysis),
              (''verification'', json_of_verification decision),
              (''candidateStatus'', JStr (candidate_status_string (ca_status candidate)))],
           ad_createdAt = to_iso now\<rparr>
      | AgentEscalated reason \<Rightarrow>
          \<lparr>ad_id = uuid, ad_candidateEventId = ca_id candidate, ad_agentName = AI_AGENT_NAME,
           ad_confidence = ca_confidence candidate, ad_decision = Escalate,
           ad_hypothesis = ''Agent worker escalated candidate: '' @ reason,
           ad_supportingEvidenceIds = ca_evidenceEventIds candidate, ad_notificationDraft = Some reason,
           ad_reasoningTrace =
             [(''source'', JStr ''agent-worker''), (''failureMode'', JStr ''escalate''), (''reason'', JStr reason),
              (''candidateStatus'', JStr (candidate_status_string (ca_status candidate)))],
           ad_createdAt = to_iso now\<rparr>)"

text \<open>The insert of the decision is the pipeline's statement without its \<open>returning\<close>.\<close>

definition insert_decision :: "agent_decision \<Rightarrow> unit act" where
  "insert_decision decision = bindS (upsertDatabaseDecision decision) (\<lambda>_. returnS ())"

subsection \<open>Audit entries\<close>

definition insert_audit :: "runtime \<Rightarrow> string \<Rightarrow> json_object \<Rightarrow> unit act" where
  "insert_audit rt action after = bindS (randomUUID rt) (\<lambda>uuid.
     modifyS (\<lambda>w. w\<lparr>db := db w\<lparr>t_audit_logs := t_audit_logs (db w) @
       [\<lparr>ar_id = uuid, ar_actor_user_id = None, ar_subject_provider_id = None, ar_action = action,
         ar_before = None, ar_after = Some after, ar_created_at = w_now w\<rparr>]\<rparr>\<rparr>))"

definition worker_auditAgentDecision :: "runtime \<Rightarrow> agent_review_job \<Rightarrow> agent_decision \<Rightarrow> unit act" where
  "worker_auditAgentDecision rt input decision = insert_audit rt ''agent_decision.created''
     [(''decision'', json_of_decision decision), (''candidate'', candidate_summary (jb_candidate input)),
      (''evidenceEventIds'', json_strings (map ev_id (jb_evidence input)))]"

definition worker_auditSimulationProofPreview :: "runtime \<Rightarrow> agent_review_job \<Rightarrow> agent_decision \<Rightarrow> unit act" where
  "worker_auditSimulationProofPreview rt input decision = insert_audit rt ''demo.proof_previewed''
     (json_field ''runId'' (map_option (\<lambda>s. JStr (sim_runId s)) (jb_simulation input)) @
      json_field ''initiatedBy'' (map_option (\<lambda>s. JStr (sim_initiatedBy s)) (jb_simulation input)) @
      [(''candidateEventId'', JStr (ca_id (jb_candidate input))), (''decisionId'', JStr (ad_id decision)),
       (''reason'', JStr ''Synthetic demo chain writes are disabled'')])"

subsection \<open>Scores and commitments\<close>

text \<open>The columns the worker selects of an approved candidate.\<close>

record approved_candidate =
  ap_id :: string
  ap_zoneId :: string
  ap_status :: candidate_status
  ap_confidence :: rat
  ap_evidenceEventIds :: "string list"

definition approved_of_row :: "candidate_row \<Rightarrow> approved_candidate" where
  "approved_of_row row = \<lparr>ap_id = cr_id row, ap_zoneId = cr_zone_id row, ap_status = cr_status row,
     ap_confidence = cr_confidence row, ap_evidenceEventIds = cr_evidence_event_ids row\<rparr>"

definition approved_of_candidate :: "candidate_event \<Rightarrow> approved_candidate" where
  "approved_of_candidate c = \<lparr>ap_id = ca_id c, ap_zoneId = ca_zoneId c, ap_status = ca_status c,
     ap_confidence = ca_confidence c, ap_evidenceEventIds = ca_evidenceEventIds c\<rparr>"

definition worker_epochScore :: "runtime \<Rightarrow> int \<Rightarrow> string \<Rightarrow> string \<Rightarrow> approved_candidate list \<Rightarrow> epoch_score" where
  "worker_epochScore rt now zoneId epochStart approvedCandidates =
     (let upVotes = length (filter (\<lambda>item. ap_status item = Restored) approvedCandidates);
          totalVotes = length approvedCandidates
      in \<lparr>es_id = stableUuid rt (''epoch:'' @ zoneId @ '':'' @ epochStart), es_zoneId = zoneId, es_epochStart = epochStart,
          es_uptimeBps = (if totalVotes = 0 then 0
            else math_round (fmul (fdiv (of_nat upVotes) (of_nat totalVotes)) 10000)),
          es_evidenceHash = ''0x'' @ rt_sha256 rt (json_stringify (JObj
            [(''zoneId'', JStr zoneId), (''epochStart'', JStr epochStart),
             (''approvedCandidates'', JArr (map (\<lambda>item. JObj
                [(''id'', JStr (ap_id item)), (''status'', JStr (candidate_status_string (ap_status item))),
                 (''confidence'', JNum (ap_confidence item)),
                 (''evidenceEventIds'', json_strings (ap_evidenceEventIds item))]) approvedCandidates))])),
          es_createdAt = to_iso now\<rparr>)"

definition upsertEpochScore :: "epoch_score \<Rightarrow> epoch_score act" where
  "upsertEpochScore epochScore =
     bindS (db_timestamp (es_epochStart epochScore)) (\<lambda>start.
     bindS (db_timestamp (es_createdAt epochScore)) (\<lambda>created w.
       let excluded = \<lparr>ep_id = es_id epochScore, ep_zone_id = es_zoneId epochScore, ep_epoch_start = start,
             ep_uptime_bps = es_uptimeBps epochScore, ep_evidence_hash = es_evidenceHash epochScore, ep_created_at = created\<rparr>;
           (row, rows) = sql_upsert epoch_key
             (\<lambda>r. r\<lparr>ep_uptime_bps := ep_uptime_bps excluded, ep_evidence_hash := ep_evidence_hash excluded\<rparr>)
             excluded (t_epoch_scores (db w))
       in (Inr (epoch_of_row row), w\<lparr>db := db w\<lparr>t_epoch_scores := rows\<rparr>\<rparr>)))"

text \<open>The commitment as the worker returns it: the driver gives a \<open>bigint\<close> column as a text, which the
  worker passes on in place of a number.\<close>

record worker_commitment =
  wc_id :: string
  wc_epochScoreId :: string
  wc_txHash :: "string option"
  wc_blockNumber :: "string option"
  wc_status :: chain_commitment_status
  wc_explorerUrl :: "string option"
  wc_createdAt :: string
  wc_confirmedAt :: "string option"

definition worker_commitment_of_row :: "commitment_row \<Rightarrow> worker_commitment" where
  "worker_commitment_of_row row =
     \<lparr>wc_id = cm_id row, wc_epochScoreId = cm_epoch_score_id row, wc_txHash = cm_tx_hash row,
      wc_blockNumber = map_option int_string (cm_block_number row), wc_status = cm_status row,
      wc_explorerUrl = cm_explorer_url row, wc_createdAt = to_iso (cm_created_at row),
      wc_confirmedAt = map_option to_iso (cm_confirmed_at row)\<rparr>"

definition json_of_worker_commitment :: "worker_commitment \<Rightarrow> json" where
  "json_of_worker_commitment c = JObj
     [(''id'', JStr (wc_id c)), (''epochScoreId'', JStr (wc_epochScoreId c)),
      (''txHash'', json_of_option JStr (wc_txHash c)), (''blockNumber'', json_of_option JStr (wc_blockNumber c)),
      (''status'', JStr (commitment_status_string (wc_status c))),
      (''explorerUrl'', json_of_option JStr (wc_explorerUrl c)), (''createdAt'', JStr (wc_createdAt c)),
      (''confirmedAt'', json_of_option JStr (wc_confirmedAt c))]"

definition worker_pendingCommitment :: "runtime \<Rightarrow> int \<Rightarrow> epoch_score \<Rightarrow> chain_commitment" where
  "worker_pendingCommitment rt now epochScore =
     \<lparr>cc_id = stableUuid rt (''commitment:'' @ es_id epochScore), cc_epochScoreId = es_id epochScore, cc_txHash = None,
      cc_blockNumber = None, cc_status = Pending, cc_explorerUrl = None, cc_createdAt = to_iso now, cc_confirmedAt = None\<rparr>"

definition upsertPendingCommitment :: "chain_commitment \<Rightarrow> worker_commitment act" where
  "upsertPendingCommitment commitment =
     bindS (db_timestamp (cc_createdAt commitment)) (\<lambda>created w.
       let excluded = \<lparr>cm_id = cc_id commitment, cm_epoch_score_id = cc_epochScoreId commitment,
             cm_tx_hash = cc_txHash commitment, cm_block_number = cc_blockNumber commitment,
             cm_status = cc_status commitment, cm_explorer_url = cc_explorerUrl commitment,
             cm_created_at = created, cm_confirmed_at = None\<rparr>;
           (row, rows) = sql_upsert cm_epoch_score_id (\<lambda>r. r\<lparr>cm_status := cm_status excluded\<rparr>) excluded
             (t_chain_commitments (db w))
       in (Inr (worker_commitment_of_row row), w\<lparr>db := db w\<lparr>t_chain_commitments := rows\<rparr>\<rparr>))"

definition worker_auditChainQueued :: "runtime \<Rightarrow> epoch_score \<Rightarrow> worker_commitment \<Rightarrow> unit act" where
  "worker_auditChainQueued rt epochScore commitment = insert_audit rt ''chain_commitment.queued''
     [(''source'', JStr ''ai_worker_approval''), (''epochScore'', json_of_epoch_score epochScore),
      (''commitment'', json_of_worker_commitment commitment)]"

text \<open>The candidates that are scored: those the statement selects, or the candidate itself when there are none.\<close>

definition scored_candidates :: "candidate_event \<Rightarrow> int \<Rightarrow> world \<Rightarrow> approved_candidate list" where
  "scored_candidates candidate start w =
     (let approved = map approved_of_row
        (approved_rows (db w) (ca_zoneId candidate) start (start + EPOCH_DURATION_MS)) in
      if approved \<noteq> [] then approved else [approved_of_candidate candidate])"

definition queueApprovedDecisionForChain :: "runtime \<Rightarrow> candidate_event \<Rightarrow> (epoch_score \<times> worker_commitment) act" where
  "queueApprovedDecisionForChain rt candidate =
     bindS (liftS (floorToEpoch (ca_windowEnd candidate))) (\<lambda>epochStart.
     bindS (db_timestamp epochStart) (\<lambda>start.
     bindS (getS (scored_candidates candidate start)) (\<lambda>scored.
     bindS (getS (\<lambda>w. worker_epochScore rt (w_now w) (ca_zoneId candidate) epochStart scored)) (\<lambda>epochScore.
     bindS (upsertEpochScore epochScore) (\<lambda>storedEpochScore.
     bindS (getS (\<lambda>w. worker_pendingCommitment rt (w_now w) storedEpochScore)) (\<lambda>pending.
     bindS (upsertPendingCommitment pending) (\<lambda>commitment.
     returnS (storedEpochScore, commitment))))))))"

subsection \<open>Persisting a result\<close>

datatype persist_result =
    Persisted agent_decision "epoch_score option" "worker_commitment option"
  | NotPersisted agent_decision string

definition persistOrchestrationResult :: "runtime \<Rightarrow> agent_review_job \<Rightarrow> orchestration_result \<Rightarrow> persist_result act" where
  "persistOrchestrationResult rt input result =
     bindS (getS w_now) (\<lambda>now.
     bindS (randomUUID rt) (\<lambda>uuid.
     let decision = agentDecisionFromResult uuid now input result in
     if \<not> isDatabaseConfigured rt then returnS (NotPersisted decision ''DATABASE_URL is not configured'')
     else
       bindS (insert_decision decision) (\<lambda>_.
       bindS (worker_auditAgentDecision rt input decision) (\<lambda>_.
       if ad_decision decision \<noteq> Approve then returnS (Persisted decision None None)
       else if opt_any (\<lambda>s. \<not> sim_allowChainWrite s) (jb_simulation input)
       then bindS (worker_auditSimulationProofPreview rt input decision) (\<lambda>_. returnS (Persisted decision None None))
       else
         bindS (queueApprovedDecisionForChain rt (jb_candidate input)) (\<lambda>(epochScore, commitment).
         bindS (worker_auditChainQueued rt epochScore commitment) (\<lambda>_.
         returnS (Persisted decision (Some epochScore) (Some commitment))))))))"

subsection \<open>index.ts\<close>

text \<open>The guard of the tools' queries, and the tables they read when there is a database.\<close>

definition tool_query_allowed :: "string \<Rightarrow> bool" where
  "tool_query_allowed sql \<longleftrightarrow> take 6 (to_lower (trim_start sql)) = ''select''"

definition readOnlyToolQueryFromEnv :: "runtime \<Rightarrow> world \<Rightarrow> tables option" where
  "readOnlyToolQueryFromEnv rt w = (if isDatabaseConfigured rt then Some (db w) else None)"

definition review_candidate ::
  "runtime \<Rightarrow> agent_lib \<Rightarrow> llm \<Rightarrow> llm_config \<Rightarrow> agent_review_job \<Rightarrow> (orchestration_result \<times> persist_result) act" where
  "review_candidate rt al llm config job =
     bindS (getS (\<lambda>w. orchestrateCandidateReview al llm job (lc_analysis config) (lc_verification config)
       (readOnlyToolQueryFromEnv rt w))) (\<lambda>result.
     bindS (persistOrchestrationResult rt job result) (\<lambda>persistence.
     returnS (result, persistence)))"

end
