(* ===== verification/Agent_Worker.thy ===== *)
theory Agent_Worker imports Agent_Sink begin

section \<open>Readiness of the worker\<close>

text \<open>\<open>apps/agent-worker/src/readiness.ts\<close> and the health server of \<open>index.ts\<close>.\<close>

record worker_readiness_check =
  wr_name :: string
  wr_pass :: bool
  wr_message :: string
  wr_missingEnv :: "string list"

record worker_readiness =
  wy_ok :: bool
  wy_status :: string
  wy_timestamp :: string
  wy_checks :: "worker_readiness_check list"

definition runtimeCheck :: "bool \<Rightarrow> worker_readiness_check" where
  "runtimeCheck workerReady = \<lparr>wr_name = ''worker_runtime'', wr_pass = workerReady,
     wr_message = (if workerReady then ''BullMQ worker is running and marked ready.''
       else ''BullMQ worker is not marked ready; check Redis connectivity and worker startup logs.''),
     wr_missingEnv = []\<rparr>"

record check_input =
  ck_name :: string
  ck_keys :: "string list"
  ck_passMessage :: string
  ck_missingMessage :: string
  ck_rejectValues :: "string list option"
  ck_rejectMessage :: "string option"

definition worker_configuredCheck :: "env \<Rightarrow> check_input \<Rightarrow> worker_readiness_check" where
  "worker_configuredCheck env input =
     (let missingEnv = filter (\<lambda>key. \<not> hasValue (env key)) (ck_keys input);
          placeholderEnv = (case ck_rejectValues input of
             Some values \<Rightarrow> filter (\<lambda>key. env_trim env key \<in> set values) (ck_keys input)
           | None \<Rightarrow> []) in
      if missingEnv \<noteq> []
      then \<lparr>wr_name = ck_name input, wr_pass = False, wr_message = ck_missingMessage input, wr_missingEnv = missingEnv\<rparr>
      else if placeholderEnv \<noteq> []
      then \<lparr>wr_name = ck_name input, wr_pass = False,
        wr_message = or_else (ck_rejectMessage input) (ck_missingMessage input), wr_missingEnv = placeholderEnv\<rparr>
      else \<lparr>wr_name = ck_name input, wr_pass = True, wr_message = ck_passMessage input, wr_missingEnv = []\<rparr>)"

definition worker_checks :: "check_input list" where
  "worker_checks =
     [\<lparr>ck_name = ''database'', ck_keys = [''DATABASE_URL''],
       ck_passMessage = ''Postgres/Supabase database URL is configured for agent context and persistence.'',
       ck_missingMessage = ''DATABASE_URL is required so agent decisions, audit logs, epoch scores, and chain queue artifacts persist.'',
       ck_rejectValues = None, ck_rejectMessage = None\<rparr>,
      \<lparr>ck_name = ''redis_queue'', ck_keys = [''REDIS_URL''],
       ck_passMessage = ''Redis/Upstash URL is configured for BullMQ agent-review jobs.'',
       ck_missingMessage = ''REDIS_URL is required; the worker cannot consume durable BullMQ jobs without it.'',
       ck_rejectValues = None, ck_rejectMessage = None\<rparr>,
      \<lparr>ck_name = ''llm_proxy'', ck_keys = [''LLM_BASE_URL'', ''LLM_API_KEY''],
       ck_passMessage = ''LLM proxy URL and API key are configured.'',
       ck_missingMessage = ''LLM_BASE_URL and LLM_API_KEY are required for production AI review.'',
       ck_rejectValues = None, ck_rejectMessage = None\<rparr>,
      \<lparr>ck_name = ''llm_models'', ck_keys = [''LLM_ANALYSIS_MODEL'', ''LLM_VERIFICATION_MODEL''],
       ck_passMessage = ''Analysis and verification model names are configured.'',
       ck_missingMessage =
         ''LLM_ANALYSIS_MODEL and LLM_VERIFICATION_MODEL should be explicit for reproducible demo behavior.'',
       ck_rejectValues = Some PLACEHOLDER_MODELS,
       ck_rejectMessage = Some (''LLM_ANALYSIS_MODEL/LLM_VERIFICATION_MODEL still hold placeholder names. '' @
         ''Set concrete model IDs from your router's catalog (GET /v1/models).'')\<rparr>]"

definition workerReadinessSnapshot :: "env \<Rightarrow> bool \<Rightarrow> int \<Rightarrow> worker_readiness" where
  "workerReadinessSnapshot env workerReady now =
     (let checks = runtimeCheck workerReady # map (worker_configuredCheck env) worker_checks;
          ok = list_all wr_pass checks
      in \<lparr>wy_ok = ok, wy_status = (if ok then ''ready'' else ''not_ready''), wy_timestamp = to_iso now, wy_checks = checks\<rparr>)"

text \<open>The flag \<open>workerReady\<close> over the life of the process: nothing sets it again after an error of the
  queue. Without \<open>REDIS_URL\<close> neither the worker nor the health server starts (\<open>None\<close>).\<close>

datatype worker_signal = QueueError | ShutdownSignal

fun worker_step :: "worker_signal \<Rightarrow> bool \<Rightarrow> bool" where
  "worker_step QueueError workerReady = False"
| "worker_step ShutdownSignal workerReady = False"

definition worker_life :: "env \<Rightarrow> worker_signal list \<Rightarrow> bool option" where
  "worker_life env signals =
     (if env_set env ''REDIS_URL'' = None then None else Some (fold worker_step signals True))"

datatype health_body = ReadinessBody worker_readiness | NotFoundBody | HealthBody bool string

definition health_server :: "env \<Rightarrow> bool \<Rightarrow> string \<Rightarrow> int \<Rightarrow> nat \<times> health_body" where
  "health_server env workerReady url now =
     (if url = ''/readiness''
      then let readiness = workerReadinessSnapshot env workerReady now in
        (if wy_ok readiness then 200 else 503, ReadinessBody readiness)
      else if url \<noteq> ''/health'' then (404, NotFoundBody)
      else (if workerReady then 200 else 503, HealthBody workerReady (to_iso now)))"

end
