(* ===== verification/Samples.thy ===== *)
theory Samples imports Pipeline begin

section \<open>Sample inputs\<close>

text \<open>
  Concrete runtimes, worlds and candidates on which the properties of the stateful components
  are exhibited. The digest of the sample runtimes is a constant string of 64 hexadecimal
  digits; no property relies on it.
\<close>

definition sample_rt :: "(string \<Rightarrow> string option) \<Rightarrow> runtime" where
  "sample_rt env = \<lparr>rt_uuid = (\<lambda>n. ''uuid-'' @ nat_string n), rt_lc = text_compare,
     rt_sha256 = (\<lambda>s. replicate 64 CHR ''a''), rt_hmac = (\<lambda>k s. replicate 64 CHR ''b''),
     rt_env = env, rt_bull_add = (\<lambda>j. None)\<rparr>"

definition memory_rt :: runtime where "memory_rt = sample_rt (\<lambda>name. None)"

definition database_rt :: runtime where
  "database_rt = sample_rt (\<lambda>name. if name = ''DATABASE_URL'' then Some ''postgres'' else None)"

lemma memory_rt_db [simp]: "\<not> isDatabaseConfigured memory_rt"
  by (simp add: isDatabaseConfigured_def env_truthy_def memory_rt_def sample_rt_def)

lemma database_rt_db [simp]: "isDatabaseConfigured database_rt"
  by (simp add: isDatabaseConfigured_def env_truthy_def database_rt_def sample_rt_def)

definition sample_now :: int where "sample_now = 1784549100000"

definition sample_window_end :: string where "sample_window_end = ''2026-07-20T12:05:00.000Z''"

lemma sample_window_end_date: "date_parse sample_window_end = Some sample_now"
  by code_simp

lemma sample_now_iso: "to_iso sample_now = sample_window_end"
  by code_simp

lemma sample_now_range [simp]: "date_range sample_now"
  by (simp add: date_range_def sample_now_def)

definition sample_candidate :: "rat \<Rightarrow> candidate_event" where
  "sample_candidate confidence =
     \<lparr>ca_id = ''candidate-1'', ca_zoneId = ''zone-1'', ca_status = Outage,
      ca_confidence = confidence, ca_windowStart = sample_window_end,
      ca_windowEnd = sample_window_end, ca_evidenceEventIds = [''e1''],
      ca_createdAt = sample_window_end\<rparr>"

lemma sample_candidate_window [simp]:
  "date_parse (ca_windowEnd (sample_candidate c)) = Some sample_now"
  by (simp add: sample_candidate_def sample_window_end_date)

lemma sample_candidate_confidence [simp]: "ca_confidence (sample_candidate c) = c"
  by (simp add: sample_candidate_def)

definition sample_row :: "rat \<Rightarrow> candidate_row" where
  "sample_row confidence =
     \<lparr>cr_id = ''candidate-1'', cr_candidate_key = Some ''zone-1:grid_down:key-1'',
      cr_zone_id = ''zone-1'', cr_status = Outage, cr_confidence = confidence,
      cr_window_start = sample_now, cr_window_end = sample_now,
      cr_evidence_event_ids = [''e1''], cr_created_at = sample_now\<rparr>"

lemma sample_row_candidate: "candidate_of_row (sample_row c) = sample_candidate c"
  by (simp add: candidate_of_row_def sample_row_def sample_candidate_def sample_now_iso)

definition sample_tables :: "rat \<Rightarrow> tables" where
  "sample_tables c = empty_tables\<lparr>t_candidate_events := [sample_row c]\<rparr>"

definition sample_world :: "rat \<Rightarrow> world" where
  "sample_world c = empty_world sample_now\<lparr>db := sample_tables c\<rparr>"

lemma thresholds_of_1 [simp]: "AUTO_APPROVE_THRESHOLD \<le> 1" "ESCALATE_THRESHOLD \<le> 1"
  by (simp_all add: AUTO_APPROVE_THRESHOLD_def ESCALATE_THRESHOLD_def fl_eval)

lemma thresholds_of_0 [simp]: "0 < ESCALATE_THRESHOLD"
  by (simp add: ESCALATE_THRESHOLD_def fl_eval)

end
