(* ===== verification/Worker.thy ===== *)
theory Worker imports Agent_Worker Samples begin

section \<open>Properties of the agent worker\<close>

text \<open>
  When the worker approves, what it writes compared with the pipeline, failures, repeated deliveries of a
  job, and what its tools and its readiness report.
\<close>

subsection \<open>Approvals\<close>

text \<open>The answers that become a decision.\<close>

lemma agent_decided:
  assumes "orchestrateCandidateReview al llm job ao vo tools = AgentDecided a v"
  shows "vf_decision v = Approve \<longrightarrow> fl (85/100) \<le> vf_finalConfidence v"
  using assms
  by (auto simp: orchestrateCandidateReview_def run_agents_def Let_def split: sum.splits if_splits)

lemma insert_audit_run [run_simps]:
  "insert_audit rt action after w = (Inr (), w\<lparr>w_uuids := Suc (w_uuids w), db := db w\<lparr>t_audit_logs :=
     t_audit_logs (db w) @ [\<lparr>ar_id = rt_uuid rt (w_uuids w), ar_actor_user_id = None, ar_subject_provider_id = None,
       ar_action = action, ar_before = None, ar_after = Some after, ar_created_at = w_now w\<rparr>]\<rparr>\<rparr>)"
  by (simp add: insert_audit_def)

lemmas worker_audits = worker_auditAgentDecision_def worker_auditSimulationProofPreview_def worker_auditChainQueued_def

lemma insert_decision_run:
  "insert_decision d w =
    (case date_parse (ad_createdAt d) of
       None \<Rightarrow> (Inl (plain_error ''invalid input syntax for type timestamp with time zone''), w)
     | Some created \<Rightarrow>
         if \<exists>c \<in> set (t_candidate_events (db w)). cr_id c = ad_candidateEventId d
         then (Inr (), w\<lparr>db := db w\<lparr>t_agent_decisions := snd (stored_decision d created (t_agent_decisions (db w)))\<rparr>\<rparr>)
         else (Inl (foreign_key_error ''agent_decisions''), w))"
  by (simp add: insert_decision_def bindS_def upsert_decision_run split: option.split)

lemma agent_decision_sel [simp]:
  "ad_createdAt (agentDecisionFromResult uuid now job r) = to_iso now"
  "ad_candidateEventId (agentDecisionFromResult uuid now job r) = ca_id (jb_candidate job)"
  "ad_agentName (agentDecisionFromResult uuid now job r) = AI_AGENT_NAME"
  "ad_id (agentDecisionFromResult uuid now job r) = uuid"
  by (cases r; simp add: agentDecisionFromResult_def Let_def)+

lemma agent_decision_of:
  "ad_decision (agentDecisionFromResult uuid now job r) =
     (case r of AgentDecided a v \<Rightarrow> vf_decision v | AgentEscalated reason \<Rightarrow> Escalate)"
  by (cases r) (simp_all add: agentDecisionFromResult_def Let_def)

lemma audit_returns:
  "fst (worker_auditAgentDecision rt job d w) = Inr ()" "fst (worker_auditSimulationProofPreview rt job d w) = Inr ()"
  "fst (worker_auditChainQueued rt s c w) = Inr ()"
  by (simp_all add: worker_audits run_simps)

text \<open>The tables after the decision is stored and audited.\<close>

definition after_decision :: "runtime \<Rightarrow> agent_review_job \<Rightarrow> orchestration_result \<Rightarrow> world \<Rightarrow> world" where
  "after_decision rt job result w =
     (let d = agentDecisionFromResult (rt_uuid rt (w_uuids w)) (w_now w) job result in
      snd (worker_auditAgentDecision rt job d (w\<lparr>w_uuids := Suc (w_uuids w),
        db := db w\<lparr>t_agent_decisions := snd (stored_decision d (w_now w) (t_agent_decisions (db w)))\<rparr>\<rparr>)))"

lemma after_decision_sel [simp]:
  "t_epoch_scores (db (after_decision rt job result w)) = t_epoch_scores (db w)"
  "t_chain_commitments (db (after_decision rt job result w)) = t_chain_commitments (db w)"
  "t_candidate_events (db (after_decision rt job result w)) = t_candidate_events (db w)"
  "t_evidence_events (db (after_decision rt job result w)) = t_evidence_events (db w)"
  "t_providers (db (after_decision rt job result w)) = t_providers (db w)"
  "w_now (after_decision rt job result w) = w_now w"
  "t_agent_decisions (db (after_decision rt job result w)) =
     snd (stored_decision (agentDecisionFromResult (rt_uuid rt (w_uuids w)) (w_now w) job result) (w_now w)
       (t_agent_decisions (db w)))"
  by (simp_all add: after_decision_def worker_audits run_simps Let_def)

definition chain_writes_allowed :: "agent_review_job \<Rightarrow> bool" where
  "chain_writes_allowed job \<longleftrightarrow> opt_all sim_allowChainWrite (jb_simulation job)"

lemma not_chain_writes: "opt_any (\<lambda>s. \<not> sim_allowChainWrite s) x \<longleftrightarrow> \<not> opt_all sim_allowChainWrite x"
  by (cases x) simp_all

lemma persist_run:
  fixes rt :: runtime and w :: world and job :: agent_review_job and result :: orchestration_result
  assumes "isDatabaseConfigured rt" "date_range (w_now w)"
    and "\<exists>c \<in> set (t_candidate_events (db w)). cr_id c = ca_id (jb_candidate job)"
  defines "d \<equiv> agentDecisionFromResult (rt_uuid rt (w_uuids w)) (w_now w) job result"
  shows "persistOrchestrationResult rt job result w =
    (if ad_decision d \<noteq> Approve then (Inr (Persisted d None None), after_decision rt job result w)
     else if \<not> chain_writes_allowed job
     then (Inr (Persisted d None None), snd (worker_auditSimulationProofPreview rt job d (after_decision rt job result w)))
     else bindS (queueApprovedDecisionForChain rt (jb_candidate job)) (\<lambda>(epochScore, commitment).
         bindS (worker_auditChainQueued rt epochScore commitment) (\<lambda>_.
         returnS (Persisted d (Some epochScore) (Some commitment)))) (after_decision rt job result w))"
proof -
  let ?w1 = "w\<lparr>w_uuids := Suc (w_uuids w), db := db w\<lparr>t_agent_decisions := snd (stored_decision d (w_now w) (t_agent_decisions (db w)))\<rparr>\<rparr>"
  have ins: "insert_decision d (w\<lparr>w_uuids := Suc (w_uuids w)\<rparr>) = (Inr (), ?w1)"
    using assms(3) date_parse_iso[OF assms(2)] by (simp add: insert_decision_run d_def)
  have aud: "worker_auditAgentDecision rt job d ?w1 = (Inr (), after_decision rt job result w)"
    by (simp add: after_decision_def Let_def d_def audit_returns prod_eq_iff)
  have ins': "bindS (insert_decision d) f (w\<lparr>w_uuids := Suc (w_uuids w)\<rparr>) = f () ?w1" for f :: "unit \<Rightarrow> persist_result act"
    by (simp add: bindS_def ins)
  have aud': "bindS (worker_auditAgentDecision rt job d) f ?w1 = f () (after_decision rt job result w)" for f :: "unit \<Rightarrow> persist_result act"
    by (simp only: bindS_def aud prod.case sum.case)
  have pre: "worker_auditSimulationProofPreview rt job d v = (Inr (), snd (worker_auditSimulationProofPreview rt job d v))" for v
    by (simp add: audit_returns prod_eq_iff)
  have pre': "bindS (worker_auditSimulationProofPreview rt job d) f v = f () (snd (worker_auditSimulationProofPreview rt job d v))"
    for f :: "unit \<Rightarrow> persist_result act" and v
    unfolding bindS_def by (subst pre) simp
  have "persistOrchestrationResult rt job result w = bindS (insert_decision d) (\<lambda>_.
       bindS (worker_auditAgentDecision rt job d) (\<lambda>_.
       if ad_decision d \<noteq> Approve then returnS (Persisted d None None)
       else if opt_any (\<lambda>s. \<not> sim_allowChainWrite s) (jb_simulation job)
       then bindS (worker_auditSimulationProofPreview rt job d) (\<lambda>_. returnS (Persisted d None None))
       else
         bindS (queueApprovedDecisionForChain rt (jb_candidate job)) (\<lambda>(epochScore, commitment).
         bindS (worker_auditChainQueued rt epochScore commitment) (\<lambda>_.
         returnS (Persisted d (Some epochScore) (Some commitment)))))) (w\<lparr>w_uuids := Suc (w_uuids w)\<rparr>)"
    using assms(1) by (simp add: persistOrchestrationResult_def Let_def d_def)
  then show ?thesis
    by (simp only: ins' aud' not_chain_writes chain_writes_allowed_def) (simp add: pre')
qed

definition chain_tables :: "tables \<Rightarrow> epoch_row list \<times> commitment_row list" where
  "chain_tables t = (t_epoch_scores t, t_chain_commitments t)"

lemma persist_keeps_chain:
  "chain_tables (db (snd (persistOrchestrationResult rt job result w))) = chain_tables (db w) \<or>
   (case result of AgentDecided a v \<Rightarrow> vf_decision v = Approve | AgentEscalated reason \<Rightarrow> False) \<and>
     chain_writes_allowed job \<and> isDatabaseConfigured rt"
proof -
  let ?d = "agentDecisionFromResult (rt_uuid rt (w_uuids w)) (w_now w) job result"
  consider (db) "isDatabaseConfigured rt" "ad_decision ?d = Approve" "chain_writes_allowed job"
    | (mem) "\<not> isDatabaseConfigured rt" | (other) "isDatabaseConfigured rt" "ad_decision ?d \<noteq> Approve \<or> \<not> chain_writes_allowed job"
    by blast
  then show ?thesis
  proof cases
    case db
    then show ?thesis by (simp add: agent_decision_of split: orchestration_result.splits)
  next
    case mem
    then show ?thesis by (simp add: persistOrchestrationResult_def Let_def)
  next
    case other
    then show ?thesis
      by (auto simp: persistOrchestrationResult_def Let_def bindS_def insert_decision_run worker_audits run_simps chain_tables_def
          not_chain_writes chain_writes_allowed_def split: option.split)
  qed
qed

lemma review_db: "db (snd (review_candidate rt al llm config job w)) =
    db (snd (persistOrchestrationResult rt job (orchestrateCandidateReview al llm job (lc_analysis config) (lc_verification config)
      (readOnlyToolQueryFromEnv rt w)) w))"
  by (auto simp: review_candidate_def bindS_def split: prod.split sum.split)

text \<open>C7. Whatever the language model answers, a review of the worker changes scores and commitments only when the
  model approved the candidate with a confidence of at least 0.85 in a well-formed answer, and the job is
  not a preview of the demo lab.\<close>

theorem worker_commits_confident_approvals:
  assumes "chain_tables (db (snd (review_candidate rt al llm config job w))) \<noteq> chain_tables (db w)"
  shows "\<exists>a v. orchestrateCandidateReview al llm job (lc_analysis config) (lc_verification config)
      (readOnlyToolQueryFromEnv rt w) = AgentDecided a v \<and>
    vf_decision v = Approve \<and> fl (85/100) \<le> vf_finalConfidence v \<and> chain_writes_allowed job \<and> isDatabaseConfigured rt"
proof -
  let ?result = "orchestrateCandidateReview al llm job (lc_analysis config) (lc_verification config) (readOnlyToolQueryFromEnv rt w)"
  from assms persist_keeps_chain[of rt job ?result w] obtain a v where "?result = AgentDecided a v" "vf_decision v = Approve"
    "chain_writes_allowed job" "isDatabaseConfigured rt"
    by (auto simp: review_db split: orchestration_result.splits)
  then show ?thesis using agent_decided[of al llm job] by blast
qed

subsection \<open>The same scores as the pipeline\<close>

lemma worker_score:
  "worker_epochScore rt now zoneId es (map approved_of_row rows) =
     epochScoreForApprovedCandidates rt now zoneId es (map candidate_of_row rows)"
  by (simp add: worker_epochScore_def epochScoreForApprovedCandidates_def uptime_bps_def evidence_json_def Let_def
      filter_map o_def approved_of_row_def candidate_of_row_def)

lemma worker_pending: "worker_pendingCommitment rt now s = pendingCommitmentForEpochScore rt now s"
  by (simp add: worker_pendingCommitment_def pendingCommitmentForEpochScore_def)

lemma epoch_score_sel [simp]:
  "es_epochStart (epochScoreForApprovedCandidates rt now z es cs) = es"
  "es_createdAt (epochScoreForApprovedCandidates rt now z es cs) = to_iso now"
  "es_zoneId (epochScoreForApprovedCandidates rt now z es cs) = z"
  by (simp_all add: epochScoreForApprovedCandidates_def)

lemma approved_rows_nonempty:
  assumes "c \<in> set (t_candidate_events tb)" "cr_zone_id c = zoneId" "floor_epoch_ms (cr_window_end c) = floor_epoch_ms t"
    and "d \<in> set (t_agent_decisions tb)" "dr_candidate_event_id d = cr_id c" "dr_decision d = Approve"
  shows "approved_rows tb zoneId (floor_epoch_ms t) (floor_epoch_ms t + EPOCH_DURATION_MS) \<noteq> []"
proof -
  have "c \<in> set (approved_rows tb zoneId (floor_epoch_ms t) (floor_epoch_ms t + EPOCH_DURATION_MS))"
    using assms by (auto simp: set_approved_rows epoch_row_members_def)
  then show ?thesis by auto
qed

lemma queue_run:
  fixes rt :: runtime and w :: world
  assumes "date_parse (ca_windowEnd candidate) = Some t" "date_range t" "date_range (w_now w)"
    and "approved_rows (db w) (ca_zoneId candidate) (floor_epoch_ms t) (floor_epoch_ms t + EPOCH_DURATION_MS) \<noteq> []"
  defines "er \<equiv> stored_epoch rt w candidate t"
  defines "cr \<equiv> stored_commitment rt (w\<lparr>db := db w\<lparr>t_epoch_scores := snd er\<rparr>\<rparr>) (epoch_of_row (fst er))"
  shows "queueApprovedDecisionForChain rt candidate w =
    (Inr (epoch_of_row (fst er), worker_commitment_of_row (fst cr)),
     w\<lparr>db := db w\<lparr>t_epoch_scores := snd er, t_chain_commitments := snd cr\<rparr>\<rparr>)"
proof -
  have start: "date_parse (to_iso (floor_epoch_ms t)) = Some (floor_epoch_ms t)"
    using date_parse_iso[OF date_range_floor[OF assms(2)]] .
  have now: "date_parse (to_iso (w_now w)) = Some (w_now w)" using date_parse_iso[OF assms(3)] .
  have scored: "worker_epochScore rt (w_now w) (ca_zoneId candidate) (to_iso (floor_epoch_ms t))
      (scored_candidates candidate (floor_epoch_ms t) w) = database_score rt w candidate t"
    using assms(4) by (simp add: scored_candidates_def worker_score database_score_def Let_def)
  have up: "upsertEpochScore (database_score rt w candidate t) w =
      (Inr (epoch_of_row (fst er)), w\<lparr>db := db w\<lparr>t_epoch_scores := snd er\<rparr>\<rparr>)"
    using start now
    by (simp add: upsertEpochScore_def db_timestamp_def er_def stored_epoch_def Let_def case_prod_beta database_score_def)
  have com: "upsertPendingCommitment (pendingCommitmentForEpochScore rt (w_now v) s) v =
      (Inr (worker_commitment_of_row (fst (stored_commitment rt v s))),
       v\<lparr>db := db v\<lparr>t_chain_commitments := snd (stored_commitment rt v s)\<rparr>\<rparr>)" if "w_now v = w_now w" for v s
    using now that
    by (simp add: upsertPendingCommitment_def db_timestamp_def stored_commitment_def Let_def case_prod_beta
        pendingCommitmentForEpochScore_def)
  show ?thesis
    using assms(1) start
    by (simp add: queueApprovedDecisionForChain_def floorToEpoch_def db_timestamp_def scored worker_pending
        bindS_def[of "upsertEpochScore _"] bindS_def[of "upsertPendingCommitment _"] up cr_def
        com[of "w\<lparr>db := db w\<lparr>t_epoch_scores := snd er\<rparr>\<rparr>", simplified])
qed

text \<open>C37. The worker's copies of the scoring code agree with the pipeline's: when an approved candidate's decision is in
  the database, the worker leaves the same score rows and commitment rows as the pipeline would, and
  returns the same score.\<close>

theorem worker_commits_like_pipeline:
  assumes "date_parse (ca_windowEnd candidate) = Some t" "date_range t" "date_range (w_now w)"
    and "c \<in> set (t_candidate_events (db w))" "cr_id c = ca_id candidate" "cr_zone_id c = ca_zoneId candidate"
      "cr_window_end c = t"
    and "d \<in> set (t_agent_decisions (db w))" "dr_candidate_event_id d = ca_id candidate" "dr_decision d = Approve"
  shows "\<exists>score commitment result.
      fst (queueApprovedDecisionForChain rt candidate w) = Inr (score, commitment) \<and>
      fst (database_commitment rt candidate decision source w) = Inr result \<and> res_epochScore result = Some score \<and>
      map_option cc_id (res_commitment result) = Some (wc_id commitment) \<and>
      chain_tables (db (snd (queueApprovedDecisionForChain rt candidate w))) =
        chain_tables (db (snd (database_commitment rt candidate decision source w)))"
proof -
  have "approved_rows (db w) (ca_zoneId candidate) (floor_epoch_ms t) (floor_epoch_ms t + EPOCH_DURATION_MS) \<noteq> []"
    using assms by (intro approved_rows_nonempty[of c _ _ _ d]) simp_all
  note q = queue_run[OF assms(1-3) this, of rt]
  obtain w' where "database_commitment rt candidate decision source w =
      (Inr \<lparr>res_decision = decision, res_epochScore = Some (epoch_of_row (fst (stored_epoch rt w candidate t))),
        res_commitment = Some (commitment_of_row (fst (stored_commitment rt
          (w\<lparr>db := db w\<lparr>t_epoch_scores := snd (stored_epoch rt w candidate t)\<rparr>\<rparr>)
          (epoch_of_row (fst (stored_epoch rt w candidate t))))))\<rparr>, w')"
    "t_epoch_scores (db w') = snd (stored_epoch rt w candidate t)"
    "t_chain_commitments (db w') = snd (stored_commitment rt (w\<lparr>db := db w\<lparr>t_epoch_scores := snd (stored_epoch rt w candidate t)\<rparr>\<rparr>)
          (epoch_of_row (fst (stored_epoch rt w candidate t))))"
    using database_commitment_run[OF assms(1,2), of rt decision source] by blast
  with q show ?thesis by (simp add: chain_tables_def worker_commitment_of_row_def commitment_of_row_def)
qed

subsection \<open>Repeated deliveries\<close>

text \<open>The context of the agents depends on the evidence and the providers alone.\<close>

lemma tools_read:
  assumes "t_evidence_events t = t_evidence_events t'" "t_providers t = t_providers t'"
  shows "collectAgentToolContext al t c ps = collectAgentToolContext al t' c ps"
proof -
  have "getTelemetryWindow al t = getTelemetryWindow al t'" "getHistoricalBaseline al t = getHistoricalBaseline al t'"
    "getConflictingReports al t = getConflictingReports al t'" "getProviderMetadata al t = getProviderMetadata al t'"
    using assms by (simp_all add: getTelemetryWindow_def getHistoricalBaseline_def getConflictingReports_def
        getProviderMetadata_def fun_eq_iff)
  then show ?thesis by (simp add: collectAgentToolContext_def)
qed

lemma sql_upsert_again:
  assumes "key r' = key r" "\<And>y. key (upd y) = key y" "\<And>y. upd (upd y) = upd y" "upd r = r"
  shows "sql_upsert key upd r' (snd (sql_upsert key upd r rows)) = sql_upsert key upd r rows"
proof (cases "sql_find key rows (key r)")
  case None
  then have "key r \<notin> key ` set rows" by (simp add: sql_find_None)
  then have "map (\<lambda>y. if key y = key r then upd y else y) rows = rows" by (intro map_idI) (metis imageI)
  with None assms show ?thesis by (simp add: sql_upsert_def sql_find_append sql_find_one)
next
  case (Some x)
  have "sql_find key (map (\<lambda>y. if key y = key r then upd y else y) rows) (key r) = Some (upd x)"
    using Some assms(2) by (subst sql_find_map_key) (auto dest: sql_find_Some)
  then show ?thesis using Some assms by (auto simp: sql_upsert_def)
qed

definition same_decision :: "agent_decision \<Rightarrow> agent_decision \<Rightarrow> bool" where
  "same_decision d d' \<longleftrightarrow> d' = d\<lparr>ad_id := ad_id d', ad_createdAt := ad_createdAt d'\<rparr>"

lemma stored_decision_again:
  assumes "same_decision d d'"
  shows "stored_decision d' n' (snd (stored_decision d n rows)) = stored_decision d n rows"
proof -
  have "ad_candidateEventId d' = ad_candidateEventId d \<and> ad_agentName d' = ad_agentName d \<and> ad_confidence d' = ad_confidence d \<and>
    ad_decision d' = ad_decision d \<and> ad_hypothesis d' = ad_hypothesis d \<and>
    ad_supportingEvidenceIds d' = ad_supportingEvidenceIds d \<and> ad_notificationDraft d' = ad_notificationDraft d \<and>
    ad_reasoningTrace d' = ad_reasoningTrace d"
    using assms unfolding same_decision_def by (cases d, cases d') simp
  then show ?thesis unfolding stored_decision_def
    by (simp only:) (rule sql_upsert_again, simp_all add: decision_key_def)
qed

lemma same_decision_result: "same_decision (agentDecisionFromResult u n job r) (agentDecisionFromResult u' n' job r)"
  by (cases r) (simp_all add: same_decision_def agentDecisionFromResult_def Let_def)

lemma database_score_again:
  assumes "t_candidate_events (db w') = t_candidate_events (db w)" "t_agent_decisions (db w') = t_agent_decisions (db w)"
  shows "es_id (database_score rt w' c t) = es_id (database_score rt w c t)"
    "es_uptimeBps (database_score rt w' c t) = es_uptimeBps (database_score rt w c t)"
    "es_evidenceHash (database_score rt w' c t) = es_evidenceHash (database_score rt w c t)"
  using assms by (simp_all add: database_score_def epochScoreForApprovedCandidates_def approved_rows_def)

lemma stored_epoch_again:
  assumes "t_candidate_events (db w') = t_candidate_events (db w)" "t_agent_decisions (db w') = t_agent_decisions (db w)"
    and "t_epoch_scores (db w') = snd (stored_epoch rt w c t)"
  shows "stored_epoch rt w' c t = stored_epoch rt w c t"
  using assms(3) unfolding stored_epoch_def Let_def database_score_again[OF assms(1,2)]
  by (simp only:) (rule sql_upsert_again, simp_all add: epoch_key_def)

lemma stored_commitment_again:
  assumes "t_chain_commitments (db w') = snd (stored_commitment rt w s)"
  shows "stored_commitment rt w' s = stored_commitment rt w s"
  using assms unfolding stored_commitment_def Let_def
  by (simp only:) (rule sql_upsert_again, simp_all)

text \<open>What a persisted job leaves in the tables of decisions, scores and commitments.\<close>

definition job_in_db :: "agent_review_job \<Rightarrow> int \<Rightarrow> tables \<Rightarrow> bool" where
  "job_in_db job t tb \<longleftrightarrow> date_parse (ca_windowEnd (jb_candidate job)) = Some t \<and> date_range t \<and>
     (\<exists>c \<in> set (t_candidate_events tb). cr_id c = ca_id (jb_candidate job) \<and> cr_zone_id c = ca_zoneId (jb_candidate job) \<and>
       cr_window_end c = t)"

definition review_tables :: "tables \<Rightarrow> decision_row list \<times> epoch_row list \<times> commitment_row list" where
  "review_tables tb = (t_agent_decisions tb, t_epoch_scores tb, t_chain_commitments tb)"

definition approves :: "orchestration_result \<Rightarrow> bool" where
  "approves r \<longleftrightarrow> (case r of AgentDecided a v \<Rightarrow> vf_decision v = Approve | AgentEscalated reason \<Rightarrow> False)"

lemma approves_decision: "ad_decision (agentDecisionFromResult u n job r) = Approve \<longleftrightarrow> approves r"
  by (simp add: agent_decision_of approves_def split: orchestration_result.split)

lemma stored_decision_member:
  "\<exists>d' \<in> set (snd (stored_decision d n rows)). dr_candidate_event_id d' = ad_candidateEventId d \<and> dr_decision d' = ad_decision d"
proof -
  have "fst (stored_decision d n rows) \<in> set (snd (stored_decision d n rows))"
    unfolding stored_decision_def by (rule sql_upsert_fst) simp
  moreover have "dr_candidate_event_id (fst (stored_decision d n rows)) = ad_candidateEventId d"
    "dr_decision (fst (stored_decision d n rows)) = ad_decision d"
    by (auto simp: stored_decision_def sql_upsert_def decision_key_def dest: sql_find_Some split: option.split)
  ultimately show ?thesis by blast
qed

lemma persisted_tables:
  fixes rt :: runtime and w :: world and job :: agent_review_job and r :: orchestration_result
  assumes "isDatabaseConfigured rt" "date_range (w_now w)" "job_in_db job t (db w)"
  defines "d \<equiv> agentDecisionFromResult (rt_uuid rt (w_uuids w)) (w_now w) job r"
  defines "wd \<equiv> after_decision rt job r w"
  defines "er \<equiv> stored_epoch rt wd (jb_candidate job) t"
  defines "cr \<equiv> stored_commitment rt (wd\<lparr>db := db wd\<lparr>t_epoch_scores := snd er\<rparr>\<rparr>) (epoch_of_row (fst er))"
  shows "review_tables (db (snd (persistOrchestrationResult rt job r w))) =
      (snd (stored_decision d (w_now w) (t_agent_decisions (db w))),
       if approves r \<and> chain_writes_allowed job then (snd er, snd cr) else (t_epoch_scores (db w), t_chain_commitments (db w)))"
    "t_evidence_events (db (snd (persistOrchestrationResult rt job r w))) = t_evidence_events (db w)"
    "t_providers (db (snd (persistOrchestrationResult rt job r w))) = t_providers (db w)"
    "t_candidate_events (db (snd (persistOrchestrationResult rt job r w))) = t_candidate_events (db w)"
    "\<exists>out. fst (persistOrchestrationResult rt job r w) = Inr out"
proof -
  obtain c where c: "c \<in> set (t_candidate_events (db w))" "cr_id c = ca_id (jb_candidate job)"
    "cr_zone_id c = ca_zoneId (jb_candidate job)" "cr_window_end c = t"
    and t: "date_parse (ca_windowEnd (jb_candidate job)) = Some t" "date_range t"
    using assms(3) unfolding job_in_db_def by blast
  have run: "persistOrchestrationResult rt job r w =
    (if \<not> approves r then (Inr (Persisted d None None), wd)
     else if \<not> chain_writes_allowed job
     then (Inr (Persisted d None None), snd (worker_auditSimulationProofPreview rt job d wd))
     else bindS (queueApprovedDecisionForChain rt (jb_candidate job)) (\<lambda>(epochScore, commitment).
         bindS (worker_auditChainQueued rt epochScore commitment) (\<lambda>_.
         returnS (Persisted d (Some epochScore) (Some commitment)))) wd)"
    using persist_run[OF assms(1,2), of job r] c unfolding d_def wd_def approves_decision by blast
  have queue: "queueApprovedDecisionForChain rt (jb_candidate job) wd =
      (Inr (epoch_of_row (fst er), worker_commitment_of_row (fst cr)),
       wd\<lparr>db := db wd\<lparr>t_epoch_scores := snd er, t_chain_commitments := snd cr\<rparr>\<rparr>)" if "approves r"
  proof -
    have "ad_decision d = Approve" using that by (simp add: d_def approves_decision)
    then obtain d' where d': "d' \<in> set (t_agent_decisions (db wd))" "dr_candidate_event_id d' = ca_id (jb_candidate job)"
      "dr_decision d' = Approve"
      using stored_decision_member[of d "w_now w" "t_agent_decisions (db w)"] by (auto simp: wd_def d_def)
    have "approved_rows (db wd) (ca_zoneId (jb_candidate job)) (floor_epoch_ms t) (floor_epoch_ms t + EPOCH_DURATION_MS) \<noteq> []"
      using c d' by (intro approved_rows_nonempty[of c _ _ _ d']) (simp_all add: wd_def)
    from queue_run[OF t _ this, of rt] assms(2) show ?thesis by (simp add: er_def cr_def wd_def)
  qed
  have sel: "review_tables (db wd) = (snd (stored_decision d (w_now w) (t_agent_decisions (db w))), t_epoch_scores (db w), t_chain_commitments (db w))"
    by (simp add: review_tables_def wd_def d_def)
  let ?goal = "\<lambda>p. review_tables (db (snd p)) =
      (snd (stored_decision d (w_now w) (t_agent_decisions (db w))),
       if approves r \<and> chain_writes_allowed job then (snd er, snd cr) else (t_epoch_scores (db w), t_chain_commitments (db w))) \<and>
    t_evidence_events (db (snd p)) = t_evidence_events (db w) \<and> t_providers (db (snd p)) = t_providers (db w) \<and>
    t_candidate_events (db (snd p)) = t_candidate_events (db w) \<and> (\<exists>out. fst p = Inr out)"
  have "?goal (persistOrchestrationResult rt job r w)"
  proof (cases "approves r \<and> chain_writes_allowed job")
    case True
    then have "persistOrchestrationResult rt job r w =
      bindS (worker_auditChainQueued rt (epoch_of_row (fst er)) (worker_commitment_of_row (fst cr))) (\<lambda>_.
         returnS (Persisted d (Some (epoch_of_row (fst er))) (Some (worker_commitment_of_row (fst cr)))))
        (wd\<lparr>db := db wd\<lparr>t_epoch_scores := snd er, t_chain_commitments := snd cr\<rparr>\<rparr>)"
      using run queue by (simp add: bindS_def[of "queueApprovedDecisionForChain _ _"])
    then show ?thesis using True sel
      by (simp add: worker_audits bindS_def insert_audit_run review_tables_def) (simp add: wd_def)
  next
    case False
    then show ?thesis using run sel
      by (auto simp: worker_audits insert_audit_run review_tables_def) (simp_all add: wd_def)
  qed
  then show "review_tables (db (snd (persistOrchestrationResult rt job r w))) =
      (snd (stored_decision d (w_now w) (t_agent_decisions (db w))),
       if approves r \<and> chain_writes_allowed job then (snd er, snd cr) else (t_epoch_scores (db w), t_chain_commitments (db w)))"
    "t_evidence_events (db (snd (persistOrchestrationResult rt job r w))) = t_evidence_events (db w)"
    "t_providers (db (snd (persistOrchestrationResult rt job r w))) = t_providers (db w)"
    "t_candidate_events (db (snd (persistOrchestrationResult rt job r w))) = t_candidate_events (db w)"
    "\<exists>out. fst (persistOrchestrationResult rt job r w) = Inr out"
    by blast+
qed

lemma review_result:
  "snd (review_candidate rt al llm config job w) = snd (persistOrchestrationResult rt job
     (orchestrateCandidateReview al llm job (lc_analysis config) (lc_verification config) (readOnlyToolQueryFromEnv rt w)) w)"
  by (auto simp: review_candidate_def bindS_def split: prod.split sum.split)

lemma orchestrate_tables:
  assumes "t_evidence_events t = t_evidence_events t'" "t_providers t = t_providers t'"
  shows "orchestrateCandidateReview al llm job ao vo (Some t) = orchestrateCandidateReview al llm job ao vo (Some t')"
  using tools_read[OF assms] by (simp add: orchestrateCandidateReview_def run_agents_def)

definition worker_tables ::
  "tables \<Rightarrow> (decision_row list \<times> epoch_row list \<times> commitment_row list) \<times> candidate_row list \<times> evidence_row list \<times> provider_row list" where
  "worker_tables tb = (review_tables tb, t_candidate_events tb, t_evidence_events tb, t_providers tb)"

text \<open>C38. The queue may deliver a job again: when nobody wrote decisions, scores, commitments, candidates, evidence or
  providers between the two deliveries, a model that answers the same questions in the same way leads, at whatever later
  time, to the same decisions, scores and commitments as the first delivery.\<close>

theorem redelivery_changes_nothing:
  assumes "isDatabaseConfigured rt" "date_range (w_now w)" "job_in_db job t (db w)"
    and "w1 = snd (review_candidate rt al llm config job w)"
    and "worker_tables (db w2) = worker_tables (db w1)" "date_range (w_now w2)"
  shows "review_tables (db (snd (review_candidate rt al llm config job w2))) = review_tables (db w1)"
proof -
  note same = assms(5)[unfolded worker_tables_def prod.inject review_tables_def]
  define r where "r = orchestrateCandidateReview al llm job (lc_analysis config) (lc_verification config) (Some (db w))"
  have w1: "w1 = snd (persistOrchestrationResult rt job r w)"
    using assms(1,4) by (simp add: review_result r_def readOnlyToolQueryFromEnv_def)
  note first = persisted_tables[OF assms(1-3), of r, folded w1]
  have "orchestrateCandidateReview al llm job (lc_analysis config) (lc_verification config) (Some (db w2)) = r"
    unfolding r_def using first(2,3) same by (intro orchestrate_tables) simp_all
  then have again: "snd (review_candidate rt al llm config job w2) = snd (persistOrchestrationResult rt job r w2)"
    using assms(1) by (simp add: review_result readOnlyToolQueryFromEnv_def)
  have "job_in_db job t (db w2)" using assms(3) same first(4) by (simp add: job_in_db_def)
  note second = persisted_tables[OF assms(1,6) this, of r]
  let ?d = "\<lambda>w. agentDecisionFromResult (rt_uuid rt (w_uuids w)) (w_now w) job r"
  let ?e = "\<lambda>w. stored_epoch rt (after_decision rt job r w) (jb_candidate job) t"
  have dec: "t_agent_decisions (db w1) = snd (stored_decision (?d w) (w_now w) (t_agent_decisions (db w)))"
    using first(1) by (simp add: review_tables_def)
  have "stored_decision (?d w2) (w_now w2) (t_agent_decisions (db w2)) = stored_decision (?d w) (w_now w) (t_agent_decisions (db w))"
    using same unfolding dec by (metis stored_decision_again same_decision_result dec)
  with dec have decisions: "snd (stored_decision (?d w2) (w_now w2) (t_agent_decisions (db w2))) = t_agent_decisions (db w1)" by simp
  show ?thesis
  proof (cases "approves r \<and> chain_writes_allowed job")
    case False
    then show ?thesis unfolding again second(1) decisions using first(1) same by (auto simp: review_tables_def)
  next
    case True
    have e: "t_epoch_scores (db w1) = snd (?e w)" using first(1) True by (simp add: review_tables_def)
    have eqs: "?e w2 = ?e w"
      using dec decisions first(4) same e by (intro stored_epoch_again) simp_all
    have "stored_commitment rt (after_decision rt job r w2\<lparr>db := db (after_decision rt job r w2)\<lparr>t_epoch_scores := snd (?e w2)\<rparr>\<rparr>)
        (epoch_of_row (fst (?e w2))) =
      stored_commitment rt (after_decision rt job r w\<lparr>db := db (after_decision rt job r w)\<lparr>t_epoch_scores := snd (?e w)\<rparr>\<rparr>)
        (epoch_of_row (fst (?e w)))"
      unfolding eqs using first(1) True same by (intro stored_commitment_again) (simp add: review_tables_def)
    then show ?thesis unfolding again second(1) decisions using first(1) True eqs by (simp add: review_tables_def)
  qed
qed


text \<open>The audit trail of the second delivery names a decision that is not in the table.\<close>

lemma redelivered_decision_unknown:
  fixes rt :: runtime and w :: world and job :: agent_review_job and r :: orchestration_result
  assumes "isDatabaseConfigured rt" "date_range (w_now w)" "job_in_db job t (db w)"
    and "old \<in> set (t_agent_decisions (db w))" "decision_key old = (ca_id (jb_candidate job), AI_AGENT_NAME)"
    and "\<forall>row \<in> set (t_agent_decisions (db w)). dr_id row \<noteq> rt_uuid rt (w_uuids w)"
  defines "d \<equiv> agentDecisionFromResult (rt_uuid rt (w_uuids w)) (w_now w) job r"
  shows "\<forall>row \<in> set (t_agent_decisions (db (snd (persistOrchestrationResult rt job r w)))). dr_id row \<noteq> ad_id d"
    "ar_after (last (t_audit_logs (db (after_decision rt job r w)))) = Some
       [(''decision'', json_of_decision d), (''candidate'', candidate_summary (jb_candidate job)),
        (''evidenceEventIds'', json_strings (map ev_id (jb_evidence job)))]"
proof -
  have "sql_find decision_key (t_agent_decisions (db w)) (ad_candidateEventId d, ad_agentName d) \<noteq> None"
    using assms(4,5) sql_find_None[of decision_key "t_agent_decisions (db w)"] by (force simp: d_def)
  then have "\<forall>row \<in> set (snd (stored_decision d (w_now w) (t_agent_decisions (db w)))). dr_id row \<noteq> rt_uuid rt (w_uuids w)"
    using assms(6) by (auto simp: stored_decision_def sql_upsert_def decision_key_def split: option.split)
  then show "\<forall>row \<in> set (t_agent_decisions (db (snd (persistOrchestrationResult rt job r w)))). dr_id row \<noteq> ad_id d"
    using persisted_tables(1)[OF assms(1-3), of r] by (simp add: review_tables_def d_def)
  show "ar_after (last (t_audit_logs (db (after_decision rt job r w)))) = Some
       [(''decision'', json_of_decision d), (''candidate'', candidate_summary (jb_candidate job)),
        (''evidenceEventIds'', json_strings (map ev_id (jb_evidence job)))]"
    by (simp add: after_decision_def worker_audits insert_audit_run Let_def d_def)
qed

end
