(* ===== verification/Worker_Cases.thy ===== *)
theory Worker_Cases imports Worker begin

section \<open>Failures, double approvals and witnesses of the worker\<close>

text \<open>
  A model that does not answer, candidates that two agents approve, and the concrete worker, job and
  model of the witnesses. The replies of the sample model are texts that the model's parser reads.
\<close>

subsection \<open>Failures of the model\<close>

text \<open>The ways in which a reply of the model cannot be used, each with the reason the worker reports: the request
  throws, the status is an error, the body is no JSON or no completion, its content is no JSON or does not satisfy
  the schema of the agent.\<close>

definition ok_status :: "nat \<Rightarrow> bool" where
  "ok_status status \<longleftrightarrow> 200 \<le> status \<and> status \<le> 299"

definition status_error :: "nat \<Rightarrow> js_error" where
  "status_error status = plain_error (''LLM request failed with '' @ nat_string status)"

inductive reply_fails :: "agent_lib \<Rightarrow> string \<Rightarrow> (json \<Rightarrow> 'a option) \<Rightarrow> llm_reply \<Rightarrow> js_error \<Rightarrow> bool"
  for al :: agent_lib and name :: string and schema :: "json \<Rightarrow> 'a option" where
  request_throws: "reply_fails al name schema (LlmFails e) e"
| error_status: "\<not> ok_status status \<Longrightarrow> reply_fails al name schema (LlmReply status body) (status_error status)"
| body_unreadable: "ok_status status \<Longrightarrow> json_parse body = None \<Longrightarrow>
    reply_fails al name schema (LlmReply status body) (al_zod al ''JSON'')"
| no_completion: "ok_status status \<Longrightarrow> json_parse body = Some reply \<Longrightarrow> chatCompletionSchema reply = None \<Longrightarrow>
    reply_fails al name schema (LlmReply status body) (al_zod al ''chatCompletion'')"
| no_choice: "ok_status status \<Longrightarrow> json_parse body = Some reply \<Longrightarrow> chatCompletionSchema reply = Some [] \<Longrightarrow>
    reply_fails al name schema (LlmReply status body) (plain_error ''LLM response did not include a completion choice'')"
| content_unreadable: "ok_status status \<Longrightarrow> json_parse body = Some reply \<Longrightarrow>
    chatCompletionSchema reply = Some (content # others) \<Longrightarrow> json_parse content = None \<Longrightarrow>
    reply_fails al name schema (LlmReply status body) (al_zod al ''JSON'')"
| answer_invalid: "ok_status status \<Longrightarrow> json_parse body = Some reply \<Longrightarrow>
    chatCompletionSchema reply = Some (content # others) \<Longrightarrow> json_parse content = Some answer \<Longrightarrow> schema answer = None \<Longrightarrow>
    reply_fails al name schema (LlmReply status body) (al_zod al name)"

lemma completeJson_fails:
  "reply_fails al name schema (llm (chat_request options messages)) e \<longleftrightarrow>
     completeJson al llm options messages name schema = Inl e"
proof
  assume "reply_fails al name schema (llm (chat_request options messages)) e"
  then show "completeJson al llm options messages name schema = Inl e"
    by cases (simp_all add: completeJson_def or_throw_def ok_status_def status_error_def)
next
  assume "completeJson al llm options messages name schema = Inl e"
  then show "reply_fails al name schema (llm (chat_request options messages)) e"
    unfolding completeJson_def or_throw_def ok_status_def[symmetric] status_error_def[symmetric]
    by (auto split: llm_reply.splits if_splits option.splits list.splits intro: reply_fails.intros)
qed

text \<open>A review fails when its tools throw, when the reply to the analysis agent cannot be used, or when that of the
  verification agent cannot be used.\<close>

definition review_fails :: "agent_lib \<Rightarrow> llm \<Rightarrow> llm_config \<Rightarrow> agent_review_job \<Rightarrow> tables \<Rightarrow> js_error \<Rightarrow> bool" where
  "review_fails al llm config job tb e \<longleftrightarrow>
     (case collectAgentToolContext al tb (jb_candidate job) (jb_providers job) of
        Inl e' \<Rightarrow> e = e'
      | Inr tools \<Rightarrow>
          let cx = \<lparr>ax_job = job, ax_toolContext = Some tools\<rparr> in
          reply_fails al ''anomalyAnalysisOutput'' (anomalyAnalysisOutputSchema (al_formats al))
            (llm (chat_request (lc_analysis config) (analysis_messages cx))) e \<or>
          (\<exists>analysis. runAnomalyAnalysisAgent al llm (lc_analysis config) cx = Inr analysis \<and>
             reply_fails al ''verificationOutput'' verificationOutputSchema
               (llm (chat_request (lc_verification config) (verification_messages cx analysis))) e))"

lemmas agent_runs = runAnomalyAnalysisAgent_def runVerificationAgent_def

lemma failing_review_escalates:
  assumes "review_fails al llm config job tb e"
  shows "orchestrateCandidateReview al llm job (lc_analysis config) (lc_verification config) (Some tb) = AgentEscalated (message e)"
  using assms
  by (auto simp: review_fails_def orchestrateCandidateReview_def run_agents_def agent_runs completeJson_fails Let_def split: sum.splits)

lemma stored_decision_row:
  "\<exists>row \<in> set (snd (stored_decision d n rows)). decision_key row = (ad_candidateEventId d, ad_agentName d) \<and>
     dr_decision row = ad_decision d \<and> dr_hypothesis row = ad_hypothesis d"
proof -
  have "fst (stored_decision d n rows) \<in> set (snd (stored_decision d n rows))"
    unfolding stored_decision_def by (rule sql_upsert_fst) simp
  moreover have "decision_key (fst (stored_decision d n rows)) = (ad_candidateEventId d, ad_agentName d)"
    "dr_decision (fst (stored_decision d n rows)) = ad_decision d" "dr_hypothesis (fst (stored_decision d n rows)) = ad_hypothesis d"
    by (auto simp: stored_decision_def sql_upsert_def decision_key_def dest: sql_find_Some split: option.split)
  ultimately show ?thesis by blast
qed

text \<open>C8. A model that fails never blocks a candidate: when the tools throw, or a reply to the first or to the
  second agent cannot be used (no answer, an error status, no JSON, no completion, content that is no JSON or does not
  satisfy the agent's schema), the job ends, the candidate's stored decision of the worker is an escalation whose
  hypothesis carries the message of exactly that failure, and no score or commitment changes.\<close>

theorem failing_model_escalates:
  assumes "isDatabaseConfigured rt" "date_range (w_now w)" "job_in_db job t (db w)" "review_fails al llm config job (db w) e"
  shows "\<exists>d w'. review_candidate rt al llm config job w = (Inr (AgentEscalated (message e), Persisted d None None), w') \<and>
    chain_tables (db w') = chain_tables (db w) \<and>
    (\<exists>row \<in> set (t_agent_decisions (db w')). decision_key row = (ca_id (jb_candidate job), AI_AGENT_NAME) \<and>
       dr_decision row = Escalate \<and> dr_hypothesis row = ''Agent worker escalated candidate: '' @ message e)"
proof -
  have r: "orchestrateCandidateReview al llm job (lc_analysis config) (lc_verification config)
      (readOnlyToolQueryFromEnv rt w) = AgentEscalated (message e)"
    using failing_review_escalates[OF assms(4)] assms(1) by (simp add: readOnlyToolQueryFromEnv_def)
  define d where "d = agentDecisionFromResult (rt_uuid rt (w_uuids w)) (w_now w) job (AgentEscalated (message e))"
  have d: "ad_decision d = Escalate" "ad_hypothesis d = ''Agent worker escalated candidate: '' @ message e"
    "ad_candidateEventId d = ca_id (jb_candidate job)" "ad_agentName d = AI_AGENT_NAME"
    by (simp_all add: d_def) (simp_all add: agentDecisionFromResult_def Let_def)
  have "\<exists>c \<in> set (t_candidate_events (db w)). cr_id c = ca_id (jb_candidate job)"
    using assms(3) by (auto simp: job_in_db_def)
  from persist_run[OF assms(1,2) this, of "AgentEscalated (message e)"] d(1)
  have p: "persistOrchestrationResult rt job (AgentEscalated (message e)) w =
      (Inr (Persisted d None None), after_decision rt job (AgentEscalated (message e)) w)" by (simp add: d_def)
  have "review_candidate rt al llm config job w =
      (Inr (AgentEscalated (message e), Persisted d None None), after_decision rt job (AgentEscalated (message e)) w)"
    by (simp add: review_candidate_def r bindS_def[of "persistOrchestrationResult _ _ _"] p)
  moreover have "chain_tables (db (after_decision rt job (AgentEscalated (message e)) w)) = chain_tables (db w)"
    by (simp add: chain_tables_def)
  moreover have "t_agent_decisions (db (after_decision rt job (AgentEscalated (message e)) w)) =
      snd (stored_decision d (w_now w) (t_agent_decisions (db w)))" by (simp add: d_def)
  ultimately show ?thesis using stored_decision_row[of d "w_now w" "t_agent_decisions (db w)"] unfolding d by metis
qed

subsection \<open>Two approving agents\<close>

text \<open>An approved candidate is selected once for each decision that approves it.\<close>

definition hour_candidates :: "tables \<Rightarrow> string \<Rightarrow> int \<Rightarrow> int \<Rightarrow> candidate_row list" where
  "hour_candidates tb zoneId start until =
     filter (\<lambda>c. cr_zone_id c = zoneId \<and> start \<le> cr_window_end c \<and> cr_window_end c < until) (t_candidate_events tb)"

lemma length_filter_copies:
  "length (filter P (concat (map (\<lambda>c. map (\<lambda>d. c) (g c)) xs))) = (\<Sum>c \<leftarrow> filter P xs. length (g c))"
proof (induction xs)
  case (Cons x xs)
  have "filter P (map (\<lambda>d. x) ds) = (if P x then map (\<lambda>d. x) ds else [])" for ds :: "'c list"
    by (induction ds) auto
  with Cons show ?case by simp
qed simp

lemma length_filter_js_sort: "length (filter P (js_sort cmp xs)) = length (filter P xs)"
  by (metis mset_filter mset_js_sort size_mset)

lemma filter_approved_rows:
  "length (filter P (approved_rows tb zoneId start until)) =
     (\<Sum>c \<leftarrow> filter P (hour_candidates tb zoneId start until). approvals tb c)"
  unfolding approved_rows_def hour_candidates_def approvals_def length_filter_js_sort by (rule length_filter_copies)

text \<open>C39. The uptime that the API and the worker compute is a share of approvals, not of candidates: each candidate of
  the hour counts as often as it has approving decisions. A candidate that the worker and a reviewer both
  approve weighs twice.\<close>

theorem uptime_weighs_approvals:
  "uptime_bps (map candidate_of_row (approved_rows tb zoneId start until)) =
     (let hour = hour_candidates tb zoneId start until;
          up = (\<Sum>c \<leftarrow> filter (\<lambda>c. cr_status c = Restored) hour. approvals tb c); total = (\<Sum>c \<leftarrow> hour. approvals tb c)
      in if total = 0 then 0 else math_round (fmul (fdiv (of_nat up) (of_nat total)) 10000))"
proof -
  have "length (approved_rows tb zoneId start until) = (\<Sum>c \<leftarrow> hour_candidates tb zoneId start until. approvals tb c)"
    using filter_approved_rows[of "\<lambda>c. True"] by simp
  moreover have "filter (\<lambda>item. ca_status item = Restored) (map candidate_of_row rows) =
      map candidate_of_row (filter (\<lambda>c. cr_status c = Restored) rows)" for rows
    by (simp add: filter_map o_def candidate_of_row_def)
  ultimately show ?thesis
    unfolding uptime_bps_def Let_def using filter_approved_rows[of "\<lambda>c. cr_status c = Restored"] by simp
qed

subsection \<open>Witnesses\<close>

definition sample_job :: agent_review_job where
  "sample_job = \<lparr>jb_candidate = sample_candidate (7/10), jb_evidence = [], jb_providers = [], jb_simulation = None\<rparr>"

definition sample_formats :: zod_formats where
  "sample_formats = \<lparr>fmt_uuid = (\<lambda>s. True), fmt_datetime = (\<lambda>s. True), fmt_url = (\<lambda>s. True)\<rparr>"

definition sample_lib :: agent_lib where
  "sample_lib = \<lparr>al_formats = sample_formats, al_zod = plain_error, al_avg = (\<lambda>vs. 0)\<rparr>"

definition sample_llm_config :: llm_config where "sample_llm_config = resolveLlmConfig (\<lambda>name. None)"

definition approval_answer :: json where
  "approval_answer = JObj [(''hypothesis'', JStr ''h''), (''confidence'', JNum 1), (''supportingEvidenceIds'', JArr []),
     (''decision'', JStr ''approve''), (''finalConfidence'', JNum 1), (''notificationDraft'', JStr ''n'')]"

definition completion_json :: "string \<Rightarrow> json" where
  "completion_json content = JObj [(''choices'', JArr [JObj [(''message'', JObj [(''content'', JStr content)])]])]"

definition approving_llm :: llm where
  "approving_llm q = LlmReply 200 (json_stringify (completion_json (json_stringify approval_answer)))"

lemma one_string: "number_string 1 = ''1''"
  by code_simp

lemma one_read: "number_of_string ''1'' = Some 1"
proof -
  have "trim ''1'' = ''1''" by (simp add: trim_def is_space_def ccode_def)
  moreover have "unsigned_decimal ''1'' = Some 1"
    by (simp add: unsigned_decimal_def is_digit_def digit_val_def ccode_def exponent_part_def pow10_def del: power_numeral)
  ultimately show ?thesis by (simp add: number_of_string_def lower_char_def ccode_def)
qed

lemma number_ok_one: "number_ok 1"
  by (simp add: number_ok_def one_string one_read number_char_def json_literal_def is_digit_def ccode_def)

lemma approval_answer_ok: "json_ok approval_answer" "json_ok (completion_json (json_stringify approval_answer))"
proof -
  show "json_ok approval_answer" by (simp add: approval_answer_def number_ok_one ccode_def)
  have "list_all (\<lambda>c. ccode c < 128) (json_stringify approval_answer)"
    by (simp add: approval_answer_def one_string ccode_def json_quote_def json_escape_char_def)
  then show "json_ok (completion_json (json_stringify approval_answer))" by (simp add: completion_json_def ccode_def)
qed

lemma approving_llm_answers:
  "completeJson al approving_llm options messages name schema = or_throw (al_zod al name) (schema approval_answer)"
proof -
  have "chatCompletionSchema (completion_json content) = Some [content]" for content
    by (simp add: completion_json_def chatCompletionSchema_def chatChoiceSchema_def json_member_def json_text_of_def)
  then show ?thesis
    by (simp add: completeJson_def approving_llm_def json_roundtrip approval_answer_ok or_throw_def)
qed

lemma sample_context: "\<exists>cx. collectAgentToolContext sample_lib (sample_tables c) (sample_candidate x) [] = Inr cx"
  by (simp add: collectAgentToolContext_def getTelemetryWindow_def getHistoricalBaseline_def getConflictingReports_def
      context_providers_def js_unique_def zod_parse_def pg_time_def Let_def sample_candidate_def sample_window_end_date
      sample_tables_def empty_tables_def sample_lib_def sample_formats_def telemetryWindowInputSchema_def
      telemetryWindowOutputSchema_def historicalBaselineInputSchema_def historicalBaselineOutputSchema_def
      conflictingReportsInputSchema_def conflictingReportsOutputSchema_def agentToolContextSchema_def rangeSchema_def
      uuidSchema_def isoDateTimeSchema_def pg_min_def pg_max_def groupReportsByStatus_def)

lemma approving_run:
  "orchestrateCandidateReview sample_lib approving_llm sample_job ao vo (Some (sample_tables c)) =
     AgentDecided \<lparr>aa_hypothesis = ''h'', aa_confidence = 1, aa_supportingEvidenceIds = []\<rparr>
       \<lparr>vf_decision = Approve, vf_finalConfidence = 1, vf_notificationDraft = ''n''\<rparr>"
proof -
  obtain cx where "collectAgentToolContext sample_lib (sample_tables c) (sample_candidate (7/10)) [] = Inr cx"
    using sample_context by blast
  moreover have "fl (17/20) \<le> 1" by (simp add: fl_eval)
  ultimately show ?thesis
    by (simp add: orchestrateCandidateReview_def run_agents_def sample_job_def runAnomalyAnalysisAgent_def runVerificationAgent_def
        approving_llm_answers or_throw_def anomalyAnalysisOutputSchema_def verificationOutputSchema_def approval_answer_def
        json_member_def json_text_of_def json_num_of_def parse_decision_def)
qed

lemma sample_job_in_db: "job_in_db sample_job sample_now (db (sample_world c))"
  by (auto simp: job_in_db_def sample_job_def sample_world_def sample_tables_def sample_row_def sample_candidate_def
      empty_world_def sample_window_end_date)

lemma sample_world_now [simp]: "w_now (sample_world c) = sample_now"
  by (simp add: sample_world_def empty_world_def)

lemma approving_review_commits:
  "chain_tables (db (snd (review_candidate database_rt sample_lib approving_llm sample_llm_config sample_job (sample_world c))))
     \<noteq> chain_tables (db (sample_world c))"
proof -
  let ?r = "AgentDecided \<lparr>aa_hypothesis = ''h'', aa_confidence = 1, aa_supportingEvidenceIds = []\<rparr>
       \<lparr>vf_decision = Approve, vf_finalConfidence = 1, vf_notificationDraft = ''n''\<rparr>"
  have r: "snd (review_candidate database_rt sample_lib approving_llm sample_llm_config sample_job (sample_world c)) =
      snd (persistOrchestrationResult database_rt sample_job ?r (sample_world c))"
    by (simp add: review_result readOnlyToolQueryFromEnv_def approving_run sample_world_def)
  have "date_range (w_now (sample_world c))" by simp
  note t = persisted_tables(1)[OF database_rt_db this sample_job_in_db, of ?r]
  have "approves ?r" "chain_writes_allowed sample_job" by (simp_all add: approves_def chain_writes_allowed_def sample_job_def)
  with t have "t_epoch_scores (db (snd (persistOrchestrationResult database_rt sample_job ?r (sample_world c)))) =
      snd (stored_epoch database_rt (after_decision database_rt sample_job ?r (sample_world c)) (jb_candidate sample_job) sample_now)"
    by (simp add: review_tables_def)
  also have "\<dots> \<noteq> t_epoch_scores (db (sample_world c))"
    by (simp add: stored_epoch_def Let_def sql_upsert_def sql_find_def sample_world_def sample_tables_def empty_tables_def)
  finally show ?thesis by (simp add: r chain_tables_def)
qed

theorem worker_commits_confident_approvals_witness:
  "\<exists>a v. orchestrateCandidateReview sample_lib approving_llm sample_job (lc_analysis sample_llm_config)
      (lc_verification sample_llm_config) (readOnlyToolQueryFromEnv database_rt (sample_world 0)) = AgentDecided a v \<and>
    vf_decision v = Approve \<and> fl (85/100) \<le> vf_finalConfidence v"
  using worker_commits_confident_approvals[OF approving_review_commits[of 0]] by blast

theorem redelivery_changes_nothing_witness:
  "review_tables (db (snd (review_candidate database_rt sample_lib approving_llm sample_llm_config sample_job
      ((snd (review_candidate database_rt sample_lib approving_llm sample_llm_config sample_job (sample_world 0)))\<lparr>w_now := sample_now\<rparr>)))) =
   review_tables (db (snd (review_candidate database_rt sample_lib approving_llm sample_llm_config sample_job (sample_world 0))))"
  by (rule redelivery_changes_nothing[OF database_rt_db _ sample_job_in_db refl]) simp_all

lemma nat_500: "nat_string 500 = ''500''"
  by code_simp

definition unsure_llm :: llm where
  "unsure_llm q = LlmReply 200 (json_stringify (completion_json ''unsure''))"

lemma unsure_fails: "reply_fails al name schema (unsure_llm q) (al_zod al ''JSON'')"
proof -
  have "json_ok (completion_json ''unsure'')" by (simp add: completion_json_def ccode_def)
  then have body: "json_parse (json_stringify (completion_json ''unsure'')) = Some (completion_json ''unsure'')"
    by (rule json_roundtrip)
  have "chatCompletionSchema (completion_json ''unsure'') = Some [''unsure'']"
    by (simp add: completion_json_def chatCompletionSchema_def chatChoiceSchema_def json_member_def json_text_of_def)
  moreover have "json_parse ''unsure'' = None" by code_simp
  ultimately show ?thesis
    unfolding unsure_llm_def using body by (intro reply_fails.content_unreadable) (simp_all add: ok_status_def)
qed

theorem failing_model_escalates_witness:
  "(\<exists>d w'. review_candidate database_rt sample_lib (\<lambda>q. LlmReply 500 []) sample_llm_config sample_job (sample_world 0) =
      (Inr (AgentEscalated ''LLM request failed with 500'', Persisted d None None), w')) \<and>
   (\<exists>d w'. review_candidate database_rt sample_lib unsure_llm sample_llm_config sample_job (sample_world 0) =
      (Inr (AgentEscalated ''JSON'', Persisted d None None), w'))"
proof -
  obtain cx where cx: "collectAgentToolContext sample_lib (sample_tables 0) (sample_candidate (7/10)) [] = Inr cx"
    using sample_context by blast
  have "message (status_error 500) = ''LLM request failed with 500''" "message (al_zod sample_lib ''JSON'') = ''JSON''"
    by (simp_all add: status_error_def plain_error_def nat_500 sample_lib_def)
  moreover have f: "review_fails sample_lib (\<lambda>q. LlmReply 500 []) sample_llm_config sample_job (db (sample_world 0)) (status_error 500)"
    "review_fails sample_lib unsure_llm sample_llm_config sample_job (db (sample_world 0)) (al_zod sample_lib ''JSON'')"
    using cx by (simp_all add: review_fails_def sample_job_def sample_world_def Let_def reply_fails.error_status ok_status_def unsure_fails)
  have now: "date_range (w_now (sample_world 0))" by simp
  note failing_model_escalates[OF database_rt_db now sample_job_in_db f(1)] failing_model_escalates[OF database_rt_db now sample_job_in_db f(2)]
  ultimately show ?thesis by (elim exE conjE) (simp only: , blast)
qed

definition approved_row :: decision_row where
  "approved_row = \<lparr>dr_id = ''d1'', dr_candidate_event_id = ''candidate-1'', dr_agent_name = AI_AGENT_NAME, dr_confidence = 1,
     dr_decision = Approve, dr_hypothesis = ''h'', dr_supporting_evidence_ids = [''e1''], dr_notification_draft = None,
     dr_reasoning_trace = [], dr_created_at = sample_now\<rparr>"

theorem worker_commits_like_pipeline_witness:
  "\<exists>score commitment. fst (queueApprovedDecisionForChain database_rt (sample_candidate 1)
      (sample_world 1\<lparr>db := sample_tables 1\<lparr>t_agent_decisions := [approved_row]\<rparr>\<rparr>)) = Inr (score, commitment)"
proof -
  let ?w = "sample_world 1\<lparr>db := sample_tables 1\<lparr>t_agent_decisions := [approved_row]\<rparr>\<rparr>"
  have "\<exists>score commitment result.
      fst (queueApprovedDecisionForChain database_rt (sample_candidate 1) ?w) = Inr (score, commitment) \<and>
      fst (database_commitment database_rt (sample_candidate 1) (mapDecisionRow approved_row) AgentAutoApproval ?w) = Inr result \<and>
      res_epochScore result = Some score \<and> map_option cc_id (res_commitment result) = Some (wc_id commitment) \<and>
      chain_tables (db (snd (queueApprovedDecisionForChain database_rt (sample_candidate 1) ?w))) =
        chain_tables (db (snd (database_commitment database_rt (sample_candidate 1) (mapDecisionRow approved_row) AgentAutoApproval ?w)))"
    by (rule worker_commits_like_pipeline[of _ sample_now _ "sample_row 1" approved_row])
      (simp_all add: sample_tables_def sample_row_def sample_candidate_def approved_row_def sample_window_end_date)
  then show ?thesis by blast
qed

end
