(* ===== verification/Worker_Reports.thy ===== *)
theory Worker_Reports imports Worker_Cases begin

section \<open>What the worker tells its agents, asks its model and reports of itself\<close>

text \<open>
  Conflicts among the reports of a candidate's window, the address of the model's router, the readiness
  of the worker.
\<close>

subsection \<open>Conflicting reports\<close>

definition report_groups :: "evidence_event list \<Rightarrow> (evidence_status, string list) jsmap" where
  "report_groups reports = fold (\<lambda>report groups. jm_set (ev_status report)
     (or_else (jm_get groups (ev_status report)) [] @ [ev_id report]) groups) reports []"

lemma report_groups_snoc:
  "report_groups (es @ [e]) = jm_set (ev_status e) (or_else (jm_get (report_groups es) (ev_status e)) [] @ [ev_id e]) (report_groups es)"
  by (simp add: report_groups_def)

lemma report_groups_ok:
  "jm_wf (report_groups es) \<and> (\<forall>s. jm_get (report_groups es) s =
     (if \<exists>e \<in> set es. ev_status e = s then Some (map ev_id (filter (\<lambda>e. ev_status e = s) es)) else None))"
proof (induction es rule: rev_induct)
  case (snoc e es)
  then show ?case by (auto simp: report_groups_snoc)
qed (simp add: report_groups_def)

lemma two_statuses:
  assumes "distinct xs" "\<forall>s \<in> set xs. s \<noteq> Unknown"
  shows "1 < length xs \<longleftrightarrow> GridUp \<in> set xs \<and> GridDown \<in> set xs"
proof
  assume len: "1 < length xs"
  then obtain a b ys where xs: "xs = a # b # ys" by (cases xs; cases "tl xs") auto
  then have "a \<noteq> b" "a \<noteq> Unknown" "b \<noteq> Unknown" using assms by auto
  then show "GridUp \<in> set xs \<and> GridDown \<in> set xs" using xs by (cases a; cases b) auto
next
  assume both: "GridUp \<in> set xs \<and> GridDown \<in> set xs"
  then have "card {GridUp, GridDown} \<le> card (set xs)" by (intro card_mono) auto
  then show "1 < length xs" using card_length[of xs] by simp
qed

text \<open>The reports that a request asks for: reporters' evidence of its zone, observed in its range.\<close>

definition window_row :: "conflicting_reports_input \<Rightarrow> evidence_row \<Rightarrow> bool" where
  "window_row input e \<longleftrightarrow> er_zone_id e = ci_zoneId input \<and> er_source e = ReporterProvider \<and>
     (\<exists>from until. date_parse (tr_start (ci_range input)) = Some from \<and> date_parse (tr_end (ci_range input)) = Some until \<and>
        from \<le> er_observed_at e \<and> er_observed_at e \<le> until)"

lemma map_res_statuses:
  assumes "map_res (mapEvidenceRow_tools al) rows = Inr reports"
  shows "map ev_status reports = map er_status rows" "map ev_id reports = map er_id rows"
proof -
  have "list_all2 (\<lambda>row r. ev_status r = er_status row \<and> ev_id r = er_id row) rows reports"
    using assms unfolding map_res_Inr
    by (rule list_all2_mono) (auto simp: mapEvidenceRow_tools_def zod_parse_def split: if_splits)
  then show "map ev_status reports = map er_status rows" "map ev_id reports = map er_id rows"
    by (induction rule: list_all2_induct) simp_all
qed

lemma conflict_of_reports:
  "1 < length (filter (\<lambda>g. 0 < cg_count g \<and> cg_status g \<noteq> Unknown) (groupReportsByStatus reports)) \<longleftrightarrow>
     (\<exists>e \<in> set reports. ev_status e = GridUp) \<and> (\<exists>e \<in> set reports. ev_status e = GridDown)"
proof -
  have "groupReportsByStatus reports = map (\<lambda>(s, ids). \<lparr>cg_status = s, cg_count = length ids, cg_evidenceEventIds = ids\<rparr>)
      (report_groups reports)"
    by (simp add: groupReportsByStatus_def report_groups_def)
  then have len: "length (filter (\<lambda>g. 0 < cg_count g \<and> cg_status g \<noteq> Unknown) (groupReportsByStatus reports)) =
      length (map fst (filter (\<lambda>(s, ids). ids \<noteq> [] \<and> s \<noteq> Unknown) (report_groups reports)))"
    by (simp add: filter_map o_def case_prod_unfold)
  have wf: "jm_wf (report_groups reports)" using report_groups_ok by blast
  let ?xs = "map fst (filter (\<lambda>(s, ids). ids \<noteq> [] \<and> s \<noteq> Unknown) (report_groups reports))"
  have "distinct ?xs" using wf by (simp add: distinct_map_filter)
  moreover have mem: "s \<in> set ?xs \<longleftrightarrow> s \<noteq> Unknown \<and> (\<exists>e \<in> set reports. ev_status e = s)" for s
  proof -
    have "s \<in> set ?xs \<longleftrightarrow> s \<noteq> Unknown \<and> (\<exists>ids. ids \<noteq> [] \<and> jm_get (report_groups reports) s = Some ids)"
      unfolding map_of_eq_Some_iff[OF wf] by (auto simp: image_iff)
    also have "\<dots> \<longleftrightarrow> s \<noteq> Unknown \<and> (\<exists>e \<in> set reports. ev_status e = s)"
      using report_groups_ok[of reports] by (auto simp: filter_empty_conv)
    finally show ?thesis .
  qed
  ultimately show ?thesis unfolding len by (subst two_statuses) auto
qed

text \<open>C35. The agents are told of a conflict exactly when, among the reports of reporters for the candidate's zone that
  were observed in its window, one says that the grid is up and one that it is down, and they are shown exactly these
  reports.\<close>

theorem conflict_reported_iff:
  assumes "getConflictingReports al tb input = Inr out"
  shows "(cf_hasConflict out \<longleftrightarrow> (\<exists>e \<in> set (t_evidence_events tb). window_row input e \<and> er_status e = GridUp) \<and>
      (\<exists>e \<in> set (t_evidence_events tb). window_row input e \<and> er_status e = GridDown)) \<and>
    mset (map ev_id (cf_reports out)) = mset (map er_id (filter (window_row input) (t_evidence_events tb)))"
proof -
  obtain start stop where range: "date_parse (tr_start (ci_range input)) = Some start" "date_parse (tr_end (ci_range input)) = Some stop"
    using assms by (auto simp: getConflictingReports_def zod_parse_def pg_time_def split: if_splits option.splits)
  let ?rows = "js_sort evidence_order (filter (window_row input) (t_evidence_events tb))"
  have rows: "?rows = js_sort evidence_order (filter (\<lambda>e. er_zone_id e = ci_zoneId input \<and> er_source e = ReporterProvider \<and>
      start \<le> er_observed_at e \<and> er_observed_at e \<le> stop) (t_evidence_events tb))"
    by (simp add: window_row_def[abs_def] range)
  obtain reports where reports: "map_res (mapEvidenceRow_tools al) ?rows = Inr reports"
    and out: "cf_reports out = reports" "cf_hasConflict out = (1 < length (filter (\<lambda>g. 0 < cg_count g \<and> cg_status g \<noteq> Unknown) (groupReportsByStatus reports)))"
    using assms unfolding rows
    by (auto simp: getConflictingReports_def zod_parse_def pg_time_def range Let_def bindR_def split: if_splits sum.splits)
  have "(\<exists>e \<in> set reports. ev_status e = s) \<longleftrightarrow> (\<exists>e \<in> set (t_evidence_events tb). window_row input e \<and> er_status e = s)" for s
  proof -
    have "(\<exists>e \<in> set reports. ev_status e = s) \<longleftrightarrow> s \<in> set (map ev_status reports)" by auto
    also have "\<dots> \<longleftrightarrow> (\<exists>e \<in> set (t_evidence_events tb). window_row input e \<and> er_status e = s)"
      unfolding map_res_statuses(1)[OF reports] by auto
    finally show ?thesis .
  qed
  then show ?thesis
    unfolding out conflict_of_reports map_res_statuses(2)[OF reports] by (simp add: image_mset.compositionality)
qed

subsection \<open>Where the model is asked\<close>

text \<open>A root of the router: no white space around it, no slash and no \<open>/v1\<close> at its end.\<close>

definition router_root :: "string \<Rightarrow> bool" where
  "router_root s \<longleftrightarrow> s \<noteq> [] \<and> \<not> is_space (hd s) \<and> \<not> is_space (last s) \<and> last s \<noteq> CHR ''/'' \<and> drop_v1 s = s"

lemma dropWhile_replicate: "P x \<Longrightarrow> dropWhile P (replicate n x @ ys) = dropWhile P ys"
  by (induction n) auto

lemma lower_v1: "to_lower ''/V1'' = ''/v1''" "to_lower ''/v1'' = ''/v1''"
  by code_simp+

lemma drop_slashes: "s \<noteq> [] \<Longrightarrow> last s \<noteq> CHR ''/'' \<Longrightarrow> drop_last_slashes (s @ replicate n CHR ''/'') = s"
proof -
  assume "s \<noteq> []" "last s \<noteq> CHR ''/''"
  then have "dropWhile (\<lambda>c. c = CHR ''/'') (rev s) = rev s" by (simp add: dropWhile_eq_self_iff hd_rev)
  then show ?thesis by (simp add: drop_last_slashes_def dropWhile_replicate)
qed

lemma trim_around:
  assumes "list_all is_space before" "list_all is_space after" "s \<noteq> []" "\<not> is_space (hd s)" "\<not> is_space (last s)"
  shows "trim (before @ s @ after) = s"
proof -
  have "dropWhile is_space (before @ s @ after) = s @ after"
    using assms by (subst dropWhile_append2) (auto simp: list_all_iff dropWhile_eq_self_iff)
  moreover have "dropWhile is_space (rev after @ rev s) = rev s"
    using assms by (subst dropWhile_append2) (auto simp: list_all_iff dropWhile_eq_self_iff hd_rev)
  ultimately show ?thesis by (simp add: trim_def)
qed

lemma normalized_root:
  assumes "router_root s" "version = [] \<or> version = ''/v1'' \<or> version = ''/V1''"
  shows "normalizeLlmBaseUrl (s @ version @ replicate n CHR ''/'') = s"
proof -
  let ?core = "s @ version @ replicate n CHR ''/''"
  have "last ?core = CHR ''/'' \<or> last ?core = CHR ''1'' \<or> last ?core = last s"
    using assms by (cases n) (auto simp: router_root_def)
  then have "\<not> is_space (last ?core)" using assms(1) by (auto simp: router_root_def is_space_def ccode_def)
  then have "trim ([] @ ?core @ []) = ?core" using assms(1) by (intro trim_around) (auto simp: router_root_def)
  moreover have "drop_last_slashes ((s @ version) @ replicate n CHR ''/'') = s @ version"
    using assms by (intro drop_slashes) (auto simp: router_root_def)
  moreover have "drop_v1 (s @ version) = s"
  proof (cases "version = []")
    case False
    with assms(2) have "length version = 3" "to_lower version = ''/v1''" using lower_v1 by auto
    then show ?thesis by (simp add: drop_v1_def)
  qed (use assms(1) in \<open>simp add: router_root_def\<close>)
  ultimately show ?thesis by (simp add: normalizeLlmBaseUrl_def)
qed

text \<open>However the root of the router is written in \<open>LLM_BASE_URL\<close>, with blanks around it, slashes at its end or the
  \<open>/v1\<close> of its documentation, both agents ask \<open>root/v1/chat/completions\<close>.\<close>

theorem router_url_normalised:
  assumes "router_root base" "version = [] \<or> version = ''/v1'' \<or> version = ''/V1''"
    and "list_all is_space before" "list_all is_space after"
    and "env ''LLM_BASE_URL'' = Some (before @ (base @ version @ replicate n CHR ''/'') @ after)"
  shows "lq_url (chat_request (lc_analysis (resolveLlmConfig env)) ms) = base @ ''/v1/chat/completions'' \<and>
    lq_url (chat_request (lc_verification (resolveLlmConfig env)) ms) = base @ ''/v1/chat/completions''"
proof -
  let ?core = "base @ version @ replicate n CHR ''/''"
  have core: "?core \<noteq> []" "\<not> is_space (hd ?core)" using assms(1) by (auto simp: router_root_def)
  have "last ?core = CHR ''/'' \<or> last ?core = CHR ''1'' \<or> last ?core = last base"
    using assms(1,2) by (cases n) (auto simp: router_root_def)
  then have "\<not> is_space (last ?core)" using assms(1) by (auto simp: router_root_def is_space_def ccode_def)
  then have "env_trim env ''LLM_BASE_URL'' = ?core"
    unfolding env_trim_def assms(5) option.case by (rule trim_around[OF assms(3,4) core])
  then have "lo_baseUrl (lc_analysis (resolveLlmConfig env)) = base" "lo_baseUrl (lc_verification (resolveLlmConfig env)) = base"
    using core(1) normalized_root[OF assms(1,2), of n] assms(1)
    by (simp_all only: resolveLlmConfig_def Let_def case_prod_beta if_False llm_config.simps llm_options.simps)
  moreover have "drop_last_slash base = base" using assms(1) by (simp add: router_root_def drop_last_slash_def)
  ultimately show ?thesis by (simp add: chat_request_def)
qed

subsection \<open>Readiness\<close>

lemma configured_pass: "wr_pass (worker_configuredCheck env input) \<longleftrightarrow> (\<forall>key \<in> set (ck_keys input). hasValue (env key) \<and>
    (case ck_rejectValues input of None \<Rightarrow> True | Some values \<Rightarrow> env_trim env key \<notin> set values))"
  by (auto simp: worker_configuredCheck_def Let_def filter_empty_conv split: option.split)

text \<open>The worker reports itself ready exactly when its flag is set, the database, the queue and the model proxy are
  configured and both models are named and not the placeholders of the code.\<close>

theorem worker_ready_iff:
  "wy_ok (workerReadinessSnapshot env workerReady now) \<longleftrightarrow> workerReady \<and>
     (\<forall>key \<in> {''DATABASE_URL'', ''REDIS_URL'', ''LLM_BASE_URL'', ''LLM_API_KEY''}. hasValue (env key)) \<and>
     (\<forall>key \<in> {''LLM_ANALYSIS_MODEL'', ''LLM_VERIFICATION_MODEL''}. hasValue (env key) \<and> env_trim env key \<notin> set PLACEHOLDER_MODELS)"
  by (auto simp: workerReadinessSnapshot_def worker_checks_def runtimeCheck_def configured_pass Let_def list_all_iff)

text \<open>C40. One error of the queue makes the worker answer 503 for the rest of its life, whatever happens afterwards.\<close>

theorem queue_error_is_final:
  assumes "worker_life env signals = Some ready" "QueueError \<in> set signals"
  shows "fst (health_server env ready ''/health'' now) = 503 \<and> fst (health_server env ready ''/readiness'' now) = 503"
proof -
  have "fold worker_step xs r = False" if "xs \<noteq> []" for xs r
    using that by (induction xs rule: rev_induct) (auto, metis worker_signal.exhaust worker_step.simps)
  moreover have "signals \<noteq> []" using assms(2) by auto
  ultimately have "ready = False" using assms(1) by (auto simp: worker_life_def split: if_splits)
  then show ?thesis
    by (simp add: health_server_def worker_ready_iff Let_def)
qed

subsection \<open>Witnesses\<close>

definition report_row :: "string \<Rightarrow> evidence_status \<Rightarrow> evidence_row" where
  "report_row key status = \<lparr>er_id = key, er_provider_id = ''p1'', er_zone_id = ''zone-1'', er_idempotency_key = ''report-'' @ key @ ''-0001'',
     er_source = ReporterProvider, er_status = status, er_voltage = None, er_confidence_hint = None, er_raw_payload = [],
     er_observed_at = sample_now, er_received_at = sample_now\<rparr>"

definition conflict_tables :: tables where
  "conflict_tables = empty_tables\<lparr>t_evidence_events := [report_row ''e1'' GridUp, report_row ''e2'' GridDown]\<rparr>"

definition conflict_input :: conflicting_reports_input where
  "conflict_input = \<lparr>ci_zoneId = ''zone-1'', ci_range = \<lparr>tr_start = sample_window_end, tr_end = sample_window_end\<rparr>\<rparr>"

lemma conflict_found:
  "\<exists>out. getConflictingReports sample_lib conflict_tables conflict_input = Inr out \<and>
     map ev_status (cf_reports out) = [GridUp, GridDown]"
  by (simp add: getConflictingReports_def zod_parse_def pg_time_def Let_def conflict_input_def sample_window_end_date
      conflict_tables_def report_row_def evidence_order_def mapEvidenceRow_tools_def evidenceEventSchema_def sample_lib_def
      sample_formats_def conflictingReportsInputSchema_def conflictingReportsOutputSchema_def rangeSchema_def
      uuidSchema_def isoDateTimeSchema_def groupReportsByStatus_def reportConflictGroupSchema_def ccode_def)

theorem conflict_reported_iff_witness:
  "\<exists>out. getConflictingReports sample_lib conflict_tables conflict_input = Inr out \<and> cf_hasConflict out"
proof -
  from conflict_found obtain out where out: "getConflictingReports sample_lib conflict_tables conflict_input = Inr out"
    by (elim exE conjE)
  have "window_row conflict_input (report_row k s)" for k s
    by (simp add: window_row_def conflict_input_def report_row_def sample_window_end_date)
  with conflict_reported_iff[OF out] have "cf_hasConflict out"
    by (simp add: conflict_tables_def empty_tables_def) (simp add: report_row_def)
  with out show ?thesis by blast
qed

theorem router_url_normalised_witness:
  "lq_url (chat_request (lc_analysis (resolveLlmConfig (\<lambda>name. Some '' http://r/v1/ ''))) []) = ''http://r/v1/chat/completions''"
proof -
  have "router_root ''http://r''" by code_simp
  moreover have "list_all is_space '' ''" by code_simp
  moreover have "(\<lambda>name :: string. Some '' http://r/v1/ '') ''LLM_BASE_URL'' = Some ('' '' @ (''http://r'' @ ''/v1'' @ replicate 1 CHR ''/'') @ '' '')"
    by simp
  ultimately show ?thesis
    using router_url_normalised[of "''http://r''" "''/v1''" "'' ''" "'' ''" "\<lambda>name. Some '' http://r/v1/ ''" 1 "[]"] by simp
qed

theorem queue_error_is_final_witness:
  "worker_life (\<lambda>name. Some ''redis'') [QueueError] = Some False \<and>
   fst (health_server (\<lambda>name. Some ''redis'') False ''/health'' sample_now) = 503"
proof -
  have "worker_life (\<lambda>name. Some ''redis'') [QueueError] = Some False" by (simp add: worker_life_def env_set_def)
  with queue_error_is_final[OF this, of sample_now] show ?thesis by simp
qed

end
