(* ===== verification/Chain.thy ===== *)
theory Chain imports Audit_Jobs begin

section \<open>Chain submission and confirmation\<close>

text \<open>
  \<open>modules/blockchain/service.ts\<close> and \<open>packages/blockchain-client/src/client.ts\<close>: pending commitments
  of closed epochs are sent to the contract one after the other, and their receipts are indexed.
  The contracts, the RPC provider and the ABI encoder of ethers and the formats and errors of zod
  are the fields of \<open>chain_client\<close>; their answers may throw.
\<close>

declare bind_audit [simp]

subsection \<open>The client\<close>

record chain_contracts =
  NodeRegistry :: string
  UptimeAttestation :: string
  ReputationEscrow :: string

record blockchain_client_config =
  rpcUrl :: string
  relayerPrivateKey :: string
  contracts :: chain_contracts

record commit_epoch_input =
  ci_zoneId :: string
  ci_epochStart :: int
  ci_uptimeBps :: int
  ci_evidenceHash :: string

record chain_receipt =
  rc_hash :: string
  rc_blockNumber :: int
  rc_status :: "int option"

text \<open>What \<open>getProvider\<close> of the contract returns, and what the client makes of it.\<close>

record contract_provider =
  cp_zoneId :: string
  cp_providerType :: int
  cp_registeredAt :: int
  cp_active :: bool

record node_registry_provider =
  np_zoneId :: string
  np_providerTypeId :: nat
  np_registeredAt :: int
  np_active :: bool

record chain_client =
  ch_formats :: zod_formats
  ch_zod_error :: "string \<Rightarrow> js_error"
  ch_commitEpoch :: "commit_epoch_input \<Rightarrow> string res"
  ch_isCommitted :: "string \<Rightarrow> int \<Rightarrow> bool res"
  ch_receipt :: "string \<Rightarrow> chain_receipt option res"
  ch_getProvider :: "string \<Rightarrow> contract_provider res"
  ch_encode :: "string \<Rightarrow> string \<Rightarrow> nat \<Rightarrow> string"

definition blockchainClientConfigSchema :: "zod_formats \<Rightarrow> blockchain_client_config \<Rightarrow> bool" where
  "blockchainClientConfigSchema F c \<longleftrightarrow> fmt_url F (rpcUrl c) \<and> hex_string 64 (relayerPrivateKey c) \<and>
     walletAddressSchema (NodeRegistry (contracts c)) \<and>
     walletAddressSchema (UptimeAttestation (contracts c)) \<and>
     walletAddressSchema (ReputationEscrow (contracts c))"

text \<open>\<open>schema.parse(value)\<close>\<close>

definition zod_check :: "chain_client \<Rightarrow> (string \<Rightarrow> bool) \<Rightarrow> string \<Rightarrow> unit res" where
  "zod_check ch schema v = (if schema v then Inr () else Inl (ch_zod_error ch v))"

definition commitEpoch :: "chain_client \<Rightarrow> commit_epoch_input \<Rightarrow> string res" where
  "commitEpoch ch input =
     bindR (zod_check ch bytes32Schema (ci_zoneId input)) (\<lambda>_.
     bindR (zod_check ch bytes32Schema (ci_evidenceHash input)) (\<lambda>_.
     if ci_uptimeBps input < 0 \<or> ci_uptimeBps input > 10000
     then Inl (plain_error ''uptimeBps must be an integer from 0 to 10000'')
     else ch_commitEpoch ch input))"

definition isCommitted :: "chain_client \<Rightarrow> string \<Rightarrow> int \<Rightarrow> bool res" where
  "isCommitted ch zoneId epochStart =
     bindR (zod_check ch bytes32Schema zoneId) (\<lambda>_. ch_isCommitted ch zoneId epochStart)"

definition getTransactionReceipt :: "chain_client \<Rightarrow> string \<Rightarrow> chain_receipt option res" where
  "getTransactionReceipt ch txHash = bindR (ch_receipt ch txHash) (\<lambda>receipt.
     case receipt of
       None \<Rightarrow> Inr None
     | Some r \<Rightarrow> Inr (Some \<lparr>rc_hash = rc_hash r, rc_blockNumber = rc_blockNumber r,
         rc_status = rc_status r\<rparr>))"

definition getProviderRegistration :: "chain_client \<Rightarrow> string \<Rightarrow> node_registry_provider res" where
  "getProviderRegistration ch providerWallet =
     bindR (zod_check ch walletAddressSchema providerWallet) (\<lambda>_.
     bindR (ch_getProvider ch providerWallet) (\<lambda>provider.
     let providerTypeId = cp_providerType provider in
     if providerTypeId \<noteq> 0 \<and> providerTypeId \<noteq> 1
     then Inl (plain_error (''Unexpected NodeRegistry provider type '' @ int_string providerTypeId))
     else bindR (zod_check ch bytes32Schema (cp_zoneId provider)) (\<lambda>_.
       Inr \<lparr>np_zoneId = cp_zoneId provider, np_providerTypeId = nat providerTypeId,
         np_registeredAt = cp_registeredAt provider, np_active = cp_active provider\<rparr>)))"

definition providerTypeIdFor :: "provider_type \<Rightarrow> nat" where
  "providerTypeIdFor providerType = (if providerType = SensorProvider then 0 else 1)"

definition encodeNodeRegistryRegisterCall :: "chain_client \<Rightarrow> string \<Rightarrow> provider_type \<Rightarrow> string res" where
  "encodeNodeRegistryRegisterCall ch zoneId providerType =
     bindR (zod_check ch bytes32Schema zoneId) (\<lambda>_.
     Inr (ch_encode ch ''register'' zoneId (providerTypeIdFor providerType)))"

subsection \<open>Deployment manifest\<close>

record deployment_manifest =
  dm_network :: string
  dm_chainId :: string
  dm_deployedAt :: string
  dm_admin :: string
  dm_relayer :: string
  dm_contracts :: chain_contracts
  dm_epochDurationSeconds :: string
  dm_slashPolicyCap :: string
  dm_minimumStake :: string
  dm_withdrawCooldownSeconds :: string

definition all_digits :: "string \<Rightarrow> bool" where
  "all_digits s \<longleftrightarrow> s \<noteq> [] \<and> list_all is_digit s"

definition deploymentManifestSchema :: "zod_formats \<Rightarrow> deployment_manifest \<Rightarrow> bool" where
  "deploymentManifestSchema F m \<longleftrightarrow> 1 \<le> length (dm_network m) \<and> all_digits (dm_chainId m) \<and>
     fmt_datetime F (dm_deployedAt m) \<and> walletAddressSchema (dm_admin m) \<and>
     walletAddressSchema (dm_relayer m) \<and> walletAddressSchema (NodeRegistry (dm_contracts m)) \<and>
     walletAddressSchema (UptimeAttestation (dm_contracts m)) \<and>
     walletAddressSchema (ReputationEscrow (dm_contracts m)) \<and>
     all_digits (dm_epochDurationSeconds m) \<and> all_digits (dm_slashPolicyCap m) \<and>
     all_digits (dm_minimumStake m) \<and> all_digits (dm_withdrawCooldownSeconds m)"

definition blockchainConfigFromDeployment ::
  "chain_client \<Rightarrow> deployment_manifest \<Rightarrow> string \<Rightarrow> string \<Rightarrow> blockchain_client_config res" where
  "blockchainConfigFromDeployment ch manifest url key =
     (let config = \<lparr>rpcUrl = url, relayerPrivateKey = key, contracts = dm_contracts manifest\<rparr> in
      if blockchainClientConfigSchema (ch_formats ch) config then Inr config
      else Inl (ch_zod_error ch ''config''))"

subsection \<open>Configuration\<close>

definition readRelayerConfig :: "(string \<Rightarrow> string option) \<Rightarrow> blockchain_client_config option" where
  "readRelayerConfig env =
     (let var = (\<lambda>name. case env name of Some v \<Rightarrow> if v = [] then None else Some v | None \<Rightarrow> None) in
      case (var ''BOTCHAIN_RPC_URL'', var ''RELAYER_PRIVATE_KEY'', var ''BOTCHAIN_NODE_REGISTRY_ADDRESS'',
            var ''BOTCHAIN_UPTIME_ATTESTATION_ADDRESS'', var ''BOTCHAIN_REPUTATION_ESCROW_ADDRESS'') of
        (Some url, Some key, Some nodeRegistry, Some uptimeAttestation, Some reputationEscrow) \<Rightarrow>
          Some \<lparr>rpcUrl = url, relayerPrivateKey = key, contracts = \<lparr>NodeRegistry = nodeRegistry,
            UptimeAttestation = uptimeAttestation, ReputationEscrow = reputationEscrow\<rparr>\<rparr>
      | _ \<Rightarrow> None)"

definition isChainRelayerConfigured :: "(string \<Rightarrow> string option) \<Rightarrow> bool" where
  "isChainRelayerConfigured env \<longleftrightarrow> readRelayerConfig env \<noteq> None"

text \<open>The constructor of the client parses the configuration and throws when it is malformed.\<close>

definition createClientFromEnv :: "runtime \<Rightarrow> chain_client \<Rightarrow> chain_client option res" where
  "createClientFromEnv rt ch =
     (case readRelayerConfig (rt_env rt) of
        None \<Rightarrow> Inr None
      | Some config \<Rightarrow> if blockchainClientConfigSchema (ch_formats ch) config then Inr (Some ch)
          else Inl (ch_zod_error ch ''config''))"

subsection \<open>Submitting pending commitments\<close>

record submit_pending_result =
  sp_scanned :: nat
  sp_submitted :: nat
  sp_skipped :: nat
  sp_reason :: "string option"
  sp_txHashes :: "string list"

record index_confirmations_result =
  ix_scanned :: nat
  ix_confirmed :: nat
  ix_failed :: nat
  ix_stillPending :: nat
  ix_reason :: "string option"
  ix_txHashes :: "string list"

definition json_of_nat :: "nat \<Rightarrow> json" where "json_of_nat n = JNum (of_nat n)"

definition json_of_submit_result :: "submit_pending_result \<Rightarrow> json_object" where
  "json_of_submit_result r =
     [(''scanned'', json_of_nat (sp_scanned r)), (''submitted'', json_of_nat (sp_submitted r)),
      (''skipped'', json_of_nat (sp_skipped r))] @ json_field ''reason'' (map_option JStr (sp_reason r)) @
     [(''txHashes'', json_strings (sp_txHashes r))]"

definition json_of_index_result :: "index_confirmations_result \<Rightarrow> json_object" where
  "json_of_index_result r =
     [(''scanned'', json_of_nat (ix_scanned r)), (''confirmed'', json_of_nat (ix_confirmed r)),
      (''failed'', json_of_nat (ix_failed r)), (''stillPending'', json_of_nat (ix_stillPending r))] @
     json_field ''reason'' (map_option JStr (ix_reason r)) @
     [(''txHashes'', json_strings (ix_txHashes r))]"

record pending_commitment_row =
  pc_commitment_id :: string
  pc_zone_key :: string
  pc_epoch_start :: int
  pc_uptime_bps :: int
  pc_evidence_hash :: string

record submitted_commitment_row = pending_commitment_row +
  pc_zone_id :: string
  pc_tx_hash :: string

definition commitInputFromPending :: "'a pending_commitment_row_scheme \<Rightarrow> commit_epoch_input" where
  "commitInputFromPending row =
     \<lparr>ci_zoneId = pc_zone_key row, ci_epochStart = pc_epoch_start row div 1000,
      ci_uptimeBps = pc_uptime_bps row, ci_evidenceHash = pc_evidence_hash row\<rparr>"

definition serializeCommitInput :: "commit_epoch_input \<Rightarrow> json" where
  "serializeCommitInput input = JObj
     [(''zoneId'', JStr (ci_zoneId input)), (''epochStart'', JStr (int_string (ci_epochStart input))),
      (''uptimeBps'', JNum (of_int (ci_uptimeBps input))), (''evidenceHash'', JStr (ci_evidenceHash input))]"

text \<open>\<open>chain_commitments cc join epoch_scores es ... join zones z ...\<close>\<close>

definition commitment_join :: "tables \<Rightarrow> (commitment_row \<times> epoch_row \<times> zone_row) list" where
  "commitment_join t =
     concat (map (\<lambda>cc. concat (map (\<lambda>es. map (\<lambda>z. (cc, es, z))
         (filter (\<lambda>z. zr_id z = ep_zone_id es) (t_zones t)))
       (filter (\<lambda>es. ep_id es = cm_epoch_score_id cc) (t_epoch_scores t)))) (t_chain_commitments t))"

text \<open>\<open>order by cc.created_at asc limit n\<close>\<close>

definition oldest :: "nat \<Rightarrow> (commitment_row \<times> 'b) list \<Rightarrow> (commitment_row \<times> 'b) list" where
  "oldest n rows = take n (js_sort (\<lambda>a b. cm_created_at (fst a) - cm_created_at (fst b)) rows)"

definition submittable :: "int \<Rightarrow> commitment_row \<times> epoch_row \<times> zone_row \<Rightarrow> bool" where
  "submittable now = (\<lambda>(cc, es, z). cm_status cc = Pending \<and> cm_tx_hash cc = None \<and>
     ep_epoch_start es + 3600000 \<le> now)"

definition pending_row :: "commitment_row \<times> epoch_row \<times> zone_row \<Rightarrow> pending_commitment_row" where
  "pending_row = (\<lambda>(cc, es, z). \<lparr>pc_commitment_id = cm_id cc, pc_zone_key = zr_zone_key z,
     pc_epoch_start = ep_epoch_start es, pc_uptime_bps = ep_uptime_bps es,
     pc_evidence_hash = ep_evidence_hash es\<rparr>)"

definition pending_to_submit :: "nat \<Rightarrow> world \<Rightarrow> pending_commitment_row list" where
  "pending_to_submit limit w =
     map pending_row (oldest limit (filter (submittable (w_now w)) (commitment_join (db w))))"

definition update_commitment :: "string \<Rightarrow> (commitment_row \<Rightarrow> commitment_row) \<Rightarrow> unit act" where
  "update_commitment cid upd = modify_db (\<lambda>t. t\<lparr>t_chain_commitments :=
     sql_update (\<lambda>c. cm_id c = cid) upd (t_chain_commitments t)\<rparr>)"

text \<open>The loop over the rows; \<open>txHashes\<close> holds the hashes so far.\<close>

fun submit_rows :: "runtime \<Rightarrow> chain_client \<Rightarrow> pending_commitment_row list \<Rightarrow> string list \<Rightarrow> string list act" where
  "submit_rows rt ch [] txHashes = returnS txHashes"
| "submit_rows rt ch (row # rows) txHashes =
     (case commitEpoch ch (commitInputFromPending row) of
        Inr hash \<Rightarrow>
          bindS (update_commitment (pc_commitment_id row)
            (\<lambda>c. c\<lparr>cm_tx_hash := Some hash, cm_status := Pending\<rparr>)) (\<lambda>_.
          bindS (count (\<lambda>k. k\<lparr>chainSubmissions := chainSubmissions k + 1\<rparr>)) (\<lambda>_.
          bindS (appendAuditLog rt (audit_entry ''chain_submission.submitted''
            [(''commitmentId'', JStr (pc_commitment_id row)), (''txHash'', JStr hash),
             (''input'', serializeCommitInput (commitInputFromPending row))])) (\<lambda>_.
          submit_rows rt ch rows (txHashes @ [hash]))))
      | Inl error \<Rightarrow>
          bindS (update_commitment (pc_commitment_id row) (\<lambda>c. c\<lparr>cm_status := Failed\<rparr>)) (\<lambda>_.
          bindS (appendAuditLog rt (audit_entry ''chain_submission.failed''
            [(''commitmentId'', JStr (pc_commitment_id row)), (''error'', JStr (message error)),
             (''input'', serializeCommitInput (commitInputFromPending row))])) (\<lambda>_.
          throwS error)))"

definition submitPendingCommitmentsWithClient ::
  "runtime \<Rightarrow> chain_client \<Rightarrow> nat \<Rightarrow> submit_pending_result act" where
  "submitPendingCommitmentsWithClient rt ch limit =
     bindS (getS (pending_to_submit limit)) (\<lambda>pending.
     bindS (submit_rows rt ch pending []) (\<lambda>txHashes.
     returnS \<lparr>sp_scanned = length pending, sp_submitted = length txHashes,
       sp_skipped = length pending - length txHashes, sp_reason = None, sp_txHashes = txHashes\<rparr>))"

definition skip_submission :: "runtime \<Rightarrow> nat \<Rightarrow> string \<Rightarrow> submit_pending_result act" where
  "skip_submission rt n reason =
     (let result = \<lparr>sp_scanned = n, sp_submitted = 0, sp_skipped = n, sp_reason = Some reason,
        sp_txHashes = []\<rparr> in
      bindS (appendAuditLog rt (audit_entry ''chain_submission.skipped'' (json_of_submit_result result)))
        (\<lambda>_. returnS result))"

definition submitPendingCommitments :: "runtime \<Rightarrow> chain_client \<Rightarrow> nat \<Rightarrow> submit_pending_result act" where
  "submitPendingCommitments rt ch limit =
     (if \<not> isDatabaseConfigured rt then skip_submission rt 0 ''DATABASE_URL is not configured''
      else bindS (liftS (createClientFromEnv rt ch)) (\<lambda>client.
        case client of
          None \<Rightarrow> bindS (getS (\<lambda>w. length (filter (\<lambda>c. cm_status c = Pending) (t_chain_commitments (db w)))))
            (\<lambda>n. skip_submission rt n ''BOT Chain relayer env vars are not fully configured'')
        | Some c \<Rightarrow> submitPendingCommitmentsWithClient rt c limit))"

subsection \<open>Indexing confirmations\<close>

record confirmation_update =
  cu_status :: chain_commitment_status
  cu_blockNumber :: int
  cu_explorerUrl :: "string option"
  cu_confirmedAt :: "int option"

definition explorerUrlForTx :: "string \<Rightarrow> string option \<Rightarrow> string option" where
  "explorerUrlForTx txHash explorerBaseUrl =
     (case explorerBaseUrl of
        None \<Rightarrow> None
      | Some base \<Rightarrow> if base = [] then None else Some (drop_last_slash base @ ''/tx/'' @ txHash))"

text \<open>The confirmation instant is kept as milliseconds: its ISO string goes into a timestamp.\<close>

definition confirmationUpdateFromReceipt ::
  "int \<Rightarrow> chain_receipt option \<Rightarrow> string option \<Rightarrow> confirmation_update option" where
  "confirmationUpdateFromReceipt now receipt explorerBaseUrl =
     (case receipt of
        None \<Rightarrow> None
      | Some r \<Rightarrow> (case rc_status r of
          None \<Rightarrow> None
        | Some s \<Rightarrow>
            let status = (if s = 1 then Confirmed else Failed) in
            Some \<lparr>cu_status = status, cu_blockNumber = rc_blockNumber r,
              cu_explorerUrl = explorerUrlForTx (rc_hash r) explorerBaseUrl,
              cu_confirmedAt = (if status = Confirmed then Some now else None)\<rparr>))"

definition submitted_row :: "commitment_row \<times> epoch_row \<times> zone_row \<Rightarrow> submitted_commitment_row" where
  "submitted_row = (\<lambda>(cc, es, z). \<lparr>pc_commitment_id = cm_id cc, pc_zone_key = zr_zone_key z,
     pc_epoch_start = ep_epoch_start es, pc_uptime_bps = ep_uptime_bps es,
     pc_evidence_hash = ep_evidence_hash es, pc_zone_id = zr_id z, pc_tx_hash = or_else (cm_tx_hash cc) []\<rparr>)"

definition indexable :: "commitment_row \<times> epoch_row \<times> zone_row \<Rightarrow> bool" where
  "indexable = (\<lambda>(cc, es, z). cm_status cc = Pending \<and> cm_tx_hash cc \<noteq> None)"

definition pending_to_index :: "nat \<Rightarrow> world \<Rightarrow> submitted_commitment_row list" where
  "pending_to_index limit w = map submitted_row (oldest limit (filter indexable (commitment_join (db w))))"

fun index_rows :: "runtime \<Rightarrow> chain_client \<Rightarrow> submitted_commitment_row list \<Rightarrow>
     index_confirmations_result \<Rightarrow> index_confirmations_result act" where
  "index_rows rt ch [] result = returnS result"
| "index_rows rt ch (row # rows) result =
     bindS (liftS (getTransactionReceipt ch (pc_tx_hash row))) (\<lambda>receipt.
     bindS (getS w_now) (\<lambda>now.
     case confirmationUpdateFromReceipt now receipt (rt_env rt ''BOTCHAIN_EXPLORER_BASE_URL'') of
       None \<Rightarrow> index_rows rt ch rows (result\<lparr>ix_stillPending := ix_stillPending result + 1\<rparr>)
     | Some update \<Rightarrow>
         bindS (update_commitment (pc_commitment_id row) (\<lambda>c. c\<lparr>cm_status := cu_status update,
           cm_block_number := Some (cu_blockNumber update), cm_explorer_url := cu_explorerUrl update,
           cm_confirmed_at := cu_confirmedAt update\<rparr>)) (\<lambda>_.
         let result = (if cu_status update = Confirmed then result\<lparr>ix_confirmed := ix_confirmed result + 1\<rparr>
               else result\<lparr>ix_failed := ix_failed result + 1\<rparr>);
             result = result\<lparr>ix_txHashes := ix_txHashes result @ [pc_tx_hash row]\<rparr> in
         bindS (emit (ChainCommitted (pc_zone_id row) (Some (to_iso (pc_epoch_start row)))
           (pc_tx_hash row) (cu_status update))) (\<lambda>_.
         bindS (appendAuditLog rt (audit_entry
             (if cu_status update = Confirmed then ''chain_index.confirmed'' else ''chain_index.failed'')
             [(''commitmentId'', JStr (pc_commitment_id row)), (''txHash'', JStr (pc_tx_hash row)),
              (''blockNumber'', JNum (of_int (cu_blockNumber update))),
              (''explorerUrl'', json_of_option JStr (cu_explorerUrl update)),
              (''input'', serializeCommitInput (commitInputFromPending row))])) (\<lambda>_.
         index_rows rt ch rows result)))))"

definition indexPendingConfirmationsWithClient ::
  "runtime \<Rightarrow> chain_client \<Rightarrow> nat \<Rightarrow> index_confirmations_result act" where
  "indexPendingConfirmationsWithClient rt ch limit =
     bindS (getS (pending_to_index limit)) (\<lambda>pending.
     index_rows rt ch pending \<lparr>ix_scanned = length pending, ix_confirmed = 0, ix_failed = 0,
       ix_stillPending = 0, ix_reason = None, ix_txHashes = []\<rparr>)"

definition skip_index :: "runtime \<Rightarrow> nat \<Rightarrow> string \<Rightarrow> index_confirmations_result act" where
  "skip_index rt n reason =
     (let result = \<lparr>ix_scanned = n, ix_confirmed = 0, ix_failed = 0, ix_stillPending = n,
        ix_reason = Some reason, ix_txHashes = []\<rparr> in
      bindS (appendAuditLog rt (audit_entry ''chain_index.skipped'' (json_of_index_result result)))
        (\<lambda>_. returnS result))"

definition indexPendingConfirmations :: "runtime \<Rightarrow> chain_client \<Rightarrow> nat \<Rightarrow> index_confirmations_result act" where
  "indexPendingConfirmations rt ch limit =
     (if \<not> isDatabaseConfigured rt then skip_index rt 0 ''DATABASE_URL is not configured''
      else bindS (liftS (createClientFromEnv rt ch)) (\<lambda>client.
        case client of
          None \<Rightarrow> bindS (getS (\<lambda>w. length (filter (\<lambda>c. cm_status c = Pending \<and> cm_tx_hash c \<noteq> None)
              (t_chain_commitments (db w)))))
            (\<lambda>n. skip_index rt n ''BOT Chain relayer env vars are not fully configured'')
        | Some c \<Rightarrow> indexPendingConfirmationsWithClient rt c limit))"

section \<open>What a sweep does to the table\<close>

text \<open>The primary keys, and the row that the join finds for a commitment.\<close>

definition chain_keys :: "tables \<Rightarrow> bool" where
  "chain_keys t \<longleftrightarrow> distinct (map cm_id (t_chain_commitments t)) \<and>
     distinct (map ep_id (t_epoch_scores t)) \<and> distinct (map zr_id (t_zones t))"

definition join_of :: "tables \<Rightarrow> commitment_row \<Rightarrow> (commitment_row \<times> epoch_row \<times> zone_row) option" where
  "join_of t cc = (case sql_find ep_id (t_epoch_scores t) (cm_epoch_score_id cc) of
     None \<Rightarrow> None
   | Some es \<Rightarrow> map_option (\<lambda>z. (cc, es, z)) (sql_find zr_id (t_zones t) (ep_zone_id es)))"

definition option_list :: "'a option \<Rightarrow> 'a list" where
  "option_list x = (case x of None \<Rightarrow> [] | Some v \<Rightarrow> [v])"

lemma option_list_simps [simp]: "option_list None = []" "option_list (Some v) = [v]"
  by (simp_all add: option_list_def)

lemma filter_key:
  "distinct (map key xs) \<Longrightarrow> filter (\<lambda>x. key x = k) xs = option_list (sql_find key xs k)"
proof (induction xs)
  case (Cons x xs)
  have "key x \<notin> key ` set xs" using Cons.prems by simp
  then have "key x = k \<Longrightarrow> filter (\<lambda>x. key x = k) xs = []" by (auto simp: filter_empty_conv image_iff)
  with Cons show ?case by (auto simp: sql_find_def)
qed (simp add: sql_find_def)

lemma commitment_join_eq:
  assumes "chain_keys t"
  shows "commitment_join t = concat (map (\<lambda>cc. option_list (join_of t cc)) (t_chain_commitments t))"
  unfolding commitment_join_def using assms
  by (intro arg_cong[of _ _ concat] map_cong refl)
    (auto simp: chain_keys_def filter_key join_of_def option_list_def split: option.split)

lemma join_of_fst: "join_of t cc = Some x \<Longrightarrow> fst x = cc"
  by (auto simp: join_of_def split: option.splits)

lemma filter_concat_options:
  "filter P (concat (map (\<lambda>c. option_list (f c)) cs)) =
     concat (map (\<lambda>c. option_list (case f c of None \<Rightarrow> None | Some x \<Rightarrow> if P x then Some x else None)) cs)"
  by (induction cs) (auto split: option.split)

lemma map_concat_options:
  assumes "\<And>c x. f c = Some x \<Longrightarrow> g x = c"
  shows "map g (concat (map (\<lambda>c. option_list (f c)) cs)) = filter (\<lambda>c. f c \<noteq> None) cs"
  using assms by (induction cs) (auto split: option.split simp: option_list_def)

text \<open>The commitments that a selection of the join picks, in the order of the table.\<close>

definition selected :: "(commitment_row \<times> epoch_row \<times> zone_row \<Rightarrow> bool) \<Rightarrow> tables \<Rightarrow> commitment_row \<Rightarrow> bool" where
  "selected P t cc \<longleftrightarrow> opt_any P (join_of t cc)"

lemma selected_join:
  assumes "chain_keys t"
  shows "map fst (filter P (commitment_join t)) = filter (selected P t) (t_chain_commitments t)"
proof -
  let ?f = "\<lambda>c. case join_of t c of None \<Rightarrow> None | Some x \<Rightarrow> if P x then Some x else None"
  have "map fst (filter P (commitment_join t)) = filter (\<lambda>c. ?f c \<noteq> None) (t_chain_commitments t)"
    unfolding commitment_join_eq[OF assms] filter_concat_options
    by (rule map_concat_options) (auto dest: join_of_fst split: option.splits if_splits)
  also have "(\<lambda>c. ?f c \<noteq> None) = selected P t"
    by (rule ext, case_tac "join_of t c") (auto simp: selected_def)
  finally show ?thesis .
qed

lemma oldest_ids:
  fixes t :: tables and P :: "commitment_row \<times> epoch_row \<times> zone_row \<Rightarrow> bool" and n :: nat
  assumes "chain_keys t"
  defines "rows \<equiv> oldest n (filter P (commitment_join t))"
  shows "distinct (map (cm_id \<circ> fst) rows)"
    and "x \<in> set rows \<Longrightarrow> fst x \<in> set (t_chain_commitments t) \<and> join_of t (fst x) = Some x \<and> P x"
    and "length rows = min n (length (filter (selected P t) (t_chain_commitments t)))"
proof -
  let ?all = "filter P (commitment_join t)"
  have fst_all: "map fst ?all = filter (selected P t) (t_chain_commitments t)" by (rule selected_join[OF assms(1)])
  have "distinct (map cm_id (map fst ?all))"
    unfolding fst_all using assms(1) by (simp add: chain_keys_def distinct_map_filter)
  then have d: "distinct (map (cm_id \<circ> fst) ?all)" by simp
  have "mset (map (cm_id \<circ> fst) (js_sort (\<lambda>a b. cm_created_at (fst a) - cm_created_at (fst b)) ?all)) =
      mset (map (cm_id \<circ> fst) ?all)" by simp
  with d have "distinct (map (cm_id \<circ> fst) (js_sort (\<lambda>a b. cm_created_at (fst a) - cm_created_at (fst b)) ?all))"
    by (metis mset_eq_imp_distinct_iff)
  then show "distinct (map (cm_id \<circ> fst) rows)"
    unfolding rows_def oldest_def take_map[symmetric] by (rule distinct_take)
  have sub: "x \<in> set rows \<Longrightarrow> x \<in> set ?all" for x
    unfolding rows_def oldest_def by (auto dest: in_set_takeD)
  show "x \<in> set rows \<Longrightarrow> fst x \<in> set (t_chain_commitments t) \<and> join_of t (fst x) = Some x \<and> P x"
  proof -
    assume "x \<in> set rows"
    then have x: "x \<in> set (commitment_join t)" "P x" using sub by auto
    then obtain c where c: "c \<in> set (t_chain_commitments t)" "join_of t c = Some x"
      unfolding commitment_join_eq[OF assms(1)] by (auto simp: option_list_def split: option.splits)
    with join_of_fst[OF c(2)] x(2) show ?thesis by simp
  qed
  show "length rows = min n (length (filter (selected P t) (t_chain_commitments t)))"
    unfolding rows_def oldest_def fst_all[symmetric] by (simp add: min_def)
qed

subsection \<open>The effect of the loops\<close>

text \<open>What the submission loop makes of a commitment, and what it returns.\<close>

fun submit_mark :: "chain_client \<Rightarrow> pending_commitment_row list \<Rightarrow> commitment_row \<Rightarrow> commitment_row" where
  "submit_mark ch [] c = c"
| "submit_mark ch (row # rows) c =
     (case commitEpoch ch (commitInputFromPending row) of
        Inr hash \<Rightarrow> submit_mark ch rows (if cm_id c = pc_commitment_id row
          then c\<lparr>cm_tx_hash := Some hash, cm_status := Pending\<rparr> else c)
      | Inl e \<Rightarrow> if cm_id c = pc_commitment_id row then c\<lparr>cm_status := Failed\<rparr> else c)"

fun submit_outcome :: "chain_client \<Rightarrow> pending_commitment_row list \<Rightarrow> string list res" where
  "submit_outcome ch [] = Inr []"
| "submit_outcome ch (row # rows) =
     bindR (commitEpoch ch (commitInputFromPending row)) (\<lambda>hash.
     bindR (submit_outcome ch rows) (\<lambda>hashes. Inr (hash # hashes)))"

definition accepted_by :: "chain_client \<Rightarrow> 'a pending_commitment_row_scheme \<Rightarrow> bool" where
  "accepted_by ch row \<longleftrightarrow> (\<exists>hash. commitEpoch ch (commitInputFromPending row) = Inr hash)"

lemma submit_outcome_prefix:
  "(case submit_outcome ch rows of Inl e \<Rightarrow> Inl e | Inr hs \<Rightarrow> Inr (acc @ hs)) =
     (case rows of [] \<Rightarrow> Inr acc | row # rest \<Rightarrow>
        (case commitEpoch ch (commitInputFromPending row) of Inl e \<Rightarrow> Inl e
         | Inr h \<Rightarrow> (case submit_outcome ch rest of Inl e \<Rightarrow> Inl e | Inr hs \<Rightarrow> Inr ((acc @ [h]) @ hs))))"
  by (cases rows) (auto simp: bindR_def split: sum.split)

lemma submit_rows_run:
  "\<exists>w'. submit_rows rt ch rows acc w =
      ((case submit_outcome ch rows of Inl e \<Rightarrow> Inl e | Inr hs \<Rightarrow> Inr (acc @ hs)), w') \<and>
    t_chain_commitments (db w') = map (submit_mark ch rows) (t_chain_commitments (db w)) \<and>
    t_epoch_scores (db w') = t_epoch_scores (db w) \<and> t_zones (db w') = t_zones (db w) \<and>
    w_now w' = w_now w \<and> w_events w' = w_events w \<and>
    chainSubmissions (w_counters w') =
      chainSubmissions (w_counters w) + length (takeWhile (accepted_by ch) rows)"
proof (induction rows arbitrary: acc w)
  case Nil
  then show ?case by simp
next
  case (Cons row rows)
  let ?id = "pc_commitment_id row"
  show ?case
  proof (cases "commitEpoch ch (commitInputFromPending row)")
    case (Inl e)
    then show ?thesis by (simp add: update_commitment_def accepted_by_def sql_update_def)
  next
    case (Inr h)
    define w1 where "w1 = audited rt (audit_entry ''chain_submission.submitted''
        [(''commitmentId'', JStr ?id), (''txHash'', JStr h),
         (''input'', serializeCommitInput (commitInputFromPending row))])
      (w\<lparr>db := db w\<lparr>t_chain_commitments := sql_update (\<lambda>c. cm_id c = ?id)
          (\<lambda>c. c\<lparr>cm_tx_hash := Some h, cm_status := Pending\<rparr>) (t_chain_commitments (db w))\<rparr>,
        w_counters := (w_counters w)\<lparr>chainSubmissions := chainSubmissions (w_counters w) + 1\<rparr>\<rparr>)"
    have run: "submit_rows rt ch (row # rows) acc w = submit_rows rt ch rows (acc @ [h]) w1"
      using Inr by (simp add: update_commitment_def w1_def)
    from Cons.IH[of "acc @ [h]" w1] Inr show ?thesis
      unfolding run by (auto simp: w1_def sql_update_def accepted_by_def split: sum.splits)
  qed
qed

lemma submit_mark_other: "cm_id c \<notin> pc_commitment_id ` set rows \<Longrightarrow> submit_mark ch rows c = c"
  by (induction rows) (auto split: sum.split)

lemma submit_mark_keys [simp]:
  "cm_id (submit_mark ch rows c) = cm_id c" "cm_epoch_score_id (submit_mark ch rows c) = cm_epoch_score_id c"
  by (induction rows arbitrary: c) (auto split: sum.split)

lemma submit_mark_row:
  "distinct (map pc_commitment_id rows) \<Longrightarrow> row \<in> set rows \<Longrightarrow> cm_id c = pc_commitment_id row \<Longrightarrow>
     submit_mark ch rows c = c \<or>
     submit_mark ch rows c = c\<lparr>cm_status := Failed\<rparr> \<and> \<not> accepted_by ch row \<or>
     (\<exists>h. commitEpoch ch (commitInputFromPending row) = Inr h \<and>
       submit_mark ch rows c = c\<lparr>cm_tx_hash := Some h, cm_status := Pending\<rparr>)"
proof (induction rows)
  case (Cons x rows)
  show ?case
  proof (cases "row = x")
    case True
    then have "cm_id c \<notin> pc_commitment_id ` set rows" using Cons.prems by simp
    then have "cm_id (c\<lparr>cm_tx_hash := h, cm_status := s\<rparr>) \<notin> pc_commitment_id ` set rows" for h s by simp
    from submit_mark_other[OF this] True Cons.prems(3) show ?thesis
      by (auto simp: accepted_by_def split: sum.split)
  next
    case False
    then have "row \<in> set rows" "cm_id c \<noteq> pc_commitment_id x"
      using Cons.prems by (auto simp: image_iff)
    with Cons show ?thesis by (auto split: sum.split)
  qed
qed simp

lemma submit_mark_accepted:
  "\<forall>r \<in> set rows. accepted_by ch r \<Longrightarrow> distinct (map pc_commitment_id rows) \<Longrightarrow> row \<in> set rows \<Longrightarrow>
     cm_id c = pc_commitment_id row \<Longrightarrow> commitEpoch ch (commitInputFromPending row) = Inr h \<Longrightarrow>
     submit_mark ch rows c = c\<lparr>cm_tx_hash := Some h, cm_status := Pending\<rparr>"
proof (induction rows)
  case (Cons x rows)
  obtain hx where hx: "commitEpoch ch (commitInputFromPending x) = Inr hx"
    using Cons.prems(1) by (auto simp: accepted_by_def)
  show ?case
  proof (cases "row = x")
    case True
    then have "cm_id (c\<lparr>cm_tx_hash := Some h, cm_status := Pending\<rparr>) \<notin> pc_commitment_id ` set rows"
      using Cons.prems by simp
    from submit_mark_other[OF this] True Cons.prems(4,5) show ?thesis by simp
  next
    case False
    then have "row \<in> set rows" "cm_id c \<noteq> pc_commitment_id x"
      using Cons.prems by (auto simp: image_iff)
    with Cons hx show ?thesis by simp
  qed
qed simp

lemma submit_mark_append:
  "\<forall>r \<in> set good. accepted_by ch r \<Longrightarrow> submit_mark ch (good @ rest) c = submit_mark ch rest (submit_mark ch good c)"
  by (induction good arbitrary: c) (auto simp: accepted_by_def split: sum.split)

lemma submit_outcome_accepted:
  "\<forall>r \<in> set good. accepted_by ch r \<Longrightarrow> submit_outcome ch (good @ rest) =
     bindR (submit_outcome ch rest) (\<lambda>hs. Inr (map (\<lambda>r. projr (commitEpoch ch (commitInputFromPending r))) good @ hs))"
  by (induction good) (auto simp: accepted_by_def bindR_def split: sum.split)

lemma submit_outcome_length:
  "submit_outcome ch rows = Inr hs \<Longrightarrow> length hs = length rows \<and> (\<forall>r \<in> set rows. accepted_by ch r)"
  by (induction rows arbitrary: hs) (auto simp: accepted_by_def)

text \<open>The rows of a sweep.\<close>

lemma pending_row_id [simp]: "pc_commitment_id (pending_row x) = cm_id (fst x)"
  by (cases x) (simp add: pending_row_def)

lemma pending_ids:
  assumes "chain_keys (db w)"
  shows "distinct (map pc_commitment_id (pending_to_submit n w))"
    and "length (pending_to_submit n w) =
      min n (length (filter (selected (submittable (w_now w)) (db w)) (t_chain_commitments (db w))))"
    and "row \<in> set (pending_to_submit n w) \<Longrightarrow> \<exists>c x. c \<in> set (t_chain_commitments (db w)) \<and>
      join_of (db w) c = Some x \<and> submittable (w_now w) x \<and> row = pending_row x \<and> fst x = c"
proof -
  note ids = oldest_ids[OF assms, where P = "submittable (w_now w)" and n = n]
  show "distinct (map pc_commitment_id (pending_to_submit n w))"
    using ids(1) by (simp add: pending_to_submit_def comp_def)
  show "length (pending_to_submit n w) =
      min n (length (filter (selected (submittable (w_now w)) (db w)) (t_chain_commitments (db w))))"
    using ids(3) by (simp add: pending_to_submit_def)
  show "row \<in> set (pending_to_submit n w) \<Longrightarrow> \<exists>c x. c \<in> set (t_chain_commitments (db w)) \<and>
      join_of (db w) c = Some x \<and> submittable (w_now w) x \<and> row = pending_row x \<and> fst x = c"
    using ids(2) unfolding pending_to_submit_def set_map by blast
qed

lemma chain_keys_unique:
  "chain_keys t \<Longrightarrow> c \<in> set (t_chain_commitments t) \<Longrightarrow> c' \<in> set (t_chain_commitments t) \<Longrightarrow>
     cm_id c = cm_id c' \<Longrightarrow> c = c'"
  by (auto simp: chain_keys_def distinct_map inj_on_def)

text \<open>One commitment of a sweep: a selected row is the one that the join finds for it.\<close>

lemma sweep_commitment:
  fixes w :: world and n :: nat
  assumes "chain_keys (db w)" "c \<in> set (t_chain_commitments (db w))"
  defines "rows \<equiv> pending_to_submit n w"
  shows "submit_mark ch rows c = c \<or>
    (\<exists>x. join_of (db w) c = Some x \<and> submittable (w_now w) x \<and> pending_row x \<in> set rows \<and>
      (submit_mark ch rows c = c\<lparr>cm_status := Failed\<rparr> \<and> \<not> accepted_by ch (pending_row x) \<or>
       (\<exists>h. commitEpoch ch (commitInputFromPending (pending_row x)) = Inr h \<and>
         submit_mark ch rows c = c\<lparr>cm_tx_hash := Some h, cm_status := Pending\<rparr>)))"
proof (cases "cm_id c \<in> pc_commitment_id ` set rows")
  case True
  then obtain row where row: "row \<in> set rows" "cm_id c = pc_commitment_id row" by blast
  then obtain c' x where x: "c' \<in> set (t_chain_commitments (db w))" "join_of (db w) c' = Some x"
    "submittable (w_now w) x" "row = pending_row x" "fst x = c'"
    using pending_ids(3)[OF assms(1)] unfolding rows_def by blast
  have "c' = c" using chain_keys_unique[OF assms(1) x(1) assms(2)] row(2) x(4,5) by simp
  with x row submit_mark_row[OF pending_ids(1)[OF assms(1), of n], of row c ch] show ?thesis
    unfolding rows_def by blast
qed (simp add: submit_mark_other)

subsection \<open>The backlog\<close>

text \<open>The commitments that a sweep may submit, and a chain that accepts all of them.\<close>

definition backlog :: "world \<Rightarrow> commitment_row list" where
  "backlog w = filter (selected (submittable (w_now w)) (db w)) (t_chain_commitments (db w))"

definition chain_accepts :: "chain_client \<Rightarrow> world \<Rightarrow> bool" where
  "chain_accepts ch w \<longleftrightarrow> (\<forall>c \<in> set (t_chain_commitments (db w)). \<forall>x. join_of (db w) c = Some x \<longrightarrow>
     submittable (w_now w) x \<longrightarrow> accepted_by ch (pending_row x))"

definition submit_sweep :: "runtime \<Rightarrow> chain_client \<Rightarrow> nat \<Rightarrow> world \<Rightarrow> world" where
  "submit_sweep rt ch limit w = snd (submitPendingCommitmentsWithClient rt ch limit w)"

lemma selected_iff: "selected P t c \<longleftrightarrow> (\<exists>x. join_of t c = Some x \<and> P x)"
  by (auto simp: selected_def opt_any_def split: option.splits)

lemma length_filter_split:
  "length (filter P xs) = length (filter (\<lambda>x. P x \<and> Q x) xs) + length (filter (\<lambda>x. P x \<and> \<not> Q x) xs)"
  by (induction xs) auto

lemma submit_with_client_run:
  "submitPendingCommitmentsWithClient rt ch n w =
    (let rows = pending_to_submit n w; (r, w') = submit_rows rt ch rows [] w in
     (case r of Inl e \<Rightarrow> Inl e
      | Inr hs \<Rightarrow> Inr \<lparr>sp_scanned = length rows, sp_submitted = length hs,
          sp_skipped = length rows - length hs, sp_reason = None, sp_txHashes = hs\<rparr>, w'))"
  by (simp add: submitPendingCommitmentsWithClient_def bindS_def Let_def act_defs split: prod.splits sum.splits)

lemma sweep_tables:
  obtains r w' where "submitPendingCommitmentsWithClient rt ch n w = (r, w')"
    "t_chain_commitments (db w') = map (submit_mark ch (pending_to_submit n w)) (t_chain_commitments (db w))"
    "t_epoch_scores (db w') = t_epoch_scores (db w)" "t_zones (db w') = t_zones (db w)"
    "w_now w' = w_now w" "w_events w' = w_events w"
    "chainSubmissions (w_counters w') = chainSubmissions (w_counters w) +
       length (takeWhile (accepted_by ch) (pending_to_submit n w))"
    "r = (case submit_outcome ch (pending_to_submit n w) of Inl e \<Rightarrow> Inl e
      | Inr hs \<Rightarrow> Inr \<lparr>sp_scanned = length (pending_to_submit n w), sp_submitted = length hs,
          sp_skipped = length (pending_to_submit n w) - length hs, sp_reason = None, sp_txHashes = hs\<rparr>)"
proof -
  obtain w' where "submit_rows rt ch (pending_to_submit n w) [] w =
      (submit_outcome ch (pending_to_submit n w), w')"
    and rest: "t_chain_commitments (db w') = map (submit_mark ch (pending_to_submit n w)) (t_chain_commitments (db w))"
    "t_epoch_scores (db w') = t_epoch_scores (db w)" "t_zones (db w') = t_zones (db w)"
    "w_now w' = w_now w" "w_events w' = w_events w"
    "chainSubmissions (w_counters w') = chainSubmissions (w_counters w) +
       length (takeWhile (accepted_by ch) (pending_to_submit n w))"
    using submit_rows_run[of rt ch "pending_to_submit n w" "[]" w]
    by (auto split: sum.splits)
  then show thesis
    by (intro that[of _ w']) (simp_all add: submit_with_client_run Let_def)
qed

lemma chain_keys_marked:
  assumes "chain_keys t" "t_chain_commitments t' = map (submit_mark ch rows) (t_chain_commitments t)"
    and "t_epoch_scores t' = t_epoch_scores t" "t_zones t' = t_zones t"
  shows "chain_keys t'"
proof -
  have "map cm_id (map (submit_mark ch rows) xs) = map cm_id xs" for xs by (induction xs) simp_all
  with assms show ?thesis by (simp only: chain_keys_def)
qed

lemma join_of_marked:
  assumes "t_epoch_scores t' = t_epoch_scores t" "t_zones t' = t_zones t"
  shows "join_of t' (submit_mark ch rows c) =
    map_option (\<lambda>(_, es, z). (submit_mark ch rows c, es, z)) (join_of t c)"
  using assms by (simp add: join_of_def map_option.compositionality comp_def split: option.split)

text \<open>With an accepting chain a sweep takes the oldest commitments off the backlog.\<close>

lemma accepted_rows:
  assumes "chain_keys (db w)" "chain_accepts ch w" "row \<in> set (pending_to_submit n w)"
  shows "accepted_by ch row"
  using pending_ids(3)[OF assms(1,3)] assms(2) unfolding chain_accepts_def by blast

lemma marked_selected:
  fixes w :: world and n :: nat
  assumes "chain_keys (db w)" "chain_accepts ch w" "c \<in> set (t_chain_commitments (db w))"
    and "t_epoch_scores t' = t_epoch_scores (db w)" "t_zones t' = t_zones (db w)"
  defines "rows \<equiv> pending_to_submit n w"
  shows "join_of t' (submit_mark ch rows c) = Some x \<and> submittable (w_now w) x \<longleftrightarrow>
    join_of (db w) c = Some x \<and> submittable (w_now w) x \<and> cm_id c \<notin> pc_commitment_id ` set rows"
proof (cases "cm_id c \<in> pc_commitment_id ` set rows")
  case True
  then obtain row where row: "row \<in> set rows" "cm_id c = pc_commitment_id row" by blast
  have acc: "\<forall>r \<in> set rows. accepted_by ch r" using accepted_rows[OF assms(1,2)] by (simp add: rows_def)
  then obtain h where "commitEpoch ch (commitInputFromPending row) = Inr h"
    using row(1) by (auto simp: accepted_by_def)
  with acc row have "submit_mark ch rows c = c\<lparr>cm_tx_hash := Some h, cm_status := Pending\<rparr>"
    using submit_mark_accepted[of rows ch row c h] pending_ids(1)[OF assms(1), of n] by (simp add: rows_def)
  with True show ?thesis
    unfolding join_of_marked[OF assms(4,5)] by (auto simp: submittable_def)
next
  case False
  then have "submit_mark ch rows c = c" by (rule submit_mark_other)
  moreover have "join_of t' c = join_of (db w) c" using assms(4,5) by (simp add: join_of_def cong: option.case_cong)
  ultimately show ?thesis using False by simp
qed

lemma sweep_backlog:
  fixes w :: world and n :: nat and rt :: runtime and ch :: chain_client
  assumes "chain_keys (db w)" "chain_accepts ch w"
  defines "w' \<equiv> submit_sweep rt ch n w"
  shows "length (backlog w') = length (backlog w) - n" "chain_keys (db w')" "chain_accepts ch w'"
    "w_now w' = w_now w"
    "\<exists>res. fst (submitPendingCommitmentsWithClient rt ch n w) = Inr res \<and>
       sp_submitted res = min n (length (backlog w))"
proof -
  let ?rows = "pending_to_submit n w" and ?cs = "t_chain_commitments (db w)"
  obtain r where run: "submitPendingCommitmentsWithClient rt ch n w = (r, w')"
    and cs': "t_chain_commitments (db w') = map (submit_mark ch ?rows) ?cs"
    and same: "t_epoch_scores (db w') = t_epoch_scores (db w)" "t_zones (db w') = t_zones (db w)"
    and now: "w_now w' = w_now w"
    and r: "r = (case submit_outcome ch ?rows of Inl e \<Rightarrow> Inl e
      | Inr hs \<Rightarrow> Inr \<lparr>sp_scanned = length ?rows, sp_submitted = length hs,
          sp_skipped = length ?rows - length hs, sp_reason = None, sp_txHashes = hs\<rparr>)"
    by (rule sweep_tables[of rt ch n w]) (simp add: w'_def submit_sweep_def)
  show "w_now w' = w_now w" by (rule now)
  show "chain_keys (db w')" by (rule chain_keys_marked[OF assms(1) cs' same])
  have iff: "c \<in> set ?cs \<Longrightarrow> join_of (db w') (submit_mark ch ?rows c) = Some x \<and> submittable (w_now w) x \<longleftrightarrow>
    join_of (db w) c = Some x \<and> submittable (w_now w) x \<and> cm_id c \<notin> pc_commitment_id ` set ?rows" for c x
    by (rule marked_selected[OF assms(1,2) _ same])
  then have "\<forall>c \<in> set ?cs. \<forall>x. join_of (db w') (submit_mark ch ?rows c) = Some x \<longrightarrow>
      submittable (w_now w) x \<longrightarrow> accepted_by ch (pending_row x)"
    using assms(2) unfolding chain_accepts_def by blast
  then show "chain_accepts ch w'" unfolding chain_accepts_def cs' now by simp
  have sel: "c \<in> set ?cs \<Longrightarrow> selected (submittable (w_now w)) (db w') (submit_mark ch ?rows c) \<longleftrightarrow>
    selected (submittable (w_now w)) (db w) c \<and> cm_id c \<notin> pc_commitment_id ` set ?rows" for c
    unfolding selected_iff using iff by blast
  have len: "length ?rows = min n (length (backlog w))"
    using pending_ids(2)[OF assms(1)] by (simp add: backlog_def)
  let ?in = "\<lambda>c. cm_id c \<in> pc_commitment_id ` set ?rows" and ?sel = "selected (submittable (w_now w)) (db w)"
  have "length (backlog w') = length (filter (\<lambda>c. ?sel c \<and> \<not> ?in c) ?cs)"
    unfolding backlog_def cs' now filter_map length_map using sel
    by (intro arg_cong[of _ _ length] filter_cong) (simp_all add: comp_def)
  moreover have "length (filter (\<lambda>c. ?sel c \<and> ?in c) ?cs) = length ?rows"
  proof -
    have "distinct (map cm_id (filter (\<lambda>c. ?sel c \<and> ?in c) ?cs))"
      using assms(1) by (simp add: chain_keys_def distinct_map_filter)
    moreover have "set (map cm_id (filter (\<lambda>c. ?sel c \<and> ?in c) ?cs)) = pc_commitment_id ` set ?rows"
    proof (intro set_eqI iffI)
      fix k assume "k \<in> pc_commitment_id ` set ?rows"
      then obtain row where row: "row \<in> set ?rows" "k = pc_commitment_id row" by blast
      then obtain c x where "c \<in> set ?cs" "join_of (db w) c = Some x" "submittable (w_now w) x"
        "row = pending_row x" "fst x = c" using pending_ids(3)[OF assms(1)] by blast
      then have "?sel c" "cm_id c = k" unfolding selected_iff using row by auto
      with \<open>c \<in> set ?cs\<close> \<open>k \<in> pc_commitment_id ` set ?rows\<close> show "k \<in> set (map cm_id (filter (\<lambda>c. ?sel c \<and> ?in c) ?cs))"
        by (auto intro!: rev_image_eqI[of c])
    qed auto
    ultimately have "length (map cm_id (filter (\<lambda>c. ?sel c \<and> ?in c) ?cs)) = card (pc_commitment_id ` set ?rows)"
      by (metis distinct_card)
    also have "\<dots> = length ?rows"
      using distinct_card[OF pending_ids(1)[OF assms(1), of n]] by simp
    finally show ?thesis by simp
  qed
  ultimately have "length (backlog w) = min n (length (backlog w)) + length (backlog w')"
    using length_filter_split[of ?sel ?cs ?in] len by (simp only: backlog_def)
  then show "length (backlog w') = length (backlog w) - n" by linarith
  have "\<forall>r \<in> set ?rows. accepted_by ch r" using accepted_rows[OF assms(1,2)] by blast
  from submit_outcome_accepted[OF this, of "[]"] run r len
  show "\<exists>res. fst (submitPendingCommitmentsWithClient rt ch n w) = Inr res \<and>
       sp_submitted res = min n (length (backlog w))" by simp
qed

lemma sweeps_backlog:
  assumes "chain_keys (db w)" "chain_accepts ch w"
  shows "length (backlog ((submit_sweep rt ch n ^^ k) w)) = length (backlog w) - k * n \<and>
    chain_keys (db ((submit_sweep rt ch n ^^ k) w)) \<and> chain_accepts ch ((submit_sweep rt ch n ^^ k) w)"
proof (induction k)
  case (Suc k)
  let ?v = "(submit_sweep rt ch n ^^ k) w"
  from Suc have "chain_keys (db ?v)" "chain_accepts ch ?v" by simp_all
  from sweep_backlog(1-3)[OF this, of rt n] Suc show ?case by (simp add: algebra_simps)
qed (use assms in simp)

subsection \<open>The effect of indexing\<close>

definition index_update :: "runtime \<Rightarrow> chain_client \<Rightarrow> int \<Rightarrow> submitted_commitment_row \<Rightarrow> confirmation_update option" where
  "index_update rt ch now row = (case getTransactionReceipt ch (pc_tx_hash row) of
     Inl e \<Rightarrow> None
   | Inr receipt \<Rightarrow> confirmationUpdateFromReceipt now receipt (rt_env rt ''BOTCHAIN_EXPLORER_BASE_URL''))"

definition apply_update :: "confirmation_update \<Rightarrow> commitment_row \<Rightarrow> commitment_row" where
  "apply_update update c = c\<lparr>cm_status := cu_status update, cm_block_number := Some (cu_blockNumber update),
     cm_explorer_url := cu_explorerUrl update, cm_confirmed_at := cu_confirmedAt update\<rparr>"

fun index_mark :: "(submitted_commitment_row \<Rightarrow> confirmation_update option) \<Rightarrow>
    submitted_commitment_row list \<Rightarrow> commitment_row \<Rightarrow> commitment_row" where
  "index_mark upd [] c = c"
| "index_mark upd (row # rows) c = index_mark upd rows
     (case upd row of None \<Rightarrow> c | Some u \<Rightarrow> if cm_id c = pc_commitment_id row then apply_update u c else c)"

definition answered :: "chain_client \<Rightarrow> submitted_commitment_row list \<Rightarrow> bool" where
  "answered ch rows \<longleftrightarrow> (\<forall>row \<in> set rows. \<exists>receipt. getTransactionReceipt ch (pc_tx_hash row) = Inr receipt)"

definition update_event :: "submitted_commitment_row \<Rightarrow> confirmation_update \<Rightarrow> domain_event" where
  "update_event row u = ChainCommitted (pc_zone_id row) (Some (to_iso (pc_epoch_start row))) (pc_tx_hash row) (cu_status u)"

definition with_status :: "(submitted_commitment_row \<Rightarrow> confirmation_update option) \<Rightarrow> chain_commitment_status \<Rightarrow>
    submitted_commitment_row list \<Rightarrow> nat" where
  "with_status upd s rows = length (filter (\<lambda>row. opt_any (\<lambda>u. cu_status u = s) (upd row)) rows)"

lemma update_status:
  "confirmationUpdateFromReceipt now receipt base = Some u \<Longrightarrow> cu_status u = Confirmed \<or> cu_status u = Failed"
  by (auto simp: confirmationUpdateFromReceipt_def Let_def split: option.splits if_splits)

lemma index_update_status: "index_update rt ch now row = Some u \<Longrightarrow> cu_status u = Confirmed \<or> cu_status u = Failed"
  by (auto simp: index_update_def dest: update_status split: sum.splits)

lemma index_rows_run:
  assumes "answered ch rows"
  shows "\<exists>res' w'. index_rows rt ch rows res w = (Inr res', w') \<and>
    t_chain_commitments (db w') = map (index_mark (index_update rt ch (w_now w)) rows) (t_chain_commitments (db w)) \<and>
    t_epoch_scores (db w') = t_epoch_scores (db w) \<and> t_zones (db w') = t_zones (db w) \<and>
    w_now w' = w_now w \<and> w_counters w' = w_counters w \<and>
    w_events w' = w_events w @ List.map_filter
      (\<lambda>row. map_option (update_event row) (index_update rt ch (w_now w) row)) rows \<and>
    ix_confirmed res' = ix_confirmed res + with_status (index_update rt ch (w_now w)) Confirmed rows \<and>
    ix_failed res' = ix_failed res + with_status (index_update rt ch (w_now w)) Failed rows \<and>
    ix_stillPending res' = ix_stillPending res +
      length (filter (\<lambda>row. index_update rt ch (w_now w) row = None) rows) \<and>
    ix_scanned res' = ix_scanned res"
  using assms
proof (induction rows arbitrary: res w)
  case Nil
  then show ?case by (simp add: with_status_def List.map_filter_def)
next
  case (Cons row rows)
  then have rest: "answered ch rows" by (simp add: answered_def)
  obtain receipt where receipt: "getTransactionReceipt ch (pc_tx_hash row) = Inr receipt"
    using Cons.prems by (auto simp: answered_def)
  show ?case
  proof (cases "index_update rt ch (w_now w) row")
    case None
    with receipt have run: "index_rows rt ch (row # rows) res w =
        index_rows rt ch rows (res\<lparr>ix_stillPending := ix_stillPending res + 1\<rparr>) w"
      by (simp add: index_update_def)
    from Cons.IH[OF rest, of "res\<lparr>ix_stillPending := ix_stillPending res + 1\<rparr>" w] None show ?thesis
      unfolding run by (auto simp: with_status_def List.map_filter_def)
  next
    case (Some u)
    define res1 where "res1 = (if cu_status u = Confirmed then res\<lparr>ix_confirmed := ix_confirmed res + 1\<rparr>
        else res\<lparr>ix_failed := ix_failed res + 1\<rparr>)\<lparr>ix_txHashes := ix_txHashes (if cu_status u = Confirmed
        then res\<lparr>ix_confirmed := ix_confirmed res + 1\<rparr> else res\<lparr>ix_failed := ix_failed res + 1\<rparr>) @ [pc_tx_hash row]\<rparr>"
    obtain w1 where run: "index_rows rt ch (row # rows) res w = index_rows rt ch rows res1 w1"
      and w1: "t_chain_commitments (db w1) = sql_update (\<lambda>c. cm_id c = pc_commitment_id row)
          (apply_update u) (t_chain_commitments (db w))"
        "t_epoch_scores (db w1) = t_epoch_scores (db w)" "t_zones (db w1) = t_zones (db w)"
        "w_now w1 = w_now w" "w_counters w1 = w_counters w"
        "w_events w1 = w_events w @ [update_event row u]"
    proof
      let ?w0 = "w\<lparr>db := db w\<lparr>t_chain_commitments := sql_update (\<lambda>c. cm_id c = pc_commitment_id row)
          (apply_update u) (t_chain_commitments (db w))\<rparr>, w_events := w_events w @ [update_event row u]\<rparr>"
      let ?a = "audit_entry (if cu_status u = Confirmed then ''chain_index.confirmed'' else ''chain_index.failed'')
             [(''commitmentId'', JStr (pc_commitment_id row)), (''txHash'', JStr (pc_tx_hash row)),
              (''blockNumber'', JNum (of_int (cu_blockNumber u))),
              (''explorerUrl'', json_of_option JStr (cu_explorerUrl u)),
              (''input'', serializeCommitInput (commitInputFromPending row))]"
      show "index_rows rt ch (row # rows) res w = index_rows rt ch rows res1 (audited rt ?a ?w0)"
        using receipt Some by (simp add: index_update_def update_commitment_def res1_def
            apply_update_def[abs_def] update_event_def Let_def)
    qed simp_all
    have "cu_status u = Confirmed \<or> cu_status u = Failed" using Some by (rule index_update_status)
    with Cons.IH[OF rest, of res1 w1] Some show ?thesis
      unfolding run w1 by (auto simp: with_status_def List.map_filter_def sql_update_def res1_def)
  qed
qed

lemma index_mark_other: "cm_id c \<notin> pc_commitment_id ` set rows \<Longrightarrow> index_mark upd rows c = c"
  by (induction rows) (auto split: option.split)

lemma index_mark_row:
  "distinct (map pc_commitment_id rows) \<Longrightarrow> row \<in> set rows \<Longrightarrow> cm_id c = pc_commitment_id row \<Longrightarrow>
     index_mark upd rows c = (case upd row of None \<Rightarrow> c | Some u \<Rightarrow> apply_update u c)"
proof (induction rows)
  case (Cons x rows)
  show ?case
  proof (cases "row = x")
    case True
    have key: "cm_id (apply_update u c) = cm_id c" for u by (simp add: apply_update_def)
    have "cm_id c \<notin> pc_commitment_id ` set rows" using Cons.prems True by simp
    then have "index_mark upd rows c = c" "index_mark upd rows (apply_update u c) = apply_update u c" for u
      using index_mark_other key by metis+
    with True Cons.prems(3) show ?thesis by (simp split: option.split)
  next
    case False
    then have "row \<in> set rows" "cm_id c \<noteq> pc_commitment_id x"
      using Cons.prems by (auto simp: image_iff)
    with Cons show ?thesis by (simp split: option.split)
  qed
qed simp

lemma submitted_row_sel [simp]:
  "pc_commitment_id (submitted_row x) = cm_id (fst x)" "pc_tx_hash (submitted_row x) = or_else (cm_tx_hash (fst x)) []"
  by (cases x; simp add: submitted_row_def)+

lemma index_commitment:
  fixes w :: world and n :: nat
  assumes "chain_keys (db w)" "c \<in> set (t_chain_commitments (db w))"
  defines "rows \<equiv> pending_to_index n w"
  shows "index_mark upd rows c = c \<or>
    (\<exists>x u. join_of (db w) c = Some x \<and> indexable x \<and> submitted_row x \<in> set rows \<and> fst x = c \<and>
      upd (submitted_row x) = Some u \<and> index_mark upd rows c = apply_update u c)"
proof (cases "cm_id c \<in> pc_commitment_id ` set rows")
  case True
  note ids = oldest_ids[OF assms(1), where P = indexable and n = n]
  from True obtain x where x: "x \<in> set (oldest n (filter indexable (commitment_join (db w))))" "cm_id c = cm_id (fst x)"
    by (auto simp: rows_def pending_to_index_def)
  have x1: "fst x = c" using chain_keys_unique[OF assms(1) _ assms(2)] ids(2)[OF x(1)] x(2) by simp
  have d: "distinct (map pc_commitment_id rows)" and x2: "submitted_row x \<in> set rows"
    using ids(1) x(1) by (simp_all add: rows_def pending_to_index_def comp_def)
  have "cm_id c = pc_commitment_id (submitted_row x)" using x(2) by simp
  note x' = x1 x2 index_mark_row[OF d x2 this, of upd]
  show ?thesis
  proof (cases "upd (submitted_row x)")
    case None
    then show ?thesis using x'(3) by simp
  next
    case (Some u)
    then have "index_mark upd rows c = apply_update u c" using x'(3) by simp
    with Some x'(1,2) ids(2)[OF x(1)] show ?thesis by blast
  qed
qed (simp add: index_mark_other)

end
