(* ===== verification/Middleware.thy ===== *)
theory Middleware imports Configuration begin

section \<open>Middleware\<close>

text \<open>
  \<open>middleware/validate.ts\<close>, \<open>middleware/error.ts\<close> and \<open>middleware/rate-limit.ts\<close>. A middleware
  either passes the request on or gives an error to \<open>next\<close>: a result in the error type. The Redis
  server and the sockets of Node are the fields of \<open>redis\<close>: what connecting and each command
  answer, or the error of the socket.
\<close>

subsection \<open>Validation and errors\<close>

text \<open>The schema as a parser: \<open>None\<close> when \<open>safeParse\<close> fails. The issues of zod are left out.\<close>

definition validateBody :: "('b \<Rightarrow> 'a option) \<Rightarrow> 'b \<Rightarrow> 'a res" where
  "validateBody schema body =
     (case schema body of
        None \<Rightarrow> Inl (http_error 400 ''VALIDATION_FAILED'' ''Request body failed validation'')
      | Some d \<Rightarrow> Inr d)"

record error_response =
  eb_status :: nat
  eb_code :: string
  eb_message :: string

definition notFoundHandler :: "string \<Rightarrow> string \<Rightarrow> js_error \<Rightarrow> world \<Rightarrow>
    (error_response \<times> (js_error \<times> json_object) option) \<times> world" where
  "notFoundHandler reqMethod reqPath error w =
     (let w = w\<lparr>w_counters := (w_counters w)\<lparr>failures := failures (w_counters w) + 1\<rparr>\<rparr>;
          status = or_else (statusCode error) 500;
          captured = (if status \<ge> 500
            then captureApiException error ([(''status'', JNum (of_nat status))] @
              json_field ''code'' (map_option JStr (code error)) @
              [(''method'', JStr reqMethod), (''path'', JStr reqPath)]) w
            else None)
      in ((\<lparr>eb_status = status, eb_code = or_else (code error) ''INTERNAL_ERROR'',
            eb_message = message error\<rparr>, captured), w))"

subsection \<open>Rate limiter\<close>

definition DEFAULT_WINDOW_MS :: int where "DEFAULT_WINDOW_MS = 60000"
definition DEFAULT_MAX_REQUESTS :: int where "DEFAULT_MAX_REQUESTS = 60"

definition envInt :: "env \<Rightarrow> string \<Rightarrow> int \<Rightarrow> int" where
  "envInt env name fallback =
     (case env name of
        None \<Rightarrow> fallback
      | Some v \<Rightarrow> (case integer_of_string v of
          Some n \<Rightarrow> if 0 < n then n else fallback
        | None \<Rightarrow> fallback))"

lemma envInt_pos: "0 < fallback \<Longrightarrow> 0 < envInt env name fallback"
  by (simp add: envInt_def split: option.split)

text \<open>\<open>replace(/[^a-z0-9:._-]/g, "_").slice(0, 160) || "unknown"\<close>\<close>

definition normalizeIdentity_rate :: "string \<Rightarrow> string" where
  "normalizeIdentity_rate value =
     (let s = take 160 (map (\<lambda>c. if is_lower c \<or> is_digit c \<or> c \<in> set '':._-'' then c else CHR ''_'')
        (to_lower (trim value)))
      in if s = [] then ''unknown'' else s)"

definition bucketResetFor :: "int \<Rightarrow> int \<Rightarrow> int" where
  "bucketResetFor now windowMs = (now div windowMs + 1) * windowMs"

definition incrementMemoryCounter :: "string \<Rightarrow> int \<Rightarrow> rate_counter act" where
  "incrementMemoryCounter key windowMs w =
     (let resetAt = bucketResetFor (w_now w) windowMs;
          fresh = \<lparr>rate_count = 1, rate_resetAt = resetAt\<rparr>
      in case jm_get (memoryCounters w) key of
           None \<Rightarrow> (Inr fresh, w\<lparr>memoryCounters := jm_set key fresh (memoryCounters w)\<rparr>)
         | Some current \<Rightarrow>
             if rate_resetAt current \<le> w_now w
             then (Inr fresh, w\<lparr>memoryCounters := jm_set key fresh (memoryCounters w)\<rparr>)
             else let c = current\<lparr>rate_count := rate_count current + 1\<rparr>
               in (Inr c, w\<lparr>memoryCounters := jm_set key c (memoryCounters w)\<rparr>))"

text \<open>The protocol of Redis.\<close>

definition crlf :: string where "crlf = [CHR 0x0D, CHR 0x0A]"

definition encodeRedisCommand :: "string list \<Rightarrow> string" where
  "encodeRedisCommand args = ''*'' @ nat_string (length args) @ crlf @
     concat (map (\<lambda>arg. ''$'' @ nat_string (length arg) @ crlf @ arg @ crlf) args)"

datatype redis_value = RedisNumber "rat option" | RedisText string

text \<open>\<open>s.slice(0, s.indexOf("\r\n"))\<close>: without a line end the index is -1 and the last character is
  dropped.\<close>

fun before_crlf :: "string \<Rightarrow> string option" where
  "before_crlf [] = None"
| "before_crlf [c] = None"
| "before_crlf (c # d # s) =
     (if c = CHR 0x0D \<and> d = CHR 0x0A then Some [] else map_option (\<lambda>p. c # p) (before_crlf (d # s)))"

definition reply_body :: "string \<Rightarrow> string" where
  "reply_body reply = drop 1 (or_else (before_crlf reply) (butlast reply))"

text \<open>The second part of \<open>reply.split("\r\n")\<close>, or the empty string.\<close>

definition second_line :: "string \<Rightarrow> string" where
  "second_line reply =
     (case before_crlf reply of
        None \<Rightarrow> []
      | Some p \<Rightarrow> let rest = drop (length p + 2) reply in or_else (before_crlf rest) rest)"

definition parseRedisReply :: "string \<Rightarrow> redis_value res" where
  "parseRedisReply reply =
     (let reply_prefix = take 1 reply; body = reply_body reply in
      if reply_prefix = '':'' then Inr (RedisNumber (number_of_string body))
      else if reply_prefix = ''+'' then Inr (RedisText body)
      else if reply_prefix = ''-'' then Inl (plain_error (''Redis error: '' @ body))
      else if reply_prefix = ''$'' then Inr (RedisText (second_line reply))
      else Inl (plain_error (''Unsupported Redis reply: '' @ reply)))"

record redis_url =
  rl_protocol :: string
  rl_hostname :: string
  rl_port :: string
  rl_username :: string
  rl_password :: string

record redis =
  rd_url :: "string \<Rightarrow> redis_url res"
  rd_connect :: "bool \<Rightarrow> string \<Rightarrow> int \<Rightarrow> int \<Rightarrow> unit res"
    \<comment> \<open>TLS, host, port, timeout: \<open>socketReady\<close>\<close>
  rd_decode :: "string \<Rightarrow> string"
  rd_reply :: "string \<Rightarrow> string res"
    \<comment> \<open>the data that answers the bytes written, or the error or timeout of the socket\<close>

definition sendRedisCommand :: "redis \<Rightarrow> string list \<Rightarrow> redis_value res" where
  "sendRedisCommand rd args = bindR (rd_reply rd (encodeRedisCommand args)) parseRedisReply"

definition redis_number :: "redis_value \<Rightarrow> rat option" where
  "redis_number v = (case v of RedisNumber n \<Rightarrow> n | RedisText s \<Rightarrow> number_of_string s)"

definition incrementRedisCounter :: "env \<Rightarrow> redis \<Rightarrow> string \<Rightarrow> string \<Rightarrow> int \<Rightarrow> rat option res" where
  "incrementRedisCounter env rd redisUrl key windowMs =
     bindR (rd_url rd redisUrl) (\<lambda>url.
     let secure = (rl_protocol url = ''rediss:'');
         port = (if rl_port url = [] then if secure then 6380 else 6379 else digits_val 0 (rl_port url)) in
     bindR (rd_connect rd secure (rl_hostname url) port (envInt env ''REDIS_RATE_LIMIT_TIMEOUT_MS'' 500)) (\<lambda>_.
     bindR (if rl_password url = [] then Inr (RedisText [])
        else sendRedisCommand rd (if rl_username url \<noteq> []
          then [''AUTH'', rd_decode rd (rl_username url), rd_decode rd (rl_password url)]
          else [''AUTH'', rd_decode rd (rl_password url)])) (\<lambda>_.
     bindR (sendRedisCommand rd [''INCR'', key]) (\<lambda>reply.
     let n = redis_number reply in
     if n = Some 1
     then bindR (sendRedisCommand rd [''PEXPIRE'', key, int_string windowMs]) (\<lambda>_. Inr n)
     else Inr n))))"

text \<open>The count of a bucket; NaN is \<open>None\<close>.\<close>

record rate_result =
  rr_count :: "rat option"
  rr_resetAt :: int

definition incrementRateLimit :: "env \<Rightarrow> redis \<Rightarrow> string \<Rightarrow> int \<Rightarrow> rate_result act" where
  "incrementRateLimit env rd key windowMs w =
     (let redisEnabledInTest = (env ''NODE_ENV'' \<noteq> Some ''test'' \<or>
            env ''RATE_LIMIT_USE_REDIS_FOR_TESTS'' = Some ''true'');
          memory = bindS (incrementMemoryCounter key windowMs) (\<lambda>c.
            returnS \<lparr>rr_count = Some (of_nat (rate_count c)), rr_resetAt = rate_resetAt c\<rparr>)
      in case env_set env ''REDIS_URL'' of
           None \<Rightarrow> memory w
         | Some url \<Rightarrow>
             if redisEnabledInTest \<and> key \<notin> set (redisFallbackKeys w)
             then (case incrementRedisCounter env rd url key windowMs of
                 Inr n \<Rightarrow> (Inr \<lparr>rr_count = n, rr_resetAt = bucketResetFor (w_now w) windowMs\<rparr>, w)
               | Inl error \<Rightarrow> memory (w\<lparr>redisFallbackKeys := redisFallbackKeys w @ [key]\<rparr>))
             else memory w)"

record rate_headers =
  rh_limit :: int
  rh_remaining :: "rat option"
  rh_reset :: int
  rh_retryAfter :: "int option"

definition ceil_div :: "int \<Rightarrow> int \<Rightarrow> int" where "ceil_div a b = - ((- a) div b)"

text \<open>What the middleware reads of the request: the key of the route, \<open>req.ip\<close> and the remote
  address. It returns the headers it set, or the error it gave to \<open>next\<close>.\<close>

definition rate_key :: "string \<Rightarrow> string \<Rightarrow> int \<Rightarrow> int \<Rightarrow> string" where
  "rate_key name identity now windowMs = ''gridproof:rate-limit:'' @ name @ '':'' @ identity @ '':'' @
     int_string (now div windowMs)"

record rate_limit_options =
  rlo_name :: string
  rlo_max :: "int option"
  rlo_windowMs :: "int option"

definition rateLimit :: "env \<Rightarrow> redis \<Rightarrow> rate_limit_options \<Rightarrow> string option \<Rightarrow> string option \<Rightarrow> string option \<Rightarrow>
    (rate_headers \<times> js_error option) act" where
  "rateLimit env rd opts key ip remoteAddress =
     bindS (getS w_now) (\<lambda>now.
     let windowMs = or_else (rlo_windowMs opts) (envInt env ''INGEST_RATE_LIMIT_WINDOW_MS'' DEFAULT_WINDOW_MS);
         max_requests = or_else (rlo_max opts) (envInt env ''INGEST_RATE_LIMIT_MAX'' DEFAULT_MAX_REQUESTS);
         identity = normalizeIdentity_rate (or_else key (or_else ip (or_else remoteAddress ''unknown''))) in
     bindS (incrementRateLimit env rd (rate_key (rlo_name opts) identity now windowMs) windowMs) (\<lambda>result.
     let exceeded = opt_any (\<lambda>c. c > of_int max_requests) (rr_count result);
         headers = \<lparr>rh_limit = max_requests,
           rh_remaining = map_option (\<lambda>c. max 0 (of_int max_requests - c)) (rr_count result),
           rh_reset = ceil_div (rr_resetAt result) 1000,
           rh_retryAfter = (if exceeded then Some (max 1 (ceil_div (rr_resetAt result - now) 1000)) else None)\<rparr>
     in returnS (headers, if exceeded then Some (http_error 429 ''RATE_LIMITED'' ''Rate limit exceeded'') else None)))"

definition clearRateLimitStore :: "world \<Rightarrow> world" where
  "clearRateLimitStore w = w\<lparr>memoryCounters := [], redisFallbackKeys := []\<rparr>"

section \<open>The quota of a window\<close>

text \<open>A client identity in a window, and the requests that a limiter serves from memory.\<close>

record rate_request =
  rq_at :: int
  rq_client :: string

definition rate_window :: "env \<Rightarrow> rate_limit_options \<Rightarrow> int" where
  "rate_window env opts = or_else (rlo_windowMs opts) (envInt env ''INGEST_RATE_LIMIT_WINDOW_MS'' DEFAULT_WINDOW_MS)"

definition rate_max :: "env \<Rightarrow> rate_limit_options \<Rightarrow> int" where
  "rate_max env opts = or_else (rlo_max opts) (envInt env ''INGEST_RATE_LIMIT_MAX'' DEFAULT_MAX_REQUESTS)"

definition rate_slot :: "env \<Rightarrow> rate_limit_options \<Rightarrow> rate_request \<Rightarrow> string \<times> int" where
  "rate_slot env opts r = (normalizeIdentity_rate (rq_client r), rq_at r div rate_window env opts)"

text \<open>Serving a request at its time: whether it was passed on, and the world afterwards.\<close>

definition serve :: "env \<Rightarrow> redis \<Rightarrow> rate_limit_options \<Rightarrow> world \<Rightarrow> rate_request \<Rightarrow> bool \<times> world" where
  "serve env rd opts w r =
     (case rateLimit env rd opts (Some (rq_client r)) None None (w\<lparr>w_now := rq_at r\<rparr>) of
        (Inr (headers, None), w') \<Rightarrow> (True, w')
      | (_, w') \<Rightarrow> (False, w'))"

definition slot_key :: "rate_limit_options \<Rightarrow> string \<times> int \<Rightarrow> string" where
  "slot_key opts slot = ''gridproof:rate-limit:'' @ rlo_name opts @ '':'' @ fst slot @ '':'' @ int_string (snd slot)"

lemma append_last_sep:
  assumes "xs @ c # ys = xs' @ c # ys'" "c \<notin> set ys" "c \<notin> set ys'"
  shows "xs = xs' \<and> ys = ys'"
proof -
  have "takeWhile (\<lambda>x. x \<noteq> c) (rev (xs @ c # ys)) = rev ys" "takeWhile (\<lambda>x. x \<noteq> c) (rev (xs' @ c # ys')) = rev ys'"
    using assms(2,3) by (auto simp: takeWhile_tail)
  with assms(1) have "ys = ys'" by (metis rev_rev_ident)
  with assms(1) show ?thesis by simp
qed

lemma slot_key_inject [simp]: "slot_key opts s = slot_key opts s' \<longleftrightarrow> s = s'"
proof
  assume "slot_key opts s = slot_key opts s'"
  then have "fst s @ CHR '':'' # int_string (snd s) = fst s' @ CHR '':'' # int_string (snd s')"
    by (simp add: slot_key_def)
  from append_last_sep[OF this int_string_no_colon int_string_no_colon] show "s = s'" by (auto simp: prod_eq_iff)
qed simp

definition slot_count :: "rate_limit_options \<Rightarrow> world \<Rightarrow> string \<times> int \<Rightarrow> nat" where
  "slot_count opts w slot = (case jm_get (memoryCounters w) (slot_key opts slot) of
     None \<Rightarrow> 0 | Some c \<Rightarrow> rate_count c)"

definition counters_ok :: "env \<Rightarrow> rate_limit_options \<Rightarrow> world \<Rightarrow> bool" where
  "counters_ok env opts w \<longleftrightarrow> (\<forall>slot c. jm_get (memoryCounters w) (slot_key opts slot) = Some c \<longrightarrow>
     rate_resetAt c = (snd slot + 1) * rate_window env opts)"

lemma bucket_ahead: "0 < windowMs \<Longrightarrow> now < (now div windowMs + 1) * (windowMs :: int)"
  by (metis add.commute add_less_cancel_left div_mult_mod_eq distrib_right mult_1 pos_mod_bound)

lemma serve_run:
  fixes w :: world and r :: rate_request and opts :: rate_limit_options and env :: env and rd :: redis
  assumes "env_set env ''REDIS_URL'' = None" "0 < rate_window env opts" "counters_ok env opts w"
  defines "k \<equiv> slot_key opts (rate_slot env opts r)" and "n \<equiv> Suc (slot_count opts w (rate_slot env opts r))"
  shows "serve env rd opts w r = (int n \<le> rate_max env opts,
    w\<lparr>w_now := rq_at r, memoryCounters := jm_set k
      \<lparr>rate_count = n, rate_resetAt = bucketResetFor (rq_at r) (rate_window env opts)\<rparr> (memoryCounters w)\<rparr>)"
proof -
  have key: "rate_key (rlo_name opts) (normalizeIdentity_rate (rq_client r)) (rq_at r) (rate_window env opts) = k"
    by (simp add: k_def rate_key_def slot_key_def rate_slot_def)
  have inc: "incrementMemoryCounter k (rate_window env opts) (w\<lparr>w_now := rq_at r\<rparr>) =
      (Inr \<lparr>rate_count = n, rate_resetAt = bucketResetFor (rq_at r) (rate_window env opts)\<rparr>,
       w\<lparr>w_now := rq_at r, memoryCounters := jm_set k
        \<lparr>rate_count = n, rate_resetAt = bucketResetFor (rq_at r) (rate_window env opts)\<rparr> (memoryCounters w)\<rparr>)"
  proof (cases "jm_get (memoryCounters w) k")
    case None
    then show ?thesis by (simp add: incrementMemoryCounter_def n_def slot_count_def k_def Let_def)
  next
    case (Some c)
    then have "rate_resetAt c = bucketResetFor (rq_at r) (rate_window env opts)"
      using assms(3) by (auto simp: counters_ok_def k_def rate_slot_def bucketResetFor_def)
    moreover have "\<not> bucketResetFor (rq_at r) (rate_window env opts) \<le> rq_at r"
      using bucket_ahead[OF assms(2), of "rq_at r"] by (simp add: bucketResetFor_def not_le)
    ultimately show ?thesis using Some
      by (cases c) (simp add: incrementMemoryCounter_def n_def slot_count_def k_def Let_def)
  qed
  show ?thesis
    unfolding serve_def rateLimit_def incrementRateLimit_def
    using assms(1) inc key
    by (simp add: bindS_Inr Let_def rate_window_def[symmetric] rate_max_def[symmetric])
qed

interpretation limiter: quota_store "slot_count opts" "serve env rd opts" "rate_slot env opts"
  "\<lambda>w. counters_ok env opts w \<and> env_set env ''REDIS_URL'' = None \<and> 0 < rate_window env opts" "nat (rate_max env opts)"
  for env rd opts
proof unfold_locales
  fix w r slot
  assume w: "counters_ok env opts w \<and> env_set env ''REDIS_URL'' = None \<and> 0 < rate_window env opts"
  note run = serve_run[of env opts w rd r]
  show "fst (serve env rd opts w r) \<longleftrightarrow> slot_count opts w (rate_slot env opts r) < nat (rate_max env opts)"
    using w run by auto
  show "slot_count opts (snd (serve env rd opts w r)) slot =
      (if slot = rate_slot env opts r then Suc (slot_count opts w slot) else slot_count opts w slot)"
    using w run by (simp add: slot_count_def)
  show "counters_ok env opts (snd (serve env rd opts w r)) \<and> env_set env ''REDIS_URL'' = None \<and> 0 < rate_window env opts"
    using w run by (auto simp: counters_ok_def bucketResetFor_def rate_slot_def)
qed

text \<open>C26. The memory rate limiter passes exactly its quota: whatever requests arrive, in whatever order
  of their times and from whatever clients, of the requests of one client identity in one window
  exactly the first \<open>max\<close> are passed on and the others are refused.\<close>

theorem quota_per_window:
  assumes "env_set env ''REDIS_URL'' = None" "0 < rate_window env opts" "memoryCounters w = []"
  shows "accepted (rate_slot env opts) slot (offer_all (serve env rd opts) w requests) =
    min (nat (rate_max env opts)) (length (filter (\<lambda>r. rate_slot env opts r = slot) requests))"
proof -
  have "counters_ok env opts w \<and> env_set env ''REDIS_URL'' = None \<and> 0 < rate_window env opts"
    using assms by (simp add: counters_ok_def)
  from limiter.accepted_quota[OF this] assms(3) show ?thesis by (simp add: slot_count_def)
qed

definition sample_redis :: redis where
  "sample_redis = \<lparr>rd_url = (\<lambda>s. Inl (plain_error ''no url'')), rd_connect = (\<lambda>t h p ms. Inr ()),
     rd_decode = (\<lambda>s. s), rd_reply = (\<lambda>s. Inl (plain_error ''no reply''))\<rparr>"

definition sample_limit :: rate_limit_options where
  "sample_limit = \<lparr>rlo_name = ''report'', rlo_max = Some 2, rlo_windowMs = Some 60000\<rparr>"

theorem quota_per_window_witness:
  "accepted (rate_slot (\<lambda>name. None) sample_limit) (''0xab'', 0)
     (offer_all (serve (\<lambda>name. None) sample_redis sample_limit) (empty_world 0)
       [\<lparr>rq_at = 1, rq_client = ''0xAB''\<rparr>, \<lparr>rq_at = 2, rq_client = '' 0xab''\<rparr>, \<lparr>rq_at = 3, rq_client = ''0xab''\<rparr>]) = 2"
proof -
  have slots: "rate_slot (\<lambda>name. None) sample_limit \<lparr>rq_at = 1, rq_client = ''0xAB''\<rparr> = (''0xab'', 0)"
    "rate_slot (\<lambda>name. None) sample_limit \<lparr>rq_at = 2, rq_client = '' 0xab''\<rparr> = (''0xab'', 0)"
    "rate_slot (\<lambda>name. None) sample_limit \<lparr>rq_at = 3, rq_client = ''0xab''\<rparr> = (''0xab'', 0)"
    by code_simp+
  have "env_set (\<lambda>name. None) ''REDIS_URL'' = None" "0 < rate_window (\<lambda>name. None) sample_limit"
    "memoryCounters (empty_world 0) = []" "rate_max (\<lambda>name. None) sample_limit = 2"
    by (simp_all add: env_set_def rate_window_def rate_max_def sample_limit_def empty_world_def)
  with quota_per_window[of "\<lambda>name. None" sample_limit "empty_world 0"] show ?thesis by (simp add: slots del: offer_all.simps)
qed

end
