(* ===== verification/Auth.thy ===== *)
theory Auth imports Middleware begin

section \<open>Authentication\<close>

text \<open>
  \<open>modules/auth/middleware.ts\<close>, \<open>modules/auth/service.ts\<close> and \<open>modules/auth/routes.ts\<close>: signed
  session tokens, roles and registration. The codec of the tokens is a parameter \<open>jwt_codec\<close>: the
  base64url form of \<open>JSON.stringify\<close> and its inverse, the base64url HMAC-SHA256 and the message of a
  zod error. A dot is never part of base64url.
\<close>

subsection \<open>Roles\<close>

text \<open>The ranks order the roles: the class of linear orders of the library.\<close>

fun ROLE_RANK :: "user_role \<Rightarrow> nat" where
  "ROLE_RANK Public = 0"
| "ROLE_RANK Reporter = 1"
| "ROLE_RANK Reviewer = 2"
| "ROLE_RANK Admin = 3"

instantiation user_role :: linorder
begin

definition less_eq_user_role :: "user_role \<Rightarrow> user_role \<Rightarrow> bool" where
  "less_eq_user_role a b \<longleftrightarrow> ROLE_RANK a \<le> ROLE_RANK b"

definition less_user_role :: "user_role \<Rightarrow> user_role \<Rightarrow> bool" where
  "less_user_role a b \<longleftrightarrow> ROLE_RANK a < ROLE_RANK b"

instance
proof
  fix a b c :: user_role
  show "(a < b) = (a \<le> b \<and> \<not> b \<le> a)" by (auto simp: less_eq_user_role_def less_user_role_def)
  show "a \<le> a" by (simp add: less_eq_user_role_def)
  show "a \<le> b \<Longrightarrow> b \<le> c \<Longrightarrow> a \<le> c" by (simp add: less_eq_user_role_def)
  show "a \<le> b \<Longrightarrow> b \<le> a \<Longrightarrow> a = b" by (cases a; cases b; simp add: less_eq_user_role_def)
  show "a \<le> b \<or> b \<le> a" by (auto simp: less_eq_user_role_def)
qed

end

lemmas role_order = less_eq_user_role_def less_user_role_def

definition hasRole :: "user_role \<Rightarrow> user_role \<Rightarrow> bool" where
  "hasRole actual required \<longleftrightarrow> ROLE_RANK actual \<ge> ROLE_RANK required"

lemma hasRole_iff: "hasRole actual required \<longleftrightarrow> required \<le> actual"
  by (simp add: hasRole_def role_order)

subsection \<open>Tokens\<close>

record jwt_codec =
  jc_formats :: zod_formats
  jc_encode :: "json \<Rightarrow> string"
  jc_decode :: "string \<Rightarrow> json res"
  jc_sign :: "string \<Rightarrow> string \<Rightarrow> string"
  jc_zod_message :: "user \<Rightarrow> string"

record auth_context =
  au_user :: user
  au_tokenPayload :: json

record session_token =
  st_token :: string
  st_expiresAt :: string

definition LOCAL_DEV_JWT_SECRET :: string where
  "LOCAL_DEV_JWT_SECRET = ''gridproof-local-dev-jwt-secret''"

definition jwtSecret :: "env \<Rightarrow> string res" where
  "jwtSecret env =
     (let configuredSecret = (case env ''SUPABASE_JWT_SECRET'' of
            Some v \<Rightarrow> Some v | None \<Rightarrow> env ''GRIDPROOF_DEV_JWT_SECRET'') in
      case configuredSecret of
        Some v \<Rightarrow>
          if v \<noteq> [] then Inr v
          else if \<not> is_production env then Inr LOCAL_DEV_JWT_SECRET
          else Inl (plain_error ''SUPABASE_JWT_SECRET is not configured'')
      | None \<Rightarrow>
          if \<not> is_production env then Inr LOCAL_DEV_JWT_SECRET
          else Inl (plain_error ''SUPABASE_JWT_SECRET is not configured''))"

text \<open>Reading a property of a parsed value: null throws, other values that are not objects have none of
  the properties read here.\<close>

definition json_prop :: "json \<Rightarrow> string \<Rightarrow> json option res" where
  "json_prop v name =
     (case v of
        JNull \<Rightarrow> Inl (plain_error (''Cannot read properties of null (reading '' @ [CHR 0x27] @ name @ [CHR 0x27] @ '')''))
      | JObj kvs \<Rightarrow> Inr (map_of kvs name)
      | _ \<Rightarrow> Inr None)"

definition stringClaim :: "json option \<Rightarrow> string option" where
  "stringClaim value = (case value of Some (JStr s) \<Rightarrow> if 0 < length s then Some s else None | _ \<Rightarrow> None)"

definition roleFromMetadata :: "json option \<Rightarrow> string option" where
  "roleFromMetadata metadata = (case metadata of
     Some (JObj kvs) \<Rightarrow> stringClaim (map_of kvs ''role'')
   | _ \<Rightarrow> None)"

text \<open>The payload as an object; the properties of another value are undefined.\<close>

definition payload_fields :: "json \<Rightarrow> json_object" where
  "payload_fields payload = (case payload of JObj kvs \<Rightarrow> kvs | _ \<Rightarrow> [])"

definition roleFromPayload :: "json \<Rightarrow> user_role" where
  "roleFromPayload payload =
     (let p = map_of (payload_fields payload);
          role = or_else (roleFromMetadata (p ''app_metadata''))
            (or_else (roleFromMetadata (p ''user_metadata'')) (or_else (stringClaim (p ''role'')) ''public''))
      in or_else (parse_role role) Public)"

definition assertTemporalClaims :: "int \<Rightarrow> json \<Rightarrow> unit res" where
  "assertTemporalClaims now_ms payload =
     (let now = of_int (now_ms div 1000) in
      bindR (json_prop payload ''exp'') (\<lambda>expiry.
      if (case expiry of Some (JNum e) \<Rightarrow> e \<le> now | _ \<Rightarrow> False) then Inl (plain_error ''Bearer token is expired'')
      else if (case map_of (payload_fields payload) ''nbf'' of Some (JNum n) \<Rightarrow> n > now | _ \<Rightarrow> False)
      then Inl (plain_error ''Bearer token is not active yet'')
      else Inr ()))"

text \<open>\<open>new Date(seconds * 1000).toISOString()\<close> throws outside the range of dates.\<close>

definition iso_of_seconds :: "rat \<Rightarrow> string res" where
  "iso_of_seconds seconds =
     (let ms = fmul seconds 1000; t = (if 0 \<le> ms then \<lfloor>ms\<rfloor> else - \<lfloor>- ms\<rfloor>) in
      if \<bar>t\<bar> \<le> 8640000000000000 then Inr (to_iso t) else Inl (plain_error ''Invalid time value''))"

definition userFromPayload :: "jwt_codec \<Rightarrow> int \<Rightarrow> json \<Rightarrow> user res" where
  "userFromPayload jc now_ms payload =
     (let p = map_of (payload_fields payload) in
      case p ''sub'' of
        Some (JStr sub) \<Rightarrow>
          bindR (iso_of_seconds (case p ''iat'' of Some (JNum i) \<Rightarrow> i | _ \<Rightarrow> of_int (now_ms div 1000))) (\<lambda>createdAt.
          let u = \<lparr>us_id = sub, us_role = roleFromPayload payload,
                us_phoneOrEmail = or_else (stringClaim (p ''email'')) (or_else (stringClaim (p ''phone'')) sub),
                us_createdAt = createdAt\<rparr>
          in if userSchema (jc_formats jc) u then Inr u else Inl (plain_error (jc_zod_message jc u)))
      | _ \<Rightarrow> Inl (plain_error ''Bearer token is missing a subject''))"

definition verifyBearerToken :: "env \<Rightarrow> jwt_codec \<Rightarrow> int \<Rightarrow> string \<Rightarrow> auth_context res" where
  "verifyBearerToken env jc now_ms token =
     (case split_on CHR ''.'' token of
        encodedHeader # encodedPayload # signature # _ \<Rightarrow>
          if encodedHeader = [] \<or> encodedPayload = [] \<or> signature = []
          then Inl (plain_error ''Bearer token must be a signed JWT'')
          else
            bindR (jc_decode jc encodedHeader) (\<lambda>header.
            bindR (json_prop header ''alg'') (\<lambda>alg.
            if alg \<noteq> Some (JStr ''HS256'')
            then Inl (plain_error ''Only HS256 Supabase-compatible JWTs are supported'')
            else
              bindR (jwtSecret env) (\<lambda>secret.
              if signature \<noteq> jc_sign jc secret (encodedHeader @ ''.'' @ encodedPayload)
              then Inl (plain_error ''Bearer token signature is invalid'')
              else
                bindR (jc_decode jc encodedPayload) (\<lambda>payload.
                bindR (assertTemporalClaims now_ms payload) (\<lambda>_.
                bindR (userFromPayload jc now_ms payload) (\<lambda>u.
                Inr \<lparr>au_user = u, au_tokenPayload = payload\<rparr>))))))
      | _ \<Rightarrow> Inl (plain_error ''Bearer token must be a signed JWT''))"

definition JWT_HEADER :: json where
  "JWT_HEADER = JObj [(''alg'', JStr ''HS256''), (''typ'', JStr ''JWT'')]"

text \<open>The payload of a session of a user from \<open>now\<close> to \<open>expiry\<close>, in seconds.\<close>

definition session_payload :: "user \<Rightarrow> int \<Rightarrow> int \<Rightarrow> json" where
  "session_payload u now expiry = JObj
     ([(''sub'', JStr (us_id u))] @
      (if CHR ''@'' \<in> set (us_phoneOrEmail u) then [(''email'', JStr (us_phoneOrEmail u))]
       else [(''phone'', JStr (us_phoneOrEmail u))]) @
      [(''iat'', JNum (of_int now)), (''exp'', JNum (of_int expiry)),
       (''app_metadata'', JObj [(''role'', JStr (role_string (us_role u)))])])"

definition createSessionToken :: "env \<Rightarrow> jwt_codec \<Rightarrow> int \<Rightarrow> user \<Rightarrow> int \<Rightarrow> session_token res" where
  "createSessionToken env jc now_ms u expiresInSeconds =
     (let now = now_ms div 1000; expiry = now + expiresInSeconds;
          header = jc_encode jc JWT_HEADER; payload = jc_encode jc (session_payload u now expiry) in
      bindR (jwtSecret env) (\<lambda>secret.
      bindR (iso_of_seconds (of_int expiry)) (\<lambda>expiresAt.
      Inr \<lparr>st_token = header @ ''.'' @ payload @ ''.'' @ jc_sign jc secret (header @ ''.'' @ payload),
        st_expiresAt = expiresAt\<rparr>)))"

subsection \<open>Guards\<close>

text \<open>The header \<open>authorization\<close> of the request, when it has one.\<close>

definition bearerToken :: "string option \<Rightarrow> string option" where
  "bearerToken header =
     (case header of
        None \<Rightarrow> None
      | Some h \<Rightarrow>
          if h = [] then None
          else case split_on CHR '' '' h of
            scheme # token # _ \<Rightarrow> if to_lower scheme \<noteq> ''bearer'' \<or> token = [] then None else Some token
          | _ \<Rightarrow> None)"

definition authError :: "string \<Rightarrow> string \<Rightarrow> nat \<Rightarrow> js_error" where
  "authError c m st = http_error st c m"

definition optionalAuth :: "env \<Rightarrow> jwt_codec \<Rightarrow> int \<Rightarrow> string option \<Rightarrow> auth_context option res" where
  "optionalAuth env jc now_ms header =
     (case bearerToken header of
        None \<Rightarrow> Inr None
      | Some token \<Rightarrow> (case verifyBearerToken env jc now_ms token of
          Inr auth \<Rightarrow> Inr (Some auth)
        | Inl error \<Rightarrow> Inl (authError ''UNAUTHENTICATED'' (message error) 401)))"

definition requireAuth :: "env \<Rightarrow> jwt_codec \<Rightarrow> user_role list \<Rightarrow> int \<Rightarrow> string option \<Rightarrow> auth_context res" where
  "requireAuth env jc roles now_ms header =
     (case bearerToken header of
        None \<Rightarrow> Inl (authError ''UNAUTHENTICATED'' ''A valid bearer token is required'' 401)
      | Some token \<Rightarrow> (case verifyBearerToken env jc now_ms token of
          Inr auth \<Rightarrow>
            if 0 < length roles \<and> \<not> list_ex (\<lambda>role. hasRole (us_role (au_user auth)) role) roles
            then Inl (authError ''FORBIDDEN'' ''User role is not allowed to access this route'' 403)
            else Inr auth
        | Inl error \<Rightarrow> Inl (authError ''UNAUTHENTICATED'' (message error) 401)))"

subsection \<open>Registration\<close>

record register_request =
  rg_phoneOrEmail :: string
  rg_role :: user_role
  rg_inviteCode :: "string option"

text \<open>The role of a request is never public; a missing role is reporter.\<close>

definition authRegisterRequestSchema :: "register_request \<Rightarrow> bool" where
  "authRegisterRequestSchema r \<longleftrightarrow> 3 \<le> length (rg_phoneOrEmail r) \<and> rg_role r \<noteq> Public \<and>
     opt_all (\<lambda>c. 1 \<le> length c) (rg_inviteCode r)"

definition authLoginRequestSchema :: "string \<Rightarrow> bool" where
  "authLoginRequestSchema phoneOrEmail \<longleftrightarrow> 3 \<le> length phoneOrEmail"

definition assertRoleAllowed :: "env \<Rightarrow> user_role \<Rightarrow> string option \<Rightarrow> unit res" where
  "assertRoleAllowed env role inviteCode =
     (if role = Reporter then Inr ()
      else case env_set env ''GRIDPROOF_AUTH_INVITE_CODE'' of
        None \<Rightarrow> Inl (http_error 403 ''INVITE_REQUIRED'' ''An invite code is required for reviewer/admin registration'')
      | Some expected \<Rightarrow>
          if inviteCode \<noteq> Some expected
          then Inl (http_error 403 ''INVITE_REQUIRED'' ''An invite code is required for reviewer/admin registration'')
          else Inr ())"

definition normalizeIdentity :: "string \<Rightarrow> string" where
  "normalizeIdentity phoneOrEmail = to_lower (trim phoneOrEmail)"

definition highestRole :: "user_role \<Rightarrow> user_role \<Rightarrow> user_role" where
  "highestRole current requested = (if ROLE_RANK requested > ROLE_RANK current then requested else current)"

text \<open>The \<open>case\<close> of the statement, on the stored role and the excluded one.\<close>

definition sql_role_case :: "user_role \<Rightarrow> user_role \<Rightarrow> user_role" where
  "sql_role_case stored excluded =
     (if excluded = Admin then Admin
      else if excluded = Reviewer \<and> (stored = Public \<or> stored = Reporter) then Reviewer
      else if excluded = Reporter \<and> stored = Public then Reporter
      else stored)"

definition publicAuditUser :: "user \<Rightarrow> json" where
  "publicAuditUser u = JObj [(''id'', JStr (us_id u)), (''role'', JStr (role_string (us_role u))),
     (''phoneOrEmail'', JStr (us_phoneOrEmail u))]"

definition mapUserRow :: "user_row \<Rightarrow> user" where
  "mapUserRow row = \<lparr>us_id = ur_id row, us_role = ur_role row, us_phoneOrEmail = ur_phone_or_email row,
     us_createdAt = to_iso (ur_created_at row)\<rparr>"

definition user_audit :: "user \<Rightarrow> string \<Rightarrow> user option \<Rightarrow> append_audit_log_input" where
  "user_audit u action before =
     \<lparr>in_actorUserId = Some (us_id u), in_subjectProviderId = None, in_action = action,
      in_before = map_option (\<lambda>b. [(''user'', publicAuditUser b)]) before,
      in_after = Some [(''user'', publicAuditUser u)]\<rparr>"

definition registerUser :: "runtime \<Rightarrow> register_request \<Rightarrow> user act" where
  "registerUser rt input =
     bindS (liftS (assertRoleAllowed (rt_env rt) (rg_role input) (rg_inviteCode input))) (\<lambda>_.
     let phoneOrEmail = normalizeIdentity (rg_phoneOrEmail input) in
     if \<not> isDatabaseConfigured rt
     then bindS (getS (\<lambda>w. jm_get (memoryUsersByIdentity w) phoneOrEmail)) (\<lambda>found.
       case found of
         Some existing \<Rightarrow>
           let nextRole = highestRole (us_role existing) (rg_role input) in
           if nextRole = us_role existing then returnS existing
           else let upgraded = existing\<lparr>us_role := nextRole\<rparr> in
             bindS (modifyS (\<lambda>w. w\<lparr>memoryUsersByIdentity := jm_set phoneOrEmail upgraded (memoryUsersByIdentity w)\<rparr>)) (\<lambda>_.
             bindS (appendAuditLog rt (user_audit upgraded ''user.role_upgraded'' (Some existing))) (\<lambda>_.
             returnS upgraded))
       | None \<Rightarrow>
           bindS (randomUUID rt) (\<lambda>uuid.
           bindS (getS w_now) (\<lambda>now.
           let u = \<lparr>us_id = uuid, us_role = rg_role input, us_phoneOrEmail = phoneOrEmail,
                 us_createdAt = to_iso now\<rparr> in
           bindS (modifyS (\<lambda>w. w\<lparr>memoryUsersByIdentity := jm_set phoneOrEmail u (memoryUsersByIdentity w)\<rparr>)) (\<lambda>_.
           bindS (appendAuditLog rt (user_audit u ''user.registered'' None)) (\<lambda>_.
           returnS u)))))
     else
       bindS (randomUUID rt) (\<lambda>uuid.
       bindS (getS (\<lambda>w. sql_upsert ur_phone_or_email
           (\<lambda>r. r\<lparr>ur_role := sql_role_case (ur_role r) (rg_role input)\<rparr>)
           \<lparr>ur_id = uuid, ur_role = rg_role input, ur_phone_or_email = phoneOrEmail, ur_created_at = w_now w\<rparr>
           (t_users (db w)))) (\<lambda>(row, rows).
       bindS (modify_db (\<lambda>t. t\<lparr>t_users := rows\<rparr>)) (\<lambda>_.
       let u = mapUserRow row in
       bindS (appendAuditLog rt (user_audit u ''user.registered'' None)) (\<lambda>_.
       returnS u)))))"

definition findUserForLogin :: "runtime \<Rightarrow> string \<Rightarrow> world \<Rightarrow> user option" where
  "findUserForLogin rt phoneOrEmail w =
     (let normalized = normalizeIdentity phoneOrEmail in
      if \<not> isDatabaseConfigured rt then jm_get (memoryUsersByIdentity w) normalized
      else map_option mapUserRow (sql_find ur_phone_or_email (t_users (db w)) normalized))"

definition clearAuthStore :: "world \<Rightarrow> world" where
  "clearAuthStore w = w\<lparr>memoryUsersByIdentity := []\<rparr>"

subsection \<open>Routes\<close>

record auth_session_response =
  as_user :: user
  as_session :: session_token

definition authSessionResponseSchema :: "zod_formats \<Rightarrow> auth_session_response \<Rightarrow> bool" where
  "authSessionResponseSchema F r \<longleftrightarrow> userSchema F (as_user r) \<and> 20 \<le> length (st_token (as_session r)) \<and>
     isoDateTimeSchema F (st_expiresAt (as_session r))"

text \<open>A response schema that fails throws inside the handler.\<close>

definition respond :: "js_error \<Rightarrow> ('a \<Rightarrow> bool) \<Rightarrow> nat \<Rightarrow> 'a \<Rightarrow> (nat \<times> 'a) act" where
  "respond zod_error schema status body = (if schema body then returnS (status, body) else throwS zod_error)"

definition me_route :: "env \<Rightarrow> jwt_codec \<Rightarrow> string option \<Rightarrow> user option act" where
  "me_route env jc header = bindS (getS w_now) (\<lambda>now.
     bindS (liftS (optionalAuth env jc now header)) (\<lambda>auth. returnS (map_option au_user auth)))"

definition register_route :: "runtime \<Rightarrow> jwt_codec \<Rightarrow> register_request \<Rightarrow> (nat \<times> auth_session_response) act" where
  "register_route rt jc body =
     bindS (liftS (validateBody (\<lambda>b. if authRegisterRequestSchema b then Some b else None) body)) (\<lambda>input.
     bindS (registerUser rt input) (\<lambda>u.
     bindS (getS w_now) (\<lambda>now.
     bindS (liftS (createSessionToken (rt_env rt) jc now u 3600)) (\<lambda>session.
     respond (plain_error (jc_zod_message jc u)) (authSessionResponseSchema (jc_formats jc)) 201
       \<lparr>as_user = u, as_session = session\<rparr>))))"

definition login_route :: "runtime \<Rightarrow> jwt_codec \<Rightarrow> string \<Rightarrow> (nat \<times> auth_session_response) act" where
  "login_route rt jc body =
     bindS (liftS (validateBody (\<lambda>b. if authLoginRequestSchema b then Some b else None) body)) (\<lambda>phoneOrEmail.
     bindS (getS (findUserForLogin rt phoneOrEmail)) (\<lambda>found.
     case found of
       None \<Rightarrow> throwS (http_error 404 ''USER_NOT_FOUND'' ''User is not registered'')
     | Some u \<Rightarrow>
         bindS (getS w_now) (\<lambda>now.
         bindS (liftS (createSessionToken (rt_env rt) jc now u 3600)) (\<lambda>session.
         respond (plain_error (jc_zod_message jc u)) (authSessionResponseSchema (jc_formats jc)) 200
           \<lparr>as_user = u, as_session = session\<rparr>))))"

end
