(* ===== verification/Demo_Zones.thy ===== *)
theory Demo_Zones imports Domain begin

section \<open>Distribution companies and demo zones\<close>

text \<open>
  \<open>packages/shared-types/src/discos.ts\<close> and \<open>demo-zones.ts\<close>: the eleven distribution companies, the
  company of a feeder code, and the zones that the API and the web app show without a database.
\<close>

subsection \<open>discos.ts\<close>

datatype disco_code = AEDC | BEDC | EEDC | EKEDC | IBEDC | IKEDC | JED | KAEDCO | KEDCO | PHED | YEDC

fun disco_string :: "disco_code \<Rightarrow> string" where
  "disco_string AEDC = ''AEDC''"
| "disco_string BEDC = ''BEDC''"
| "disco_string EEDC = ''EEDC''"
| "disco_string EKEDC = ''EKEDC''"
| "disco_string IBEDC = ''IBEDC''"
| "disco_string IKEDC = ''IKEDC''"
| "disco_string JED = ''JED''"
| "disco_string KAEDCO = ''KAEDCO''"
| "disco_string KEDCO = ''KEDCO''"
| "disco_string PHED = ''PHED''"
| "disco_string YEDC = ''YEDC''"

definition disco_codes :: "disco_code list" where
  "disco_codes = [AEDC, BEDC, EEDC, EKEDC, IBEDC, IKEDC, JED, KAEDCO, KEDCO, PHED, YEDC]"

text \<open>\<open>discoCodeSchema.safeParse\<close>.\<close>

definition parse_disco :: "string \<Rightarrow> disco_code option" where
  "parse_disco s = List.find (\<lambda>c. disco_string c = s) disco_codes"

record disco =
  di_code :: disco_code
  di_name :: string
  di_headquarters :: string
  di_states :: "string list"
  di_lat :: rat
  di_lng :: rat

definition discoSchema :: "disco \<Rightarrow> bool" where
  "discoSchema d \<longleftrightarrow> 1 \<le> length (di_name d) \<and> 1 \<le> length (di_headquarters d) \<and>
     list_all (\<lambda>s. 1 \<le> length s) (di_states d) \<and> 1 \<le> length (di_states d) \<and>
     - 90 \<le> di_lat d \<and> di_lat d \<le> 90 \<and> - 180 \<le> di_lng d \<and> di_lng d \<le> 180"

definition DISCOS :: "disco list" where
  "DISCOS = [
   \<lparr>di_code = AEDC, di_name = ''Abuja Electricity Distribution Company'', di_headquarters = ''Abuja'',
    di_states = [''FCT'', ''Niger'', ''Kogi'', ''Nasarawa''], di_lat = fl (90765 / 10000), di_lng = fl (73986 / 10000)\<rparr>,
   \<lparr>di_code = BEDC, di_name = ''Benin Electricity Distribution Company'', di_headquarters = ''Benin City'',
    di_states = [''Edo'', ''Delta'', ''Ondo'', ''Ekiti''], di_lat = fl (6335 / 1000), di_lng = fl (56037 / 10000)\<rparr>,
   \<lparr>di_code = EEDC, di_name = ''Enugu Electricity Distribution Company'', di_headquarters = ''Enugu'',
    di_states = [''Enugu'', ''Anambra'', ''Imo'', ''Abia'', ''Ebonyi''], di_lat = fl (64584 / 10000), di_lng = fl (75464 / 10000)\<rparr>,
   \<lparr>di_code = EKEDC, di_name = ''Eko Electricity Distribution Company'', di_headquarters = ''Lagos'',
    di_states = [''Lagos''], di_lat = fl (64474 / 10000), di_lng = fl (33903 / 10000)\<rparr>,
   \<lparr>di_code = IBEDC, di_name = ''Ibadan Electricity Distribution Company'', di_headquarters = ''Ibadan'',
    di_states = [''Oyo'', ''Ogun'', ''Osun'', ''Kwara''], di_lat = fl (73775 / 10000), di_lng = fl (3947 / 1000)\<rparr>,
   \<lparr>di_code = IKEDC, di_name = ''Ikeja Electric'', di_headquarters = ''Lagos'',
    di_states = [''Lagos''], di_lat = fl (66018 / 10000), di_lng = fl (33515 / 10000)\<rparr>,
   \<lparr>di_code = JED, di_name = ''Jos Electricity Distribution Company'', di_headquarters = ''Jos'',
    di_states = [''Plateau'', ''Bauchi'', ''Benue'', ''Gombe''], di_lat = fl (98965 / 10000), di_lng = fl (88583 / 10000)\<rparr>,
   \<lparr>di_code = KAEDCO, di_name = ''Kaduna Electricity Distribution Company'', di_headquarters = ''Kaduna'',
    di_states = [''Kaduna'', ''Sokoto'', ''Kebbi'', ''Zamfara''], di_lat = fl (105222 / 10000), di_lng = fl (74383 / 10000)\<rparr>,
   \<lparr>di_code = KEDCO, di_name = ''Kano Electricity Distribution Company'', di_headquarters = ''Kano'',
    di_states = [''Kano'', ''Jigawa'', ''Katsina''], di_lat = fl (120022 / 10000), di_lng = fl (8592 / 1000)\<rparr>,
   \<lparr>di_code = PHED, di_name = ''Port Harcourt Electricity Distribution Company'', di_headquarters = ''Port Harcourt'',
    di_states = [''Rivers'', ''Bayelsa'', ''Cross River'', ''Akwa Ibom''], di_lat = fl (48156 / 10000), di_lng = fl (70498 / 10000)\<rparr>,
   \<lparr>di_code = YEDC, di_name = ''Yola Electricity Distribution Company'', di_headquarters = ''Yola'',
    di_states = [''Adamawa'', ''Borno'', ''Yobe'', ''Taraba''], di_lat = fl (92035 / 10000), di_lng = fl (124954 / 10000)\<rparr>]"

definition getDisco :: "disco_code \<Rightarrow> disco res" where
  "getDisco c = (case map_of (map (\<lambda>d. (di_code d, d)) DISCOS) c of
     Some d \<Rightarrow> Inr d
   | None \<Rightarrow> Inl (plain_error (''Unknown DisCo code: '' @ disco_string c)))"

definition discoCodeFromFeederCode :: "string \<Rightarrow> disco_code option" where
  "discoCodeFromFeederCode feederCode =
     (let first = hd (split_on CHR ''-'' (to_upper (trim feederCode))) in
      if first = [] then None else parse_disco first)"

subsection \<open>demo-zones.ts\<close>

record demo_zone = zone +
  dz_latestStatus :: evidence_status
  dz_latestUptimeBps :: "int option"
  dz_latestVoltage :: "rat option"
  dz_latestCurrentAmps :: "rat option"

record demo_seed =
  sd_disco :: disco_code
  sd_area :: string
  sd_feeder :: string
  sd_name :: string
  sd_region :: string
  sd_lat :: rat
  sd_lng :: rat
  sd_status :: evidence_status
  sd_uptimeBps :: "int option"

definition SEEDS :: "demo_seed list" where
  "SEEDS = [
   \<lparr>sd_disco = IBEDC, sd_area = ''OGB'', sd_feeder = ''A'', sd_name = ''Ogbomoso Feeder A'', sd_region = ''Oyo'',
    sd_lat = fl (8133 / 1000), sd_lng = fl (425 / 100), sd_status = GridUp, sd_uptimeBps = Some 9675\<rparr>,
   \<lparr>sd_disco = IBEDC, sd_area = ''OGB'', sd_feeder = ''B'', sd_name = ''Ogbomoso Feeder B'', sd_region = ''Oyo'',
    sd_lat = fl (8151 / 1000), sd_lng = fl (4238 / 1000), sd_status = GridDown, sd_uptimeBps = Some 6420\<rparr>,
   \<lparr>sd_disco = IBEDC, sd_area = ''STAD'', sd_feeder = ''1'', sd_name = ''Stadium Road Cluster'', sd_region = ''Oyo'',
    sd_lat = fl (8116 / 1000), sd_lng = fl (4266 / 1000), sd_status = Unknown, sd_uptimeBps = None\<rparr>,
   \<lparr>sd_disco = AEDC, sd_area = ''GRK'', sd_feeder = ''1'', sd_name = ''Garki District Feeder'', sd_region = ''FCT'',
    sd_lat = fl (90333 / 10000), sd_lng = fl (74894 / 10000), sd_status = GridUp, sd_uptimeBps = Some 9210\<rparr>,
   \<lparr>sd_disco = AEDC, sd_area = ''LOK'', sd_feeder = ''2'', sd_name = ''Lokoja Township'', sd_region = ''Kogi'',
    sd_lat = fl (78023 / 10000), sd_lng = fl (67333 / 10000), sd_status = GridDown, sd_uptimeBps = Some 5840\<rparr>,
   \<lparr>sd_disco = BEDC, sd_area = ''BEN'', sd_feeder = ''1'', sd_name = ''Benin Ring Road'', sd_region = ''Edo'',
    sd_lat = fl (63392 / 10000), sd_lng = fl (56175 / 10000), sd_status = GridUp, sd_uptimeBps = Some 8890\<rparr>,
   \<lparr>sd_disco = BEDC, sd_area = ''AKR'', sd_feeder = ''2'', sd_name = ''Akure Oba-Ile'', sd_region = ''Ondo'',
    sd_lat = fl (72571 / 10000), sd_lng = fl (52058 / 10000), sd_status = GridUp, sd_uptimeBps = Some 8420\<rparr>,
   \<lparr>sd_disco = EEDC, sd_area = ''ENU'', sd_feeder = ''1'', sd_name = ''Enugu New Haven'', sd_region = ''Enugu'',
    sd_lat = fl (64413 / 10000), sd_lng = fl (74988 / 10000), sd_status = GridDown, sd_uptimeBps = Some 6110\<rparr>,
   \<lparr>sd_disco = EEDC, sd_area = ''ONI'', sd_feeder = ''2'', sd_name = ''Onitsha Main Market'', sd_region = ''Anambra'',
    sd_lat = fl (61418 / 10000), sd_lng = fl (68021 / 10000), sd_status = GridUp, sd_uptimeBps = Some 7930\<rparr>,
   \<lparr>sd_disco = EKEDC, sd_area = ''VIC'', sd_feeder = ''1'', sd_name = ''Victoria Island 33kV'', sd_region = ''Lagos'',
    sd_lat = fl (64281 / 10000), sd_lng = fl (34219 / 10000), sd_status = GridUp, sd_uptimeBps = Some 9540\<rparr>,
   \<lparr>sd_disco = EKEDC, sd_area = ''LEK'', sd_feeder = ''2'', sd_name = ''Lekki Phase 1'', sd_region = ''Lagos'',
    sd_lat = fl (64478 / 10000), sd_lng = fl (34723 / 10000), sd_status = GridUp, sd_uptimeBps = Some 9380\<rparr>,
   \<lparr>sd_disco = IKEDC, sd_area = ''IKJ'', sd_feeder = ''1'', sd_name = ''Ikeja GRA'', sd_region = ''Lagos'',
    sd_lat = fl (65833 / 10000), sd_lng = fl (33417 / 10000), sd_status = GridUp, sd_uptimeBps = Some 9120\<rparr>,
   \<lparr>sd_disco = IKEDC, sd_area = ''AGE'', sd_feeder = ''2'', sd_name = ''Agege Feeder'', sd_region = ''Lagos'',
    sd_lat = fl (66152 / 10000), sd_lng = fl (33242 / 10000), sd_status = GridDown, sd_uptimeBps = Some 7260\<rparr>,
   \<lparr>sd_disco = JED, sd_area = ''JOS'', sd_feeder = ''1'', sd_name = ''Jos Bukuru'', sd_region = ''Plateau'',
    sd_lat = fl (98004 / 10000), sd_lng = fl (88583 / 10000), sd_status = GridUp, sd_uptimeBps = Some 8050\<rparr>,
   \<lparr>sd_disco = JED, sd_area = ''MKD'', sd_feeder = ''2'', sd_name = ''Makurdi Township'', sd_region = ''Benue'',
    sd_lat = fl (77322 / 10000), sd_lng = fl (85391 / 10000), sd_status = Unknown, sd_uptimeBps = None\<rparr>,
   \<lparr>sd_disco = KAEDCO, sd_area = ''KAD'', sd_feeder = ''1'', sd_name = ''Kaduna Barnawa'', sd_region = ''Kaduna'',
    sd_lat = fl (104806 / 10000), sd_lng = fl (74239 / 10000), sd_status = GridUp, sd_uptimeBps = Some 8360\<rparr>,
   \<lparr>sd_disco = KAEDCO, sd_area = ''SOK'', sd_feeder = ''2'', sd_name = ''Sokoto Central'', sd_region = ''Sokoto'',
    sd_lat = fl (130059 / 10000), sd_lng = fl (52476 / 10000), sd_status = GridDown, sd_uptimeBps = Some 5320\<rparr>,
   \<lparr>sd_disco = KEDCO, sd_area = ''KAN'', sd_feeder = ''1'', sd_name = ''Kano Bompai'', sd_region = ''Kano'',
    sd_lat = fl (120102 / 10000), sd_lng = fl (85445 / 10000), sd_status = GridUp, sd_uptimeBps = Some 8710\<rparr>,
   \<lparr>sd_disco = KEDCO, sd_area = ''KTS'', sd_feeder = ''2'', sd_name = ''Katsina Central'', sd_region = ''Katsina'',
    sd_lat = fl (129908 / 10000), sd_lng = fl (76018 / 10000), sd_status = GridUp, sd_uptimeBps = Some 7880\<rparr>,
   \<lparr>sd_disco = PHED, sd_area = ''PHC'', sd_feeder = ''1'', sd_name = ''Port Harcourt Trans-Amadi'', sd_region = ''Rivers'',
    sd_lat = fl (48156 / 10000), sd_lng = fl (70134 / 10000), sd_status = GridDown, sd_uptimeBps = Some 6640\<rparr>,
   \<lparr>sd_disco = PHED, sd_area = ''UYO'', sd_feeder = ''2'', sd_name = ''Uyo Ikot Ekpene Road'', sd_region = ''Akwa Ibom'',
    sd_lat = fl (50378 / 10000), sd_lng = fl (79128 / 10000), sd_status = GridUp, sd_uptimeBps = Some 8240\<rparr>,
   \<lparr>sd_disco = YEDC, sd_area = ''YOL'', sd_feeder = ''1'', sd_name = ''Yola Jimeta'', sd_region = ''Adamawa'',
    sd_lat = fl (92795 / 10000), sd_lng = fl (124553 / 10000), sd_status = GridUp, sd_uptimeBps = Some 7410\<rparr>,
   \<lparr>sd_disco = YEDC, sd_area = ''MAI'', sd_feeder = ''2'', sd_name = ''Maiduguri Bolori'', sd_region = ''Borno'',
    sd_lat = fl (118333 / 10000), sd_lng = fl (1315 / 100), sd_status = Unknown, sd_uptimeBps = None\<rparr>]"

definition hex_digit_of :: "nat \<Rightarrow> char" where
  "hex_digit_of d = (if d < 10 then char_of (48 + d) else char_of (87 + d))"

text \<open>\<open>n.toString(16)\<close>, least significant digit last.\<close>

fun hex_of :: "nat \<Rightarrow> string" where
  "hex_of n = (if n < 16 then [hex_digit_of n] else hex_of (n div 16) @ [hex_digit_of (n mod 16)])"

definition pad_start :: "nat \<Rightarrow> string \<Rightarrow> string" where
  "pad_start n s = replicate (n - length s) CHR ''0'' @ s"

definition zoneKey_of_seed :: "nat \<Rightarrow> string" where
  "zoneKey_of_seed seed = ''0x'' @ concat (replicate 16 (pad_start 4 (hex_of seed)))"

definition demoId :: "nat \<Rightarrow> string" where
  "demoId index = ''00000000-0000-4000-8000-'' @ pad_start 12 (hex_of (index + 1))"

definition demo_zone_of :: "nat \<Rightarrow> demo_seed \<Rightarrow> demo_zone" where
  "demo_zone_of index seed =
     \<lparr>zo_id = (if index = 0 then ''8a27f3e2-2608-4a88-b8db-efce68be2a59''
        else if index = 1 then ''378b2fae-55dd-488f-aefd-c9bc17f8d4ff'' else demoId index),
      zo_zoneKey = (if index = 0 then ''0x'' @ replicate 64 CHR ''a''
        else if index = 1 then ''0x'' @ replicate 64 CHR ''b'' else zoneKey_of_seed (index + 16)),
      zo_name = sd_name seed,
      zo_discosFeederCode = disco_string (sd_disco seed) @ ''-'' @ sd_area seed @ ''-'' @ sd_feeder seed,
      zo_region = sd_region seed, zo_lat = sd_lat seed, zo_lng = sd_lng seed,
      dz_latestStatus = sd_status seed, dz_latestUptimeBps = sd_uptimeBps seed,
      dz_latestVoltage = (if sd_status seed = GridUp then Some (of_nat (220 + (index mod 4) * 3))
        else if sd_status seed = GridDown then Some 0 else None),
      dz_latestCurrentAmps = (if sd_status seed = GridUp then Some (of_nat (7 + (index mod 6) * 2))
        else if sd_status seed = GridDown then Some 0 else None)\<rparr>"

definition DEMO_NATIONAL_ZONES :: "demo_zone list" where
  "DEMO_NATIONAL_ZONES = map (\<lambda>(index, seed). demo_zone_of index seed) (enumerate 0 SEEDS)"

section \<open>Every feeder has its company\<close>

lemma disco_codes_all: "c \<in> set disco_codes" "distinct disco_codes"
  by (cases c; simp add: disco_codes_def) (simp add: disco_codes_def)

lemma disco_string_inject [simp]: "disco_string a = disco_string b \<longleftrightarrow> a = b"
  by (cases a; cases b; simp)

lemma parse_disco_string [simp]: "parse_disco (disco_string c) = Some c"
proof -
  have "\<exists>a. List.find (\<lambda>a. disco_string a = disco_string c) disco_codes = Some a"
    using disco_codes_all(1)[of c] by (cases "List.find (\<lambda>a. disco_string a = disco_string c) disco_codes") (auto simp: find_None_iff)
  then show ?thesis by (auto simp: parse_disco_def find_Some_iff)
qed

lemma disco_string_chars: "disco_string c \<noteq> [] \<and> CHR ''-'' \<notin> set (disco_string c)"
  by (cases c) simp_all

lemma disco_string_solid: "list_all (\<lambda>x. \<not> is_space x) (disco_string c)"
  by (cases c; simp only: disco_string.simps; code_simp)

lemma upper_space: "is_space x \<Longrightarrow> upper_char x = x"
  by (auto simp: is_space_def upper_char_def is_lower_def)

lemma trim_middle:
  assumes "list_all is_space blanks" "x \<noteq> []" "list_all (\<lambda>c. \<not> is_space c) x" "\<not> is_space y"
  shows "\<exists>rest'. trim (blanks @ x @ y # rest) = x @ y # rest'"
proof -
  have "dropWhile is_space (blanks @ x @ y # rest) = x @ y # rest"
    using assms(1-3) by (cases x) (auto simp: list_all_iff)
  moreover have "dropWhile is_space (rev rest @ y # rev x) = dropWhile is_space (rev rest) @ y # rev x"
    using assms(4) by (simp add: dropWhile_append3)
  ultimately show ?thesis by (simp add: trim_def)
qed

lemma fl_between: "- 180 \<le> x \<Longrightarrow> x \<le> 180 \<Longrightarrow> - 180 \<le> fl x \<and> fl x \<le> 180" "- 90 \<le> x \<Longrightarrow> x \<le> 90 \<Longrightarrow> - 90 \<le> fl x \<and> fl x \<le> 90"
proof -
  have "fl (- 180) = - 180" "fl (- 90) = - 90" by (simp_all add: fl_minus)
  then show "- 180 \<le> x \<Longrightarrow> x \<le> 180 \<Longrightarrow> - 180 \<le> fl x \<and> fl x \<le> 180"
    "- 90 \<le> x \<Longrightarrow> x \<le> 90 \<Longrightarrow> - 90 \<le> fl x \<and> fl x \<le> 90"
    using fl_mono[of "- 180" x] fl_mono[of x 180] fl_mono[of "- 90" x] fl_mono[of x 90] by simp_all
qed

lemma feeder_disco:
  assumes "list_all is_space blanks" "to_upper feeder = disco_string c"
  shows "discoCodeFromFeederCode (blanks @ feeder @ CHR ''-'' # rest) = Some c"
proof -
  have "list_all (\<lambda>x. \<not> is_space x) feeder"
    using disco_string_solid[of c] unfolding assms(2)[symmetric] list_all_iff by (metis (no_types, lifting) imageI list.set_map upper_space)
  moreover have "feeder \<noteq> []" using disco_string_chars[of c] unfolding assms(2)[symmetric] by auto
  moreover have "\<not> is_space CHR ''-''" by code_simp
  ultimately obtain rest' where "trim (blanks @ feeder @ CHR ''-'' # rest) = feeder @ CHR ''-'' # rest'"
    using trim_middle[OF assms(1)] by blast
  moreover have "upper_char CHR ''-'' = CHR ''-''" by code_simp
  ultimately have "to_upper (trim (blanks @ feeder @ CHR ''-'' # rest)) = disco_string c @ CHR ''-'' # to_upper rest'"
    by (simp add: assms(2))
  then show ?thesis
    using disco_string_chars[of c] by (simp add: discoCodeFromFeederCode_def Let_def split_on_append)
qed

text \<open>A feeder code names its company: with any blanks around it, in any case, and whatever follows
  the first hyphen, the code of a company is read back, and the company that is looked up for it
  exists, has that code and satisfies its schema.\<close>

theorem feeder_code_names_disco:
  assumes "list_all is_space blanks" "to_upper feeder = disco_string c"
  shows "discoCodeFromFeederCode (blanks @ feeder @ CHR ''-'' # rest) = Some c \<and>
    (\<exists>d. getDisco c = Inr d \<and> di_code d = c \<and> discoSchema d)"
  using feeder_disco[OF assms] by (cases c; simp add: getDisco_def DISCOS_def discoSchema_def fl_between)

theorem feeder_code_names_disco_witness:
  "discoCodeFromFeederCode '' ibedc-OGB-A'' = Some IBEDC"
proof -
  have "list_all is_space '' ''" "to_upper ''ibedc'' = disco_string IBEDC" by code_simp+
  from feeder_code_names_disco[OF this, of "''OGB-A''"] show ?thesis by simp
qed

section \<open>The demo zones\<close>

lemma demo_zones_map: "map f DEMO_NATIONAL_ZONES = map (\<lambda>i. f (demo_zone_of i (SEEDS ! i))) [0..<23]"
proof -
  have "map (\<lambda>x. f (demo_zone_of (fst x) (snd x))) (enumerate 0 SEEDS) = map (\<lambda>i. f (demo_zone_of i (SEEDS ! i))) [0..<length SEEDS]"
    by (rule nth_equalityI) (simp_all add: nth_enumerate_eq)
  moreover have "length SEEDS = 23" by (simp add: SEEDS_def)
  ultimately show ?thesis by (simp add: DEMO_NATIONAL_ZONES_def comp_def case_prod_beta)
qed

lemma demo_zones_seeds: "map f DEMO_NATIONAL_ZONES = map (\<lambda>s. g s) SEEDS" if "\<And>i s. f (demo_zone_of i s) = g s"
proof -
  have "map (g \<circ> snd) (enumerate 0 SEEDS) = map g SEEDS" by (metis list.map_comp map_snd_enumerate)
  then show ?thesis by (simp add: DEMO_NATIONAL_ZONES_def comp_def case_prod_beta that)
qed

lemma demo_seeds_ok: "\<forall>s \<in> set SEEDS. - 90 \<le> sd_lat s \<and> sd_lat s \<le> 90 \<and> - 180 \<le> sd_lng s \<and> sd_lng s \<le> 180 \<and>
    sd_name s \<noteq> [] \<and> sd_region s \<noteq> []"
  by (simp add: SEEDS_def fl_between)

definition key_block :: "nat \<Rightarrow> string" where
  "key_block i = (if i = 0 then ''aaaa'' else if i = 1 then ''bbbb'' else pad_start 4 (hex_of (i + 16)))"

lemma key_blocks: "distinct (map key_block [0..<23])" "list_all (\<lambda>b. length b = 4 \<and> list_all is_hex b) (map key_block [0..<23])"
  by code_simp+

lemma zone_key_block: "zo_zoneKey (demo_zone_of i s) = ''0x'' @ concat (replicate 16 (key_block i))"
proof -
  have "replicate 64 CHR ''a'' = concat (replicate 16 ''aaaa'')" "replicate 64 CHR ''b'' = concat (replicate 16 ''bbbb'')"
    by code_simp+
  then show ?thesis by (simp add: demo_zone_of_def key_block_def zoneKey_of_seed_def)
qed

lemma demo_keys: "distinct (map zo_zoneKey DEMO_NATIONAL_ZONES)" "list_all bytes32Schema (map zo_zoneKey DEMO_NATIONAL_ZONES)"
proof -
  have keys: "map zo_zoneKey DEMO_NATIONAL_ZONES = map (\<lambda>b. ''0x'' @ concat (replicate 16 b)) (map key_block [0..<23])"
    unfolding demo_zones_map zone_key_block by simp
  have len: "list_all (\<lambda>b. length b = 4) (map key_block [0..<23])" using key_blocks(2) by (simp add: list_all_iff)
  have "inj_on (\<lambda>b :: string. ''0x'' @ concat (replicate 16 b)) {b. length b = 4}"
  proof (rule inj_onI)
    fix a b :: string assume *: "a \<in> {b. length b = 4}" "b \<in> {b. length b = 4}"
      "''0x'' @ concat (replicate 16 a) = ''0x'' @ concat (replicate 16 b)"
    have "replicate 16 x = x # replicate 15 x" for x :: string using replicate_Suc[of 15 x] by simp
    then have take: "take 4 (concat (replicate 16 x)) = x" if "length x = 4" for x :: string using that by simp
    have "concat (replicate 16 a) = concat (replicate 16 b)" using *(3) by (simp only: same_append_eq)
    then have "take 4 (concat (replicate 16 a)) = take 4 (concat (replicate 16 b))" by (rule arg_cong)
    with take[of a] take[of b] *(1,2) show "a = b" by (simp only: mem_Collect_eq)
  qed
  moreover have "set (map key_block [0..<23]) \<subseteq> {b. length b = 4}" using len unfolding list_all_iff by blast
  ultimately show "distinct (map zo_zoneKey DEMO_NATIONAL_ZONES)"
    unfolding keys distinct_map[of "\<lambda>b. ''0x'' @ concat (replicate 16 b)"] using key_blocks(1) by (blast intro: inj_on_subset)
  have "bytes32Schema (''0x'' @ concat (replicate 16 b))" if "length b = 4" "list_all is_hex b" for b
    using that by (auto simp: bytes32Schema_def hex_string_def length_concat map_replicate list_all_iff sum_list_replicate)
  then show "list_all bytes32Schema (map zo_zoneKey DEMO_NATIONAL_ZONES)"
    unfolding keys using key_blocks(2) by (simp add: list_all_iff del: set_upt)
qed

text \<open>The demo zones cover the country: there are 23 of them with pairwise different identifiers and
  keys, every one satisfies the schema of a zone, its feeder code names the company it was seeded
  with, and every company has at least two.\<close>

theorem demo_zones_cover_discos:
  "length DEMO_NATIONAL_ZONES = 23 \<and> distinct (map zo_id DEMO_NATIONAL_ZONES) \<and> distinct (map zo_zoneKey DEMO_NATIONAL_ZONES) \<and>
   list_all (\<lambda>z. bytes32Schema (zo_zoneKey z) \<and> - 90 \<le> zo_lat z \<and> zo_lat z \<le> 90 \<and> - 180 \<le> zo_lng z \<and> zo_lng z \<le> 180) DEMO_NATIONAL_ZONES \<and>
   map (\<lambda>z. discoCodeFromFeederCode (zo_discosFeederCode z)) DEMO_NATIONAL_ZONES = map (\<lambda>s. Some (sd_disco s)) SEEDS \<and>
   list_all (\<lambda>c. 2 \<le> count_list (map sd_disco SEEDS) c) disco_codes"
proof -
  have ids: "map zo_id DEMO_NATIONAL_ZONES = map (\<lambda>i. if i = 0 then ''8a27f3e2-2608-4a88-b8db-efce68be2a59''
        else if i = 1 then ''378b2fae-55dd-488f-aefd-c9bc17f8d4ff'' else demoId i) [0..<23]"
    unfolding demo_zones_map by (simp add: demo_zone_of_def)
  have i: "distinct (map zo_id DEMO_NATIONAL_ZONES)" unfolding ids by code_simp
  have sel: "map zo_lat DEMO_NATIONAL_ZONES = map sd_lat SEEDS" "map zo_lng DEMO_NATIONAL_ZONES = map sd_lng SEEDS"
    by (rule demo_zones_seeds; simp add: demo_zone_of_def)+
  have "list_all (\<lambda>x. - 90 \<le> x \<and> x \<le> 90) (map zo_lat DEMO_NATIONAL_ZONES)"
    "list_all (\<lambda>x. - 180 \<le> x \<and> x \<le> 180) (map zo_lng DEMO_NATIONAL_ZONES)"
    unfolding sel using demo_seeds_ok by (auto simp: list_all_iff)
  moreover have "map (\<lambda>z. discoCodeFromFeederCode (zo_discosFeederCode z)) DEMO_NATIONAL_ZONES = map (\<lambda>s. Some (sd_disco s)) SEEDS"
  proof (rule demo_zones_seeds)
    fix i and s :: demo_seed
    have "to_upper (disco_string (sd_disco s)) = disco_string (sd_disco s)"
      by (cases "sd_disco s"; simp only: disco_string.simps; code_simp)
    from feeder_disco[OF _ this, of "[]"] show "discoCodeFromFeederCode (zo_discosFeederCode (demo_zone_of i s)) = Some (sd_disco s)"
      by (simp add: demo_zone_of_def)
  qed
  moreover have "length DEMO_NATIONAL_ZONES = 23" using arg_cong[OF demo_zones_map[of id], of length] by simp
  moreover have "list_all (\<lambda>c. 2 \<le> count_list (map sd_disco SEEDS) c) disco_codes"
    by (simp add: SEEDS_def disco_codes_def)
  ultimately show ?thesis using i demo_keys by (simp add: list_all_iff)
qed

end
