(* ===== verification/Providers.thy ===== *)
theory Providers imports Chain Ingestion_Store Auth Demo_Zones Samples begin

section \<open>The provider registry\<close>

text \<open>
  \<open>modules/providers\<close>: the registry of providers in both backends, the description of the call with
  which a provider registers its wallet on the chain, and the two routes.
\<close>

subsection \<open>store.ts\<close>

record register_provider_request =
  rq_walletAddress :: string
  rq_providerType :: provider_type
  rq_zoneId :: string

definition registerProviderRequestSchema :: "zod_formats \<Rightarrow> register_provider_request \<Rightarrow> bool" where
  "registerProviderRequestSchema F r \<longleftrightarrow> walletAddressSchema (rq_walletAddress r) \<and> uuidSchema F (rq_zoneId r)"

record register_provider_result =
  rr_provider :: provider
  rr_duplicate :: bool

definition mapProviderRow :: "provider_row \<Rightarrow> provider" where
  "mapProviderRow row = \<lparr>pr_id = pv_id row, pr_userId = pv_user_id row, pr_walletAddress = pv_wallet_address row,
     pr_providerType = pv_provider_type row, pr_zoneId = pv_zone_id row,
     pr_reputationCache = pv_reputation_cache row, pr_active = pv_active row, pr_lastSeenAt = None\<rparr>"

definition listProviders :: "runtime \<Rightarrow> world \<Rightarrow> provider list" where
  "listProviders rt w =
     (if \<not> isDatabaseConfigured rt
      then js_sort (\<lambda>left right. rt_lc rt (pr_walletAddress left) (pr_walletAddress right))
        (jm_values (memoryProvidersByWallet w))
      else map mapProviderRow (js_sort (\<lambda>a b. text_compare (pv_wallet_address a) (pv_wallet_address b))
        (t_providers (db w))))"

definition json_of_provider :: "provider \<Rightarrow> json" where
  "json_of_provider p = JObj
     [(''id'', JStr (pr_id p)), (''userId'', json_of_option JStr (pr_userId p)),
      (''walletAddress'', JStr (pr_walletAddress p)),
      (''providerType'', JStr (provider_type_string (pr_providerType p))), (''zoneId'', JStr (pr_zoneId p)),
      (''reputationCache'', JNum (of_int (pr_reputationCache p))), (''active'', JBool (pr_active p)),
      (''lastSeenAt'', json_of_option JStr (pr_lastSeenAt p))]"

definition provider_audit :: "provider \<Rightarrow> string option \<Rightarrow> provider option \<Rightarrow> append_audit_log_input" where
  "provider_audit p actorUserId before =
     \<lparr>in_actorUserId = actorUserId, in_subjectProviderId = Some (pr_id p),
      in_action = (if before \<noteq> None then ''provider.registration_updated'' else ''provider.registered''),
      in_before = map_option (\<lambda>b. [(''provider'', json_of_provider b)]) before,
      in_after = Some [(''provider'', json_of_provider p)]\<rparr>"

definition auditProviderRegistration ::
  "runtime \<Rightarrow> provider \<Rightarrow> string option \<Rightarrow> provider option \<Rightarrow> unit act" where
  "auditProviderRegistration rt p actorUserId before = appendAuditLog rt (provider_audit p actorUserId before)"

definition register_memory ::
  "runtime \<Rightarrow> register_provider_request \<Rightarrow> string option \<Rightarrow> register_provider_result act" where
  "register_memory rt input actorUserId =
     (let walletAddress = to_lower (rq_walletAddress input) in
      bindS (getS (\<lambda>w. jm_get (memoryProvidersByWallet w) walletAddress)) (\<lambda>found.
      case found of
        Some existing \<Rightarrow>
          let changed = (pr_providerType existing \<noteq> rq_providerType input \<or> pr_zoneId existing \<noteq> rq_zoneId input \<or>
                \<not> pr_active existing);
              p = existing\<lparr>pr_providerType := rq_providerType input, pr_zoneId := rq_zoneId input, pr_active := True\<rparr>
          in bindS (modifyS (\<lambda>w. w\<lparr>memoryProvidersByWallet := jm_set walletAddress p (memoryProvidersByWallet w)\<rparr>)) (\<lambda>_.
             bindS (if changed then auditProviderRegistration rt p actorUserId (Some existing) else returnS ()) (\<lambda>_.
             returnS \<lparr>rr_provider = p, rr_duplicate = \<not> changed\<rparr>))
      | None \<Rightarrow>
          bindS (randomUUID rt) (\<lambda>uuid.
          let p = \<lparr>pr_id = uuid, pr_userId = actorUserId, pr_walletAddress = walletAddress,
                pr_providerType = rq_providerType input, pr_zoneId = rq_zoneId input, pr_reputationCache = 0,
                pr_active = True, pr_lastSeenAt = None\<rparr> in
          bindS (modifyS (\<lambda>w. w\<lparr>memoryProvidersByWallet := jm_set walletAddress p (memoryProvidersByWallet w)\<rparr>)) (\<lambda>_.
          bindS (auditProviderRegistration rt p actorUserId None) (\<lambda>_.
          returnS \<lparr>rr_provider = p, rr_duplicate = False\<rparr>)))))"

definition findDatabaseProviderByWallet :: "string \<Rightarrow> world \<Rightarrow> provider option" where
  "findDatabaseProviderByWallet walletAddress w =
     map_option mapProviderRow (sql_find pv_wallet_address (t_providers (db w)) walletAddress)"

definition upsert_provider_row :: "runtime \<Rightarrow> string \<Rightarrow> register_provider_request \<Rightarrow> provider_row act" where
  "upsert_provider_row rt walletAddress input =
     bindS (randomUUID rt) (\<lambda>uuid w.
       let excluded = \<lparr>pv_id = uuid, pv_user_id = None, pv_wallet_address = walletAddress,
             pv_provider_type = rq_providerType input, pv_zone_id = rq_zoneId input, pv_reputation_cache = 0,
             pv_active = True, pv_created_at = w_now w, pv_updated_at = w_now w\<rparr>;
           (row, rows) = sql_upsert pv_wallet_address
             (\<lambda>r. r\<lparr>pv_provider_type := rq_providerType input, pv_zone_id := rq_zoneId input, pv_active := True,
                pv_updated_at := w_now w\<rparr>) excluded (t_providers (db w))
       in (Inr row, w\<lparr>db := db w\<lparr>t_providers := rows\<rparr>\<rparr>))"

definition register_database ::
  "runtime \<Rightarrow> register_provider_request \<Rightarrow> string option \<Rightarrow> register_provider_result act" where
  "register_database rt input actorUserId =
     (let walletAddress = to_lower (rq_walletAddress input) in
      bindS (ensureZone rt (rq_zoneId input)) (\<lambda>_.
      bindS (getS (findDatabaseProviderByWallet walletAddress)) (\<lambda>before.
      bindS (upsert_provider_row rt walletAddress input) (\<lambda>row.
      let p = mapProviderRow row;
          duplicate = opt_any (\<lambda>b. pr_providerType b = pr_providerType p \<and> pr_zoneId b = pr_zoneId p \<and>
            pr_active b = pr_active p) before
      in bindS (if \<not> duplicate then auditProviderRegistration rt p actorUserId before else returnS ()) (\<lambda>_.
         returnS \<lparr>rr_provider = p, rr_duplicate = duplicate\<rparr>)))))"

definition registerProvider ::
  "runtime \<Rightarrow> register_provider_request \<Rightarrow> string option \<Rightarrow> register_provider_result act" where
  "registerProvider rt input actorUserId =
     (if \<not> isDatabaseConfigured rt then register_memory rt input actorUserId
      else register_database rt input actorUserId)"

definition clearProviderStore :: "world \<Rightarrow> world" where
  "clearProviderStore w = w\<lparr>memoryProvidersByWallet := []\<rparr>"

definition zoneKeyForProviderRegistration :: "runtime \<Rightarrow> string \<Rightarrow> world \<Rightarrow> string" where
  "zoneKeyForProviderRegistration rt zoneId w =
     (if \<not> isDatabaseConfigured rt
      then case List.find (\<lambda>z. zo_id z = zoneId) DEMO_NATIONAL_ZONES of
          Some z \<Rightarrow> zo_zoneKey z
        | None \<Rightarrow> bytes32From rt (''zone:'' @ zoneId)
      else case sql_find zr_id (t_zones (db w)) zoneId of
          Some z \<Rightarrow> zr_zone_key z
        | None \<Rightarrow> bytes32From rt (''zone:'' @ zoneId))"

subsection \<open>chain-registration.ts\<close>

record on_chain_registration =
  oc_active :: bool
  oc_zoneKey :: string
  oc_providerTypeId :: nat
  oc_matchesRequest :: bool
  oc_checkedAt :: string

record provider_chain_registration =
  pc_configured :: bool
  pc_chainId :: "string option"
  pc_contractAddress :: "string option"
  pc_explorerUrl :: "string option"
  pc_providerWallet :: string
  pc_providerType :: provider_type
  pc_providerTypeId :: nat
  pc_zoneId :: string
  pc_zoneKey :: string
  pc_registerData :: "string option"
  pc_onChain :: "on_chain_registration option"
  pc_reason :: string

definition providerExplorerUrl :: "string \<Rightarrow> string option \<Rightarrow> string option" where
  "providerExplorerUrl providerWallet explorerBaseUrl =
     (case explorerBaseUrl of
        None \<Rightarrow> None
      | Some base \<Rightarrow> if base = [] then None else Some (drop_last_slash base @ ''/address/'' @ providerWallet))"

text \<open>A failing read is no registration.\<close>

definition readOnChainRegistration ::
  "runtime \<Rightarrow> chain_client \<Rightarrow> register_provider_request \<Rightarrow> string \<Rightarrow> nat \<Rightarrow> on_chain_registration option act" where
  "readOnChainRegistration rt ch input expectedZoneKey expectedProviderTypeId =
     bindS (liftS (createClientFromEnv rt ch)) (\<lambda>client.
     case client of
       None \<Rightarrow> returnS None
     | Some c \<Rightarrow> bindS (getS w_now) (\<lambda>now.
         case getProviderRegistration c (rq_walletAddress input) of
           Inl e \<Rightarrow> returnS None
         | Inr registration \<Rightarrow> returnS (Some
             \<lparr>oc_active = np_active registration, oc_zoneKey = np_zoneId registration,
              oc_providerTypeId = np_providerTypeId registration,
              oc_matchesRequest = (np_active registration \<and>
                to_lower (np_zoneId registration) = to_lower expectedZoneKey \<and>
                np_providerTypeId registration = expectedProviderTypeId),
              oc_checkedAt = to_iso now\<rparr>)))"

definition providerChainRegistrationFor ::
  "runtime \<Rightarrow> chain_client \<Rightarrow> register_provider_request \<Rightarrow> provider_chain_registration act" where
  "providerChainRegistrationFor rt ch input =
     (let providerWallet = to_lower (rq_walletAddress input) in
      bindS (getS (zoneKeyForProviderRegistration rt (rq_zoneId input))) (\<lambda>zoneKey.
      let providerTypeId = providerTypeIdFor (rq_providerType input);
          contractAddress = rt_env rt ''BOTCHAIN_NODE_REGISTRY_ADDRESS'';
          chainId = (case rt_env rt ''BOTCHAIN_CHAIN_ID'' of Some v \<Rightarrow> Some v
            | None \<Rightarrow> rt_env rt ''BOTCHAIN_TESTNET_CHAIN_ID'');
          configured = (opt_any (\<lambda>v. v \<noteq> []) contractAddress \<and> opt_any (\<lambda>v. v \<noteq> []) chainId)
      in bindS (if opt_any (\<lambda>v. v \<noteq> []) contractAddress
           then bindS (liftS (encodeNodeRegistryRegisterCall ch zoneKey (rq_providerType input))) (\<lambda>d. returnS (Some d))
           else returnS None) (\<lambda>callData.
         bindS (readOnChainRegistration rt ch input zoneKey providerTypeId) (\<lambda>onChain.
         returnS \<lparr>pc_configured = configured, pc_chainId = chainId, pc_contractAddress = contractAddress,
           pc_explorerUrl = providerExplorerUrl providerWallet (rt_env rt ''BOTCHAIN_EXPLORER_BASE_URL''),
           pc_providerWallet = providerWallet, pc_providerType = rq_providerType input,
           pc_providerTypeId = providerTypeId, pc_zoneId = rq_zoneId input, pc_zoneKey = zoneKey,
           pc_registerData = callData, pc_onChain = onChain,
           pc_reason = (if configured
             then ''Provider must call NodeRegistry.register from their own wallet; the backend cannot register a different msg.sender.''
             else ''Set BOTCHAIN_NODE_REGISTRY_ADDRESS and BOTCHAIN_CHAIN_ID after deployment to enable wallet self-registration.'')\<rparr>))))"

definition providerChainRegistrationSchema :: "zod_formats \<Rightarrow> provider_chain_registration \<Rightarrow> bool" where
  "providerChainRegistrationSchema F r \<longleftrightarrow>
     opt_all (\<lambda>c. 1 \<le> length c) (pc_chainId r) \<and> opt_all walletAddressSchema (pc_contractAddress r) \<and>
     opt_all (fmt_url F) (pc_explorerUrl r) \<and> walletAddressSchema (pc_providerWallet r) \<and>
     pc_providerTypeId r \<le> 1 \<and> uuidSchema F (pc_zoneId r) \<and> bytes32Schema (pc_zoneKey r) \<and>
     opt_all (\<lambda>d. take 2 d = ''0x'' \<and> list_all is_hex (drop 2 d)) (pc_registerData r) \<and>
     opt_all (\<lambda>o0. bytes32Schema (oc_zoneKey o0) \<and> oc_providerTypeId o0 \<le> 1 \<and> isoDateTimeSchema F (oc_checkedAt o0))
       (pc_onChain r)"

subsection \<open>routes.ts\<close>

definition providers_route :: "runtime \<Rightarrow> zod_formats \<Rightarrow> js_error \<Rightarrow> (nat \<times> provider list) act" where
  "providers_route rt F zod_error = bindS (getS (listProviders rt)) (respond zod_error (list_all (providerSchema F)) 200)"

definition register_provider_route ::
  "runtime \<Rightarrow> jwt_codec \<Rightarrow> chain_client \<Rightarrow> js_error \<Rightarrow> (json \<Rightarrow> register_provider_request option) \<Rightarrow>
     string option \<Rightarrow> json \<Rightarrow> (nat \<times> register_provider_result \<times> provider_chain_registration) act" where
  "register_provider_route rt jc ch zod_error parse authorization body =
     bindS (getS w_now) (\<lambda>now.
     bindS (liftS (requireAuth (rt_env rt) jc [Reporter] now authorization)) (\<lambda>auth.
     bindS (liftS (validateBody parse body)) (\<lambda>input.
     bindS (registerProvider rt input (Some (us_id (au_user auth)))) (\<lambda>result.
     bindS (providerChainRegistrationFor rt ch input) (\<lambda>chainRegistration.
     respond zod_error (\<lambda>(r, c). providerSchema (jc_formats jc) (rr_provider r) \<and>
         providerChainRegistrationSchema (jc_formats jc) c)
       (if rr_duplicate result then 200 else 201) (result, chainRegistration))))))"

section \<open>Registering is updating a map\<close>

text \<open>The registry of both backends as a map from wallets.\<close>

definition registry :: "runtime \<Rightarrow> world \<Rightarrow> string \<Rightarrow> provider option" where
  "registry rt w = (if isDatabaseConfigured rt then (\<lambda>k. findDatabaseProviderByWallet k w)
     else jm_get (memoryProvidersByWallet w))"

definition registry_ok :: "runtime \<Rightarrow> world \<Rightarrow> bool" where
  "registry_ok rt w \<longleftrightarrow> (\<forall>k p. registry rt w k = Some p \<longrightarrow> pr_walletAddress p = k)"

definition registers :: "register_provider_request \<Rightarrow> provider \<Rightarrow> bool" where
  "registers input p \<longleftrightarrow> pr_providerType p = rq_providerType input \<and> pr_zoneId p = rq_zoneId input \<and> pr_active p"

lemma mapProviderRow_sel [simp]:
  "pr_id (mapProviderRow r) = pv_id r" "pr_userId (mapProviderRow r) = pv_user_id r"
  "pr_walletAddress (mapProviderRow r) = pv_wallet_address r" "pr_providerType (mapProviderRow r) = pv_provider_type r"
  "pr_zoneId (mapProviderRow r) = pv_zone_id r" "pr_active (mapProviderRow r) = pv_active r"
  by (simp_all add: mapProviderRow_def)

lemma registry_audit [simp]: "registry rt (audited rt i w) = registry rt w"
  by (simp add: registry_def findDatabaseProviderByWallet_def fun_eq_iff)

lemma register_memory_run:
  assumes "\<not> isDatabaseConfigured rt" "registry_ok rt w"
  shows "\<exists>r w'. register_memory rt input actor w = (Inr r, w') \<and>
    registry rt w' = (registry rt w)(to_lower (rq_walletAddress input) \<mapsto> rr_provider r) \<and>
    registers input (rr_provider r) \<and> pr_walletAddress (rr_provider r) = to_lower (rq_walletAddress input) \<and>
    (rr_duplicate r \<longleftrightarrow> opt_any (registers input) (registry rt w (to_lower (rq_walletAddress input)))) \<and>
    (rr_duplicate r \<longrightarrow> memoryAuditLogs w' = memoryAuditLogs w \<and> t_audit_logs (db w') = t_audit_logs (db w)) \<and>
    pr_userId (rr_provider r) = (case registry rt w (to_lower (rq_walletAddress input)) of None \<Rightarrow> actor | Some p \<Rightarrow> pr_userId p)"
proof (cases "jm_get (memoryProvidersByWallet w) (to_lower (rq_walletAddress input))")
  case None
  with assms(1) show ?thesis
    by (simp add: register_memory_def Let_def auditProviderRegistration_def bind_audit registry_def registers_def fun_eq_iff
        findDatabaseProviderByWallet_def)
next
  case (Some p)
  then have "pr_walletAddress p = to_lower (rq_walletAddress input)"
    using assms by (simp add: registry_ok_def registry_def)
  with Some assms(1) show ?thesis
    by (cases "registers input p")
      (auto simp: register_memory_def Let_def auditProviderRegistration_def bind_audit registry_def registers_def fun_eq_iff)
qed

lemma register_database_run:
  assumes "isDatabaseConfigured rt"
  shows "\<exists>r w'. register_database rt input actor w = (Inr r, w') \<and>
    registry rt w' = (registry rt w)(to_lower (rq_walletAddress input) \<mapsto> rr_provider r) \<and>
    registers input (rr_provider r) \<and> pr_walletAddress (rr_provider r) = to_lower (rq_walletAddress input) \<and>
    (rr_duplicate r \<longleftrightarrow> opt_any (registers input) (registry rt w (to_lower (rq_walletAddress input)))) \<and>
    (rr_duplicate r \<longrightarrow> memoryAuditLogs w' = memoryAuditLogs w \<and> t_audit_logs (db w') = t_audit_logs (db w)) \<and>
    pr_userId (rr_provider r) = (case registry rt w (to_lower (rq_walletAddress input)) of None \<Rightarrow> None | Some p \<Rightarrow> pr_userId p)"
proof -
  let ?k = "to_lower (rq_walletAddress input)"
  obtain zs where z: "ensureZone rt (rq_zoneId input) w = (Inr (), w\<lparr>db := db w\<lparr>t_zones := zs\<rparr>\<rparr>)"
    using ensureZone_run by blast
  define w1 where "w1 = w\<lparr>db := db w\<lparr>t_zones := zs\<rparr>\<rparr>"
  define upd where "upd = (\<lambda>r :: provider_row. r\<lparr>pv_provider_type := rq_providerType input, pv_zone_id := rq_zoneId input, pv_active := True,
      pv_updated_at := w_now w\<rparr>)"
  define new where "new = \<lparr>pv_id = rt_uuid rt (w_uuids w), pv_user_id = None, pv_wallet_address = ?k,
      pv_provider_type = rq_providerType input, pv_zone_id = rq_zoneId input, pv_reputation_cache = 0,
      pv_active = True, pv_created_at = w_now w, pv_updated_at = w_now w\<rparr>"
  define up where "up = sql_upsert pv_wallet_address upd new (t_providers (db w))"
  define w2 where "w2 = w1\<lparr>w_uuids := Suc (w_uuids w1), db := db w1\<lparr>t_providers := snd up\<rparr>\<rparr>"
  have run: "upsert_provider_row rt ?k input w1 = (Inr (fst up), w2)"
    by (simp add: upsert_provider_row_def Let_def case_prod_beta up_def upd_def new_def w2_def w1_def)
  have key: "pv_wallet_address (upd x) = pv_wallet_address x" for x by (simp add: upd_def)
  have newk: "pv_wallet_address new = ?k" by (simp add: new_def)
  have find: "sql_find pv_wallet_address (snd up) k =
      (if k = ?k then Some (fst up) else sql_find pv_wallet_address (t_providers (db w)) k)" for k
    unfolding up_def using sql_find_upsert[of pv_wallet_address upd new "t_providers (db w)" k, OF key] newk by simp
  have row: "pv_provider_type (fst up) = rq_providerType input" "pv_zone_id (fst up) = rq_zoneId input" "pv_active (fst up)"
    "pv_wallet_address (fst up) = ?k"
    "pv_user_id (fst up) = (case sql_find pv_wallet_address (t_providers (db w)) ?k of None \<Rightarrow> None | Some r \<Rightarrow> pv_user_id r)"
    by (auto simp: up_def sql_upsert_def newk upd_def new_def split: option.split dest: sql_find_Some)
  have reg: "registry rt w = (\<lambda>k. map_option mapProviderRow (sql_find pv_wallet_address (t_providers (db w)) k))"
    "registry rt w2 = (registry rt w)(?k \<mapsto> mapProviderRow (fst up))"
    using assms by (auto simp: registry_def findDatabaseProviderByWallet_def w2_def fun_eq_iff find)
  have before: "findDatabaseProviderByWallet ?k w1 = registry rt w ?k"
    using assms by (simp add: registry_def findDatabaseProviderByWallet_def w1_def)
  define dup where "dup = opt_any (\<lambda>b. pr_providerType b = rq_providerType input \<and> pr_zoneId b = rq_zoneId input \<and>
      pr_active b) (registry rt w ?k)"
  have body: "register_database rt input actor w =
      bindS (if \<not> dup then auditProviderRegistration rt (mapProviderRow (fst up)) actor (registry rt w ?k) else returnS ())
        (\<lambda>_. returnS \<lparr>rr_provider = mapProviderRow (fst up), rr_duplicate = dup\<rparr>) w2"
    using z run row by (simp add: register_database_def Let_def bindS_def w1_def[symmetric] before dup_def)
  have w2: "memoryAuditLogs w2 = memoryAuditLogs w" "t_audit_logs (db w2) = t_audit_logs (db w)"
    by (simp_all add: w2_def w1_def)
  show ?thesis unfolding body using w2 row reg
    by (cases dup) (auto simp: auditProviderRegistration_def bind_audit registers_def dup_def opt_any_iff split: option.split)
qed

text \<open>Registering a provider refines the update of a map from wallets, in both backends: afterwards the
  wallet, in lower case, has the requested type and zone and is active, every other wallet is as it
  was, and the registration counts as a duplicate, without an audit entry, exactly when the wallet
  was registered like that before.\<close>

theorem registration_refines_map:
  assumes "registry_ok rt w"
  shows "\<exists>r w'. registerProvider rt input actor w = (Inr r, w') \<and> registry_ok rt w' \<and>
    registry rt w' = (registry rt w)(to_lower (rq_walletAddress input) \<mapsto> rr_provider r) \<and>
    registers input (rr_provider r) \<and>
    (rr_duplicate r \<longleftrightarrow> opt_any (registers input) (registry rt w (to_lower (rq_walletAddress input)))) \<and>
    (rr_duplicate r \<longrightarrow> memoryAuditLogs w' = memoryAuditLogs w \<and> t_audit_logs (db w') = t_audit_logs (db w))"
proof -
  obtain r w' where run: "registerProvider rt input actor w = (Inr r, w')"
    "registry rt w' = (registry rt w)(to_lower (rq_walletAddress input) \<mapsto> rr_provider r)" "registers input (rr_provider r)"
    "pr_walletAddress (rr_provider r) = to_lower (rq_walletAddress input)"
    "rr_duplicate r \<longleftrightarrow> opt_any (registers input) (registry rt w (to_lower (rq_walletAddress input)))"
    "rr_duplicate r \<longrightarrow> memoryAuditLogs w' = memoryAuditLogs w \<and> t_audit_logs (db w') = t_audit_logs (db w)"
  proof (cases "isDatabaseConfigured rt")
    case True
    from register_database_run[OF this, of input actor w] that True show ?thesis
      by (elim exE conjE) (simp add: registerProvider_def)
  next
    case False
    from register_memory_run[OF this assms, of input actor] that False show ?thesis
      by (elim exE conjE) (simp add: registerProvider_def)
  qed
  have "registry_ok rt w'" using assms run(2,4) by (simp add: registry_ok_def)
  with run show ?thesis by blast
qed

theorem registration_refines_map_witness:
  "\<exists>r w'. registerProvider database_rt \<lparr>rq_walletAddress = ''0xAB'', rq_providerType = SensorProvider, rq_zoneId = ''zone-1''\<rparr>
      None (empty_world sample_now) = (Inr r, w') \<and> \<not> rr_duplicate r \<and> registry database_rt w' ''0xab'' = Some (rr_provider r)"
proof -
  have empty: "registry database_rt (empty_world sample_now) = (\<lambda>k. None)"
    by (simp add: registry_def findDatabaseProviderByWallet_def empty_world_def empty_tables_def sql_find_def fun_eq_iff)
  have "to_lower ''0xAB'' = ''0xab''" by code_simp
  with registration_refines_map[of database_rt "empty_world sample_now"
      "\<lparr>rq_walletAddress = ''0xAB'', rq_providerType = SensorProvider, rq_zoneId = ''zone-1''\<rparr>" None]
  show ?thesis by (auto simp: empty registry_ok_def)
qed

text \<open>The backends differ in the owner of a provider: a first registration stores the registering user
  without a database, and stores nobody with one.\<close>

theorem database_registration_has_no_owner:
  assumes "registry_ok rt w" "registry rt w (to_lower (rq_walletAddress input)) = None"
  shows "\<exists>r w'. registerProvider rt input (Some actor) w = (Inr r, w') \<and>
    pr_userId (rr_provider r) = (if isDatabaseConfigured rt then None else Some actor)"
proof (cases "isDatabaseConfigured rt")
  case True
  from register_database_run[OF this, of input "Some actor" w] assms(2) True show ?thesis
    by (auto simp: registerProvider_def)
next
  case False
  from register_memory_run[OF this assms(1), of input "Some actor"] assms(2) False show ?thesis
    by (auto simp: registerProvider_def)
qed

theorem database_registration_has_no_owner_witness:
  "\<exists>r w'. registerProvider database_rt \<lparr>rq_walletAddress = ''0xab'', rq_providerType = SensorProvider, rq_zoneId = ''zone-1''\<rparr>
      (Some ''user-1'') (empty_world sample_now) = (Inr r, w') \<and> pr_userId (rr_provider r) = None"
proof -
  have empty: "registry database_rt (empty_world sample_now) = (\<lambda>k. None)"
    by (simp add: registry_def findDatabaseProviderByWallet_def empty_world_def empty_tables_def sql_find_def fun_eq_iff)
  from database_registration_has_no_owner[of database_rt "empty_world sample_now"
      "\<lparr>rq_walletAddress = ''0xab'', rq_providerType = SensorProvider, rq_zoneId = ''zone-1''\<rparr>" "''user-1''"]
  show ?thesis by (auto simp: empty registry_ok_def)
qed

end
