(* ===== verification/Frames.thy ===== *)
theory Frames imports World begin

section \<open>What operations keep\<close>

text \<open>
  A relation between the worlds before and after an operation that is reflexive and transitive,
  such as \<open>these stores are the same\<close> or \<open>the invariant still holds\<close>, holds of a composed
  operation when it holds of its parts. \<open>keeps R m\<close> says that \<open>m\<close> stays within \<open>R\<close> in every
  world, whether it returns or throws.
\<close>

definition keeps :: "(world \<Rightarrow> world \<Rightarrow> bool) \<Rightarrow> 'a act \<Rightarrow> bool" where
  "keeps R m \<longleftrightarrow> (\<forall>w. R w (snd (m w)))"

lemma keepsI: "(\<And>w. R w (snd (m w))) \<Longrightarrow> keeps R m"
  by (simp add: keeps_def)

lemma keepsD: "keeps R m \<Longrightarrow> m w = (r, w') \<Longrightarrow> R w w'"
  by (metis keeps_def snd_conv)

lemma keeps_snd: "keeps R m \<Longrightarrow> R w (snd (m w))"
  by (simp add: keeps_def)



locale frame =
  fixes R :: "world \<Rightarrow> world \<Rightarrow> bool"
  assumes R_refl: "R w w" and R_trans: "R a b \<Longrightarrow> R b c \<Longrightarrow> R a c"
begin

lemma keeps_return: "keeps R (returnS x)" "keeps R (throwS e)" "keeps R (liftS r)" "keeps R (getS g)"
  by (simp_all add: keeps_def R_refl)

lemma keeps_modify: "(\<And>w. R w (h w)) \<Longrightarrow> keeps R (modifyS h)"
  by (simp add: keeps_def)

lemma keeps_bind:
  assumes "keeps R m" "\<And>x. keeps R (f x)"
  shows "keeps R (bindS m f)"
proof (rule keepsI)
  fix w
  obtain r w1 where m: "m w = (r, w1)" by fastforce
  have "R w w1" using assms(1) m by (rule keepsD)
  then show "R w (snd (bindS m f w))"
    using R_trans keeps_snd[OF assms(2)] by (cases r) (auto simp: bindS_def m)
qed

lemma keeps_uuid: "(\<And>w n. R w (w\<lparr>w_uuids := n\<rparr>)) \<Longrightarrow> keeps R (randomUUID rt)"
  by (simp add: keeps_def)

lemma keeps_emit: "(\<And>w es. R w (w\<lparr>w_events := es\<rparr>)) \<Longrightarrow> keeps R (emit e)"
  by (simp add: keeps_def emit_def)

lemma keeps_count: "(\<And>w k. R w (w\<lparr>w_counters := k\<rparr>)) \<Longrightarrow> keeps R (count k)"
  by (simp add: keeps_def count_def)

lemma keeps_db: "(\<And>w. R w (w\<lparr>db := h (db w)\<rparr>)) \<Longrightarrow> keeps R (modify_db h)"
  by (simp add: keeps_def modify_db_def)

lemma keeps_timestamp: "keeps R (db_timestamp s)"
  by (auto simp: db_timestamp_def keeps_return split: option.split)

lemmas keeps_basic = keeps_return keeps_bind keeps_timestamp

end

text \<open>Keeping a part of the world is a frame, and so is keeping an invariant.\<close>

definition same :: "(world \<Rightarrow> 'v) \<Rightarrow> world \<Rightarrow> world \<Rightarrow> bool" where
  "same f w w' \<longleftrightarrow> f w' = f w"

definition holds :: "(world \<Rightarrow> bool) \<Rightarrow> world \<Rightarrow> world \<Rightarrow> bool" where
  "holds I w w' \<longleftrightarrow> (I w \<longrightarrow> I w')"

interpretation same: frame "same f" for f
  by unfold_locales (simp_all add: same_def)

interpretation holds: frame "holds I" for I
  by unfold_locales (simp_all add: holds_def)

end
