(* ===== verification/Notifications.thy ===== *)
theory Notifications imports Auth Frames Samples begin

section \<open>Notifications\<close>

text \<open>
  \<open>modules/notifications/service.ts\<close> and \<open>routes.ts\<close>: an event that needs a review or a chain
  commitment is stored in an outbox and, when a webhook is configured, delivered to it once. The
  webhook is a parameter: the status it answers with, or the message of what \<open>fetch\<close> throws,
  the abort after the timeout included.
\<close>

subsection \<open>The outbox\<close>

datatype webhook_reply = WebhookStatus nat | WebhookThrows "string option"

type_synonym webhook = "string \<Rightarrow> (string \<times> string) list \<Rightarrow> string \<Rightarrow> int \<Rightarrow> webhook_reply"
  \<comment> \<open>address, headers, body, timeout\<close>

record notification_input =
  ni_kind :: notification_kind
  ni_audience :: notification_audience
  ni_title :: string
  ni_message :: string
  ni_payload :: json_object

fun notification_kind_string :: "notification_kind \<Rightarrow> string" where
  "notification_kind_string KindReviewRequired = ''review_required''"
| "notification_kind_string KindChainCommitted = ''chain_committed''"

fun notification_audience_string :: "notification_audience \<Rightarrow> string" where
  "notification_audience_string AudienceReviewer = ''reviewer''"
| "notification_audience_string AudienceOperator = ''operator''"
| "notification_audience_string AudiencePublic = ''public''"

fun notification_status_string :: "notification_status \<Rightarrow> string" where
  "notification_status_string Queued = ''queued''"
| "notification_status_string Sent = ''sent''"
| "notification_status_string DeliveryFailed = ''failed''"

definition notification_json :: "notification_record \<Rightarrow> json" where
  "notification_json n = JObj
     [(''id'', JStr (nt_id n)), (''kind'', JStr (notification_kind_string (nt_kind n))),
      (''audience'', JStr (notification_audience_string (nt_audience n))),
      (''title'', JStr (nt_title n)), (''message'', JStr (nt_message n)), (''payload'', JObj (nt_payload n)),
      (''channel'', JStr (case nt_channel n of Outbox \<Rightarrow> ''outbox'' | Webhook \<Rightarrow> ''webhook'')),
      (''status'', JStr (notification_status_string (nt_status n))),
      (''attempts'', JNum (of_nat (nt_attempts n))),
      (''lastError'', json_of_option JStr (nt_lastError n)),
      (''createdAt'', JStr (nt_createdAt n)), (''sentAt'', json_of_option JStr (nt_sentAt n))]"

definition titleForChainStatus :: "chain_commitment_status \<Rightarrow> string" where
  "titleForChainStatus status =
     (if status = Confirmed then ''Proof confirmed on BOT Chain''
      else if status = Failed then ''Chain commitment failed''
      else ''Proof queued for BOT Chain submission'')"

definition webhookAuthHeader :: "runtime \<Rightarrow> (string \<times> string) list" where
  "webhookAuthHeader rt = (case env_truthy rt ''NOTIFICATION_WEBHOOK_TOKEN'' of
     Some token \<Rightarrow> [(''Authorization'', ''Bearer '' @ token)] | None \<Rightarrow> [])"

definition webhookTimeoutMs :: "runtime \<Rightarrow> int" where
  "webhookTimeoutMs rt = positive_env_int rt ''NOTIFICATION_WEBHOOK_TIMEOUT_MS'' 1500"

definition storeNotification :: "runtime \<Rightarrow> notification_record \<Rightarrow> unit act" where
  "storeNotification rt n =
     (if \<not> isDatabaseConfigured rt
      then modifyS (\<lambda>w. w\<lparr>memoryNotifications := jm_set (nt_id n) n (memoryNotifications w)\<rparr>)
      else bindS (db_timestamp (nt_createdAt n)) (\<lambda>createdAt.
        modify_db (\<lambda>t. t\<lparr>t_notification_outbox := t_notification_outbox t @
          [\<lparr>nr_id = nt_id n, nr_kind = nt_kind n, nr_audience = nt_audience n, nr_channel = nt_channel n,
            nr_title = nt_title n, nr_message = Some (nt_message n), nr_payload = nt_payload n,
            nr_status = nt_status n, nr_attempts = nt_attempts n, nr_last_error = nt_lastError n,
            nr_created_at = createdAt, nr_sent_at = None\<rparr>]\<rparr>)))"

definition markNotificationDelivered ::
  "runtime \<Rightarrow> string \<Rightarrow> notification_status \<Rightarrow> string option \<Rightarrow> unit act" where
  "markNotificationDelivered rt id0 status lastError =
     bindS (getS w_now) (\<lambda>now.
     if \<not> isDatabaseConfigured rt
     then modifyS (\<lambda>w. case jm_get (memoryNotifications w) id0 of
         None \<Rightarrow> w
       | Some current \<Rightarrow> w\<lparr>memoryNotifications := jm_set id0 (current\<lparr>nt_status := status,
           nt_attempts := nt_attempts current + 1, nt_lastError := lastError,
           nt_sentAt := (if status = Sent then Some (to_iso now) else None)\<rparr>) (memoryNotifications w)\<rparr>)
     else modify_db (\<lambda>t. t\<lparr>t_notification_outbox := sql_update (\<lambda>r. nr_id r = id0)
         (\<lambda>r. r\<lparr>nr_status := status, nr_attempts := nr_attempts r + 1, nr_last_error := lastError,
            nr_sent_at := (if status = Sent then Some now else None)\<rparr>) (t_notification_outbox t)\<rparr>))"

definition deliverNotification :: "runtime \<Rightarrow> webhook \<Rightarrow> notification_record \<Rightarrow> unit act" where
  "deliverNotification rt fetch notification =
     (case env_truthy rt ''NOTIFICATION_WEBHOOK_URL'' of
        None \<Rightarrow> returnS ()
      | Some webhookUrl \<Rightarrow>
          (case fetch webhookUrl ((''Content-Type'', ''application/json'') # webhookAuthHeader rt)
             (json_stringify (notification_json notification)) (webhookTimeoutMs rt) of
             WebhookStatus status \<Rightarrow>
               if 200 \<le> status \<and> status < 300
               then markNotificationDelivered rt (nt_id notification) Sent None
               else markNotificationDelivered rt (nt_id notification) DeliveryFailed
                 (Some (''Notification webhook returned '' @ int_string (int status)))
           | WebhookThrows error \<Rightarrow>
               markNotificationDelivered rt (nt_id notification) DeliveryFailed
                 (Some (or_else error ''Unknown notification webhook failure''))))"

definition new_notification :: "runtime \<Rightarrow> string \<Rightarrow> int \<Rightarrow> notification_input \<Rightarrow> notification_record" where
  "new_notification rt uuid now input =
     \<lparr>nt_id = uuid, nt_kind = ni_kind input, nt_audience = ni_audience input,
      nt_channel = (if env_truthy rt ''NOTIFICATION_WEBHOOK_URL'' \<noteq> None then Webhook else Outbox),
      nt_title = ni_title input, nt_message = ni_message input, nt_payload = ni_payload input,
      nt_status = Queued, nt_attempts = 0, nt_lastError = None, nt_createdAt = to_iso now, nt_sentAt = None\<rparr>"

text \<open>The delivery is not awaited: it is a step of its own, \<open>deliverNotification\<close>.\<close>

definition enqueueNotification :: "runtime \<Rightarrow> notification_input \<Rightarrow> notification_record act" where
  "enqueueNotification rt input =
     bindS (randomUUID rt) (\<lambda>uuid.
     bindS (getS (\<lambda>w. new_notification rt uuid (w_now w) input)) (\<lambda>notification.
     bindS (storeNotification rt notification) (\<lambda>_.
     returnS notification)))"

definition review_notification :: "string \<Rightarrow> string \<Rightarrow> string \<Rightarrow> notification_input" where
  "review_notification candidateEventId zoneId reason =
     \<lparr>ni_kind = KindReviewRequired, ni_audience = AudienceReviewer,
      ni_title = ''Evidence needs reviewer confirmation'', ni_message = reason,
      ni_payload = [(''candidateEventId'', JStr candidateEventId), (''zoneId'', JStr zoneId), (''reason'', JStr reason)]\<rparr>"

definition chain_notification :: "string \<Rightarrow> string option \<Rightarrow> string \<Rightarrow> chain_commitment_status \<Rightarrow> notification_input" where
  "chain_notification zoneId epochStart txHash status =
     \<lparr>ni_kind = KindChainCommitted, ni_audience = (if status = Pending then AudienceOperator else AudiencePublic),
      ni_title = titleForChainStatus status,
      ni_message = ''Zone '' @ zoneId @ '' chain commitment is '' @ commitment_status_string status @ ''.'',
      ni_payload = [(''zoneId'', JStr zoneId)] @ json_field ''epochStart'' (map_option JStr epochStart) @
        [(''txHash'', JStr txHash), (''status'', JStr (commitment_status_string status))]\<rparr>"

definition enqueueReviewRequired :: "runtime \<Rightarrow> string \<Rightarrow> string \<Rightarrow> string \<Rightarrow> notification_record act" where
  "enqueueReviewRequired rt candidateEventId zoneId reason =
     enqueueNotification rt (review_notification candidateEventId zoneId reason)"

definition enqueueChainCommitted ::
  "runtime \<Rightarrow> string \<Rightarrow> string option \<Rightarrow> string \<Rightarrow> chain_commitment_status \<Rightarrow> notification_record act" where
  "enqueueChainCommitted rt zoneId epochStart txHash status =
     enqueueNotification rt (chain_notification zoneId epochStart txHash status)"

text \<open>What the attached listeners do with an event.\<close>

definition attachNotifications :: "runtime \<Rightarrow> domain_event \<Rightarrow> notification_record option act" where
  "attachNotifications rt e =
     (case e of
        ReviewRequired candidateEventId zoneId reason \<Rightarrow>
          bindS (enqueueReviewRequired rt candidateEventId zoneId reason) (\<lambda>n. returnS (Some n))
      | ChainCommitted zoneId epochStart txHash status \<Rightarrow>
          bindS (enqueueChainCommitted rt zoneId epochStart txHash status) (\<lambda>n. returnS (Some n))
      | _ \<Rightarrow> returnS None)"

definition clearNotificationStore :: "world \<Rightarrow> world" where
  "clearNotificationStore w = w\<lparr>memoryNotifications := []\<rparr>"

subsection \<open>Reading the outbox\<close>

text \<open>SQL's \<open>replace\<close>.\<close>

function replace_text :: "string \<Rightarrow> string \<Rightarrow> string \<Rightarrow> string" where
  "replace_text old new [] = []"
| "replace_text old new (c # s) =
     (if old = [] then c # s
      else if starts_with (c # s) old then new @ replace_text old new (drop (length old) (c # s))
      else c # replace_text old new s)"
  by pat_completeness auto
termination by (relation "measure (\<lambda>(old, new, s). length s)") auto

text \<open>The operator \<open>->>\<close> of PostgreSQL: the text of a field.\<close>

definition json_text :: "json_object \<Rightarrow> string \<Rightarrow> string option" where
  "json_text payload key = (case map_of payload key of
     None \<Rightarrow> None | Some JNull \<Rightarrow> None | Some (JStr s) \<Rightarrow> Some s | Some j \<Rightarrow> Some (json_stringify j))"

definition left_join :: "('a \<Rightarrow> bool) \<Rightarrow> 'a list \<Rightarrow> 'a option list" where
  "left_join P rows = (case filter P rows of [] \<Rightarrow> [None] | rs \<Rightarrow> map Some rs)"

text \<open>The joined rows of a notification: the zone and the epoch score that the payload points to.\<close>

definition notification_join :: "tables \<Rightarrow> notification_row \<Rightarrow> (zone_row option \<times> epoch_row option) list" where
  "notification_join t n =
     concat (map (\<lambda>c. concat (map (\<lambda>cc. concat (map (\<lambda>es. map (\<lambda>z. (z, es))
       (left_join (\<lambda>z. json_text (nr_payload n) ''zoneId'' = Some (zr_id z) \<or>
            json_text (nr_payload n) ''zoneId'' = Some (zr_zone_key z) \<or>
            opt_any (\<lambda>c. zr_id z = cr_zone_id c) c) (t_zones t)))
       (left_join (\<lambda>es. opt_any (\<lambda>cc. ep_id es = cm_epoch_score_id cc) cc) (t_epoch_scores t))))
       (left_join (\<lambda>cc. opt_any (\<lambda>h. h \<noteq> [] \<and> cm_tx_hash cc = Some h) (json_text (nr_payload n) ''txHash''))
         (t_chain_commitments t))))
       (left_join (\<lambda>c. json_text (nr_payload n) ''candidateEventId'' = Some (cr_id c)) (t_candidate_events t)))"

definition fallbackNotificationMessage :: "notification_kind \<Rightarrow> json_object \<Rightarrow> string" where
  "fallbackNotificationMessage kind payload =
     (if kind = KindReviewRequired then ''Evidence is waiting for reviewer confirmation.''
      else ''A BOT Chain proof commitment is '' @
        (case map_of payload ''status'' of Some (JStr s) \<Rightarrow> s | _ \<Rightarrow> ''pending'') @ ''.'')"

text \<open>An epoch start of the payload is text that \<open>new Date\<close> parses, one of the join an instant.\<close>

definition resolved_epoch :: "notification_row \<Rightarrow> epoch_row option \<Rightarrow> string option res" where
  "resolved_epoch n es =
     (case json_text (nr_payload n) ''epochStart'' of
        Some s \<Rightarrow> if s = [] then Inr None
          else (case date_parse s of Some t \<Rightarrow> Inr (Some (to_iso t)) | None \<Rightarrow> Inl (plain_error ''Invalid time value''))
      | None \<Rightarrow> Inr (map_option (\<lambda>es. to_iso (ep_epoch_start es)) es))"

definition mapNotificationRow ::
  "notification_row \<Rightarrow> zone_row option \<times> epoch_row option \<Rightarrow> notification_record res" where
  "mapNotificationRow n joined =
     bindR (resolved_epoch n (snd joined)) (\<lambda>epochStart.
     let payload = (case fst joined of None \<Rightarrow> nr_payload n
           | Some z \<Rightarrow> AList.update ''zoneId'' (JStr (zr_id z)) (nr_payload n));
         payload = (case epochStart of None \<Rightarrow> payload
           | Some e \<Rightarrow> AList.update ''epochStart'' (JStr e) payload);
         msg = (case (fst joined, json_text (nr_payload n) ''zoneId'') of
             (Some z, Some k) \<Rightarrow> map_option (replace_text k (zr_id z)) (nr_message n)
           | _ \<Rightarrow> nr_message n)
     in Inr \<lparr>nt_id = nr_id n, nt_kind = nr_kind n, nt_audience = nr_audience n, nt_channel = nr_channel n,
          nt_title = nr_title n, nt_message = or_else msg (fallbackNotificationMessage (nr_kind n) payload),
          nt_payload = payload, nt_status = nr_status n, nt_attempts = nr_attempts n,
          nt_lastError = nr_last_error n, nt_createdAt = to_iso (nr_created_at n),
          nt_sentAt = map_option to_iso (nr_sent_at n)\<rparr>)"

definition listNotifications :: "runtime \<Rightarrow> nat \<Rightarrow> world \<Rightarrow> notification_record list res" where
  "listNotifications rt limit w =
     (if \<not> isDatabaseConfigured rt
      then Inr (take limit (js_sort (\<lambda>left right. rt_lc rt (nt_createdAt right) (nt_createdAt left))
        (jm_values (memoryNotifications w))))
      else map_res (\<lambda>(n, joined). mapNotificationRow n joined)
        (take limit (js_sort (\<lambda>(n, j) (n', j'). nr_created_at n' - nr_created_at n)
          (concat (map (\<lambda>n. map (Pair n) (notification_join (db w) n)) (t_notification_outbox (db w)))))))"

definition notificationRecordSchema :: "zod_formats \<Rightarrow> notification_record \<Rightarrow> bool" where
  "notificationRecordSchema F n \<longleftrightarrow> uuidSchema F (nt_id n) \<and> 1 \<le> length (nt_title n) \<and> 1 \<le> length (nt_message n) \<and>
     fmt_datetime F (nt_createdAt n) \<and> opt_all (fmt_datetime F) (nt_sentAt n)"

definition notifications_route ::
  "runtime \<Rightarrow> jwt_codec \<Rightarrow> js_error \<Rightarrow> string option \<Rightarrow> (nat \<times> notification_record list) act" where
  "notifications_route rt jc zod_error authorization =
     bindS (getS w_now) (\<lambda>now.
     bindS (liftS (requireAuth (rt_env rt) jc [Reviewer] now authorization)) (\<lambda>auth.
     bindS (getS (listNotifications rt 50)) (\<lambda>listed.
     bindS (liftS listed) (\<lambda>notifications.
     respond zod_error (list_all (notificationRecordSchema (jc_formats jc))) 200 notifications))))"

section \<open>The outbox in both backends\<close>

text \<open>What both backends keep of a notification, apart from its texts.\<close>

record outbox_entry =
  ob_id :: string
  ob_kind :: notification_kind
  ob_audience :: notification_audience
  ob_channel :: notification_channel
  ob_status :: notification_status
  ob_attempts :: nat
  ob_lastError :: "string option"
  ob_sent :: bool

definition entry_of_record :: "notification_record \<Rightarrow> outbox_entry" where
  "entry_of_record n = \<lparr>ob_id = nt_id n, ob_kind = nt_kind n, ob_audience = nt_audience n,
     ob_channel = nt_channel n, ob_status = nt_status n, ob_attempts = nt_attempts n,
     ob_lastError = nt_lastError n, ob_sent = (nt_sentAt n \<noteq> None)\<rparr>"

definition entry_of_row :: "notification_row \<Rightarrow> outbox_entry" where
  "entry_of_row n = \<lparr>ob_id = nr_id n, ob_kind = nr_kind n, ob_audience = nr_audience n,
     ob_channel = nr_channel n, ob_status = nr_status n, ob_attempts = nr_attempts n,
     ob_lastError = nr_last_error n, ob_sent = (nr_sent_at n \<noteq> None)\<rparr>"

definition outbox :: "runtime \<Rightarrow> world \<Rightarrow> outbox_entry list" where
  "outbox rt w = (if isDatabaseConfigured rt then map entry_of_row (t_notification_outbox (db w))
     else map entry_of_record (jm_values (memoryNotifications w)))"

text \<open>The memory outbox is keyed by the identifiers of its records, the table by its primary key.\<close>

definition outbox_keys :: "world \<Rightarrow> bool" where
  "outbox_keys w \<longleftrightarrow> distinct (map fst (memoryNotifications w)) \<and>
     (\<forall>(k, n) \<in> set (memoryNotifications w). nt_id n = k) \<and> distinct (map nr_id (t_notification_outbox (db w)))"

definition delivered :: "notification_status \<Rightarrow> string option \<Rightarrow> outbox_entry \<Rightarrow> outbox_entry" where
  "delivered status lastError e = e\<lparr>ob_status := status, ob_attempts := ob_attempts e + 1,
     ob_lastError := lastError, ob_sent := (status = Sent)\<rparr>"

lemma set_jm_set: "set (jm_set k v m) \<subseteq> insert (k, v) (set m)"
  by (induction m) auto

lemma store_outbox:
  assumes "nt_id n \<notin> ob_id ` set (outbox rt w)" "date_parse (nt_createdAt n) \<noteq> None" "nt_sentAt n = None" "outbox_keys w"
  shows "\<exists>w'. storeNotification rt n w = (Inr (), w') \<and> outbox rt w' = outbox rt w @ [entry_of_record n] \<and> outbox_keys w'"
proof (cases "isDatabaseConfigured rt")
  case True
  with assms show ?thesis
    by (auto simp: storeNotification_def db_timestamp_def outbox_def entry_of_row_def entry_of_record_def
        modify_db_def outbox_keys_def image_image image_iff)
next
  case False
  have "jm_get (memoryNotifications w) (nt_id n) = None"
  proof (rule ccontr)
    assume "jm_get (memoryNotifications w) (nt_id n) \<noteq> None"
    then obtain m where m: "(nt_id n, m) \<in> set (memoryNotifications w)" by (auto dest: map_of_SomeD)
    then have "nt_id m = nt_id n" using assms(4) by (auto simp: outbox_keys_def)
    moreover have "entry_of_record m \<in> set (outbox rt w)" using m False by (force simp: outbox_def)
    ultimately show False using assms(1) by (auto simp: entry_of_record_def image_iff)
  qed
  then show ?thesis using False assms(4)
    by (auto simp: storeNotification_def outbox_def jm_set_new outbox_keys_def map_of_eq_None_iff)
qed

lemma update_entry:
  assumes "distinct (map fst m)" "\<forall>(k, n) \<in> set m. nt_id n = k" "jm_get m i = Some n"
  shows "map entry_of_record (jm_values (jm_set i (n\<lparr>nt_status := s, nt_attempts := nt_attempts n + 1, nt_lastError := e,
      nt_sentAt := (if s = Sent then Some x else None)\<rparr>) m)) =
    map (\<lambda>b. if ob_id b = i then delivered s e b else b) (map entry_of_record (jm_values m)) \<and>
    map fst (jm_set i (n\<lparr>nt_status := s, nt_attempts := nt_attempts n + 1, nt_lastError := e,
      nt_sentAt := (if s = Sent then Some x else None)\<rparr>) m) = map fst m"
  using assms
proof (induction m)
  case (Cons kv m)
  show ?case
  proof (cases "fst kv = i")
    case True
    then have "\<forall>b \<in> set (map entry_of_record (jm_values m)). ob_id b \<noteq> i"
      using Cons.prems by (force simp: entry_of_record_def)
    then have "map (\<lambda>b. if ob_id b = i then delivered s e b else b) (map entry_of_record (jm_values m)) =
        map entry_of_record (jm_values m)" by (intro map_idI) auto
    with True Cons.prems show ?thesis by (cases kv) (auto simp: entry_of_record_def delivered_def)
  next
    case False
    with Cons show ?thesis by (cases kv) (auto simp: entry_of_record_def)
  qed
qed simp

lemma mark_outbox:
  assumes "outbox_keys w"
  shows "\<exists>w'. markNotificationDelivered rt i s e w = (Inr (), w') \<and>
    outbox rt w' = map (\<lambda>b. if ob_id b = i then delivered s e b else b) (outbox rt w) \<and> outbox_keys w'"
proof (cases "isDatabaseConfigured rt")
  case True
  have "map entry_of_row (sql_update (\<lambda>r. nr_id r = i)
      (\<lambda>r. r\<lparr>nr_status := s, nr_attempts := nr_attempts r + 1, nr_last_error := e,
         nr_sent_at := (if s = Sent then Some (w_now w) else None)\<rparr>) rows) =
    map (\<lambda>b. if ob_id b = i then delivered s e b else b) (map entry_of_row rows)" for rows
    by (auto simp: sql_update_def entry_of_row_def delivered_def)
  then show ?thesis using True assms
    by (simp add: markNotificationDelivered_def outbox_def modify_db_def outbox_keys_def sql_update_keys)
next
  case False
  show ?thesis
  proof (cases "jm_get (memoryNotifications w) i")
    case None
    have "\<forall>b \<in> set (outbox rt w). ob_id b \<noteq> i"
      using assms None False by (force simp: outbox_def outbox_keys_def entry_of_record_def map_of_eq_None_iff)
    then have "outbox rt w = map (\<lambda>b. if ob_id b = i then delivered s e b else b) (outbox rt w)"
      by (intro map_idI[symmetric]) auto
    with None False assms show ?thesis by (simp add: markNotificationDelivered_def)
  next
    case (Some n)
    let ?n = "n\<lparr>nt_status := s, nt_attempts := nt_attempts n + 1, nt_lastError := e,
      nt_sentAt := (if s = Sent then Some (to_iso (w_now w)) else None)\<rparr>"
    have ids: "\<forall>(k, n) \<in> set (memoryNotifications w). nt_id n = k" and dist: "distinct (map fst (memoryNotifications w))"
      using assms by (auto simp: outbox_keys_def)
    have "nt_id n = i" using Some ids by (auto dest: map_of_SomeD)
    then have "\<forall>(k, m) \<in> set (jm_set i ?n (memoryNotifications w)). nt_id m = k"
      using ids set_jm_set[of i ?n "memoryNotifications w"] by auto
    with Some False assms update_entry[OF dist ids Some, where s = s and e = e and x = "to_iso (w_now w)"] show ?thesis
      by (simp add: markNotificationDelivered_def outbox_def outbox_keys_def)
  qed
qed

section \<open>Notifications reach their audience once\<close>

text \<open>The notification that an event asks for.\<close>

fun asked :: "domain_event \<Rightarrow> notification_input option" where
  "asked (ReviewRequired candidateEventId zoneId reason) = Some (review_notification candidateEventId zoneId reason)"
| "asked (ChainCommitted zoneId epochStart txHash status) = Some (chain_notification zoneId epochStart txHash status)"
| "asked _ = None"

definition fresh_entry :: "runtime \<Rightarrow> string \<Rightarrow> notification_input \<Rightarrow> outbox_entry" where
  "fresh_entry rt uuid input = entry_of_record (new_notification rt uuid 0 input)"

text \<open>Every event that asks for a review or reports a chain commitment adds exactly one notification
  to the outbox, waiting, never attempted, for the reviewers, for the operators while the commitment
  is pending and for the public afterwards; other events add none. Both backends do the same.\<close>

theorem event_notified_once:
  assumes "outbox_keys w" "date_range (w_now w)" "rt_uuid rt (w_uuids w) \<notin> ob_id ` set (outbox rt w)"
  shows "\<exists>n w'. attachNotifications rt e w = (Inr n, w') \<and> outbox_keys w' \<and>
    outbox rt w' = outbox rt w @ (case asked e of None \<Rightarrow> [] | Some input \<Rightarrow> [fresh_entry rt (rt_uuid rt (w_uuids w)) input])"
proof -
  have enqueue: "\<exists>n w'. enqueueNotification rt input w = (Inr n, w') \<and> outbox_keys w' \<and>
      outbox rt w' = outbox rt w @ [fresh_entry rt (rt_uuid rt (w_uuids w)) input]" for input
  proof -
    let ?w = "w\<lparr>w_uuids := Suc (w_uuids w)\<rparr>" and ?n = "new_notification rt (rt_uuid rt (w_uuids w)) (w_now w) input"
    have keep: "outbox rt ?w = outbox rt w" "outbox_keys ?w" using assms(1) by (simp_all add: outbox_def outbox_keys_def)
    have "nt_id ?n \<notin> ob_id ` set (outbox rt ?w)" "date_parse (nt_createdAt ?n) \<noteq> None" "nt_sentAt ?n = None"
      using assms(2,3) by (simp_all add: new_notification_def keep date_parse_iso)
    from store_outbox[OF this keep(2)] obtain w' where w': "storeNotification rt ?n ?w = (Inr (), w')"
      "outbox rt w' = outbox rt w @ [entry_of_record ?n]" "outbox_keys w'" by (auto simp: keep)
    have "entry_of_record ?n = fresh_entry rt (rt_uuid rt (w_uuids w)) input"
      by (simp add: fresh_entry_def entry_of_record_def new_notification_def)
    with w' show ?thesis by (simp add: enqueueNotification_def bindS_def)
  qed
  show ?thesis
  proof (cases "asked e")
    case None
    with assms(1) show ?thesis by (cases e) (auto simp: attachNotifications_def)
  next
    case (Some input)
    with enqueue[of input] show ?thesis
      by (cases e) (auto simp: attachNotifications_def enqueueReviewRequired_def enqueueChainCommitted_def bindS_def)
  qed
qed

theorem event_notified_once_witness:
  "\<exists>n w'. attachNotifications database_rt (ChainCommitted ''zone-1'' None ''0x'' Pending) (empty_world sample_now) = (Inr n, w') \<and>
     map ob_audience (outbox database_rt w') = [AudienceOperator]"
proof -
  have "outbox_keys (empty_world sample_now)" "outbox database_rt (empty_world sample_now) = []"
    by (simp_all add: outbox_keys_def outbox_def empty_world_def empty_tables_def)
  then show ?thesis
    using event_notified_once[of "empty_world sample_now" database_rt "ChainCommitted ''zone-1'' None ''0x'' Pending"]
    by (auto simp: empty_world_def fresh_entry_def entry_of_record_def new_notification_def chain_notification_def)
qed

text \<open>A notification that waits was never attempted and only one with a webhook is attempted; it has a
  sending time when it was sent and an error when the delivery failed.\<close>

definition entry_ok :: "outbox_entry \<Rightarrow> bool" where
  "entry_ok b \<longleftrightarrow> (ob_attempts b = 0 \<longleftrightarrow> ob_status b = Queued) \<and> (ob_sent b \<longleftrightarrow> ob_status b = Sent) \<and>
     (ob_lastError b \<noteq> None \<longleftrightarrow> ob_status b = DeliveryFailed) \<and> (ob_attempts b \<noteq> 0 \<longrightarrow> ob_channel b = Webhook)"

text \<open>How a reply settles a notification.\<close>

fun settled_by :: "webhook_reply \<Rightarrow> notification_status \<times> string option" where
  "settled_by (WebhookStatus status) = (if 200 \<le> status \<and> status < 300 then (Sent, None)
     else (DeliveryFailed, Some (''Notification webhook returned '' @ int_string (int status))))"
| "settled_by (WebhookThrows error) =
     (DeliveryFailed, Some (or_else error ''Unknown notification webhook failure''))"

text \<open>A notification created for the webhook is settled by its delivery, in both backends: whatever the webhook
  answers or throws, exactly that notification becomes sent on a status of 200 to 299 and failed with the error
  otherwise and its attempt is counted; every other notification, of whichever channel, stays as it is; without a
  configured webhook nothing changes; a consistent outbox stays consistent.\<close>

theorem delivery_settles_one:
  assumes "outbox_keys w" "\<forall>b \<in> set (outbox rt w). entry_ok b \<and> (ob_id b = nt_id n \<longrightarrow> ob_channel b = Webhook)"
  shows "\<exists>w'. deliverNotification rt fetch n w = (Inr (), w') \<and> outbox_keys w' \<and>
    outbox rt w' = (case env_truthy rt ''NOTIFICATION_WEBHOOK_URL'' of
        None \<Rightarrow> outbox rt w
      | Some url \<Rightarrow> (case settled_by (fetch url ((''Content-Type'', ''application/json'') # webhookAuthHeader rt)
            (json_stringify (notification_json n)) (webhookTimeoutMs rt)) of
          (s, err) \<Rightarrow> map (\<lambda>b. if ob_id b = nt_id n then delivered s err b else b) (outbox rt w))) \<and>
    (\<forall>b \<in> set (outbox rt w'). entry_ok b)"
proof (cases "env_truthy rt ''NOTIFICATION_WEBHOOK_URL''")
  case None
  with assms show ?thesis by (simp add: deliverNotification_def)
next
  case (Some url)
  let ?reply = "fetch url ((''Content-Type'', ''application/json'') # webhookAuthHeader rt)
    (json_stringify (notification_json n)) (webhookTimeoutMs rt)"
  obtain s err where se: "settled_by ?reply = (s, err)" by fastforce
  have run: "deliverNotification rt fetch n = markNotificationDelivered rt (nt_id n) s err"
    using Some se by (cases ?reply) (auto simp: deliverNotification_def split: if_splits)
  have consistent: "s = Sent \<longleftrightarrow> err = None" "s \<noteq> Queued"
    using se by (cases ?reply; auto split: if_splits)+
  obtain w' where w': "markNotificationDelivered rt (nt_id n) s err w = (Inr (), w')"
    "outbox rt w' = map (\<lambda>b. if ob_id b = nt_id n then delivered s err b else b) (outbox rt w)" "outbox_keys w'"
    using mark_outbox[OF assms(1), of rt "nt_id n" s err] by blast
  have "entry_ok (delivered s err b)" if "b \<in> set (outbox rt w)" "ob_id b = nt_id n" for b
    using assms(2) consistent that by (cases s) (auto simp: entry_ok_def delivered_def)
  then have "\<forall>b \<in> set (outbox rt w'). entry_ok b" using assms(2) by (auto simp: w'(2))
  with w' run Some se show ?thesis by simp
qed

theorem delivery_settles_one_witness:
  "\<exists>w'. deliverNotification (sample_rt (\<lambda>name. if name = ''NOTIFICATION_WEBHOOK_URL'' then Some ''https://hook'' else None))
      (\<lambda>url headers body timeout. WebhookStatus 500)
      (new_notification (sample_rt (\<lambda>name. Some ''https://hook'')) ''n1'' sample_now (review_notification ''c1'' ''z1'' ''why''))
      ((empty_world sample_now)\<lparr>memoryNotifications :=
        [(''n1'', new_notification (sample_rt (\<lambda>name. Some ''https://hook'')) ''n1'' sample_now (review_notification ''c1'' ''z1'' ''why''))]\<rparr>) =
    (Inr (), w') \<and>
    map ob_status (outbox (sample_rt (\<lambda>name. if name = ''NOTIFICATION_WEBHOOK_URL'' then Some ''https://hook'' else None)) w') = [DeliveryFailed]"
proof -
  let ?rt = "sample_rt (\<lambda>name. if name = ''NOTIFICATION_WEBHOOK_URL'' then Some ''https://hook'' else None)"
  let ?n = "new_notification (sample_rt (\<lambda>name. Some ''https://hook'')) ''n1'' sample_now (review_notification ''c1'' ''z1'' ''why'')"
  let ?w = "(empty_world sample_now)\<lparr>memoryNotifications := [(''n1'', ?n)]\<rparr>"
  have mem: "\<not> isDatabaseConfigured ?rt" and url: "env_truthy ?rt ''NOTIFICATION_WEBHOOK_URL'' = Some ''https://hook''"
    by (simp_all add: isDatabaseConfigured_def env_truthy_def sample_rt_def)
  have out: "outbox ?rt ?w = [entry_of_record ?n]" and keys: "outbox_keys ?w"
    using mem by (simp_all add: outbox_def outbox_keys_def empty_world_def empty_tables_def new_notification_def)
  have n: "entry_ok (entry_of_record ?n)" "ob_channel (entry_of_record ?n) = Webhook" "ob_id (entry_of_record ?n) = nt_id ?n"
    by (simp_all add: entry_ok_def entry_of_record_def new_notification_def env_truthy_def sample_rt_def)
  from delivery_settles_one[OF keys, of ?rt ?n "\<lambda>url headers body timeout. WebhookStatus 500"] show ?thesis
    by (auto simp: out n url delivered_def)
qed

end
