(* ===== verification/Dashboard.thy ===== *)
theory Dashboard imports Providers Notifications begin

section \<open>The dashboard\<close>

text \<open>
  \<open>modules/dashboard\<close> and \<open>modules/detection/trend.ts\<close>: the zones with their latest readings, the history
  of a zone with its health trend, the proof of an epoch, and the routes of reviewers and admins. An
  identifier given to the database is a UUID.
\<close>

subsection \<open>detection/trend.ts\<close>

datatype zone_health_trend = Improving | Stable | Declining

definition DEFAULT_MIN_DELTA_BPS :: rat where "DEFAULT_MIN_DELTA_BPS = 250"

text \<open>The average of no values is NaN, which no comparison holds for.\<close>

definition average :: "int list \<Rightarrow> rat option" where
  "average values = (if values = [] then None
     else Some (fdiv (foldl (\<lambda>sum value. fadd sum (of_int value)) 0 values) (of_nat (length values))))"

definition by_epoch_start :: "epoch_score \<Rightarrow> epoch_score \<Rightarrow> int" where
  "by_epoch_start a b = (case (date_parse (es_epochStart a), date_parse (es_epochStart b)) of
     (Some x, Some y) \<Rightarrow> x - y | _ \<Rightarrow> 0)"

definition computeZoneHealthTrend :: "epoch_score list \<Rightarrow> nat option \<Rightarrow> rat option \<Rightarrow> zone_health_trend" where
  "computeZoneHealthTrend epochScores window_option delta_option =
     (let windowSize = or_else window_option 3; minDeltaBps = or_else delta_option DEFAULT_MIN_DELTA_BPS;
          ordered = js_sort by_epoch_start epochScores in
      if length ordered < windowSize * 2 then Stable
      else
        let recent = (if windowSize = 0 then ordered else drop (length ordered - windowSize) ordered);
            baseline = take windowSize (drop (length ordered - windowSize * 2) ordered)
        in case (average (map es_uptimeBps recent), average (map es_uptimeBps baseline)) of
             (Some r, Some b) \<Rightarrow>
               let delta = fsub r b in
               if delta \<ge> minDeltaBps then Improving else if delta \<le> - minDeltaBps then Declining else Stable
           | _ \<Rightarrow> Stable)"

subsection \<open>demo-data.ts\<close>

definition demoZone :: zone where
  "demoZone = \<lparr>zo_id = ''8a27f3e2-2608-4a88-b8db-efce68be2a59'', zo_zoneKey = ''0x'' @ replicate 64 CHR ''a'',
     zo_name = ''Ogbomoso Feeder A'', zo_discosFeederCode = ''IBEDC-OGB-A'', zo_region = ''Oyo'',
     zo_lat = fl (8133 / 1000), zo_lng = fl (425 / 100)\<rparr>"

definition demoCandidate :: candidate_event where
  "demoCandidate = \<lparr>ca_id = ''c04ac0c9-73b8-49f0-97fd-52c77a38bd77'', ca_zoneId = zo_id demoZone,
     ca_status = Outage, ca_confidence = fl (62 / 100), ca_windowStart = ''2026-08-09T09:45:00.000Z'',
     ca_windowEnd = ''2026-08-09T10:00:00.000Z'', ca_evidenceEventIds = [''6a670093-7823-44e1-80e4-ac608f9e75bd''],
     ca_createdAt = ''2026-08-09T10:01:00.000Z''\<rparr>"

definition demoDecision :: agent_decision where
  "demoDecision = \<lparr>ad_id = ''a216864f-a58c-453f-a99e-8038cf314942'', ad_candidateEventId = ca_id demoCandidate,
     ad_agentName = ''evidence-verification-agent'', ad_confidence = fl (64 / 100), ad_decision = Escalate,
     ad_hypothesis = ''Reporter evidence conflicts with the latest sensor heartbeat and needs reviewer confirmation.'',
     ad_supportingEvidenceIds = ca_evidenceEventIds demoCandidate, ad_notificationDraft = None,
     ad_reasoningTrace = [(''sourceAgreement'', JStr ''conflicting''), (''policyGate'', JStr ''human_review_required'')],
     ad_createdAt = ''2026-08-09T10:01:30.000Z''\<rparr>"

definition demoEpochScore :: epoch_score where
  "demoEpochScore = \<lparr>es_id = ''70a77c54-5e61-47f6-979e-f19810acfb95'', es_zoneId = zo_id demoZone,
     es_epochStart = ''2026-08-09T09:00:00.000Z'', es_uptimeBps = 9675, es_evidenceHash = ''0x'' @ replicate 64 CHR ''e'',
     es_createdAt = ''2026-08-09T10:02:00.000Z''\<rparr>"

definition demoCommitment :: chain_commitment where
  "demoCommitment = \<lparr>cc_id = ''0d823346-2b42-463e-9d37-3ad4c323b237'', cc_epochScoreId = es_id demoEpochScore,
     cc_txHash = Some (''0x'' @ replicate 64 CHR ''f''), cc_blockNumber = Some 12345, cc_status = Confirmed,
     cc_explorerUrl = Some (''https://explorer.botchain.example/tx/0x'' @ replicate 64 CHR ''f''),
     cc_createdAt = ''2026-08-09T10:02:05.000Z'', cc_confirmedAt = Some ''2026-08-09T10:02:08.000Z''\<rparr>"

subsection \<open>repository.ts\<close>

text \<open>A measurement is null, or the number that \<open>Number\<close> gives, NaN included.\<close>

record zone_view =
  zv_zone :: zone
  zv_latestStatus :: evidence_status
  zv_latestUptimeBps :: "int option"
  zv_latestVoltage :: "rat option"
  zv_latestCurrentAmps :: "rat option option"

definition zone_of_row :: "zone_row \<Rightarrow> zone" where
  "zone_of_row z = \<lparr>zo_id = zr_id z, zo_zoneKey = zr_zone_key z, zo_name = zr_name z,
     zo_discosFeederCode = zr_discos_feeder_code z, zo_region = zr_region z, zo_lat = zr_lat z, zo_lng = zr_lng z\<rparr>"

definition view_of_demo :: "demo_zone \<Rightarrow> zone_view" where
  "view_of_demo z = \<lparr>zv_zone = zone.truncate z, zv_latestStatus = dz_latestStatus z,
     zv_latestUptimeBps = dz_latestUptimeBps z, zv_latestVoltage = dz_latestVoltage z,
     zv_latestCurrentAmps = map_option Some (dz_latestCurrentAmps z)\<rparr>"

definition first_row :: "'r list \<Rightarrow> 'r option" where
  "first_row rows = (case rows of [] \<Rightarrow> None | r # _ \<Rightarrow> Some r)"

text \<open>\<open>Number\<close> of the text of a JSON value.\<close>

definition json_number :: "json_object \<Rightarrow> string \<Rightarrow> rat option option" where
  "json_number payload key = (case map_of payload key of
     Some (JNum n) \<Rightarrow> Some (Some n)
   | _ \<Rightarrow> map_option number_of_string (json_text payload key))"

definition zone_view_of :: "tables \<Rightarrow> zone_row \<Rightarrow> zone_view" where
  "zone_view_of t z =
     (let newest = (\<lambda>P. first_row (js_sort (\<lambda>a b. er_observed_at b - er_observed_at a)
            (filter (\<lambda>e. er_zone_id e = zr_id z \<and> P e) (t_evidence_events t))));
          latest = newest (\<lambda>e. True); latest_measurement = newest (\<lambda>e. er_source e = SensorProvider);
          latest_score = first_row (js_sort (\<lambda>a b. ep_epoch_start b - ep_epoch_start a)
            (filter (\<lambda>s. ep_zone_id s = zr_id z) (t_epoch_scores t)))
      in \<lparr>zv_zone = zone_of_row z,
          zv_latestStatus = (case latest of Some e \<Rightarrow> er_status e | None \<Rightarrow> Unknown),
          zv_latestUptimeBps = map_option ep_uptime_bps latest_score,
          zv_latestVoltage = (case latest_measurement of Some e \<Rightarrow> er_voltage e | None \<Rightarrow> None),
          zv_latestCurrentAmps = (case latest_measurement of
            Some e \<Rightarrow> json_number (er_raw_payload e) ''currentAmps'' | None \<Rightarrow> None)\<rparr>)"

definition listZones :: "runtime \<Rightarrow> world \<Rightarrow> zone_view list" where
  "listZones rt w =
     (if \<not> isDatabaseConfigured rt then map view_of_demo DEMO_NATIONAL_ZONES
      else map (zone_view_of (db w)) (js_sort (\<lambda>a b. text_compare (zr_name a) (zr_name b)) (t_zones (db w))))"

record zone_history =
  zh_zone :: zone
  zh_candidates :: "candidate_event list"
  zh_epochScores :: "epoch_score list"
  zh_trend :: zone_health_trend

definition mapCandidate_dashboard :: "candidate_row \<Rightarrow> candidate_event" where
  "mapCandidate_dashboard row =
     \<lparr>ca_id = cr_id row, ca_zoneId = cr_zone_id row, ca_status = cr_status row, ca_confidence = cr_confidence row,
      ca_windowStart = to_iso (cr_window_start row), ca_windowEnd = to_iso (cr_window_end row),
      ca_evidenceEventIds = cr_evidence_event_ids row, ca_createdAt = to_iso (cr_created_at row)\<rparr>"

definition mapEpochScore :: "epoch_row \<Rightarrow> epoch_score" where
  "mapEpochScore row =
     \<lparr>es_id = ep_id row, es_zoneId = ep_zone_id row, es_epochStart = to_iso (ep_epoch_start row),
      es_uptimeBps = ep_uptime_bps row, es_evidenceHash = ep_evidence_hash row,
      es_createdAt = to_iso (ep_created_at row)\<rparr>"

definition getZoneHistory :: "runtime \<Rightarrow> string \<Rightarrow> world \<Rightarrow> zone_history res" where
  "getZoneHistory rt zoneId w =
     (if \<not> isDatabaseConfigured rt
      then let epochScores = listMemoryEpochScores (Some zoneId) w @
             (if es_zoneId demoEpochScore = zoneId then [demoEpochScore] else []) in
        Inr \<lparr>zh_zone = (if zo_id demoZone = zoneId then demoZone else demoZone),
          zh_candidates = filter (\<lambda>c. ca_zoneId c = zoneId) (listMemoryCandidates (Some zoneId) w @ [demoCandidate]),
          zh_epochScores = epochScores, zh_trend = computeZoneHealthTrend epochScores None None\<rparr>
      else case sql_find zr_id (t_zones (db w)) zoneId of
        None \<Rightarrow> Inl (http_error 404 ''ZONE_NOT_FOUND'' ''Zone not found'')
      | Some z \<Rightarrow>
          let candidates = take 50 (js_sort (\<lambda>a b. cr_window_start b - cr_window_start a)
                (filter (\<lambda>c. cr_zone_id c = zoneId) (t_candidate_events (db w))));
              epochScores = map mapEpochScore (take 50 (js_sort (\<lambda>a b. ep_epoch_start b - ep_epoch_start a)
                (filter (\<lambda>s. ep_zone_id s = zoneId) (t_epoch_scores (db w)))))
          in Inr \<lparr>zh_zone = zone_of_row z, zh_candidates = map mapCandidate_dashboard candidates,
               zh_epochScores = epochScores, zh_trend = computeZoneHealthTrend epochScores None None\<rparr>)"

type_synonym proof_response = "epoch_score option \<times> chain_commitment option"

definition memory_proof :: "runtime \<Rightarrow> string \<Rightarrow> string \<Rightarrow> world \<Rightarrow> proof_response" where
  "memory_proof rt zoneId epoch w =
     (let memoryScores = js_sort (\<lambda>left right. rt_lc rt (es_epochStart right) (es_epochStart left))
            (listMemoryEpochScores (Some zoneId) w);
          demoScore = (if zoneId = es_zoneId demoEpochScore \<and> (epoch = ''latest'' \<or> epoch = es_epochStart demoEpochScore)
            then Some demoEpochScore else None);
          stored = (if epoch = ''latest'' then first_row memoryScores
            else List.find (\<lambda>score. es_epochStart score = epoch) memoryScores)
      in case (case stored of Some s \<Rightarrow> Some s | None \<Rightarrow> demoScore) of
           None \<Rightarrow> (None, None)
         | Some epochScore \<Rightarrow> (Some epochScore,
             case List.find (\<lambda>c. cc_epochScoreId c = es_id epochScore) (listMemoryCommitments w) of
               Some c \<Rightarrow> Some c
             | None \<Rightarrow> if es_id epochScore = es_id demoEpochScore then Some demoCommitment else None))"

definition commitment_of_proof :: "commitment_row \<Rightarrow> chain_commitment res" where
  "commitment_of_proof cc =
     bindR (blockNumberFromDatabase (map_option (\<lambda>n. Some (of_int n)) (cm_block_number cc))) (\<lambda>blockNumber.
     Inr \<lparr>cc_id = cm_id cc, cc_epochScoreId = cm_epoch_score_id cc, cc_txHash = cm_tx_hash cc,
       cc_blockNumber = map_option floor blockNumber, cc_status = cm_status cc,
       cc_explorerUrl = cm_explorer_url cc, cc_createdAt = to_iso (cm_created_at cc),
       cc_confirmedAt = map_option to_iso (cm_confirmed_at cc)\<rparr>)"

definition database_proof :: "string \<Rightarrow> string \<Rightarrow> world \<Rightarrow> proof_response res" where
  "database_proof zoneId epoch w =
     bindR (if epoch = ''latest'' then Inr None else (case date_parse epoch of
         Some t \<Rightarrow> Inr (Some t)
       | None \<Rightarrow> Inl (plain_error ''invalid input syntax for type timestamp with time zone''))) (\<lambda>start.
     case first_row (js_sort (\<lambda>a b. ep_epoch_start b - ep_epoch_start a)
         (filter (\<lambda>es. ep_zone_id es = zoneId \<and> opt_all (\<lambda>t. ep_epoch_start es = t) start) (t_epoch_scores (db w)))) of
       None \<Rightarrow> Inr (None, None)
     | Some es \<Rightarrow>
         (case sql_find cm_epoch_score_id (t_chain_commitments (db w)) (ep_id es) of
            None \<Rightarrow> Inr (Some (mapEpochScore es), None)
          | Some cc \<Rightarrow>
              if cm_id cc = [] then Inr (Some (mapEpochScore es), None)
              else bindR (commitment_of_proof cc) (\<lambda>commitment. Inr (Some (mapEpochScore es), Some commitment))))"

definition getProof :: "runtime \<Rightarrow> string \<Rightarrow> string \<Rightarrow> world \<Rightarrow> proof_response res" where
  "getProof rt zoneId epoch w =
     (if \<not> isDatabaseConfigured rt then Inr (memory_proof rt zoneId epoch w) else database_proof zoneId epoch w)"

subsection \<open>Schemas of the responses\<close>

definition zonesResponseSchema :: "zod_formats \<Rightarrow> zone_view list \<Rightarrow> bool" where
  "zonesResponseSchema F zs \<longleftrightarrow> list_all (\<lambda>z. zoneSchema F (zv_zone z) \<and>
     opt_all (\<lambda>u. 0 \<le> u \<and> u \<le> 10000) (zv_latestUptimeBps z) \<and> opt_all (\<lambda>v. 0 \<le> v) (zv_latestVoltage z) \<and>
     opt_all (opt_any (\<lambda>a. 0 \<le> a)) (zv_latestCurrentAmps z)) zs"

definition zoneHistoryResponseSchema :: "zod_formats \<Rightarrow> zone_history \<Rightarrow> bool" where
  "zoneHistoryResponseSchema F h \<longleftrightarrow> zoneSchema F (zh_zone h) \<and> list_all (candidateEventSchema F) (zh_candidates h) \<and>
     list_all (epochScoreSchema F) (zh_epochScores h)"

definition proofResponseSchema :: "zod_formats \<Rightarrow> proof_response \<Rightarrow> bool" where
  "proofResponseSchema F p \<longleftrightarrow> opt_all (epochScoreSchema F) (fst p) \<and> opt_all (chainCommitmentSchema F) (snd p)"

definition reviewQueueResponseSchema :: "zod_formats \<Rightarrow> (agent_decision \<times> candidate_event) list \<Rightarrow> bool" where
  "reviewQueueResponseSchema F items \<longleftrightarrow>
     list_all (\<lambda>(d, c). agentDecisionSchema F d \<and> candidateEventSchema F c) items"

text \<open>The decision is approve or reject.\<close>

record review_request =
  vr_decision :: agent_decision_status
  vr_note :: string

definition reviewDecisionRequestSchema :: "review_request \<Rightarrow> bool" where
  "reviewDecisionRequestSchema r \<longleftrightarrow> vr_decision r \<noteq> Escalate \<and> 1 \<le> length (vr_note r) \<and> length (vr_note r) \<le> 2000"

definition alertsResponseSchema :: "zod_formats \<Rightarrow> alert_item list \<Rightarrow> bool" where
  "alertsResponseSchema F alerts \<longleftrightarrow> list_all (\<lambda>a. uuidSchema F (al_id a) \<and> uuidSchema F (al_candidateEventId a) \<and>
     uuidSchema F (al_zoneId a) \<and> 0 \<le> al_confidence a \<and> al_confidence a \<le> 1 \<and> 1 \<le> length (al_hypothesis a) \<and>
     list_all (uuidSchema F) (al_supportingEvidenceIds a) \<and>
     opt_all (\<lambda>r. rv_decision r \<noteq> Escalate \<and> 1 \<le> length (rv_note r) \<and> opt_all (isoDateTimeSchema F) (rv_reviewedAt r)) (al_review a) \<and>
     isoDateTimeSchema F (al_createdAt a) \<and> isoDateTimeSchema F (al_candidateCreatedAt a)) alerts"

subsection \<open>routes.ts\<close>

definition requireParam :: "string option \<Rightarrow> string \<Rightarrow> string res" where
  "requireParam value name = (case value of
     Some v \<Rightarrow> if v = [] then Inl (http_error 400 ''MISSING_ROUTE_PARAM'' (''Missing route parameter '' @ name)) else Inr v
   | None \<Rightarrow> Inl (http_error 400 ''MISSING_ROUTE_PARAM'' (''Missing route parameter '' @ name)))"

definition zones_route :: "runtime \<Rightarrow> zod_formats \<Rightarrow> js_error \<Rightarrow> (nat \<times> zone_view list) act" where
  "zones_route rt F zod_error = bindS (getS (listZones rt)) (respond zod_error (zonesResponseSchema F) 200)"

definition history_route :: "runtime \<Rightarrow> zod_formats \<Rightarrow> js_error \<Rightarrow> string option \<Rightarrow> (nat \<times> zone_history) act" where
  "history_route rt F zod_error zoneId =
     bindS (liftS (requireParam zoneId ''id'')) (\<lambda>zoneId.
     bindS (getS (getZoneHistory rt zoneId)) (\<lambda>history.
     bindS (liftS history) (respond zod_error (zoneHistoryResponseSchema F) 200)))"

definition alerts_route :: "runtime \<Rightarrow> zod_formats \<Rightarrow> js_error \<Rightarrow> (nat \<times> alert_item list) act" where
  "alerts_route rt F zod_error = bindS (getS (listAlertItems rt 50)) (respond zod_error (alertsResponseSchema F) 200)"

definition proof_route ::
  "runtime \<Rightarrow> zod_formats \<Rightarrow> js_error \<Rightarrow> string option \<Rightarrow> string option \<Rightarrow> (nat \<times> proof_response) act" where
  "proof_route rt F zod_error zoneId epoch =
     bindS (liftS (requireParam zoneId ''zoneId'')) (\<lambda>zoneId.
     bindS (liftS (requireParam epoch ''epoch'')) (\<lambda>epoch.
     bindS (getS (getProof rt zoneId epoch)) (\<lambda>p.
     bindS (liftS p) (respond zod_error (proofResponseSchema F) 200))))"

definition guarded :: "runtime \<Rightarrow> jwt_codec \<Rightarrow> user_role \<Rightarrow> string option \<Rightarrow> (auth_context \<Rightarrow> 'a act) \<Rightarrow> 'a act" where
  "guarded rt jc role authorization handler =
     bindS (getS w_now) (\<lambda>now.
     bindS (liftS (requireAuth (rt_env rt) jc [role] now authorization)) handler)"

definition review_queue_route ::
  "runtime \<Rightarrow> jwt_codec \<Rightarrow> js_error \<Rightarrow> string option \<Rightarrow> (nat \<times> (agent_decision \<times> candidate_event) list) act" where
  "review_queue_route rt jc zod_error authorization =
     guarded rt jc Reviewer authorization (\<lambda>_.
     bindS (getS (listReviewItems rt)) (respond zod_error (reviewQueueResponseSchema (jc_formats jc)) 200))"

definition review_decision_route ::
  "runtime \<Rightarrow> jwt_codec \<Rightarrow> (json \<Rightarrow> review_request option) \<Rightarrow> string option \<Rightarrow> string option \<Rightarrow> json \<Rightarrow>
     (nat \<times> string \<times> pipeline_result) act" where
  "review_decision_route rt jc parse authorization reviewId body =
     guarded rt jc Reviewer authorization (\<lambda>auth.
     bindS (liftS (validateBody parse body)) (\<lambda>input.
     bindS (liftS (requireParam reviewId ''id'')) (\<lambda>reviewId.
     bindS (resolveReviewDecision rt reviewId (vr_decision input) (vr_note input) (Some (au_user auth))) (\<lambda>result.
     returnS (200, reviewId, result)))))"

definition submit_route ::
  "runtime \<Rightarrow> jwt_codec \<Rightarrow> chain_client \<Rightarrow> string option \<Rightarrow> (nat \<times> submit_pending_result) act" where
  "submit_route rt jc ch authorization =
     guarded rt jc Admin authorization (\<lambda>_.
     bindS (submitPendingCommitments rt ch 5) (\<lambda>result. returnS (200, result)))"

definition index_route ::
  "runtime \<Rightarrow> jwt_codec \<Rightarrow> chain_client \<Rightarrow> string option \<Rightarrow> (nat \<times> index_confirmations_result) act" where
  "index_route rt jc ch authorization =
     guarded rt jc Admin authorization (\<lambda>_.
     bindS (indexPendingConfirmations rt ch 10) (\<lambda>result. returnS (200, result)))"

section \<open>Proofs, trends and guards\<close>

lemma insert_by_cong: "\<forall>y \<in> set xs. cmp x y = cmp' x y \<Longrightarrow> insert_by cmp x xs = insert_by cmp' x xs"
  by (induction xs) auto

lemma js_sort_cong: "(\<And>a b. a \<in> set xs \<Longrightarrow> b \<in> set xs \<Longrightarrow> cmp a b = cmp' a b) \<Longrightarrow> js_sort cmp xs = js_sort cmp' xs"
proof (induction xs)
  case (Cons x xs)
  then have eq: "js_sort cmp xs = js_sort cmp' xs" by simp
  have "\<forall>y \<in> set (js_sort cmp xs). cmp x y = cmp' x y" using Cons.prems by simp
  then have "insert_by cmp x (js_sort cmp xs) = insert_by cmp' x (js_sort cmp xs)" by (rule insert_by_cong)
  with eq show ?case by simp
qed simp

lemma find_unique:
  assumes "x \<in> set xs" "P x" "\<And>y. y \<in> set xs \<Longrightarrow> P y \<Longrightarrow> y = x"
  shows "List.find P xs = Some x"
proof -
  have "List.find P xs \<noteq> None" using assms(1,2) by (auto simp: find_None_iff)
  then obtain y where y: "List.find P xs = Some y" by auto
  then have "y \<in> set xs" "P y" by (auto simp: find_Some_iff)
  with assms(3) y show ?thesis by simp
qed

text \<open>Every score and commitment is stored under its own key.\<close>

definition memory_keys_ok :: "world \<Rightarrow> bool" where
  "memory_keys_ok w \<longleftrightarrow> jm_wf (memoryEpochScoresByKey w) \<and> jm_wf (memoryCommitmentsByEpochScore w) \<and>
     (\<forall>(k, s) \<in> set (memoryEpochScoresByKey w). k = epochKey (es_zoneId s) (es_epochStart s)) \<and>
     (\<forall>(k, m) \<in> set (memoryCommitmentsByEpochScore w). k = cc_epochScoreId m)"

lemma memory_keys_set:
  assumes "memory_keys_ok w" "memoryEpochScoresByKey w' = jm_set (epochKey (es_zoneId s) (es_epochStart s)) s (memoryEpochScoresByKey w)"
    and "memoryCommitmentsByEpochScore w' = jm_set (cc_epochScoreId m) m (memoryCommitmentsByEpochScore w)"
  shows "memory_keys_ok w'"
  using assms set_jm_set[of "epochKey (es_zoneId s) (es_epochStart s)" s "memoryEpochScoresByKey w"]
    set_jm_set[of "cc_epochScoreId m" m "memoryCommitmentsByEpochScore w"]
  unfolding memory_keys_ok_def by (auto simp: jm_wf_set)

lemma value_in_map: "jm_wf m \<Longrightarrow> (k, v) \<in> set m \<Longrightarrow> (k, v') \<in> set m \<Longrightarrow> v = v'"
  by (metis jm_getI option.inject)

lemma not_latest: "to_iso t \<noteq> ''latest''" if "date_range t"
proof -
  have "date_parse ''latest'' = None" by code_simp
  with date_parse_iso[OF that] show ?thesis by auto
qed

lemma memory_proof_stored:
  assumes "memory_keys_ok w" "jm_get (memoryEpochScoresByKey w) (epochKey (es_zoneId s) (es_epochStart s)) = Some s"
    and "jm_get (memoryCommitmentsByEpochScore w) (es_id s) = Some m" "es_zoneId s \<noteq> []" "es_epochStart s \<noteq> ''latest''"
  shows "memory_proof rt (es_zoneId s) (es_epochStart s) w = (Some s, Some m)"
proof -
  let ?scores = "js_sort (\<lambda>left right. rt_lc rt (es_epochStart right) (es_epochStart left)) (listMemoryEpochScores (Some (es_zoneId s)) w)"
  have set_scores: "x \<in> set ?scores \<longleftrightarrow> (\<exists>k. (k, x) \<in> set (memoryEpochScoresByKey w)) \<and> es_zoneId x = es_zoneId s" for x
    using assms(4) by (force simp: listMemoryEpochScores_def)
  have "List.find (\<lambda>score. es_epochStart score = es_epochStart s) ?scores = Some s"
  proof (rule find_unique)
    show "s \<in> set ?scores" using assms(2) unfolding set_scores by (auto dest: map_of_SomeD)
    fix y assume y: "y \<in> set ?scores" "es_epochStart y = es_epochStart s"
    then obtain k where k: "(k, y) \<in> set (memoryEpochScoresByKey w)" "es_zoneId y = es_zoneId s" unfolding set_scores by auto
    then have "k = epochKey (es_zoneId s) (es_epochStart s)" using assms(1) y(2) by (auto simp: memory_keys_ok_def)
    with k(1) map_of_SomeD[OF assms(2)] assms(1) show "y = s"
      using value_in_map[of "memoryEpochScoresByKey w" k y s] by (simp add: memory_keys_ok_def)
  qed simp
  moreover have "List.find (\<lambda>c. cc_epochScoreId c = es_id s) (listMemoryCommitments w) = Some m"
  proof (rule find_unique)
    have in_map: "(es_id s, m) \<in> set (memoryCommitmentsByEpochScore w)" using assms(3) by (rule map_of_SomeD)
    then show "m \<in> set (listMemoryCommitments w)" by (force simp: listMemoryCommitments_def)
    have keyed: "\<And>k x. (k, x) \<in> set (memoryCommitmentsByEpochScore w) \<Longrightarrow> k = cc_epochScoreId x"
      using assms(1) by (auto simp: memory_keys_ok_def)
    from keyed[OF in_map] show "cc_epochScoreId m = es_id s" by simp
    fix y assume "y \<in> set (listMemoryCommitments w)" "cc_epochScoreId y = es_id s"
    then have "(es_id s, y) \<in> set (memoryCommitmentsByEpochScore w)"
      using keyed by (force simp: listMemoryCommitments_def)
    with in_map assms(1) show "y = m"
      using value_in_map[of "memoryCommitmentsByEpochScore w" "es_id s" y m] by (simp add: memory_keys_ok_def)
  qed
  ultimately show ?thesis using assms(5) by (simp add: memory_proof_def Let_def)
qed

text \<open>An approved candidate has a proof (memory backend): right after the pipeline approved it, the proof of
  its zone and hour is the score of that hour, with the uptime of the approved candidates, and the commitment to that
  score, which is pending and has no transaction yet; they are the ones that the pipeline returned.\<close>

theorem approved_candidate_has_proof:
  assumes "\<not> isDatabaseConfigured rt" "AUTO_APPROVE_THRESHOLD \<le> ca_confidence candidate" "chain_allowed simulation"
    and "date_parse (ca_windowEnd candidate) = Some t" "date_range t" "memory_keys_ok w" "ca_zoneId candidate \<noteq> []"
  shows "\<exists>d score commitment w'. processCandidatePipeline rt candidate evidence simulation w =
      (Inr \<lparr>res_decision = d, res_epochScore = Some score, res_commitment = Some commitment\<rparr>, w') \<and> memory_keys_ok w' \<and>
    getProof rt (ca_zoneId candidate) (to_iso (floor_epoch_ms t)) w' = Inr (Some score, Some commitment) \<and>
    es_zoneId score = ca_zoneId candidate \<and> es_epochStart score = to_iso (floor_epoch_ms t) \<and>
    es_uptimeBps score = uptime_bps (memory_approved rt w' (ca_zoneId candidate) t) \<and>
    cc_epochScoreId commitment = es_id score \<and> cc_status commitment = Pending \<and> cc_txHash commitment = None"
proof -
  obtain w' score commitment where run: "processCandidatePipeline rt candidate evidence simulation w =
      (Inr \<lparr>res_decision = gate_decision rt w candidate, res_epochScore = Some score, res_commitment = Some commitment\<rparr>, w')"
    and score: "score = memory_score rt w' candidate t"
    and com: "commitment = pendingCommitmentForEpochScore rt (w_now w) score"
    and maps: "memoryEpochScoresByKey w' = jm_set (epochKey (ca_zoneId candidate) (to_iso (floor_epoch_ms t))) score (memoryEpochScoresByKey w)"
      "memoryCommitmentsByEpochScore w' = jm_set (es_id score) commitment (memoryCommitmentsByEpochScore w)"
    using process_memory_approve[OF assms(1-5), of evidence w] by (elim exE conjE) (rule that; assumption)
  have sel: "es_zoneId score = ca_zoneId candidate" "es_epochStart score = to_iso (floor_epoch_ms t)" "cc_epochScoreId commitment = es_id score"
    "cc_status commitment = Pending" "cc_txHash commitment = None"
    "es_uptimeBps score = uptime_bps (memory_approved rt w' (ca_zoneId candidate) t)"
    by (simp_all add: score memory_score_def epochScoreForApprovedCandidates_def com pendingCommitmentForEpochScore_def)
  have keys: "memory_keys_ok w'" by (rule memory_keys_set[OF assms(6), of _ score commitment]) (simp_all add: sel maps)
  have "memory_proof rt (es_zoneId score) (es_epochStart score) w' = (Some score, Some commitment)"
    by (rule memory_proof_stored[OF keys])
      (simp_all add: sel maps assms(7) not_latest[OF date_range_floor[OF assms(5)]])
  with run keys assms(1) sel show ?thesis by (simp add: getProof_def)
qed

theorem approved_candidate_has_proof_witness:
  "\<exists>d score commitment w'. processCandidatePipeline memory_rt (sample_candidate 1) None None (empty_world sample_now) =
      (Inr \<lparr>res_decision = d, res_epochScore = Some score, res_commitment = Some commitment\<rparr>, w') \<and>
    getProof memory_rt ''zone-1'' (to_iso (floor_epoch_ms sample_now)) w' = Inr (Some score, Some commitment) \<and>
    cc_status commitment = Pending"
proof -
  have "chain_allowed None" "memory_keys_ok (empty_world sample_now)" "ca_zoneId (sample_candidate 1) = ''zone-1''"
    by (simp_all add: chain_allowed_def memory_keys_ok_def empty_world_def sample_candidate_def)
  with approved_candidate_has_proof[of memory_rt "sample_candidate 1" None sample_now "empty_world sample_now" None]
  show ?thesis by auto
qed

text \<open>The trend of a zone does not depend on the order in which its scores are read: lists with the
  same scores of pairwise different hours have the same trend.\<close>

theorem trend_order_independent:
  assumes "mset xs = mset ys" "\<forall>s \<in> set xs. date_parse (es_epochStart s) \<noteq> None"
    and "inj_on (\<lambda>s. date_parse (es_epochStart s)) (set xs)"
  shows "computeZoneHealthTrend xs n d = computeZoneHealthTrend ys n d"
proof -
  let ?f = "\<lambda>s. the (date_parse (es_epochStart s))"
  have set_eq: "set ys = set xs" using assms(1) by (metis set_mset_mset)
  have sorted: "sorted (map ?f (js_sort by_epoch_start zs))" if "set zs = set xs" for zs
  proof -
    have "js_sort by_epoch_start zs = js_sort (\<lambda>a b. ?f a - ?f b) zs"
      using assms(2) that by (intro js_sort_cong) (fastforce simp: by_epoch_start_def split: option.split)
    then show ?thesis by (simp add: js_sort_sorted)
  qed
  have "mset (map ?f (js_sort by_epoch_start xs)) = mset (map ?f (js_sort by_epoch_start ys))" using assms(1) by simp
  then have "map ?f (js_sort by_epoch_start xs) = map ?f (js_sort by_epoch_start ys)"
    using sorted[of xs] sorted[OF set_eq] by (metis properties_for_sort)
  moreover have "inj_on ?f (set xs)" 
    using assms(2,3) unfolding inj_on_def by (metis option.expand)
  ultimately have "js_sort by_epoch_start xs = js_sort by_epoch_start ys"
    by (simp add: inj_on_map_eq_map set_eq)
  then show ?thesis by (simp add: computeZoneHealthTrend_def)
qed

theorem trend_order_independent_witness:
  "computeZoneHealthTrend [demoEpochScore, demoEpochScore\<lparr>es_epochStart := ''2026-08-09T10:00:00.000Z''\<rparr>] (Some 1) None =
   computeZoneHealthTrend [demoEpochScore\<lparr>es_epochStart := ''2026-08-09T10:00:00.000Z''\<rparr>, demoEpochScore] (Some 1) None"
proof -
  have "date_parse ''2026-08-09T09:00:00.000Z'' = Some 1786266000000" "date_parse ''2026-08-09T10:00:00.000Z'' = Some 1786269600000"
    by code_simp+
  then show ?thesis by (intro trend_order_independent) (auto simp: demoEpochScore_def inj_on_def)
qed

text \<open>Without a database the history of every zone is shown under the name of the demo zone.\<close>

theorem memory_history_shows_demo_zone:
  assumes "\<not> isDatabaseConfigured rt"
  shows "\<exists>h. getZoneHistory rt zoneId w = Inr h \<and> zh_zone h = demoZone \<and>
    (\<forall>c \<in> set (zh_candidates h). ca_zoneId c = zoneId)"
  using assms by (simp add: getZoneHistory_def Let_def)

theorem memory_history_shows_demo_zone_witness:
  "\<exists>h. getZoneHistory memory_rt ''378b2fae-55dd-488f-aefd-c9bc17f8d4ff'' (empty_world sample_now) = Inr h \<and>
    zo_name (zh_zone h) = ''Ogbomoso Feeder A''"
  using memory_history_shows_demo_zone[of memory_rt "''378b2fae-55dd-488f-aefd-c9bc17f8d4ff''" "empty_world sample_now"]
  by (auto simp: demoZone_def)

lemma requireAuth_cases:
  obtains auth where "requireAuth env jc roles now h = Inr auth" "\<exists>role \<in> set roles. role \<le> us_role (au_user auth)" | "roles = []"
  | e where "requireAuth env jc roles now h = Inl e" "statusCode e = Some 401 \<or> statusCode e = Some 403"
proof (cases "requireAuth env jc roles now h")
  case (Inl e)
  then have "statusCode e = Some 401 \<or> statusCode e = Some 403"
    by (auto simp: requireAuth_def authError_def split: option.splits sum.splits if_splits)
  with Inl that(3) show thesis by blast
next
  case (Inr auth)
  then have "roles = [] \<or> (\<exists>role \<in> set roles. role \<le> us_role (au_user auth))"
    by (auto simp: requireAuth_def list_ex_iff hasRole_iff split: option.splits sum.splits if_splits)
  with Inr that(1,2) show thesis by blast
qed

text \<open>What a guard that needs one of the roles promises of the handler behind it.\<close>

definition role_guarded :: "user_role \<Rightarrow> runtime \<Rightarrow> jwt_codec \<Rightarrow> string option \<Rightarrow> 'a act \<Rightarrow> bool" where
  "role_guarded role rt jc h m \<longleftrightarrow> (\<forall>w. (\<exists>auth. requireAuth (rt_env rt) jc [role] (w_now w) h = Inr auth \<and> role \<le> us_role (au_user auth)) \<or>
     (\<exists>e. m w = (Inl e, w) \<and> (statusCode e = Some 401 \<or> statusCode e = Some 403)))"

lemma guarded_ok: "role_guarded role rt jc h (guarded rt jc role h handler)"
  unfolding role_guarded_def
proof
  fix w
  show "(\<exists>auth. requireAuth (rt_env rt) jc [role] (w_now w) h = Inr auth \<and> role \<le> us_role (au_user auth)) \<or>
     (\<exists>e. guarded rt jc role h handler w = (Inl e, w) \<and> (statusCode e = Some 401 \<or> statusCode e = Some 403))"
    by (rule requireAuth_cases[of "rt_env rt" jc "[role]" "w_now w" h]) (auto simp: guarded_def)
qed

text \<open>The privileged routes do nothing for a caller without the role: unless the request carries an
  accepted token of a reviewer (for the queue and for a decision) or of an admin (for the two chain
  sweeps), the route answers 401 or 403 and the state is unchanged.\<close>

theorem privileged_routes_guarded:
  "role_guarded Reviewer rt jc h (review_queue_route rt jc zod_error h) \<and>
   role_guarded Reviewer rt jc h (review_decision_route rt jc parse h reviewId body) \<and>
   role_guarded Admin rt jc h (submit_route rt jc ch h) \<and> role_guarded Admin rt jc h (index_route rt jc ch h)"
  by (simp add: review_queue_route_def review_decision_route_def submit_route_def index_route_def guarded_ok)

end
