(* ===== verification/Ingestion_Routes.thy ===== *)
theory Ingestion_Routes imports Ingestion_Store Auth begin

section \<open>Ingestion routes\<close>

text \<open>
  \<open>modules/ingestion/routes.ts\<close>: the three routes that accept evidence, each the composition of its
  middleware in the order of the router, and what an accepted item sets off. The request body is
  the parsed JSON value; the schemas of zod are parsers from it, given by \<open>request_schemas\<close>.
\<close>

subsection \<open>Requests\<close>

datatype webhook_source = WhatsappCloud | Twilio | DemoSource

fun webhook_source_string :: "webhook_source \<Rightarrow> string" where
  "webhook_source_string WhatsappCloud = ''whatsapp_cloud''"
| "webhook_source_string Twilio = ''twilio''"
| "webhook_source_string DemoSource = ''demo''"

record whatsapp_request =
  wa_source :: webhook_source
  wa_messageId :: string
  wa_fromPhone :: string
  wa_reporterWallet :: string
  wa_zoneId :: string
  wa_observedAt :: "string option"
  wa_text :: string
  wa_status :: "evidence_status option"

definition whatsappWebhookRequestSchema :: "zod_formats \<Rightarrow> whatsapp_request \<Rightarrow> bool" where
  "whatsappWebhookRequestSchema F r \<longleftrightarrow> 6 \<le> length (wa_messageId r) \<and> 6 \<le> length (wa_fromPhone r) \<and>
     length (wa_fromPhone r) \<le> 32 \<and> walletAddressSchema (wa_reporterWallet r) \<and> uuidSchema F (wa_zoneId r) \<and>
     opt_all (fmt_datetime F) (wa_observedAt r) \<and> 1 \<le> length (wa_text r) \<and> length (wa_text r) \<le> 1000"

record request_schemas =
  rs_formats :: zod_formats
  rs_error :: js_error
    \<comment> \<open>what \<open>ingestResponseSchema.parse\<close> throws\<close>
  rs_telemetry :: "json \<Rightarrow> telemetry_request option"
  rs_report :: "json \<Rightarrow> reporter_request option"
  rs_whatsapp :: "json \<Rightarrow> whatsapp_request option"

record http_request =
  hr_body :: json
  hr_rawBody :: "string option"
  hr_authorization :: "string option"
  hr_signature256 :: "string option"
  hr_ip :: "string option"
  hr_remoteAddress :: "string option"

subsection \<open>Middleware of the router\<close>

definition DEFAULT_MAX_EVENT_AGE_MS :: int where "DEFAULT_MAX_EVENT_AGE_MS = 24 * 60 * 60 * 1000"
definition DEFAULT_MAX_CLOCK_SKEW_MS :: int where "DEFAULT_MAX_CLOCK_SKEW_MS = 5 * 60 * 1000"

definition sourceAllowed :: "evidence_mode \<Rightarrow> provider_type \<Rightarrow> bool" where
  "sourceAllowed mode source \<longleftrightarrow> mode = HybridMode \<or>
     (mode = SensorMode \<and> source = SensorProvider) \<or> (mode = ReporterMode \<and> source = ReporterProvider)"

definition requireEvidenceSource :: "env \<Rightarrow> provider_type \<Rightarrow> unit res" where
  "requireEvidenceSource env source =
     (case evidenceMode env of
        None \<Rightarrow> Inl (http_error 500 ''EVIDENCE_MODE_INVALID''
          ''GRIDPROOF_EVIDENCE_MODE must be one of sensor, reporter, or hybrid'')
      | Some mode \<Rightarrow>
          if \<not> sourceAllowed mode source
          then Inl (http_error 403 ''EVIDENCE_SOURCE_DISABLED'' (provider_type_string source @
            '' ingestion is disabled while GRIDPROOF_EVIDENCE_MODE='' @ evidence_mode_string mode))
          else Inr ())"

definition bodyString :: "json \<Rightarrow> string \<Rightarrow> string option" where
  "bodyString body key = (case body of
     JObj kvs \<Rightarrow> (case map_of kvs key of Some (JStr s) \<Rightarrow> Some s | _ \<Rightarrow> None)
   | _ \<Rightarrow> None)"

text \<open>An instant that does not parse is NaN: both comparisons are false.\<close>

definition validateObservedAt :: "runtime \<Rightarrow> int \<Rightarrow> string option \<Rightarrow> unit res" where
  "validateObservedAt rt now observedAt =
     (case observedAt of
        None \<Rightarrow> Inr ()
      | Some s \<Rightarrow>
          if s = [] then Inr ()
          else case date_parse s of
            None \<Rightarrow> Inr ()
          | Some observedAtMs \<Rightarrow>
              let maxEventAgeMs = positive_env_int rt ''INGEST_MAX_EVENT_AGE_MS'' DEFAULT_MAX_EVENT_AGE_MS;
                  maxClockSkewMs = positive_env_int rt ''INGEST_MAX_CLOCK_SKEW_MS'' DEFAULT_MAX_CLOCK_SKEW_MS
              in if observedAtMs > now + maxClockSkewMs
                 then Inl (http_error 400 ''OBSERVED_AT_OUT_OF_RANGE'' ''observedAt is too far in the future'')
                 else if observedAtMs < now - maxEventAgeMs
                 then Inl (http_error 400 ''OBSERVED_AT_OUT_OF_RANGE''
                   ''observedAt is older than the accepted ingestion window'')
                 else Inr ())"

subsection \<open>Signatures\<close>

text \<open>\<open>Buffer.from(s, "hex")\<close> decodes pairs of hexadecimal digits up to the first pair that is not one.\<close>

fun hex_bytes :: "string \<Rightarrow> string list" where
  "hex_bytes (a # b # s) = (if is_hex a \<and> is_hex b then to_lower [a, b] # hex_bytes s else [])"
| "hex_bytes s = []"

text \<open>\<open>timingSafeEqual\<close> throws when the lengths differ.\<close>

definition timingSafeEqual :: "string list \<Rightarrow> string list \<Rightarrow> bool res" where
  "timingSafeEqual a b = (if length a \<noteq> length b
     then Inl \<lparr>statusCode = None, code = Some ''ERR_CRYPTO_TIMING_SAFE_EQUAL_LENGTH'',
       message = ''Input buffers must have the same byte length''\<rparr>
     else Inr (a = b))"

definition signed_fields :: "telemetry_request \<Rightarrow> string list" where
  "signed_fields r = [te_deviceId r, to_lower (te_providerWallet r), te_zoneId r, te_idempotencyKey r,
     te_observedAt r, evidence_status_string (te_status r),
     (case te_voltage r of None \<Rightarrow> [] | Some v \<Rightarrow> number_string v)] @
     (case te_currentAmps r of None \<Rightarrow> [] | Some a \<Rightarrow> [number_string a])"

definition isValidTelemetrySignature :: "runtime \<Rightarrow> telemetry_request \<Rightarrow> string \<Rightarrow> bool res" where
  "isValidTelemetrySignature rt input secret =
     (let signedPayload = join_with ''.'' (signed_fields input);
          expected = rt_hmac rt secret signedPayload;
          provided = to_lower (te_signature input)
      in if length provided \<noteq> length expected then Inr False
         else timingSafeEqual (hex_bytes provided) (hex_bytes expected))"

definition lower_hex_64 :: "string \<Rightarrow> bool" where
  "lower_hex_64 s \<longleftrightarrow> length s = 64 \<and> list_all (\<lambda>c. is_hex c \<and> \<not> is_upper c) s"

definition isValidWebhookSignature :: "runtime \<Rightarrow> http_request \<Rightarrow> string \<Rightarrow> bool res" where
  "isValidWebhookSignature rt req secret =
     (case (hr_rawBody req, hr_signature256 req) of
        (Some rawBody, Some header) \<Rightarrow>
          if \<not> starts_with header ''sha256='' then Inr False
          else
            let provided = to_lower (drop 7 header); expected = rt_hmac rt secret rawBody in
            if \<not> lower_hex_64 provided \<or> length provided \<noteq> length expected then Inr False
            else timingSafeEqual (hex_bytes provided) (hex_bytes expected)
      | _ \<Rightarrow> Inr False)"

definition validateWebhookSignature :: "runtime \<Rightarrow> http_request \<Rightarrow> unit res" where
  "validateWebhookSignature rt req =
     (case env_truthy rt ''WHATSAPP_WEBHOOK_SECRET'' of
        None \<Rightarrow>
          if is_production (rt_env rt)
          then Inl (http_error 500 ''WHATSAPP_WEBHOOK_SECRET_REQUIRED''
            ''WHATSAPP_WEBHOOK_SECRET must be configured in production before webhook reporter ingestion is accepted'')
          else Inr ()
      | Some secret \<Rightarrow> bindR (isValidWebhookSignature rt req secret) (\<lambda>valid.
          if \<not> valid then Inl (http_error 401 ''BAD_WEBHOOK_SIGNATURE'' ''Webhook signature is invalid'') else Inr ()))"

subsection \<open>Reports by message\<close>

text \<open>The alternatives of the two regular expressions, each between word boundaries.\<close>

definition inferStatusFromMessage :: "string \<Rightarrow> evidence_status" where
  "inferStatusFromMessage txt =
     (let normalized = to_lower txt in
      if list_ex (has_word normalized) [''down'', ''outage'', ''blackout'', ''off'', ''no power'', ''no light'',
        ''no electricity''] then GridDown
      else if list_ex (has_word normalized) [''up'', ''back'', ''restored'', ''light'', ''lights'', ''power is on'',
        ''electricity is on''] then GridUp
      else Unknown)"

definition reporterInputFromWhatsapp :: "int \<Rightarrow> whatsapp_request \<Rightarrow> reporter_request" where
  "reporterInputFromWhatsapp now input =
     \<lparr>rp_reporterWallet = wa_reporterWallet input, rp_zoneId = wa_zoneId input,
      rp_idempotencyKey = ''whatsapp:'' @ webhook_source_string (wa_source input) @ '':'' @ wa_messageId input,
      rp_observedAt = or_else (wa_observedAt input) (to_iso now),
      rp_status = or_else (wa_status input) (inferStatusFromMessage (wa_text input)),
      rp_note = Some (''['' @ webhook_source_string (wa_source input) @ '' '' @ wa_fromPhone input @ ''] '' @ wa_text input)\<rparr>"

subsection \<open>Publishing\<close>

definition publishIngestResult :: "runtime \<Rightarrow> ingest_store_result \<Rightarrow> unit act" where
  "publishIngestResult rt result =
     (if ir_duplicate result then returnS ()
      else
        bindS (count (\<lambda>k. k\<lparr>evidenceIngested := evidenceIngested k + 1\<rparr>)) (\<lambda>_.
        bindS (emit (EvidenceReceived (ir_evidenceEvent result))) (\<lambda>_.
        case ir_candidateEvent result of
          None \<Rightarrow> returnS ()
        | Some candidate \<Rightarrow>
            bindS (count (\<lambda>k. k\<lparr>candidatesDetected := candidatesDetected k + 1\<rparr>)) (\<lambda>_.
            bindS (emit (CandidateDetected candidate)) (\<lambda>_.
            bindS (processCandidatePipeline rt candidate (Some (ir_evidenceEvent result)) None) (\<lambda>_.
            returnS ()))))))"

subsection \<open>The routes\<close>

text \<open>How a request ends: a response, an error given to \<open>next\<close>, or a rejection of the promise of an
  async handler, which nobody handles.\<close>

datatype 'a handled = Responded nat 'a | NextError js_error | UnhandledRejection js_error

definition run_handler :: "(nat \<times> 'a) act \<Rightarrow> world \<Rightarrow> 'a handled \<times> world" where
  "run_handler m w = (case m w of
     (Inr (status, body), w') \<Rightarrow> (Responded status body, w')
   | (Inl e, w') \<Rightarrow> (NextError e, w'))"

definition check_rate :: "runtime \<Rightarrow> redis \<Rightarrow> string \<Rightarrow> int option \<Rightarrow> string option \<Rightarrow> http_request \<Rightarrow> unit act" where
  "check_rate rt rd name max_requests key req =
     bindS (rateLimit (rt_env rt) rd \<lparr>rlo_name = name, rlo_max = max_requests, rlo_windowMs = None\<rparr>
       key (hr_ip req) (hr_remoteAddress req)) (\<lambda>(headers, error).
     case error of None \<Rightarrow> returnS () | Some e \<Rightarrow> throwS e)"

definition check_observedAt :: "runtime \<Rightarrow> string option \<Rightarrow> unit act" where
  "check_observedAt rt observedAt = bindS (getS w_now) (\<lambda>now. liftS (validateObservedAt rt now observedAt))"

definition store_and_respond ::
  "runtime \<Rightarrow> request_schemas \<Rightarrow> ingest_store_result act \<Rightarrow> (nat \<times> ingest_store_result) act" where
  "store_and_respond rt sc store =
     bindS store (\<lambda>result.
     bindS (publishIngestResult rt result) (\<lambda>_.
     respond (rs_error sc) (ingestResponseSchema (rs_formats sc)) (if ir_duplicate result then 200 else 202) result))"

definition telemetry_middleware ::
  "runtime \<Rightarrow> redis \<Rightarrow> request_schemas \<Rightarrow> http_request \<Rightarrow> telemetry_request act" where
  "telemetry_middleware rt rd sc req =
     bindS (liftS (requireEvidenceSource (rt_env rt) SensorProvider)) (\<lambda>_.
     bindS (check_rate rt rd ''telemetry'' None (bodyString (hr_body req) ''deviceId'') req) (\<lambda>_.
     bindS (liftS (validateBody (rs_telemetry sc) (hr_body req))) (\<lambda>input.
     bindS (check_observedAt rt (Some (te_observedAt input))) (\<lambda>_. returnS input))))"

definition telemetry_route ::
  "runtime \<Rightarrow> redis \<Rightarrow> request_schemas \<Rightarrow> http_request \<Rightarrow> world \<Rightarrow> ingest_store_result handled \<times> world" where
  "telemetry_route rt rd sc req w =
     (case telemetry_middleware rt rd sc req w of
        (Inl e, w) \<Rightarrow> (NextError e, w)
      | (Inr input, w) \<Rightarrow>
          (case env_truthy rt ''TELEMETRY_HMAC_SECRET'' of
             None \<Rightarrow>
               if is_production (rt_env rt)
               then (NextError (http_error 500 ''TELEMETRY_HMAC_SECRET_REQUIRED''
                 ''TELEMETRY_HMAC_SECRET must be configured in production before telemetry ingestion is accepted''), w)
               else run_handler (store_and_respond rt sc (upsertTelemetryEvidence rt input)) w
           | Some hmacSecret \<Rightarrow>
               (case isValidTelemetrySignature rt input hmacSecret of
                  Inl e \<Rightarrow> (UnhandledRejection e, w)
                | Inr valid \<Rightarrow>
                    if \<not> valid
                    then (NextError (http_error 401 ''BAD_SIGNATURE'' ''Telemetry signature is invalid''), w)
                    else run_handler (store_and_respond rt sc (upsertTelemetryEvidence rt input)) w)))"

definition report_route ::
  "runtime \<Rightarrow> redis \<Rightarrow> jwt_codec \<Rightarrow> request_schemas \<Rightarrow> http_request \<Rightarrow> (nat \<times> ingest_store_result) act" where
  "report_route rt rd jc sc req =
     bindS (liftS (requireEvidenceSource (rt_env rt) ReporterProvider)) (\<lambda>_.
     bindS (check_rate rt rd ''report'' None (bodyString (hr_body req) ''reporterWallet'') req) (\<lambda>_.
     bindS (getS w_now) (\<lambda>now.
     bindS (liftS (requireAuth (rt_env rt) jc [Reporter] now (hr_authorization req))) (\<lambda>auth.
     bindS (liftS (validateBody (rs_report sc) (hr_body req))) (\<lambda>input.
     bindS (check_observedAt rt (Some (rp_observedAt input))) (\<lambda>_.
     store_and_respond rt sc (upsertReporterEvidence rt input)))))))"

definition whatsapp_route ::
  "runtime \<Rightarrow> redis \<Rightarrow> request_schemas \<Rightarrow> http_request \<Rightarrow> (nat \<times> ingest_store_result) act" where
  "whatsapp_route rt rd sc req =
     bindS (liftS (requireEvidenceSource (rt_env rt) ReporterProvider)) (\<lambda>_.
     bindS (check_rate rt rd ''whatsapp-webhook'' None
       (case bodyString (hr_body req) ''reporterWallet'' of
          Some v \<Rightarrow> Some v | None \<Rightarrow> bodyString (hr_body req) ''fromPhone'') req) (\<lambda>_.
     bindS (liftS (validateWebhookSignature rt req)) (\<lambda>_.
     bindS (liftS (validateBody (rs_whatsapp sc) (hr_body req))) (\<lambda>input.
     bindS (check_observedAt rt (wa_observedAt input)) (\<lambda>_.
     bindS (getS w_now) (\<lambda>now.
     store_and_respond rt sc (upsertReporterEvidence rt (reporterInputFromWhatsapp now input))))))))"

end
