(* ===== verification/Scheduler.thy ===== *)
theory Scheduler imports Chain Ingestion_Store Frames Samples begin

section \<open>The scheduler\<close>

text \<open>
  \<open>modules/pipeline/scheduler.ts\<close>: the heartbeat sweep over the zones with recent sensor evidence,
  the two chain sweeps, and the timers that run them. A sweep never throws: an error of the store
  ends the pass with the counts so far, an error of the pipeline is logged and the pass goes on.
\<close>

definition SWEEP_LOOKBACK_MS :: int where "SWEEP_LOOKBACK_MS = 3 * HEARTBEAT_GAP_MS"
definition HEARTBEAT_SWEEP_INTERVAL_MS :: int where "HEARTBEAT_SWEEP_INTERVAL_MS = HEARTBEAT_GAP_MS"
definition CHAIN_SUBMIT_INTERVAL_MS :: int where "CHAIN_SUBMIT_INTERVAL_MS = 2 * 60 * 1000"
definition CHAIN_INDEX_INTERVAL_MS :: int where "CHAIN_INDEX_INTERVAL_MS = 30 * 1000"

subsection \<open>The heartbeat sweep\<close>

record heartbeat_sweep_result =
  hs_zones :: nat
  hs_candidates :: nat
  hs_newCandidates :: nat

text \<open>The turns of the inner loop; the flag tells whether the loop ended without an error.\<close>

fun sweep_candidates ::
  "runtime \<Rightarrow> candidate_event list \<Rightarrow> heartbeat_sweep_result \<Rightarrow> world \<Rightarrow> bool \<times> heartbeat_sweep_result \<times> world" where
  "sweep_candidates rt [] result w = (True, result, w)"
| "sweep_candidates rt (candidate # rest) result w =
     (case recordGapCandidate rt candidate w of
        (Inl error, w) \<Rightarrow> (False, result, w)
      | (Inr None, w) \<Rightarrow> sweep_candidates rt rest result w
      | (Inr (Some recorded), w) \<Rightarrow>
          let w = w\<lparr>w_counters := (w_counters w)\<lparr>candidatesDetected := candidatesDetected (w_counters w) + 1\<rparr>,
                w_events := w_events w @ [CandidateDetected recorded]\<rparr>
          in sweep_candidates rt rest (result\<lparr>hs_newCandidates := hs_newCandidates result + 1\<rparr>)
            (snd (processCandidatePipeline rt recorded None None w)))"

text \<open>The candidates of a zone, drawing one identifier for each.\<close>

definition zone_candidates ::
  "runtime \<Rightarrow> int \<Rightarrow> string \<Rightarrow> evidence_event list \<Rightarrow> world \<Rightarrow> candidate_event list \<times> world" where
  "zone_candidates rt now zoneId evidence w =
     (let candidates = detectHeartbeatGapCandidates (rt_lc rt) (\<lambda>i. rt_uuid rt (w_uuids w + i)) zoneId evidence None now
      in (candidates, w\<lparr>w_uuids := w_uuids w + length candidates\<rparr>))"

fun sweep_zones ::
  "runtime \<Rightarrow> int \<Rightarrow> (string \<times> evidence_event list) list \<Rightarrow> heartbeat_sweep_result \<Rightarrow> world \<Rightarrow>
     heartbeat_sweep_result \<times> world" where
  "sweep_zones rt now [] result w = (result, w)"
| "sweep_zones rt now ((zoneId, evidence) # rest) result w =
     (let (candidates, w) = zone_candidates rt now zoneId evidence w;
          (completed, result, w) = sweep_candidates rt candidates
            (result\<lparr>hs_candidates := hs_candidates result + length candidates\<rparr>) w
      in if completed then sweep_zones rt now rest result w else (result, w))"

definition runHeartbeatSweep :: "runtime \<Rightarrow> int \<Rightarrow> world \<Rightarrow> heartbeat_sweep_result \<times> world" where
  "runHeartbeatSweep rt now w =
     (let byZone = listSweepEvidenceByZone rt SWEEP_LOOKBACK_MS now w
      in sweep_zones rt now byZone \<lparr>hs_zones = length byZone, hs_candidates = 0, hs_newCandidates = 0\<rparr> w)"

subsection \<open>The chain sweeps\<close>

definition runChainSubmit :: "runtime \<Rightarrow> chain_client \<Rightarrow> world \<Rightarrow> world" where
  "runChainSubmit rt ch w = snd (submitPendingCommitments rt ch 5 w)"

definition runChainIndex :: "runtime \<Rightarrow> chain_client \<Rightarrow> world \<Rightarrow> world" where
  "runChainIndex rt ch w = snd (indexPendingConfirmations rt ch 10 w)"

definition isChainSweepConfigured :: "(string \<Rightarrow> string option) \<Rightarrow> bool" where
  "isChainSweepConfigured env \<longleftrightarrow>
     (case env ''DATABASE_URL'' of None \<Rightarrow> False | Some v \<Rightarrow> v \<noteq> []) \<and> isChainRelayerConfigured env"

subsection \<open>Timers\<close>

datatype sweep = HeartbeatSweep | ChainSubmitSweep | ChainIndexSweep

text \<open>The interval of every timer that runs.\<close>

record scheduler =
  chainSweepsEnabled :: bool
  timers :: "sweep \<Rightarrow> int option"

definition startScheduler :: "(string \<Rightarrow> string option) \<Rightarrow> scheduler" where
  "startScheduler env =
     (let enabled = isChainSweepConfigured env in
      \<lparr>chainSweepsEnabled = enabled,
       timers = (\<lambda>s. case s of
          HeartbeatSweep \<Rightarrow> Some HEARTBEAT_SWEEP_INTERVAL_MS
        | ChainSubmitSweep \<Rightarrow> if enabled then Some CHAIN_SUBMIT_INTERVAL_MS else None
        | ChainIndexSweep \<Rightarrow> if enabled then Some CHAIN_INDEX_INTERVAL_MS else None)\<rparr>)"

definition stop_timer :: "sweep \<Rightarrow> scheduler \<Rightarrow> scheduler" where
  "stop_timer s sch = sch\<lparr>timers := (timers sch)(s := None)\<rparr>"

definition stopAll :: "scheduler \<Rightarrow> scheduler" where
  "stopAll sch = stop_timer ChainIndexSweep (stop_timer ChainSubmitSweep (stop_timer HeartbeatSweep sch))"

definition run_timer :: "runtime \<Rightarrow> chain_client \<Rightarrow> sweep \<Rightarrow> world \<Rightarrow> world" where
  "run_timer rt ch s w = (case s of
     HeartbeatSweep \<Rightarrow> snd (runHeartbeatSweep rt (w_now w) w)
   | ChainSubmitSweep \<Rightarrow> runChainSubmit rt ch w
   | ChainIndexSweep \<Rightarrow> runChainIndex rt ch w)"

section \<open>What a sweep announces\<close>

fun detected_candidate :: "domain_event \<Rightarrow> candidate_event option" where
  "detected_candidate (CandidateDetected c) = Some c"
| "detected_candidate _ = None"

definition detected :: "world \<Rightarrow> candidate_event list" where
  "detected w = List.map_filter detected_candidate (w_events w)"

lemma detected_simps [simp]:
  "detected (w\<lparr>w_uuids := a\<rparr>) = detected w" "detected (w\<lparr>w_counters := b\<rparr>) = detected w"
  "detected (w\<lparr>db := c\<rparr>) = detected w"
  "detected (w\<lparr>w_events := w_events w @ [e]\<rparr>) = detected w @ option_list (detected_candidate e)"
  by (auto simp: detected_def List.map_filter_def option_list_def split: option.splits)

text \<open>What the pipeline leaves alone: the evidence, the recorded candidates and their announcements.\<close>

definition intake :: "world \<Rightarrow> _" where
  "intake w = (w_now w, evidenceByIdempotencyKey w, candidatesByKey w, t_evidence_events (db w),
     t_candidate_events (db w), detected w)"

lemma intake_audit: "keeps (same intake) (appendAuditLog rt i)"
  by (auto simp: keeps_def same_def intake_def appendAuditLog_run detected_def)

lemma intake_enqueue: "keeps (same intake) (enqueueAgentReviewJob rt j)"
  by (auto simp: keeps_def same_def intake_def enqueue_frame detected_def)

lemma intake_basic:
  "keeps (same intake) (randomUUID rt)" "keeps (same intake) (count k)"
  "detected_candidate e = None \<Longrightarrow> keeps (same intake) (emit e)"
  by (auto simp: keeps_def same_def intake_def count_def emit_def option_list_def)

lemmas intake_rules = same.keeps_basic same.keeps_modify intake_audit intake_enqueue intake_basic

lemma intake_decision: "keeps (same intake) (upsertDatabaseDecision d)"
  by (auto simp: keeps_def same_def intake_def upsert_decision_run detected_def split: option.split)

lemma intake_announce: "keeps (same intake) (announce_commitment rt c d s m src)"
  unfolding announce_commitment_def auditChainQueued_def by (intro intake_rules) simp

lemma intake_commitment:
  "keeps (same intake) (database_commitment rt c d src)" "keeps (same intake) (memory_commitment rt c d src)"
proof -
  have "keeps (same intake) (recomputeDatabaseEpochScore rt c)"
    unfolding recomputeDatabaseEpochScore_def
    by (intro intake_rules) (auto simp: keeps_def same_def intake_def Let_def case_prod_beta detected_def)
  moreover have "keeps (same intake) (recomputeMemoryEpochScore rt c)"
    unfolding recomputeMemoryEpochScore_def
    by (intro intake_rules) (auto simp: keeps_def same_def)
  moreover have "keeps (same intake) (upsertDatabasePendingCommitment rt s)" for s
    by (auto simp: upsertDatabasePendingCommitment_def keeps_def same_def intake_def Let_def case_prod_beta detected_def)
  ultimately show "keeps (same intake) (database_commitment rt c d src)" "keeps (same intake) (memory_commitment rt c d src)"
    unfolding database_commitment_def memory_commitment_def
    by (auto intro!: intake_rules intake_announce simp: same_def intake_def detected_def)
qed

lemma intake_act_on:
  "keeps (same intake) commit \<Longrightarrow> keeps (same intake) (act_on_decision rt c d e sim commit)"
  unfolding act_on_decision_def review_required_def queueAgentReview_def auditSimulationProofPreview_def
  by (cases "ad_decision d"; cases sim) (auto intro!: intake_rules)

lemma intake_pipeline: "keeps (same intake) (processCandidatePipeline rt c e sim)"
  unfolding processCandidatePipeline_def auditAgentDecision_def
  by (cases "isDatabaseConfigured rt")
    (auto intro!: intake_rules intake_decision intake_act_on intake_commitment simp: same_def intake_def detected_def)

subsection \<open>The candidates of one pass\<close>

lemma built_dates [simp]:
  "ca_windowEnd (buildGapCandidate u z g beats i we ends cb now) = we"
  "ca_createdAt (buildGapCandidate u z g beats i we ends cb now) = to_iso now"
  by (simp_all add: buildGapCandidate_def Let_def)

lemma gap_loop_dates:
  assumes "\<forall>b \<in> set beats. date_parse (ev_observedAt (hb_event b)) \<noteq> None" "date_range now"
    and "\<forall>j \<in> set js. 1 \<le> j \<and> j < length beats" "\<forall>c \<in> set acc. gap_dates c"
  shows "\<forall>c \<in> set (gap_loop uuid z g now beats js acc). gap_dates c"
  using assms
proof (induction uuid z g now beats js acc rule: gap_loop.induct)
  case (2 uuid z g now beats index rest acc)
  have "beats ! (index - 1) \<in> set beats" "beats ! index \<in> set beats" using 2(5) by auto
  then have "gap_dates (buildGapCandidate u z g beats (index - 1) (ev_observedAt (hb_event (beats ! index))) ends cb now)" for u ends cb
    using 2(3,4) by (simp add: gap_dates_def date_parse_iso)
  with 2 show ?case by (simp add: Let_def)
qed simp

lemma detect_dates:
  assumes "date_range now"
  shows "\<forall>c \<in> set (detectHeartbeatGapCandidates lc uuid z ev g now). gap_dates c"
proof -
  let ?b = "heartbeatsFor lc z ev" and ?g = "or_else g HEARTBEAT_GAP_MS"
  have b: "\<forall>b \<in> set ?b. date_parse (ev_observedAt (hb_event b)) \<noteq> None" by (simp add: beats_at)
  have "\<forall>c \<in> set (gap_loop uuid z ?g now ?b [1..<length ?b] []). gap_dates c"
    by (rule gap_loop_dates[OF b assms]) auto
  moreover have "?b \<noteq> [] \<Longrightarrow> gap_dates (buildGapCandidate u z ?g ?b (length ?b - 1) (to_iso now) now None now)" for u
    using b assms by (simp add: gap_dates_def date_parse_iso)
  ultimately show ?thesis by (auto simp: detectHeartbeatGapCandidates_def Let_def)
qed

text \<open>The keys of the silences of a zone do not depend on the identifiers drawn.\<close>

definition zone_keys :: "runtime \<Rightarrow> int \<Rightarrow> string \<times> evidence_event list \<Rightarrow> string list" where
  "zone_keys rt now z = map gap_key (detectHeartbeatGapCandidates (rt_lc rt) (\<lambda>i. []) (fst z) (snd z) None now)"

lemma zone_keys_detect:
  "map gap_key (detectHeartbeatGapCandidates (rt_lc rt) uuid z ev None now) = zone_keys rt now (z, ev)"
proof -
  have pos: "0 < or_else None HEARTBEAT_GAP_MS" by (simp add: HEARTBEAT_GAP_MS_def HEARTBEAT_INTERVAL_MS_def)
  have "map gap_key cs = gap_keys cs" for cs by (simp add: gap_keys_def gap_key_def)
  then show ?thesis by (simp add: zone_keys_def gap_keys_detect detect_starts[OF pos])
qed

definition sweep_keys :: "runtime \<Rightarrow> int \<Rightarrow> world \<Rightarrow> string list" where
  "sweep_keys rt now w = concat (map (zone_keys rt now) (listSweepEvidenceByZone rt SWEEP_LOOKBACK_MS now w))"

subsection \<open>One pass\<close>

text \<open>Between the worlds before and after some candidates were offered: the evidence is the same, the
  keys of the candidates are recorded, and exactly those that were not recorded before have been
  announced, each once.\<close>

definition announced :: "runtime \<Rightarrow> string set \<Rightarrow> world \<Rightarrow> nat \<Rightarrow> world \<Rightarrow> bool" where
  "announced rt K w n w' \<longleftrightarrow>
     evidenceByIdempotencyKey w' = evidenceByIdempotencyKey w \<and>
     t_evidence_events (db w') = t_evidence_events (db w) \<and>
     recorded_keys rt w' = recorded_keys rt w \<union> K \<and>
     (\<exists>new. detected w' = detected w @ new \<and> distinct (map gap_key new) \<and> length new = n \<and>
        gap_key ` set new = K - recorded_keys rt w)"

lemma announced_refl: "announced rt {} w 0 w"
  by (simp add: announced_def)

lemma announced_trans:
  assumes "announced rt K w m w1" "announced rt L w1 n w2"
  shows "announced rt (K \<union> L) w (m + n) w2"
proof -
  obtain new1 where 1: "detected w1 = detected w @ new1" "distinct (map gap_key new1)" "length new1 = m"
    "gap_key ` set new1 = K - recorded_keys rt w" using assms(1) by (auto simp: announced_def)
  obtain new2 where 2: "detected w2 = detected w1 @ new2" "distinct (map gap_key new2)" "length new2 = n"
    "gap_key ` set new2 = L - recorded_keys rt w1" using assms(2) by (auto simp: announced_def)
  have "recorded_keys rt w1 = recorded_keys rt w \<union> K" using assms(1) by (simp add: announced_def)
  with 1 2 have "distinct (map gap_key (new1 @ new2))"
    "gap_key ` set (new1 @ new2) = (K \<union> L) - recorded_keys rt w" by (auto simp: image_Un)
  with 1 2 assms show ?thesis unfolding announced_def by (intro conjI exI[of _ "new1 @ new2"]) auto
qed

lemma recorded_intake: "same intake w w' \<Longrightarrow> recorded_keys rt w' = recorded_keys rt w"
  by (simp add: same_def intake_def recorded_keys_def)

lemma recorded_events: "recorded_keys rt (w\<lparr>w_counters := k, w_events := e\<rparr>) = recorded_keys rt w"
  by (simp add: recorded_keys_def)

lemma recordGap_announces:
  assumes "gap_dates c" "gap_key c \<notin> recorded_keys rt w"
  shows "\<exists>w1. recordGapCandidate rt c w = (Inr (Some c), w1) \<and>
    (\<forall>k w2. same intake (w1\<lparr>w_counters := k, w_events := w_events w1 @ [CandidateDetected c]\<rparr>) w2 \<longrightarrow>
       announced rt {gap_key c} w 1 w2)"
proof -
  obtain w1 where w1: "recordGapCandidate rt c w = (Inr (Some c), w1)"
    "recorded_keys rt w1 = insert (gap_key c) (recorded_keys rt w)"
    using recordGap_run[OF assms(1), of rt w] assms(2) by auto
  have same: "evidenceByIdempotencyKey w1 = evidenceByIdempotencyKey w" "t_evidence_events (db w1) = t_evidence_events (db w)"
    "w_events w1 = w_events w"
    using w1(1) unfolding recordGapCandidate_def insert_candidate_def db_timestamp_def
    by (auto simp: Let_def bindS_def act_defs split: if_splits option.splits prod.splits sum.splits)
  show ?thesis
  proof (intro exI conjI allI impI)
    fix k w2 assume s: "same intake (w1\<lparr>w_counters := k, w_events := w_events w1 @ [CandidateDetected c]\<rparr>) w2"
    from recorded_intake[OF s, of rt] have "recorded_keys rt w2 = insert (gap_key c) (recorded_keys rt w)"
      using w1(2) by (simp only: recorded_events)
    moreover have "detected w2 = detected w @ [c]" "evidenceByIdempotencyKey w2 = evidenceByIdempotencyKey w"
      "t_evidence_events (db w2) = t_evidence_events (db w)"
      using s same by (simp_all add: same_def intake_def detected_def List.map_filter_def)
    ultimately show "announced rt {gap_key c} w 1 w2"
      using assms(2) by (auto simp: announced_def)
  qed (rule w1(1))
qed

lemma recordGap_known:
  assumes "gap_dates c" "gap_key c \<in> recorded_keys rt w"
  shows "recordGapCandidate rt c w = (Inr None, w)"
proof (cases "isDatabaseConfigured rt")
  case False
  with assms(2) show ?thesis by (simp add: recordGapCandidate_def Let_def gap_key_def recorded_keys_def)
next
  case True
  obtain a b d where dates: "date_parse (ca_windowStart c) = Some a" "date_parse (ca_windowEnd c) = Some b"
    "date_parse (ca_createdAt c) = Some d" using assms(1) by (auto simp: gap_dates_def)
  have "\<exists>x \<in> set (t_candidate_events (db w)). cr_candidate_key x = Some (gap_key c)"
    using assms(2) True by (auto simp: recorded_keys_def image_iff)
  then have "insert_candidate (gap_key c) c w = (Inr False, w)"
    by (simp add: insert_candidate_run[OF dates] sql_insert_new_def)
  with True show ?thesis
    by (simp add: recordGapCandidate_def gap_key_def[symmetric] Let_def bindS_def)
qed

lemma sweep_candidates_announce:
  assumes "\<forall>c \<in> set cs. gap_dates c"
  shows "\<exists>n w'. sweep_candidates rt cs r w = (True, r\<lparr>hs_newCandidates := hs_newCandidates r + n\<rparr>, w') \<and>
    announced rt (gap_key ` set cs) w n w'"
  using assms
proof (induction cs arbitrary: r w)
  case Nil
  then show ?case by (intro exI[of _ 0] exI[of _ w]) (simp add: announced_refl)
next
  case (Cons c cs)
  then have c: "gap_dates c" and cs: "\<forall>c \<in> set cs. gap_dates c" by simp_all
  show ?case
  proof (cases "gap_key c \<in> recorded_keys rt w")
    case True
    obtain n w' where n: "sweep_candidates rt cs r w = (True, r\<lparr>hs_newCandidates := hs_newCandidates r + n\<rparr>, w')"
      "announced rt (gap_key ` set cs) w n w'" using Cons.IH[OF cs] by blast
    moreover have "announced rt (gap_key ` set (c # cs)) w n w'"
    proof -
      have "gap_key ` set (c # cs) - recorded_keys rt w = gap_key ` set cs - recorded_keys rt w"
        "recorded_keys rt w \<union> gap_key ` set (c # cs) = recorded_keys rt w \<union> gap_key ` set cs" using True by auto
      with n(2) show ?thesis unfolding announced_def by simp
    qed
    ultimately show ?thesis using recordGap_known[OF c True] by (intro exI[of _ n] exI[of _ w']) simp
  next
    case False
    define r1 where "r1 = r\<lparr>hs_newCandidates := hs_newCandidates r + 1\<rparr>"
    obtain w1 where w1: "recordGapCandidate rt c w = (Inr (Some c), w1)"
      "\<And>k w2. same intake (w1\<lparr>w_counters := k, w_events := w_events w1 @ [CandidateDetected c]\<rparr>) w2 \<Longrightarrow>
         announced rt {gap_key c} w 1 w2"
      using recordGap_announces[OF c False] by blast
    define k where "k = (w_counters w1)\<lparr>candidatesDetected := candidatesDetected (w_counters w1) + 1\<rparr>"
    define w2 where "w2 = snd (processCandidatePipeline rt c None None
      (w1\<lparr>w_counters := k, w_events := w_events w1 @ [CandidateDetected c]\<rparr>))"
    have "announced rt {gap_key c} w 1 w2"
      unfolding w2_def by (rule w1(2)[of k, OF keeps_snd[OF intake_pipeline]])
    moreover obtain n w3 where n: "sweep_candidates rt cs r1 w2 = (True, r1\<lparr>hs_newCandidates := hs_newCandidates r1 + n\<rparr>, w3)"
      "announced rt (gap_key ` set cs) w2 n w3" using Cons.IH[OF cs] by blast
    ultimately have "announced rt (gap_key ` set (c # cs)) w (1 + n) w3"
      using announced_trans[of rt "{gap_key c}" w 1 w2 "gap_key ` set cs" n w3] by simp
    moreover have "sweep_candidates rt (c # cs) r w = sweep_candidates rt cs r1 w2"
      using w1(1) by (simp add: Let_def k_def w2_def r1_def)
    ultimately show ?thesis using n(1) by (intro exI[of _ "1 + n"] exI[of _ w3]) (simp add: r1_def)
  qed
qed

lemma recorded_uuids [simp]: "recorded_keys rt (w\<lparr>w_uuids := n\<rparr>) = recorded_keys rt w"
  by (simp add: recorded_keys_def)

lemma sweep_zones_announce:
  assumes "date_range now"
  shows "\<exists>n w'. sweep_zones rt now zs r w =
      (r\<lparr>hs_candidates := hs_candidates r + length (concat (map (zone_keys rt now) zs)),
         hs_newCandidates := hs_newCandidates r + n\<rparr>, w') \<and>
    announced rt (set (concat (map (zone_keys rt now) zs))) w n w'"
proof (induction zs arbitrary: r w)
  case Nil
  then show ?case by (intro exI[of _ 0] exI[of _ w]) (simp add: announced_refl)
next
  case (Cons z zs)
  obtain zoneId evidence where z: "z = (zoneId, evidence)" by fastforce
  define cs where "cs = detectHeartbeatGapCandidates (rt_lc rt) (\<lambda>i. rt_uuid rt (w_uuids w + i)) zoneId evidence None now"
  have keys: "map gap_key cs = zone_keys rt now z" by (simp add: cs_def z zone_keys_detect)
  have dates: "\<forall>c \<in> set cs. gap_dates c" unfolding cs_def by (rule detect_dates[OF assms])
  define r1 where "r1 = r\<lparr>hs_candidates := hs_candidates r + length cs\<rparr>"
  define w0 where "w0 = w\<lparr>w_uuids := w_uuids w + length cs\<rparr>"
  obtain m w1 where m: "sweep_candidates rt cs r1 w0 = (True, r1\<lparr>hs_newCandidates := hs_newCandidates r1 + m\<rparr>, w1)"
    "announced rt (gap_key ` set cs) w0 m w1" using sweep_candidates_announce[OF dates] by blast
  have m': "announced rt (set (zone_keys rt now z)) w m w1"
    using m(2) unfolding keys[symmetric] set_map by (simp add: announced_def w0_def)
  obtain n w2 where n: "sweep_zones rt now zs (r1\<lparr>hs_newCandidates := hs_newCandidates r1 + m\<rparr>) w1 =
      (r1\<lparr>hs_candidates := hs_candidates r1 + length (concat (map (zone_keys rt now) zs)),
         hs_newCandidates := hs_newCandidates r1 + m + n\<rparr>, w2)"
    "announced rt (set (concat (map (zone_keys rt now) zs))) w1 n w2"
    using Cons.IH[of "r1\<lparr>hs_newCandidates := hs_newCandidates r1 + m\<rparr>" w1] by auto
  have step: "sweep_zones rt now (z # zs) r w = sweep_zones rt now zs (r1\<lparr>hs_newCandidates := hs_newCandidates r1 + m\<rparr>) w1"
    using m(1) by (simp add: z zone_candidates_def Let_def cs_def[symmetric] r1_def w0_def)
  have len: "length cs = length (zone_keys rt now z)" unfolding keys[symmetric] by simp
  from announced_trans[OF m' n(2)] show ?case unfolding step n(1)
    by (intro exI[of _ "m + n"] exI[of _ w2]) (simp add: r1_def len algebra_simps)
qed

lemma sweep_announced:
  assumes "date_range now"
  shows "\<exists>n. hs_candidates (fst (runHeartbeatSweep rt now w)) = length (sweep_keys rt now w) \<and>
    hs_newCandidates (fst (runHeartbeatSweep rt now w)) = n \<and>
    announced rt (set (sweep_keys rt now w)) w n (snd (runHeartbeatSweep rt now w))"
proof -
  let ?zs = "listSweepEvidenceByZone rt SWEEP_LOOKBACK_MS now w"
  obtain n w' where "sweep_zones rt now ?zs \<lparr>hs_zones = length ?zs, hs_candidates = 0, hs_newCandidates = 0\<rparr> w =
      (\<lparr>hs_zones = length ?zs, hs_candidates = length (concat (map (zone_keys rt now) ?zs)), hs_newCandidates = n\<rparr>, w')"
    "announced rt (set (concat (map (zone_keys rt now) ?zs))) w n w'"
    using sweep_zones_announce[OF assms, where zs = ?zs and w = w and rt = rt
      and r = "\<lparr>hs_zones = length ?zs, hs_candidates = 0, hs_newCandidates = 0\<rparr>"] by auto
  then show ?thesis by (intro exI[of _ n]) (simp add: runHeartbeatSweep_def Let_def sweep_keys_def)
qed

text \<open>C29. A heartbeat sweep refines the insertion of the keys of all silences into the set of recorded
  keys, in both backends: it announces exactly the silences that were not recorded before, each once,
  counts them, records them, and leaves the evidence as it is, whatever the pipeline does with each
  candidate.\<close>

theorem sweep_announces_new_silences:
  assumes "date_range now" "runHeartbeatSweep rt now w = (result, w')"
  shows "hs_candidates result = length (sweep_keys rt now w) \<and>
    hs_newCandidates result = card (set (sweep_keys rt now w) - recorded_keys rt w) \<and>
    recorded_keys rt w' = recorded_keys rt w \<union> set (sweep_keys rt now w) \<and>
    (\<exists>new. detected w' = detected w @ new \<and> distinct (map gap_key new) \<and>
       gap_key ` set new = set (sweep_keys rt now w) - recorded_keys rt w)"
proof -
  obtain n where n: "hs_candidates result = length (sweep_keys rt now w)" "hs_newCandidates result = n"
    "announced rt (set (sweep_keys rt now w)) w n w'"
    using sweep_announced[OF assms(1), of rt w] assms(2) by auto
  obtain new where new: "detected w' = detected w @ new" "distinct (map gap_key new)" "length new = n"
    "gap_key ` set new = set (sweep_keys rt now w) - recorded_keys rt w" using n(3) by (auto simp: announced_def)
  have "card (gap_key ` set new) = n" using distinct_card[OF new(2)] new(3) by simp
  with n new show ?thesis unfolding announced_def by auto
qed

text \<open>A world with one old reading, ten minutes after it.\<close>

definition quiet_event :: evidence_event where
  "quiet_event = \<lparr>ev_id = ''e1'', ev_providerId = ''p1'', ev_zoneId = ''zone-1'', ev_idempotencyKey = ''k1'',
     ev_source = SensorProvider, ev_status = GridUp, ev_voltage = Some 220, ev_currentAmps = None,
     ev_confidenceHint = None, ev_rawPayload = [(''deviceId'', JStr ''esp32-1'')],
     ev_observedAt = sample_window_end, ev_receivedAt = sample_window_end\<rparr>"

definition quiet_world :: world where
  "quiet_world = (empty_world (sample_now + 600000))\<lparr>evidenceByIdempotencyKey := [(''k1'', quiet_event)]\<rparr>"

lemma quiet_keys: "sweep_keys memory_rt (sample_now + 600000) quiet_world = [heartbeatGapKey ''zone-1'' sample_window_end]"
proof -
  have zones: "listSweepEvidenceByZone memory_rt SWEEP_LOOKBACK_MS (sample_now + 600000) quiet_world = [(''zone-1'', [quiet_event])]"
    by (simp add: listSweepEvidenceByZone_def Let_def quiet_world_def empty_world_def quiet_event_def 
        SWEEP_LOOKBACK_MS_def HEARTBEAT_GAP_MS_def HEARTBEAT_INTERVAL_MS_def sample_window_end_date groupEvidenceByZone_def)
  have "heartbeatsFor (rt_lc memory_rt) ''zone-1'' [quiet_event] = [\<lparr>hb_event = quiet_event, hb_at = sample_now\<rparr>]"
    by (simp add: heartbeatsFor_def List.map_filter_def quiet_event_def beat_of_def sample_window_end_date)
  then show ?thesis
    by (simp add: sweep_keys_def zones zone_keys_def detectHeartbeatGapCandidates_def Let_def
        HEARTBEAT_GAP_MS_def HEARTBEAT_INTERVAL_MS_def gap_key_def quiet_event_def)
qed

theorem sweep_announces_new_silences_witness:
  "hs_newCandidates (fst (runHeartbeatSweep memory_rt (sample_now + 600000) quiet_world)) = 1"
proof -
  obtain r w' where run: "runHeartbeatSweep memory_rt (sample_now + 600000) quiet_world = (r, w')" by fastforce
  have "date_range (sample_now + 600000)" by (simp add: date_range_def sample_now_def)
  moreover have "recorded_keys memory_rt quiet_world = {}"
    by (simp add: recorded_keys_def quiet_world_def empty_world_def)
  ultimately show ?thesis using sweep_announces_new_silences[OF _ run] run by (simp add: quiet_keys)
qed

text \<open>C30. A silence is announced once: however often and whenever the sweep runs, no silence that was
  recorded before is announced, and none is announced twice.\<close>

theorem silence_announced_once:
  assumes "list_all date_range nows"
  shows "\<exists>new. detected (fold (\<lambda>now w. snd (runHeartbeatSweep rt now w)) nows w) = detected w @ new \<and>
    distinct (map gap_key new) \<and> gap_key ` set new \<inter> recorded_keys rt w = {}"
proof -
  have "\<exists>K n. announced rt K w n (fold (\<lambda>now w. snd (runHeartbeatSweep rt now w)) nows w)"
    using assms
  proof (induction nows arbitrary: w)
    case Nil
    then show ?case using announced_refl by auto
  next
    case (Cons now nows)
    then obtain m where m: "announced rt (set (sweep_keys rt now w)) w m (snd (runHeartbeatSweep rt now w))"
      using sweep_announced[of now rt w] by auto
    obtain K n where "announced rt K (snd (runHeartbeatSweep rt now w)) n
        (fold (\<lambda>now w. snd (runHeartbeatSweep rt now w)) nows (snd (runHeartbeatSweep rt now w)))"
      using Cons.IH[of "snd (runHeartbeatSweep rt now w)"] Cons.prems by auto
    from announced_trans[OF m this] show ?case by auto
  qed
  then show ?thesis unfolding announced_def by auto
qed

theorem silence_announced_once_witness:
  "\<exists>new. detected (fold (\<lambda>now w. snd (runHeartbeatSweep memory_rt now w)) [sample_now, sample_now + 600000] quiet_world) = new \<and>
    distinct (map gap_key new)"
  using silence_announced_once[of "[sample_now, sample_now + 600000]" memory_rt quiet_world]
  by (auto simp: date_range_def sample_now_def quiet_world_def empty_world_def detected_def List.map_filter_def)

end
