(* ===== verification/Effects.thy ===== *)
theory Effects imports Scheduler begin

section \<open>What the parts leave to each other\<close>

text \<open>
  The stores that evidence, pipeline and chain sweeps never touch, whatever their arguments and
  however they end. A property of these stores survives every such operation.
\<close>

definition bystanders :: "world \<Rightarrow> _" where
  "bystanders w = (w_now w, memoryChallenges w, memoryRuns w, memoryUsersByIdentity w, t_users (db w),
     memoryProvidersByWallet w, memoryNotifications w, t_notification_outbox (db w), memoryCounters w)"

text \<open>The books of the chain: scores and commitments of both backends.\<close>

definition chain_books :: "world \<Rightarrow> _" where
  "chain_books w = (memoryEpochScoresByKey w, memoryCommitmentsByEpochScore w, t_epoch_scores (db w),
     t_chain_commitments (db w))"

text \<open>What is settled once a decision is stored: the decisions and the bystanders.\<close>

definition settled :: "world \<Rightarrow> _" where
  "settled w = (bystanders w, memoryDecisions w, t_agent_decisions (db w))"

definition evidence_rest :: "world \<Rightarrow> _" where
  "evidence_rest w = (bystanders w, chain_books w, memoryDecisions w, t_agent_decisions (db w))"

lemmas rest_defs = evidence_rest_def settled_def bystanders_def chain_books_def

lemma keeps_image: "keeps (same f) m \<Longrightarrow> (\<And>w w'. f w' = f w \<Longrightarrow> g w' = g w) \<Longrightarrow> keeps (same g) m"
  unfolding keeps_def same_def by blast

text \<open>An operation that looks at the world before it acts.\<close>

lemma keeps_diag: "(\<And>x. keeps R (F x)) \<Longrightarrow> keeps R (\<lambda>w. F w w)"
  by (simp add: keeps_def)

lemma keeps_if: "(b \<Longrightarrow> keeps R m) \<Longrightarrow> (\<not> b \<Longrightarrow> keeps R n) \<Longrightarrow> keeps R (if b then m else n)"
  by simp

lemma keeps_option:
  "(x = None \<Longrightarrow> keeps R m) \<Longrightarrow> (\<And>v. x = Some v \<Longrightarrow> keeps R (f v)) \<Longrightarrow> keeps R (case x of None \<Rightarrow> m | Some v \<Rightarrow> f v)"
  by (cases x) simp_all

subsection \<open>Audit, counters, identifiers\<close>

lemma rest_audit: "keeps (same evidence_rest) (appendAuditLog rt i)"
  by (simp add: keeps_def same_def rest_defs appendAuditLog_run)

lemma rest_enqueue: "keeps (same evidence_rest) (enqueueAgentReviewJob rt j)"
  by (simp add: keeps_def same_def rest_defs enqueueAgentReviewJob_def enqueueMemoryJob_def Let_def split: option.split)

lemma rest_basic:
  "keeps (same evidence_rest) (randomUUID rt)" "keeps (same evidence_rest) (count k)" "keeps (same evidence_rest) (emit e)"
  by (simp_all add: keeps_def same_def rest_defs count_def emit_def)

lemma evidence_rest_bystanders: "keeps (same evidence_rest) m \<Longrightarrow> keeps (same bystanders) m"
  by (erule keeps_image) (simp add: evidence_rest_def)

lemma evidence_rest_settled: "keeps (same evidence_rest) m \<Longrightarrow> keeps (same settled) m"
  by (erule keeps_image) (simp add: evidence_rest_def settled_def)

lemma settled_bystanders: "keeps (same settled) m \<Longrightarrow> keeps (same bystanders) m"
  by (erule keeps_image) (simp add: settled_def)

lemmas settled_rules = same.keeps_basic keeps_if keeps_option rest_audit[THEN evidence_rest_settled]
  rest_enqueue[THEN evidence_rest_settled] rest_basic[THEN evidence_rest_settled]
lemmas rest_rules = same.keeps_basic keeps_if keeps_option rest_audit rest_enqueue rest_basic
lemmas bystander_rules = same.keeps_basic keeps_if keeps_option rest_audit[THEN evidence_rest_bystanders]
  rest_enqueue[THEN evidence_rest_bystanders] rest_basic[THEN evidence_rest_bystanders]

subsection \<open>Evidence\<close>

lemma rest_detection: "keeps (same evidence_rest) (run_detection rt e es)"
  by (auto simp: keeps_def same_def rest_defs run_detection_def split: sum.split option.split)

lemma rest_memory_candidate: "keeps (same evidence_rest) (storeMemoryCandidate rt e)"
  unfolding storeMemoryCandidate_def
  by (intro rest_rules rest_detection same.keeps_modify) (simp_all add: same_def rest_defs)

lemma rest_memory_evidence: "keeps (same evidence_rest) (upsert_memory_evidence rt k build)"
proof -
  let ?store = "\<lambda>e. bindS (modifyS (\<lambda>w. w\<lparr>evidenceByIdempotencyKey := jm_set k e (evidenceByIdempotencyKey w)\<rparr>)) (\<lambda>_.
      bindS (storeMemoryCandidate rt e) (\<lambda>c.
      returnS \<lparr>ir_duplicate = False, ir_evidenceEvent = e, ir_candidateEvent = c\<rparr>))"
  have store: "keeps (same evidence_rest) (?store e)" for e
    by (intro rest_rules rest_memory_candidate same.keeps_modify) (simp add: same_def rest_defs)
  have new: "keeps (same evidence_rest) (bindS (randomUUID rt) (\<lambda>a. bindS (randomUUID rt) (\<lambda>b w. ?store (build a b (to_iso (w_now w))) w)))"
    by (intro same.keeps_bind rest_basic keeps_diag[where F = "\<lambda>w. ?store (build _ _ (to_iso (w_now w)))"] store)
  show ?thesis
  proof (rule keepsI)
    fix w
    show "same evidence_rest w (snd (upsert_memory_evidence rt k build w))"
      using keeps_snd[OF new, of w]
      by (cases "jm_get (evidenceByIdempotencyKey w) k") (simp_all add: upsert_memory_evidence_def Let_def same.R_refl)
  qed
qed

lemma rest_timestamps: "keeps (same evidence_rest) (insert_candidate key c)" "keeps (same evidence_rest) (insert_evidence rt input pid)"
  unfolding insert_candidate_def insert_evidence_def
  by (intro rest_rules; simp add: keeps_def same_def rest_defs Let_def case_prod_beta)+

lemma rest_database_evidence: "keeps (same evidence_rest) (upsertDatabaseEvidence rt input)"
proof -
  have parts: "keeps (same evidence_rest) (ensureZone rt z)" "keeps (same evidence_rest) (findEvidenceByIdempotencyKey k)"
    "keeps (same evidence_rest) (ensureProvider rt wa pt z)" for z k wa pt
    by (simp_all add: keeps_def same_def rest_defs ensureZone_def findEvidenceByIdempotencyKey_def ensureProvider_def
        Let_def case_prod_beta split: option.split)
  have "keeps (same evidence_rest) (storeDatabaseCandidate rt e)" for e
    unfolding storeDatabaseCandidate_def by (intro rest_rules rest_detection rest_timestamps)
  with parts show ?thesis
    unfolding upsertDatabaseEvidence_def by (intro rest_rules rest_timestamps) auto
qed

theorem rest_evidence:
  "keeps (same evidence_rest) (upsertTelemetryEvidence rt t)" "keeps (same evidence_rest) (upsertReporterEvidence rt r)"
  by (auto simp: upsertTelemetryEvidence_def upsertReporterEvidence_def rest_database_evidence rest_memory_evidence)

subsection \<open>The pipeline\<close>

lemma by_decision: "keeps (same bystanders) (upsertDatabaseDecision d)"
  by (auto simp: keeps_def same_def rest_defs upsert_decision_run split: option.split)

lemma by_announce: "keeps (same settled) (announce_commitment rt c d s m src)"
  unfolding announce_commitment_def auditChainQueued_def by (intro settled_rules)

lemma by_commitment:
  "keeps (same settled) (database_commitment rt c d src)" "keeps (same settled) (memory_commitment rt c d src)"
proof -
  have "keeps (same settled) (recomputeDatabaseEpochScore rt c)"
    unfolding recomputeDatabaseEpochScore_def
    by (intro settled_rules) (auto simp: keeps_def same_def rest_defs Let_def case_prod_beta)
  moreover have "keeps (same settled) (recomputeMemoryEpochScore rt c)"
    unfolding recomputeMemoryEpochScore_def
    by (intro settled_rules) (auto simp: keeps_def same_def)
  moreover have "keeps (same settled) (upsertDatabasePendingCommitment rt s)" for s
    by (auto simp: upsertDatabasePendingCommitment_def keeps_def same_def rest_defs Let_def case_prod_beta)
  ultimately show "keeps (same settled) (database_commitment rt c d src)" "keeps (same settled) (memory_commitment rt c d src)"
    unfolding database_commitment_def memory_commitment_def
    by (auto intro!: settled_rules same.keeps_modify by_announce simp: same_def rest_defs)
qed

lemma by_act_on:
  "keeps (same settled) commit \<Longrightarrow> keeps (same settled) (act_on_decision rt c d e sim commit)"
  unfolding act_on_decision_def review_required_def queueAgentReview_def auditSimulationProofPreview_def
  by (cases "ad_decision d"; cases sim) (auto intro!: settled_rules)

theorem by_pipeline: "keeps (same bystanders) (processCandidatePipeline rt c e sim)"
  unfolding processCandidatePipeline_def auditAgentDecision_def
  by (cases "isDatabaseConfigured rt")
    (auto intro!: bystander_rules same.keeps_modify by_decision
      by_act_on[THEN settled_bystanders] by_commitment simp: same_def rest_defs)

lemma keeps_look: "(\<And>v. keeps (same f) (F v)) \<Longrightarrow> keeps (same f) (\<lambda>w. case g w of None \<Rightarrow> (r, w) | Some v \<Rightarrow> F v w)"
  by (auto simp: keeps_def same_def split: option.split)

lemma by_review_parts:
  "keeps (same bystanders) (auditReviewDecision rt b a n u)" "keeps (same bystanders) (findDatabaseCandidate cid)"
  unfolding auditReviewDecision_def
  by (intro bystander_rules) (simp add: findDatabaseCandidate_def keeps_def same_def split: option.split)

lemmas by_review_rules = bystander_rules by_review_parts by_commitment[THEN settled_bystanders]

lemma by_resolve:
  "keeps (same bystanders) (resolve_database rt i d n u)" "keeps (same bystanders) (resolve_memory rt i d n u)"
proof (rule_tac [!] keepsI)
  fix w
  show "same bystanders w (snd (resolve_database rt i d n u w))"
  proof (cases "sql_find dr_id (t_agent_decisions (db w)) i")
    case (Some row)
    show ?thesis
      unfolding resolve_database_def Some option.case Let_def
      by (rule keeps_snd, intro by_review_rules same.keeps_db) (simp add: same_def rest_defs)
  qed (simp add: resolve_database_def same.R_refl)
  show "same bystanders w (snd (resolve_memory rt i d n u w))"
  proof (cases "List.find (\<lambda>d. ad_id d = i) (jm_values (memoryDecisions w))")
    case (Some current)
    show ?thesis
      unfolding resolve_memory_def Some option.case Let_def
      by (rule keeps_snd, intro by_review_rules same.keeps_modify keeps_look) (simp_all add: same_def rest_defs)
  qed (simp add: resolve_memory_def same.R_refl)
qed

theorem by_review: "keeps (same bystanders) (resolveReviewDecision rt i d n u)"
  by (simp add: resolveReviewDecision_def by_resolve)

subsection \<open>Chain sweeps\<close>

lemma by_update: "keeps (same settled) (update_commitment cid upd)"
  unfolding update_commitment_def by (rule same.keeps_db) (simp add: same_def rest_defs)

lemma by_submit_rows: "keeps (same settled) (submit_rows rt ch rows hs)"
  by (induction rt ch rows hs rule: submit_rows.induct)
    (auto intro!: settled_rules by_update simp del: act_apply split: sum.split)

lemma by_index_rows: "keeps (same settled) (index_rows rt ch rows result)"
proof (induction rows arbitrary: result)
  case (Cons row rows)
  show ?case
    unfolding index_rows.simps by (intro settled_rules by_update) (auto simp: Let_def intro!: settled_rules by_update Cons)
qed (simp add: settled_rules)

theorem by_sweeps:
  "keeps (same settled) (submitPendingCommitments rt ch n)" "keeps (same settled) (indexPendingConfirmations rt ch n)"
  unfolding submitPendingCommitments_def indexPendingConfirmations_def submitPendingCommitmentsWithClient_def
    indexPendingConfirmationsWithClient_def skip_submission_def skip_index_def Let_def
  by (intro settled_rules by_submit_rows by_index_rows)+

end
