(* ===== verification/Demo.thy ===== *)
theory Demo imports Dashboard Ingestion_Routes Effects begin

section \<open>The demo lab\<close>

text \<open>
  \<open>modules/demo/service.ts\<close> and \<open>modules/demo/routes.ts\<close>: a wallet signs a challenge that authorizes
  one synthetic reading; the reading passes the same detection and policy gate as real telemetry and,
  in live mode, its score is submitted to the chain. Recovering the signer of a message
  (\<open>verifyMessage\<close> of ethers) is a parameter: the address, or \<open>None\<close> when it throws.
\<close>

subsection \<open>Requests and responses\<close>

type_synonym verify_message = "string \<Rightarrow> string \<Rightarrow> string option"

fun demo_scenario_string :: "demo_scenario \<Rightarrow> string" where
  "demo_scenario_string AmbiguousOutage = ''ambiguous_outage''"
| "demo_scenario_string ConfirmedOutage = ''confirmed_outage''"
| "demo_scenario_string Restoration = ''restoration''"

definition parse_demo_scenario :: "string \<Rightarrow> demo_scenario option" where
  "parse_demo_scenario s =
     (if s = ''ambiguous_outage'' then Some AmbiguousOutage
      else if s = ''confirmed_outage'' then Some ConfirmedOutage
      else if s = ''restoration'' then Some Restoration else None)"

record wallet_challenge_request =
  wq_walletAddress :: string
  wq_zoneId :: string
  wq_scenario :: demo_scenario
  wq_publishToChain :: bool

definition demoWalletChallengeRequestSchema :: "zod_formats \<Rightarrow> wallet_challenge_request \<Rightarrow> bool" where
  "demoWalletChallengeRequestSchema F r \<longleftrightarrow> walletAddressSchema (wq_walletAddress r) \<and> uuidSchema F (wq_zoneId r)"

datatype chain_mode = PreviewMode | LiveMode

fun chain_mode_string :: "chain_mode \<Rightarrow> string" where
  "chain_mode_string PreviewMode = ''preview''"
| "chain_mode_string LiveMode = ''live''"

definition mode_of :: "bool \<Rightarrow> chain_mode" where
  "mode_of publishToChain = (if publishToChain then LiveMode else PreviewMode)"

record wallet_challenge_response =
  wr_nonce :: string
  wr_message :: string
  wr_expiresAt :: string
  wr_chainMode :: chain_mode

definition demoWalletChallengeResponseSchema :: "zod_formats \<Rightarrow> wallet_challenge_response \<Rightarrow> bool" where
  "demoWalletChallengeResponseSchema F r \<longleftrightarrow>
     uuidSchema F (wr_nonce r) \<and> 1 \<le> length (wr_message r) \<and> isoDateTimeSchema F (wr_expiresAt r)"

record simulation_request =
  sq_walletAddress :: string
  sq_nonce :: string
  sq_signature :: string
  sq_zoneId :: string
  sq_scenario :: demo_scenario
  sq_publishToChain :: bool

text \<open>The signature matches \<open>^0x[a-fA-F0-9]+$\<close>.\<close>

definition demoSimulationRequestSchema :: "zod_formats \<Rightarrow> simulation_request \<Rightarrow> bool" where
  "demoSimulationRequestSchema F r \<longleftrightarrow> walletAddressSchema (sq_walletAddress r) \<and> uuidSchema F (sq_nonce r) \<and>
     3 \<le> length (sq_signature r) \<and> hex_string (length (sq_signature r) - 2) (sq_signature r) \<and> uuidSchema F (sq_zoneId r)"

datatype demo_stage = TelemetryAccepted | AiQueued | AiComplete | ProofPreview | ChainPending | ChainConfirmed | ChainFailed

datatype agent_state = NotRequired | AgentQueued | AgentComplete

datatype demo_chain_status = NotRequested | Previewed | OnChain chain_commitment_status

record demo_chain =
  dn_mode :: chain_mode
  dn_status :: demo_chain_status
  dn_txHash :: "string option"
  dn_explorerUrl :: "string option"

record demo_decision =
  dd_agentName :: string
  dd_decision :: agent_decision_status
  dd_confidence :: rat
  dd_hypothesis :: string
  dd_createdAt :: string

record demo_candidate =
  dk_id :: string
  dk_status :: candidate_status
  dk_confidence :: rat

record demo_simulation =
  ds_id :: string
  ds_initiatedBy :: string
  ds_scenario :: "demo_scenario option"
  ds_zoneId :: string
  ds_createdAt :: string
  ds_stage :: demo_stage
  ds_telemetry :: demo_telemetry
  ds_candidate :: demo_candidate
  ds_policyDecision :: demo_decision
  ds_aiDecision :: "demo_decision option"
  ds_agentState :: agent_state
  ds_chain :: demo_chain

definition demoDecisionSchema :: "zod_formats \<Rightarrow> demo_decision \<Rightarrow> bool" where
  "demoDecisionSchema F d \<longleftrightarrow> 1 \<le> length (dd_agentName d) \<and> 0 \<le> dd_confidence d \<and> dd_confidence d \<le> 1 \<and>
     1 \<le> length (dd_hypothesis d) \<and> isoDateTimeSchema F (dd_createdAt d)"

definition demoSimulationSchema :: "zod_formats \<Rightarrow> demo_simulation \<Rightarrow> bool" where
  "demoSimulationSchema F s \<longleftrightarrow>
     uuidSchema F (ds_id s) \<and> walletAddressSchema (ds_initiatedBy s) \<and> ds_scenario s \<noteq> None \<and> uuidSchema F (ds_zoneId s) \<and>
     isoDateTimeSchema F (ds_createdAt s) \<and>
     uuidSchema F (dt_evidenceId (ds_telemetry s)) \<and> opt_any (\<lambda>d. 1 \<le> length d) (dt_deviceId (ds_telemetry s)) \<and>
     0 \<le> dt_voltage (ds_telemetry s) \<and> opt_any (\<lambda>a. 0 \<le> a) (dt_currentAmps (ds_telemetry s)) \<and>
     isoDateTimeSchema F (dt_observedAt (ds_telemetry s)) \<and>
     uuidSchema F (dk_id (ds_candidate s)) \<and> 0 \<le> dk_confidence (ds_candidate s) \<and> dk_confidence (ds_candidate s) \<le> 1 \<and>
     demoDecisionSchema F (ds_policyDecision s) \<and> opt_all (demoDecisionSchema F) (ds_aiDecision s) \<and>
     opt_all txHashSchema (dn_txHash (ds_chain s)) \<and> opt_all (fmt_url F) (dn_explorerUrl (ds_chain s))"

subsection \<open>Challenges\<close>

definition CHALLENGE_TTL_MS :: int where "CHALLENGE_TTL_MS = 5 * 60 * 1000"
definition DEMO_DEVICE_ID :: string where "DEMO_DEVICE_ID = ''gridproof-judge-lab-01''"
definition DEMO_PROVIDER_WALLET :: string where
  "DEMO_PROVIDER_WALLET = ''0xdE00000000000000000000000000000000000001''"

definition challenge_message :: "wallet_challenge_request \<Rightarrow> string \<Rightarrow> string \<Rightarrow> string" where
  "challenge_message input nonce expiresAt = join_with [CHR 0x0A]
     [''GridProof Judge Demo'', [],
      ''Authorize one synthetic telemetry simulation.'',
      (if wq_publishToChain input
       then ''If this evidence is approved, authorize the GridProof backend relayer to publish its availability proof to BOT Chain. The relayer pays gas; this signature does not transfer funds.''
       else ''Preview the proof only. This signature does not submit a blockchain transaction or transfer funds.''),
      ''Wallet: '' @ to_lower (wq_walletAddress input),
      ''Zone: '' @ wq_zoneId input,
      ''Scenario: '' @ demo_scenario_string (wq_scenario input),
      ''Chain mode: '' @ chain_mode_string (mode_of (wq_publishToChain input)),
      ''Nonce: '' @ nonce,
      ''Expires: '' @ expiresAt]"

definition demo_writes_allowed :: "runtime \<Rightarrow> bool" where
  "demo_writes_allowed rt \<longleftrightarrow> rt_env rt ''GRIDPROOF_DEMO_ALLOW_CHAIN_WRITE'' = Some ''true''"

definition new_challenge :: "wallet_challenge_request \<Rightarrow> string \<Rightarrow> int \<Rightarrow> demo_challenge" where
  "new_challenge input nonce now =
     (let expiresAt = to_iso (now + CHALLENGE_TTL_MS) in
      \<lparr>dc_nonce = nonce, dc_walletAddress = to_lower (wq_walletAddress input),
       dc_message = challenge_message input nonce expiresAt, dc_expiresAt = expiresAt, dc_zoneId = wq_zoneId input,
       dc_scenario = wq_scenario input, dc_publishToChain = wq_publishToChain input, dc_used = False\<rparr>)"

definition createDemoWalletChallenge :: "runtime \<Rightarrow> wallet_challenge_request \<Rightarrow> wallet_challenge_response act" where
  "createDemoWalletChallenge rt input =
     (if wq_publishToChain input \<and> \<not> demo_writes_allowed rt
      then throwS (http_error 403 ''DEMO_CHAIN_WRITE_DISABLED'' ''Live BOT Chain publishing is not enabled for this demo deployment'')
      else
        bindS (randomUUID rt) (\<lambda>nonce.
        bindS (getS w_now) (\<lambda>now.
        let c = new_challenge input nonce now in
        bindS (modifyS (\<lambda>w. w\<lparr>memoryChallenges := jm_set nonce c (memoryChallenges w)\<rparr>)) (\<lambda>_.
        returnS \<lparr>wr_nonce = nonce, wr_message = dc_message c, wr_expiresAt = dc_expiresAt c,
          wr_chainMode = mode_of (wq_publishToChain input)\<rparr>))))"

text \<open>The checks of a challenge in their order: the challenge to mark as used, or the error.\<close>

definition check_challenge :: "verify_message \<Rightarrow> int \<Rightarrow> demo_challenge option \<Rightarrow> simulation_request \<Rightarrow> demo_challenge res" where
  "check_challenge verify now found input =
     (case found of
        None \<Rightarrow> Inl (http_error 401 ''DEMO_AUTH_EXPIRED'' ''Wallet authorization expired; connect and sign again'')
      | Some challenge \<Rightarrow>
          if dc_used challenge \<or> (case date_parse (dc_expiresAt challenge) of None \<Rightarrow> False | Some t \<Rightarrow> t \<le> now)
          then Inl (http_error 401 ''DEMO_AUTH_EXPIRED'' ''Wallet authorization expired; connect and sign again'')
          else if dc_walletAddress challenge \<noteq> to_lower (sq_walletAddress input)
          then Inl (http_error 401 ''DEMO_WALLET_MISMATCH'' ''Wallet address does not match the authorization challenge'')
          else if dc_zoneId challenge \<noteq> sq_zoneId input \<or> dc_scenario challenge \<noteq> sq_scenario input \<or>
            dc_publishToChain challenge \<noteq> sq_publishToChain input
          then Inl (http_error 401 ''DEMO_CHALLENGE_MISMATCH''
            ''Simulation details do not match the signed authorization challenge'')
          else (case verify (dc_message challenge) (sq_signature input) of
              None \<Rightarrow> Inl (http_error 401 ''DEMO_BAD_SIGNATURE'' ''Wallet signature could not be verified'')
            | Some recovered \<Rightarrow>
                if to_lower recovered \<noteq> dc_walletAddress challenge
                then Inl (http_error 401 ''DEMO_BAD_SIGNATURE'' ''Wallet signature does not match the connected address'')
                else Inr challenge))"

definition consumeChallenge :: "verify_message \<Rightarrow> simulation_request \<Rightarrow> unit act" where
  "consumeChallenge verify input w =
     (case check_challenge verify (w_now w) (jm_get (memoryChallenges w) (sq_nonce input)) input of
        Inl e \<Rightarrow> (Inl e, w)
      | Inr challenge \<Rightarrow>
          (Inr (), w\<lparr>memoryChallenges := jm_set (sq_nonce input) (challenge\<lparr>dc_used := True\<rparr>) (memoryChallenges w)\<rparr>))"

subsection \<open>What a simulation observes\<close>

record demo_reading =
  dg_status :: evidence_status
  dg_voltage :: rat
  dg_currentAmps :: rat

fun readingFor :: "demo_scenario \<Rightarrow> demo_reading" where
  "readingFor ConfirmedOutage = \<lparr>dg_status = GridDown, dg_voltage = 0, dg_currentAmps = 0\<rparr>"
| "readingFor Restoration = \<lparr>dg_status = GridUp, dg_voltage = 10700, dg_currentAmps = 42\<rparr>"
| "readingFor AmbiguousOutage = \<lparr>dg_status = GridDown, dg_voltage = 72, dg_currentAmps = fl (32 / 10)\<rparr>"

text \<open>The series of the statement, latest first: the hours from the previous one back to the 168th,
  with the session's time zone aligned to full hours.\<close>

definition completed_epochs :: "int \<Rightarrow> int list" where
  "completed_epochs now = map (\<lambda>k. floor_epoch_ms now - int k * EPOCH_DURATION_MS) [1..<169]"

definition unused_epoch :: "string \<Rightarrow> world \<Rightarrow> int option" where
  "unused_epoch zoneId w =
     List.find (\<lambda>t. \<not> (\<exists>es \<in> set (t_epoch_scores (db w)). ep_zone_id es = zoneId \<and> ep_epoch_start es = t))
       (completed_epochs (w_now w))"

definition HALF_EPOCH_MS :: int where "HALF_EPOCH_MS = 30 * 60 * 1000"

definition demoObservedAt :: "runtime \<Rightarrow> string \<Rightarrow> bool \<Rightarrow> string act" where
  "demoObservedAt rt zoneId publishToChain =
     (if \<not> publishToChain then getS (\<lambda>w. to_iso (w_now w))
      else if isDatabaseConfigured rt
      then bindS (getS (unused_epoch zoneId)) (\<lambda>epochStart.
        case epochStart of
          None \<Rightarrow> throwS (http_error 409 ''DEMO_EPOCH_UNAVAILABLE''
            ''No unused completed epoch is available for this feeder's live demo proof'')
        | Some t \<Rightarrow> returnS (to_iso (t + HALF_EPOCH_MS)))
      else getS (\<lambda>w. to_iso (floor_epoch_ms (w_now w) - EPOCH_DURATION_MS + HALF_EPOCH_MS)))"

definition demo_telemetry_request :: "simulation_request \<Rightarrow> string \<Rightarrow> string \<Rightarrow> telemetry_request" where
  "demo_telemetry_request input run_id observedAt =
     (let reading = readingFor (sq_scenario input) in
      \<lparr>te_deviceId = DEMO_DEVICE_ID, te_providerWallet = DEMO_PROVIDER_WALLET, te_zoneId = sq_zoneId input,
       te_idempotencyKey = ''judge-demo:'' @ run_id, te_observedAt = observedAt, te_status = dg_status reading,
       te_voltage = Some (dg_voltage reading), te_currentAmps = Some (dg_currentAmps reading),
       te_signature = ''demo:'' @ run_id\<rparr>)"

subsection \<open>What a simulation shows\<close>

definition scenarioCandidate :: "demo_scenario option \<Rightarrow> candidate_status" where
  "scenarioCandidate scenario = (if scenario = Some Restoration then Restored else Outage)"

definition decisionView :: "agent_decision \<Rightarrow> demo_decision" where
  "decisionView d = \<lparr>dd_agentName = ad_agentName d, dd_decision = ad_decision d, dd_confidence = ad_confidence d,
     dd_hypothesis = ad_hypothesis d, dd_createdAt = ad_createdAt d\<rparr>"

definition AI_AGENT :: string where "AI_AGENT = ''ai-evidence-verification-agent''"

definition findAiDecision :: "runtime \<Rightarrow> string \<Rightarrow> world \<Rightarrow> agent_decision option" where
  "findAiDecision rt candidateId w =
     (if \<not> isDatabaseConfigured rt then None
      else map_option mapDecisionRow
        (List.find (\<lambda>d. dr_candidate_event_id d = candidateId \<and> dr_agent_name d = AI_AGENT) (t_agent_decisions (db w))))"

definition hasProofPreview :: "runtime \<Rightarrow> string \<Rightarrow> world \<Rightarrow> bool" where
  "hasProofPreview rt candidateId w =
     (if \<not> isDatabaseConfigured rt
      then list_ex (\<lambda>log. opt_any (\<lambda>after. map_of after ''candidateEventId'' = Some (JStr candidateId)) (au_after log))
        (listMemoryAuditLogs (Some ''demo.proof_previewed'') w)
      else list_ex (\<lambda>log. ar_action log = ''demo.proof_previewed'' \<and>
          opt_any (\<lambda>after. json_text after ''candidateEventId'' = Some candidateId) (ar_after log)) (t_audit_logs (db w)))"

text \<open>The commitments of the hour in which the candidate's window ends.\<close>

definition candidate_commitments :: "tables \<Rightarrow> string \<Rightarrow> string \<Rightarrow> commitment_row list" where
  "candidate_commitments t candidateId zoneId =
     [cc. c \<leftarrow> filter (\<lambda>c. cr_id c = candidateId \<and> cr_zone_id c = zoneId) (t_candidate_events t),
       es \<leftarrow> filter (\<lambda>es. ep_zone_id es = cr_zone_id c \<and> ep_epoch_start es = floor_epoch_ms (cr_window_end c)) (t_epoch_scores t),
       cc \<leftarrow> filter (\<lambda>cc. cm_epoch_score_id cc = ep_id es) (t_chain_commitments t)]"

definition findChainState :: "runtime \<Rightarrow> string \<Rightarrow> string \<Rightarrow> bool \<Rightarrow> world \<Rightarrow> demo_chain" where
  "findChainState rt zoneId candidateId allowChainWrite w =
     (if \<not> allowChainWrite
      then \<lparr>dn_mode = PreviewMode, dn_status = (if hasProofPreview rt candidateId w then Previewed else NotRequested),
        dn_txHash = None, dn_explorerUrl = None\<rparr>
      else if \<not> isDatabaseConfigured rt
      then \<lparr>dn_mode = LiveMode, dn_status = NotRequested, dn_txHash = None, dn_explorerUrl = None\<rparr>
      else (case candidate_commitments (db w) candidateId zoneId of
          [] \<Rightarrow> \<lparr>dn_mode = LiveMode, dn_status = NotRequested, dn_txHash = None, dn_explorerUrl = None\<rparr>
        | row # _ \<Rightarrow> \<lparr>dn_mode = LiveMode, dn_status = OnChain (cm_status row), dn_txHash = cm_tx_hash row,
            dn_explorerUrl = cm_explorer_url row\<rparr>))"

definition stage_of :: "demo_chain_status \<Rightarrow> agent_state \<Rightarrow> demo_stage" where
  "stage_of chain agentState =
     (if chain = OnChain Confirmed then ChainConfirmed
      else if chain = OnChain Failed then ChainFailed
      else if chain = OnChain Pending then ChainPending
      else if chain = Previewed then ProofPreview
      else if agentState = AgentComplete then AiComplete
      else if agentState = AgentQueued then AiQueued
      else TelemetryAccepted)"

definition simulationFromRun :: "runtime \<Rightarrow> demo_run_record \<Rightarrow> world \<Rightarrow> demo_simulation" where
  "simulationFromRun rt run w =
     (let aiDecision = findAiDecision rt (rn_candidateId run) w;
          chain = findChainState rt (rn_zoneId run) (rn_candidateId run) (rn_allowChainWrite run) w;
          agentState = (if ad_decision (rn_policyDecision run) = Escalate
            then (if aiDecision \<noteq> None then AgentComplete else AgentQueued) else NotRequired) in
      \<lparr>ds_id = rn_id run, ds_initiatedBy = rn_initiatedBy run, ds_scenario = rn_scenario run, ds_zoneId = rn_zoneId run,
       ds_createdAt = rn_createdAt run, ds_stage = stage_of (dn_status chain) agentState, ds_telemetry = rn_telemetry run,
       ds_candidate = \<lparr>dk_id = rn_candidateId run,
         dk_status = (if map_of (ad_reasoningTrace (rn_policyDecision run)) ''candidateStatus'' = Some (JStr ''restored'')
           then Restored else scenarioCandidate (rn_scenario run)),
         dk_confidence = ad_confidence (rn_policyDecision run)\<rparr>,
       ds_policyDecision = decisionView (rn_policyDecision run), ds_aiDecision = map_option decisionView aiDecision,
       ds_agentState = agentState, ds_chain = chain\<rparr>)"

subsection \<open>Running and finding simulations\<close>

definition demo_run ::
  "simulation_request \<Rightarrow> string \<Rightarrow> string \<Rightarrow> string \<Rightarrow> string \<Rightarrow> string \<Rightarrow> agent_decision \<Rightarrow> demo_run_record" where
  "demo_run input run_id createdAt observedAt evidenceId candidateId decision =
     (let reading = readingFor (sq_scenario input) in
      \<lparr>rn_id = run_id, rn_initiatedBy = to_lower (sq_walletAddress input), rn_scenario = Some (sq_scenario input),
       rn_zoneId = sq_zoneId input, rn_evidenceId = evidenceId, rn_candidateId = candidateId, rn_policyDecision = decision,
       rn_telemetry = \<lparr>dt_evidenceId = evidenceId, dt_deviceId = Some DEMO_DEVICE_ID, dt_status = dg_status reading,
         dt_voltage = dg_voltage reading, dt_currentAmps = Some (dg_currentAmps reading), dt_observedAt = observedAt\<rparr>,
       rn_createdAt = createdAt, rn_allowChainWrite = sq_publishToChain input\<rparr>)"

definition demo_started_audit :: "simulation_request \<Rightarrow> demo_run_record \<Rightarrow> append_audit_log_input" where
  "demo_started_audit input run = audit_entry ''demo.simulation_started''
     [(''runId'', JStr (rn_id run)), (''initiatedBy'', JStr (rn_initiatedBy run)),
      (''scenario'', JStr (demo_scenario_string (sq_scenario input))), (''zoneId'', JStr (rn_zoneId run)),
      (''evidenceEventId'', JStr (rn_evidenceId run)), (''candidateEventId'', JStr (rn_candidateId run)),
      (''chainMode'', JStr (chain_mode_string (mode_of (rn_allowChainWrite run)))),
      (''observationMode'', JStr (if rn_allowChainWrite run then ''completed_epoch_replay'' else ''current_preview'')),
      (''observedAt'', JStr (dt_observedAt (rn_telemetry run)))]"

text \<open>\<open>submitPendingCommitments().catch(...)\<close>: a failure is audited.\<close>

definition submit_or_audit :: "runtime \<Rightarrow> chain_client \<Rightarrow> string \<Rightarrow> string \<Rightarrow> unit act" where
  "submit_or_audit rt ch run_id candidateId w =
     (case submitPendingCommitments rt ch 5 w of
        (Inr _, w') \<Rightarrow> (Inr (), w')
      | (Inl error, w') \<Rightarrow> appendAuditLog rt (audit_entry ''demo.chain_submission_failed''
          [(''runId'', JStr run_id), (''candidateEventId'', JStr candidateId), (''message'', JStr (message error))]) w')"

definition record_run :: "runtime \<Rightarrow> simulation_request \<Rightarrow> demo_run_record \<Rightarrow> demo_simulation act" where
  "record_run rt input run =
     bindS (modifyS (\<lambda>w. w\<lparr>memoryRuns := jm_set (rn_id run) run (memoryRuns w)\<rparr>)) (\<lambda>_.
     bindS (appendAuditLog rt (demo_started_audit input run)) (\<lambda>_.
     getS (simulationFromRun rt run)))"

text \<open>From the candidate of the synthetic reading on.\<close>

definition advance_simulation ::
  "runtime \<Rightarrow> chain_client \<Rightarrow> simulation_request \<Rightarrow> string \<Rightarrow> string \<Rightarrow> string \<Rightarrow> evidence_event \<Rightarrow> candidate_event \<Rightarrow>
     demo_simulation act" where
  "advance_simulation rt ch input run_id createdAt observedAt evidence candidate =
     bindS (count (\<lambda>k. k\<lparr>candidatesDetected := candidatesDetected k + 1\<rparr>)) (\<lambda>_.
     bindS (processCandidatePipeline rt candidate (Some evidence)
       (Some \<lparr>sim_runId = run_id, sim_initiatedBy = to_lower (sq_walletAddress input),
         sim_allowChainWrite = sq_publishToChain input\<rparr>)) (\<lambda>pipeline.
     bindS (if sq_publishToChain input \<and> res_commitment pipeline \<noteq> None
       then submit_or_audit rt ch run_id (ca_id candidate) else returnS ()) (\<lambda>_.
     record_run rt input
       (demo_run input run_id createdAt observedAt (ev_id evidence) (ca_id candidate) (res_decision pipeline)))))"

definition simulate :: "runtime \<Rightarrow> chain_client \<Rightarrow> simulation_request \<Rightarrow> demo_simulation act" where
  "simulate rt ch input =
     bindS (randomUUID rt) (\<lambda>run_id.
     bindS (getS (\<lambda>w. to_iso (w_now w))) (\<lambda>createdAt.
     bindS (demoObservedAt rt (sq_zoneId input) (sq_publishToChain input)) (\<lambda>observedAt.
     bindS (upsertTelemetryEvidence rt (demo_telemetry_request input run_id observedAt)) (\<lambda>ingest.
     bindS (count (\<lambda>k. k\<lparr>evidenceIngested := evidenceIngested k + 1\<rparr>)) (\<lambda>_.
     case ir_candidateEvent ingest of
       None \<Rightarrow> throwS (http_error 500 ''DEMO_CANDIDATE_MISSING'' ''The selected scenario did not produce a candidate event'')
     | Some candidate \<Rightarrow>
         advance_simulation rt ch input run_id createdAt observedAt (ir_evidenceEvent ingest) candidate)))))"

definition runDemoSimulation ::
  "runtime \<Rightarrow> chain_client \<Rightarrow> verify_message \<Rightarrow> simulation_request \<Rightarrow> demo_simulation act" where
  "runDemoSimulation rt ch verify input = bindS (consumeChallenge verify input) (\<lambda>_. simulate rt ch input)"

definition stringField :: "json_object \<Rightarrow> string \<Rightarrow> string option" where
  "stringField record key = (case map_of record key of Some (JStr s) \<Rightarrow> Some s | _ \<Rightarrow> None)"

definition DATABASE_RUN_AGENT :: string where "DATABASE_RUN_AGENT = ''evidence-verification-agent''"

definition present :: "string option \<Rightarrow> bool" where
  "present s = (case s of None \<Rightarrow> False | Some v \<Rightarrow> v \<noteq> [])"

definition run_of_rows ::
  "string \<Rightarrow> json_object \<Rightarrow> int \<Rightarrow> evidence_row \<Rightarrow> decision_row \<Rightarrow> demo_run_record" where
  "run_of_rows run_id after created_at e d =
     (let field = (\<lambda>key. or_else (stringField after key) []) in
      \<lparr>rn_id = run_id, rn_initiatedBy = field ''initiatedBy'',
       rn_scenario = (case stringField after ''scenario'' of None \<Rightarrow> None | Some s \<Rightarrow> parse_demo_scenario s),
       rn_zoneId = field ''zoneId'', rn_evidenceId = field ''evidenceEventId'', rn_candidateId = field ''candidateEventId'',
       rn_policyDecision = mapDecisionRow d,
       rn_telemetry = \<lparr>dt_evidenceId = field ''evidenceEventId'', dt_deviceId = json_text (er_raw_payload e) ''deviceId'',
         dt_status = er_status e, dt_voltage = or_else (er_voltage e) 0,
         dt_currentAmps = or_else (json_number (er_raw_payload e) ''currentAmps'') (Some 0),
         dt_observedAt = to_iso (er_observed_at e)\<rparr>,
       rn_createdAt = to_iso created_at, rn_allowChainWrite = (stringField after ''chainMode'' = Some ''live'')\<rparr>)"

definition started_audit :: "string \<Rightarrow> audit_row \<Rightarrow> bool" where
  "started_audit run_id entry \<longleftrightarrow> ar_action entry = ''demo.simulation_started'' \<and>
     opt_any (\<lambda>after. json_text after ''runId'' = Some run_id) (ar_after entry)"

definition databaseRun :: "runtime \<Rightarrow> string \<Rightarrow> world \<Rightarrow> demo_run_record option" where
  "databaseRun rt run_id w =
     (if \<not> isDatabaseConfigured rt then None
      else case List.find (started_audit run_id) (t_audit_logs (db w)) of
        None \<Rightarrow> None
      | Some row \<Rightarrow>
          let after = or_else (ar_after row) [] in
          if \<not> present (stringField after ''candidateEventId'') \<or> \<not> present (stringField after ''evidenceEventId'') \<or>
            \<not> present (stringField after ''zoneId'') \<or> \<not> present (stringField after ''initiatedBy'')
          then None
          else (case [(e, d). e \<leftarrow> filter (\<lambda>e. Some (er_id e) = stringField after ''evidenceEventId'') (t_evidence_events (db w)),
              d \<leftarrow> filter (\<lambda>d. Some (dr_candidate_event_id d) = stringField after ''candidateEventId'' \<and>
                dr_agent_name d = DATABASE_RUN_AGENT) (t_agent_decisions (db w))] of
              [] \<Rightarrow> None
            | (e, d) # _ \<Rightarrow> Some (run_of_rows run_id after (ar_created_at row) e d)))"

definition demo_not_found :: js_error where
  "demo_not_found = http_error 404 ''DEMO_NOT_FOUND'' ''Demo simulation not found''"

definition getDemoSimulation :: "runtime \<Rightarrow> string \<Rightarrow> world \<Rightarrow> demo_simulation res" where
  "getDemoSimulation rt run_id w =
     (case (case jm_get (memoryRuns w) run_id of Some run \<Rightarrow> Some run | None \<Rightarrow> databaseRun rt run_id w) of
        None \<Rightarrow> Inl demo_not_found
      | Some run \<Rightarrow> Inr (simulationFromRun rt run w))"

definition clearDemoStore :: "world \<Rightarrow> world" where
  "clearDemoStore w = w\<lparr>memoryChallenges := [], memoryRuns := []\<rparr>"

subsection \<open>The routes\<close>

text \<open>\<open>String(value)\<close>: an array joins the strings of its elements by commas, null elements being empty.\<close>

fun js_String :: "json \<Rightarrow> string" where
  "js_String JNull = ''null''"
| "js_String (JBool b) = (if b then ''true'' else ''false'')"
| "js_String (JNum x) = number_string x"
| "js_String (JStr s) = s"
| "js_String (JArr xs) = join_with '','' (map (\<lambda>x. if x = JNull then [] else js_String x) xs)"
| "js_String (JObj _) = ''[object Object]''"

text \<open>\<open>req.body?.walletAddress\<close>, without null.\<close>

definition body_wallet :: "json \<Rightarrow> json option" where
  "body_wallet body = (case map_of (payload_fields body) ''walletAddress'' of Some JNull \<Rightarrow> None | v \<Rightarrow> v)"

definition challenge_rate_key :: "http_request \<Rightarrow> string" where
  "challenge_rate_key req = (case body_wallet (hr_body req) of
     Some v \<Rightarrow> js_String v
   | None \<Rightarrow> or_else (hr_ip req) ''undefined'')"

definition simulation_rate_key :: "http_request \<Rightarrow> string" where
  "simulation_rate_key req = or_else (hr_ip req) ''undefined'' @ '':'' @ (case body_wallet (hr_body req) of
     Some v \<Rightarrow> js_String v | None \<Rightarrow> ''unknown'')"

definition demo_enabled :: "runtime \<Rightarrow> unit res" where
  "demo_enabled rt =
     (if is_production (rt_env rt) \<and> rt_env rt ''GRIDPROOF_DEMO_ENABLED'' \<noteq> Some ''true''
      then Inl (http_error 404 ''DEMO_DISABLED'' ''Judge Demo Lab is not enabled on this deployment'')
      else Inr ())"

record demo_schemas =
  dh_formats :: zod_formats
  dh_error :: js_error
    \<comment> \<open>what a response schema throws\<close>
  dh_challenge :: "json \<Rightarrow> wallet_challenge_request option"
  dh_simulation :: "json \<Rightarrow> simulation_request option"

definition wallet_challenge_route ::
  "runtime \<Rightarrow> redis \<Rightarrow> demo_schemas \<Rightarrow> http_request \<Rightarrow> (nat \<times> wallet_challenge_response) act" where
  "wallet_challenge_route rt rd sc req =
     bindS (liftS (demo_enabled rt)) (\<lambda>_.
     bindS (check_rate rt rd ''demo-wallet-challenge'' (Some 20) (Some (challenge_rate_key req)) req) (\<lambda>_.
     bindS (liftS (validateBody (dh_challenge sc) (hr_body req))) (\<lambda>input.
     bindS (createDemoWalletChallenge rt input)
       (respond (dh_error sc) (demoWalletChallengeResponseSchema (dh_formats sc)) 200))))"

definition simulation_route ::
  "runtime \<Rightarrow> redis \<Rightarrow> demo_schemas \<Rightarrow> chain_client \<Rightarrow> verify_message \<Rightarrow> http_request \<Rightarrow> (nat \<times> demo_simulation) act" where
  "simulation_route rt rd sc ch verify req =
     bindS (liftS (demo_enabled rt)) (\<lambda>_.
     bindS (check_rate rt rd ''demo-simulation'' (Some 3) (Some (simulation_rate_key req)) req) (\<lambda>_.
     bindS (liftS (validateBody (dh_simulation sc) (hr_body req))) (\<lambda>input.
     bindS (runDemoSimulation rt ch verify input)
       (respond (dh_error sc) (demoSimulationSchema (dh_formats sc)) 202))))"

definition get_simulation_route ::
  "runtime \<Rightarrow> demo_schemas \<Rightarrow> string \<Rightarrow> (nat \<times> demo_simulation) act" where
  "get_simulation_route rt sc run_id =
     bindS (liftS (demo_enabled rt)) (\<lambda>_.
     bindS (getS (getDemoSimulation rt run_id)) (\<lambda>found.
     bindS (liftS found) (respond (dh_error sc) (demoSimulationSchema (dh_formats sc)) 200)))"

section \<open>What a challenge authorizes\<close>

text \<open>Marking a challenge as used, seen as a frame: a used challenge stays used and no challenge changes
  otherwise.\<close>

definition challenge_spent :: "string \<Rightarrow> world \<Rightarrow> bool" where
  "challenge_spent nonce w \<longleftrightarrow> opt_any dc_used (jm_get (memoryChallenges w) nonce)"

lemma check_challenge_Inr:
  "check_challenge verify now found input = Inr c \<longleftrightarrow>
     found = Some c \<and> \<not> dc_used c \<and> (\<forall>t. date_parse (dc_expiresAt c) = Some t \<longrightarrow> now < t) \<and>
     dc_walletAddress c = to_lower (sq_walletAddress input) \<and> dc_zoneId c = sq_zoneId input \<and>
     dc_scenario c = sq_scenario input \<and> dc_publishToChain c = sq_publishToChain input \<and>
     (\<exists>a. verify (dc_message c) (sq_signature input) = Some a \<and> to_lower a = dc_walletAddress c)"
  by (cases found; cases "date_parse (dc_expiresAt (the found))")
    (auto simp: check_challenge_def split: option.splits if_splits)

lemma check_challenge_Inl: "check_challenge verify now found input = Inl e \<Longrightarrow> statusCode e = Some 401"
  by (auto simp: check_challenge_def split: option.splits if_splits)

lemma consumeChallenge_Inr:
  "consumeChallenge verify input w = (Inr (), w') \<longleftrightarrow>
     (\<exists>c. check_challenge verify (w_now w) (jm_get (memoryChallenges w) (sq_nonce input)) input = Inr c \<and>
       w' = w\<lparr>memoryChallenges := jm_set (sq_nonce input) (c\<lparr>dc_used := True\<rparr>) (memoryChallenges w)\<rparr>)"
  by (auto simp: consumeChallenge_def split: sum.splits)

lemma consumeChallenge_Inl:
  "consumeChallenge verify input w = (Inl e, w') \<longleftrightarrow>
     check_challenge verify (w_now w) (jm_get (memoryChallenges w) (sq_nonce input)) input = Inl e \<and> w' = w"
  by (auto simp: consumeChallenge_def split: sum.splits)

definition challenge_store :: "world \<Rightarrow> _" where
  "challenge_store w = (w_now w, memoryChallenges w, memoryUsersByIdentity w, t_users (db w))"

lemma bystanders_challenges: "keeps (same bystanders) m \<Longrightarrow> keeps (same challenge_store) m"
  by (erule keeps_image) (simp add: bystanders_def challenge_store_def)

lemma demoObservedAt_keeps: "snd (demoObservedAt rt z b w) = w"
  by (simp add: demoObservedAt_def split: option.split)

lemma submit_or_audit_keeps: "keeps (same settled) (submit_or_audit rt ch i c)"
proof (rule keepsI)
  fix w
  obtain r w1 where sub: "submitPendingCommitments rt ch 5 w = (r, w1)" by fastforce
  have "same settled w w1" using keepsD[OF by_sweeps(1) sub] .
  moreover have "same settled w1 (snd (appendAuditLog rt i w1))" for i
    using keeps_snd[OF rest_audit[THEN evidence_rest_settled]] .
  ultimately show "same settled w (snd (submit_or_audit rt ch i c w))"
    by (cases r) (simp_all add: submit_or_audit_def sub same_def)
qed

lemmas challenge_rules = same.keeps_return same.keeps_bind keeps_if
  rest_audit[THEN evidence_rest_bystanders, THEN bystanders_challenges]
  rest_basic[THEN evidence_rest_bystanders, THEN bystanders_challenges]
  rest_evidence(1)[THEN evidence_rest_bystanders, THEN bystanders_challenges]
  by_pipeline[THEN bystanders_challenges] submit_or_audit_keeps[THEN settled_bystanders, THEN bystanders_challenges]

text \<open>After its challenge is spent, a simulation leaves challenges and accounts alone.\<close>

lemma simulate_challenges: "keeps (same challenge_store) (simulate rt ch input)"
proof -
  have "keeps (same challenge_store) (demoObservedAt rt z b)" for z b
    by (simp add: keeps_def demoObservedAt_keeps same.R_refl)
  moreover have "keeps (same challenge_store) (modifyS (\<lambda>w. w\<lparr>memoryRuns := h w\<rparr>))" for h
    by (rule same.keeps_modify) (simp add: same_def challenge_store_def)
  ultimately show ?thesis
    unfolding simulate_def advance_simulation_def record_run_def
    by (intro challenge_rules keeps_option)
qed

lemma simulate_spent: "simulate rt ch input w = (r, w') \<Longrightarrow> challenge_spent n w' = challenge_spent n w"
  using keepsD[OF simulate_challenges] by (fastforce simp: same_def challenge_store_def challenge_spent_def)

text \<open>A simulation runs only on an unspent challenge, which is spent by it, whether it succeeds or not.\<close>

lemma run_spends:
  assumes "runDemoSimulation rt ch verify input w = (Inr sim, w')"
  shows "\<not> challenge_spent (sq_nonce input) w \<and> challenge_spent (sq_nonce input) w' \<and>
    (\<exists>c. jm_get (memoryChallenges w) (sq_nonce input) = Some c \<and>
       check_challenge verify (w_now w) (Some c) input = Inr c)"
proof -
  obtain w1 where con: "consumeChallenge verify input w = (Inr (), w1)" and sim: "simulate rt ch input w1 = (Inr sim, w')"
    using assms by (auto simp: runDemoSimulation_def bindS_eq_Inr)
  obtain c where c: "check_challenge verify (w_now w) (jm_get (memoryChallenges w) (sq_nonce input)) input = Inr c"
    "w1 = w\<lparr>memoryChallenges := jm_set (sq_nonce input) (c\<lparr>dc_used := True\<rparr>) (memoryChallenges w)\<rparr>"
    using con by (auto simp: consumeChallenge_Inr)
  then have found: "jm_get (memoryChallenges w) (sq_nonce input) = Some c" "\<not> dc_used c" by (simp_all add: check_challenge_Inr)
  have "challenge_spent (sq_nonce input) w1" by (simp add: c(2) challenge_spent_def)
  with simulate_spent[OF sim] found c(1) show ?thesis by (simp add: challenge_spent_def)
qed

lemma run_refused:
  assumes "challenge_spent (sq_nonce input) w"
  shows "\<exists>e. runDemoSimulation rt ch verify input w = (Inl e, w) \<and> statusCode e = Some 401"
proof -
  have "check_challenge verify (w_now w) (jm_get (memoryChallenges w) (sq_nonce input)) input \<noteq> Inr c" for c
    using assms by (auto simp: check_challenge_Inr challenge_spent_def)
  then obtain e where e: "check_challenge verify (w_now w) (jm_get (memoryChallenges w) (sq_nonce input)) input = Inl e"
    by (cases "check_challenge verify (w_now w) (jm_get (memoryChallenges w) (sq_nonce input)) input") auto
  then have "consumeChallenge verify input w = (Inl e, w)" by (simp add: consumeChallenge_Inl)
  then show ?thesis using check_challenge_Inl[OF e] by (simp add: runDemoSimulation_def bindS_Inl)
qed

text \<open>Spent challenges stay spent, in every operation of the lab.\<close>

lemma run_keeps_spent:
  assumes "runDemoSimulation rt ch verify input w = (r, w')" "challenge_spent n w"
  shows "challenge_spent n w'"
proof (cases "consumeChallenge verify input w")
  case (Pair r1 w1)
  have "challenge_spent n w1"
    using Pair assms(2) by (cases r1) (auto simp: consumeChallenge_Inr consumeChallenge_Inl challenge_spent_def)
  moreover have "(r1 = Inl e \<longrightarrow> w' = w1)" "r1 = Inr () \<longrightarrow> simulate rt ch input w1 = (r, w')" for e
    using assms(1) Pair by (auto simp: runDemoSimulation_def bindS_def split: sum.splits)
  ultimately show ?thesis using simulate_spent by (cases r1) auto
qed

end
