(* ===== verification/Demo_Lab.thy ===== *)
theory Demo_Lab imports Demo begin

section \<open>Properties of the demo lab\<close>

text \<open>
  What a simulation writes, when it may run, which hour a live simulation fills, what the scenarios
  lead to, and what remains of a run after a restart.
\<close>

subsection \<open>Previews\<close>

lemma evidence_rest_books: "keeps (same evidence_rest) m \<Longrightarrow> keeps (same chain_books) m"
  by (erule keeps_image) (simp add: evidence_rest_def)

lemma preview_pipeline_books:
  assumes "\<not> sim_allowChainWrite sim"
  shows "keeps (same chain_books) (processCandidatePipeline rt c e (Some sim))"
  using simulation_preview_no_chain[OF assms]
  by (simp add: keeps_def same_def same_chain_stores_def chain_books_def)

lemma preview_simulation_books:
  assumes "\<not> sq_publishToChain input"
  shows "keeps (same chain_books) (simulate rt ch input)"
proof -
  have "keeps (same chain_books) (demoObservedAt rt z b)" for z b
    by (simp add: keeps_def demoObservedAt_keeps same.R_refl)
  moreover have "keeps (same chain_books) (modifyS (\<lambda>w. w\<lparr>memoryRuns := h w\<rparr>))" for h
    by (rule same.keeps_modify) (simp add: same_def chain_books_def)
  ultimately show ?thesis
    using assms unfolding simulate_def advance_simulation_def record_run_def
    by (intro same.keeps_return same.keeps_bind keeps_if keeps_option preview_pipeline_books
        rest_audit[THEN evidence_rest_books] rest_basic[THEN evidence_rest_books]
        rest_evidence(1)[THEN evidence_rest_books]) simp_all
qed

text \<open>C33. Without the signer's consent nothing reaches the chain: a simulation whose challenge was signed
  for a preview leaves the scores and the commitments of both backends as they were, whatever its
  scenario and however it ends; and when a simulation changed them, the challenge it consumed was
  made for publishing, which the deployment has to allow.\<close>

theorem preview_writes_nothing:
  assumes "runDemoSimulation rt ch verify input w = (r, w')"
  shows "chain_books w' = chain_books w \<or>
    (sq_publishToChain input \<and> (\<exists>c. jm_get (memoryChallenges w) (sq_nonce input) = Some c \<and> dc_publishToChain c \<and>
       (\<exists>a. verify (dc_message c) (sq_signature input) = Some a \<and> to_lower a = dc_walletAddress c)))"
proof (cases "consumeChallenge verify input w")
  case (Pair r1 w1)
  show ?thesis
  proof (cases r1)
    case (Inl e)
    then have refused: "consumeChallenge verify input w = (Inl e, w1)" using Pair by simp
    then have "w1 = w" by (simp only: consumeChallenge_Inl)
    with refused assms show ?thesis by (simp add: runDemoSimulation_def bindS_def)
  next
    case (Inr u)
    then obtain c where c: "check_challenge verify (w_now w) (jm_get (memoryChallenges w) (sq_nonce input)) input = Inr c"
      "w1 = w\<lparr>memoryChallenges := jm_set (sq_nonce input) (c\<lparr>dc_used := True\<rparr>) (memoryChallenges w)\<rparr>"
      using Pair by (auto simp: consumeChallenge_Inr)
    have sim: "simulate rt ch input w1 = (r, w')" using assms Pair Inr by (simp add: runDemoSimulation_def bindS_def)
    show ?thesis
    proof (cases "sq_publishToChain input")
      case False
      with keepsD[OF preview_simulation_books[OF False] sim] c(2) show ?thesis by (simp add: same_def chain_books_def)
    next
      case True
      with c(1) show ?thesis by (auto simp: check_challenge_Inr)
    qed
  qed
qed

subsection \<open>The hour of a live simulation\<close>

lemma find_first: "List.find P xs = Some x \<Longrightarrow> x \<in> set xs \<and> P x"
  by (auto simp: find_Some_iff)

lemma completed_epochs_bounds:
  assumes "t \<in> set (completed_epochs now)"
  shows "floor_epoch_ms t = t \<and> floor_epoch_ms now - 168 * EPOCH_DURATION_MS \<le> t \<and> t + EPOCH_DURATION_MS \<le> floor_epoch_ms now"
proof -
  obtain k where k: "t = floor_epoch_ms now - int k * EPOCH_DURATION_MS" "1 \<le> k" "k \<le> 168"
    using assms unfolding completed_epochs_def set_map by force
  have "t = (now div EPOCH_DURATION_MS - int k) * EPOCH_DURATION_MS"
    unfolding k(1) floor_epoch_ms_def by (simp add: algebra_simps)
  then have "floor_epoch_ms t = t" by (simp add: floor_epoch_ms_def EPOCH_DURATION_MS_def)
  moreover have "EPOCH_DURATION_MS \<le> int k * EPOCH_DURATION_MS" "int k * EPOCH_DURATION_MS \<le> 168 * EPOCH_DURATION_MS"
    using k(2,3) by (simp_all add: EPOCH_DURATION_MS_def)
  ultimately show ?thesis using k(1) by linarith
qed

lemma half_epoch:
  assumes "floor_epoch_ms t = t"
  shows "floor_epoch_ms (t + HALF_EPOCH_MS) = t"
proof -
  define k where "k = t div EPOCH_DURATION_MS"
  have "t = k * EPOCH_DURATION_MS" using assms by (simp add: floor_epoch_ms_def k_def)
  then show ?thesis by (simp add: floor_epoch_ms_def HALF_EPOCH_MS_def EPOCH_DURATION_MS_def)
qed

definition has_score :: "world \<Rightarrow> string \<Rightarrow> int \<Rightarrow> bool" where
  "has_score w zoneId t \<longleftrightarrow> (\<exists>es \<in> set (t_epoch_scores (db w)). ep_zone_id es = zoneId \<and> ep_epoch_start es = t)"

lemma unused_epoch_Some:
  "unused_epoch zoneId w = Some t \<Longrightarrow> t \<in> set (completed_epochs (w_now w)) \<and> \<not> has_score w zoneId t"
  unfolding unused_epoch_def has_score_def by (drule find_first) simp

lemma unused_epoch_None:
  "unused_epoch zoneId w = None \<longleftrightarrow> (\<forall>k \<in> {1..168}. has_score w zoneId (floor_epoch_ms (w_now w) - int k * EPOCH_DURATION_MS))"
  by (auto simp: unused_epoch_def find_None_iff has_score_def completed_epochs_def Ball_def)

lemma previous_epoch: "floor_epoch_ms now - EPOCH_DURATION_MS \<in> set (completed_epochs now)"
  unfolding completed_epochs_def set_map by (rule image_eqI[where x = 1]) simp_all

lemma upt_find:
  assumes "List.find P (map f [1..<m]) = Some t"
  shows "\<exists>k. 1 \<le> k \<and> k < m \<and> t = f k \<and> P (f k) \<and> (\<forall>j. 1 \<le> j \<and> j < k \<longrightarrow> \<not> P (f j))"
proof -
  obtain i where i: "i < m - 1" "P (map f [1..<m] ! i)" "t = map f [1..<m] ! i" "\<forall>j < i. \<not> P (map f [1..<m] ! j)"
    using assms by (auto simp: find_Some_iff)
  show ?thesis
  proof (intro exI[of _ "Suc i"] conjI allI impI)
    fix j assume "1 \<le> j \<and> j < Suc i"
    then have "j - 1 < i" "f (Suc (j - 1)) = f j" by auto
    then show "\<not> P (f j)" using i(1) i(4)[rule_format, of "j - 1"] by simp
  qed (use i in auto)
qed

text \<open>C34. A live simulation replays a finished hour: the instant it reports lies exactly half an hour into it. With a
  database it is the latest of the 168 hours before the current one for which the zone has no score, so that no
  committed proof is changed, and when all of these hours have one the simulation is refused with 409; without a
  database it is the previous hour. Nothing is written.\<close>

theorem live_simulation_fills_unused_hour:
  assumes "date_range (w_now w)" "168 * 3600000 \<le> floor_epoch_ms (w_now w)"
  shows "case demoObservedAt rt zoneId True w of
      (Inr observedAt, w') \<Rightarrow> w' = w \<and> (\<exists>k \<in> {1..168}.
         date_parse observedAt = Some (floor_epoch_ms (w_now w) - int k * 3600000 + 1800000) \<and>
         (if isDatabaseConfigured rt
          then \<not> has_score w zoneId (floor_epoch_ms (w_now w) - int k * 3600000) \<and>
            (\<forall>j \<in> {1..<k}. has_score w zoneId (floor_epoch_ms (w_now w) - int j * 3600000))
          else k = 1))
    | (Inl e, w') \<Rightarrow> w' = w \<and> statusCode e = Some 409 \<and> isDatabaseConfigured rt \<and>
         (\<forall>k \<in> {1..168}. has_score w zoneId (floor_epoch_ms (w_now w) - int k * 3600000))"
proof -
  let ?now = "floor_epoch_ms (w_now w)"
  have ms: "EPOCH_DURATION_MS = 3600000" "HALF_EPOCH_MS = 1800000" by (simp_all add: EPOCH_DURATION_MS_def HALF_EPOCH_MS_def)
  have range: "date_range (?now - int k * 3600000 + 1800000)" if "1 \<le> k" "k \<le> 168" for k
    using assms floor_epoch_bounds(1)[of "w_now w"] that by (simp add: date_range_def)
  show ?thesis
  proof (cases "isDatabaseConfigured rt")
    case False
    with range[of 1] show ?thesis by (auto simp: demoObservedAt_def ms date_parse_iso intro!: bexI[of _ "1::nat"])
  next
    case db: True
    show ?thesis
    proof (cases "unused_epoch zoneId w")
      case None
      then have "demoObservedAt rt zoneId True w = (Inl (http_error 409 ''DEMO_EPOCH_UNAVAILABLE''
            ''No unused completed epoch is available for this feeder's live demo proof''), w)"
        by (simp add: demoObservedAt_def db)
      with None db show ?thesis by (simp add: unused_epoch_None ms)
    next
      case (Some t)
      then have run: "demoObservedAt rt zoneId True w = (Inr (to_iso (t + 1800000)), w)"
        by (simp add: demoObservedAt_def db ms)
      obtain k where k: "1 \<le> k" "k < 169" "t = ?now - int k * 3600000" "\<not> has_score w zoneId t"
        "\<forall>j. 1 \<le> j \<and> j < k \<longrightarrow> has_score w zoneId (?now - int j * 3600000)"
        using upt_find[OF Some[unfolded unused_epoch_def completed_epochs_def]] by (auto simp: has_score_def ms)
      then show ?thesis unfolding run using db range[of k] by (auto simp: date_parse_iso intro!: bexI[of _ k])
    qed
  qed
qed

theorem live_simulation_fills_unused_hour_witness:
  "\<exists>observedAt k. demoObservedAt database_rt ''z'' True (empty_world sample_now) = (Inr observedAt, empty_world sample_now) \<and>
     k \<in> {1..168} \<and> date_parse observedAt = Some (floor_epoch_ms sample_now - int k * 3600000 + 1800000)"
proof -
  let ?w = "empty_world sample_now"
  have now: "w_now ?w = sample_now" by (simp add: empty_world_def)
  have none: "\<not> has_score ?w ''z'' t" for t by (simp add: has_score_def empty_world_def empty_tables_def)
  have "date_range (w_now ?w)" "168 * 3600000 \<le> floor_epoch_ms (w_now ?w)"
    unfolding now by (simp_all add: sample_now_def date_range_def floor_epoch_ms_def EPOCH_DURATION_MS_def)
  from live_simulation_fills_unused_hour[OF this, of database_rt "''z''"]
  show ?thesis using none
    by (cases "fst (demoObservedAt database_rt ''z'' True ?w)") (auto simp: now split: prod.splits dest: bspec[where x = 1])
qed

subsection \<open>After a restart\<close>

text \<open>Who decides: the policy gate of the API and the agent worker.\<close>

definition known_agents :: "world \<Rightarrow> bool" where
  "known_agents w \<longleftrightarrow> (\<forall>d \<in> set (t_agent_decisions (db w)). dr_agent_name d = POLICY_GATE \<or> dr_agent_name d = AI_AGENT)"

lemma settled_agents: "keeps (same settled) m \<Longrightarrow> keeps (holds known_agents) m"
  unfolding keeps_def same_def holds_def settled_def known_agents_def by (metis prod.inject)

lemma keeps_getS: "(\<And>v. keeps R (f (g v))) \<Longrightarrow> keeps R (bindS (getS g) f)"
  by (simp add: keeps_def)

lemma decision_agents: "keeps (holds known_agents) (upsertDatabaseDecision (decisionForCandidate uuid now c))"
proof (rule keepsI)
  fix w
  let ?d = "decisionForCandidate uuid now c"
  have name: "ad_agentName ?d = POLICY_GATE" by (simp add: decisionForCandidate_def Let_def)
  have "\<forall>d \<in> set (snd (stored_decision ?d created (t_agent_decisions (db w)))). dr_agent_name d = POLICY_GATE \<or> dr_agent_name d = AI_AGENT"
    if "known_agents w" for created
    unfolding stored_decision_def by (rule sql_upsert_all) (use that name in \<open>simp_all add: known_agents_def\<close>)
  then show "holds known_agents w (snd (upsertDatabaseDecision ?d w))"
    by (auto simp: holds_def upsert_decision_run known_agents_def split: option.split)
qed

lemmas agents_rules = holds.keeps_return holds.keeps_bind keeps_if keeps_option
  rest_audit[THEN evidence_rest_settled, THEN settled_agents] rest_basic[THEN evidence_rest_settled, THEN settled_agents]
  rest_evidence(1)[THEN evidence_rest_settled, THEN settled_agents] submit_or_audit_keeps[THEN settled_agents]

lemma pipeline_agents: "keeps (holds known_agents) (processCandidatePipeline rt c e sim)"
proof -
  note parts = settled_agents[OF evidence_rest_settled, OF rest_audit] settled_agents[OF evidence_rest_settled, OF rest_basic(1)]
    settled_agents[OF evidence_rest_settled, OF rest_basic(2)]
    settled_agents[OF by_act_on, OF by_commitment(1)] settled_agents[OF by_act_on, OF by_commitment(2)]
  have modify: "keeps (holds known_agents) (modifyS (\<lambda>w. w\<lparr>memoryDecisions := a w, memoryCandidatesById := b w\<rparr>))" for a b
    by (rule holds.keeps_modify) (simp add: holds_def known_agents_def)
  show ?thesis
    unfolding processCandidatePipeline_def auditAgentDecision_def
    by (intro holds.keeps_bind keeps_getS keeps_if decision_agents modify parts)
qed

lemma run_agents: "keeps (holds known_agents) (runDemoSimulation rt ch verify input)"
proof -
  have observed: "keeps (holds known_agents) (demoObservedAt rt z b)" for z b
    by (simp add: keeps_def demoObservedAt_keeps holds_def)
  have recorded: "keeps (holds known_agents) (modifyS (\<lambda>w. w\<lparr>memoryRuns := h w\<rparr>))" for h
    by (rule holds.keeps_modify) (simp add: holds_def known_agents_def)
  have consumed: "keeps (holds known_agents) (consumeChallenge verify input)"
    by (simp add: keeps_def holds_def consumeChallenge_def known_agents_def split: sum.split)
  show ?thesis
    unfolding runDemoSimulation_def simulate_def advance_simulation_def record_run_def
    by (intro agents_rules consumed observed recorded pipeline_agents)
qed

lemma concat_map_Nil: "concat (map (\<lambda>_. []) xs) = []"
  by (induction xs) simp_all

lemma databaseRun_agents: "known_agents w \<Longrightarrow> databaseRun rt i w = None"
proof -
  assume "known_agents w"
  then have "filter (\<lambda>d. Some (dr_candidate_event_id d) = x \<and> dr_agent_name d = DATABASE_RUN_AGENT) (t_agent_decisions (db w)) = []" for x
    by (auto simp: known_agents_def filter_empty_conv POLICY_GATE_def AI_AGENT_def DATABASE_RUN_AGENT_def)
  then show ?thesis by (simp add: databaseRun_def Let_def concat_map_Nil split: option.split)
qed

lemma recorded_run:
  assumes "record_run rt input run w = (Inr sim, w')"
  shows "jm_get (memoryRuns w') (ds_id sim) = Some run \<and> sim = simulationFromRun rt run w'"
proof -
  have kept: "memoryRuns (snd (appendAuditLog rt i v)) = memoryRuns v" for i v
    using keeps_snd[OF rest_audit[THEN evidence_rest_bystanders], of v rt i] by (simp add: same_def bystanders_def)
  have "sim = simulationFromRun rt run w'" "jm_get (memoryRuns w') (rn_id run) = Some run"
    using assms kept by (auto simp: record_run_def bind_audit appendAuditLog_run)
  then show ?thesis by (simp add: simulationFromRun_def Let_def)
qed

lemma simulate_recorded:
  assumes "simulate rt ch input w = (Inr sim, w')"
  shows "\<exists>run. jm_get (memoryRuns w') (ds_id sim) = Some run \<and> sim = simulationFromRun rt run w'"
proof -
  have "\<exists>run w1. record_run rt input run w1 = (Inr sim, w')"
    if "advance_simulation rt ch input i c ob e k v = (Inr sim, w')" for i c ob e k v
    using that unfolding advance_simulation_def bindS_eq_Inr by blast
  moreover have "\<exists>i c ob e k v. advance_simulation rt ch input i c ob e k v = (Inr sim, w')"
    using assms unfolding simulate_def bindS_eq_Inr by (auto split: option.splits) blast
  ultimately obtain run w1 where "record_run rt input run w1 = (Inr sim, w')" by blast
  from recorded_run[OF this] show ?thesis by blast
qed

text \<open>C36. A run is found until the process restarts and never afterwards: as long as the memory of the
  process lives, a run is shown with what has become of it; the fallback to the database looks for a
  decision of an agent that neither the policy gate nor the worker is named after, so after a
  restart every run is answered with 404, in both backends.\<close>

theorem runs_lost_at_restart:
  assumes "known_agents w" "runDemoSimulation rt ch verify input w = (Inr sim, w')"
  shows "getDemoSimulation rt (ds_id sim) w' = Inr sim \<and>
    getDemoSimulation rt (ds_id sim) (clearDemoStore w') = Inl demo_not_found"
proof -
  have "known_agents w'" using keepsD[OF run_agents assms(2)] assms(1) by (simp add: holds_def)
  then have "known_agents (clearDemoStore w')" by (simp add: known_agents_def clearDemoStore_def)
  then have lost: "getDemoSimulation rt i (clearDemoStore w') = Inl demo_not_found" for i
    using databaseRun_agents[of "clearDemoStore w'"] by (simp add: getDemoSimulation_def) (simp add: clearDemoStore_def)
  obtain w1 where "simulate rt ch input w1 = (Inr sim, w')"
    using assms(2) by (auto simp: runDemoSimulation_def bindS_eq_Inr)
  from simulate_recorded[OF this] lost show ?thesis by (auto simp: getDemoSimulation_def)
qed

end
