(* ===== verification/Demo_Scenarios.thy ===== *)
theory Demo_Scenarios imports Demo_Lab begin

section \<open>Where the demo scenarios lead\<close>

text \<open>
  A simulation run to its end on the memory backend: its reading, the candidate of that reading alone,
  the confidence that results, the gate and what the finished simulation shows; and the witnesses of the
  properties of the lab.
\<close>

lemma lone_loop:
  assumes "\<forall>e \<in> set es. \<not> comparable subject e"
  shows "agreement_loop lc subject es = ([], [])"
proof (cases "date_parse (ev_observedAt subject)")
  case (Some t)
  have "fold (agreement_step lc subject t) es ([], []) = ([], [])"
    using assms by (induction es) (simp_all add: agreement_step_cases[OF Some] agrees_def conflicts_def)
  with Some show ?thesis by (simp add: agreement_loop_def)
qed (simp add: agreement_loop_def)

definition demo_confidence :: "demo_scenario \<Rightarrow> rat" where
  "demo_confidence s = (case s of AmbiguousOutage \<Rightarrow> fl (72/100) | ConfirmedOutage \<Rightarrow> fl (95/100) | Restoration \<Rightarrow> fl (9/10))"

lemma demo_confidence_literals:
  "roundConfidence (demo_confidence s) = demo_confidence s" "fadd (demo_confidence s) 0 = demo_confidence s"
  "0 \<le> demo_confidence s" "demo_confidence s \<le> MAX_AGREED_CONFIDENCE" "demo_confidence s \<le> 1"
  by (cases s; simp add: demo_confidence_def roundConfidence_def fadd_def MAX_AGREED_CONFIDENCE_def fl_eval)+

lemma lone_confidence:
  assumes "\<forall>e \<in> set es. \<not> comparable subject e"
  shows "applyAgreement (demo_confidence s) (scoreCrossSourceAgreement lc subject es) = demo_confidence s"
proof -
  have "min 0 MAX_AGREEMENT_BONUS = 0" by (simp add: MAX_AGREEMENT_BONUS_def fl_eval)
  then have "bonus (scoreCrossSourceAgreement lc subject es) = 0" "conflicting (scoreCrossSourceAgreement lc subject es) = 0"
    by (simp_all add: scoreCrossSourceAgreement_def lone_loop[OF assms] roundConfidence_literals)
  then show ?thesis using demo_confidence_literals[of s] by (simp add: applyAgreement_def Let_def)
qed

lemma demo_gate:
  "decisionForConfidence (demo_confidence s) = (if s = AmbiguousOutage then Escalate else Approve)"
  by (cases s) (simp_all add: decisionForConfidence_def demo_confidence_def AUTO_APPROVE_THRESHOLD_def
      ESCALATE_THRESHOLD_def fl_eval)

lemma demo_base:
  "confidenceForEvidence (telemetry_event (demo_telemetry_request input i ob) a b now) = demo_confidence (sq_scenario input)"
  by (cases "sq_scenario input")
    (simp_all add: confidenceForEvidence_def telemetry_event_def demo_telemetry_request_def Let_def demo_confidence_def)

definition alone :: "string \<Rightarrow> world \<Rightarrow> bool" where
  "alone zoneId w \<longleftrightarrow> (\<forall>e \<in> set (jm_values (evidenceByIdempotencyKey w)). ev_zoneId e \<noteq> zoneId)"

text \<open>The synthetic reading of a simulation, stored in memory, and its candidate.\<close>

lemma demo_ingest:
  assumes "\<not> isDatabaseConfigured rt" "alone (sq_zoneId input) w" "date_parse ob \<noteq> None"
    and "jm_get (evidenceByIdempotencyKey w) (''judge-demo:'' @ run_id) = None"
  shows "\<exists>e c ev cs. upsertTelemetryEvidence rt (demo_telemetry_request input run_id ob) w =
      (Inr \<lparr>ir_duplicate = False, ir_evidenceEvent = e, ir_candidateEvent = Some c\<rparr>,
       w\<lparr>w_uuids := w_uuids w + 3, evidenceByIdempotencyKey := ev, candidatesByKey := cs\<rparr>) \<and>
    ca_id c = rt_uuid rt (w_uuids w + 2) \<and> ca_confidence c = demo_confidence (sq_scenario input) \<and>
    ca_status c = (if sq_scenario input = Restoration then Restored else Outage)"
proof -
  let ?r = "demo_telemetry_request input run_id ob"
  let ?e = "telemetry_event ?r (rt_uuid rt (w_uuids w)) (rt_uuid rt (Suc (w_uuids w))) (to_iso (w_now w))"
  let ?ev = "jm_set (''judge-demo:'' @ run_id) ?e (evidenceByIdempotencyKey w)"
  let ?recent = "filter (\<lambda>e. Some (ev_zoneId ?e) = Some [] \<or> ev_zoneId ?e = ev_zoneId e) (jm_values ?ev)"
  have key: "te_idempotencyKey ?r = ''judge-demo:'' @ run_id" by (simp add: demo_telemetry_request_def Let_def)
  have sel: "ev_zoneId ?e = sq_zoneId input" "ev_observedAt ?e = ob" "ev_status ?e = dg_status (readingFor (sq_scenario input))"
    by (simp_all add: telemetry_event_def demo_telemetry_request_def Let_def)
  have "\<forall>e \<in> set (jm_values ?ev). e = ?e \<or> ev_zoneId e \<noteq> ev_zoneId ?e"
    using assms(2) unfolding jm_values_set_new[OF assms(4)] sel(1) by (auto simp del: list.set_map simp: alone_def)
  then have lone: "\<forall>e \<in> set ?recent. \<not> comparable ?e e" by (auto simp: comparable_def)
  obtain t where t: "date_parse ob = Some t" using assms(3) by auto
  define c where "c = \<lparr>ca_id = rt_uuid rt (w_uuids w + 2), ca_zoneId = ev_zoneId ?e,
     ca_status = (if ev_status ?e = GridDown then Outage else Restored),
     ca_confidence = demo_confidence (sq_scenario input), ca_windowStart = to_iso (t - 5 * 60 * 1000),
     ca_windowEnd = ob, ca_evidenceEventIds = ev_id ?e # supportingEvidenceIds (scoreCrossSourceAgreement (rt_lc rt) ?e ?recent),
     ca_createdAt = to_iso (w_now w)\<rparr>"
  have known: "ev_status ?e \<noteq> Unknown" unfolding sel(3) by (cases "sq_scenario input") simp_all
  have status: "ca_status c = (if sq_scenario input = Restoration then Restored else Outage)"
    unfolding c_def by (cases "sq_scenario input") (simp_all add: sel(3))
  have detect: "detectCandidateFromEvidence (rt_lc rt) (rt_uuid rt (w_uuids w + 2)) (w_now w) ?e ?recent = Inr (Some c)"
    using known t lone_confidence[OF lone]
    by (simp add: detectCandidateFromEvidence_def Let_def demo_base c_def sel(2))
  have "upsertTelemetryEvidence rt ?r w =
      (Inr \<lparr>ir_duplicate = False, ir_evidenceEvent = ?e, ir_candidateEvent = Some c\<rparr>,
       w\<lparr>w_uuids := w_uuids w + 3, evidenceByIdempotencyKey := ?ev,
         candidatesByKey := jm_set (candidateKeyFor ?e) c (candidatesByKey w)\<rparr>)"
    using assms(1,4) detect
    by (simp add: upsertTelemetryEvidence_def key upsert_memory_evidence_def Let_def storeMemoryCandidate_def
        listMemoryEvidence_def run_detection_def bindS_def numeral_3_eq_3 numeral_2_eq_2)
  with status show ?thesis by (intro exI[of _ ?e] exI[of _ c]) (auto simp: c_def)
qed

text \<open>Which proof previews are in the audit log of the process.\<close>

definition previews :: "world \<Rightarrow> audit_log list" where
  "previews w = listMemoryAuditLogs (Some ''demo.proof_previewed'') w"

lemma previews_same: "previews w' = previews w \<Longrightarrow> \<not> isDatabaseConfigured rt \<Longrightarrow> hasProofPreview rt c w' = hasProofPreview rt c w"
  by (simp add: hasProofPreview_def previews_def)

lemma previews_audit:
  "\<not> isDatabaseConfigured rt \<Longrightarrow> in_action i \<noteq> ''demo.proof_previewed'' \<Longrightarrow> keeps (same previews) (appendAuditLog rt i)"
  by (simp add: keeps_def same_def previews_def listMemoryAuditLogs_def appendAuditLog_def)

lemma previews_basic:
  "keeps (same previews) (count k)" "keeps (same previews) (emit e)" "keeps (same previews) (enqueueAgentReviewJob rt j)"
  "keeps (same previews) (randomUUID rt)"
  by (simp_all add: keeps_def same_def previews_def listMemoryAuditLogs_def count_def emit_def enqueueAgentReviewJob_def
      enqueueMemoryJob_def Let_def split: option.split)

lemma preview_added:
  assumes "\<not> isDatabaseConfigured rt"
  shows "hasProofPreview rt (ca_id c) (snd (auditSimulationProofPreview rt c d sim w))"
  using assms by (simp add: auditSimulationProofPreview_def appendAuditLog_def hasProofPreview_def listMemoryAuditLogs_def audit_entry_def)

lemma after_gate_previews: "\<not> isDatabaseConfigured rt \<Longrightarrow> previews (after_gate rt c e w) = previews w"
  by (simp add: after_gate_def Let_def auditAgentDecision_def appendAuditLog_def previews_def listMemoryAuditLogs_def audit_entry_def)

lemma preview_approved:
  assumes "\<not> isDatabaseConfigured rt" "\<not> sim_allowChainWrite sim" "decisionForConfidence (ca_confidence c) = Approve"
  shows "\<exists>w'. processCandidatePipeline rt c e (Some sim) w = (Inr (decided (gate_decision rt w c)), w') \<and> hasProofPreview rt (ca_id c) w'"
proof -
  let ?w = "after_gate rt c e w"
  have "processCandidatePipeline rt c e (Some sim) w =
      (Inr (decided (gate_decision rt w c)), snd (auditSimulationProofPreview rt c (gate_decision rt w c) sim ?w))"
    using assms by (simp add: process_memory act_on_decision_def auditSimulationProofPreview_def bind_audit appendAuditLog_run)
  with preview_added[OF assms(1)] show ?thesis by simp
qed

lemma preview_escalated:
  assumes "\<not> isDatabaseConfigured rt" "decisionForConfidence (ca_confidence c) = Escalate"
  shows "\<exists>w'. processCandidatePipeline rt c e sim w = (Inr (decided (gate_decision rt w c)), w') \<and> previews w' = previews w"
proof -
  let ?w = "after_gate rt c e w"
  have "keeps (same previews) (review_required rt c d e sim)" for d
    unfolding review_required_def queueAgentReview_def
    by (intro same.keeps_bind previews_basic previews_audit[OF assms(1)]) (simp add: audit_entry_def)
  then have kept: "previews (snd (review_required rt c d e sim ?w)) = previews w" for d
    using after_gate_previews[OF assms(1)] by (simp add: keeps_def same_def)
  have "processCandidatePipeline rt c e sim w =
      (Inr (decided (gate_decision rt w c)), snd (review_required rt c (gate_decision rt w c) e sim ?w))"
    using assms by (simp add: process_memory act_on_decision_def run_simps)
  with kept show ?thesis by simp
qed

text \<open>What a finished preview shows: its run, in the world at its end.\<close>

lemma advance_preview:
  assumes "\<not> isDatabaseConfigured rt" "\<not> sq_publishToChain input"
    and "decisionForConfidence (ca_confidence c) = (if sq_scenario input = AmbiguousOutage then Escalate else Approve)"
    and "\<not> hasProofPreview rt (ca_id c) w"
  shows "\<exists>run w'. advance_simulation rt ch input i cr ob e c w = (Inr (simulationFromRun rt run w'), w') \<and>
    rn_candidateId run = ca_id c \<and> rn_allowChainWrite run = False \<and> rn_scenario run = Some (sq_scenario input) \<and>
    ad_decision (rn_policyDecision run) = (if sq_scenario input = AmbiguousOutage then Escalate else Approve) \<and>
    map_of (ad_reasoningTrace (rn_policyDecision run)) ''candidateStatus'' = Some (JStr (candidate_status_string (ca_status c))) \<and>
    (hasProofPreview rt (ca_id c) w' \<longleftrightarrow> sq_scenario input \<noteq> AmbiguousOutage)"
proof -
  let ?sim = "\<lparr>sim_runId = i, sim_initiatedBy = to_lower (sq_walletAddress input), sim_allowChainWrite = sq_publishToChain input\<rparr>"
  define w1 where "w1 = w\<lparr>w_counters := (w_counters w)\<lparr>candidatesDetected := candidatesDetected (w_counters w) + 1\<rparr>\<rparr>"
  have w1: "previews w1 = previews w" by (simp add: w1_def previews_def listMemoryAuditLogs_def)
  obtain w2 where pipe: "processCandidatePipeline rt c (Some e) (Some ?sim) w1 = (Inr (decided (gate_decision rt w1 c)), w2)"
    and seen: "hasProofPreview rt (ca_id c) w2 \<longleftrightarrow> sq_scenario input \<noteq> AmbiguousOutage"
  proof (cases "sq_scenario input = AmbiguousOutage")
    case True
    with preview_escalated[OF assms(1), of c "Some e" "Some ?sim" w1] assms(3) obtain w2 where
      "processCandidatePipeline rt c (Some e) (Some ?sim) w1 = (Inr (decided (gate_decision rt w1 c)), w2)" "previews w2 = previews w1" by auto
    with True that assms(1,4) w1 previews_same show ?thesis by metis
  next
    case False
    with preview_approved[OF assms(1), of ?sim c "Some e" w1] assms(2,3) that show ?thesis by auto
  qed
  define run where "run = demo_run input i cr ob (ev_id e) (ca_id c) (gate_decision rt w1 c)"
  define w3 where "w3 = snd (appendAuditLog rt (demo_started_audit input run) (w2\<lparr>memoryRuns := jm_set (rn_id run) run (memoryRuns w2)\<rparr>))"
  have "advance_simulation rt ch input i cr ob e c w =
      bindS (if sq_publishToChain input \<and> False then submit_or_audit rt ch i (ca_id c) else returnS ()) (\<lambda>_. record_run rt input run) w2"
    unfolding advance_simulation_def act_prims w1_def[symmetric] bindS_def[of "processCandidatePipeline rt c (Some e) (Some ?sim)"] pipe
    by (simp add: run_def decided_def)
  then have "advance_simulation rt ch input i cr ob e c w = (Inr (simulationFromRun rt run w3), w3)"
    by (simp add: record_run_def bind_audit appendAuditLog_run w3_def)
  moreover have "previews w3 = previews (w2\<lparr>memoryRuns := jm_set (rn_id run) run (memoryRuns w2)\<rparr>)"
    unfolding w3_def using keeps_snd[OF previews_audit[OF assms(1)], of "demo_started_audit input run"]
    by (simp add: demo_started_audit_def audit_entry_def same_def)
  then have "hasProofPreview rt (ca_id c) w3 = hasProofPreview rt (ca_id c) w2"
    using assms(1) by (simp add: hasProofPreview_def previews_def listMemoryAuditLogs_def)
  moreover have "map_of (ad_reasoningTrace (gate_decision rt w1 c)) ''candidateStatus'' = Some (JStr (candidate_status_string (ca_status c)))"
    by (simp add: gate_decision_def decisionForCandidate_def Let_def)
  ultimately show ?thesis using seen assms(2,3)
    by (intro exI[of _ run] exI[of _ w3]) (simp add: run_def demo_run_def Let_def)
qed

definition fresh_ids :: "runtime \<Rightarrow> world \<Rightarrow> bool" where
  "fresh_ids rt w \<longleftrightarrow> (\<forall>n \<ge> w_uuids w. \<not> hasProofPreview rt (rt_uuid rt n) w \<and>
     jm_get (evidenceByIdempotencyKey w) (''judge-demo:'' @ rt_uuid rt n) = None)"

lemma preview_simulation:
  assumes "\<not> isDatabaseConfigured rt" "\<not> sq_publishToChain input" "date_range (w_now w)" "alone (sq_zoneId input) w" "fresh_ids rt w"
  shows "\<exists>run w'. simulate rt ch input w = (Inr (simulationFromRun rt run w'), w') \<and> rn_allowChainWrite run = False \<and>
    rn_scenario run = Some (sq_scenario input) \<and>
    ad_decision (rn_policyDecision run) = (if sq_scenario input = AmbiguousOutage then Escalate else Approve) \<and>
    map_of (ad_reasoningTrace (rn_policyDecision run)) ''candidateStatus'' =
      Some (JStr (candidate_status_string (if sq_scenario input = Restoration then Restored else Outage))) \<and>
    (hasProofPreview rt (rn_candidateId run) w' \<longleftrightarrow> sq_scenario input \<noteq> AmbiguousOutage)"
proof -
  let ?w1 = "w\<lparr>w_uuids := Suc (w_uuids w)\<rparr>" and ?id = "rt_uuid rt (w_uuids w)" and ?ob = "to_iso (w_now w)"
  have fresh: "jm_get (evidenceByIdempotencyKey ?w1) (''judge-demo:'' @ ?id) = None" "alone (sq_zoneId input) ?w1"
    "date_parse ?ob \<noteq> None"
    using assms(3-5) by (simp_all add: fresh_ids_def alone_def date_parse_iso)
  obtain e c ev cs where up: "upsertTelemetryEvidence rt (demo_telemetry_request input ?id ?ob) ?w1 =
      (Inr \<lparr>ir_duplicate = False, ir_evidenceEvent = e, ir_candidateEvent = Some c\<rparr>,
       ?w1\<lparr>w_uuids := w_uuids ?w1 + 3, evidenceByIdempotencyKey := ev, candidatesByKey := cs\<rparr>)"
    and c: "ca_id c = rt_uuid rt (w_uuids ?w1 + 2)" "ca_confidence c = demo_confidence (sq_scenario input)"
      "ca_status c = (if sq_scenario input = Restoration then Restored else Outage)"
    using demo_ingest[OF assms(1) fresh(2,3,1)] by blast
  let ?w2 = "?w1\<lparr>w_uuids := w_uuids ?w1 + 3, evidenceByIdempotencyKey := ev, candidatesByKey := cs\<rparr>"
  let ?w3 = "?w2\<lparr>w_counters := (w_counters ?w2)\<lparr>evidenceIngested := evidenceIngested (w_counters ?w2) + 1\<rparr>\<rparr>"
  have "previews ?w3 = previews w" by (simp add: previews_def listMemoryAuditLogs_def)
  then have "\<not> hasProofPreview rt (ca_id c) ?w3"
    using assms(1,5) by (simp add: c(1) hasProofPreview_def previews_def fresh_ids_def)
  from advance_preview[OF assms(1,2) _ this, where ch = ch and i = ?id and cr = ?ob and ob = ?ob and e = e] c(2)
  obtain run w' where run: "advance_simulation rt ch input ?id ?ob ?ob e c ?w3 = (Inr (simulationFromRun rt run w'), w')"
    "rn_candidateId run = ca_id c" "rn_allowChainWrite run = False" "rn_scenario run = Some (sq_scenario input)"
    "ad_decision (rn_policyDecision run) = (if sq_scenario input = AmbiguousOutage then Escalate else Approve)"
    "map_of (ad_reasoningTrace (rn_policyDecision run)) ''candidateStatus'' = Some (JStr (candidate_status_string (ca_status c)))"
    "hasProofPreview rt (ca_id c) w' \<longleftrightarrow> sq_scenario input \<noteq> AmbiguousOutage"
    by (auto simp: demo_gate)
  have "simulate rt ch input w = advance_simulation rt ch input ?id ?ob ?ob e c ?w3"
    using assms(2) up
    by (simp add: simulate_def demoObservedAt_def bindS_def[of "upsertTelemetryEvidence a b" for a b])
  with run c(3) show ?thesis by (intro exI[of _ run] exI[of _ w']) simp
qed

text \<open>The scenarios of the lab take the three ways through the system that they announce, on the memory
  backend, in preview mode, for a zone without other readings and with fresh identifiers: an ambiguous outage is
  escalated and waits for the agent, a confirmed outage and a restoration are approved and end in a proof preview, and
  the candidate is an outage or a restoration as the scenario says.\<close>

theorem scenarios_reach_their_stage:
  assumes "\<not> isDatabaseConfigured rt" "\<not> sq_publishToChain input" "consumeChallenge verify input w = (Inr (), w1)"
    and "date_range (w_now w)" "alone (sq_zoneId input) w" "fresh_ids rt w"
  shows "\<exists>sim w'. runDemoSimulation rt ch verify input w = (Inr sim, w') \<and>
    (if sq_scenario input = AmbiguousOutage
     then ds_stage sim = AiQueued \<and> dd_decision (ds_policyDecision sim) = Escalate \<and> ds_agentState sim = AgentQueued
     else ds_stage sim = ProofPreview \<and> dd_decision (ds_policyDecision sim) = Approve \<and> ds_agentState sim = NotRequired) \<and>
    dk_status (ds_candidate sim) = (if sq_scenario input = Restoration then Restored else Outage) \<and> ds_aiDecision sim = None"
proof -
  have w1: "\<exists>m. w1 = w\<lparr>memoryChallenges := m\<rparr>" using assms(3) by (auto simp: consumeChallenge_Inr)
  then have "date_range (w_now w1)" "alone (sq_zoneId input) w1" "fresh_ids rt w1"
    using assms(1,4-6) by (auto simp: alone_def fresh_ids_def hasProofPreview_def listMemoryAuditLogs_def)
  from preview_simulation[OF assms(1,2) this, of ch] obtain run w' where
    run: "simulate rt ch input w1 = (Inr (simulationFromRun rt run w'), w')" "rn_allowChainWrite run = False"
    "rn_scenario run = Some (sq_scenario input)"
    "ad_decision (rn_policyDecision run) = (if sq_scenario input = AmbiguousOutage then Escalate else Approve)"
    "map_of (ad_reasoningTrace (rn_policyDecision run)) ''candidateStatus'' =
      Some (JStr (candidate_status_string (if sq_scenario input = Restoration then Restored else Outage)))"
    "hasProofPreview rt (rn_candidateId run) w' \<longleftrightarrow> sq_scenario input \<noteq> AmbiguousOutage" by blast
  have "runDemoSimulation rt ch verify input w = (Inr (simulationFromRun rt run w'), w')"
    using assms(3) run(1) by (simp add: runDemoSimulation_def bindS_def)
  then show ?thesis using run(2-) assms(1)
    by (cases "sq_scenario input")
      (simp_all add: simulationFromRun_def Let_def findAiDecision_def findChainState_def stage_of_def decisionView_def scenarioCandidate_def)
qed

subsection \<open>Witnesses\<close>

definition sample_challenge_request :: wallet_challenge_request where
  "sample_challenge_request = \<lparr>wq_walletAddress = ''0xAB'', wq_zoneId = ''z'', wq_scenario = AmbiguousOutage, wq_publishToChain = False\<rparr>"

definition sample_simulation_request :: simulation_request where
  "sample_simulation_request = \<lparr>sq_walletAddress = ''0xAB'', sq_nonce = ''n'', sq_signature = ''0x1'', sq_zoneId = ''z'',
     sq_scenario = AmbiguousOutage, sq_publishToChain = False\<rparr>"

definition demo_world :: world where
  "demo_world = (empty_world sample_now)\<lparr>memoryChallenges := [(''n'', new_challenge sample_challenge_request ''n'' sample_now)]\<rparr>"

definition sample_verify :: verify_message where "sample_verify m s = Some ''0xAB''"

lemma demo_world_consumes: "\<exists>w1. consumeChallenge sample_verify sample_simulation_request demo_world = (Inr (), w1)"
proof -
  have range: "date_range (sample_now + CHALLENGE_TTL_MS)" by (simp add: date_range_def sample_now_def CHALLENGE_TTL_MS_def)
  have "check_challenge sample_verify (w_now demo_world) (jm_get (memoryChallenges demo_world) (sq_nonce sample_simulation_request))
      sample_simulation_request = Inr (new_challenge sample_challenge_request ''n'' sample_now)"
    using date_parse_iso[OF range]
    by (simp add: check_challenge_Inr new_challenge_def Let_def demo_world_def empty_world_def sample_simulation_request_def
        sample_challenge_request_def sample_verify_def CHALLENGE_TTL_MS_def)
  then show ?thesis by (simp add: consumeChallenge_def)
qed

lemma demo_world_ok:
  "date_range (w_now demo_world)" "alone z demo_world" "fresh_ids memory_rt demo_world" "known_agents demo_world"
  using sample_now_range
  by (simp_all add: demo_world_def empty_world_def alone_def fresh_ids_def hasProofPreview_def listMemoryAuditLogs_def
      known_agents_def empty_tables_def)

lemma demo_world_runs:
  "\<exists>sim w'. runDemoSimulation memory_rt ch sample_verify sample_simulation_request demo_world = (Inr sim, w')"
proof -
  obtain w1 where con: "consumeChallenge sample_verify sample_simulation_request demo_world = (Inr (), w1)"
    using demo_world_consumes by blast
  then obtain m where w1: "w1 = demo_world\<lparr>memoryChallenges := m\<rparr>" by (auto simp: consumeChallenge_Inr)
  have "date_range (w_now w1)" "alone (sq_zoneId sample_simulation_request) w1" "fresh_ids memory_rt w1"
    unfolding w1 by (simp_all add: demo_world_def empty_world_def alone_def fresh_ids_def hasProofPreview_def listMemoryAuditLogs_def)
  from preview_simulation[OF _ _ this, of ch] con show ?thesis
    by (auto simp: runDemoSimulation_def bindS_def sample_simulation_request_def)
qed

theorem preview_writes_nothing_witness:
  "\<forall>ch. chain_books (snd (runDemoSimulation memory_rt ch sample_verify sample_simulation_request demo_world)) = chain_books demo_world"
proof
  fix ch
  obtain r w' where run: "runDemoSimulation memory_rt ch sample_verify sample_simulation_request demo_world = (r, w')" by fastforce
  from preview_writes_nothing[OF run] run show "chain_books (snd (runDemoSimulation memory_rt ch sample_verify sample_simulation_request demo_world)) = chain_books demo_world"
    by (simp add: sample_simulation_request_def)
qed

theorem scenarios_reach_their_stage_witness:
  "\<forall>ch. \<exists>sim. fst (runDemoSimulation memory_rt ch sample_verify sample_simulation_request demo_world) = Inr sim \<and> ds_stage sim = AiQueued"
proof
  fix ch
  obtain w1 where "consumeChallenge sample_verify sample_simulation_request demo_world = (Inr (), w1)"
    using demo_world_consumes by blast
  from scenarios_reach_their_stage[OF _ _ this demo_world_ok(1-3), of ch] show "\<exists>sim. fst (runDemoSimulation memory_rt ch sample_verify sample_simulation_request demo_world) = Inr sim \<and> ds_stage sim = AiQueued"
    by (auto simp: sample_simulation_request_def)
qed

theorem runs_lost_at_restart_witness:
  "\<forall>ch. \<exists>sim w'. runDemoSimulation memory_rt ch sample_verify sample_simulation_request demo_world = (Inr sim, w') \<and>
     getDemoSimulation memory_rt (ds_id sim) (clearDemoStore w') = Inl demo_not_found"
proof
  fix ch
  obtain sim w' where "runDemoSimulation memory_rt ch sample_verify sample_simulation_request demo_world = (Inr sim, w')"
    using demo_world_runs by blast
  with runs_lost_at_restart[OF demo_world_ok(4) this] show "\<exists>sim w'. runDemoSimulation memory_rt ch sample_verify sample_simulation_request demo_world = (Inr sim, w') \<and>
      getDemoSimulation memory_rt (ds_id sim) (clearDemoStore w') = Inl demo_not_found" by blast
qed

end
