(* ===== verification/Gate.thy ===== *)
theory Gate imports Pipeline begin

section \<open>What detection promises to the policy gate\<close>

text \<open>
  The properties of the detection rules and of the heartbeat sweep together with the decision
  thresholds of the pipeline: how witnesses are counted, which candidates can never be approved
  automatically, and that a silence gives one candidate with a key that never changes.
  The events at the beginning are the inputs of the witnesses.
\<close>

subsection \<open>Sample evidence\<close>

definition sample_event :: "string \<Rightarrow> string \<Rightarrow> provider_type \<Rightarrow> evidence_status \<Rightarrow> string \<Rightarrow> evidence_event" where
  "sample_event event_id device source status observedAt =
     \<lparr>ev_id = event_id, ev_providerId = ''provider-'' @ event_id, ev_zoneId = ''zone-1'',
      ev_idempotencyKey = ''key-'' @ event_id, ev_source = source, ev_status = status,
      ev_voltage = Some 0, ev_currentAmps = None, ev_confidenceHint = None,
      ev_rawPayload = [(''deviceId'', JStr device)],
      ev_observedAt = observedAt, ev_receivedAt = observedAt\<rparr>"

definition sample_subject :: evidence_event where
  "sample_subject = sample_event ''e1'' ''esp32-1'' SensorProvider GridDown ''2026-07-20T12:05:00.000Z''"

definition sample_other :: evidence_event where
  "sample_other = sample_event ''e2'' ''phone-1'' ReporterProvider GridUp ''2026-07-20T12:03:00.000Z''"

definition sample_agreeing :: evidence_event where
  "sample_agreeing = sample_event ''e3'' ''phone-2'' ReporterProvider GridDown ''2026-07-20T12:01:00.000Z''"

lemmas sample_defs = sample_event_def sample_subject_def sample_other_def sample_agreeing_def

lemma sample_dates:
  "date_parse ''2026-07-20T12:05:00.000Z'' = Some 1784549100000"
  "date_parse ''2026-07-20T12:03:00.000Z'' = Some 1784548980000"
  "date_parse ''2026-07-20T12:01:00.000Z'' = Some 1784548860000"
  by code_simp+

lemma sample_conflict: "conflicts sample_subject sample_other"
  by code_simp

lemma sample_agree: "agrees sample_subject sample_agreeing"
  by code_simp

subsection \<open>Corroboration\<close>

text \<open>C13. Corroboration is counted per witness: whatever the order and the number of readings, the
  score of a reading counts the distinct identities (device, wallet or provider) behind the
  readings of the same zone within ten minutes that agree, and of those that contradict it; a
  reading of the subject's own identity counts for neither.\<close>

theorem witnesses_counted_once:
  "agreeing (scoreCrossSourceAgreement lc subject recentEvidence) =
     card (evidenceSourceIdentity ` {e \<in> set recentEvidence. agrees subject e}) \<and>
   conflicting (scoreCrossSourceAgreement lc subject recentEvidence) =
     card (evidenceSourceIdentity ` {e \<in> set recentEvidence. conflicts subject e}) \<and>
   evidenceSourceIdentity subject \<notin> evidenceSourceIdentity ` {e. comparable subject e}"
  by (auto simp: score_counts comparable_def)

text \<open>The supporting evidence of a score is sound: every supporting identifier is that of a recent
  reading of the same zone and status, observed within ten minutes by somebody else, and no two
  supporting readings come from the same device, wallet or provider.\<close>

theorem supporting_evidence_sound:
  "\<exists>events. supportingEvidenceIds (scoreCrossSourceAgreement lc subject recentEvidence) = map ev_id events \<and>
     set events \<subseteq> {e \<in> set recentEvidence. agrees subject e} \<and>
     distinct (map evidenceSourceIdentity events)"
  by (intro exI[of _ "supporting_events lc subject recentEvidence"] conjI subsetI supporting_ids
      supporting_identities_distinct) (simp add: supporting_agree)

text \<open>The score is deterministic: it depends on the set of the recent readings only, not on the
  order in which a store lists them (given the documented order of \<open>localeCompare\<close> on their
  identifiers).\<close>

theorem agreement_order_independent:
  assumes "lc_total lc (ev_id ` set xs)" "inj_on ev_id (set xs)" "set xs = set ys"
  shows "scoreCrossSourceAgreement lc subject xs = scoreCrossSourceAgreement lc subject ys"
  using assms by (rule score_order_irrelevant)

theorem agreement_order_independent_witness:
  "scoreCrossSourceAgreement text_compare sample_subject [sample_other, sample_agreeing] =
   scoreCrossSourceAgreement text_compare sample_subject [sample_agreeing, sample_other, sample_agreeing]"
proof (rule agreement_order_independent)
  show "inj_on ev_id (set [sample_other, sample_agreeing])"
    by (simp add: sample_other_def sample_agreeing_def sample_event_def)
  show "lc_total text_compare (ev_id ` set [sample_other, sample_agreeing])"
    unfolding lc_total_def by (rule text_compare_total)
qed auto

subsection \<open>What the gate does with a reading\<close>

lemma detect_Some:
  assumes "detectCandidateFromEvidence lc uuid now e recent = Inr (Some c)"
  shows "ca_confidence c = applyAgreement (confidenceForEvidence e) (scoreCrossSourceAgreement lc e recent)"
    "ca_zoneId c = ev_zoneId e" "ca_windowEnd c = ev_observedAt e" "ca_id c = uuid"
    "ca_evidenceEventIds c = ev_id e # supportingEvidenceIds (scoreCrossSourceAgreement lc e recent)"
    "ca_status c = (if ev_status e = GridDown then Outage else Restored)" "ev_status e \<noteq> Unknown"
  using assms by (auto simp: detectCandidateFromEvidence_def Let_def split: if_splits option.splits)

text \<open>C1. A contested reading is never committed automatically: when some recent reading of another
  witness contradicts it, the confidence of its candidate is at most 0.8 and the policy gate does
  not approve it.\<close>

theorem contested_reading_never_approved:
  assumes "detectCandidateFromEvidence lc uuid now e recent = Inr (Some c)"
    and "x \<in> set recent" "conflicts e x"
  shows "ca_confidence c \<le> CONFLICT_CONFIDENCE_CEILING \<and> decisionForConfidence (ca_confidence c) \<noteq> Approve"
proof -
  have "0 < conflicting (scoreCrossSourceAgreement lc e recent)"
    using assms(2,3) by (auto simp: score_counts card_gt_0_iff)
  from applyAgreement_contested[OF this] have "ca_confidence c \<le> CONFLICT_CONFIDENCE_CEILING"
    using detect_Some(1)[OF assms(1)] by simp
  then show ?thesis using ceilings_below_approval(1) by (simp add: decision_thresholds)
qed

theorem contested_reading_never_approved_witness:
  "\<exists>c. detectCandidateFromEvidence text_compare ''c1'' 0 sample_subject [sample_other] = Inr (Some c) \<and>
     decisionForConfidence (ca_confidence c) \<noteq> Approve"
proof -
  obtain c where c: "detectCandidateFromEvidence text_compare ''c1'' 0 sample_subject [sample_other] = Inr (Some c)"
    by (simp add: detectCandidateFromEvidence_def sample_defs sample_dates Let_def)
  from contested_reading_never_approved[OF c _ sample_conflict] c show ?thesis by simp
qed

text \<open>What detection returns on every branch: nothing for an unknown status, a thrown RangeError
  for a date that does not parse, and otherwise a candidate of the reading's zone whose status,
  window and evidence come from the reading and its supporting readings, with a confidence
  between 0 and 0.97.\<close>

theorem detection_outcomes:
  "case detectCandidateFromEvidence lc uuid now e recent of
     Inl err \<Rightarrow> ev_status e \<noteq> Unknown \<and> date_parse (ev_observedAt e) = None \<and>
       message err = ''Invalid time value''
   | Inr None \<Rightarrow> ev_status e = Unknown
   | Inr (Some c) \<Rightarrow> ev_status e \<noteq> Unknown \<and> ca_zoneId c = ev_zoneId e \<and>
       (ca_status c = Outage \<longleftrightarrow> ev_status e = GridDown) \<and> ca_windowEnd c = ev_observedAt e \<and>
       (\<exists>t. date_parse (ev_observedAt e) = Some t \<and> ca_windowStart c = to_iso (t - 300000)) \<and>
       0 \<le> ca_confidence c \<and> ca_confidence c \<le> MAX_AGREED_CONFIDENCE \<and>
       hd (ca_evidenceEventIds c) = ev_id e"
  by (auto simp: detectCandidateFromEvidence_def Let_def plain_error_def applyAgreement_bounds
      split: option.splits)

subsection \<open>Silences\<close>

lemma nodes_back_distinct: "distinct acc \<Longrightarrow> distinct (nodes_back s g bs acc)"
  by (induction s g bs acc rule: nodes_back.induct) simp_all

lemma nodes_back_set:
  "set (nodes_back s g bs acc) \<subseteq> set acc \<union> evidenceSourceIdentity ` hb_event ` set bs"
  by (induction s g bs acc rule: nodes_back.induct) auto

lemma gap_loop_index:
  assumes "c \<in> set (gap_loop uuid z g now beats js acc)" "\<forall>j \<in> set js. 1 \<le> j \<and> j < length beats"
    and "\<forall>c \<in> set acc. P c"
    and "\<And>u i we ends cb. i < length beats \<Longrightarrow> P (buildGapCandidate u z g beats i we ends cb now)"
  shows "P c"
  using assms
  by (induction uuid z g now beats js acc rule: gap_loop.induct) (auto simp: Let_def split: if_splits)

lemma detect_built:
  assumes "c \<in> set (detectHeartbeatGapCandidates lc uuid z ev g now)"
  shows "\<exists>u i we ends cb. i < length (heartbeatsFor lc z ev) \<and>
    c = buildGapCandidate u z (or_else g HEARTBEAT_GAP_MS) (heartbeatsFor lc z ev) i we ends cb now"
proof -
  let ?b = "heartbeatsFor lc z ev" and ?g = "or_else g HEARTBEAT_GAP_MS"
  let ?P = "\<lambda>c. \<exists>u i we ends cb. i < length ?b \<and> c = buildGapCandidate u z ?g ?b i we ends cb now"
  have built: "?P (buildGapCandidate u z ?g ?b i we ends cb now)" if "i < length ?b" for u i we ends cb
    using that by blast
  consider "c \<in> set (gap_loop uuid z ?g now ?b [1..<length ?b] [])"
    | u where "?b \<noteq> []" "c = buildGapCandidate u z ?g ?b (length ?b - 1) (to_iso now) now None now"
    using assms by (auto simp: detectHeartbeatGapCandidates_def Let_def split: if_splits)
  then show ?thesis
  proof cases
    case 1
    show ?thesis by (rule gap_loop_index[where P = ?P, OF 1]) (simp_all add: built del: ex_simps)
  next
    case 2
    then have "length ?b - 1 < length ?b" by simp
    with 2(2) show ?thesis by blast
  qed
qed

lemma detect_positive: "c \<in> set (detectHeartbeatGapCandidates lc uuid z ev g now) \<Longrightarrow>
    0 < or_else g HEARTBEAT_GAP_MS"
  by (auto simp: detectHeartbeatGapCandidates_def Let_def split: if_splits)

lemma single_node_count:
  assumes "\<forall>e \<in> set ev. ev_zoneId e = z \<longrightarrow> ev_source e = SensorProvider \<longrightarrow> evidenceSourceIdentity e = node"
    and "i < length (heartbeatsFor lc z ev)"
  shows "length (nodesReportingBefore (heartbeatsFor lc z ev) i g) < 2"
proof -
  let ?n = "nodesReportingBefore (heartbeatsFor lc z ev) i g"
  have "evidenceSourceIdentity ` hb_event ` set (heartbeatsFor lc z ev) \<subseteq> {node}"
    using assms(1) by (auto simp: heartbeatsFor_def List.map_filter_def beat_of_def)
  moreover have "set ?n \<subseteq> evidenceSourceIdentity ` hb_event ` set (heartbeatsFor lc z ev)"
    unfolding nodesReportingBefore_def
    by (rule order_trans[OF nodes_back_set]) (auto dest: in_set_takeD)
  ultimately have "set ?n \<subseteq> {node}" by (rule subset_trans[rotated])
  then have "card (set ?n) \<le> card {node}" by (intro card_mono) simp_all
  moreover have "distinct ?n" by (simp add: nodesReportingBefore_def nodes_back_distinct)
  ultimately show ?thesis by (simp add: distinct_card)
qed

text \<open>C12. Every silence of a zone's sensors gives exactly one candidate: the candidates are as many as
  the gaps longer than the threshold on the merged timeline, the open one included, and their
  dedupe keys are pairwise different.\<close>

theorem one_candidate_per_silence:
  assumes "0 < or_else g HEARTBEAT_GAP_MS"
  shows "length (detectHeartbeatGapCandidates lc uuid z ev g now) =
      card (silences (or_else g HEARTBEAT_GAP_MS) now (heartbeatsFor lc z ev)) \<and>
    distinct (gap_keys (detectHeartbeatGapCandidates lc uuid z ev g now))"
proof
  let ?g = "or_else g HEARTBEAT_GAP_MS" and ?b = "heartbeatsFor lc z ev"
  have starts: "map ca_windowStart (detectHeartbeatGapCandidates lc uuid z ev g now) =
      map (\<lambda>i. ev_observedAt (hb_event (?b ! i))) (gap_starts ?g now ?b)"
    using detect_starts[OF assms] by (simp add: Let_def)
  then have "length (detectHeartbeatGapCandidates lc uuid z ev g now) = length (gap_starts ?g now ?b)"
    by (metis length_map)
  then show "length (detectHeartbeatGapCandidates lc uuid z ev g now) = card (silences ?g now ?b)"
    by (simp add: set_gap_starts[symmetric] distinct_card distinct_gap_starts)
  have "distinct (map ca_windowStart (detectHeartbeatGapCandidates lc uuid z ev g now))"
    unfolding starts by (rule distinct_window_starts[OF assms])
  then show "distinct (gap_keys (detectHeartbeatGapCandidates lc uuid z ev g now))"
    unfolding gap_keys_detect by (simp add: distinct_map inj_on_def)
qed

theorem one_candidate_per_silence_witness:
  "length (detectHeartbeatGapCandidates text_compare (\<lambda>n. ''c'') ''zone-1'' [sample_subject]
      None 1784549700000) =
    card (silences HEARTBEAT_GAP_MS 1784549700000 (heartbeatsFor text_compare ''zone-1'' [sample_subject]))"
  using one_candidate_per_silence[of None text_compare "\<lambda>n. ''c''" "''zone-1''" "[sample_subject]" 1784549700000]
  by (simp add: HEARTBEAT_GAP_MS_def HEARTBEAT_INTERVAL_MS_def)

text \<open>A silence keeps its dedupe key: every key found by a sweep is found again by every later
  sweep, also when newer readings have closed the gap meanwhile, so the store that accepts a key
  once never records a silence twice.\<close>

theorem gap_keys_stable:
  assumes "now \<le> now'" "\<forall>b \<in> set (sensor_beats z later). now \<le> hb_at b"
    and "\<forall>b \<in> set (sensor_beats z ev). \<forall>b' \<in> set (sensor_beats z later). hb_at b < hb_at b'"
  shows "set (gap_keys (detectHeartbeatGapCandidates lc uuid z ev g now)) \<subseteq>
    set (gap_keys (detectHeartbeatGapCandidates lc uuid' z (ev @ later) g now'))"
  using assms by (rule gap_keys_persist)

definition sample_later :: evidence_event where
  "sample_later = sample_event ''e9'' ''esp32-1'' SensorProvider GridUp ''2026-07-20T13:00:00.000Z''"

theorem gap_keys_stable_witness:
  "set (gap_keys (detectHeartbeatGapCandidates text_compare (\<lambda>n. ''c'') ''zone-1'' [sample_subject]
      None 1784549700000)) \<subseteq>
   set (gap_keys (detectHeartbeatGapCandidates text_compare (\<lambda>n. ''d'') ''zone-1''
      ([sample_subject] @ [sample_later]) None 1784552500000))"
proof (rule gap_keys_stable)
  have "sensor_beats ''zone-1'' [sample_later] = [\<lparr>hb_event = sample_later, hb_at = 1784552400000\<rparr>]"
    "sensor_beats ''zone-1'' [sample_subject] = [\<lparr>hb_event = sample_subject, hb_at = 1784549100000\<rparr>]"
    by code_simp+
  then show "\<forall>b \<in> set (sensor_beats ''zone-1'' [sample_later]). 1784549700000 \<le> hb_at b"
    "\<forall>b \<in> set (sensor_beats ''zone-1'' [sample_subject]).
       \<forall>b' \<in> set (sensor_beats ''zone-1'' [sample_later]). hb_at b < hb_at b'"
    by simp_all
qed simp

text \<open>C11. Every gap candidate is an outage with a confidence between 0.6 and 0.95, so the gate never
  rejects one; and when the zone has one sensor node only, its confidence is at most 0.8 and the
  gate always escalates it: a dead device alone cannot commit an outage.\<close>

theorem lone_node_escalates:
  assumes "c \<in> set (detectHeartbeatGapCandidates lc uuid z ev g now)"
  shows "ca_status c = Outage \<and> ca_zoneId c = z \<and> MIN_GAP_CONFIDENCE \<le> ca_confidence c \<and>
    ca_confidence c \<le> MAX_GAP_CONFIDENCE \<and> decisionForConfidence (ca_confidence c) \<noteq> Reject \<and>
    ((\<exists>node. \<forall>e \<in> set ev. ev_zoneId e = z \<longrightarrow> ev_source e = SensorProvider \<longrightarrow>
        evidenceSourceIdentity e = node) \<longrightarrow>
     ca_confidence c \<le> SINGLE_NODE_CEILING \<and> decisionForConfidence (ca_confidence c) = Escalate)"
proof -
  let ?b = "heartbeatsFor lc z ev" and ?g = "or_else g HEARTBEAT_GAP_MS"
  obtain u i we ends cb where i: "i < length ?b" and c: "c = buildGapCandidate u z ?g ?b i we ends cb now"
    using detect_built[OF assms] by blast
  let ?n = "length (nodesReportingBefore ?b i ?g)"
  have conf: "ca_confidence c = gapConfidence (ends - hb_at (?b ! i)) ?g ?n" by (simp add: c)
  have bounds: "MIN_GAP_CONFIDENCE \<le> ca_confidence c" "ca_confidence c \<le> MAX_GAP_CONFIDENCE"
    unfolding conf by (rule gapConfidence_min[OF detect_positive[OF assms]], rule gapConfidence_le_max)
  have single: "ca_confidence c \<le> SINGLE_NODE_CEILING"
    if "\<forall>e \<in> set ev. ev_zoneId e = z \<longrightarrow> ev_source e = SensorProvider \<longrightarrow> evidenceSourceIdentity e = node" for node
    unfolding conf using single_node_count[OF that i] by (rule gapConfidence_single)
  have min: "ESCALATE_THRESHOLD \<le> ca_confidence c" using bounds(1) ceilings_below_approval(3) by linarith
  have esc: "decisionForConfidence (ca_confidence c) = Escalate" if "ca_confidence c \<le> SINGLE_NODE_CEILING"
    using min that ceilings_below_approval(2) unfolding decision_thresholds by linarith
  have "ca_status c = Outage" "ca_zoneId c = z" by (simp_all add: c)
  moreover have "decisionForConfidence (ca_confidence c) \<noteq> Reject" using min by (simp add: decision_thresholds)
  ultimately show ?thesis using bounds single esc by blast
qed

theorem lone_node_escalates_witness:
  "\<exists>c. c \<in> set (detectHeartbeatGapCandidates text_compare (\<lambda>n. ''c'') ''zone-1'' [sample_subject] None 1784549700000)
     \<and> decisionForConfidence (ca_confidence c) = Escalate"
proof -
  have beats: "heartbeatsFor text_compare ''zone-1'' [sample_subject] =
      [\<lparr>hb_event = sample_subject, hb_at = 1784549100000\<rparr>]"
    by code_simp
  have "detectHeartbeatGapCandidates text_compare (\<lambda>n. ''c'') ''zone-1'' [sample_subject] None 1784549700000 \<noteq> []"
    by (simp add: detectHeartbeatGapCandidates_def beats HEARTBEAT_GAP_MS_def HEARTBEAT_INTERVAL_MS_def)
  then obtain c where c: "c \<in> set (detectHeartbeatGapCandidates text_compare (\<lambda>n. ''c'') ''zone-1''
      [sample_subject] None 1784549700000)"
    by (metis hd_in_set)
  from lone_node_escalates[OF c] c show ?thesis by auto
qed

end
