(* ===== verification/Commitment.thy ===== *)
theory Commitment imports Samples begin

section \<open>What the pipeline commits\<close>

text \<open>
  The properties of the candidate pipeline: which candidates lead to an epoch score and a chain
  commitment, what the score counts, what a review does, and the invariant of the tables.
\<close>

subsection \<open>Epochs and uptime\<close>

text \<open>An epoch is the full hour that contains the end of the window: flooring gives a start not
  after the instant and less than an hour before it, it is idempotent, and two instants have
  the same epoch exactly when the second lies in the hour of the first; a date that does not
  parse throws.\<close>

theorem epoch_is_the_hour:
  assumes "date_range t"
  shows "floorToEpoch (to_iso t) = Inr (to_iso (floor_epoch_ms t)) \<and>
    floor_epoch_ms t \<le> t \<and> t < floor_epoch_ms t + 3600000 \<and>
    floorToEpoch (to_iso (floor_epoch_ms t)) = Inr (to_iso (floor_epoch_ms t)) \<and>
    (floor_epoch_ms s = floor_epoch_ms t \<longleftrightarrow> floor_epoch_ms t \<le> s \<and> s < floor_epoch_ms t + 3600000) \<and>
    (date_parse bad = None \<longrightarrow> isl (floorToEpoch bad))"
  using floor_epoch_bounds[of t] floor_epoch_eq_iff[of s t] assms
  by (simp add: floorToEpoch_def date_parse_iso date_range_floor EPOCH_DURATION_MS_def)

theorem epoch_is_the_hour_witness:
  "floorToEpoch (to_iso sample_now) = Inr (to_iso (floor_epoch_ms sample_now))"
  using epoch_is_the_hour[of sample_now 0 "[]"] by simp

text \<open>C15. The uptime of an epoch is in range and follows the votes: between 0 and 10000 basis points,
  10000 when every approved candidate reports restored power, 0 when none does or there is none,
  and never lower when the share of restored votes is higher, in spite of the rounding of the
  division and of the product.\<close>

theorem uptime_follows_votes:
  "0 \<le> uptime_bps cs \<and> uptime_bps cs \<le> 10000 \<and> uptime_bps [] = 0 \<and>
   (cs \<noteq> [] \<and> (\<forall>c \<in> set cs. ca_status c = Restored) \<longrightarrow> uptime_bps cs = 10000) \<and>
   ((\<forall>c \<in> set cs. ca_status c = Outage) \<longrightarrow> uptime_bps cs = 0) \<and>
   (cs \<noteq> [] \<and> cs' \<noteq> [] \<and>
    length (filter (\<lambda>c. ca_status c = Restored) cs) * length cs' \<le>
      length (filter (\<lambda>c. ca_status c = Restored) cs') * length cs \<longrightarrow>
    uptime_bps cs \<le> uptime_bps cs')"
proof -
  have nil: "uptime_bps [] = 0" by (simp add: uptime_bps_def)
  then have "(\<forall>c \<in> set cs. ca_status c = Outage) \<longrightarrow> uptime_bps cs = 0"
    using uptime_bps_extremes(2)[of cs] by (cases "cs = []") blast+
  then show ?thesis using nil uptime_bps_bounds uptime_bps_extremes(1) uptime_bps_mono by blast
qed

theorem uptime_follows_votes_witness:
  "uptime_bps [sample_candidate 1] = 0 \<and>
   uptime_bps [(sample_candidate 1)\<lparr>ca_status := Restored\<rparr>] = 10000 \<and>
   uptime_bps [sample_candidate 1] \<le> uptime_bps [(sample_candidate 1)\<lparr>ca_status := Restored\<rparr>]"
  using uptime_follows_votes[of "[(sample_candidate 1)\<lparr>ca_status := Restored\<rparr>]" "[sample_candidate 1]"]
    uptime_follows_votes[of "[sample_candidate 1]" "[(sample_candidate 1)\<lparr>ca_status := Restored\<rparr>]"]
  by (simp add: sample_candidate_def)

subsection \<open>Processing a candidate\<close>

text \<open>C10. An approved candidate commits its epoch (memory backend): the stored epoch score is the one of
  exactly the approved candidates of the zone whose window ends in that hour, the new candidate
  among them, and a pending commitment without transaction is stored for it.\<close>

theorem approval_commits_epoch:
  assumes "\<not> isDatabaseConfigured rt" "AUTO_APPROVE_THRESHOLD \<le> ca_confidence candidate"
    and "chain_allowed simulation" "date_parse (ca_windowEnd candidate) = Some t" "date_range t"
  shows "\<exists>w' approved score commitment.
    processCandidatePipeline rt candidate evidence simulation w =
      (Inr \<lparr>res_decision = gate_decision rt w candidate, res_epochScore = Some score,
         res_commitment = Some commitment\<rparr>, w') \<and>
    set approved = epoch_members w' (ca_zoneId candidate) t \<and> candidate \<in> set approved \<and>
    score = epochScoreForApprovedCandidates rt (w_now w) (ca_zoneId candidate)
      (to_iso (floor_epoch_ms t)) approved \<and>
    jm_get (memoryEpochScoresByKey w') (epochKey (ca_zoneId candidate) (to_iso (floor_epoch_ms t))) = Some score \<and>
    jm_get (memoryCommitmentsByEpochScore w') (es_id score) = Some commitment \<and>
    cc_status commitment = Pending \<and> cc_txHash commitment = None"
proof -
  obtain w' score commitment where run:
    "processCandidatePipeline rt candidate evidence simulation w =
      (Inr \<lparr>res_decision = gate_decision rt w candidate, res_epochScore = Some score,
         res_commitment = Some commitment\<rparr>, w')"
    and rem: "remembered rt w candidate w'" and score: "score = memory_score rt w' candidate t"
    and com: "commitment = pendingCommitmentForEpochScore rt (w_now w) score"
    and st: "memoryEpochScoresByKey w' = jm_set (epochKey (ca_zoneId candidate) (to_iso (floor_epoch_ms t)))
        score (memoryEpochScoresByKey w)"
      "memoryCommitmentsByEpochScore w' = jm_set (es_id score) commitment (memoryCommitmentsByEpochScore w)"
    using process_memory_approve[OF assms] by blast
  let ?L = "memory_approved rt w' (ca_zoneId candidate) t"
  have "candidate \<in> epoch_members w' (ca_zoneId candidate) t"
    using rem assms(2,4) jm_get_in_values[of "memoryCandidatesById w'" "ca_id candidate" candidate]
    by (simp add: remembered_def epoch_members_def in_epoch_def decision_thresholds)
  then have "candidate \<in> set ?L" by (simp add: set_memory_approved)
  moreover have "score = epochScoreForApprovedCandidates rt (w_now w) (ca_zoneId candidate)
      (to_iso (floor_epoch_ms t)) ?L"
    using score rem by (simp add: memory_score_def remembered_def)
  ultimately show ?thesis
    using run st set_memory_approved[of rt w' "ca_zoneId candidate" t] com
    by (intro exI[of _ w'] exI[of _ ?L] exI[of _ score] exI[of _ commitment])
      (simp add: pendingCommitmentForEpochScore_def)
qed

theorem approval_commits_epoch_witness:
  "\<exists>w' score commitment. processCandidatePipeline memory_rt (sample_candidate 1) None None (sample_world 1) =
     (Inr \<lparr>res_decision = gate_decision memory_rt (sample_world 1) (sample_candidate 1),
        res_epochScore = Some score, res_commitment = Some commitment\<rparr>, w')"
proof -
  have "chain_allowed None" by (simp add: chain_allowed_def)
  from approval_commits_epoch[of memory_rt "sample_candidate 1" None sample_now None "sample_world 1", OF _ _ this]
  show ?thesis by auto
qed

lemma stored_decision_sel:
  "dr_decision (fst (stored_decision d created rows)) = ad_decision d"
  "dr_candidate_event_id (fst (stored_decision d created rows)) = ad_candidateEventId d"
  "fst (stored_decision d created rows) \<in> set (snd (stored_decision d created rows))"
proof -
  show "dr_decision (fst (stored_decision d created rows)) = ad_decision d"
    by (simp add: stored_decision_def sql_upsert_def split: option.split)
  show "dr_candidate_event_id (fst (stored_decision d created rows)) = ad_candidateEventId d"
    by (auto simp: stored_decision_def sql_upsert_def decision_key_def dest: sql_find_Some split: option.split)
  show "fst (stored_decision d created rows) \<in> set (snd (stored_decision d created rows))"
    unfolding stored_decision_def by (rule sql_upsert_fst) simp
qed

lemma stored_epoch_sel:
  "ep_uptime_bps (fst (stored_epoch rt w c t)) = es_uptimeBps (database_score rt w c t)"
  "ep_evidence_hash (fst (stored_epoch rt w c t)) = es_evidenceHash (database_score rt w c t)"
  by (simp_all add: stored_epoch_def Let_def sql_upsert_def split: option.split)

lemma stored_epoch_key:
  "epoch_key (fst (stored_epoch rt w c t)) = (ca_zoneId c, floor_epoch_ms t)"
  "fst (stored_epoch rt w c t) \<in> set (snd (stored_epoch rt w c t))"
proof -
  show "epoch_key (fst (stored_epoch rt w c t)) = (ca_zoneId c, floor_epoch_ms t)"
    by (auto simp: stored_epoch_def Let_def sql_upsert_def epoch_key_def dest: sql_find_Some split: option.split)
  show "fst (stored_epoch rt w c t) \<in> set (snd (stored_epoch rt w c t))"
    unfolding stored_epoch_def Let_def by (rule sql_upsert_fst) simp
qed

lemma stored_commitment_sel:
  "cm_status (fst (stored_commitment rt w s)) = Pending"
  "cm_epoch_score_id (fst (stored_commitment rt w s)) = es_id s"
  "fst (stored_commitment rt w s) \<in> set (snd (stored_commitment rt w s))"
proof -
  show "cm_status (fst (stored_commitment rt w s)) = Pending"
    by (simp add: stored_commitment_def Let_def sql_upsert_def split: option.split)
  show "cm_epoch_score_id (fst (stored_commitment rt w s)) = es_id s"
    by (auto simp: stored_commitment_def Let_def sql_upsert_def dest: sql_find_Some split: option.split)
  show "fst (stored_commitment rt w s) \<in> set (snd (stored_commitment rt w s))"
    unfolding stored_commitment_def Let_def by (rule sql_upsert_fst) simp
qed

text \<open>A candidate below the approval threshold in the database.\<close>

lemma process_database_unapproved:
  fixes rt :: runtime and candidate :: candidate_event and w :: world
  assumes "isDatabaseConfigured rt" "ca_confidence candidate < AUTO_APPROVE_THRESHOLD" "date_range (w_now w)"
    and "ca_id candidate \<in> cr_id ` set (t_candidate_events (db w))"
  shows "\<exists>d w'. processCandidatePipeline rt candidate evidence simulation w = (Inr (decided d), w') \<and>
    ad_candidateEventId d = ca_id candidate \<and> ad_hypothesis d = ad_hypothesis (gate_decision rt w candidate) \<and>
    same_chain_stores w w' \<and>
    (if ESCALATE_THRESHOLD \<le> ca_confidence candidate
     then ad_decision d = Escalate \<and>
       jobs_of w' = add_mset (review_job candidate evidence simulation) (jobs_of w) \<and>
       w_events w' = w_events w @ [ReviewRequired (ca_id candidate) (ca_zoneId candidate) (ad_hypothesis d)]
     else ad_decision d = Reject \<and> jobs_of w' = jobs_of w \<and> w_events w' = w_events w)"
proof -
  let ?d = "gate_decision rt w candidate" and ?w0 = "w\<lparr>w_uuids := Suc (w_uuids w)\<rparr>"
  let ?sd = "stored_decision ?d (w_now w) (t_agent_decisions (db w))"
  let ?w1 = "?w0\<lparr>db := db w\<lparr>t_agent_decisions := snd ?sd\<rparr>\<rparr>" and ?s = "mapDecisionRow (fst ?sd)"
  have created: "date_parse (ad_createdAt ?d) = Some (w_now w)"
    using assms(3) by (simp add: gate_decision_def decisionForCandidate_def Let_def date_parse_iso)
  have up: "upsertDatabaseDecision ?d ?w0 = (Inr ?s, ?w1)"
    unfolding upsert_decision_run created using assms(4) by auto
  note fr = upsert_decision_frame[OF up]
  have "ad_hypothesis ?s = ad_hypothesis ?d" by (simp add: stored_decision_def sql_upsert_def split: option.split)
  then have s: "ad_hypothesis ?s = ad_hypothesis ?d" "ad_candidateEventId ?s = ca_id candidate" "ad_decision ?s = ad_decision ?d"
    by (simp_all add: stored_decision_sel)
  define w2 where "w2 = (snd (auditAgentDecision rt ?s candidate evidence ?w1))\<lparr>
    w_counters := w_counters ?w1\<lparr>agentDecisions := agentDecisions (w_counters ?w1) + 1\<rparr>\<rparr>"
  have run: "processCandidatePipeline rt candidate evidence simulation w =
        act_on_decision rt candidate ?s evidence simulation
          (database_commitment rt candidate ?s AgentAutoApproval) w2"
    using assms(1) up by (simp add: processCandidatePipeline_def gate_decision_def[symmetric] bindS_Inr run_simps audit_defs w2_def)
  have same: "same_chain_stores w w2" "jobs_of w2 = jobs_of w" "w_events w2 = w_events w"
    using fr by (simp_all add: same_chain_stores_def w2_def audit_defs run_simps jobs_of_def)
  show ?thesis
  proof (cases "ESCALATE_THRESHOLD \<le> ca_confidence candidate")
    case esc: True
    then have "ad_decision ?s = Escalate" using assms(2) s(3) by (simp add: decision_thresholds)
    with esc run s same show ?thesis
      by (intro exI[of _ ?s]) (auto simp: act_on_decision_def run_simps same_chain_stores_def)
  next
    case rej: False
    then have "ad_decision ?s = Reject" using s(3) by (simp add: decision_thresholds)
    with rej run s same show ?thesis by (intro exI[of _ ?s]) (auto simp: act_on_decision_def)
  qed
qed

text \<open>C4. A candidate below the approval threshold commits nothing, in both backends (with a database its row must be
  stored): scores, commitments and the submission counter stay as they are; it queues exactly one review job and
  announces it when it is at or above the escalation threshold, and is rejected and queues nothing when it is below.\<close>

theorem unapproved_candidate_commits_nothing:
  assumes "ca_confidence candidate < AUTO_APPROVE_THRESHOLD"
    and "isDatabaseConfigured rt \<Longrightarrow> date_range (w_now w) \<and> ca_id candidate \<in> cr_id ` set (t_candidate_events (db w))"
  shows "\<exists>d w'. processCandidatePipeline rt candidate evidence simulation w = (Inr (decided d), w') \<and>
    ad_candidateEventId d = ca_id candidate \<and> ad_hypothesis d = ad_hypothesis (gate_decision rt w candidate) \<and>
    same_chain_stores w w' \<and>
    (if ESCALATE_THRESHOLD \<le> ca_confidence candidate
     then ad_decision d = Escalate \<and>
       jobs_of w' = add_mset (review_job candidate evidence simulation) (jobs_of w) \<and>
       w_events w' = w_events w @ [ReviewRequired (ca_id candidate) (ca_zoneId candidate) (ad_hypothesis d)]
     else ad_decision d = Reject \<and> jobs_of w' = jobs_of w \<and> w_events w' = w_events w)"
proof (cases "isDatabaseConfigured rt")
  case False
  show ?thesis
  proof (cases "ESCALATE_THRESHOLD \<le> ca_confidence candidate")
    case True
    from process_memory_escalate[OF False this assms(1), of evidence simulation w] True assms(1) show ?thesis
      by (intro exI[of _ "gate_decision rt w candidate"]) (auto simp: decision_thresholds)
  next
    case low: False
    then have "ca_confidence candidate < ESCALATE_THRESHOLD" by simp
    from process_memory_reject[OF False this, of evidence simulation w] low show ?thesis
      by (intro exI[of _ "gate_decision rt w candidate"]) (auto simp: decision_thresholds)
  qed
next
  case True
  from assms(2)[OF True] show ?thesis
    by (intro process_database_unapproved[OF True assms(1)]) auto
qed

theorem unapproved_candidate_commits_nothing_witness:
  "(\<exists>d w'. processCandidatePipeline memory_rt (sample_candidate 0) None None (sample_world 0) = (Inr (decided d), w') \<and>
     ad_decision d = Reject) \<and>
   (\<exists>d w'. processCandidatePipeline database_rt (sample_candidate 0) None None (sample_world 0) = (Inr (decided d), w') \<and>
     ad_decision d = Reject)"
proof -
  have "ca_confidence (sample_candidate 0) < AUTO_APPROVE_THRESHOLD" "\<not> ESCALATE_THRESHOLD \<le> ca_confidence (sample_candidate 0)"
    by (simp_all add: AUTO_APPROVE_THRESHOLD_def ESCALATE_THRESHOLD_def fl_eval)
  moreover have "date_range (w_now (sample_world 0)) \<and>
      ca_id (sample_candidate 0) \<in> cr_id ` set (t_candidate_events (db (sample_world 0)))"
    by (simp add: sample_world_def sample_tables_def empty_world_def sample_row_def sample_candidate_def)
  ultimately show ?thesis
    using unapproved_candidate_commits_nothing[of "sample_candidate 0" memory_rt "sample_world 0" None None]
      unapproved_candidate_commits_nothing[of "sample_candidate 0" database_rt "sample_world 0" None None] by auto
qed

text \<open>C14. A simulation that may not write to the chain never does, in either backend and at any
  confidence: no epoch score, no commitment and no counted submission comes out of the pipeline.\<close>

theorem simulation_never_commits:
  assumes "\<not> sim_allowChainWrite sim"
  shows "same_chain_stores w (snd (processCandidatePipeline rt candidate evidence (Some sim) w))"
  using assms by (rule simulation_preview_no_chain)

theorem simulation_never_commits_witness:
  "same_chain_stores (sample_world 1) (snd (processCandidatePipeline database_rt (sample_candidate 1) None
     (Some \<lparr>sim_runId = ''r'', sim_initiatedBy = ''0x'', sim_allowChainWrite = False\<rparr>) (sample_world 1)))"
  by (rule simulation_never_commits) simp

text \<open>C2. An approved candidate commits its epoch (database backend): the stored score row of its zone and hour, which
  is the one returned, has the uptime and the evidence hash of the approved candidate rows of the zone in that hour,
  each taken once for every decision that approves it, the candidate's own row among them, and the stored commitment
  row of this score, which is the one returned, is pending.\<close>

theorem database_approval_commits_epoch:
  assumes "isDatabaseConfigured rt" "AUTO_APPROVE_THRESHOLD \<le> ca_confidence candidate"
    and "chain_allowed simulation" "date_parse (ca_windowEnd candidate) = Some t" "date_range t"
    and "date_range (w_now w)" "row \<in> set (t_candidate_events (db w))" "cr_id row = ca_id candidate"
    and "cr_zone_id row = ca_zoneId candidate" "cr_window_end row = t"
  shows "\<exists>w' stored score commitment approved e m.
    processCandidatePipeline rt candidate evidence simulation w =
      (Inr \<lparr>res_decision = stored, res_epochScore = Some score, res_commitment = Some commitment\<rparr>, w') \<and>
    ad_decision stored = Approve \<and>
    mset approved = (\<Sum>c \<in># hour_rows (db w') (ca_zoneId candidate) t. replicate_mset (approvals (db w') c) c) \<and>
    row \<in> set approved \<and>
    e \<in> set (t_epoch_scores (db w')) \<and> score = epoch_of_row e \<and>
    ep_zone_id e = ca_zoneId candidate \<and> ep_epoch_start e = floor_epoch_ms t \<and>
    ep_uptime_bps e = uptime_bps (map candidate_of_row approved) \<and>
    ep_evidence_hash e = ''0x'' @ rt_sha256 rt (json_stringify (evidence_json (ca_zoneId candidate)
      (to_iso (floor_epoch_ms t)) (map candidate_of_row approved))) \<and>
    m \<in> set (t_chain_commitments (db w')) \<and> commitment = commitment_of_row m \<and>
    cm_epoch_score_id m = ep_id e \<and> cm_status m = Pending"
proof -
  let ?d = "gate_decision rt w candidate" and ?w0 = "w\<lparr>w_uuids := Suc (w_uuids w)\<rparr>"
  let ?sd = "stored_decision ?d (w_now w) (t_agent_decisions (db w))"
  let ?w1 = "?w0\<lparr>db := db w\<lparr>t_agent_decisions := snd ?sd\<rparr>\<rparr>"
  have created: "date_parse (ad_createdAt ?d) = Some (w_now w)"
    using assms(6) by (simp add: gate_decision_def decisionForCandidate_def Let_def date_parse_iso)
  have up: "upsertDatabaseDecision ?d ?w0 = (Inr (mapDecisionRow (fst ?sd)), ?w1)"
    unfolding upsert_decision_run created using assms(7,8) by auto
  obtain w2 where run: "processCandidatePipeline rt candidate evidence simulation w =
      act_on_decision rt candidate (mapDecisionRow (fst ?sd)) evidence simulation
        (database_commitment rt candidate (mapDecisionRow (fst ?sd)) AgentAutoApproval) w2"
    and t2: "t_agent_decisions (db w2) = snd ?sd" "t_candidate_events (db w2) = t_candidate_events (db w)"
    using process_database_stored[OF assms(1) up] by auto
  have approve: "ad_decision (mapDecisionRow (fst ?sd)) = Approve"
    using assms(2) by (simp add: stored_decision_sel decision_thresholds)
  let ?er = "stored_epoch rt w2 candidate t"
  let ?cm = "stored_commitment rt (w2\<lparr>db := db w2\<lparr>t_epoch_scores := snd ?er\<rparr>\<rparr>) (epoch_of_row (fst ?er))"
  obtain w' where commit: "database_commitment rt candidate (mapDecisionRow (fst ?sd)) AgentAutoApproval w2 =
      (Inr \<lparr>res_decision = mapDecisionRow (fst ?sd), res_epochScore = Some (epoch_of_row (fst ?er)),
         res_commitment = Some (commitment_of_row (fst ?cm))\<rparr>, w')"
    and t': "t_epoch_scores (db w') = snd ?er" "t_chain_commitments (db w') = snd ?cm"
      "t_candidate_events (db w') = t_candidate_events (db w2)" "t_agent_decisions (db w') = t_agent_decisions (db w2)"
    using database_commitment_run[OF assms(4,5)] by blast
  let ?L = "approved_rows (db w2) (ca_zoneId candidate) (floor_epoch_ms t) (floor_epoch_ms t + EPOCH_DURATION_MS)"
  have L: "mset ?L = (\<Sum>c \<in># hour_rows (db w') (ca_zoneId candidate) t. replicate_mset (approvals (db w') c) c)"
    using t' by (simp add: mset_approved_rows hour_rows_def approvals_def)
  have "row \<in> set ?L"
    using assms(7-10) t2 stored_decision_sel[of ?d "w_now w" "t_agent_decisions (db w)"] approve
    by (auto simp: set_approved_rows epoch_row_members_def intro!: bexI[of _ "fst ?sd"])
  moreover have "act_on_decision rt candidate (mapDecisionRow (fst ?sd)) evidence simulation c w2 = c w2" for c
    using assms(3) approve by (cases simulation) (simp_all add: act_on_decision_def chain_allowed_def)
  ultimately show ?thesis
    using run commit approve L t' stored_epoch_key[of rt w2 candidate t]
    by (intro exI[of _ w'] exI[of _ "mapDecisionRow (fst ?sd)"] exI[of _ "epoch_of_row (fst ?er)"]
        exI[of _ "commitment_of_row (fst ?cm)"] exI[of _ ?L] exI[of _ "fst ?er"] exI[of _ "fst ?cm"])
      (simp add: stored_epoch_sel stored_commitment_sel database_score_def epochScoreForApprovedCandidates_def epoch_key_def)
qed

theorem database_approval_commits_epoch_witness:
  "\<exists>w' stored score commitment. processCandidatePipeline database_rt (sample_candidate 1) None None (sample_world 1) =
     (Inr \<lparr>res_decision = stored, res_epochScore = Some score, res_commitment = Some commitment\<rparr>, w') \<and>
     ad_decision stored = Approve"
proof -
  have "chain_allowed None" by (simp add: chain_allowed_def)
  moreover have "sample_row 1 \<in> set (t_candidate_events (db (sample_world 1)))" "date_range (w_now (sample_world 1))"
    "cr_id (sample_row 1) = ca_id (sample_candidate 1)" "cr_zone_id (sample_row 1) = ca_zoneId (sample_candidate 1)"
    "cr_window_end (sample_row 1) = sample_now"
    by (simp_all add: sample_world_def sample_tables_def empty_world_def sample_row_def sample_candidate_def)
  ultimately show ?thesis
    using database_approval_commits_epoch[of database_rt "sample_candidate 1" None sample_now "sample_world 1"
        "sample_row 1" None] by auto
qed

subsection \<open>Reviews\<close>

definition sample_decision_row :: decision_row where
  "sample_decision_row = \<lparr>dr_id = ''d1'', dr_candidate_event_id = ''candidate-1'', dr_agent_name = POLICY_GATE,
     dr_confidence = 1/2, dr_decision = Escalate, dr_hypothesis = ''plausible'',
     dr_supporting_evidence_ids = [''e1''], dr_notification_draft = None, dr_reasoning_trace = [],
     dr_created_at = sample_now\<rparr>"

lemma decision_string_agent [simp]: "isAgentDecision (Some (decision_string d)) = Some d"
  by (cases d) (simp_all add: isAgentDecision_def)



lemma json_string_Str [simp]: "json_string (Some (JStr s)) = Some s"
  by (simp add: json_string_def)

lemma review_of_decisions [simp]:
  "d \<noteq> Escalate \<Longrightarrow> n \<noteq> [] \<Longrightarrow>
     review_of (Some (decision_string i)) (Some (decision_string d)) (Some n) when =
       Some \<lparr>rv_initialDecision = i, rv_decision = d, rv_note = n, rv_reviewedAt = when\<rparr>"
  by (simp add: review_of_def)

lemma upsert_others:
  assumes "\<And>x. key (upd x) = key x" "key r = k"
  shows "filter (\<lambda>x. key x \<noteq> k) (snd (sql_upsert key upd r rows)) = filter (\<lambda>x. key x \<noteq> k) rows"
proof -
  have "filter (\<lambda>x. key x \<noteq> key r) (map (\<lambda>y. if key y = key r then upd y else y) rows) = filter (\<lambda>x. key x \<noteq> key r) rows"
    using assms(1) by (induction rows) auto
  with assms show ?thesis by (auto simp: sql_upsert_def split: option.split)
qed

text \<open>The candidate's hour is committed anew and no other: its score row and a pending commitment for it are
  stored and returned, and the scores and commitments of the other hours are those of before.\<close>

definition recommits_hour :: "candidate_row \<Rightarrow> world \<Rightarrow> world \<Rightarrow> pipeline_result \<Rightarrow> bool" where
  "recommits_hour c w w' res \<longleftrightarrow> (\<exists>e m. e \<in> set (t_epoch_scores (db w')) \<and>
     epoch_key e = (cr_zone_id c, floor_epoch_ms (cr_window_end c)) \<and> res_epochScore res = Some (epoch_of_row e) \<and>
     m \<in> set (t_chain_commitments (db w')) \<and> cm_epoch_score_id m = ep_id e \<and> cm_status m = Pending \<and>
     res_commitment res = Some (commitment_of_row m) \<and>
     filter (\<lambda>x. epoch_key x \<noteq> epoch_key e) (t_epoch_scores (db w')) =
       filter (\<lambda>x. epoch_key x \<noteq> epoch_key e) (t_epoch_scores (db w)) \<and>
     filter (\<lambda>x. cm_epoch_score_id x \<noteq> ep_id e) (t_chain_commitments (db w')) =
       filter (\<lambda>x. cm_epoch_score_id x \<noteq> ep_id e) (t_chain_commitments (db w)))"

lemma recommitted_hour:
  assumes "date_range (cr_window_end c)"
  obtains res w' where "database_commitment rt (candidate_of_row c) d source w = (Inr res, w')" "res_decision res = d"
    "recommits_hour c w w' res" "t_agent_decisions (db w') = t_agent_decisions (db w)"
    "t_candidate_events (db w') = t_candidate_events (db w)"
proof -
  have win: "date_parse (ca_windowEnd (candidate_of_row c)) = Some (cr_window_end c)"
    "ca_zoneId (candidate_of_row c) = cr_zone_id c"
    using assms by (simp_all add: candidate_of_row_def date_parse_iso)
  let ?er = "stored_epoch rt w (candidate_of_row c) (cr_window_end c)"
  let ?cm = "stored_commitment rt (w\<lparr>db := db w\<lparr>t_epoch_scores := snd ?er\<rparr>\<rparr>) (epoch_of_row (fst ?er))"
  let ?res = "\<lparr>res_decision = d, res_epochScore = Some (epoch_of_row (fst ?er)), res_commitment = Some (commitment_of_row (fst ?cm))\<rparr>"
  obtain w' where run: "database_commitment rt (candidate_of_row c) d source w = (Inr ?res, w')"
    and t: "t_epoch_scores (db w') = snd ?er" "t_chain_commitments (db w') = snd ?cm"
      "t_agent_decisions (db w') = t_agent_decisions (db w)" "t_candidate_events (db w') = t_candidate_events (db w)"
    using database_commitment_run[OF win(1) assms] by blast
  have key: "epoch_key (fst ?er) = (cr_zone_id c, floor_epoch_ms (cr_window_end c))"
    by (simp add: stored_epoch_key win(2))
  moreover have "fst ?er \<in> set (snd ?er)" by (rule stored_epoch_key)
  moreover have "filter (\<lambda>x. epoch_key x \<noteq> epoch_key (fst ?er)) (snd ?er) =
      filter (\<lambda>x. epoch_key x \<noteq> epoch_key (fst ?er)) (t_epoch_scores (db w))"
    unfolding key unfolding stored_epoch_def Let_def by (rule upsert_others) (simp_all add: epoch_key_def win(2))
  moreover have "filter (\<lambda>x. cm_epoch_score_id x \<noteq> ep_id (fst ?er)) (snd ?cm) =
      filter (\<lambda>x. cm_epoch_score_id x \<noteq> ep_id (fst ?er)) (t_chain_commitments (db w))"
    unfolding stored_commitment_def Let_def by (simp add: upsert_others[where key = cm_epoch_score_id])
  ultimately have "recommits_hour c w w' ?res"
    unfolding recommits_hour_def using t
    by (intro exI[of _ "fst ?er"] exI[of _ "fst ?cm"]) (simp add: stored_commitment_sel)
  then show thesis using that run t by simp
qed

text \<open>What a review of a stored decision does, in the database: its row carries the review, and the approval of a
  reviewer commits the hour of the candidate.\<close>

lemma resolved_review:
  assumes "isDatabaseConfigured rt" "tables_ok (db w)" "windows_in_range (db w)"
    and "sql_find dr_id (t_agent_decisions (db w)) decisionId = Some row"
  obtains res w' where "resolveReviewDecision rt decisionId d note reviewer w = (Inr res, w')"
    "res_decision res = mapDecisionRow (reviewed_row (to_iso (w_now w)) d note row)"
    "t_agent_decisions (db w') = map (\<lambda>x. if dr_id x = decisionId
       then reviewed_row (to_iso (w_now w)) d note x else x) (t_agent_decisions (db w))"
    "t_candidate_events (db w') = t_candidate_events (db w)"
    "if d = Approve
     then \<exists>c \<in> set (t_candidate_events (db w)). cr_id c = dr_candidate_event_id row \<and> recommits_hour c w w' res
     else res_epochScore res = None \<and> res_commitment res = None \<and> same_chain_stores w w'"
proof -
  have row: "row \<in> set (t_agent_decisions (db w))" "dr_id row = decisionId" using assms(4) by (auto dest: sql_find_Some)
  let ?w1 = "after_review rt row d note reviewer w"
  let ?d = "mapDecisionRow (reviewed_row (to_iso (w_now w)) d note row)"
  have upd: "t_agent_decisions (db ?w1) = map (\<lambda>x. if dr_id x = decisionId
      then reviewed_row (to_iso (w_now w)) d note x else x) (t_agent_decisions (db w))"
    using row(2) by (simp add: sql_update_def)
  show thesis
  proof (cases "d = Approve")
    case False
    then have "resolveReviewDecision rt decisionId d note reviewer w = (Inr (decided ?d), ?w1)"
      using assms(1,4) by (simp add: resolveReviewDecision_def resolve_database_run)
    moreover have "same_chain_stores w ?w1"
      by (simp add: same_chain_stores_def after_review_def Let_def audit_defs run_simps)
    ultimately show thesis using that[of "decided ?d" ?w1] False upd by (simp add: decided_def)
  next
    case True
    have "\<exists>c \<in> set (t_candidate_events (db w)). cr_id c = dr_candidate_event_id row"
      using assms(2) row(1) by (simp add: tables_ok_def)
    then obtain c where find: "sql_find cr_id (t_candidate_events (db w)) (dr_candidate_event_id row) = Some c"
      by (cases "sql_find cr_id (t_candidate_events (db w)) (dr_candidate_event_id row)") (force simp: sql_find_None)+
    then have c: "c \<in> set (t_candidate_events (db w))" "cr_id c = dr_candidate_event_id row" by (auto dest: sql_find_Some)
    then have "date_range (cr_window_end c)" using assms(3) by (simp add: windows_in_range_def)
    then obtain res w' where run: "database_commitment rt (candidate_of_row c) ?d ReviewApproval ?w1 = (Inr res, w')"
      and res: "res_decision res = ?d" "recommits_hour c ?w1 w' res" "t_agent_decisions (db w') = t_agent_decisions (db ?w1)"
        "t_candidate_events (db w') = t_candidate_events (db ?w1)" by (rule recommitted_hour)
    have "resolveReviewDecision rt decisionId d note reviewer w = (Inr res, w')"
      using assms(1,4) find True run
      by (simp add: resolveReviewDecision_def resolve_database_run bindS_def[of "findDatabaseCandidate _"] findDatabaseCandidate_def)
    moreover have "recommits_hour c w w' res" using res(2) by (simp add: recommits_hour_def)
    ultimately show thesis using that[of res w'] res upd c True by auto
  qed
qed

text \<open>C18. A review changes one decision (database backend): an unknown identifier is answered 404 and leaves the world
  alone; otherwise exactly the rows with that identifier change and carry the reviewer's decision and note. An approval
  recomputes the score of the candidate's hour and puts a pending commitment for it, and leaves the scores and
  commitments of all other hours; any other decision touches neither scores nor commitments.\<close>

theorem review_changes_one_decision:
  assumes "isDatabaseConfigured rt" "tables_ok (db w)" "windows_in_range (db w)"
  shows "case resolveReviewDecision rt decisionId d note reviewer w of (r, w') \<Rightarrow>
    (case sql_find dr_id (t_agent_decisions (db w)) decisionId of
       None \<Rightarrow> r = Inl review_not_found \<and> w' = w
     | Some row \<Rightarrow> t_agent_decisions (db w') = map (\<lambda>x. if dr_id x = decisionId
           then reviewed_row (to_iso (w_now w)) d note x else x) (t_agent_decisions (db w)) \<and>
         t_candidate_events (db w') = t_candidate_events (db w) \<and>
         (\<exists>res. r = Inr res \<and> res_decision res = mapDecisionRow (reviewed_row (to_iso (w_now w)) d note row) \<and>
           (if d = Approve
            then \<exists>c \<in> set (t_candidate_events (db w)). cr_id c = dr_candidate_event_id row \<and> recommits_hour c w w' res
            else res_epochScore res = None \<and> res_commitment res = None \<and> same_chain_stores w w')))"
proof (cases "sql_find dr_id (t_agent_decisions (db w)) decisionId")
  case None
  with assms(1) show ?thesis by (simp add: resolveReviewDecision_def resolve_database_run)
next
  case (Some row)
  obtain res w' where "resolveReviewDecision rt decisionId d note reviewer w = (Inr res, w')"
    "res_decision res = mapDecisionRow (reviewed_row (to_iso (w_now w)) d note row)"
    "t_agent_decisions (db w') = map (\<lambda>x. if dr_id x = decisionId
       then reviewed_row (to_iso (w_now w)) d note x else x) (t_agent_decisions (db w))"
    "t_candidate_events (db w') = t_candidate_events (db w)"
    "if d = Approve
     then \<exists>c \<in> set (t_candidate_events (db w)). cr_id c = dr_candidate_event_id row \<and> recommits_hour c w w' res
     else res_epochScore res = None \<and> res_commitment res = None \<and> same_chain_stores w w'"
    by (rule resolved_review[OF assms Some])
  then show ?thesis unfolding Some by (simp only: prod.case option.case) simp
qed




definition review_world :: world where
  "review_world = (sample_world (1/2))\<lparr>db := (sample_tables (1/2))\<lparr>t_agent_decisions := [sample_decision_row]\<rparr>\<rparr>"

lemma review_world_ok:
  "tables_ok (db review_world)" "windows_in_range (db review_world)" "distinct (map dr_id (t_agent_decisions (db review_world)))"
  "sql_find dr_id (t_agent_decisions (db review_world)) ''d1'' = Some sample_decision_row" "date_range (w_now review_world)"
  by (simp_all add: review_world_def tables_ok_def windows_in_range_def sample_tables_def empty_tables_def sample_row_def
      sample_candidate_def sample_decision_row_def sql_find_def sample_world_def empty_world_def)


theorem review_changes_one_decision_witness:
  "\<exists>res w'. resolveReviewDecision database_rt ''d1'' Approve ''yes'' None review_world = (Inr res, w') \<and>
     ad_decision (res_decision res) = Approve \<and> res_commitment res \<noteq> None"
  using review_changes_one_decision[OF database_rt_db review_world_ok(1,2), of "''d1''" Approve "''yes''" None]
  by (auto simp: review_world_ok(4) recommits_hour_def split: prod.splits)

end
