(* ===== verification/Ingestion.thy ===== *)
theory Ingestion imports Ingestion_Store Samples begin

section \<open>Evidence enters once\<close>

text \<open>
  The properties of the evidence store: what it accepts is a set of idempotency keys, whichever
  backend holds it, and both backends keep the same event of a request.
\<close>

subsection \<open>A sample request\<close>

definition sample_telemetry :: telemetry_request where
  "sample_telemetry = \<lparr>te_deviceId = ''meter-1'', te_providerWallet = ''0x'' @ replicate 40 CHR ''a'',
     te_zoneId = ''zone-1'', te_idempotencyKey = ''meter-1-0001'', te_observedAt = sample_window_end,
     te_status = GridDown, te_voltage = Some 0, te_currentAmps = Some 5,
     te_signature = replicate 64 CHR ''0''\<rparr>"

definition sample_report :: reporter_request where
  "sample_report = \<lparr>rp_reporterWallet = ''0x'' @ replicate 40 CHR ''b'', rp_zoneId = ''zone-1'',
     rp_idempotencyKey = ''report-00001'', rp_observedAt = sample_window_end, rp_status = GridDown,
     rp_note = None\<rparr>"

lemma sample_datable [simp]: "datable sample_window_end"
  by (simp add: datable_def sample_window_end_date) (simp add: date_range_def sample_now_def)

lemma sample_store_ok [simp]: "store_ok (empty_world sample_now)"
  by (simp add: store_ok_def empty_world_def empty_tables_def)

lemma sample_keys [simp]: "accepted_keys rt (empty_world sample_now) = {}"
  by (simp add: accepted_keys_def empty_world_def empty_tables_def)

subsection \<open>Once per key\<close>

text \<open>C19. Storing evidence refines the insertion into a set of idempotency keys, in both backends: the
  operation never throws on a date it can read, reports a duplicate exactly when the key is in the
  set, leaves the set with the key inserted, answers with the event of that key, and touches no
  decision, score, commitment, event or job.\<close>

theorem ingest_refines_insert:
  assumes "datable (ingest_observedAt item)" "store_ok w"
  shows "\<exists>r w'. ingest rt item w = (Inr r, w') \<and>
    (ir_duplicate r \<longleftrightarrow> ingest_key item \<in> accepted_keys rt w) \<and>
    accepted_keys rt w' = insert (ingest_key item) (accepted_keys rt w) \<and> store_ok w' \<and>
    ev_idempotencyKey (ir_evidenceEvent r) = ingest_key item \<and> same_pipeline_tables w w'"
  by (rule ingest_run[OF assms])

theorem ingest_refines_insert_witness:
  "\<exists>r w'. ingest database_rt (Telemetry sample_telemetry) (empty_world sample_now) = (Inr r, w') \<and>
     \<not> ir_duplicate r \<and> accepted_keys database_rt w' = {''meter-1-0001''}"
proof -
  have "datable (ingest_observedAt (Telemetry sample_telemetry))" by (simp add: sample_telemetry_def)
  from ingest_refines_insert[OF this sample_store_ok, of database_rt]
  show ?thesis by (auto simp: sample_telemetry_def)
qed

text \<open>C20. However often and in whatever order telemetry and reports are offered, every idempotency key
  is accepted exactly once, unless the store knew it before.\<close>

theorem key_accepted_exactly_once:
  assumes "store_ok w" "list_all (\<lambda>item. datable (ingest_observedAt item)) items"
  shows "accepted ingest_key k (offer_all (ingest_step rt) w items) =
    (if k \<in> accepted_keys rt w \<or> k \<notin> ingest_key ` set items then 0 else 1)"
  by (rule evidence.accepted_exactly[OF assms])

theorem key_accepted_exactly_once_witness:
  "accepted ingest_key ''meter-1-0001'' (offer_all (ingest_step memory_rt) (empty_world sample_now)
     [Telemetry sample_telemetry, Report sample_report, Telemetry sample_telemetry]) = 1"
proof -
  have "list_all (\<lambda>item. datable (ingest_observedAt item))
      [Telemetry sample_telemetry, Report sample_report, Telemetry sample_telemetry]"
    by (simp add: sample_telemetry_def sample_report_def)
  from key_accepted_exactly_once[OF sample_store_ok this, of _ memory_rt]
  show ?thesis by (simp add: sample_telemetry_def)
qed

subsection \<open>The two backends\<close>

lemma telemetry_current_back:
  "opt_all (\<lambda>v. 0 \<le> v) (te_currentAmps r) \<Longrightarrow> currentAmpsFromRawPayload (telemetry_payload r) = te_currentAmps r"
  by (cases "te_currentAmps r") (simp_all add: currentAmpsFromRawPayload_def telemetry_payload_def json_field_def)

text \<open>C27. The two backends keep the same event: for a telemetry request with a new key, the event read
  back from the database row is the event the memory store keeps, up to the identifiers drawn and
  to the notation of the observation instant; in particular the current survives its detour
  through the raw payload, for which the table has no column.\<close>

theorem backends_keep_same_event:
  assumes "isDatabaseConfigured rtd" "\<not> isDatabaseConfigured rtm" "store_ok w"
    and "date_parse (te_observedAt r) = Some t" "datable (te_observedAt r)"
    and "telemetryIngestRequestSchema F r"
    and "te_idempotencyKey r \<notin> accepted_keys rtd w" "te_idempotencyKey r \<notin> accepted_keys rtm w"
  shows "\<exists>d wd m wm. upsertTelemetryEvidence rtd r w = (Inr d, wd) \<and>
    upsertTelemetryEvidence rtm r w = (Inr m, wm) \<and> \<not> ir_duplicate d \<and> \<not> ir_duplicate m \<and>
    ir_evidenceEvent d = (ir_evidenceEvent m)\<lparr>ev_id := ev_id (ir_evidenceEvent d),
      ev_providerId := ev_providerId (ir_evidenceEvent d), ev_observedAt := to_iso t\<rparr>"
proof -
  have "store_ok w" "datable (di_observedAt (telemetry_input r))"
    using assms(3,5) by (simp_all add: telemetry_input_def)
  from upsert_database_run[OF this(2,1), of rtd]
  obtain d wd where d: "upsertDatabaseEvidence rtd (telemetry_input r) w = (Inr d, wd)"
    "ir_duplicate d \<longleftrightarrow> di_idempotencyKey (telemetry_input r) \<in> er_idempotency_key ` set (t_evidence_events (db w))"
    "\<not> ir_duplicate d \<longrightarrow> (\<exists>uuid pid t. date_parse (di_observedAt (telemetry_input r)) = Some t \<and>
      ir_evidenceEvent d = mapEvidenceRow (evidence_row_of (telemetry_input r) uuid pid t (w_now w)))"
    by (elim exE conjE) (rule that; assumption)
  have keys: "\<forall>k e. jm_get (evidenceByIdempotencyKey w) k = Some e \<longrightarrow> ev_idempotencyKey e = k"
    using assms(3) by (simp add: store_ok_def)
  have build: "\<And>a b c. date_parse (ev_observedAt (telemetry_event r a b c)) \<noteq> None"
    "\<And>a b c. ev_idempotencyKey (telemetry_event r a b c) = te_idempotencyKey r"
    using assms(4) by (simp_all add: telemetry_event_def)
  from upsert_memory_run[where build = "telemetry_event r" and rt = rtm, OF build(1) build(2) keys]
  obtain m wm where m: "upsert_memory_evidence rtm (te_idempotencyKey r) (telemetry_event r) w = (Inr m, wm)"
    "ir_duplicate m \<longleftrightarrow> jm_has (evidenceByIdempotencyKey w) (te_idempotencyKey r)"
    "\<not> ir_duplicate m \<longrightarrow> (\<exists>a b. ir_evidenceEvent m = telemetry_event r a b (to_iso (w_now w)))"
    by (elim exE conjE) (rule that; assumption)
  have "\<not> ir_duplicate d" "\<not> ir_duplicate m"
    using d(2) m(2) assms(1,2,7,8) by (auto simp: accepted_keys_def telemetry_input_def)
  moreover have "currentAmpsFromRawPayload (telemetry_payload r) = te_currentAmps r"
    using assms(6) by (intro telemetry_current_back) (simp add: telemetryIngestRequestSchema_def)
  ultimately show ?thesis using assms(1,2,4) d(1,3) m(1,3)
    by (auto simp: upsertTelemetryEvidence_def mapEvidenceRow_def evidence_row_of_def telemetry_input_def
        telemetry_event_def)
qed

definition lax_formats :: zod_formats where
  "lax_formats = \<lparr>fmt_uuid = (\<lambda>s. True), fmt_datetime = (\<lambda>s. True), fmt_url = (\<lambda>s. True)\<rparr>"

lemma sample_telemetry_schema [simp]: "telemetryIngestRequestSchema lax_formats sample_telemetry"
  by (simp add: telemetryIngestRequestSchema_def sample_telemetry_def lax_formats_def walletAddressSchema_def
      uuidSchema_def) code_simp

theorem backends_keep_same_event_witness:
  "\<exists>d wd m wm. upsertTelemetryEvidence database_rt sample_telemetry (empty_world sample_now) = (Inr d, wd) \<and>
     upsertTelemetryEvidence memory_rt sample_telemetry (empty_world sample_now) = (Inr m, wm) \<and>
     ev_currentAmps (ir_evidenceEvent d) = ev_currentAmps (ir_evidenceEvent m)"
proof -
  have "date_parse (te_observedAt sample_telemetry) = Some sample_now" "datable (te_observedAt sample_telemetry)"
    by (simp_all add: sample_telemetry_def sample_window_end_date)
  from backends_keep_same_event[OF database_rt_db memory_rt_db sample_store_ok this sample_telemetry_schema]
  obtain d wd m wm where h: "upsertTelemetryEvidence database_rt sample_telemetry (empty_world sample_now) = (Inr d, wd)"
    "upsertTelemetryEvidence memory_rt sample_telemetry (empty_world sample_now) = (Inr m, wm)"
    "ir_evidenceEvent d = (ir_evidenceEvent m)\<lparr>ev_id := ev_id (ir_evidenceEvent d),
      ev_providerId := ev_providerId (ir_evidenceEvent d), ev_observedAt := to_iso sample_now\<rparr>"
    by (metis sample_keys empty_iff)
  have "ev_currentAmps (ir_evidenceEvent d) = ev_currentAmps (ir_evidenceEvent m)"
    using arg_cong[OF h(3), of ev_currentAmps] by simp
  with h(1,2) show ?thesis by blast
qed

end
