(* ===== verification/Settlement.thy ===== *)
theory Settlement imports Chain Samples begin

section \<open>Settlement on the chain\<close>

text \<open>
  The properties of the two chain sweeps: what they may touch, what a refused submission leaves
  behind, that the backlog drains when the contract accepts, and what a receipt turns a
  commitment into.
\<close>

subsection \<open>A sample chain\<close>

definition sample_bytes32 :: string where "sample_bytes32 = ''0x'' @ replicate 64 CHR ''a''"

definition sample_chain :: "(commit_epoch_input \<Rightarrow> string res) \<Rightarrow> chain_client" where
  "sample_chain commit = \<lparr>ch_formats = \<lparr>fmt_uuid = (\<lambda>s. True), fmt_datetime = (\<lambda>s. True), fmt_url = (\<lambda>s. True)\<rparr>,
     ch_zod_error = plain_error, ch_commitEpoch = commit, ch_isCommitted = (\<lambda>z e. Inr False),
     ch_receipt = (\<lambda>h. Inr (Some \<lparr>rc_hash = h, rc_blockNumber = 7, rc_status = Some 1\<rparr>)),
     ch_getProvider = (\<lambda>a. Inl (plain_error ''unknown'')), ch_encode = (\<lambda>f z t. f)\<rparr>"

definition sample_epoch :: epoch_row where
  "sample_epoch = \<lparr>ep_id = ''epoch-1'', ep_zone_id = ''zone-1'', ep_epoch_start = 0, ep_uptime_bps = 5000,
     ep_evidence_hash = sample_bytes32, ep_created_at = 0\<rparr>"

definition sample_zone :: zone_row where
  "sample_zone = \<lparr>zr_id = ''zone-1'', zr_zone_key = sample_bytes32, zr_name = ''Zone'',
     zr_discos_feeder_code = ''F-1'', zr_region = ''Lagos'', zr_lat = 6, zr_lng = 3, zr_created_at = 0\<rparr>"

definition sample_commitment :: "string option \<Rightarrow> commitment_row" where
  "sample_commitment hash = \<lparr>cm_id = ''commitment-1'', cm_epoch_score_id = ''epoch-1'', cm_tx_hash = hash,
     cm_block_number = None, cm_status = Pending, cm_explorer_url = None, cm_created_at = 0, cm_confirmed_at = None\<rparr>"

definition chain_world :: "string option \<Rightarrow> world" where
  "chain_world hash = empty_world sample_now\<lparr>db := empty_tables\<lparr>t_chain_commitments := [sample_commitment hash],
     t_epoch_scores := [sample_epoch], t_zones := [sample_zone]\<rparr>\<rparr>"

lemma chain_world_sel [simp]:
  "db (chain_world hash) = empty_tables\<lparr>t_chain_commitments := [sample_commitment hash],
     t_epoch_scores := [sample_epoch], t_zones := [sample_zone]\<rparr>"
  "w_now (chain_world hash) = sample_now" "w_events (chain_world hash) = []"
  by (simp_all add: chain_world_def empty_world_def)

lemma chain_world_keys [simp]: "chain_keys (db (chain_world hash))"
  by (simp add: chain_keys_def)

lemma chain_world_join [simp]:
  "join_of (db (chain_world hash)) (sample_commitment h) = Some (sample_commitment h, sample_epoch, sample_zone)"
  "commitment_join (db (chain_world hash)) = [(sample_commitment hash, sample_epoch, sample_zone)]"
  by (simp_all add: join_of_def sql_find_def commitment_join_def sample_commitment_def sample_epoch_def sample_zone_def)

definition sample_pending :: pending_commitment_row where
  "sample_pending = \<lparr>pc_commitment_id = ''commitment-1'', pc_zone_key = sample_bytes32, pc_epoch_start = 0,
     pc_uptime_bps = 5000, pc_evidence_hash = sample_bytes32\<rparr>"

lemma chain_world_pending: "pending_to_submit 5 (chain_world None) = [sample_pending]"
  unfolding pending_to_submit_def chain_world_join
  by (simp add: submittable_def oldest_def pending_row_def sample_pending_def sample_commitment_def sample_epoch_def
      sample_zone_def sample_now_def)

lemma sample_bytes32_ok [simp]: "bytes32Schema sample_bytes32"
  by code_simp

lemma sample_commit: "commitEpoch (sample_chain commit) (commitInputFromPending sample_pending) =
    commit \<lparr>ci_zoneId = sample_bytes32, ci_epochStart = 0, ci_uptimeBps = 5000, ci_evidenceHash = sample_bytes32\<rparr>"
  by (simp add: commitEpoch_def zod_check_def commitInputFromPending_def sample_pending_def sample_chain_def)

subsection \<open>Submission\<close>

text \<open>What a submission may make of a commitment: it was pending without a transaction hash, its epoch
  is over, and it now carries the hash that the contract answered for exactly this epoch's zone
  key, start in seconds, uptime and evidence hash, or is marked failed because the call threw.\<close>

definition submitted_as :: "chain_client \<Rightarrow> world \<Rightarrow> commitment_row \<Rightarrow> commitment_row \<Rightarrow> bool" where
  "submitted_as ch w c c' \<longleftrightarrow> cm_status c = Pending \<and> cm_tx_hash c = None \<and>
     (\<exists>es \<in> set (t_epoch_scores (db w)). \<exists>z \<in> set (t_zones (db w)).
        ep_id es = cm_epoch_score_id c \<and> zr_id z = ep_zone_id es \<and> ep_epoch_start es + 3600000 \<le> w_now w \<and>
        (case commitEpoch ch \<lparr>ci_zoneId = zr_zone_key z, ci_epochStart = ep_epoch_start es div 1000,
              ci_uptimeBps = ep_uptime_bps es, ci_evidenceHash = ep_evidence_hash es\<rparr> of
           Inr hash \<Rightarrow> c' = c\<lparr>cm_tx_hash := Some hash\<rparr>
         | Inl e \<Rightarrow> c' = c\<lparr>cm_status := Failed\<rparr>))"

lemma join_of_SomeD:
  assumes "join_of t c = Some x"
  obtains es z where "x = (c, es, z)" "es \<in> set (t_epoch_scores t)" "z \<in> set (t_zones t)"
    "ep_id es = cm_epoch_score_id c" "zr_id z = ep_zone_id es"
  using assms by (auto simp: join_of_def dest!: sql_find_Some split: option.splits)

lemma pending_row_input:
  "commitInputFromPending (pending_row (c, es, z)) = \<lparr>ci_zoneId = zr_zone_key z,
     ci_epochStart = ep_epoch_start es div 1000, ci_uptimeBps = ep_uptime_bps es, ci_evidenceHash = ep_evidence_hash es\<rparr>"
  by (simp add: commitInputFromPending_def pending_row_def)

lemma sweep_submitted_as:
  assumes "chain_keys (db w)" "c \<in> set (t_chain_commitments (db w))"
  shows "submit_mark ch (pending_to_submit n w) c = c \<or> submitted_as ch w c (submit_mark ch (pending_to_submit n w) c)"
  using sweep_commitment[OF assms, of ch n]
proof
  let ?c' = "submit_mark ch (pending_to_submit n w) c"
  assume "\<exists>x. join_of (db w) c = Some x \<and> submittable (w_now w) x \<and> pending_row x \<in> set (pending_to_submit n w) \<and>
      (?c' = c\<lparr>cm_status := Failed\<rparr> \<and> \<not> accepted_by ch (pending_row x) \<or>
       (\<exists>h. commitEpoch ch (commitInputFromPending (pending_row x)) = Inr h \<and>
         ?c' = c\<lparr>cm_tx_hash := Some h, cm_status := Pending\<rparr>))"
  then obtain x where x: "join_of (db w) c = Some x" "submittable (w_now w) x"
    and c': "?c' = c\<lparr>cm_status := Failed\<rparr> \<and> \<not> accepted_by ch (pending_row x) \<or>
       (\<exists>h. commitEpoch ch (commitInputFromPending (pending_row x)) = Inr h \<and>
         ?c' = c\<lparr>cm_tx_hash := Some h, cm_status := Pending\<rparr>)" by blast
  obtain es z where es: "x = (c, es, z)" "es \<in> set (t_epoch_scores (db w))" "z \<in> set (t_zones (db w))"
    "ep_id es = cm_epoch_score_id c" "zr_id z = ep_zone_id es" using x(1) by (rule join_of_SomeD)
  have c: "cm_status c = Pending" "cm_tx_hash c = None" "ep_epoch_start es + 3600000 \<le> w_now w"
    using x(2) es(1) by (simp_all add: submittable_def)
  have "case commitEpoch ch (commitInputFromPending (pending_row x)) of
      Inr hash \<Rightarrow> ?c' = c\<lparr>cm_tx_hash := Some hash\<rparr> | Inl e \<Rightarrow> ?c' = c\<lparr>cm_status := Failed\<rparr>"
    using c' c(1) by (auto simp: accepted_by_def split: sum.split)
  then show ?thesis using c es unfolding submitted_as_def es(1) pending_row_input by blast
qed simp

text \<open>C9. A submission sweep touches only commitments that wait for submission and whose epoch is over:
  every row it changes is changed as \<open>submitted_as\<close> says, no row appears or disappears, the clock
  and the other tables of the join stay, and on success the submission counter grows by the number
  of hashes reported, at most the limit of the sweep.\<close>

theorem submission_touches_closed_epochs:
  assumes "chain_keys (db w)" "submitPendingCommitmentsWithClient rt ch n w = (r, w')"
  shows "list_all2 (\<lambda>c c'. c' = c \<or> submitted_as ch w c c')
      (t_chain_commitments (db w)) (t_chain_commitments (db w')) \<and>
    t_epoch_scores (db w') = t_epoch_scores (db w) \<and> t_zones (db w') = t_zones (db w) \<and>
    (\<forall>res. r = Inr res \<longrightarrow> sp_submitted res = length (sp_txHashes res) \<and> sp_submitted res \<le> n \<and>
      chainSubmissions (w_counters w') = chainSubmissions (w_counters w) + sp_submitted res)"
proof (rule sweep_tables[of rt ch n w])
  let ?rows = "pending_to_submit n w"
  fix r0 w0
  assume run: "submitPendingCommitmentsWithClient rt ch n w = (r0, w0)"
    and cs: "t_chain_commitments (db w0) = map (submit_mark ch ?rows) (t_chain_commitments (db w))"
    and same: "t_epoch_scores (db w0) = t_epoch_scores (db w)" "t_zones (db w0) = t_zones (db w)"
    and count: "chainSubmissions (w_counters w0) = chainSubmissions (w_counters w) +
       length (takeWhile (accepted_by ch) ?rows)"
    and r0: "r0 = (case submit_outcome ch ?rows of Inl e \<Rightarrow> Inl e
      | Inr hs \<Rightarrow> Inr \<lparr>sp_scanned = length ?rows, sp_submitted = length hs,
          sp_skipped = length ?rows - length hs, sp_reason = None, sp_txHashes = hs\<rparr>)"
  have w': "r = r0" "w' = w0" using assms(2) run by simp_all
  have "list_all2 (\<lambda>c c'. c' = c \<or> submitted_as ch w c c') (t_chain_commitments (db w)) (t_chain_commitments (db w0))"
    unfolding cs list_all2_map2 list_all2_same using sweep_submitted_as[OF assms(1)] by blast
  moreover have "sp_submitted res = length (sp_txHashes res) \<and> sp_submitted res \<le> n \<and>
      chainSubmissions (w_counters w0) = chainSubmissions (w_counters w) + sp_submitted res" if "r0 = Inr res" for res
  proof -
    note res = that
    obtain hs where hs: "submit_outcome ch ?rows = Inr hs" "sp_submitted res = length hs" "sp_txHashes res = hs"
      using r0 res by (cases "submit_outcome ch ?rows") auto
    have "takeWhile (accepted_by ch) ?rows = ?rows" "length hs = length ?rows" "length ?rows \<le> n"
      using submit_outcome_length[OF hs(1)] pending_ids(2)[OF assms(1), of n] by simp_all
    then show ?thesis using count hs(2,3) by (simp only:)
  qed
  ultimately show ?thesis using same w' by blast
qed

theorem submission_touches_closed_epochs_witness:
  "\<exists>c'. t_chain_commitments (db (snd (submitPendingCommitmentsWithClient database_rt
       (sample_chain (\<lambda>i. Inr ''0xhash'')) 5 (chain_world None)))) = [c'] \<and>
     (c' = sample_commitment None \<or> submitted_as (sample_chain (\<lambda>i. Inr ''0xhash'')) (chain_world None)
       (sample_commitment None) c')"
  using submission_touches_closed_epochs[OF chain_world_keys[of None] surjective_pairing,
      where rt = database_rt and ch = "sample_chain (\<lambda>i. Inr ''0xhash'')" and n = 5]
  by (auto simp: list_all2_Cons1)

text \<open>C21. A refused submission stops the sweep and is accounted for: when the contract accepts the rows
  before and refuses one, the sweep throws the contract's error, the refused commitment is marked
  failed, the accepted ones keep their hashes and are counted, and every other commitment, also the
  later rows of the sweep, is left as it was.\<close>

theorem refused_submission_stops:
  assumes "chain_keys (db w)" "pending_to_submit n w = good @ bad # later"
    and "\<forall>row \<in> set good. commitEpoch ch (commitInputFromPending row) = Inr (hash row)"
    and "commitEpoch ch (commitInputFromPending bad) = Inl e"
  shows "\<exists>w'. submitPendingCommitmentsWithClient rt ch n w = (Inl e, w') \<and>
    chainSubmissions (w_counters w') = chainSubmissions (w_counters w) + length good \<and>
    t_chain_commitments (db w') = map (\<lambda>c.
      if cm_id c = pc_commitment_id bad then c\<lparr>cm_status := Failed\<rparr>
      else case sql_find pc_commitment_id good (cm_id c) of
        Some row \<Rightarrow> c\<lparr>cm_tx_hash := Some (hash row), cm_status := Pending\<rparr>
      | None \<Rightarrow> c) (t_chain_commitments (db w))"
proof (rule sweep_tables[of rt ch n w])
  let ?rows = "pending_to_submit n w"
  fix r0 w0
  assume run: "submitPendingCommitmentsWithClient rt ch n w = (r0, w0)"
    and cs: "t_chain_commitments (db w0) = map (submit_mark ch ?rows) (t_chain_commitments (db w))"
    and count: "chainSubmissions (w_counters w0) = chainSubmissions (w_counters w) +
       length (takeWhile (accepted_by ch) ?rows)"
    and r0: "r0 = (case submit_outcome ch ?rows of Inl e \<Rightarrow> Inl e
      | Inr hs \<Rightarrow> Inr \<lparr>sp_scanned = length ?rows, sp_submitted = length hs,
          sp_skipped = length ?rows - length hs, sp_reason = None, sp_txHashes = hs\<rparr>)"
  have acc: "\<forall>row \<in> set good. accepted_by ch row" using assms(3) by (auto simp: accepted_by_def)
  have "r0 = Inl e" using r0 assms(2,4) submit_outcome_accepted[OF acc] by simp
  moreover have "takeWhile (accepted_by ch) ?rows = good"
    using acc assms(2,4) by (simp add: takeWhile_append2 accepted_by_def)
  moreover have "submit_mark ch ?rows c = (if cm_id c = pc_commitment_id bad then c\<lparr>cm_status := Failed\<rparr>
      else case sql_find pc_commitment_id good (cm_id c) of
        Some row \<Rightarrow> c\<lparr>cm_tx_hash := Some (hash row), cm_status := Pending\<rparr> | None \<Rightarrow> c)" for c
  proof -
    have d: "distinct (map pc_commitment_id good)" "pc_commitment_id bad \<notin> pc_commitment_id ` set good"
      using pending_ids(1)[OF assms(1), of n] assms(2) by auto
    have good: "submit_mark ch good c = (case sql_find pc_commitment_id good (cm_id c) of
        Some row \<Rightarrow> c\<lparr>cm_tx_hash := Some (hash row), cm_status := Pending\<rparr> | None \<Rightarrow> c)"
    proof (cases "sql_find pc_commitment_id good (cm_id c)")
      case None
      then show ?thesis using submit_mark_other[of c good ch] sql_find_None[of pc_commitment_id good "cm_id c"] by simp
    next
      case (Some row)
      then have "row \<in> set good" "cm_id c = pc_commitment_id row" by (auto dest: sql_find_Some)
      with Some submit_mark_accepted[OF acc d(1), of row c] assms(3) show ?thesis by simp
    qed
    have "submit_mark ch ?rows c = (if cm_id c = pc_commitment_id bad then (submit_mark ch good c)\<lparr>cm_status := Failed\<rparr>
        else submit_mark ch good c)"
      using assms(2,4) by (simp add: submit_mark_append[OF acc])
    moreover have "submit_mark ch good c = c" if "cm_id c = pc_commitment_id bad"
      using that d(2) by (intro submit_mark_other) simp
    ultimately show ?thesis using good by simp
  qed
  ultimately show ?thesis using run cs count by auto
qed

theorem refused_submission_stops_witness:
  "\<exists>w'. submitPendingCommitmentsWithClient database_rt (sample_chain (\<lambda>i. Inl (plain_error ''reverted''))) 5
      (chain_world None) = (Inl (plain_error ''reverted''), w') \<and>
    t_chain_commitments (db w') = [(sample_commitment None)\<lparr>cm_status := Failed\<rparr>]"
proof -
  have "pending_to_submit 5 (chain_world None) = [] @ sample_pending # []" by (simp add: chain_world_pending)
  moreover have "commitEpoch (sample_chain (\<lambda>i. Inl (plain_error ''reverted''))) (commitInputFromPending sample_pending) =
      Inl (plain_error ''reverted'')" by (simp add: sample_commit)
  moreover have "\<forall>row \<in> set []. commitEpoch (sample_chain (\<lambda>i. Inl (plain_error ''reverted'')))
      (commitInputFromPending row) = Inr ((\<lambda>r :: pending_commitment_row. []) row)" by simp
  ultimately show ?thesis
    using refused_submission_stops[OF chain_world_keys, of 5 None "[]" sample_pending "[]" _ "\<lambda>r. []" _ database_rt]
    by (auto simp: sample_pending_def sample_commitment_def)
qed

text \<open>C22. The backlog drains: as long as the contract accepts the commitments of closed epochs, no sweep
  throws, each takes the limit off the backlog, and after enough sweeps nothing waits for
  submission.\<close>

theorem backlog_drains:
  assumes "chain_keys (db w)" "chain_accepts ch w" "length (backlog w) \<le> k * n"
  shows "backlog ((submit_sweep rt ch n ^^ k) w) = [] \<and>
    (\<forall>j. \<exists>res. fst (submitPendingCommitmentsWithClient rt ch n ((submit_sweep rt ch n ^^ j) w)) = Inr res \<and>
      sp_submitted res = min n (length (backlog w) - j * n))"
proof (intro conjI allI)
  show "backlog ((submit_sweep rt ch n ^^ k) w) = []"
    using sweeps_backlog[OF assms(1,2), where rt = rt and n = n and k = k] assms(3) by simp
  fix j
  show "\<exists>res. fst (submitPendingCommitmentsWithClient rt ch n ((submit_sweep rt ch n ^^ j) w)) = Inr res \<and>
      sp_submitted res = min n (length (backlog w) - j * n)"
    using sweeps_backlog[OF assms(1,2), where rt = rt and n = n and k = j]
      sweep_backlog(5)[where w = "(submit_sweep rt ch n ^^ j) w" and ch = ch and rt = rt and n = n] by simp
qed

lemma chain_world_accepts: "chain_accepts (sample_chain (\<lambda>i. Inr ''0xhash'')) (chain_world None)"
proof -
  have "pending_row (sample_commitment None, sample_epoch, sample_zone) = sample_pending"
    by (simp add: pending_row_def sample_pending_def sample_commitment_def sample_epoch_def sample_zone_def)
  then have "accepted_by (sample_chain (\<lambda>i. Inr ''0xhash'')) (pending_row (sample_commitment None, sample_epoch, sample_zone))"
    by (simp add: accepted_by_def sample_commit)
  moreover have "t_chain_commitments (db (chain_world None)) = [sample_commitment None]" by simp
  ultimately show ?thesis
    unfolding chain_accepts_def by (metis chain_world_join(1) option.inject set_ConsD list.set(1) empty_iff)
qed

theorem backlog_drains_witness:
  "backlog (submit_sweep database_rt (sample_chain (\<lambda>i. Inr ''0xhash'')) 5 (chain_world None)) = []"
proof -
  have "length (backlog (chain_world None)) \<le> 1 * 5"
    using length_filter_le[of _ "[sample_commitment None]"] by (auto simp: backlog_def intro: le_trans)
  from backlog_drains[OF chain_world_keys chain_world_accepts this, of database_rt]
  show ?thesis by simp
qed

subsection \<open>Confirmation\<close>

text \<open>What a receipt makes of a commitment: it is confirmed when the status of the receipt is 1 and failed for another
  status, takes the receipt's block number and the explorer address of its hash, and only a confirmed one gets a
  confirmation time; its transaction hash stays.\<close>

definition settled_as :: "runtime \<Rightarrow> chain_receipt \<Rightarrow> int \<Rightarrow> int \<Rightarrow> commitment_row \<Rightarrow> commitment_row" where
  "settled_as rt receipt s now c = c\<lparr>cm_status := (if s = 1 then Confirmed else Failed),
     cm_block_number := Some (rc_blockNumber receipt),
     cm_explorer_url := explorerUrlForTx (rc_hash receipt) (rt_env rt ''BOTCHAIN_EXPLORER_BASE_URL''),
     cm_confirmed_at := (if s = 1 then Some now else None)\<rparr>"

text \<open>The receipt that has arrived for a commitment, with its status.\<close>

definition receipt_for :: "chain_client \<Rightarrow> commitment_row \<Rightarrow> (chain_receipt \<times> int) option" where
  "receipt_for ch c = (case cm_tx_hash c of None \<Rightarrow> None | Some hash \<Rightarrow>
     (case getTransactionReceipt ch hash of
        Inr (Some receipt) \<Rightarrow> map_option (Pair receipt) (rc_status receipt) | _ \<Rightarrow> None))"

text \<open>What a sweep of at most \<open>n\<close> rows makes of a commitment.\<close>

definition settlement :: "runtime \<Rightarrow> chain_client \<Rightarrow> world \<Rightarrow> nat \<Rightarrow> commitment_row \<Rightarrow> commitment_row" where
  "settlement rt ch w n c = (if cm_id c \<notin> pc_commitment_id ` set (pending_to_index n w) then c
     else case receipt_for ch c of None \<Rightarrow> c | Some (receipt, s) \<Rightarrow> settled_as rt receipt s (w_now w) c)"

lemma scanned_row:
  assumes "chain_keys (db w)" "row \<in> set (pending_to_index n w)"
  obtains c where "c \<in> set (t_chain_commitments (db w))" "cm_status c = Pending" "cm_tx_hash c = Some (pc_tx_hash row)"
    "pc_commitment_id row = cm_id c"
proof -
  obtain x where x: "row = submitted_row x" "x \<in> set (oldest n (filter indexable (commitment_join (db w))))"
    using assms(2) by (auto simp: pending_to_index_def)
  note ids = oldest_ids(2)[OF assms(1) x(2)]
  then have "fst x \<in> set (t_chain_commitments (db w))" "indexable x" by blast+
  then show thesis using that[of "fst x"] x(1) by (auto simp: indexable_def split: prod.splits)
qed

lemma index_update_receipt:
  assumes "cm_tx_hash c = Some (pc_tx_hash row)"
  shows "(case index_update rt ch now row of None \<Rightarrow> c | Some u \<Rightarrow> apply_update u c) =
    (case receipt_for ch c of None \<Rightarrow> c | Some (receipt, s) \<Rightarrow> settled_as rt receipt s now c)"
  using assms
  by (auto simp: index_update_def confirmationUpdateFromReceipt_def receipt_for_def settled_as_def apply_update_def Let_def
      split: sum.splits option.splits)

lemma index_mark_settlement:
  assumes "chain_keys (db w)" "c \<in> set (t_chain_commitments (db w))"
  shows "index_mark (index_update rt ch (w_now w)) (pending_to_index n w) c = settlement rt ch w n c"
proof (cases "cm_id c \<in> pc_commitment_id ` set (pending_to_index n w)")
  case True
  then obtain row where row: "row \<in> set (pending_to_index n w)" "cm_id c = pc_commitment_id row" by blast
  obtain c' where c': "c' \<in> set (t_chain_commitments (db w))" "cm_tx_hash c' = Some (pc_tx_hash row)" "pc_commitment_id row = cm_id c'"
    using scanned_row[OF assms(1) row(1)] by blast
  have "c' = c" using assms c' row(2) by (auto simp: chain_keys_def distinct_map dest: inj_onD)
  have "distinct (map pc_commitment_id (pending_to_index n w))"
    using oldest_ids(1)[OF assms(1)] by (simp add: pending_to_index_def comp_def)
  from index_mark_row[OF this row] index_update_receipt[of c row rt ch "w_now w"] c' \<open>c' = c\<close> True show ?thesis
    by (simp add: settlement_def)
qed (simp add: index_mark_other settlement_def)

text \<open>The rows of a sweep with an outcome are the pending commitments that it brings to that outcome.\<close>

lemma with_status_count:
  assumes "chain_keys (db w)" "s \<noteq> Pending"
  shows "with_status (index_update rt ch (w_now w)) s (pending_to_index n w) =
    length (filter (\<lambda>c. cm_status c = Pending \<and> cm_status (settlement rt ch w n c) = s) (t_chain_commitments (db w)))"
proof -
  let ?rows = "pending_to_index n w" and ?cs = "t_chain_commitments (db w)" and ?upd = "index_update rt ch (w_now w)"
  let ?R = "filter (\<lambda>row. opt_any (\<lambda>u. cu_status u = s) (?upd row)) ?rows"
  let ?C = "filter (\<lambda>c. cm_status c = Pending \<and> cm_status (settlement rt ch w n c) = s) ?cs"
  have d: "distinct (map pc_commitment_id ?rows)"
    using oldest_ids(1)[OF assms(1)] by (simp add: pending_to_index_def comp_def)
  then have R: "distinct (map pc_commitment_id ?R)" by (rule distinct_map_filter)
  have C: "distinct (map cm_id ?C)" using assms(1) by (simp add: chain_keys_def distinct_map_filter)
  have same: "set (map pc_commitment_id ?R) = set (map cm_id ?C)"
  proof (intro set_eqI iffI)
    fix k assume "k \<in> set (map pc_commitment_id ?R)"
    then obtain row u where row: "row \<in> set ?rows" "?upd row = Some u" "cu_status u = s" "k = pc_commitment_id row"
      by (auto simp: opt_any_iff)
    obtain c where c: "c \<in> set ?cs" "cm_status c = Pending" "pc_commitment_id row = cm_id c"
      using scanned_row[OF assms(1) row(1)] by blast
    have "settlement rt ch w n c = apply_update u c"
      using index_mark_settlement[OF assms(1) c(1), of rt ch n] index_mark_row[OF d row(1), of c ?upd] c(3) row(2) by simp
    then have "c \<in> set ?C" using c row(3) by (simp add: apply_update_def)
    then show "k \<in> set (map cm_id ?C)" unfolding row(4) c(3) set_map by (rule imageI)
  next
    fix k assume "k \<in> set (map cm_id ?C)"
    then obtain c where c: "c \<in> set ?cs" "cm_status c = Pending" "cm_status (settlement rt ch w n c) = s" "k = cm_id c" by auto
    then have "cm_id c \<in> pc_commitment_id ` set ?rows" using assms(2) by (auto simp: settlement_def split: if_splits)
    then obtain row where row: "row \<in> set ?rows" "cm_id c = pc_commitment_id row" by blast
    have "settlement rt ch w n c = (case ?upd row of None \<Rightarrow> c | Some u \<Rightarrow> apply_update u c)"
      using index_mark_settlement[OF assms(1) c(1), of rt ch n] index_mark_row[OF d row, of ?upd] by simp
    with c(2,3) assms(2) obtain u where "?upd row = Some u" "cu_status u = s"
      by (cases "?upd row") (simp_all add: apply_update_def)
    then have "row \<in> set ?R" using row(1) by (simp add: opt_any_def)
    then show "k \<in> set (map pc_commitment_id ?R)" unfolding c(4) row(2) set_map by (rule imageI)
  qed
  have "length (map pc_commitment_id ?R) = length (map cm_id ?C)"
    unfolding distinct_card[OF R, symmetric] distinct_card[OF C, symmetric] same ..
  then show ?thesis by (simp add: with_status_def)
qed

text \<open>C6. An index sweep settles every receipt: when the provider answers for each scanned hash, the sweep scans the oldest
  pending commitments with a transaction up to its limit; each of them whose receipt with a status arrived is confirmed
  or failed as the receipt says, with its block number and explorer address, and every other row stays as it is. The
  confirmed and the failed count are the numbers of the commitments so changed, the rest of the scanned is still
  pending, one event is emitted for each change, and the counters and the scores stay.\<close>

theorem indexing_settles_receipts:
  assumes "chain_keys (db w)" "answered ch (pending_to_index n w)"
  shows "\<exists>res w'. indexPendingConfirmationsWithClient rt ch n w = (Inr res, w') \<and>
    t_chain_commitments (db w') = map (settlement rt ch w n) (t_chain_commitments (db w)) \<and>
    ix_scanned res = min n (length (filter indexable (commitment_join (db w)))) \<and>
    ix_confirmed res = length (filter (\<lambda>c. cm_status c = Pending \<and> cm_status (settlement rt ch w n c) = Confirmed)
      (t_chain_commitments (db w))) \<and>
    ix_failed res = length (filter (\<lambda>c. cm_status c = Pending \<and> cm_status (settlement rt ch w n c) = Failed)
      (t_chain_commitments (db w))) \<and>
    ix_scanned res = ix_confirmed res + ix_failed res + ix_stillPending res \<and>
    length (w_events w') = length (w_events w) + ix_confirmed res + ix_failed res \<and>
    w_counters w' = w_counters w \<and> t_epoch_scores (db w') = t_epoch_scores (db w)"
proof -
  let ?rows = "pending_to_index n w" and ?upd = "index_update rt ch (w_now w)"
  let ?r0 = "\<lparr>ix_scanned = length ?rows, ix_confirmed = 0, ix_failed = 0, ix_stillPending = 0,
    ix_reason = None, ix_txHashes = []\<rparr>"
  obtain res w' where run: "index_rows rt ch ?rows ?r0 w = (Inr res, w')"
    and w': "t_chain_commitments (db w') = map (index_mark ?upd ?rows) (t_chain_commitments (db w))"
      "t_epoch_scores (db w') = t_epoch_scores (db w)" "w_counters w' = w_counters w"
      "w_events w' = w_events w @ List.map_filter (\<lambda>row. map_option (update_event row) (?upd row)) ?rows"
    and res: "ix_confirmed res = ix_confirmed ?r0 + with_status ?upd Confirmed ?rows"
      "ix_failed res = ix_failed ?r0 + with_status ?upd Failed ?rows"
      "ix_stillPending res = ix_stillPending ?r0 + length (filter (\<lambda>row. ?upd row = None) ?rows)"
      "ix_scanned res = ix_scanned ?r0"
    using index_rows_run[OF assms(2), of rt ?r0 w] by (elim exE conjE) (rule that; assumption)
  have "length rows = with_status ?upd Confirmed rows + with_status ?upd Failed rows +
      length (filter (\<lambda>row. ?upd row = None) rows) \<and>
    length (List.map_filter (\<lambda>row. map_option (update_event row) (?upd row)) rows) =
      with_status ?upd Confirmed rows + with_status ?upd Failed rows" for rows
    by (induction rows) (auto simp: with_status_def List.map_filter_def opt_any_def dest: index_update_status
        split: option.split)
  from this[of ?rows] have counts: "ix_scanned res = ix_confirmed res + ix_failed res + ix_stillPending res"
    "length (w_events w') = length (w_events w) + ix_confirmed res + ix_failed res"
    using res w'(4) by simp_all
  have "t_chain_commitments (db w') = map (settlement rt ch w n) (t_chain_commitments (db w))"
    unfolding w'(1) using index_mark_settlement[OF assms(1)] by simp
  moreover have "indexPendingConfirmationsWithClient rt ch n w = (Inr res, w')"
    using run by (simp add: indexPendingConfirmationsWithClient_def)
  moreover have "ix_scanned res = min n (length (filter indexable (commitment_join (db w))))"
    using res(4) by (simp add: pending_to_index_def oldest_def)
  ultimately show ?thesis
    using counts w'(2,3) res(1,2) by (simp add: with_status_count[OF assms(1)])
qed

theorem indexing_settles_receipts_witness:
  "\<exists>res w'. indexPendingConfirmationsWithClient database_rt (sample_chain (\<lambda>i. Inr [])) 10
      (chain_world (Some ''0xhash'')) = (Inr res, w') \<and> ix_confirmed res = 1 \<and>
    map cm_status (t_chain_commitments (db w')) = [Confirmed]"
proof -
  let ?ch = "sample_chain (\<lambda>i. Inr [])" and ?w = "chain_world (Some ''0xhash'')"
  have answered: "answered ?ch (pending_to_index 10 ?w)" by (simp add: answered_def getTransactionReceipt_def sample_chain_def)
  obtain res w' where run: "indexPendingConfirmationsWithClient database_rt ?ch 10 ?w = (Inr res, w')"
    and rows: "t_chain_commitments (db w') = map (settlement database_rt ?ch ?w 10) (t_chain_commitments (db ?w))"
    and confirmed: "ix_confirmed res = length (filter (\<lambda>c. cm_status c = Pending \<and>
      cm_status (settlement database_rt ?ch ?w 10 c) = Confirmed) (t_chain_commitments (db ?w)))"
    using indexing_settles_receipts[OF chain_world_keys answered, of database_rt] by (elim exE conjE) (rule that; assumption)
  have "getTransactionReceipt ?ch h = Inr (Some \<lparr>rc_hash = h, rc_blockNumber = 7, rc_status = Some 1\<rparr>)" for h
    by (simp add: getTransactionReceipt_def sample_chain_def)
  moreover have "''commitment-1'' \<in> pc_commitment_id ` set (pending_to_index 10 ?w)"
    unfolding pending_to_index_def chain_world_join
    by (simp add: indexable_def oldest_def submitted_row_def sample_commitment_def)
  ultimately have "cm_status (settlement database_rt ?ch ?w 10 (sample_commitment (Some ''0xhash''))) = Confirmed"
    by (simp add: settlement_def receipt_for_def settled_as_def sample_commitment_def)
  moreover have "cm_status (sample_commitment (Some ''0xhash'')) = Pending" by (simp add: sample_commitment_def)
  ultimately have "ix_confirmed res = 1" "map cm_status (t_chain_commitments (db w')) = [Confirmed]"
    using rows confirmed by simp_all
  with run show ?thesis by (intro exI conjI)
qed

end
