(* ===== verification/Access.thy ===== *)
theory Access imports Auth Samples begin

section \<open>Sessions, guards and roles\<close>

text \<open>
  The properties of authentication: a session token verifies back into its user until it expires, a
  guard only admits correctly signed tokens of a sufficient role, and registration never grants a
  role above reporter without the invite code.
\<close>

subsection \<open>Sessions\<close>

text \<open>The codec on the values of one session: what the parts encode is read back, and a dot never
  occurs in a part.\<close>

definition session_codec :: "jwt_codec \<Rightarrow> string \<Rightarrow> json \<Rightarrow> bool" where
  "session_codec jc secret payload \<longleftrightarrow>
     (\<forall>j \<in> {JWT_HEADER, payload}. jc_decode jc (jc_encode jc j) = Inr j \<and> jc_encode jc j \<noteq> [] \<and>
        CHR ''.'' \<notin> set (jc_encode jc j)) \<and>
     (\<forall>s. jc_sign jc secret s \<noteq> [] \<and> CHR ''.'' \<notin> set (jc_sign jc secret s))"

lemma session_claims:
  "map_of (payload_fields (session_payload u now expiry)) ''sub'' = Some (JStr (us_id u))"
  "map_of (payload_fields (session_payload u now expiry)) ''iat'' = Some (JNum (of_int now))"
  "map_of (payload_fields (session_payload u now expiry)) ''nbf'' = None"
  "json_prop (session_payload u now expiry) ''exp'' = Inr (Some (JNum (of_int expiry)))"
  "roleFromPayload (session_payload u now expiry) = us_role u"
  "us_phoneOrEmail u \<noteq> [] \<Longrightarrow>
    or_else (stringClaim (map_of (payload_fields (session_payload u now expiry)) ''email''))
      (or_else (stringClaim (map_of (payload_fields (session_payload u now expiry)) ''phone'')) sub) = us_phoneOrEmail u"
proof -
  show "roleFromPayload (session_payload u now expiry) = us_role u"
    by (cases "us_role u") (simp_all add: roleFromPayload_def session_payload_def payload_fields_def roleFromMetadata_def
        stringClaim_def parse_role_def)
qed (simp_all add: session_payload_def payload_fields_def json_prop_def stringClaim_def)

lemma iso_of_whole_seconds:
  assumes "0 \<le> s" "s * 1000 \<le> 8640000000000000"
  shows "iso_of_seconds (of_int s) = Inr (to_iso (s * 1000))"
proof -
  have "fl (of_int (s * 1000)) = of_int (s * 1000)" using assms by (intro fl_of_int) simp
  then have "fmul (of_int s) 1000 = of_int (s * 1000)" by (simp add: fmul_def)
  moreover have "\<lfloor>(of_int (s * 1000) :: rat)\<rfloor> = s * 1000" by (rule floor_of_int)
  moreover have "(0 :: rat) \<le> of_int (s * 1000)" using assms(1) by simp
  ultimately show ?thesis using assms by (simp add: iso_of_seconds_def Let_def)
qed

text \<open>C25. A session token verifies back into its user until it expires: the identity, the role and the
  phone or email survive the encoding, the creation time is the second of the issue, and from the
  second of expiry on the token is refused as expired.\<close>

theorem session_roundtrip:
  assumes "jwtSecret env = Inr secret" "session_codec jc secret (session_payload u (t div 1000) (t div 1000 + e))"
    and "createSessionToken env jc t u e = Inr session" "date_range t"
    and "us_phoneOrEmail u \<noteq> []" "userSchema (jc_formats jc) (u\<lparr>us_createdAt := to_iso (t div 1000 * 1000)\<rparr>)"
  shows "verifyBearerToken env jc t' (st_token session) =
    (if t' div 1000 < t div 1000 + e
     then Inr \<lparr>au_user = u\<lparr>us_createdAt := to_iso (t div 1000 * 1000)\<rparr>,
       au_tokenPayload = session_payload u (t div 1000) (t div 1000 + e)\<rparr>
     else Inl (plain_error ''Bearer token is expired''))"
proof -
  let ?h = "jc_encode jc JWT_HEADER" and ?pl = "session_payload u (t div 1000) (t div 1000 + e)"
  let ?p = "jc_encode jc ?pl" and ?s = "jc_sign jc secret (jc_encode jc JWT_HEADER @ ''.'' @ jc_encode jc (session_payload u (t div 1000) (t div 1000 + e)))"
  have codec: "jc_decode jc ?h = Inr JWT_HEADER" "jc_decode jc ?p = Inr ?pl" "?h \<noteq> []" "?p \<noteq> []" "?s \<noteq> []"
    "CHR ''.'' \<notin> set ?h" "CHR ''.'' \<notin> set ?p" "CHR ''.'' \<notin> set ?s"
    using assms(2) by (simp_all add: session_codec_def)
  have "st_token session = ?h @ CHR ''.'' # ?p @ CHR ''.'' # ?s"
    using assms(1,3) by (auto simp: createSessionToken_def Let_def)
  then have parts: "split_on CHR ''.'' (st_token session) = [?h, ?p, ?s]"
    using codec(6-8) by (simp add: split_on_append split_on_no_sep)
  have alg: "json_prop JWT_HEADER ''alg'' = Inr (Some (JStr ''HS256''))"
    by (simp add: json_prop_def JWT_HEADER_def)
  have "0 \<le> t div 1000" "t div 1000 * 1000 \<le> 8640000000000000"
    using assms(4) by (auto simp: date_range_def)
  from iso_of_whole_seconds[OF this]
  have user: "userFromPayload jc t' ?pl = Inr (u\<lparr>us_createdAt := to_iso (t div 1000 * 1000)\<rparr>)"
    using assms(5,6) by (cases u) (simp add: userFromPayload_def session_claims Let_def)
  have time: "assertTemporalClaims t' ?pl = (if t' div 1000 < t div 1000 + e then Inr ()
      else Inl (plain_error ''Bearer token is expired''))"
    by (simp add: assertTemporalClaims_def session_claims Let_def not_less)
  show ?thesis
    unfolding verifyBearerToken_def parts using assms(1) codec alg user time by simp
qed

definition sample_user :: "user_role \<Rightarrow> user" where
  "sample_user role = \<lparr>us_id = ''user-1'', us_role = role, us_phoneOrEmail = ''ada@grid.test'', us_createdAt = sample_window_end\<rparr>"

text \<open>A codec that only knows the two values of one session.\<close>

definition sample_codec :: "json \<Rightarrow> jwt_codec" where
  "sample_codec payload = \<lparr>jc_formats = \<lparr>fmt_uuid = (\<lambda>s. True), fmt_datetime = (\<lambda>s. True), fmt_url = (\<lambda>s. True)\<rparr>,
     jc_encode = (\<lambda>j. if j = JWT_HEADER then ''header'' else ''payload''),
     jc_decode = (\<lambda>s. if s = ''header'' then Inr JWT_HEADER else Inr payload),
     jc_sign = (\<lambda>k s. ''signature''), jc_zod_message = (\<lambda>u. ''invalid'')\<rparr>"

theorem session_roundtrip_witness:
  "\<exists>session. createSessionToken (\<lambda>name. None)
      (sample_codec (session_payload (sample_user Reviewer) (sample_now div 1000) (sample_now div 1000 + 3600)))
      sample_now (sample_user Reviewer) 3600 = Inr session \<and>
    (\<exists>auth. verifyBearerToken (\<lambda>name. None)
      (sample_codec (session_payload (sample_user Reviewer) (sample_now div 1000) (sample_now div 1000 + 3600)))
      (sample_now + 60000) (st_token session) = Inr auth \<and> us_role (au_user auth) = Reviewer)"
proof -
  let ?jc = "sample_codec (session_payload (sample_user Reviewer) (sample_now div 1000) (sample_now div 1000 + 3600))"
  have secret: "jwtSecret (\<lambda>name. None) = Inr LOCAL_DEV_JWT_SECRET" by (simp add: jwtSecret_def is_production_def)
  have codec: "session_codec ?jc LOCAL_DEV_JWT_SECRET
      (session_payload (sample_user Reviewer) (sample_now div 1000) (sample_now div 1000 + 3600))"
    by (simp add: session_codec_def sample_codec_def JWT_HEADER_def session_payload_def)
  have "iso_of_seconds (of_int (sample_now div 1000 + 3600)) = Inr (to_iso ((sample_now div 1000 + 3600) * 1000))"
    by (rule iso_of_whole_seconds) (simp_all add: sample_now_def)
  then obtain session where session: "createSessionToken (\<lambda>name. None) ?jc sample_now (sample_user Reviewer) 3600 = Inr session"
    by (simp add: createSessionToken_def Let_def secret)
  have "us_phoneOrEmail (sample_user Reviewer) \<noteq> []"
    "userSchema (jc_formats ?jc) ((sample_user Reviewer)\<lparr>us_createdAt := to_iso (sample_now div 1000 * 1000)\<rparr>)"
    by (simp_all add: sample_user_def userSchema_def sample_codec_def uuidSchema_def isoDateTimeSchema_def)
  from session_roundtrip[OF secret codec session sample_now_range this, of "sample_now + 60000"] session
  show ?thesis by (auto simp: sample_now_def sample_user_def)
qed

subsection \<open>Guards\<close>

text \<open>C23. A guard admits only correctly signed tokens: when it lets a request through, the header holds a
  bearer token whose third part is the signature, under the configured secret, of its first two
  parts, whose header names HS256, which is not expired, and whose role, as the payload states it,
  reaches one of the required roles; otherwise it answers 401 or 403. A production server without a
  secret admits nobody.\<close>

theorem guard_admits_signed_tokens:
  "case requireAuth env jc roles now header of
     Inl e \<Rightarrow> statusCode e = Some 401 \<or> statusCode e = Some 403
   | Inr auth \<Rightarrow> \<exists>token h p sig rest secret alg.
       bearerToken header = Some token \<and> split_on CHR ''.'' token = h # p # sig # rest \<and>
       jwtSecret env = Inr secret \<and> sig = jc_sign jc secret (h @ ''.'' @ p) \<and>
       jc_decode jc h = Inr alg \<and> json_prop alg ''alg'' = Inr (Some (JStr ''HS256'')) \<and>
       jc_decode jc p = Inr (au_tokenPayload auth) \<and>
       (\<forall>expiry. map_of (payload_fields (au_tokenPayload auth)) ''exp'' = Some (JNum expiry) \<longrightarrow> of_int (now div 1000) < expiry) \<and>
       us_role (au_user auth) = roleFromPayload (au_tokenPayload auth) \<and>
       (roles = [] \<or> (\<exists>role \<in> set roles. role \<le> us_role (au_user auth))) \<and>
       (is_production env \<longrightarrow> env ''SUPABASE_JWT_SECRET'' = Some secret \<or> env ''GRIDPROOF_DEV_JWT_SECRET'' = Some secret)"
proof (cases "requireAuth env jc roles now header")
  case (Inl e)
  then show ?thesis
    by (auto simp: requireAuth_def authError_def split: option.splits sum.splits if_splits)
next
  case (Inr auth)
  then obtain token where token: "bearerToken header = Some token" "verifyBearerToken env jc now token = Inr auth"
    and role: "roles = [] \<or> (\<exists>role \<in> set roles. role \<le> us_role (au_user auth))"
    by (auto simp: requireAuth_def list_ex_iff hasRole_iff split: option.splits sum.splits if_splits)
  from token(2) obtain h p sig rest where parts: "split_on CHR ''.'' token = h # p # sig # rest"
    by (auto simp: verifyBearerToken_def split: list.splits)
  from token(2) obtain secret alg payload u where v: "jc_decode jc h = Inr alg" "json_prop alg ''alg'' = Inr (Some (JStr ''HS256''))"
    "jwtSecret env = Inr secret" "sig = jc_sign jc secret (h @ ''.'' @ p)" "jc_decode jc p = Inr payload"
    "assertTemporalClaims now payload = Inr ()" "userFromPayload jc now payload = Inr u"
    "auth = \<lparr>au_user = u, au_tokenPayload = payload\<rparr>"
    unfolding verifyBearerToken_def parts by (auto split: if_splits)
  have "us_role u = roleFromPayload payload"
    using v(7) by (auto simp: userFromPayload_def Let_def split: option.splits json.splits if_splits)
  moreover have "\<forall>expiry. map_of (payload_fields payload) ''exp'' = Some (JNum expiry) \<longrightarrow> of_int (now div 1000) < expiry"
    using v(6) by (cases payload) (auto simp: assertTemporalClaims_def json_prop_def payload_fields_def Let_def not_le split: if_splits)
  moreover have "is_production env \<longrightarrow> env ''SUPABASE_JWT_SECRET'' = Some secret \<or> env ''GRIDPROOF_DEV_JWT_SECRET'' = Some secret"
    using v(3) by (auto simp: jwtSecret_def Let_def split: option.splits if_splits)
  ultimately show ?thesis using Inr token(1) parts v role by auto
qed

subsection \<open>Registration\<close>

lemma highestRole_max: "highestRole a b = max a b"
  by (cases a; cases b) (simp_all add: highestRole_def max_def role_order)

lemma sql_role_case_max: "b \<noteq> Public \<Longrightarrow> sql_role_case a b = max a b"
  by (cases a; cases b) (simp_all add: sql_role_case_def max_def role_order)

text \<open>The users by identity, whichever backend holds them.\<close>

definition users_of :: "runtime \<Rightarrow> world \<Rightarrow> string \<Rightarrow> user option" where
  "users_of rt w identity = (if isDatabaseConfigured rt
     then map_option mapUserRow (sql_find ur_phone_or_email (t_users (db w)) identity)
     else jm_get (memoryUsersByIdentity w) identity)"

lemma findUserForLogin_users: "findUserForLogin rt s w = users_of rt w (normalizeIdentity s)"
  by (simp add: findUserForLogin_def users_of_def Let_def)

lemma register_users:
  assumes "registerUser rt input w = (Inr u, w')" "rg_role input \<noteq> Public"
  shows "users_of rt w' k = (if k = normalizeIdentity (rg_phoneOrEmail input) then Some u else users_of rt w k) \<and>
    (case users_of rt w (normalizeIdentity (rg_phoneOrEmail input)) of
       None \<Rightarrow> us_role u = rg_role input
     | Some before \<Rightarrow> us_role u = max (us_role before) (rg_role input) \<and> us_id u = us_id before)"
proof (cases "isDatabaseConfigured rt")
  case False
  let ?k = "normalizeIdentity (rg_phoneOrEmail input)"
  have allowed: "assertRoleAllowed (rt_env rt) (rg_role input) (rg_inviteCode input) = Inr ()"
    using assms(1) by (cases "assertRoleAllowed (rt_env rt) (rg_role input) (rg_inviteCode input)") (auto simp: registerUser_def)
  show ?thesis
  proof (cases "jm_get (memoryUsersByIdentity w) ?k")
    case None
    with assms(1) False allowed show ?thesis by (auto simp: registerUser_def users_of_def Let_def bind_audit)
  next
    case (Some before)
    with assms(1) False allowed show ?thesis
      by (auto simp: registerUser_def users_of_def Let_def bind_audit highestRole_max split: if_splits)
  qed
next
  case True
  let ?k = "normalizeIdentity (rg_phoneOrEmail input)"
  have allowed: "assertRoleAllowed (rt_env rt) (rg_role input) (rg_inviteCode input) = Inr ()"
    using assms(1) by (cases "assertRoleAllowed (rt_env rt) (rg_role input) (rg_inviteCode input)") (auto simp: registerUser_def)
  define row where "row = \<lparr>ur_id = rt_uuid rt (w_uuids w), ur_role = rg_role input, ur_phone_or_email = ?k, ur_created_at = w_now w\<rparr>"
  define up where "up = sql_upsert ur_phone_or_email (\<lambda>r. r\<lparr>ur_role := sql_role_case (ur_role r) (rg_role input)\<rparr>) row (t_users (db w))"
  have u: "u = mapUserRow (fst up)" and w': "t_users (db w') = snd up"
    using assms(1) True allowed by (auto simp: registerUser_def Let_def bind_audit up_def row_def case_prod_beta)
  have "sql_find ur_phone_or_email (snd up) k = (if k = ?k then Some (fst up) else sql_find ur_phone_or_email (t_users (db w)) k)"
    unfolding up_def using sql_find_upsert[of ur_phone_or_email "\<lambda>r. r\<lparr>ur_role := sql_role_case (ur_role r) (rg_role input)\<rparr>" row "t_users (db w)" k]
    by (simp add: row_def)
  moreover have "fst up = (case sql_find ur_phone_or_email (t_users (db w)) ?k of
      None \<Rightarrow> row | Some r \<Rightarrow> r\<lparr>ur_role := sql_role_case (ur_role r) (rg_role input)\<rparr>)"
    by (simp add: up_def sql_upsert_def row_def split: option.split)
  ultimately show ?thesis using True u w' assms(2)
    by (auto simp: users_of_def mapUserRow_def row_def sql_role_case_max split: option.splits)
qed

text \<open>C24. Registration grants no role without the invite code: in both backends, a successful
  registration leaves every other identity as it was and stores the returned account under the
  normalised identity, with the higher of the stored and the requested role; and when the account
  comes out as reviewer or admin, the request carried the configured, non-empty invite code, or
  the account had that role before.\<close>

theorem registration_needs_invite:
  assumes "registerUser rt input w = (Inr u, w')" "rg_role input \<noteq> Public"
  shows "findUserForLogin rt s w' = (if normalizeIdentity s = normalizeIdentity (rg_phoneOrEmail input) then Some u
      else findUserForLogin rt s w) \<and>
    us_role u = (case findUserForLogin rt (rg_phoneOrEmail input) w of
      None \<Rightarrow> rg_role input | Some before \<Rightarrow> max (us_role before) (rg_role input)) \<and>
    (Reporter < us_role u \<longrightarrow>
      (\<exists>secret. rt_env rt ''GRIDPROOF_AUTH_INVITE_CODE'' = Some secret \<and> secret \<noteq> [] \<and> rg_inviteCode input = Some secret) \<or>
      (\<exists>before. findUserForLogin rt (rg_phoneOrEmail input) w = Some before \<and> us_role before = us_role u))"
proof -
  note users = register_users[OF assms]
  have role: "us_role u = (case findUserForLogin rt (rg_phoneOrEmail input) w of
      None \<Rightarrow> rg_role input | Some before \<Rightarrow> max (us_role before) (rg_role input))"
    using users unfolding findUserForLogin_users by (auto split: option.splits)
  have "rg_role input = Reporter \<or> (\<exists>secret. rt_env rt ''GRIDPROOF_AUTH_INVITE_CODE'' = Some secret \<and> secret \<noteq> [] \<and>
      rg_inviteCode input = Some secret)"
  proof (cases "assertRoleAllowed (rt_env rt) (rg_role input) (rg_inviteCode input)")
    case (Inl e)
    then show ?thesis using assms(1) by (simp add: registerUser_def)
  next
    case (Inr x)
    then show ?thesis by (auto simp: assertRoleAllowed_def env_set_def split: if_splits option.splits)
  qed
  moreover have "rg_role input = Reporter \<Longrightarrow> Reporter < us_role u \<Longrightarrow>
      \<exists>before. findUserForLogin rt (rg_phoneOrEmail input) w = Some before \<and> us_role before = us_role u"
    using role by (auto simp: max_def split: option.splits if_splits)
  moreover have "findUserForLogin rt s w' = (if normalizeIdentity s = normalizeIdentity (rg_phoneOrEmail input) then Some u
      else findUserForLogin rt s w)"
    unfolding findUserForLogin_users using users by blast
  ultimately show ?thesis using role by blast
qed

theorem registration_needs_invite_witness:
  "\<exists>u w'. registerUser memory_rt \<lparr>rg_phoneOrEmail = '' Ada@grid.test'', rg_role = Reporter, rg_inviteCode = None\<rparr>
       (empty_world sample_now) = (Inr u, w') \<and>
     findUserForLogin memory_rt ''ADA@GRID.TEST'' w' = Some u \<and> us_role u = Reporter"
proof -
  let ?r = "\<lparr>rg_phoneOrEmail = '' Ada@grid.test'', rg_role = Reporter, rg_inviteCode = None\<rparr>"
  obtain u w' where run: "registerUser memory_rt ?r (empty_world sample_now) = (Inr u, w')"
    by (simp add: registerUser_def assertRoleAllowed_def Let_def bind_audit empty_world_def)
  have "normalizeIdentity ''ADA@GRID.TEST'' = normalizeIdentity (rg_phoneOrEmail ?r)" by code_simp
  with registration_needs_invite[OF run, of "''ADA@GRID.TEST''"] run show ?thesis
    by (auto simp: findUserForLogin_def empty_world_def)
qed

text \<open>A codec under which one token verifies as a reviewer's.\<close>

definition reviewer_codec :: jwt_codec where
  "reviewer_codec =
     sample_codec (session_payload (sample_user Reviewer) (sample_now div 1000) (sample_now div 1000 + 3600))"

lemma reviewer_token_verifies:
  "\<exists>auth. verifyBearerToken (\<lambda>name. None) reviewer_codec sample_now ''header.payload.signature'' = Inr auth \<and>
     us_role (au_user auth) = Reviewer"
proof -
  let ?pl = "session_payload (sample_user Reviewer) (sample_now div 1000) (sample_now div 1000 + 3600)"
  have token: "split_on CHR ''.'' ''header.payload.signature'' = [''header'', ''payload'', ''signature'']" by code_simp
  have iso: "iso_of_seconds (of_int (sample_now div 1000)) = Inr (to_iso ((sample_now div 1000) * 1000))"
    by (rule iso_of_whole_seconds) (simp_all add: sample_now_def)
  have "us_phoneOrEmail (sample_user Reviewer) \<noteq> []"  by (simp add: sample_user_def)
  then obtain u where u: "userFromPayload reviewer_codec sample_now ?pl = Inr u" "us_role u = Reviewer"
    by (auto simp: userFromPayload_def session_claims Let_def iso sample_user_def userSchema_def sample_codec_def
        uuidSchema_def isoDateTimeSchema_def reviewer_codec_def)
  have time: "assertTemporalClaims sample_now ?pl = Inr ()"
    by (simp add: assertTemporalClaims_def session_claims Let_def)
  have parts: "jc_decode reviewer_codec ''header'' = Inr JWT_HEADER" "jc_decode reviewer_codec ''payload'' = Inr ?pl"
    "\<And>k s. jc_sign reviewer_codec k s = ''signature''" by (simp_all add: sample_codec_def reviewer_codec_def)
  have alg: "json_prop JWT_HEADER ''alg'' = Inr (Some (JStr ''HS256''))" "jwtSecret (\<lambda>name. None) = Inr LOCAL_DEV_JWT_SECRET"
    by (simp_all add: JWT_HEADER_def json_prop_def jwtSecret_def is_production_def)
  show ?thesis
    unfolding verifyBearerToken_def token by (simp add: parts alg time u)
qed

theorem guard_admits_signed_tokens_witness:
  "\<exists>token h p sig rest. bearerToken (Some ''Bearer header.payload.signature'') = Some token \<and>
     split_on CHR ''.'' token = h # p # sig # rest \<and> sig = ''signature''"
proof -
  let ?h = "Some ''Bearer header.payload.signature''"
  have token: "bearerToken ?h = Some ''header.payload.signature''" by code_simp
  obtain auth where "requireAuth (\<lambda>name. None) reviewer_codec [Reviewer] sample_now ?h = Inr auth"
    using reviewer_token_verifies by (auto simp: requireAuth_def token hasRole_iff)
  with guard_admits_signed_tokens[where env = "\<lambda>name. None" and jc = reviewer_codec and roles = "[Reviewer]"
      and now = sample_now and header = ?h]
  show ?thesis by (auto simp: reviewer_codec_def sample_codec_def)
qed

end
