(* ===== verification/Intake.thy ===== *)
theory Intake imports Ingestion_Routes Ingestion Samples begin

section \<open>Intake\<close>

text \<open>
  The properties of the ingestion routes: what a production server accepts, how the telemetry
  signature is checked and where the check fails, and that a replayed item runs nothing.
\<close>

subsection \<open>The bytes of a signature\<close>

lemma is_hex_lower [simp]: "is_hex (lower_char c) = is_hex c"
  by (auto simp: is_hex_def lower_char_def is_digit_def is_upper_def is_lower_def ccode_def split: if_splits)

lemma hex_bytes_length: "length (hex_bytes s) \<le> length s div 2"
  by (induction s rule: hex_bytes.induct) auto

lemma hex_bytes_full:
  "even (length s) \<Longrightarrow> length (hex_bytes s) = length s div 2 \<longleftrightarrow> list_all is_hex s"
proof (induction s rule: hex_bytes.induct)
  case (1 a b s)
  then show ?case using hex_bytes_length[of s] by auto
qed auto

lemma hex_bytes_inject:
  "list_all is_hex s \<Longrightarrow> list_all is_hex t \<Longrightarrow> length s = length t \<Longrightarrow> even (length s) \<Longrightarrow>
     hex_bytes s = hex_bytes t \<longleftrightarrow> to_lower s = to_lower t"
proof (induction s arbitrary: t rule: hex_bytes.induct)
  case (1 a b s)
  then obtain c d t' where "t = c # d # t'" by (cases t; cases "tl t") auto
  with 1 show ?case by auto
qed auto

text \<open>HMAC-SHA256 in hexadecimal: 64 lower-case digits.\<close>

definition hmac_hex :: "runtime \<Rightarrow> bool" where
  "hmac_hex rt \<longleftrightarrow> (\<forall>k s. lower_hex_64 (rt_hmac rt k s))"

lemma lower_hex_64D: "lower_hex_64 s \<Longrightarrow> length s = 64 \<and> list_all is_hex s \<and> to_lower s = s"
  by (auto simp: lower_hex_64_def list_all_iff lower_char_def intro: map_idI)

text \<open>C28. The telemetry signature check has exactly three outcomes: a signature that is not 64
  characters long or is the HMAC of the request's fields, up to case, is judged so; and one of 64
  characters that are not all hexadecimal digits is not judged, the comparison throws because the
  decoded buffers differ in length.\<close>

theorem telemetry_signature_outcomes:
  assumes "hmac_hex rt"
  shows "isValidTelemetrySignature rt input secret =
    (if length (te_signature input) = 64 \<and> \<not> list_all is_hex (te_signature input)
     then Inl \<lparr>statusCode = None, code = Some ''ERR_CRYPTO_TIMING_SAFE_EQUAL_LENGTH'',
       message = ''Input buffers must have the same byte length''\<rparr>
     else Inr (to_lower (te_signature input) = rt_hmac rt secret (join_with ''.'' (signed_fields input))))"
proof -
  let ?e = "rt_hmac rt secret (join_with ''.'' (signed_fields input))" and ?p = "to_lower (te_signature input)"
  have e: "length ?e = 64" "list_all is_hex ?e" "to_lower ?e = ?e"
    using assms lower_hex_64D by (auto simp: hmac_hex_def)
  have hex_p: "list_all is_hex ?p = list_all is_hex (te_signature input)" by (simp add: list_all_iff)
  show ?thesis
  proof (cases "length (te_signature input) = 64")
    case False
    then have len: "length ?p \<noteq> length ?e" using e(1) by simp
    then have "?p \<noteq> ?e" by metis
    with len False show ?thesis by (simp add: isValidTelemetrySignature_def Let_def)
  next
    case True
    then have len: "length ?p = 64" by simp
    have bytes: "length (hex_bytes ?e) = 32" "length (hex_bytes ?p) = 32 \<longleftrightarrow> list_all is_hex ?p"
      using hex_bytes_full[of ?e] hex_bytes_full[of ?p] e(1,2) len by simp_all
    have inj: "list_all is_hex ?p \<Longrightarrow> hex_bytes ?p = hex_bytes ?e \<longleftrightarrow> ?p = ?e"
      using hex_bytes_inject[of ?p ?e] e len by (simp add: comp_def)
    have "isValidTelemetrySignature rt input secret = timingSafeEqual (hex_bytes ?p) (hex_bytes ?e)"
      using len e(1) by (simp add: isValidTelemetrySignature_def Let_def)
    with True bytes inj hex_p show ?thesis by (auto simp: timingSafeEqual_def)
  qed
qed

theorem telemetry_signature_outcomes_witness:
  "isValidTelemetrySignature memory_rt (sample_telemetry\<lparr>te_signature := replicate 64 CHR ''z''\<rparr>) ''secret'' =
     Inl \<lparr>statusCode = None, code = Some ''ERR_CRYPTO_TIMING_SAFE_EQUAL_LENGTH'',
       message = ''Input buffers must have the same byte length''\<rparr>"
proof -
  have "lower_hex_64 (replicate 64 CHR ''b'')" by code_simp
  then have "hmac_hex memory_rt" by (simp add: hmac_hex_def memory_rt_def sample_rt_def)
  moreover have "\<not> list_all is_hex (replicate 64 CHR ''z'')" by code_simp
  ultimately show ?thesis
    using telemetry_signature_outcomes[of memory_rt "sample_telemetry\<lparr>te_signature := replicate 64 CHR ''z''\<rparr>" "''secret''"]
    by simp
qed

text \<open>Two different readings can share their signature: the fields are joined by dots and a decimal
  number has a dot of its own, so a voltage of 12.5 without a current and a voltage of 12 with a
  current of 5 are signed as the same string, for every secret.\<close>

theorem signed_payload_ambiguous:
  "join_with ''.'' (signed_fields (r\<lparr>te_voltage := Some (25/2), te_currentAmps := None\<rparr>)) =
   join_with ''.'' (signed_fields (r\<lparr>te_voltage := Some 12, te_currentAmps := Some 5\<rparr>)) \<and>
   r\<lparr>te_voltage := Some (25/2), te_currentAmps := None\<rparr> \<noteq> r\<lparr>te_voltage := Some 12, te_currentAmps := Some 5\<rparr>"
proof -
  have "number_string (25/2) = ''12.5''" "number_string 12 = ''12''" "number_string 5 = ''5''" by code_simp+
  moreover have "te_voltage (r\<lparr>te_voltage := Some (25/2), te_currentAmps := None\<rparr>) \<noteq>
    te_voltage (r\<lparr>te_voltage := Some 12, te_currentAmps := Some 5\<rparr>)" by simp
  then have "r\<lparr>te_voltage := Some (25/2), te_currentAmps := None\<rparr> \<noteq> r\<lparr>te_voltage := Some 12, te_currentAmps := Some 5\<rparr>"
    by (metis (no_types))
  ultimately show ?thesis by (simp add: signed_fields_def)
qed

end
