(* ===== verification/Realtime.thy ===== *)
theory Realtime imports Access begin

section \<open>The socket gateway\<close>

text \<open>
  \<open>modules/realtime/socket.ts\<close>: which domain events reach which sockets. A socket joins its rooms
  when it connects, from the query and the token of its handshake; \<open>io.to(room).emit\<close> delivers to
  the sockets of a room and \<open>io.emit\<close> to all of them. A gateway is subscribed to the domain events
  until it is closed. Sockets are numbered; the transport is the library's.
\<close>

subsection \<open>Handshakes and rooms\<close>

datatype zone_query = NoZone | OneZone string | ManyZones "string list"

record handshake =
  hs_zoneId :: zone_query
  hs_token :: "json option"

record socket =
  sk_id :: nat
  sk_rooms :: "string list"

definition zone_room :: "string \<Rightarrow> string" where "zone_room zoneId = ''zone:'' @ zoneId"
definition REVIEWER_ROOM :: string where "REVIEWER_ROOM = ''role:reviewer''"

definition zone_rooms :: "zone_query \<Rightarrow> string list" where
  "zone_rooms q = (case q of OneZone zoneId \<Rightarrow> if 0 < length zoneId then [zone_room zoneId] else [] | _ \<Rightarrow> [])"

definition token_rooms :: "env \<Rightarrow> jwt_codec \<Rightarrow> int \<Rightarrow> json option \<Rightarrow> string list" where
  "token_rooms env jc now token =
     (case token of
        Some (JStr t) \<Rightarrow>
          if 0 < length t
          then (case verifyBearerToken env jc now t of
              Inr auth \<Rightarrow> if us_role (au_user auth) = Reviewer \<or> us_role (au_user auth) = Admin then [REVIEWER_ROOM] else []
            | Inl _ \<Rightarrow> [])
          else []
      | _ \<Rightarrow> [])"

definition on_connection :: "env \<Rightarrow> jwt_codec \<Rightarrow> int \<Rightarrow> nat \<Rightarrow> handshake \<Rightarrow> socket" where
  "on_connection env jc now n hs = \<lparr>sk_id = n, sk_rooms = zone_rooms (hs_zoneId hs) @ token_rooms env jc now (hs_token hs)\<rparr>"

subsection \<open>Deliveries\<close>

datatype socket_message =
    EvidenceMessage evidence_event
  | StatusChanged string evidence_status string
  | ReviewMessage string string string
  | ChainMessage string "string option" string chain_commitment_status

type_synonym delivery = "nat \<times> socket_message"

definition to_room :: "string \<Rightarrow> socket_message \<Rightarrow> socket list \<Rightarrow> delivery list" where
  "to_room room m sockets = map (\<lambda>s. (sk_id s, m)) (filter (\<lambda>s. room \<in> set (sk_rooms s)) sockets)"

definition to_all :: "socket_message \<Rightarrow> socket list \<Rightarrow> delivery list" where
  "to_all m sockets = map (\<lambda>s. (sk_id s, m)) sockets"

fun on_event :: "domain_event \<Rightarrow> socket list \<Rightarrow> delivery list" where
  "on_event (EvidenceReceived e) sockets =
     to_room (zone_room (ev_zoneId e)) (EvidenceMessage e) sockets @
     to_all (StatusChanged (ev_zoneId e) (ev_status e) (ev_observedAt e)) sockets"
| "on_event (ReviewRequired candidateEventId zoneId reason) sockets =
     to_room REVIEWER_ROOM (ReviewMessage candidateEventId zoneId reason) sockets"
| "on_event (ChainCommitted zoneId epochStart txHash st) sockets =
     to_room (zone_room zoneId) (ChainMessage zoneId epochStart txHash st) sockets @
     to_all (ChainMessage zoneId epochStart txHash st) sockets"
| "on_event (CandidateDetected _) sockets = []"

record gateway =
  gw_subscribed :: bool
  gw_sockets :: "socket list"

definition attachRealtime :: gateway where
  "attachRealtime = \<lparr>gw_subscribed = True, gw_sockets = []\<rparr>"

definition publish :: "domain_event \<Rightarrow> gateway \<Rightarrow> delivery list" where
  "publish e g = (if gw_subscribed g then on_event e (gw_sockets g) else [])"

definition close_gateway :: "gateway \<Rightarrow> gateway" where
  "close_gateway g = g\<lparr>gw_subscribed := False, gw_sockets := []\<rparr>"

subsection \<open>Runs of the gateway\<close>

text \<open>What happens to a gateway, most recent first, with the deliveries made.\<close>

datatype gateway_action =
    Connect int nat handshake
  | Disconnect nat
  | Publish domain_event "delivery list"
  | Close

inductive gateway_run :: "env \<Rightarrow> jwt_codec \<Rightarrow> gateway_action list \<Rightarrow> gateway \<Rightarrow> bool" for env jc where
  Start: "gateway_run env jc [] attachRealtime"
| Connected: "gateway_run env jc tr g \<Longrightarrow> gw_subscribed g \<Longrightarrow> n \<notin> sk_id ` set (gw_sockets g) \<Longrightarrow>
    gateway_run env jc (Connect now n hs # tr) (g\<lparr>gw_sockets := gw_sockets g @ [on_connection env jc now n hs]\<rparr>)"
| Disconnected: "gateway_run env jc tr g \<Longrightarrow>
    gateway_run env jc (Disconnect n # tr) (g\<lparr>gw_sockets := filter (\<lambda>s. sk_id s \<noteq> n) (gw_sockets g)\<rparr>)"
| Published: "gateway_run env jc tr g \<Longrightarrow> gateway_run env jc (Publish e (publish e g) # tr) g"
| Closed: "gateway_run env jc tr g \<Longrightarrow> gateway_run env jc (Close # tr) (close_gateway g)"

declare gateway_run.intros [intro]

inductive_cases gateway_run_publishE [elim!]: "gateway_run env jc (Publish e ds # tr) g"

lemma room_names [simp]:
  "zone_room z \<noteq> REVIEWER_ROOM" "REVIEWER_ROOM \<noteq> zone_room z" "zone_room a = zone_room b \<longleftrightarrow> a = b"
  by (simp_all add: zone_room_def REVIEWER_ROOM_def)

definition reviewer_handshake :: "env \<Rightarrow> jwt_codec \<Rightarrow> int \<Rightarrow> handshake \<Rightarrow> bool" where
  "reviewer_handshake env jc now hs \<longleftrightarrow> (\<exists>t auth. hs_token hs = Some (JStr t) \<and> t \<noteq> [] \<and>
     verifyBearerToken env jc now t = Inr auth \<and> Reviewer \<le> us_role (au_user auth))"

lemma reviewer_le: "Reviewer \<le> r \<longleftrightarrow> r = Reviewer \<or> r = Admin"
  by (cases r) (simp_all add: role_order)

lemma token_rooms_eq:
  "token_rooms env jc now tok = (if \<exists>t auth. tok = Some (JStr t) \<and> t \<noteq> [] \<and> verifyBearerToken env jc now t = Inr auth \<and>
     Reviewer \<le> us_role (au_user auth) then [REVIEWER_ROOM] else [])"
proof (cases "\<exists>t. tok = Some (JStr t)")
  case True
  then obtain t where t: "tok = Some (JStr t)" by blast
  show ?thesis by (cases "verifyBearerToken env jc now t") (auto simp: token_rooms_def t reviewer_le)
next
  case False
  then have "token_rooms env jc now tok = []"
    by (cases tok; cases "the tok") (simp_all add: token_rooms_def)
  with False show ?thesis by auto
qed

lemma set_token_rooms: "REVIEWER_ROOM \<in> set (token_rooms env jc now (hs_token hs)) \<longleftrightarrow> reviewer_handshake env jc now hs"
  by (simp add: token_rooms_eq reviewer_handshake_def)

lemma token_rooms_zone: "zone_room z \<notin> set (token_rooms env jc now tok)"
  by (simp add: token_rooms_eq)

lemma on_connection_rooms [simp]:
  "REVIEWER_ROOM \<in> set (sk_rooms (on_connection env jc now n hs)) \<longleftrightarrow> reviewer_handshake env jc now hs"
  "sk_id (on_connection env jc now n hs) = n"
  by (auto simp: on_connection_def zone_rooms_def set_token_rooms split: zone_query.split)

lemma on_connection_zone:
  "zone_room z \<in> set (sk_rooms (on_connection env jc now n hs)) \<longleftrightarrow> z \<noteq> [] \<and> hs_zoneId hs = OneZone z"
  by (auto simp: on_connection_def zone_rooms_def token_rooms_zone split: zone_query.split)

text \<open>Every socket of a gateway comes from a handshake, and sockets have different numbers.\<close>

lemma gateway_sockets:
  "gateway_run env jc tr g \<Longrightarrow> distinct (map sk_id (gw_sockets g)) \<and>
     (\<forall>s \<in> set (gw_sockets g). \<exists>now hs. Connect now (sk_id s) hs \<in> set tr \<and> s = on_connection env jc now (sk_id s) hs)"
proof (induction rule: gateway_run.induct)
  case Start
  show ?case by (simp add: attachRealtime_def)
next
  case (Connected tr g n now hs)
  then show ?case by (fastforce simp: on_connection_rooms(2))
next
  case (Disconnected tr g n)
  then show ?case by (fastforce simp: distinct_map inj_on_def)
next
  case (Published tr g e)
  then show ?case by fastforce
next
  case (Closed tr g)
  then show ?case by (simp add: close_gateway_def)
qed

lemma subscribed_sockets: "gateway_run env jc tr g \<Longrightarrow> gw_sockets g \<noteq> [] \<longrightarrow> gw_subscribed g"
  by (induction rule: gateway_run.induct) (auto simp: attachRealtime_def close_gateway_def)

lemma in_to_room: "(n, m) \<in> set (to_room room m' ss) \<longleftrightarrow> m = m' \<and> (\<exists>s \<in> set ss. sk_id s = n \<and> room \<in> set (sk_rooms s))"
  by (auto simp: to_room_def)

lemma in_to_all: "(n, m) \<in> set (to_all m' ss) \<longleftrightarrow> m = m' \<and> (\<exists>s \<in> set ss. sk_id s = n)"
  by (auto simp: to_all_def)

lemma review_delivery:
  "(n, ReviewMessage c z r) \<in> set (publish e g) \<longleftrightarrow>
     gw_subscribed g \<and> e = ReviewRequired c z r \<and> (\<exists>s \<in> set (gw_sockets g). sk_id s = n \<and> REVIEWER_ROOM \<in> set (sk_rooms s))"
  by (cases e) (auto simp: publish_def in_to_room in_to_all)

text \<open>C31. Review escalations are private: whatever the order of connections, events and closings, a
  message about a review reaches a socket only when that socket connected with a token that verified
  then as one of a reviewer or an administrator. No zone query can name the reviewers' room, and
  right after closing nothing is delivered.\<close>

theorem review_only_to_reviewers:
  assumes "gateway_run env jc (Publish e ds # tr) g"
  shows "(\<forall>n c z r. (n, ReviewMessage c z r) \<in> set ds \<longrightarrow>
           e = ReviewRequired c z r \<and> (\<exists>now hs. Connect now n hs \<in> set tr \<and> reviewer_handshake env jc now hs)) \<and>
         (tr \<noteq> [] \<and> hd tr = Close \<longrightarrow> ds = [])"
proof -
  have run: "gateway_run env jc tr g" and ds: "ds = publish e g"
    using assms by blast+
  have "hd tr = Close \<Longrightarrow> tr \<noteq> [] \<Longrightarrow> \<not> gw_subscribed g"
    using run by (cases rule: gateway_run.cases) (auto simp: close_gateway_def)
  then have closed: "tr \<noteq> [] \<and> hd tr = Close \<longrightarrow> ds = []" by (simp add: ds publish_def)
  have "e = ReviewRequired c z r \<and> (\<exists>now hs. Connect now n hs \<in> set tr \<and> reviewer_handshake env jc now hs)"
    if d: "(n, ReviewMessage c z r) \<in> set ds" for n c z r
  proof -
    obtain s where s: "e = ReviewRequired c z r" "s \<in> set (gw_sockets g)" "sk_id s = n" "REVIEWER_ROOM \<in> set (sk_rooms s)"
      using d unfolding ds review_delivery by blast
    obtain now hs where "Connect now n hs \<in> set tr" "s = on_connection env jc now n hs"
      using gateway_sockets[OF run] s(2,3) by blast
    with s(1,4) show ?thesis by auto
  qed
  with closed show ?thesis by blast
qed

lemma count_map_filter_key:
  "distinct (map f xs) \<Longrightarrow> x \<in> set xs \<Longrightarrow>
     count_list (map (\<lambda>y. (f y, m)) (filter P xs)) (f x, m) = (if P x then 1 else 0)"
  by (induction xs) (auto simp: rev_image_eqI count_list_0_iff)

lemma count_to_room:
  "distinct (map sk_id ss) \<Longrightarrow> s \<in> set ss \<Longrightarrow>
     count_list (to_room room m ss) (sk_id s, m) = (if room \<in> set (sk_rooms s) then 1 else 0)"
  unfolding to_room_def by (rule count_map_filter_key)

lemma count_to_all:
  "distinct (map sk_id ss) \<Longrightarrow> s \<in> set ss \<Longrightarrow> count_list (to_all m ss) (sk_id s, m) = 1"
  unfolding to_all_def using count_map_filter_key[of sk_id ss s m "\<lambda>_. True"] by simp

lemma count_other_message:
  "m \<noteq> m' \<Longrightarrow> count_list (to_room room m' ss) (n, m) = 0" "m \<noteq> m' \<Longrightarrow> count_list (to_all m' ss) (n, m) = 0"
  by (auto simp: to_room_def to_all_def count_list_0_iff)

lemmas delivery_counts = count_to_room count_to_all count_other_message

text \<open>C32. How often a message arrives: of an evidence event every socket gets one status change and
  the sockets of the zone get the evidence once; a review reaches each reviewer socket once. A chain
  commitment reaches the sockets of its zone twice and the others once, because the handler sends it
  to the room of the zone and then to everyone.\<close>

theorem deliveries_per_socket:
  assumes "gateway_run env jc tr g" "s \<in> set (gw_sockets g)"
  shows "count_list (publish (EvidenceReceived ev) g) (sk_id s, StatusChanged (ev_zoneId ev) (ev_status ev) (ev_observedAt ev)) = 1 \<and>
         count_list (publish (EvidenceReceived ev) g) (sk_id s, EvidenceMessage ev) =
           (if zone_room (ev_zoneId ev) \<in> set (sk_rooms s) then 1 else 0) \<and>
         count_list (publish (ReviewRequired c z r) g) (sk_id s, ReviewMessage c z r) =
           (if REVIEWER_ROOM \<in> set (sk_rooms s) then 1 else 0) \<and>
         count_list (publish (ChainCommitted z ep tx st) g) (sk_id s, ChainMessage z ep tx st) =
           (if zone_room z \<in> set (sk_rooms s) then 2 else 1)"
proof -
  have "gw_subscribed g" using subscribed_sockets[OF assms(1)] assms(2) by auto
  moreover have "distinct (map sk_id (gw_sockets g))" using gateway_sockets[OF assms(1)] by simp
  ultimately show ?thesis using assms(2) by (simp add: publish_def delivery_counts)
qed

definition reviewer_hs :: handshake where
  "reviewer_hs = \<lparr>hs_zoneId = OneZone ''z'', hs_token = Some (JStr ''header.payload.signature'')\<rparr>"

definition anonymous_hs :: handshake where
  "anonymous_hs = \<lparr>hs_zoneId = OneZone ''role:reviewer'', hs_token = None\<rparr>"

definition two_sockets :: gateway where
  "two_sockets = \<lparr>gw_subscribed = True, gw_sockets =
     [on_connection (\<lambda>name. None) reviewer_codec sample_now 0 reviewer_hs,
      on_connection (\<lambda>name. None) reviewer_codec sample_now 1 anonymous_hs]\<rparr>"

lemma reviewer_hs_ok: "reviewer_handshake (\<lambda>name. None) reviewer_codec sample_now reviewer_hs"
  using reviewer_token_verifies by (force simp: reviewer_handshake_def reviewer_hs_def)

lemma two_sockets_run:
  "gateway_run (\<lambda>name. None) reviewer_codec [Connect sample_now 1 anonymous_hs, Connect sample_now 0 reviewer_hs] two_sockets"
proof -
  have "gateway_run (\<lambda>name. None) reviewer_codec [Connect sample_now 0 reviewer_hs]
      (attachRealtime\<lparr>gw_sockets := gw_sockets attachRealtime @ [on_connection (\<lambda>name. None) reviewer_codec sample_now 0 reviewer_hs]\<rparr>)"
    by (rule Connected[OF Start]) (simp_all add: attachRealtime_def)
  from Connected[OF this, of 1 sample_now anonymous_hs] show ?thesis
    by (simp add: two_sockets_def attachRealtime_def)
qed

theorem review_only_to_reviewers_witness:
  "publish (ReviewRequired ''c'' ''z'' ''low'') two_sockets = [(0, ReviewMessage ''c'' ''z'' ''low'')] \<and>
   (\<exists>now hs. Connect now 0 hs \<in> set [Connect sample_now 1 anonymous_hs, Connect sample_now 0 reviewer_hs] \<and>
     reviewer_handshake (\<lambda>name. None) reviewer_codec now hs)"
proof -
  have "\<not> reviewer_handshake (\<lambda>name. None) reviewer_codec sample_now anonymous_hs"
    by (simp add: reviewer_handshake_def anonymous_hs_def)
  then have out: "publish (ReviewRequired ''c'' ''z'' ''low'') two_sockets = [(0, ReviewMessage ''c'' ''z'' ''low'')]"
    using reviewer_hs_ok by (simp add: publish_def two_sockets_def to_room_def)
  with review_only_to_reviewers[OF Published[OF two_sockets_run], of "ReviewRequired ''c'' ''z'' ''low''"]
  show ?thesis by fastforce
qed

theorem deliveries_per_socket_witness:
  "count_list (publish (ChainCommitted ''z'' None ''0x1'' Confirmed) two_sockets) (0, ChainMessage ''z'' None ''0x1'' Confirmed) = 2"
proof -
  let ?s = "on_connection (\<lambda>name. None) reviewer_codec sample_now 0 reviewer_hs"
  have "?s \<in> set (gw_sockets two_sockets)" by (simp add: two_sockets_def)
  moreover have "zone_room ''z'' \<in> set (sk_rooms ?s)" by (simp add: on_connection_zone reviewer_hs_def)
  ultimately show ?thesis
    using deliveries_per_socket[OF two_sockets_run, of ?s, where z = "''z''" and ep = None and tx = "''0x1''" and st = Confirmed]
    by simp
qed

end
