(* ===== verification/Hardware_Scenario.thy ===== *)
theory Hardware_Scenario imports Demo_Zones Configuration Ingestion_Routes begin

section \<open>The constant scenario of the hardware simulator\<close>

text \<open>
  \<open>scripts/hardware-scenario.ts\<close>: the meters, wallets and readings that the simulator sends, resolved
  against a clock. Titles and explanations, which are only printed, are left out; SHA-256 and HMAC are
  parameters, as in the API. \<open>None\<close> as the candidate of an expectation is the code's \<open>none\<close>.
\<close>

subsection \<open>Constants and types\<close>

datatype band = Sealed | Live

definition HEALTHY_LINE_VOLTAGE_V :: rat where "HEALTHY_LINE_VOLTAGE_V = 10700"
definition DEAD_LINE_VOLTAGE_V :: rat where "DEAD_LINE_VOLTAGE_V = 0"
definition RESIDUAL_LINE_VOLTAGE_V :: rat where "RESIDUAL_LINE_VOLTAGE_V = 3"

fun FIRMWARE_DEV_EUI :: "nat \<Rightarrow> string" where
  "FIRMWARE_DEV_EUI meter = (if meter = 0 then ''a84041ed485a0b9f'' else ''a84041911d5a0b87'')"

definition SEEDED_SENSOR_WALLET :: string where
  "SEEDED_SENSOR_WALLET = ''0x54509b12aB6Ad9D0F3590eD241980433ffCCFe2C''"
definition SEEDED_REPORTER_WALLET :: string where
  "SEEDED_REPORTER_WALLET = ''0x3cfFEC3f8fdaE6Dff40A1CA2FbFc8dcF003669D4''"

record scenario_zone =
  sz_index :: nat
  sz_id :: string
  sz_zoneKey :: string
  sz_name :: string
  sz_discosFeederCode :: string
  sz_discoCode :: string
  sz_baselineStatus :: evidence_status

record expectation =
  xp_candidate :: "candidate_status option"
  xp_confidence :: "rat option"
  xp_decision :: "agent_decision_status option"

record event_common =
  sc_act :: string
  sc_band :: band
  sc_offsetSeconds :: int
  sc_zoneIndex :: nat
  sc_expect :: expectation

text \<open>A sensor event has a meter, a status, a voltage and a current; a reporter event a status and a note; a
  message a text and a telephone number.\<close>

datatype scenario_event =
    SensorEvent event_common nat evidence_status "rat option" "rat option"
  | ReporterEvent event_common evidence_status string
  | WhatsAppEvent event_common string string

fun common_of :: "scenario_event \<Rightarrow> event_common" where
  "common_of (SensorEvent c meter status voltage currentAmps) = c"
| "common_of (ReporterEvent c status report) = c"
| "common_of (WhatsAppEvent c content fromPhone) = c"

record resolved_event =
  re_event :: scenario_event
  re_zone :: scenario_zone
  re_observedAtUnix :: int
  re_observedAt :: string

record scenario =
  sn_sealedEpochStart :: int
  sn_liveAnchor :: int
  sn_zones :: "scenario_zone list"
  sn_events :: "resolved_event list"

subsection \<open>Zones, devices, wallets\<close>

definition zoneAt :: "nat \<Rightarrow> scenario_zone res" where
  "zoneAt index =
     (if length DEMO_NATIONAL_ZONES \<le> index
      then Inl (plain_error (''Scenario references zone index '' @ nat_string index @ '', but only '' @
        nat_string (length DEMO_NATIONAL_ZONES) @ '' demo zones exist''))
      else let zone = DEMO_NATIONAL_ZONES ! index in
        Inr \<lparr>sz_index = index, sz_id = zo_id zone, sz_zoneKey = zo_zoneKey zone, sz_name = zo_name zone,
          sz_discosFeederCode = zo_discosFeederCode zone, sz_discoCode = hd (split_on CHR ''-'' (zo_discosFeederCode zone)),
          sz_baselineStatus = dz_latestStatus zone\<rparr>)"

definition scenario_zones :: "scenario_zone list res" where
  "scenario_zones = map_res zoneAt [0..<length DEMO_NATIONAL_ZONES]"

definition devEuiFor :: "(string \<Rightarrow> string) \<Rightarrow> nat \<Rightarrow> nat \<Rightarrow> string" where
  "devEuiFor sha256 zoneIndex meter =
     (if zoneIndex = 0 then FIRMWARE_DEV_EUI meter
      else let digest = sha256 (''gridproof-sim:deveui:'' @ nat_string zoneIndex @ '':'' @ nat_string meter) in
        ''a84041'' @ take 10 digest)"

definition sensorWalletFor :: "nat \<Rightarrow> string" where
  "sensorWalletFor zoneIndex = (if zoneIndex = 0 then SEEDED_SENSOR_WALLET
     else ''0x5e'' @ pad_start 2 (hex_of zoneIndex) @ replicate 36 CHR ''0'')"

definition reporterWalletFor :: "nat \<Rightarrow> string" where
  "reporterWalletFor zoneIndex = (if zoneIndex = 0 then SEEDED_REPORTER_WALLET
     else ''0x7e'' @ pad_start 2 (hex_of zoneIndex) @ replicate 36 CHR ''0'')"

definition firmwareTimestamp :: "int \<Rightarrow> string" where
  "firmwareTimestamp unixSeconds = take 19 (to_iso (unixSeconds * 1000)) @ ''Z''"

definition idempotencyKeyFor :: "string \<Rightarrow> int \<Rightarrow> string" where
  "idempotencyKeyFor deviceId unixSeconds = deviceId @ ''-'' @ int_string unixSeconds"

subsection \<open>The signature of the firmware\<close>

record telemetry_signature_input =
  ts_deviceId :: string
  ts_providerWallet :: string
  ts_zoneId :: string
  ts_idempotencyKey :: string
  ts_observedAt :: string
  ts_status :: string
  ts_voltage :: "rat option"
  ts_currentAmps :: "rat option"

definition telemetrySigningString :: "telemetry_signature_input \<Rightarrow> string" where
  "telemetrySigningString input =
     (let fields = [ts_deviceId input, to_lower (ts_providerWallet input), ts_zoneId input, ts_idempotencyKey input,
        ts_observedAt input, ts_status input, (case ts_voltage input of None \<Rightarrow> [] | Some v \<Rightarrow> number_string v)]
      in join_with ''.'' (case ts_currentAmps input of None \<Rightarrow> fields | Some a \<Rightarrow> fields @ [number_string a]))"

definition signTelemetry :: "(string \<Rightarrow> string \<Rightarrow> string) \<Rightarrow> telemetry_signature_input \<Rightarrow> string \<Rightarrow> string" where
  "signTelemetry hmac input secret = hmac secret (telemetrySigningString input)"

subsection \<open>The acts\<close>

fun voltageForBaseline :: "evidence_status \<Rightarrow> rat option" where
  "voltageForBaseline GridUp = Some HEALTHY_LINE_VOLTAGE_V"
| "voltageForBaseline GridDown = Some DEAD_LINE_VOLTAGE_V"
| "voltageForBaseline Unknown = None"

fun baselineExpectation :: "evidence_status \<Rightarrow> expectation" where
  "baselineExpectation GridUp = \<lparr>xp_candidate = Some Restored, xp_confidence = Some (fl (9/10)), xp_decision = Some Approve\<rparr>"
| "baselineExpectation GridDown = \<lparr>xp_candidate = Some Outage, xp_confidence = Some (fl (95/100)), xp_decision = Some Approve\<rparr>"
| "baselineExpectation Unknown = \<lparr>xp_candidate = None, xp_confidence = None, xp_decision = None\<rparr>"

definition MINUTE :: int where "MINUTE = 60"

definition NATIONAL_BASELINE :: "scenario_zone list \<Rightarrow> scenario_event list" where
  "NATIONAL_BASELINE zones = map (\<lambda>zone. SensorEvent
     \<lparr>sc_act = ''S1'', sc_band = Sealed, sc_offsetSeconds = 5 * MINUTE, sc_zoneIndex = sz_index zone,
      sc_expect = baselineExpectation (sz_baselineStatus zone)\<rparr>
     0 (sz_baselineStatus zone) (voltageForBaseline (sz_baselineStatus zone)) None) zones"

abbreviation outage_expected :: "rat \<Rightarrow> agent_decision_status \<Rightarrow> expectation" where
  "outage_expected c d \<equiv> \<lparr>xp_candidate = Some Outage, xp_confidence = Some (fl c), xp_decision = Some d\<rparr>"
abbreviation restored_expected :: "rat \<Rightarrow> agent_decision_status \<Rightarrow> expectation" where
  "restored_expected c d \<equiv> \<lparr>xp_candidate = Some Restored, xp_confidence = Some (fl c), xp_decision = Some d\<rparr>"
abbreviation nothing_expected :: expectation where
  "nothing_expected \<equiv> \<lparr>xp_candidate = None, xp_confidence = None, xp_decision = None\<rparr>"
abbreviation act_of :: "string \<Rightarrow> band \<Rightarrow> int \<Rightarrow> nat \<Rightarrow> expectation \<Rightarrow> event_common" where
  "act_of name band offset zone expected \<equiv> \<lparr>sc_act = name, sc_band = band, sc_offsetSeconds = offset, sc_zoneIndex = zone,
     sc_expect = expected\<rparr>"

definition SEALED_ACTS :: "scenario_event list" where
  "SEALED_ACTS = [
     SensorEvent (act_of ''S2'' Sealed (20 * MINUTE) 0 (outage_expected (95/100) Approve)) 0 GridDown (Some DEAD_LINE_VOLTAGE_V) None,
     SensorEvent (act_of ''S3'' Sealed (22 * MINUTE) 0 (outage_expected (97/100) Approve)) 1 GridDown (Some RESIDUAL_LINE_VOLTAGE_V) None,
     SensorEvent (act_of ''S4a'' Sealed (36 * MINUTE) 0 (restored_expected (9/10) Approve)) 0 GridUp (Some HEALTHY_LINE_VOLTAGE_V) None,
     SensorEvent (act_of ''S4b'' Sealed (38 * MINUTE) 0 (restored_expected (94/100) Approve)) 1 GridUp (Some HEALTHY_LINE_VOLTAGE_V) None,
     ReporterEvent (act_of ''S5a'' Sealed (30 * MINUTE) 10 (outage_expected (65/100) Escalate)) GridDown
       ''Transformer went off around 30 minutes ago, whole street is dark.'',
     SensorEvent (act_of ''S5b'' Sealed (33 * MINUTE) 10 (outage_expected (97/100) Approve)) 0 GridDown (Some DEAD_LINE_VOLTAGE_V) None,
     ReporterEvent (act_of ''S6'' Sealed (50 * MINUTE) 6 (outage_expected (65/100) Escalate)) GridDown
       ''Transformer at Oba-Ile has been off since midday, no crew on site yet.'']"

definition LIVE_ACTS :: "scenario_event list" where
  "LIVE_ACTS = [
     ReporterEvent (act_of ''L1a'' Live (- 10 * MINUTE) 19 (restored_expected (65/100) Escalate)) GridUp
       ''Light is back on our side of Trans-Amadi.'',
     SensorEvent (act_of ''L1b'' Live (- 8 * MINUTE) 19 (outage_expected (8/10) Escalate)) 0 GridDown (Some DEAD_LINE_VOLTAGE_V) None,
     SensorEvent (act_of ''L1c'' Live (- 4 * MINUTE) 19 (outage_expected (8/10) Escalate)) 0 GridDown (Some DEAD_LINE_VOLTAGE_V) None,
     ReporterEvent (act_of ''L2'' Live (- 6 * MINUTE) 12 (outage_expected (65/100) Escalate)) GridDown
       ''No power on the Agege feeder since this afternoon.'',
     WhatsAppEvent (act_of ''L3'' Live (- 5 * MINUTE) 8 (outage_expected (65/100) Escalate))
       ''No light since morning here at Onitsha main market'' ''+2348030000008'',
     SensorEvent (act_of ''L4'' Live (- 3 * MINUTE) 14 nothing_expected) 0 Unknown None None,
     SensorEvent (act_of ''L5a'' Live (- 11 * MINUTE) 16 nothing_expected) 0 Unknown None None,
     SensorEvent (act_of ''L5b'' Live (- 2 * MINUTE) 16 nothing_expected) 0 Unknown None None]"

definition SCENARIO_EVENTS :: "scenario_zone list \<Rightarrow> scenario_event list" where
  "SCENARIO_EVENTS zones = NATIONAL_BASELINE zones @ SEALED_ACTS @ LIVE_ACTS"

subsection \<open>The scenario at a time\<close>

text \<open>\<open>setUTCMinutes(0, 0, 0)\<close>.\<close>

definition floorToHour :: "int \<Rightarrow> int" where "floorToHour t = t - t mod 3600000"

definition resolve_event :: "int \<Rightarrow> int \<Rightarrow> int \<Rightarrow> scenario_event \<Rightarrow> resolved_event res" where
  "resolve_event sealedEpochStart liveAnchor runOffsetSeconds event =
     (let anchor = (if sc_band (common_of event) = Sealed then sealedEpochStart else liveAnchor);
          observedAtUnix = anchor div 1000 + sc_offsetSeconds (common_of event) + runOffsetSeconds
      in bindR (zoneAt (sc_zoneIndex (common_of event))) (\<lambda>zone.
         Inr \<lparr>re_event = event, re_zone = zone, re_observedAtUnix = observedAtUnix,
           re_observedAt = firmwareTimestamp observedAtUnix\<rparr>))"

definition buildScenario :: "int \<Rightarrow> int \<Rightarrow> scenario res" where
  "buildScenario now runOffsetSeconds =
     (let currentHour = floorToHour now; sealedEpochStart = currentHour - 60 * 60 * 1000; liveAnchor = now in
      bindR scenario_zones (\<lambda>zones.
      bindR (map_res (resolve_event sealedEpochStart liveAnchor runOffsetSeconds) (SCENARIO_EVENTS zones)) (\<lambda>events.
      Inr \<lparr>sn_sealedEpochStart = sealedEpochStart, sn_liveAnchor = liveAnchor, sn_zones = zones, sn_events = events\<rparr>)))"

definition FEATURED_ZONE_INDEXES :: "nat list" where
  "FEATURED_ZONE_INDEXES = [0, 10, 6, 19, 12, 8, 14, 16]"

text \<open>The default order of \<open>sort\<close> compares the strings.\<close>

definition coveredDiscoCodes :: "scenario_zone list \<Rightarrow> string list" where
  "coveredDiscoCodes zones = js_sort text_compare (js_unique (map sz_discoCode zones))"

end
