(* ===== verification/Simulator.thy ===== *)
theory Simulator imports Hardware_Scenario Js_Json Auth begin

section \<open>The hardware simulator\<close>

text \<open>
  \<open>scripts/simulate-hardware.ts\<close>: a client of the API that sends the scenario and checks the answers. The
  server is a state that \<open>fetch\<close> reads and changes; an operation of the simulator is a function of the
  simulator's own state and the server's. The clock, \<open>fetch\<close>, SHA-256, HMAC and base64url are parameters.
  The texts of the checks, which are only printed, are left out; a number that the code reads as
  \<open>NaN\<close> is \<open>None\<close>.
\<close>

subsection \<open>State and parameters\<close>

datatype sim_status = SimPass | SimWarn | SimFail

record sim_check =
  sk_name :: string
  sk_status :: sim_status

record http_result =
  ht_status :: int
  ht_body :: json

record fetch_call =
  fc_method :: string
  fc_url :: string
  fc_headers :: "(string, string) jsmap"
  fc_body :: "string option"

record 's sim_lib =
  sl_clock :: "'s \<Rightarrow> int"
  sl_fetch :: "fetch_call \<Rightarrow> 's \<Rightarrow> (int \<times> string) res \<times> 's"
  sl_sha256 :: "string \<Rightarrow> string"
  sl_hmac :: "string \<Rightarrow> string \<Rightarrow> string"
  sl_hmac64 :: "string \<Rightarrow> string \<Rightarrow> string"
  sl_base64url :: "string \<Rightarrow> string"

record 's simulator =
  sm_checks :: "sim_check list"
  sm_candidateIdByAct :: "(string, string) jsmap"
  sm_approvedZones :: "string list"
  sm_server :: 's

type_synonym ('s, 'a) sim = "'s simulator \<Rightarrow> 'a res \<times> 's simulator"

definition ret :: "'a \<Rightarrow> ('s, 'a) sim" where "ret x s = (Inr x, s)"

definition seq :: "('s, 'a) sim \<Rightarrow> ('a \<Rightarrow> ('s, 'b) sim) \<Rightarrow> ('s, 'b) sim" where
  "seq m f s = (case m s of (Inl e, s') \<Rightarrow> (Inl e, s') | (Inr x, s') \<Rightarrow> f x s')"

definition note_check :: "string \<Rightarrow> sim_status \<Rightarrow> ('s, unit) sim" where
  "note_check name status s = (Inr (), s\<lparr>sm_checks := sm_checks s @ [\<lparr>sk_name = name, sk_status = status\<rparr>]\<rparr>)"

subsection \<open>Reading answers\<close>

fun recordOf :: "json option \<Rightarrow> json_object option" where
  "recordOf (Some (JObj kvs)) = Some kvs"
| "recordOf v = None"

definition member :: "json option \<Rightarrow> string \<Rightarrow> json option" where
  "member v key = Option.bind (recordOf v) (\<lambda>kvs. map_of kvs key)"

definition text_field :: "json option \<Rightarrow> string \<Rightarrow> string option" where
  "text_field v key = (case member v key of Some (JStr s) \<Rightarrow> Some s | _ \<Rightarrow> None)"

definition numberField :: "json option \<Rightarrow> string \<Rightarrow> rat" where
  "numberField v key = (case member v key of Some (JNum n) \<Rightarrow> n | _ \<Rightarrow> 0)"

definition arrayField :: "json option \<Rightarrow> string \<Rightarrow> json list" where
  "arrayField v key = (case member v key of Some (JArr vs) \<Rightarrow> vs | _ \<Rightarrow> [])"

definition sim_decisionFor :: "rat option \<Rightarrow> agent_decision_status" where
  "sim_decisionFor confidence = (case confidence of
     None \<Rightarrow> Reject
   | Some c \<Rightarrow> if fl (85/100) \<le> c then Approve else if fl (5/10) \<le> c then Escalate else Reject)"

definition readinessFailures :: "json \<Rightarrow> string list" where
  "readinessFailures body = map (\<lambda>check. or_else (text_field (Some check) ''name'') ''unknown'')
     (filter (\<lambda>check. member (Some check) ''required'' = Some (JBool True) \<and>
        member (Some check) ''status'' = Some (JStr ''fail'')) (arrayField (Some body) ''checks''))"

subsection \<open>Requests\<close>

text \<open>The answer's text is read as JSON, or kept when it is not; an empty text is null.\<close>

definition answer_body :: "string \<Rightarrow> json" where
  "answer_body txt = (if txt = [] then JNull else or_else (json_parse txt) (JStr txt))"

definition httpJson ::
  "'s sim_lib \<Rightarrow> string \<Rightarrow> string \<Rightarrow> json_object option \<Rightarrow> string option \<Rightarrow> (string, string) jsmap \<Rightarrow> ('s, http_result) sim" where
  "httpJson L method url body token extraHeaders s =
     (let h0 = (''accept'', ''application/json'') # extraHeaders;
          h1 = (if body \<noteq> None then jm_set ''content-type'' ''application/json'' h0 else h0);
          h2 = (case token of Some t \<Rightarrow> if t = [] then h1 else jm_set ''authorization'' (''Bearer '' @ t) h1 | None \<Rightarrow> h1);
          (reply, server) = sl_fetch L \<lparr>fc_method = method, fc_url = url, fc_headers = h2,
            fc_body = map_option (\<lambda>b. json_stringify (JObj b)) body\<rparr> (sm_server s);
          s' = s\<lparr>sm_server := server\<rparr>
      in case reply of Inl e \<Rightarrow> (Inl e, s')
         | Inr (status, txt) \<Rightarrow> (Inr \<lparr>ht_status = status, ht_body = answer_body txt\<rparr>, s'))"

definition get_json :: "'s sim_lib \<Rightarrow> string \<Rightarrow> string option \<Rightarrow> ('s, http_result) sim" where
  "get_json L url token = httpJson L ''GET'' url None token []"

definition post_json :: "'s sim_lib \<Rightarrow> string \<Rightarrow> json_object \<Rightarrow> string option \<Rightarrow> ('s, http_result) sim" where
  "post_json L url body token = httpJson L ''POST'' url (Some body) token []"

subsection \<open>Options, environment, tokens\<close>

definition DEFAULT_BASE_URL :: string where "DEFAULT_BASE_URL = ''http://localhost:4000''"

record sim_options =
  so_baseUrl :: string
  so_runOffsetSeconds :: int

fun parse_args_from :: "string list \<Rightarrow> sim_options \<Rightarrow> sim_options res" where
  "parse_args_from [] options = Inr options"
| "parse_args_from [arg] options =
     (if arg = ''--base-url'' then Inl (plain_error ''--base-url requires a URL'')
      else if arg = ''--run-offset'' then Inl (plain_error ''--run-offset requires an integer number of seconds'')
      else Inr options)"
| "parse_args_from (arg # v # rest) options =
     (if arg = ''--base-url'' then
        if v = [] then Inl (plain_error ''--base-url requires a URL'')
        else parse_args_from rest (options\<lparr>so_baseUrl := drop_last_slash v\<rparr>)
      else if arg = ''--run-offset'' then
        (case parse_int v of
           None \<Rightarrow> Inl (plain_error ''--run-offset requires an integer number of seconds'')
         | Some n \<Rightarrow> parse_args_from rest (options\<lparr>so_runOffsetSeconds := n\<rparr>))
      else parse_args_from (v # rest) options)"

definition parseArgs :: "env \<Rightarrow> string list \<Rightarrow> sim_options res" where
  "parseArgs env argv = parse_args_from argv
     \<lparr>so_baseUrl = drop_last_slash (or_else (env ''GRIDPROOF_API_BASE_URL'') DEFAULT_BASE_URL), so_runOffsetSeconds = 0\<rparr>"

definition is_quote :: "char \<Rightarrow> bool" where "is_quote c \<longleftrightarrow> c = CHR 0x22 \<or> c = CHR 0x27"

definition strip_quotes :: "string \<Rightarrow> string" where
  "strip_quotes v = (let v1 = (if v \<noteq> [] \<and> is_quote (hd v) then tl v else v) in
     if v1 \<noteq> [] \<and> is_quote (last v1) then butlast v1 else v1)"

text \<open>A line of the file \<open>.env\<close> sets a name that the environment does not have.\<close>

definition load_env_line :: "string \<Rightarrow> env \<Rightarrow> env" where
  "load_env_line line env =
     (let trimmed = trim line in
      if trimmed = [] \<or> hd trimmed = CHR ''#'' then env
      else let separator = length (takeWhile (\<lambda>c. c \<noteq> CHR ''='') trimmed) in
        if separator = length trimmed \<or> separator = 0 then env
        else let key = trim (take separator trimmed) in
          if env key \<noteq> None then env
          else let v = strip_quotes (trim (drop (separator + 1) trimmed)) in
            if v = [] then env else env(key := Some v))"

definition loadApiEnv :: "string option \<Rightarrow> env \<Rightarrow> env" where
  "loadApiEnv file env = (case file of None \<Rightarrow> env
     | Some contents \<Rightarrow> fold load_env_line (split_on (CHR 0x0A) contents) env)"

definition telemetrySecret :: "env \<Rightarrow> string" where
  "telemetrySecret env = or_else (env ''TELEMETRY_HMAC_SECRET'') ''unsigned-local-demo''"

definition sim_jwtSecret :: "env \<Rightarrow> string" where
  "sim_jwtSecret env = (case env ''SUPABASE_JWT_SECRET'' of Some s \<Rightarrow> s
     | None \<Rightarrow> (case env ''GRIDPROOF_DEV_JWT_SECRET'' of Some s \<Rightarrow> s | None \<Rightarrow> LOCAL_DEV_JWT_SECRET))"

definition simulatorUserId :: "user_role \<Rightarrow> string" where
  "simulatorUserId role = ''00000000-0000-4000-9000-00000000000'' @
     (case role of Reporter \<Rightarrow> ''1'' | Reviewer \<Rightarrow> ''2'' | Admin \<Rightarrow> ''3'' | Public \<Rightarrow> ''undefined'')"

definition base64UrlJson :: "'s sim_lib \<Rightarrow> json \<Rightarrow> string" where
  "base64UrlJson L v = sl_base64url L (json_stringify v)"

definition mint_payload :: "user_role \<Rightarrow> int \<Rightarrow> json" where
  "mint_payload role now = JObj [(''sub'', JStr (simulatorUserId role)),
     (''email'', JStr (''sim-'' @ role_string role @ ''@gridproof.test'')), (''iat'', JNum (of_int now)),
     (''exp'', JNum (of_int (now + 3600))), (''app_metadata'', JObj [(''role'', JStr (role_string role))])]"

definition mintToken :: "'s sim_lib \<Rightarrow> env \<Rightarrow> int \<Rightarrow> user_role \<Rightarrow> string" where
  "mintToken L env now_ms role =
     (let now = now_ms div 1000;
          header = base64UrlJson L (JObj [(''alg'', JStr ''HS256''), (''typ'', JStr ''JWT'')]);
          payload = base64UrlJson L (mint_payload role now);
          signature = sl_hmac64 L (sim_jwtSecret env) (header @ ''.'' @ payload)
      in header @ ''.'' @ payload @ ''.'' @ signature)"

definition webhookHeaders :: "'s sim_lib \<Rightarrow> env \<Rightarrow> json_object \<Rightarrow> (string, string) jsmap" where
  "webhookHeaders L env body = (case env_set env ''WHATSAPP_WEBHOOK_SECRET'' of None \<Rightarrow> []
     | Some secret \<Rightarrow> [(''x-hub-signature-256'', ''sha256='' @ sl_hmac L secret (json_stringify (JObj body)))])"

subsection \<open>Preflight\<close>

definition checkApiReachable :: "'s sim_lib \<Rightarrow> string \<Rightarrow> ('s, unit) sim" where
  "checkApiReachable L baseUrl s =
     (case get_json L (baseUrl @ ''/api/v1/health'') None s of
        (Inl e, s') \<Rightarrow> note_check ''api_reachable'' SimFail s'
      | (Inr health, s') \<Rightarrow>
          if ht_status health \<noteq> 200 then note_check ''api_reachable'' SimFail s'
          else seq (note_check ''api_reachable'' SimPass) (\<lambda>_.
               seq (get_json L (baseUrl @ ''/api/v1/readiness'') None) (\<lambda>readiness.
               note_check ''api_readiness'' (if readinessFailures (ht_body readiness) = [] then SimPass else SimWarn))) s')"

definition checkZonesProvisioned :: "'s sim_lib \<Rightarrow> string \<Rightarrow> scenario \<Rightarrow> ('s, unit) sim" where
  "checkZonesProvisioned L baseUrl sn =
     seq (get_json L (baseUrl @ ''/api/v1/zones'') None) (\<lambda>response.
     let zones = arrayField (Some (ht_body response)) ''zones'';
         knownIds = concat (map (\<lambda>zone. case text_field (Some zone) ''id'' of
           Some i \<Rightarrow> if i = [] then [] else [i] | None \<Rightarrow> []) zones);
         missing = filter (\<lambda>zone. sz_id zone \<notin> set knownIds) (sn_zones sn)
     in note_check ''zones_provisioned'' (if missing = [] then SimPass else SimWarn))"

definition checkRoleEnforcement :: "'s sim_lib \<Rightarrow> string \<Rightarrow> string \<Rightarrow> ('s, unit) sim" where
  "checkRoleEnforcement L baseUrl reporterToken =
     seq (get_json L (baseUrl @ ''/api/v1/admin/review-queue'') (Some reporterToken)) (\<lambda>response.
     note_check ''rbac_enforced'' (if ht_status response = 403 then SimPass else SimFail))"

subsection \<open>Sending the scenario\<close>

definition signature_input :: "'s sim_lib \<Rightarrow> resolved_event \<Rightarrow> nat \<Rightarrow> evidence_status \<Rightarrow> rat option \<Rightarrow> rat option \<Rightarrow>
    telemetry_signature_input" where
  "signature_input L re meter status voltage currentAmps =
     (let deviceId = devEuiFor (sl_sha256 L) (sz_index (re_zone re)) meter in
      \<lparr>ts_deviceId = deviceId, ts_providerWallet = sensorWalletFor (sz_index (re_zone re)), ts_zoneId = sz_id (re_zone re),
       ts_idempotencyKey = idempotencyKeyFor deviceId (re_observedAtUnix re), ts_observedAt = re_observedAt re,
       ts_status = evidence_status_string status, ts_voltage = voltage,
       ts_currentAmps = (case currentAmps of Some a \<Rightarrow> Some a
         | None \<Rightarrow> (case status of GridUp \<Rightarrow> Some (of_nat (36 + meter * 8)) | GridDown \<Rightarrow> Some 0 | Unknown \<Rightarrow> None))\<rparr>)"

definition signed_body :: "telemetry_signature_input \<Rightarrow> string \<Rightarrow> json_object" where
  "signed_body si signature =
     [(''deviceId'', JStr (ts_deviceId si)), (''providerWallet'', JStr (ts_providerWallet si)), (''zoneId'', JStr (ts_zoneId si)),
      (''idempotencyKey'', JStr (ts_idempotencyKey si)), (''observedAt'', JStr (ts_observedAt si)),
      (''status'', JStr (ts_status si))] @
     json_field ''voltage'' (map_option JNum (ts_voltage si)) @
     json_field ''currentAmps'' (map_option JNum (ts_currentAmps si)) @ [(''signature'', JStr signature)]"

definition telemetryBody :: "'s sim_lib \<Rightarrow> env \<Rightarrow> resolved_event \<Rightarrow> json_object res" where
  "telemetryBody L env re = (case re_event re of
     SensorEvent c meter status voltage currentAmps \<Rightarrow>
       let signable = signature_input L re meter status voltage currentAmps in
       Inr (signed_body signable (signTelemetry (sl_hmac L) signable (telemetrySecret env)))
   | _ \<Rightarrow> Inl (plain_error ''telemetryBody expects a sensor event''))"

definition report_body :: "resolved_event \<Rightarrow> evidence_status \<Rightarrow> string \<Rightarrow> json_object" where
  "report_body re status report =
     [(''reporterWallet'', JStr (reporterWalletFor (sz_index (re_zone re)))), (''zoneId'', JStr (sz_id (re_zone re))),
      (''idempotencyKey'', JStr (''sim-report-'' @ nat_string (sz_index (re_zone re)) @ ''-'' @ int_string (re_observedAtUnix re))),
      (''observedAt'', JStr (re_observedAt re)), (''status'', JStr (evidence_status_string status)), (''note'', JStr report)]"

definition whatsapp_body :: "resolved_event \<Rightarrow> string \<Rightarrow> string \<Rightarrow> json_object" where
  "whatsapp_body re content fromPhone =
     [(''source'', JStr ''demo''),
      (''messageId'', JStr (''sim-wa-'' @ nat_string (sz_index (re_zone re)) @ ''-'' @ int_string (re_observedAtUnix re))),
      (''fromPhone'', JStr fromPhone), (''reporterWallet'', JStr (reporterWalletFor (sz_index (re_zone re)))),
      (''zoneId'', JStr (sz_id (re_zone re))), (''observedAt'', JStr (re_observedAt re)), (''text'', JStr content)]"

definition sendEvent :: "'s sim_lib \<Rightarrow> env \<Rightarrow> string \<Rightarrow> resolved_event \<Rightarrow> string \<Rightarrow> ('s, http_result) sim" where
  "sendEvent L env baseUrl re reporterToken = (case re_event re of
     SensorEvent c meter status voltage currentAmps \<Rightarrow>
       (case telemetryBody L env re of Inl e \<Rightarrow> (\<lambda>s. (Inl e, s))
        | Inr body \<Rightarrow> post_json L (baseUrl @ ''/api/v1/ingest/telemetry'') body None)
   | ReporterEvent c status report \<Rightarrow>
       post_json L (baseUrl @ ''/api/v1/ingest/report'') (report_body re status report) (Some reporterToken)
   | WhatsAppEvent c content fromPhone \<Rightarrow>
       let body = whatsapp_body re content fromPhone in
       httpJson L ''POST'' (baseUrl @ ''/api/v1/ingest/whatsapp-webhook'') (Some body) None (webhookHeaders L env body))"

definition far_from :: "rat option \<Rightarrow> rat \<Rightarrow> bool" where
  "far_from confidence expected = (case confidence of None \<Rightarrow> False | Some c \<Rightarrow> fl (1/1000000) < \<bar>fsub c expected\<bar>)"

definition verifyEvent :: "resolved_event \<Rightarrow> http_result \<Rightarrow> ('s, unit) sim" where
  "verifyEvent re response =
     (let c = common_of (re_event re); name = ''ingest:'' @ sc_act c; expected = sc_expect c;
          body = Some (ht_body response); found = recordOf (member body ''candidateEvent'') in
      if ht_status response \<noteq> 202 \<and> ht_status response \<noteq> 200 then note_check name SimFail
      else if member body ''duplicate'' = Some (JBool True) then note_check name SimWarn
      else case xp_candidate expected of
        None \<Rightarrow> note_check name (if found \<noteq> None then SimFail else SimPass)
      | Some status \<Rightarrow>
          (case found of
             None \<Rightarrow> note_check name SimFail
           | Some candidate \<Rightarrow>
               if map_of candidate ''status'' \<noteq> Some (JStr (candidate_status_string status)) then note_check name SimFail
               else (\<lambda>s.
                 let s1 = (case map_of candidate ''id'' of
                       Some (JStr i) \<Rightarrow> if i = [] then s
                         else s\<lparr>sm_candidateIdByAct := jm_set (sc_act c) i (sm_candidateIdByAct s)\<rparr>
                     | _ \<Rightarrow> s);
                   confidence = (case map_of candidate ''confidence'' of Some (JNum n) \<Rightarrow> Some n | _ \<Rightarrow> None);
                   decision = sim_decisionFor confidence;
                   s2 = (if decision = Approve
                         then s1\<lparr>sm_approvedZones := (if sz_id (re_zone re) \<in> set (sm_approvedZones s1) then sm_approvedZones s1
                           else sm_approvedZones s1 @ [sz_id (re_zone re)])\<rparr> else s1)
                 in if opt_any (far_from confidence) (xp_confidence expected) then note_check name SimFail s2
                    else if opt_any (\<lambda>d. decision \<noteq> d) (xp_decision expected) then note_check name SimFail s2
                    else note_check name SimPass s2)))"

fun send_events :: "'s sim_lib \<Rightarrow> env \<Rightarrow> string \<Rightarrow> string \<Rightarrow> resolved_event list \<Rightarrow> ('s, unit) sim" where
  "send_events L env baseUrl reporterToken [] = ret ()"
| "send_events L env baseUrl reporterToken (re # res) =
     seq (sendEvent L env baseUrl re reporterToken) (\<lambda>response.
     seq (verifyEvent re response) (\<lambda>_. send_events L env baseUrl reporterToken res))"

definition sendScenario :: "'s sim_lib \<Rightarrow> env \<Rightarrow> string \<Rightarrow> scenario \<Rightarrow> string \<Rightarrow> ('s, unit) sim" where
  "sendScenario L env baseUrl sn reporterToken = send_events L env baseUrl reporterToken (sn_events sn)"

subsection \<open>Guarantees of the firmware\<close>

definition find_act :: "scenario \<Rightarrow> string \<Rightarrow> resolved_event option" where
  "find_act sn name = find (\<lambda>re. sc_act (common_of (re_event re)) = name) (sn_events sn)"

definition with_body :: "json_object res \<Rightarrow> (json_object \<Rightarrow> ('s, 'a) sim) \<Rightarrow> ('s, 'a) sim" where
  "with_body body f = (case body of Inl e \<Rightarrow> (\<lambda>s. (Inl e, s)) | Inr b \<Rightarrow> f b)"

definition checkIdempotentReplay :: "'s sim_lib \<Rightarrow> env \<Rightarrow> string \<Rightarrow> scenario \<Rightarrow> ('s, unit) sim" where
  "checkIdempotentReplay L env baseUrl sn = (case find_act sn ''S2'' of
     None \<Rightarrow> note_check ''replay_idempotent'' SimFail
   | Some target \<Rightarrow> with_body (telemetryBody L env target) (\<lambda>body.
       seq (post_json L (baseUrl @ ''/api/v1/ingest/telemetry'') body None) (\<lambda>response.
       note_check ''replay_idempotent'' (if ht_status response = 200 \<and>
         member (Some (ht_body response)) ''duplicate'' = Some (JBool True) then SimPass else SimFail))))"

definition checkRejectedSignature :: "'s sim_lib \<Rightarrow> env \<Rightarrow> string \<Rightarrow> scenario \<Rightarrow> ('s, unit) sim" where
  "checkRejectedSignature L env baseUrl sn =
     (if env_set env ''TELEMETRY_HMAC_SECRET'' = None then note_check ''signature_rejected'' SimWarn
      else case find_act sn ''S4a'' of
        None \<Rightarrow> note_check ''signature_rejected'' SimFail
      | Some target \<Rightarrow> with_body (telemetryBody L env target) (\<lambda>body.
          seq (post_json L (baseUrl @ ''/api/v1/ingest/telemetry'') (jm_set ''voltage'' (JNum 10701) body) None) (\<lambda>response.
          note_check ''signature_rejected'' (if ht_status response = 401 then SimPass else SimFail))))"

definition checkClockSkewRejection :: "'s sim_lib \<Rightarrow> env \<Rightarrow> string \<Rightarrow> scenario \<Rightarrow> ('s, unit) sim" where
  "checkClockSkewRejection L env baseUrl sn = (case find_act sn ''S2'' of
     None \<Rightarrow> note_check ''clock_skew_rejected'' SimFail
   | Some target \<Rightarrow> (\<lambda>s.
       let futureUnix = sl_clock L (sm_server s) div 1000 + 30 * 60;
           skewed = target\<lparr>re_observedAtUnix := futureUnix, re_observedAt := take 19 (to_iso (futureUnix * 1000)) @ ''Z''\<rparr>
       in with_body (telemetryBody L env skewed) (\<lambda>body.
          seq (post_json L (baseUrl @ ''/api/v1/ingest/telemetry'') body None) (\<lambda>response.
          note_check ''clock_skew_rejected'' (if ht_status response = 400 then SimPass else SimFail))) s))"

subsection \<open>Human review\<close>

definition escalatedActs :: "string list" where
  "escalatedActs = [''S5a'', ''S6'', ''L1a'', ''L1b'', ''L1c'', ''L2'', ''L3'']"

text \<open>The candidate of an act, unless its identifier is empty.\<close>

definition act_candidate :: "'s simulator \<Rightarrow> string \<Rightarrow> string option" where
  "act_candidate s name = (case jm_get (sm_candidateIdByAct s) name of
     Some i \<Rightarrow> if i = [] then None else Some i | None \<Rightarrow> None)"

definition review_item :: "json list \<Rightarrow> string \<Rightarrow> json option" where
  "review_item items candidateId = find (\<lambda>item. text_field (Some item) ''candidateEventId'' = Some candidateId) items"

definition resolveOne ::
  "'s sim_lib \<Rightarrow> string \<Rightarrow> string \<Rightarrow> json list \<Rightarrow> string \<Rightarrow> bool \<Rightarrow> string \<Rightarrow> ('s, unit) sim" where
  "resolveOne L baseUrl reviewerToken items name approve report s =
     (let decision = (if approve then ''approve'' else ''reject'');
          reviewId = Option.bind (Option.bind (act_candidate s name) (review_item items)) (\<lambda>item. text_field (Some item) ''id'')
      in if reviewId = None \<or> reviewId = Some [] then note_check (''review_'' @ decision @ '':'' @ name) SimWarn s
         else
           seq (post_json L (baseUrl @ ''/api/v1/admin/review/'' @ the reviewId @ ''/decision'')
             [(''decision'', JStr decision), (''note'', JStr report)] (Some reviewerToken)) (\<lambda>response.
           let body = Some (ht_body response); epochScore = recordOf (member body ''epochScore'');
               commitment = recordOf (member body ''commitment'')
           in if ht_status response \<noteq> 200 then note_check (''review_'' @ decision @ '':'' @ name) SimFail
              else if approve then
                if epochScore = None \<or> commitment = None then note_check (''review_approve:'' @ name) SimFail
                else note_check ''review_approve:S6'' SimPass
              else if epochScore \<noteq> None \<or> commitment \<noteq> None then note_check (''review_reject:'' @ name) SimFail
              else note_check ''review_reject:L2'' SimPass) s)"

definition resolveReviewQueue :: "'s sim_lib \<Rightarrow> string \<Rightarrow> string \<Rightarrow> ('s, unit) sim" where
  "resolveReviewQueue L baseUrl reviewerToken =
     seq (get_json L (baseUrl @ ''/api/v1/admin/review-queue'') (Some reviewerToken)) (\<lambda>queue.
     if ht_status queue \<noteq> 200 then note_check ''review_queue'' SimFail
     else (\<lambda>s.
       let items = arrayField (Some (ht_body queue)) ''items'';
           present = filter (\<lambda>name. Option.bind (act_candidate s name) (review_item items) \<noteq> None) escalatedActs
       in if present = [] then note_check ''review_queue'' SimFail s
          else seq (note_check ''review_queue'' (if length present = length escalatedActs then SimPass else SimWarn)) (\<lambda>_.
               seq (resolveOne L baseUrl reviewerToken items ''S6'' True
                 ''Field crew confirmed the outage on the Akure feeder.'') (\<lambda>_.
               resolveOne L baseUrl reviewerToken items ''L2'' False
                 ''Single unverified report with no sensor coverage; not committing.'')) s))"

subsection \<open>Chain\<close>

definition CHAIN_SUBMIT_ROUNDS :: nat where "CHAIN_SUBMIT_ROUNDS = 8"

record chain_totals =
  ct_scanned :: rat
  ct_submitted :: rat
  ct_reason :: "string option"

text \<open>The loop over the rounds: \<open>None\<close> when an answer other than 200 ended the stage.\<close>

fun submit_rounds :: "'s sim_lib \<Rightarrow> string \<Rightarrow> string \<Rightarrow> nat \<Rightarrow> chain_totals \<Rightarrow> ('s, chain_totals option) sim" where
  "submit_rounds L baseUrl adminToken 0 totals = ret (Some totals)"
| "submit_rounds L baseUrl adminToken (Suc rounds) totals =
     seq (post_json L (baseUrl @ ''/api/v1/chain/submit-pending'') [] (Some adminToken)) (\<lambda>response.
     if ht_status response \<noteq> 200 then seq (note_check ''chain_submit'' SimFail) (\<lambda>_. ret None)
     else let body = Some (ht_body response); roundSubmitted = numberField body ''submitted'';
              totals' = \<lparr>ct_scanned = fadd (ct_scanned totals) (numberField body ''scanned''),
                ct_submitted = fadd (ct_submitted totals) roundSubmitted,
                ct_reason = (case text_field body ''reason'' of Some r \<Rightarrow> Some r | None \<Rightarrow> ct_reason totals)\<rparr>
          in if roundSubmitted = 0 then ret (Some totals') else submit_rounds L baseUrl adminToken rounds totals')"

definition driveChain :: "'s sim_lib \<Rightarrow> string \<Rightarrow> string \<Rightarrow> ('s, unit) sim" where
  "driveChain L baseUrl adminToken =
     seq (submit_rounds L baseUrl adminToken CHAIN_SUBMIT_ROUNDS \<lparr>ct_scanned = 0, ct_submitted = 0, ct_reason = None\<rparr>) (\<lambda>outcome.
     case outcome of
       None \<Rightarrow> ret ()
     | Some totals \<Rightarrow>
         seq (note_check ''chain_submit''
           (if ct_reason totals \<noteq> None \<and> ct_reason totals \<noteq> Some [] then SimWarn
            else if 0 < ct_submitted totals then SimPass else SimWarn)) (\<lambda>_.
         seq (post_json L (baseUrl @ ''/api/v1/chain/index-confirmations'') [] (Some adminToken)) (\<lambda>indexed.
         let body = Some (ht_body indexed) in
         note_check ''chain_index''
           (if ht_status indexed \<noteq> 200 then SimFail
            else if text_field body ''reason'' \<noteq> None then SimWarn
            else if 0 < numberField body ''failed'' then SimFail
            else if 0 < numberField body ''confirmed'' then SimPass else SimWarn))))"

subsection \<open>Public surfaces\<close>

fun count_proofs :: "'s sim_lib \<Rightarrow> string \<Rightarrow> scenario_zone list \<Rightarrow> nat \<Rightarrow> ('s, nat) sim" where
  "count_proofs L baseUrl [] withProof = ret withProof"
| "count_proofs L baseUrl (zone # zones) withProof =
     seq (get_json L (baseUrl @ ''/api/v1/chain/proof/'' @ sz_id zone @ ''/latest'') None) (\<lambda>response.
     count_proofs L baseUrl zones (if ht_status response = 200 \<and>
         recordOf (member (Some (ht_body response)) ''epochScore'') \<noteq> None then Suc withProof else withProof))"

definition checkHistory :: "'s sim_lib \<Rightarrow> string \<Rightarrow> scenario_zone option \<Rightarrow> ('s, unit) sim" where
  "checkHistory L baseUrl zone = (case zone of None \<Rightarrow> ret ()
   | Some z \<Rightarrow>
       seq (get_json L (baseUrl @ ''/api/v1/zones/'' @ sz_id z @ ''/history'') None) (\<lambda>response.
       let body = Some (ht_body response) in
       note_check ''zone_history'' (if ht_status response = 200 \<and> arrayField body ''candidates'' \<noteq> [] \<and>
         arrayField body ''epochScores'' \<noteq> [] then SimPass else SimFail)))"

definition checkPublicSurfaces :: "'s sim_lib \<Rightarrow> string \<Rightarrow> scenario \<Rightarrow> ('s, unit) sim" where
  "checkPublicSurfaces L baseUrl sn s =
     (let featured = take 4 (filter (\<lambda>zone. sz_id zone \<in> set (sm_approvedZones s)) (sn_zones sn)) in
      if featured = [] then note_check ''public_proof'' SimFail s
      else
        seq (count_proofs L baseUrl featured 0) (\<lambda>withProof.
        seq (note_check ''public_proof'' (if withProof = length featured then SimPass else SimFail)) (\<lambda>_.
        seq (checkHistory L baseUrl (Some (hd featured))) (\<lambda>_.
        seq (get_json L (baseUrl @ ''/api/v1/alerts'') None) (\<lambda>alerts.
        note_check ''public_alerts'' (if ht_status alerts = 200 \<and> arrayField (Some (ht_body alerts)) ''alerts'' \<noteq> []
          then SimPass else SimFail))))) s)"

subsection \<open>A run\<close>

definition any_failed :: "'s simulator \<Rightarrow> bool" where
  "any_failed s \<longleftrightarrow> list_ex (\<lambda>check. sk_status check = SimFail) (sm_checks s)"

definition clock_reading :: "'s sim_lib \<Rightarrow> ('s, int) sim" where
  "clock_reading L s = (Inr (sl_clock L (sm_server s)), s)"

definition lift_res :: "'a res \<Rightarrow> ('s, 'a) sim" where "lift_res r s = (r, s)"

text \<open>The stages after the preflight of the API.\<close>

definition run_stages :: "'s sim_lib \<Rightarrow> env \<Rightarrow> string \<Rightarrow> scenario \<Rightarrow> string \<Rightarrow> string \<Rightarrow> string \<Rightarrow> ('s, unit) sim" where
  "run_stages L env baseUrl sn reporterToken reviewerToken adminToken =
     seq (checkZonesProvisioned L baseUrl sn) (\<lambda>_.
     seq (checkRoleEnforcement L baseUrl reporterToken) (\<lambda>_.
     seq (sendScenario L env baseUrl sn reporterToken) (\<lambda>_.
     seq (checkIdempotentReplay L env baseUrl sn) (\<lambda>_.
     seq (checkRejectedSignature L env baseUrl sn) (\<lambda>_.
     seq (checkClockSkewRejection L env baseUrl sn) (\<lambda>_.
     seq (resolveReviewQueue L baseUrl reviewerToken) (\<lambda>_.
     seq (driveChain L baseUrl adminToken) (\<lambda>_.
     checkPublicSurfaces L baseUrl sn))))))))"

definition sim_main :: "'s sim_lib \<Rightarrow> env \<Rightarrow> string option \<Rightarrow> string list \<Rightarrow> ('s, unit) sim" where
  "sim_main L env0 envFile argv =
     seq (lift_res (parseArgs env0 argv)) (\<lambda>options.
     let env = loadApiEnv envFile env0; baseUrl = so_baseUrl options in
     seq (clock_reading L) (\<lambda>now.
     seq (lift_res (buildScenario now (so_runOffsetSeconds options))) (\<lambda>sn.
     seq (clock_reading L) (\<lambda>now.
     let token = mintToken L env now in
     seq (checkApiReachable L baseUrl) (\<lambda>_ s.
       if any_failed s then (Inr (), s)
       else run_stages L env baseUrl sn (token Reporter) (token Reviewer) (token Admin) s)))))"

text \<open>The exit code: 1 when the run threw or a check failed.\<close>

definition sim_exit_code :: "'s sim_lib \<Rightarrow> env \<Rightarrow> string option \<Rightarrow> string list \<Rightarrow> 's \<Rightarrow> int \<times> 's simulator" where
  "sim_exit_code L env0 envFile argv server =
     (case sim_main L env0 envFile argv \<lparr>sm_checks = [], sm_candidateIdByAct = [], sm_approvedZones = [], sm_server = server\<rparr> of
        (Inl e, s) \<Rightarrow> (1, s)
      | (Inr _, s) \<Rightarrow> (if any_failed s then 1 else 0, s))"

end
