(* ===== verification/Scenario_Answers.thy ===== *)
theory Scenario_Answers imports Simulator Ingestion begin

section \<open>The scenario against the detection rules\<close>

text \<open>
  The simulator's expectations, written by hand in the scenario, compared with what the API detects when
  the scenario is sent to it in order. The API's side is the ingestion into the memory store.
\<close>

subsection \<open>Scores with few witnesses\<close>

lemma agreement_step_other: "date_parse (ev_observedAt s) = Some t \<Longrightarrow> \<not> comparable s a \<Longrightarrow> agreement_step lc s t a w = w"
  by (cases w) (simp add: agreement_step_cases agrees_def conflicts_def)

lemma agreement_loop_filter: "agreement_loop lc s es = agreement_loop lc s (filter (comparable s) es)"
proof (cases "date_parse (ev_observedAt s)")
  case (Some t)
  have "fold (agreement_step lc s t) es w = fold (agreement_step lc s t) (filter (comparable s) es) w" for w
    by (induction es arbitrary: w) (simp_all add: agreement_step_other[OF Some])
  with Some show ?thesis by (simp add: agreement_loop_def)
qed (simp add: agreement_loop_def)

lemma score_filter: "scoreCrossSourceAgreement lc s es = scoreCrossSourceAgreement lc s (filter (comparable s) es)"
  by (simp add: scoreCrossSourceAgreement_def agreement_loop_filter[of lc s es])

definition no_bonus :: rat where "no_bonus = roundConfidence (min 0 MAX_AGREEMENT_BONUS)"
definition one_bonus :: "bool \<Rightarrow> rat" where
  "one_bonus same = roundConfidence (min (fadd 0 (if same then SAME_SOURCE_BONUS else CROSS_SOURCE_BONUS)) MAX_AGREEMENT_BONUS)"

text \<open>The confidence from the base, the bonus and whether a witness conflicts.\<close>

definition settled_confidence :: "rat \<Rightarrow> rat \<Rightarrow> bool \<Rightarrow> rat" where
  "settled_confidence base b contested = roundConfidence (min (max (
     if contested then min (min (fadd base b) MAX_AGREED_CONFIDENCE) CONFLICT_CONFIDENCE_CEILING
     else min (fadd base b) MAX_AGREED_CONFIDENCE) 0) 1)"

lemma apply_settled: "applyAgreement base a = settled_confidence base (bonus a) (0 < conflicting a)"
  by (simp add: applyAgreement_def settled_confidence_def Let_def)

lemma few_witnesses:
  assumes "date_parse (ev_observedAt s) \<noteq> None"
  shows "filter (comparable s) es = [] \<Longrightarrow>
      applyAgreement base (scoreCrossSourceAgreement lc s es) = settled_confidence base no_bonus False"
    "filter (comparable s) es = [x] \<Longrightarrow>
      applyAgreement base (scoreCrossSourceAgreement lc s es) =
        (if ev_status x = ev_status s then settled_confidence base (one_bonus (ev_source x = ev_source s)) False
         else settled_confidence base no_bonus True)"
proof -
  obtain t where t: "date_parse (ev_observedAt s) = Some t" using assms by auto
  have score: "scoreCrossSourceAgreement lc s es = scoreCrossSourceAgreement lc s (filter (comparable s) es)" by (rule score_filter)
  show "applyAgreement base (scoreCrossSourceAgreement lc s es) = settled_confidence base no_bonus False"
    if "filter (comparable s) es = []"
    unfolding score that by (simp add: apply_settled scoreCrossSourceAgreement_def agreement_loop_def t no_bonus_def)
  show "applyAgreement base (scoreCrossSourceAgreement lc s es) =
        (if ev_status x = ev_status s then settled_confidence base (one_bonus (ev_source x = ev_source s)) False
         else settled_confidence base no_bonus True)" if f: "filter (comparable s) es = [x]"
  proof -
    have "comparable s x" using f by (auto dest: filter_eq_ConsD)
    then have "agrees s x = (ev_status x = ev_status s)" "conflicts s x = (ev_status x \<noteq> ev_status s)"
      by (simp_all add: agrees_def conflicts_def)
    then show ?thesis unfolding score f
      by (simp add: apply_settled scoreCrossSourceAgreement_def agreement_loop_def t agreement_step_cases[OF t]
          no_bonus_def one_bonus_def source_bonus_def add_to_set_def)
  qed
qed

subsection \<open>What the API makes of a request\<close>

text \<open>The fields of a body, as the schemas of the API read them.\<close>

definition parse_status :: "string \<Rightarrow> evidence_status" where
  "parse_status s = (if s = ''grid_up'' then GridUp else if s = ''grid_down'' then GridDown else Unknown)"

definition body_string :: "json_object \<Rightarrow> string \<Rightarrow> string" where
  "body_string body key = or_else (text_field (Some (JObj body)) key) []"

definition body_number :: "json_object \<Rightarrow> string \<Rightarrow> rat option" where
  "body_number body key = (case map_of body key of Some (JNum n) \<Rightarrow> Some n | _ \<Rightarrow> None)"

definition telemetry_of_body :: "json_object \<Rightarrow> telemetry_request" where
  "telemetry_of_body b = \<lparr>te_deviceId = body_string b ''deviceId'', te_providerWallet = body_string b ''providerWallet'',
     te_zoneId = body_string b ''zoneId'', te_idempotencyKey = body_string b ''idempotencyKey'',
     te_observedAt = body_string b ''observedAt'', te_status = parse_status (body_string b ''status''),
     te_voltage = body_number b ''voltage'', te_currentAmps = body_number b ''currentAmps'',
     te_signature = body_string b ''signature''\<rparr>"

definition report_of_body :: "json_object \<Rightarrow> reporter_request" where
  "report_of_body b = \<lparr>rp_reporterWallet = body_string b ''reporterWallet'', rp_zoneId = body_string b ''zoneId'',
     rp_idempotencyKey = body_string b ''idempotencyKey'', rp_observedAt = body_string b ''observedAt'',
     rp_status = parse_status (body_string b ''status''), rp_note = text_field (Some (JObj b)) ''note''\<rparr>"

definition whatsapp_of_body :: "json_object \<Rightarrow> whatsapp_request" where
  "whatsapp_of_body b = \<lparr>wa_source = DemoSource, wa_messageId = body_string b ''messageId'',
     wa_fromPhone = body_string b ''fromPhone'', wa_reporterWallet = body_string b ''reporterWallet'',
     wa_zoneId = body_string b ''zoneId'', wa_observedAt = text_field (Some (JObj b)) ''observedAt'',
     wa_text = body_string b ''text'', wa_status = None\<rparr>"

text \<open>The request that the API stores for an event of the scenario.\<close>

definition scenario_item :: "'s sim_lib \<Rightarrow> env \<Rightarrow> int \<Rightarrow> resolved_event \<Rightarrow> ingest_item" where
  "scenario_item L env now re = (case re_event re of
     SensorEvent c meter status voltage currentAmps \<Rightarrow>
       (case telemetryBody L env re of Inr body \<Rightarrow> Telemetry (telemetry_of_body body)
        | Inl e \<Rightarrow> Telemetry (telemetry_of_body []))
   | ReporterEvent c status report \<Rightarrow> Report (report_of_body (report_body re status report))
   | WhatsAppEvent c content fromPhone \<Rightarrow>
       Report (reporterInputFromWhatsapp now (whatsapp_of_body (whatsapp_body re content fromPhone))))"

definition json_of_evidence :: "evidence_event \<Rightarrow> json" where
  "json_of_evidence e = JObj [(''id'', JStr (ev_id e)), (''providerId'', JStr (ev_providerId e)), (''zoneId'', JStr (ev_zoneId e)),
     (''idempotencyKey'', JStr (ev_idempotencyKey e)), (''source'', JStr (provider_type_string (ev_source e))),
     (''status'', JStr (evidence_status_string (ev_status e))), (''voltage'', json_of_option JNum (ev_voltage e)),
     (''currentAmps'', json_of_option JNum (ev_currentAmps e)), (''confidenceHint'', json_of_option JNum (ev_confidenceHint e)),
     (''rawPayload'', JObj (ev_rawPayload e)), (''observedAt'', JStr (ev_observedAt e)), (''receivedAt'', JStr (ev_receivedAt e))]"

definition json_of_candidate :: "candidate_event \<Rightarrow> json" where
  "json_of_candidate c = JObj [(''id'', JStr (ca_id c)), (''zoneId'', JStr (ca_zoneId c)),
     (''status'', JStr (candidate_status_string (ca_status c))), (''confidence'', JNum (ca_confidence c)),
     (''windowStart'', JStr (ca_windowStart c)), (''windowEnd'', JStr (ca_windowEnd c)),
     (''evidenceEventIds'', JArr (map JStr (ca_evidenceEventIds c))), (''createdAt'', JStr (ca_createdAt c))]"

definition ingest_answer :: "ingest_store_result \<Rightarrow> http_result" where
  "ingest_answer r = \<lparr>ht_status = (if ir_duplicate r then 200 else 202), ht_body = JObj [(''accepted'', JBool True),
     (''duplicate'', JBool (ir_duplicate r)), (''evidenceEvent'', json_of_evidence (ir_evidenceEvent r)),
     (''candidateEvent'', json_of_option json_of_candidate (ir_candidateEvent r))]\<rparr>"

text \<open>The events of the scenario, sent in order, and what the simulator notes of the answers.\<close>

fun play :: "runtime \<Rightarrow> world sim_lib \<Rightarrow> env \<Rightarrow> resolved_event list \<Rightarrow> world simulator \<Rightarrow> world simulator" where
  "play rt L env [] s = s"
| "play rt L env (re # res) s =
     (case ingest rt (scenario_item L env (w_now (sm_server s)) re) (sm_server s) of
        (Inl e, w) \<Rightarrow> s\<lparr>sm_server := w\<rparr>
      | (Inr r, w) \<Rightarrow> play rt L env res (snd (verifyEvent re (ingest_answer r) (s\<lparr>sm_server := w\<rparr>))))"


subsection \<open>One event\<close>

fun event_of_item :: "ingest_item \<Rightarrow> string \<Rightarrow> string \<Rightarrow> string \<Rightarrow> evidence_event" where
  "event_of_item (Telemetry r) = telemetry_event r"
| "event_of_item (Report r) = reporter_event r"

lemma event_of_item_sel [simp]:
  "ev_id (event_of_item item i p n) = i" "ev_observedAt (event_of_item item i p n) = ingest_observedAt item"
  "ev_idempotencyKey (event_of_item item i p n) = ingest_key item"
  by (cases item; simp add: telemetry_event_def reporter_event_def)+

definition detects :: "string \<Rightarrow> evidence_event \<Rightarrow> evidence_event list \<Rightarrow> (string \<Rightarrow> string \<Rightarrow> int) \<Rightarrow> candidate_event option \<Rightarrow> bool" where
  "detects uuid e es lc c \<longleftrightarrow>
     (if ev_status e = Unknown then c = None
      else \<exists>d. c = Some d \<and> ca_id d = uuid \<and> ca_status d = (if ev_status e = GridDown then Outage else Restored) \<and>
        ca_confidence d = applyAgreement (confidenceForEvidence e) (scoreCrossSourceAgreement lc e es))"

lemma ingest_memory_new:
  assumes "\<not> isDatabaseConfigured rt" "jm_get (evidenceByIdempotencyKey w) (ingest_key item) = None"
    and "date_parse (ingest_observedAt item) \<noteq> None"
  defines "e \<equiv> event_of_item item (rt_uuid rt (w_uuids w)) (rt_uuid rt (Suc (w_uuids w))) (to_iso (w_now w))"
  shows "\<exists>c n cs. ingest rt item w = (Inr \<lparr>ir_duplicate = False, ir_evidenceEvent = e, ir_candidateEvent = c\<rparr>,
      w\<lparr>w_uuids := n, evidenceByIdempotencyKey := jm_set (ingest_key item) e (evidenceByIdempotencyKey w), candidatesByKey := cs\<rparr>) \<and>
    w_uuids w < n \<and>
    (\<exists>es. filter (comparable e) es = filter (comparable e) (jm_values (evidenceByIdempotencyKey w)) \<and>
       detects (rt_uuid rt (Suc (Suc (w_uuids w)))) e es (rt_lc rt) c)"
proof -
  let ?ev = "jm_set (ingest_key item) e (evidenceByIdempotencyKey w)"
  let ?recent = "filter (\<lambda>x. Some (ev_zoneId e) = Some [] \<or> ev_zoneId e = ev_zoneId x) (jm_values ?ev)"
  have ing: "ingest rt item w = upsert_memory_evidence rt (ingest_key item) (event_of_item item) w"
    using assms(1) by (cases item) (simp_all add: upsertTelemetryEvidence_def upsertReporterEvidence_def)
  have vals: "jm_values ?ev = jm_values (evidenceByIdempotencyKey w) @ [e]"
    using assms(2) by (simp add: jm_values_set_new)
  have "comparable e x \<longrightarrow> ev_zoneId e = ev_zoneId x" "\<not> comparable e e" for x by (auto simp: comparable_def)
  then have same: "filter (comparable e) ?recent = filter (comparable e) (jm_values (evidenceByIdempotencyKey w))"
    unfolding vals filter_filter by (auto intro: filter_cong)
  obtain t where t: "date_parse (ev_observedAt e) = Some t" using assms(3) by (auto simp: e_def)
  show ?thesis
  proof (cases "ev_status e = Unknown")
    case True
    have "ingest rt item w = (Inr \<lparr>ir_duplicate = False, ir_evidenceEvent = e, ir_candidateEvent = None\<rparr>,
      w\<lparr>w_uuids := w_uuids w + 2, evidenceByIdempotencyKey := ?ev, candidatesByKey := candidatesByKey w\<rparr>)"
      using assms(2) True unfolding ing e_def
      by (simp add: upsert_memory_evidence_def Let_def storeMemoryCandidate_def listMemoryEvidence_def run_detection_def
          detectCandidateFromEvidence_def bindS_def numeral_2_eq_2)
    moreover have "detects u e (jm_values (evidenceByIdempotencyKey w)) lc None" for u lc using True by (simp add: detects_def)
    ultimately show ?thesis by (intro exI conjI) (assumption | simp)+
  next
    case False
    define c where "c = \<lparr>ca_id = rt_uuid rt (Suc (Suc (w_uuids w))), ca_zoneId = ev_zoneId e,
      ca_status = (if ev_status e = GridDown then Outage else Restored),
      ca_confidence = applyAgreement (confidenceForEvidence e) (scoreCrossSourceAgreement (rt_lc rt) e ?recent),
      ca_windowStart = to_iso (t - 5 * 60 * 1000), ca_windowEnd = ev_observedAt e,
      ca_evidenceEventIds = ev_id e # supportingEvidenceIds (scoreCrossSourceAgreement (rt_lc rt) e ?recent),
      ca_createdAt = to_iso (w_now w)\<rparr>"
    have "ingest rt item w = (Inr \<lparr>ir_duplicate = False, ir_evidenceEvent = e, ir_candidateEvent = Some c\<rparr>,
      w\<lparr>w_uuids := w_uuids w + 3, evidenceByIdempotencyKey := ?ev,
        candidatesByKey := jm_set (candidateKeyFor e) c (candidatesByKey w)\<rparr>)"
      using assms(2) False t unfolding ing c_def e_def
      by (simp add: upsert_memory_evidence_def Let_def storeMemoryCandidate_def listMemoryEvidence_def run_detection_def
          detectCandidateFromEvidence_def bindS_def numeral_2_eq_2 numeral_3_eq_3)
    moreover have "detects (rt_uuid rt (Suc (Suc (w_uuids w)))) e ?recent (rt_lc rt) (Some c)"
      using False by (simp add: detects_def c_def)
    ultimately show ?thesis using same
      by (intro exI[of _ "Some c"] exI[of _ "w_uuids w + 3"] exI[of _ "jm_set (candidateKeyFor e) c (candidatesByKey w)"] conjI exI[of _ ?recent]) simp_all
  qed
qed

end
