(* ===== verification/Scenario_Events.thy ===== *)
theory Scenario_Events imports Scenario_Answers begin

section \<open>The events of the scenario\<close>

text \<open>
  Which events of the scenario bear witness for or against each other, what confidence each must get, and
  that the expectations written in the scenario foresee it.
\<close>

subsection \<open>The events as data\<close>

fun event_status :: "scenario_event \<Rightarrow> evidence_status" where
  "event_status (SensorEvent c meter status voltage currentAmps) = status"
| "event_status (ReporterEvent c status report) = status"
| "event_status (WhatsAppEvent c content fromPhone) = inferStatusFromMessage content"

text \<open>The meter of a sensor event; reports have none.\<close>

fun event_meter :: "scenario_event \<Rightarrow> nat option" where
  "event_meter (SensorEvent c meter status voltage currentAmps) = Some meter"
| "event_meter (ReporterEvent c status report) = None"
| "event_meter (WhatsAppEvent c content fromPhone) = None"

fun event_base :: "scenario_event \<Rightarrow> rat" where
  "event_base (SensorEvent c meter status voltage currentAmps) =
     (if status = GridDown \<and> opt_any (\<lambda>v. v \<le> 5) voltage then fl (95/100)
      else if status = GridUp \<and> opt_any (\<lambda>v. v \<ge> 180) voltage then fl (9/10) else fl (72/100))"
| "event_base e = fl (65/100)"

abbreviation event_zone :: "scenario_event \<Rightarrow> nat" where "event_zone e \<equiv> sc_zoneIndex (common_of e)"

definition demo_scenario_zone :: "nat \<Rightarrow> scenario_zone" where
  "demo_scenario_zone i = (let zone = demo_zone_of i (SEEDS ! i) in
     \<lparr>sz_index = i, sz_id = zo_id zone, sz_zoneKey = zo_zoneKey zone, sz_name = zo_name zone,
      sz_discosFeederCode = zo_discosFeederCode zone, sz_discoCode = hd (split_on CHR ''-'' (zo_discosFeederCode zone)),
      sz_baselineStatus = sd_status (SEEDS ! i)\<rparr>)"

lemma seeds_length: "length SEEDS = 23" by (simp add: SEEDS_def)

lemma demo_zone_nth: "i < 23 \<Longrightarrow> DEMO_NATIONAL_ZONES ! i = demo_zone_of i (SEEDS ! i)"
  by (simp add: DEMO_NATIONAL_ZONES_def enumerate_eq_zip seeds_length)

lemma demo_zones_length: "length DEMO_NATIONAL_ZONES = 23" by (simp add: DEMO_NATIONAL_ZONES_def seeds_length)

lemma zoneAt_demo: "i < 23 \<Longrightarrow> zoneAt i = Inr (demo_scenario_zone i)"
  by (simp add: zoneAt_def demo_zones_length demo_zone_nth demo_scenario_zone_def Let_def demo_zone_of_def)

definition all_events :: "scenario_event list" where
  "all_events = SCENARIO_EVENTS (map demo_scenario_zone [0..<23])"

definition baseline_event :: "nat \<Rightarrow> evidence_status \<Rightarrow> scenario_event" where
  "baseline_event i st = SensorEvent \<lparr>sc_act = ''S1'', sc_band = Sealed, sc_offsetSeconds = 300, sc_zoneIndex = i,
     sc_expect = baselineExpectation st\<rparr> 0 st (voltageForBaseline st) None"

lemma all_events_eq:
  "all_events = map (\<lambda>(i, st). baseline_event i st) (enumerate 0 (map sd_status SEEDS)) @ SEALED_ACTS @ LIVE_ACTS"
proof -
  have "NATIONAL_BASELINE (map demo_scenario_zone [0..<23]) = map (\<lambda>i. baseline_event i (sd_status (SEEDS ! i))) [0..<23]"
    by (simp add: NATIONAL_BASELINE_def demo_scenario_zone_def Let_def baseline_event_def MINUTE_def del: upt_rec_numeral)
  also have "\<dots> = map (\<lambda>(i, st). baseline_event i st) (enumerate 0 (map sd_status SEEDS))"
    by (rule nth_equalityI) (simp_all add: seeds_length nth_enumerate_eq)
  finally show ?thesis by (simp add: all_events_def SCENARIO_EVENTS_def)
qed

definition static_near :: "scenario_event \<Rightarrow> scenario_event \<Rightarrow> bool" where
  "static_near a b \<longleftrightarrow> event_zone b = event_zone a \<and> event_status b \<noteq> Unknown \<and> event_meter b \<noteq> event_meter a \<and>
     sc_band (common_of b) = sc_band (common_of a) \<and>
     \<bar>sc_offsetSeconds (common_of b) - sc_offsetSeconds (common_of a)\<bar> \<le> 600"

definition predicted :: "scenario_event \<Rightarrow> scenario_event list \<Rightarrow> rat" where
  "predicted e witnesses = (case witnesses of
     [] \<Rightarrow> settled_confidence (event_base e) no_bonus False
   | x # xs \<Rightarrow>
       if event_status x = event_status e
       then settled_confidence (event_base e) (one_bonus ((event_meter x = None) = (event_meter e = None))) False
       else settled_confidence (event_base e) no_bonus True)"

definition foreseen :: "scenario_event \<Rightarrow> scenario_event list \<Rightarrow> bool" where
  "foreseen e witnesses \<longleftrightarrow> length witnesses \<le> 1 \<and>
     (if event_status e = Unknown then xp_candidate (sc_expect (common_of e)) = None
      else xp_candidate (sc_expect (common_of e)) = Some (if event_status e = GridDown then Outage else Restored) \<and>
        \<not> opt_any (far_from (Some (predicted e witnesses))) (xp_confidence (sc_expect (common_of e))) \<and>
        \<not> opt_any (\<lambda>d. sim_decisionFor (Some (predicted e witnesses)) \<noteq> d) (xp_decision (sc_expect (common_of e))))"

fun all_foreseen :: "scenario_event list \<Rightarrow> scenario_event list \<Rightarrow> bool" where
  "all_foreseen before [] \<longleftrightarrow> True"
| "all_foreseen before (e # es) \<longleftrightarrow> foreseen e (filter (static_near e) before) \<and> all_foreseen (before @ [e]) es"

lemma statuses: "map sd_status SEEDS = [GridUp, GridDown, Unknown, GridUp, GridDown, GridUp, GridUp, GridDown, GridUp, GridUp,
    GridUp, GridUp, GridDown, GridUp, Unknown, GridUp, GridDown, GridUp, GridUp, GridDown, GridUp, GridUp, Unknown]"
  by (simp add: SEEDS_def)

lemma all_foreseen_append: "all_foreseen before (xs @ ys) \<longleftrightarrow> all_foreseen before xs \<and> all_foreseen (before @ xs) ys"
  by (induction xs arbitrary: before) simp_all

lemma settled_values:
  "settled_confidence (fl (95/100)) no_bonus False = fl (95/100)" "settled_confidence (fl (9/10)) no_bonus False = fl (9/10)"
  "settled_confidence (fl (65/100)) no_bonus False = fl (65/100)" "settled_confidence (fl (95/100)) no_bonus True = fl (8/10)"
  "settled_confidence (fl (95/100)) (one_bonus True) False = fl (97/100)"
  "settled_confidence (fl (95/100)) (one_bonus False) False = fl (97/100)"
  "settled_confidence (fl (9/10)) (one_bonus True) False = fl (94/100)"
  by (simp_all add: settled_confidence_def no_bonus_def one_bonus_def roundConfidence_def fadd_def MAX_AGREED_CONFIDENCE_def
      MAX_AGREEMENT_BONUS_def SAME_SOURCE_BONUS_def CROSS_SOURCE_BONUS_def CONFLICT_CONFIDENCE_CEILING_def fl_eval)

lemma far_from_same: "\<not> far_from (Some c) c"
  by (simp add: far_from_def fsub_def fl_eval)

lemma decision_values:
  "sim_decisionFor (Some (fl (95/100))) = Approve" "sim_decisionFor (Some (fl (9/10))) = Approve"
  "sim_decisionFor (Some (fl (97/100))) = Approve" "sim_decisionFor (Some (fl (94/100))) = Approve"
  "sim_decisionFor (Some (fl (65/100))) = Escalate" "sim_decisionFor (Some (fl (8/10))) = Escalate"
  by (simp_all add: sim_decisionFor_def fl_eval)

text \<open>The same with the fractions as the simplifier writes them.\<close>

lemmas scenario_values = settled_values[simplified] decision_values[simplified] far_from_same

lemma baseline_sel [simp]:
  "common_of (baseline_event i st) = \<lparr>sc_act = ''S1'', sc_band = Sealed, sc_offsetSeconds = 300, sc_zoneIndex = i,
     sc_expect = baselineExpectation st\<rparr>"
  "event_status (baseline_event i st) = st" "event_meter (baseline_event i st) = Some 0"
  by (simp_all add: baseline_event_def)

lemma baseline_base:
  "event_base (baseline_event i GridUp) = fl (9/10)" "event_base (baseline_event i GridDown) = fl (95/100)"
  by (simp_all add: baseline_event_def HEALTHY_LINE_VOLTAGE_V_def DEAD_LINE_VOLTAGE_V_def)

lemma baseline_foreseen: "foreseen (baseline_event i st) []"
  by (cases st) (simp_all add: foreseen_def predicted_def baseline_base scenario_values)

lemma baselines_foreseen: "all_foreseen before (map (\<lambda>(i, st). baseline_event i st) (enumerate n sts))"
  if "\<forall>e \<in> set before. event_zone e < n"
  using that
proof (induction sts arbitrary: before n)
  case (Cons st sts)
  have "filter (static_near (baseline_event n st)) before = []"
    using Cons.prems by (auto simp: filter_empty_conv static_near_def)
  moreover have "\<forall>e \<in> set (before @ [baseline_event n st]). event_zone e < Suc n"
    using Cons.prems by (auto simp: less_Suc_eq)
  note Cons.IH[OF this]
  ultimately show ?case by (simp add: baseline_foreseen)
qed simp

lemma far_baselines:
  assumes "sc_band (common_of e) = Live \<or> 900 < sc_offsetSeconds (common_of e)"
  shows "filter (static_near e) (map (\<lambda>(i, st). baseline_event i st) xs) = []"
  using assms by (auto simp: filter_empty_conv static_near_def)

lemma onitsha_down: "inferStatusFromMessage ''No light since morning here at Onitsha main market'' = GridDown"
  by code_simp

lemma acts_foreseen: "all_foreseen (map (\<lambda>(i, st). baseline_event i st) xs) (SEALED_ACTS @ LIVE_ACTS)"
  by (simp add: SEALED_ACTS_def LIVE_ACTS_def MINUTE_def far_baselines static_near_def onitsha_down)
    (simp add: foreseen_def predicted_def onitsha_down scenario_values
      HEALTHY_LINE_VOLTAGE_V_def DEAD_LINE_VOLTAGE_V_def RESIDUAL_LINE_VOLTAGE_V_def)

lemma scenario_foreseen: "all_foreseen [] all_events"
  unfolding all_events_eq using baselines_foreseen[of "[]" 0] acts_foreseen by (simp add: all_foreseen_append)

subsection \<open>The evidence of an event\<close>

definition sent_at :: "int \<Rightarrow> scenario_event \<Rightarrow> resolved_event" where
  "sent_at u e = \<lparr>re_event = e, re_zone = demo_scenario_zone (event_zone e), re_observedAtUnix = u, re_observedAt = firmwareTimestamp u\<rparr>"

lemma zone_sel [simp]: "sz_index (demo_scenario_zone i) = i"
  by (simp add: demo_scenario_zone_def Let_def)

lemma parse_status_string [simp]: "parse_status (evidence_status_string st) = st"
  by (cases st) (simp_all add: parse_status_def)

lemma body_lookups:
  "body_string (signed_body si sg) ''deviceId'' = ts_deviceId si" "body_string (signed_body si sg) ''providerWallet'' = ts_providerWallet si"
  "body_string (signed_body si sg) ''zoneId'' = ts_zoneId si" "body_string (signed_body si sg) ''idempotencyKey'' = ts_idempotencyKey si"
  "body_string (signed_body si sg) ''observedAt'' = ts_observedAt si" "body_string (signed_body si sg) ''status'' = ts_status si"
  "body_string (signed_body si sg) ''signature'' = sg"
  "body_number (signed_body si sg) ''voltage'' = ts_voltage si" "body_number (signed_body si sg) ''currentAmps'' = ts_currentAmps si"
  by (cases "ts_voltage si"; cases "ts_currentAmps si";
      simp add: body_string_def body_number_def signed_body_def text_field_def member_def json_field_def)+

fun event_key :: "'s sim_lib \<Rightarrow> int \<Rightarrow> scenario_event \<Rightarrow> string" where
  "event_key L u (SensorEvent c meter status voltage currentAmps) =
     devEuiFor (sl_sha256 L) (sc_zoneIndex c) meter @ ''-'' @ int_string u"
| "event_key L u (ReporterEvent c status report) = ''sim-report-'' @ nat_string (sc_zoneIndex c) @ ''-'' @ int_string u"
| "event_key L u (WhatsAppEvent c content fromPhone) = ''whatsapp:demo:sim-wa-'' @ nat_string (sc_zoneIndex c) @ ''-'' @ int_string u"

definition event_identity :: "'s sim_lib \<Rightarrow> scenario_event \<Rightarrow> string" where
  "event_identity L e = (case event_meter e of
     Some m \<Rightarrow> ''device:'' @ to_lower (trim (devEuiFor (sl_sha256 L) (event_zone e) m))
   | None \<Rightarrow> ''wallet:'' @ to_lower (trim (reporterWalletFor (event_zone e))))"

lemma trim_nonempty: "\<not> is_space c \<Longrightarrow> trim (c # s) \<noteq> []"
  by (auto simp: trim_def dropWhile_eq_Nil_conv)

lemma devEui_first: "\<exists>s. devEuiFor sha z m = CHR ''a'' # s"
  by (simp add: devEuiFor_def Let_def)

lemma devEui_trim: "trim (devEuiFor sha z m) \<noteq> []"
proof -
  have "\<not> is_space CHR ''a''" by code_simp
  with devEui_first[of sha z m] trim_nonempty show ?thesis by metis
qed

lemma reporterWallet_trim: "trim (reporterWalletFor z) \<noteq> []"
proof -
  have "\<not> is_space CHR ''0''" by code_simp
  moreover have "\<exists>s. reporterWalletFor z = CHR ''0'' # s" by (simp add: reporterWalletFor_def SEEDED_REPORTER_WALLET_def)
  ultimately show ?thesis using trim_nonempty by metis
qed

lemma item_event:
  fixes L :: "'s sim_lib" and E :: scenario_event and env :: env and now u :: int and i p n :: string
  defines "e \<equiv> event_of_item (scenario_item L env now (sent_at u E)) i p n"
  shows "ev_status e = event_status E" "ev_source e = (if event_meter E = None then ReporterProvider else SensorProvider)"
    "ev_zoneId e = sz_id (demo_scenario_zone (event_zone E))" "ev_observedAt e = firmwareTimestamp u"
    "confidenceForEvidence e = event_base E" "evidenceSourceIdentity e = event_identity L E"
    "ingest_key (scenario_item L env now (sent_at u E)) = event_key L u E"
    "ingest_observedAt (scenario_item L env now (sent_at u E)) = firmwareTimestamp u"
proof -
  have whole: "ev_status e = event_status E \<and> ev_source e = (if event_meter E = None then ReporterProvider else SensorProvider) \<and>
    ev_zoneId e = sz_id (demo_scenario_zone (event_zone E)) \<and> ev_observedAt e = firmwareTimestamp u \<and>
    confidenceForEvidence e = event_base E \<and> evidenceSourceIdentity e = event_identity L E \<and>
    ingest_key (scenario_item L env now (sent_at u E)) = event_key L u E \<and>
    ingest_observedAt (scenario_item L env now (sent_at u E)) = firmwareTimestamp u"
  proof (cases E)
    case (SensorEvent c meter status voltage currentAmps)
    then show ?thesis using devEui_trim[of "sl_sha256 L" "sc_zoneIndex c" meter]
      by (simp add: e_def scenario_item_def sent_at_def telemetryBody_def Let_def telemetry_of_body_def body_lookups
          telemetry_event_def confidenceForEvidence_def evidenceSourceIdentity_def telemetry_payload_def event_identity_def
          signature_input_def idempotencyKeyFor_def)
  next
    case (ReporterEvent c status report)
    then show ?thesis using reporterWallet_trim[of "sc_zoneIndex c"]
      by (simp add: e_def scenario_item_def sent_at_def report_of_body_def report_body_def body_string_def text_field_def member_def
          reporter_event_def confidenceForEvidence_def evidenceSourceIdentity_def reporter_payload_def event_identity_def json_field_def)
  next
    case (WhatsAppEvent c content fromPhone)
    then show ?thesis using reporterWallet_trim[of "sc_zoneIndex c"]
      by (simp add: e_def scenario_item_def sent_at_def whatsapp_of_body_def whatsapp_body_def body_string_def text_field_def member_def
          reporterInputFromWhatsapp_def reporter_event_def confidenceForEvidence_def evidenceSourceIdentity_def
          reporter_payload_def event_identity_def json_field_def)
  qed
  then show "ev_status e = event_status E" "ev_source e = (if event_meter E = None then ReporterProvider else SensorProvider)"
    "ev_zoneId e = sz_id (demo_scenario_zone (event_zone E))" "ev_observedAt e = firmwareTimestamp u"
    "confidenceForEvidence e = event_base E" "evidenceSourceIdentity e = event_identity L E"
    "ingest_key (scenario_item L env now (sent_at u E)) = event_key L u E"
    "ingest_observedAt (scenario_item L env now (sent_at u E)) = firmwareTimestamp u" by simp_all
qed

text \<open>The meters of the scenario: a second one stands only in the first zone.\<close>

definition event_ok :: "scenario_event \<Rightarrow> bool" where
  "event_ok e \<longleftrightarrow> event_zone e < 23 \<and> opt_all (\<lambda>m. m = 0 \<or> event_zone e = 0 \<and> m = 1) (event_meter e)"

lemma zone_ids: "i < 23 \<Longrightarrow> j < 23 \<Longrightarrow> sz_id (demo_scenario_zone i) = sz_id (demo_scenario_zone j) \<longleftrightarrow> i = j"
proof -
  have "distinct (map (\<lambda>i. sz_id (demo_scenario_zone i)) [0..<23])"
    by (simp add: demo_scenario_zone_def Let_def demo_zone_of_def del: upt_rec_numeral) code_simp
  then show "i < 23 \<Longrightarrow> j < 23 \<Longrightarrow> ?thesis" by (auto simp: distinct_map inj_on_def)
qed

lemma firmware_devices: "to_lower (trim (FIRMWARE_DEV_EUI 0)) \<noteq> to_lower (trim (FIRMWARE_DEV_EUI 1))"
  by code_simp

lemma identities:
  assumes "event_ok a" "event_ok b" "event_zone b = event_zone a"
  shows "event_identity L b = event_identity L a \<longleftrightarrow> event_meter b = event_meter a"
proof (cases "event_meter a")
  case None
  with assms(3) show ?thesis by (cases "event_meter b") (simp_all add: event_identity_def)
next
  case (Some m)
  then show ?thesis
  proof (cases "event_meter b")
    case (Some k)
    have "k = m \<or> event_zone a = 0 \<and> (k = 0 \<and> m = 1 \<or> k = 1 \<and> m = 0)"
      using assms Some \<open>event_meter a = Some m\<close> by (auto simp: event_ok_def)
    then show ?thesis using Some \<open>event_meter a = Some m\<close> assms(3) firmware_devices
      by (auto simp: event_identity_def devEuiFor_def simp del: FIRMWARE_DEV_EUI.simps)
  qed (simp add: event_identity_def)
qed

definition near_at :: "int \<times> scenario_event \<Rightarrow> int \<times> scenario_event \<Rightarrow> bool" where
  "near_at a b \<longleftrightarrow> event_zone (snd b) = event_zone (snd a) \<and> event_status (snd b) \<noteq> Unknown \<and>
     event_meter (snd b) \<noteq> event_meter (snd a) \<and> \<bar>fst b - fst a\<bar> \<le> 600"

text \<open>Instants that the firmware can write.\<close>

definition writable :: "int \<Rightarrow> bool" where "writable u \<longleftrightarrow> 0 \<le> u \<and> u * 1000 < 253402300800000"

lemma firmware_date: "writable u \<Longrightarrow> date_parse (firmwareTimestamp u) = Some (u * 1000)"
  by (simp add: writable_def firmwareTimestamp_def date_parse_seconds)

lemma comparable_near:
  assumes "event_ok a" "event_ok b" "writable u" "writable v" "i \<noteq> j"
  shows "comparable (event_of_item (scenario_item L env now (sent_at u a)) i p n)
      (event_of_item (scenario_item L env now' (sent_at v b)) j q m) \<longleftrightarrow> near_at (u, a) (v, b)"
proof -
  have "\<bar>v * 1000 - u * 1000\<bar> \<le> AGREEMENT_WINDOW_MS \<longleftrightarrow> \<bar>v - u\<bar> \<le> 600"
    by (auto simp: AGREEMENT_WINDOW_MS_def abs_le_iff)
  moreover have "sz_id (demo_scenario_zone (event_zone b)) = sz_id (demo_scenario_zone (event_zone a)) \<longleftrightarrow> event_zone b = event_zone a"
    using assms zone_ids by (simp add: event_ok_def)
  ultimately show ?thesis using assms(5) identities[OF assms(1,2), of L]
    by (auto simp: comparable_def near_at_def item_event firmware_date[OF assms(3)] firmware_date[OF assms(4)])
qed

end
