(* ===== verification/Scenario_Run.thy ===== *)
theory Scenario_Run imports Scenario_Events Samples begin

section \<open>The scenario meets its expectations\<close>

text \<open>
  The run of the whole scenario against the memory store, and the hours of its approvals. The device
  identifiers come from a hash: that they differ is the one thing the run needs of it.
\<close>

subsection \<open>Keys and times\<close>

definition hex_digest :: "(string \<Rightarrow> string) \<Rightarrow> bool" where
  "hex_digest sha \<longleftrightarrow> (\<forall>s. length (sha s) = 64 \<and> list_all is_hex (sha s))"

text \<open>The meters of the scenario have different identifiers.\<close>

definition devices_differ :: "(string \<Rightarrow> string) \<Rightarrow> bool" where
  "devices_differ sha \<longleftrightarrow> distinct (FIRMWARE_DEV_EUI 1 # map (\<lambda>z. devEuiFor sha z 0) [0..<23])"

lemma nat_string_dash: "CHR ''-'' \<notin> set (nat_string n)"
  using nat_string_digits[of n] by (auto simp: list_all_iff)

lemma dash_split: "xs @ CHR ''-'' # ys = xs' @ CHR ''-'' # ys' \<Longrightarrow> CHR ''-'' \<notin> set xs \<Longrightarrow> CHR ''-'' \<notin> set xs' \<Longrightarrow> xs = xs' \<and> ys = ys'"
proof (induction xs arbitrary: xs')
  case Nil
  then show ?case by (cases xs') simp_all
next
  case (Cons x xs)
  then show ?case by (cases xs') simp_all
qed

lemma nat_string_eq: "nat_string a = nat_string b \<Longrightarrow> a = b"
  using int_string_inject[of "int a" "int b"] by (simp add: int_string_def)

lemma devEui_length: "hex_digest sha \<Longrightarrow> length (devEuiFor sha z m) = 16"
  by (simp add: devEuiFor_def hex_digest_def Let_def)

lemma devEui_inject:
  assumes "devices_differ sha" "z < 23" "y < 23" "m = 0 \<or> z = 0 \<and> m = 1" "k = 0 \<or> y = 0 \<and> k = 1"
    and "devEuiFor sha z m = devEuiFor sha y k"
  shows "z = y \<and> m = k"
proof -
  have inj: "devEuiFor sha a 0 = devEuiFor sha b 0 \<Longrightarrow> a = b" if "a < 23" "b < 23" for a b
    using assms(1) that by (auto simp: devices_differ_def distinct_map inj_on_def)
  have one: "devEuiFor sha 0 1 = FIRMWARE_DEV_EUI 1" by (simp add: devEuiFor_def)
  have other: "devEuiFor sha a 0 \<noteq> FIRMWARE_DEV_EUI 1" if "a < 23" for a
  proof -
    have "FIRMWARE_DEV_EUI 1 \<notin> set (map (\<lambda>z. devEuiFor sha z 0) [0..<23])"
      using assms(1) unfolding devices_differ_def by (simp only: distinct.simps simp_thms)
    moreover have "devEuiFor sha a 0 \<in> set (map (\<lambda>z. devEuiFor sha z 0) [0..<23])"
      unfolding set_map set_upt using that by (intro imageI) simp
    ultimately show ?thesis by metis
  qed
  consider "m = 0" "k = 0" | "m = 0" "y = 0" "k = 1" | "k = 0" "z = 0" "m = 1" | "z = 0" "m = 1" "y = 0" "k = 1"
    using assms(4,5) by blast
  then show ?thesis
  proof cases
    case 1 with inj[OF assms(2,3)] assms(6) show ?thesis by simp
  next
    case 2
    then have "devEuiFor sha z 0 = devEuiFor sha 0 1" using assms(6) by (simp only:)
    with one other[OF assms(2)] show ?thesis by (simp only: simp_thms)
  next
    case 3
    then have "devEuiFor sha y 0 = devEuiFor sha 0 1" using assms(6) by (simp only:)
    with one other[OF assms(3)] show ?thesis by (simp only: simp_thms)
  qed simp
qed

lemma keys_inject:
  assumes "hex_digest (sl_sha256 L)" "devices_differ (sl_sha256 L)" "event_ok a" "event_ok b"
    and "event_key L u a = event_key L v b"
  shows "u = v \<and> event_zone a = event_zone b \<and> event_meter a = event_meter b"
proof -
  have kind: "hd (event_key L w e) = CHR ''a'' \<longleftrightarrow> event_meter e \<noteq> None" for w e
  proof (cases e)
    case (SensorEvent c m st vo ca)
    then show ?thesis using devEui_first[of "sl_sha256 L" "sc_zoneIndex c" m] by auto
  qed simp_all
  show ?thesis
  proof (cases "event_meter a")
    case None
    then have "event_meter b = None" using assms(5) kind by metis
    moreover from this None assms(5) have "nat_string (event_zone a) @ CHR ''-'' # int_string u = nat_string (event_zone b) @ CHR ''-'' # int_string v"
      by (cases a; cases b) simp_all
    from dash_split[OF this nat_string_dash nat_string_dash] nat_string_eq have "event_zone a = event_zone b" "u = v" by simp_all
    ultimately show ?thesis using None by simp
  next
    case (Some m)
    then obtain k where k: "event_meter b = Some k" using assms(5) kind by (metis option.exhaust)
    have "devEuiFor (sl_sha256 L) (event_zone a) m @ ''-'' @ int_string u = devEuiFor (sl_sha256 L) (event_zone b) k @ ''-'' @ int_string v"
      using assms(5) Some k by (cases a; cases b) simp_all
    then have "devEuiFor (sl_sha256 L) (event_zone a) m = devEuiFor (sl_sha256 L) (event_zone b) k" "int_string u = int_string v"
      using devEui_length[OF assms(1)] by (simp_all add: append_eq_append_conv)
    with devEui_inject[OF assms(2), of "event_zone a" "event_zone b" m k] assms(3,4) Some k show ?thesis by (simp add: event_ok_def)
  qed
qed

text \<open>The times of the events, from the two anchors in seconds.\<close>

definition time_of :: "int \<Rightarrow> int \<Rightarrow> scenario_event \<Rightarrow> int" where
  "time_of sealed live e = (if sc_band (common_of e) = Sealed then sealed else live) + sc_offsetSeconds (common_of e)"

definition event_facts :: "scenario_event \<Rightarrow> nat \<times> nat option \<times> band \<times> int" where
  "event_facts e = (event_zone e, event_meter e, sc_band (common_of e), sc_offsetSeconds (common_of e))"

definition scenario_facts :: "(nat \<times> nat option \<times> band \<times> int) list" where
  "scenario_facts = map (\<lambda>i. (i, Some 0, Sealed, 300)) [0..<23] @
     [(0, Some 0, Sealed, 1200), (0, Some 1, Sealed, 1320), (0, Some 0, Sealed, 2160), (0, Some 1, Sealed, 2280),
      (10, None, Sealed, 1800), (10, Some 0, Sealed, 1980), (6, None, Sealed, 3000), (19, None, Live, -600),
      (19, Some 0, Live, -480), (19, Some 0, Live, -240), (12, None, Live, -360), (8, None, Live, -300),
      (14, Some 0, Live, -180), (16, Some 0, Live, -660), (16, Some 0, Live, -120)]"

lemma all_events_facts: "map event_facts all_events = scenario_facts"
proof -
  have "map event_facts (map (\<lambda>(i, st). baseline_event i st) (enumerate 0 (map sd_status SEEDS))) =
      map (\<lambda>i. (i, Some 0, Sealed, 300)) [0..<23]"
    by (rule nth_equalityI) (simp_all add: seeds_length nth_enumerate_eq event_facts_def del: upt_rec_numeral)
  moreover have "map event_facts (SEALED_ACTS @ LIVE_ACTS) = drop 23 scenario_facts"
    by (simp add: SEALED_ACTS_def LIVE_ACTS_def event_facts_def MINUTE_def scenario_facts_def)
  ultimately show ?thesis unfolding all_events_eq by (simp add: scenario_facts_def del: upt_rec_numeral)
qed

fun fact_ok :: "nat \<times> nat option \<times> band \<times> int \<Rightarrow> bool" where
  "fact_ok (z, m, b, off) \<longleftrightarrow> z < 23 \<and> opt_all (\<lambda>m. m = 0 \<or> z = 0 \<and> m = 1) m \<and> - 660 \<le> off \<and> off \<le> 3000 \<and> (b = Sealed \<or> off < 0)"

fun facts_apart :: "nat \<times> nat option \<times> band \<times> int \<Rightarrow> nat \<times> nat option \<times> band \<times> int \<Rightarrow> bool" where
  "facts_apart (z, m, b, off) (z', m', b', off') \<longleftrightarrow> (z = z' \<longrightarrow> b = Live \<longrightarrow> b' = Sealed \<longrightarrow> off' - 3000 < off)"

lemma facts_checked:
  "distinct scenario_facts" "list_all fact_ok scenario_facts"
  "list_all (\<lambda>f. list_all (facts_apart f) scenario_facts) scenario_facts"
  by code_simp+

lemma events_ok: "e \<in> set all_events \<Longrightarrow> event_ok e \<and> - 660 \<le> sc_offsetSeconds (common_of e) \<and> sc_offsetSeconds (common_of e) \<le> 3000"
proof -
  assume "e \<in> set all_events"
  then have "event_facts e \<in> set scenario_facts" using all_events_facts by (metis imageI list.set_map)
  then have "fact_ok (event_facts e)" using facts_checked(2) by (simp add: list_all_iff)
  then show ?thesis by (simp add: event_facts_def event_ok_def)
qed

lemma events_apart:
  assumes "a \<in> set all_events" "b \<in> set all_events" "event_zone a = event_zone b"
    and "sc_band (common_of a) = Live" "sc_band (common_of b) = Sealed"
  shows "sc_offsetSeconds (common_of b) - 3000 < sc_offsetSeconds (common_of a)"
proof -
  have "event_facts a \<in> set scenario_facts" "event_facts b \<in> set scenario_facts"
    using assms(1,2) all_events_facts by (metis imageI list.set_map)+
  then have "facts_apart (event_facts a) (event_facts b)" using facts_checked(3) by (simp add: list_all_iff)
  with assms(3-) show ?thesis by (simp add: event_facts_def)
qed

lemma near_static:
  assumes "a \<in> set all_events" "b \<in> set all_events" "sealed + 3600 \<le> live"
  shows "near_at (time_of sealed live a, a) (time_of sealed live b, b) \<longleftrightarrow> static_near a b"
proof (cases "event_zone b = event_zone a")
  case True
  show ?thesis
  proof (cases "sc_band (common_of a)"; cases "sc_band (common_of b)")
    assume "sc_band (common_of a) = Sealed" "sc_band (common_of b) = Live"
    with events_apart[OF assms(2,1)] True assms(3) show ?thesis by (simp add: near_at_def static_near_def time_of_def)
  next
    assume "sc_band (common_of a) = Live" "sc_band (common_of b) = Sealed"
    with events_apart[OF assms(1,2)] True assms(3) show ?thesis by (simp add: near_at_def static_near_def time_of_def)
  qed (simp_all add: near_at_def static_near_def time_of_def)
qed (simp add: near_at_def static_near_def)

lemma keys_distinct:
  assumes "hex_digest (sl_sha256 L)" "devices_differ (sl_sha256 L)" "sealed + 3600 \<le> live"
  shows "distinct (map (\<lambda>e. event_key L (time_of sealed live e) e) all_events)"
proof -
  have inj: "inj_on event_facts (set all_events)" and dist: "distinct all_events"
    using facts_checked(1) unfolding all_events_facts[symmetric] by (simp_all add: distinct_map)
  have "a = b" if "a \<in> set all_events" "b \<in> set all_events"
    "event_key L (time_of sealed live a) a = event_key L (time_of sealed live b) b" for a b
  proof -
    have k: "time_of sealed live a = time_of sealed live b" "event_zone a = event_zone b" "event_meter a = event_meter b"
      using keys_inject[OF assms(1,2) _ _ that(3)] events_ok that(1,2) by auto
    have "sc_band (common_of a) = sc_band (common_of b)"
      using k(1,2) events_apart[OF that(1,2)] events_apart[OF that(2,1)] assms(3)
      by (cases "sc_band (common_of a)"; cases "sc_band (common_of b)") (auto simp: time_of_def)
    with k have "event_facts a = event_facts b" by (auto simp: event_facts_def time_of_def)
    with inj that(1,2) show ?thesis by (auto simp: inj_on_def)
  qed
  with dist show ?thesis by (auto simp: distinct_map inj_on_def)
qed

subsection \<open>The run\<close>

type_synonym timed = "int \<times> scenario_event"

fun timed_foreseen :: "timed list \<Rightarrow> timed list \<Rightarrow> bool" where
  "timed_foreseen before [] \<longleftrightarrow> True"
| "timed_foreseen before (x # xs) \<longleftrightarrow> foreseen (snd x) (map snd (filter (near_at x) before)) \<and> timed_foreseen (before @ [x]) xs"

lemma foreseen_timed:
  assumes "set before \<union> set es \<subseteq> set all_events" "sealed + 3600 \<le> live" "all_foreseen before es"
  shows "timed_foreseen (map (\<lambda>e. (time_of sealed live e, e)) before) (map (\<lambda>e. (time_of sealed live e, e)) es)"
  using assms
proof (induction es arbitrary: before)
  case (Cons e es)
  have "map snd (filter (near_at (time_of sealed live e, e)) (map (\<lambda>e. (time_of sealed live e, e)) before)) =
      filter (static_near e) before"
    using Cons.prems near_static[of e] by (auto simp: filter_map o_def intro!: filter_cong)
  moreover have "timed_foreseen (map (\<lambda>e. (time_of sealed live e, e)) (before @ [e])) (map (\<lambda>e. (time_of sealed live e, e)) es)"
    using Cons.prems by (intro Cons.IH) auto
  ultimately show ?case using Cons.prems by simp
qed simp

text \<open>The evidence of the world is that of the events sent so far.\<close>

definition evidence_of :: "world sim_lib \<Rightarrow> env \<Rightarrow> runtime \<Rightarrow> nat \<Rightarrow> timed \<Rightarrow> evidence_event \<Rightarrow> bool" where
  "evidence_of L env rt n x ev \<longleftrightarrow> (\<exists>i < n. \<exists>p m now.
     ev = event_of_item (scenario_item L env now (sent_at (fst x) (snd x))) (rt_uuid rt i) p m)"

lemma evidence_of_mono: "evidence_of L env rt n x y \<Longrightarrow> n \<le> k \<Longrightarrow> evidence_of L env rt k x y"
  unfolding evidence_of_def using less_le_trans by blast

lemma list_all2_filter:
  "list_all2 R xs ys \<Longrightarrow> (\<And>x y. x \<in> set xs \<Longrightarrow> R x y \<Longrightarrow> P x = Q y) \<Longrightarrow> list_all2 R (filter P xs) (filter Q ys)"
proof (induction xs ys rule: list_all2_induct)
  case (Cons x xs y ys)
  then show ?case by (cases "P x") simp_all
qed simp

definition sent_so_far :: "world sim_lib \<Rightarrow> env \<Rightarrow> runtime \<Rightarrow> timed list \<Rightarrow> world \<Rightarrow> bool" where
  "sent_so_far L env rt before w \<longleftrightarrow>
     list_all2 (evidence_of L env rt (w_uuids w)) before (jm_values (evidenceByIdempotencyKey w)) \<and>
     (\<forall>k. jm_get (evidenceByIdempotencyKey w) k \<noteq> None \<longrightarrow> (\<exists>x \<in> set before. k = event_key L (fst x) (snd x)))"

lemma verify_passes:
  fixes s :: "'s simulator"
  assumes "foreseen e witnesses" "ir_duplicate r = False" "detects u ev es lc (ir_candidateEvent r)" "ev_status ev = event_status e"
    and "event_status e \<noteq> Unknown \<Longrightarrow> applyAgreement (confidenceForEvidence ev) (scoreCrossSourceAgreement lc ev es) = predicted e witnesses"
  shows "sm_checks (snd (verifyEvent (sent_at t e) (ingest_answer r) s)) =
      sm_checks s @ [\<lparr>sk_name = ''ingest:'' @ sc_act (common_of e), sk_status = SimPass\<rparr>] \<and>
    sm_server (snd (verifyEvent (sent_at t e) (ingest_answer r) s)) = sm_server s"
proof (cases "event_status e = Unknown")
  case True
  then have "ir_candidateEvent r = None" using assms(3,4) by (simp add: detects_def)
  then show ?thesis using assms(1,2) True
    by (simp add: verifyEvent_def foreseen_def sent_at_def ingest_answer_def member_def json_of_option_def note_check_def Let_def)
next
  case False
  then obtain d where d: "ir_candidateEvent r = Some d" "ca_status d = (if event_status e = GridDown then Outage else Restored)"
    "ca_confidence d = predicted e witnesses" using assms(3,4,5) by (auto simp: detects_def)
  show ?thesis using assms(1,2) False d
    by (simp add: verifyEvent_def foreseen_def sent_at_def ingest_answer_def member_def json_of_option_def note_check_def Let_def
        json_of_candidate_def)
qed

lemma filter_short:
  "length xs \<le> 1 \<Longrightarrow> list_all2 R xs ys \<Longrightarrow> (xs = [] \<and> ys = []) \<or> (\<exists>x y. xs = [x] \<and> ys = [y] \<and> R x y)"
  by (cases xs; cases ys; auto)

text \<open>One event of the run.\<close>

lemma sent_one:
  assumes "\<not> isDatabaseConfigured rt" "inj (rt_uuid rt)" "sent_so_far L env rt before w"
    and "\<forall>x \<in> set before. event_ok (snd x) \<and> writable (fst x)" "event_ok e" "writable u"
    and "event_key L u e \<notin> (\<lambda>x. event_key L (fst x) (snd x)) ` set before"
    and "foreseen e (map snd (filter (near_at (u, e)) before))"
  shows "\<exists>r w'. ingest rt (scenario_item L env (w_now w) (sent_at u e)) w = (Inr r, w') \<and> w_now w' = w_now w \<and>
    sent_so_far L env rt (before @ [(u, e)]) w' \<and>
    (\<forall>s :: world simulator. sm_checks (snd (verifyEvent (sent_at u e) (ingest_answer r) s)) =
        sm_checks s @ [\<lparr>sk_name = ''ingest:'' @ sc_act (common_of e), sk_status = SimPass\<rparr>] \<and>
      sm_server (snd (verifyEvent (sent_at u e) (ingest_answer r) s)) = sm_server s)"
proof -
  let ?item = "scenario_item L env (w_now w) (sent_at u e)"
  let ?ev = "event_of_item ?item (rt_uuid rt (w_uuids w)) (rt_uuid rt (Suc (w_uuids w))) (to_iso (w_now w))"
  let ?vals = "jm_values (evidenceByIdempotencyKey w)"
  have key: "ingest_key ?item = event_key L u e" by (rule item_event)
  have new: "jm_get (evidenceByIdempotencyKey w) (ingest_key ?item) = None"
  proof (rule ccontr)
    assume "jm_get (evidenceByIdempotencyKey w) (ingest_key ?item) \<noteq> None"
    then obtain x where "x \<in> set before" "event_key L u e = event_key L (fst x) (snd x)"
      using assms(3) unfolding sent_so_far_def key by blast
    with assms(7) show False by (simp only: image_iff) blast
  qed
  have date: "date_parse (ingest_observedAt ?item) \<noteq> None" using firmware_date[OF assms(6)] by (simp add: item_event)
  obtain c n cs es where run: "ingest rt ?item w = (Inr \<lparr>ir_duplicate = False, ir_evidenceEvent = ?ev, ir_candidateEvent = c\<rparr>,
      w\<lparr>w_uuids := n, evidenceByIdempotencyKey := jm_set (ingest_key ?item) ?ev (evidenceByIdempotencyKey w), candidatesByKey := cs\<rparr>)"
    and n: "w_uuids w < n" and es: "filter (comparable ?ev) es = filter (comparable ?ev) ?vals"
    and det: "detects (rt_uuid rt (Suc (Suc (w_uuids w)))) ?ev es (rt_lc rt) c"
    using ingest_memory_new[OF assms(1) new date] by blast
  have related: "list_all2 (evidence_of L env rt (w_uuids w)) before ?vals" using assms(3) by (simp add: sent_so_far_def)
  have comp: "near_at (u, e) x = comparable ?ev y" if mem: "x \<in> set before" and evi: "evidence_of L env rt (w_uuids w) x y" for x y
  proof -
    obtain i p m now where i: "i < w_uuids w" "y = event_of_item (scenario_item L env now (sent_at (fst x) (snd x))) (rt_uuid rt i) p m"
      using evi by (auto simp: evidence_of_def)
    then have "rt_uuid rt (w_uuids w) \<noteq> rt_uuid rt i" using assms(2) by (simp add: inj_eq)
    moreover have "event_ok (snd x)" "writable (fst x)" using mem assms(4) by blast+
    ultimately show ?thesis unfolding i(2)
      using comparable_near[OF assms(5) _ assms(6), of "snd x" "fst x" "rt_uuid rt (w_uuids w)" "rt_uuid rt i" L env "w_now w"] by simp
  qed
  have few: "list_all2 (evidence_of L env rt (w_uuids w)) (filter (near_at (u, e)) before) (filter (comparable ?ev) ?vals)"
    using list_all2_filter[OF related, of "near_at (u, e)" "comparable ?ev"] comp by blast
  have short: "length (filter (near_at (u, e)) before) \<le> 1" using assms(8) by (simp add: foreseen_def)
  have conf: "applyAgreement (confidenceForEvidence ?ev) (scoreCrossSourceAgreement (rt_lc rt) ?ev es) =
      predicted e (map snd (filter (near_at (u, e)) before))"
  proof -
    have d: "date_parse (ev_observedAt ?ev) \<noteq> None" using date by simp
    from filter_short[OF short few] show ?thesis
    proof (elim disjE exE conjE)
      assume "filter (near_at (u, e)) before = []" "filter (comparable ?ev) ?vals = []"
      then show ?thesis using few_witnesses(1)[OF d, of es] es by (simp add: predicted_def item_event)
    next
      fix x y assume "filter (near_at (u, e)) before = [x]" "filter (comparable ?ev) ?vals = [y]"
        and "evidence_of L env rt (w_uuids w) x y"
      then show ?thesis using few_witnesses(2)[OF d, of es y] es by (auto simp: predicted_def item_event evidence_of_def)
    qed
  qed
  have "sent_so_far L env rt (before @ [(u, e)])
      (w\<lparr>w_uuids := n, evidenceByIdempotencyKey := jm_set (ingest_key ?item) ?ev (evidenceByIdempotencyKey w), candidatesByKey := cs\<rparr>)"
  proof -
    have "evidence_of L env rt n x y" if "evidence_of L env rt (w_uuids w) x y" for x y
      using evidence_of_mono[OF that] n by simp
    then have "list_all2 (evidence_of L env rt n) before ?vals" using related by (rule list_all2_mono[rotated])
    moreover have "evidence_of L env rt n (u, e) ?ev" unfolding evidence_of_def fst_conv snd_conv using n by blast
    ultimately show ?thesis using assms(3) new
      by (auto simp: sent_so_far_def jm_values_set_new list_all2_appendI key split: if_splits)
  qed
  moreover have "sm_checks (snd (verifyEvent (sent_at u e) (ingest_answer \<lparr>ir_duplicate = False, ir_evidenceEvent = ?ev, ir_candidateEvent = c\<rparr>) s)) =
        sm_checks s @ [\<lparr>sk_name = ''ingest:'' @ sc_act (common_of e), sk_status = SimPass\<rparr>] \<and>
      sm_server (snd (verifyEvent (sent_at u e) (ingest_answer \<lparr>ir_duplicate = False, ir_evidenceEvent = ?ev, ir_candidateEvent = c\<rparr>) s)) = sm_server s"
    for s :: "world simulator"
  proof (rule verify_passes[OF assms(8)])
    show "ev_status ?ev = event_status e" by (rule item_event)
  qed (use det conf in simp_all)
  ultimately show ?thesis using run by (intro exI conjI) (assumption | simp | blast)+
qed

text \<open>The whole run.\<close>

lemma play_passes:
  assumes "\<not> isDatabaseConfigured rt" "inj (rt_uuid rt)"
    and "\<forall>x \<in> set (before @ todo). event_ok (snd x) \<and> writable (fst x)"
    and "distinct (map (\<lambda>x. event_key L (fst x) (snd x)) (before @ todo))"
    and "timed_foreseen before todo" "sent_so_far L env rt before (sm_server s)"
  shows "sm_checks (play rt L env (map (\<lambda>x. sent_at (fst x) (snd x)) todo) s) =
    sm_checks s @ map (\<lambda>x. \<lparr>sk_name = ''ingest:'' @ sc_act (common_of (snd x)), sk_status = SimPass\<rparr>) todo"
  using assms(3-)
proof (induction todo arbitrary: before s)
  case (Cons x todo)
  obtain u e where x: "x = (u, e)" by fastforce
  have "event_key L u e \<notin> (\<lambda>x. event_key L (fst x) (snd x)) ` set before"
    using Cons.prems(2) by (simp add: x image_iff)
  with Cons.prems sent_one[OF assms(1,2) Cons.prems(4), of e u] obtain r w' where
    r: "ingest rt (scenario_item L env (w_now (sm_server s)) (sent_at u e)) (sm_server s) = (Inr r, w')"
    and w': "sent_so_far L env rt (before @ [(u, e)]) w'"
    and v: "\<And>s :: world simulator. sm_checks (snd (verifyEvent (sent_at u e) (ingest_answer r) s)) =
        sm_checks s @ [\<lparr>sk_name = ''ingest:'' @ sc_act (common_of e), sk_status = SimPass\<rparr>] \<and>
      sm_server (snd (verifyEvent (sent_at u e) (ingest_answer r) s)) = sm_server s"
    by (auto simp: x)
  let ?s' = "snd (verifyEvent (sent_at u e) (ingest_answer r) (s\<lparr>sm_server := w'\<rparr>))"
  have "sm_checks (play rt L env (map (\<lambda>x. sent_at (fst x) (snd x)) todo) ?s') =
    sm_checks ?s' @ map (\<lambda>x. \<lparr>sk_name = ''ingest:'' @ sc_act (common_of (snd x)), sk_status = SimPass\<rparr>) todo"
    using Cons.prems w' v[of "s\<lparr>sm_server := w'\<rparr>"] by (intro Cons.IH[of "before @ [(u, e)]"]) (simp_all add: x)
  then show ?case using r v[of "s\<lparr>sm_server := w'\<rparr>"] by (simp add: x)
qed simp

lemma map_res_total: "(\<And>x. x \<in> set xs \<Longrightarrow> f x = Inr (g x)) \<Longrightarrow> map_res f xs = Inr (map g xs)"
  by (induction xs) simp_all

lemma scenario_zones_demo: "scenario_zones = Inr (map demo_scenario_zone [0..<23])"
  unfolding scenario_zones_def demo_zones_length by (rule map_res_total) (simp add: zoneAt_demo)

definition scenario_at :: "int \<Rightarrow> int \<Rightarrow> timed list" where
  "scenario_at now runOffset = map (\<lambda>e. (time_of ((floorToHour now - 3600000) div 1000 + runOffset) (now div 1000 + runOffset) e, e)) all_events"

lemma build_scenario:
  "buildScenario now runOffset = Inr \<lparr>sn_sealedEpochStart = floorToHour now - 3600000, sn_liveAnchor = now,
     sn_zones = map demo_scenario_zone [0..<23], sn_events = map (\<lambda>x. sent_at (fst x) (snd x)) (scenario_at now runOffset)\<rparr>"
proof -
  have "map_res (resolve_event (floorToHour now - 3600000) now runOffset) all_events =
      Inr (map (\<lambda>x. sent_at (fst x) (snd x)) (scenario_at now runOffset))"
    unfolding scenario_at_def map_map o_def
  proof (rule map_res_total)
    fix e assume "e \<in> set all_events"
    then have "zoneAt (event_zone e) = Inr (demo_scenario_zone (event_zone e))"
      using events_ok by (intro zoneAt_demo) (simp add: event_ok_def)
    then show "resolve_event (floorToHour now - 3600000) now runOffset e = Inr (sent_at
        (fst (time_of ((floorToHour now - 3600000) div 1000 + runOffset) (now div 1000 + runOffset) e, e))
        (snd (time_of ((floorToHour now - 3600000) div 1000 + runOffset) (now div 1000 + runOffset) e, e)))"
      by (simp add: resolve_event_def sent_at_def time_of_def Let_def add.commute add.left_commute)
  qed
  then show ?thesis by (simp add: buildScenario_def scenario_zones_demo all_events_def[symmetric] del: upt_rec_numeral)
qed

lemma anchors:
  "(floorToHour now - 3600000) div 1000 + runOffset + 3600 \<le> now div 1000 + runOffset"
  "now div 1000 + runOffset - 7200 \<le> (floorToHour now - 3600000) div 1000 + runOffset"
proof -
  have "floorToHour now \<le> now" "now - 3600000 < floorToHour now" unfolding floorToHour_def
    using pos_mod_sign[of 3600000 now] pos_mod_bound[of 3600000 now] by linarith+
  then show "(floorToHour now - 3600000) div 1000 + runOffset + 3600 \<le> now div 1000 + runOffset"
    "now div 1000 + runOffset - 7200 \<le> (floorToHour now - 3600000) div 1000 + runOffset"
    by linarith+
qed

lemma scenario_writable:
  assumes "8000000 \<le> now + runOffset * 1000" "now + runOffset * 1000 < 253402297000000" "x \<in> set (scenario_at now runOffset)"
  shows "event_ok (snd x) \<and> writable (fst x)"
proof -
  obtain e where e: "e \<in> set all_events" "snd x = e"
    "fst x = time_of ((floorToHour now - 3600000) div 1000 + runOffset) (now div 1000 + runOffset) e"
    using assms(3) by (auto simp: scenario_at_def)
  have "8000 \<le> now div 1000 + runOffset" "now div 1000 + runOffset < 253402297000" using assms(1,2) by linarith+
  with events_ok[OF e(1)] anchors[of now runOffset] e show ?thesis by (auto simp: writable_def time_of_def)
qed

text \<open>Whenever the simulator starts and whatever its offset, the API, with an empty memory store, answers all 38
  events of the scenario the way their expectations say: the candidate, its confidence and the decision
  that follows from it. Every check of the scenario passes.\<close>

theorem scenario_meets_expectations:
  assumes "\<not> isDatabaseConfigured rt" "inj (rt_uuid rt)" "hex_digest (sl_sha256 L)" "devices_differ (sl_sha256 L)"
    and "evidenceByIdempotencyKey w = []" "8000000 \<le> now + runOffset * 1000" "now + runOffset * 1000 < 253402297000000"
  shows "\<exists>sn. buildScenario now runOffset = Inr sn \<and> length (sn_events sn) = 38 \<and>
    sm_checks (play rt L env (sn_events sn) \<lparr>sm_checks = [], sm_candidateIdByAct = [], sm_approvedZones = [], sm_server = w\<rparr>) =
      map (\<lambda>re. \<lparr>sk_name = ''ingest:'' @ sc_act (common_of (re_event re)), sk_status = SimPass\<rparr>) (sn_events sn)"
proof -
  let ?todo = "scenario_at now runOffset"
  have "distinct (map (\<lambda>x. event_key L (fst x) (snd x)) ?todo)"
    using keys_distinct[OF assms(3,4) anchors(1)] by (simp add: scenario_at_def o_def)
  moreover have "timed_foreseen [] ?todo"
    using foreseen_timed[OF _ anchors(1), of "[]" all_events] scenario_foreseen by (simp add: scenario_at_def)
  moreover have "sent_so_far L env rt [] w" using assms(5) by (simp add: sent_so_far_def)
  ultimately have "sm_checks (play rt L env (map (\<lambda>x. sent_at (fst x) (snd x)) ?todo)
      \<lparr>sm_checks = [], sm_candidateIdByAct = [], sm_approvedZones = [], sm_server = w\<rparr>) =
    [] @ map (\<lambda>x. \<lparr>sk_name = ''ingest:'' @ sc_act (common_of (snd x)), sk_status = SimPass\<rparr>) ?todo"
    using scenario_writable[OF assms(6,7)] by (subst play_passes[OF assms(1,2), of "[]"]) simp_all
  moreover have "length ?todo = 38" using arg_cong[OF all_events_facts, of length] by (simp add: scenario_at_def scenario_facts_def)
  ultimately show ?thesis by (simp add: build_scenario sent_at_def o_def)
qed

subsection \<open>The hours of the approvals\<close>

lemma approvals_sealed:
  "e \<in> set all_events \<Longrightarrow> xp_decision (sc_expect (common_of e)) = Some Approve \<or> sc_act (common_of e) = ''S6'' \<Longrightarrow>
   sc_band (common_of e) = Sealed \<and> 300 \<le> sc_offsetSeconds (common_of e)"
  unfolding all_events_eq by (auto simp: SEALED_ACTS_def LIVE_ACTS_def MINUTE_def)

text \<open>Every event that the simulator expects to be approved, by the policy or by the reviewer, falls into the hour
  before the current one: the epoch that its approval commits has ended when the run starts, which is what
  the contract asks of a commitment. This holds for offsets of less than ten minutes.\<close>

theorem scenario_commits_elapsed_hours:
  assumes "buildScenario now runOffset = Inr sn" "re \<in> set (sn_events sn)" "0 \<le> runOffset" "runOffset < 600"
    and "8000000 \<le> now" "now + runOffset * 1000 < 253402297000000"
    and "xp_decision (sc_expect (common_of (re_event re))) = Some Approve \<or> sc_act (common_of (re_event re)) = ''S6''"
  shows "\<exists>t. date_parse (re_observedAt re) = Some t \<and> floor_epoch_ms t = sn_sealedEpochStart sn \<and>
    sn_sealedEpochStart sn + EPOCH_DURATION_MS \<le> now"
proof -
  from assms(1,2) obtain e where e: "e \<in> set all_events"
    "re = sent_at (time_of ((floorToHour now - 3600000) div 1000 + runOffset) (now div 1000 + runOffset) e) e"
    and start: "sn_sealedEpochStart sn = floorToHour now - 3600000"
    by (auto simp: build_scenario scenario_at_def)
  define h where "h = now div 3600000"
  have hour: "floorToHour now = h * 3600000" by (simp add: floorToHour_def h_def minus_mod_eq_div_mult)
  have "re_event re = e" by (simp add: e(2) sent_at_def)
  with approvals_sealed[OF e(1)] events_ok[OF e(1)] assms(7) have sealed: "sc_band (common_of e) = Sealed"
    "300 \<le> sc_offsetSeconds (common_of e)" "sc_offsetSeconds (common_of e) \<le> 3000" by simp_all
  define k where "k = runOffset + sc_offsetSeconds (common_of e)"
  have k: "0 \<le> k" "k < 3600" using sealed assms(3,4) by (auto simp: k_def)
  have "(h * 3600000 - 3600000) div 1000 = (h - 1) * 3600" by simp
  then have u: "time_of ((floorToHour now - 3600000) div 1000 + runOffset) (now div 1000 + runOffset) e = (h - 1) * 3600 + k"
    using sealed(1) by (simp add: time_of_def hour k_def)
  have h: "h * 3600000 \<le> now" "now < h * 3600000 + 3600000"
    using hour unfolding floorToHour_def using pos_mod_sign[of 3600000 now] pos_mod_bound[of 3600000 now] by linarith+
  then have "1 \<le> h" using assms(5) by linarith
  then have "writable ((h - 1) * 3600 + k)" using h k assms(3,6) by (simp add: writable_def)
  then have "date_parse (re_observedAt re) = Some (((h - 1) * 3600 + k) * 1000)"
    using firmware_date by (simp add: e(2) sent_at_def u)
  moreover have "floor_epoch_ms (((h - 1) * 3600 + k) * 1000) = (h - 1) * 3600000"
  proof -
    have "((h - 1) * 3600 + k) * 1000 = k * 1000 + (h - 1) * 3600000" by simp
    also have "\<dots> div 3600000 = (h - 1) + k * 1000 div 3600000" by (rule div_mult_self1) simp
    also have "k * 1000 div 3600000 = 0" using k by (intro div_pos_pos_trivial) simp_all
    finally show ?thesis by (simp add: floor_epoch_ms_def EPOCH_DURATION_MS_def)
  qed
  ultimately show ?thesis using start hour h(1) by (simp add: EPOCH_DURATION_MS_def)
qed

end
