(* ===== verification/Simulator_Checks.thy ===== *)
theory Simulator_Checks imports Scenario_Run Intake Access begin

section \<open>The simulator and the API\<close>

text \<open>
  Signatures, tokens and the chain stage of the simulator against the API.
\<close>

subsection \<open>Signatures\<close>

lemma judged_signature:
  assumes "hmac_hex rt" "length (te_signature input) = 64" "list_all is_hex (te_signature input)"
  shows "isValidTelemetrySignature rt input secret =
    Inr (to_lower (te_signature input) = rt_hmac rt secret (join_with ''.'' (signed_fields input)))"
proof -
  let ?e = "rt_hmac rt secret (join_with ''.'' (signed_fields input))" and ?p = "to_lower (te_signature input)"
  have e: "length ?e = 64" "list_all is_hex ?e" "to_lower ?e = ?e"
    using assms(1) lower_hex_64D by (auto simp: hmac_hex_def)
  have p: "length ?p = 64" "list_all is_hex ?p" using assms(2,3) by (simp_all add: list_all_iff)
  have "length (hex_bytes ?p) = length (hex_bytes ?e)" using hex_bytes_full[of ?e] hex_bytes_full[of ?p] e p by simp
  moreover have "hex_bytes ?p = hex_bytes ?e \<longleftrightarrow> ?p = ?e" using hex_bytes_inject[of ?p ?e] e p by (simp add: comp_def)
  ultimately show ?thesis using p(1) e(1) by (simp add: isValidTelemetrySignature_def Let_def timingSafeEqual_def)
qed

text \<open>The string that the firmware signs is the one that the API rebuilds from the request.\<close>

lemma signing_string:
  "ts_status si = evidence_status_string st \<Longrightarrow>
   telemetrySigningString si = join_with ''.'' (signed_fields (telemetry_of_body (signed_body si sg)))"
  by (simp add: telemetrySigningString_def signed_fields_def telemetry_of_body_def body_lookups Let_def split: option.split)

lemma sensor_body:
  assumes "telemetryBody L env re = Inr body"
  obtains si st where "body = signed_body si (signTelemetry (sl_hmac L) si (telemetrySecret env))"
    "ts_status si = evidence_status_string st"
  using assms by (auto simp: telemetryBody_def Let_def signature_input_def split: scenario_event.splits)

lemma voltage_body:
  assumes "ts_voltage si = Some v"
  shows "jm_set ''voltage'' (JNum v') (signed_body si sg) = signed_body (si\<lparr>ts_voltage := Some v'\<rparr>) sg"
  using assms by (simp add: signed_body_def json_field_def)

text \<open>Every reading that the simulator signs is accepted by the API that shares its secret. Altered in its voltage
  after signing, it is accepted only if the HMAC of the altered reading collides with that of the original,
  and what is signed then differs whenever the two voltages print differently.\<close>

theorem signed_reading_verifies:
  assumes "hmac_hex rt" "sl_hmac L = rt_hmac rt" "telemetryBody L env re = Inr body"
    and "map_of body ''voltage'' = Some (JNum v)" "number_string v' \<noteq> number_string v"
  defines "signed \<equiv> \<lambda>b. join_with ''.'' (signed_fields (telemetry_of_body b))"
    and "altered \<equiv> jm_set ''voltage'' (JNum v') body"
  shows "isValidTelemetrySignature rt (telemetry_of_body body) (telemetrySecret env) = Inr True \<and>
    signed altered \<noteq> signed body \<and>
    isValidTelemetrySignature rt (telemetry_of_body altered) (telemetrySecret env) =
      Inr (rt_hmac rt (telemetrySecret env) (signed body) = rt_hmac rt (telemetrySecret env) (signed altered))"
proof -
  let ?secret = "telemetrySecret env"
  obtain si st where b: "body = signed_body si (signTelemetry (sl_hmac L) si ?secret)" "ts_status si = evidence_status_string st"
    using sensor_body[OF assms(3)] by blast
  have volt: "ts_voltage si = Some v" using assms(4)
    by (cases "ts_voltage si"; cases "ts_currentAmps si") (simp_all add: b(1) signed_body_def json_field_def)
  have str: "signed body = telemetrySigningString si"
    unfolding signed_def b(1) by (rule signing_string[OF b(2), symmetric])
  have "te_signature (telemetry_of_body body) = rt_hmac rt ?secret (telemetrySigningString si)"
    unfolding b(1) by (simp add: telemetry_of_body_def body_lookups signTelemetry_def assms(2))
  then have sig: "te_signature (telemetry_of_body body) = rt_hmac rt ?secret (signed body)" unfolding str .
  have alt: "altered = signed_body (si\<lparr>ts_voltage := Some v'\<rparr>) (signTelemetry (sl_hmac L) si ?secret)"
    unfolding altered_def b(1) by (rule voltage_body[OF volt])
  have "te_signature (telemetry_of_body altered) = rt_hmac rt ?secret (telemetrySigningString si)"
    unfolding alt by (simp add: telemetry_of_body_def body_lookups signTelemetry_def assms(2))
  then have sig': "te_signature (telemetry_of_body altered) = rt_hmac rt ?secret (signed body)" unfolding str .
  have hex: "length (rt_hmac rt ?secret m) = 64" "list_all is_hex (rt_hmac rt ?secret m)" "to_lower (rt_hmac rt ?secret m) = rt_hmac rt ?secret m" for m
    using assms(1) lower_hex_64D by (auto simp: hmac_hex_def)
  have "signed altered \<noteq> signed body"
    using assms(5) volt unfolding signed_def alt b(1)
    by (cases "ts_currentAmps si") (simp_all add: signed_fields_def telemetry_of_body_def body_lookups)
  then show ?thesis
    using judged_signature[OF assms(1), of "telemetry_of_body body" ?secret] judged_signature[OF assms(1), of "telemetry_of_body altered" ?secret]
    by (simp add: sig sig' hex signed_def)
qed

subsection \<open>Tokens\<close>

definition simulator_user :: "user_role \<Rightarrow> string \<Rightarrow> user" where
  "simulator_user role created = \<lparr>us_id = simulatorUserId role, us_role = role,
     us_phoneOrEmail = ''sim-'' @ role_string role @ ''@gridproof.test'', us_createdAt = created\<rparr>"

text \<open>The tokens that the simulator mints for itself are the session tokens that the API would issue to its users
  for an hour, when neither of the secrets is set to the empty string.\<close>

theorem minted_token_is_session:
  assumes "jc_encode jc = base64UrlJson L" "jc_sign jc = sl_hmac64 L"
    and "env ''SUPABASE_JWT_SECRET'' \<noteq> Some []" "env ''GRIDPROOF_DEV_JWT_SECRET'' \<noteq> Some []"
    and "createSessionToken env jc now (simulator_user role created) 3600 = Inr session"
  shows "st_token session = mintToken L env now role"
proof -
  have secret: "jwtSecret env = Inr s \<Longrightarrow> s = sim_jwtSecret env" for s
    using assms(3,4) by (auto simp: jwtSecret_def sim_jwtSecret_def Let_def split: option.splits if_splits)
  obtain s where s: "jwtSecret env = Inr s" using assms(5) by (cases "jwtSecret env") (simp_all add: createSessionToken_def Let_def)
  have "CHR ''@'' \<in> set (us_phoneOrEmail (simulator_user role created))" by (simp add: simulator_user_def)
  then have "session_payload (simulator_user role created) n (n + 3600) = mint_payload role n" for n
    by (simp add: session_payload_def mint_payload_def simulator_user_def)
  with assms(1,2,5) s secret[OF s] show ?thesis
    by (auto simp: createSessionToken_def mintToken_def Let_def JWT_HEADER_def)
qed

text \<open>An empty secret: the API falls back to the secret of the code, the simulator signs with the empty string.\<close>

lemma empty_secret_differs:
  assumes "env ''SUPABASE_JWT_SECRET'' = Some []" "\<not> is_production env"
  shows "jwtSecret env = Inr LOCAL_DEV_JWT_SECRET" "sim_jwtSecret env = []" "sim_jwtSecret env \<noteq> LOCAL_DEV_JWT_SECRET"
  using assms by (simp_all add: jwtSecret_def sim_jwtSecret_def LOCAL_DEV_JWT_SECRET_def)

subsection \<open>Rounds\<close>

text \<open>A server that keeps the calls it gets.\<close>

definition logged :: "'s sim_lib \<Rightarrow> ('s \<times> string list) sim_lib" where
  "logged L = \<lparr>sl_clock = (\<lambda>(s, calls). sl_clock L s),
     sl_fetch = (\<lambda>call (s, calls). let (r, s') = sl_fetch L call s in (r, (s', calls @ [fc_url call]))),
     sl_sha256 = sl_sha256 L, sl_hmac = sl_hmac L, sl_hmac64 = sl_hmac64 L, sl_base64url = sl_base64url L\<rparr>"

definition urls :: "('s \<times> string list) simulator \<Rightarrow> string list" where "urls s = snd (sm_server s)"

lemma post_logged: "urls (snd (post_json (logged L) url body token s)) = urls s @ [url]"
  by (simp add: post_json_def httpJson_def logged_def urls_def Let_def case_prod_beta split: sum.split prod.split)

lemma note_urls [simp]: "urls (snd (note_check name st s)) = urls s" "fst (note_check name st s) = Inr ()"
  by (simp_all add: note_check_def urls_def)

lemma seq_urls:
  "snd (seq m f s) = (case fst (m s) of Inl e \<Rightarrow> snd (m s) | Inr x \<Rightarrow> snd (f x (snd (m s))))"
  "fst (seq m f s) = (case fst (m s) of Inl e \<Rightarrow> Inl e | Inr x \<Rightarrow> fst (f x (snd (m s))))"
  by (simp_all add: seq_def split: prod.split sum.split)

lemma submit_rounds_calls:
  "\<exists>k \<le> n. urls (snd (submit_rounds (logged L) baseUrl token n totals s)) =
     urls s @ replicate k (baseUrl @ ''/api/v1/chain/submit-pending'')"
proof (induction n arbitrary: totals s)
  case 0
  then show ?case by (simp add: ret_def)
next
  case (Suc n)
  let ?url = "baseUrl @ ''/api/v1/chain/submit-pending''"
  let ?m = "post_json (logged L) ?url [] (Some token)"
  have one: "urls (snd (?m s)) = urls s @ [?url]" by (rule post_logged)
  have more: "\<exists>k \<le> n. urls (snd (submit_rounds (logged L) baseUrl token n t (snd (?m s)))) = urls s @ replicate (Suc k) ?url" for t
    using Suc.IH[of t "snd (?m s)"] unfolding one by simp
  show ?case
  proof (cases "fst (?m s)")
    case (Inl e)
    with one show ?thesis by (intro exI[of _ 1]) (simp add: seq_urls)
  next
    case (Inr response)
    let ?totals = "\<lparr>ct_scanned = fadd (ct_scanned totals) (numberField (Some (ht_body response)) ''scanned''),
                ct_submitted = fadd (ct_submitted totals) (numberField (Some (ht_body response)) ''submitted''),
                ct_reason = (case text_field (Some (ht_body response)) ''reason'' of Some r \<Rightarrow> Some r | None \<Rightarrow> ct_reason totals)\<rparr>"
    have "urls (snd (submit_rounds (logged L) baseUrl token (Suc n) totals s)) = urls s @ [?url] \<or>
        snd (submit_rounds (logged L) baseUrl token (Suc n) totals s) = snd (submit_rounds (logged L) baseUrl token n ?totals (snd (?m s)))"
      using one Inr by (simp add: seq_urls Let_def ret_def)
    then show ?thesis
    proof
      assume "urls (snd (submit_rounds (logged L) baseUrl token (Suc n) totals s)) = urls s @ [?url]"
      then show ?thesis by (intro exI[of _ 1]) simp
    next
      assume eq: "snd (submit_rounds (logged L) baseUrl token (Suc n) totals s) = snd (submit_rounds (logged L) baseUrl token n ?totals (snd (?m s)))"
      from more[of ?totals] obtain k where "k \<le> n" "urls (snd (submit_rounds (logged L) baseUrl token (Suc n) totals s)) = urls s @ replicate (Suc k) ?url"
        unfolding eq by blast
      then show ?thesis by (intro exI[of _ "Suc k"]) simp
    qed
  qed
qed

text \<open>Whatever the server answers, the chain stage ends: it asks for at most eight rounds of submission and then at
  most once for the index.\<close>

theorem chain_stage_ends:
  "\<exists>k m. k \<le> 8 \<and> m \<le> 1 \<and> urls (snd (driveChain (logged L) baseUrl token s)) =
     urls s @ replicate k (baseUrl @ ''/api/v1/chain/submit-pending'') @ replicate m (baseUrl @ ''/api/v1/chain/index-confirmations'')"
proof -
  let ?m = "submit_rounds (logged L) baseUrl token CHAIN_SUBMIT_ROUNDS \<lparr>ct_scanned = 0, ct_submitted = 0, ct_reason = None\<rparr>"
  obtain k where k: "k \<le> 8" "urls (snd (?m s)) = urls s @ replicate k (baseUrl @ ''/api/v1/chain/submit-pending'')"
    using submit_rounds_calls[of CHAIN_SUBMIT_ROUNDS L baseUrl token] unfolding CHAIN_SUBMIT_ROUNDS_def by blast
  show ?thesis
  proof (cases "\<exists>totals. fst (?m s) = Inr (Some totals)")
    case True
    then obtain totals where t: "fst (?m s) = Inr (Some totals)" by blast
    have "urls (snd (driveChain (logged L) baseUrl token s)) =
        urls s @ replicate k (baseUrl @ ''/api/v1/chain/submit-pending'') @ replicate 1 (baseUrl @ ''/api/v1/chain/index-confirmations'')"
      using k t by (simp add: driveChain_def seq_urls post_logged Let_def split: sum.split)
    with k(1) show ?thesis by blast
  next
    case False
    then have "snd (driveChain (logged L) baseUrl token s) = snd (?m s)"
      by (auto simp: driveChain_def seq_urls ret_def split: sum.split option.split)
    with k show ?thesis by (intro exI[of _ k] exI[of _ 0]) simp
  qed
qed

end
