(* ===== verification/Typing.thy ===== *)
theory Typing imports Demo_Lab Worker Providers Gate Intake begin

section \<open>What is well typed stays well typed\<close>

text \<open>
  The constraints that the migrations put on the tables (unique keys, references, checks on the
  confidence and the uptime) and what the schemas of \<open>domain.ts\<close> ask of the same values in the
  memory stores and in the jobs of the queue. Every operation of the process keeps them, whatever
  it is given and however it ends; \<open>typed_act Q m\<close> adds that a returned value satisfies \<open>Q\<close>.
\<close>

definition unit_range :: "rat \<Rightarrow> bool" where
  "unit_range x \<longleftrightarrow> 0 \<le> x \<and> x \<le> 1"

definition bps_range :: "int \<Rightarrow> bool" where
  "bps_range n \<longleftrightarrow> 0 \<le> n \<and> n \<le> 10000"

definition typed_tables :: "tables \<Rightarrow> bool" where
  "typed_tables t \<longleftrightarrow> tables_ok t \<and>
     distinct (map er_idempotency_key (t_evidence_events t)) \<and>
     distinct (map cr_candidate_key (t_candidate_events t)) \<and>
     distinct (map pv_wallet_address (t_providers t)) \<and>
     distinct (map ur_phone_or_email (t_users t)) \<and>
     (\<forall>c \<in> set (t_candidate_events t). unit_range (cr_confidence c)) \<and>
     (\<forall>d \<in> set (t_agent_decisions t). unit_range (dr_confidence d)) \<and>
     (\<forall>e \<in> set (t_evidence_events t). opt_all unit_range (er_confidence_hint e))"

text \<open>Every value that a memory store holds.\<close>

definition all_values :: "('v \<Rightarrow> bool) \<Rightarrow> ('k, 'v) jsmap \<Rightarrow> bool" where
  "all_values P m \<longleftrightarrow> (\<forall>v \<in> set (jm_values m). P v)"

lemma all_values_set: "all_values P m \<Longrightarrow> P v \<Longrightarrow> all_values P (jm_set k v m)"
  using jm_values_set_subset[of k v m] by (fastforce simp: all_values_def)

lemma all_values_get: "all_values P m \<Longrightarrow> jm_get m k = Some v \<Longrightarrow> P v"
  using jm_get_in_values[of m k v] by (auto simp: all_values_def)

lemma all_values_Nil [simp]: "all_values P []"
  by (simp add: all_values_def)

definition typed_stores :: "world \<Rightarrow> bool" where
  "typed_stores w \<longleftrightarrow>
     all_values (\<lambda>c. unit_range (ca_confidence c)) (candidatesByKey w) \<and>
     all_values (\<lambda>c. unit_range (ca_confidence c)) (memoryCandidatesById w) \<and>
     all_values (\<lambda>d. unit_range (ad_confidence d)) (memoryDecisions w) \<and>
     all_values (\<lambda>s. bps_range (es_uptimeBps s)) (memoryEpochScoresByKey w) \<and>
     (\<forall>job \<in> set (bullJobs w). unit_range (ca_confidence (jb_candidate job)))"

definition typed :: "world \<Rightarrow> bool" where
  "typed w \<longleftrightarrow> typed_tables (db w) \<and> typed_stores w"

lemmas typed_defs = typed_def typed_tables_def typed_stores_def tables_ok_def

text \<open>The stores that \<open>typed\<close> reads.\<close>

definition typed_part :: "world \<Rightarrow> _" where
  "typed_part w = (candidatesByKey w, memoryCandidatesById w, memoryDecisions w, memoryEpochScoresByKey w, bullJobs w,
     t_evidence_events (db w), t_candidate_events (db w), t_providers (db w), t_users (db w), t_agent_decisions (db w),
     t_epoch_scores (db w), t_chain_commitments (db w))"

lemma typed_part_typed: "typed_part w' = typed_part w \<Longrightarrow> typed w \<Longrightarrow> typed w'"
  by (simp add: typed_part_def typed_defs)

definition typed_act :: "('a \<Rightarrow> bool) \<Rightarrow> 'a act \<Rightarrow> bool" where
  "typed_act Q m \<longleftrightarrow> (\<forall>w r w'. typed w \<longrightarrow> m w = (r, w') \<longrightarrow> typed w' \<and> (\<forall>x. r = Inr x \<longrightarrow> Q x))"

lemma typed_actI: "(\<And>w r w'. typed w \<Longrightarrow> m w = (r, w') \<Longrightarrow> typed w' \<and> (\<forall>x. r = Inr x \<longrightarrow> Q x)) \<Longrightarrow> typed_act Q m"
  by (simp add: typed_act_def)

lemma typed_actD: "typed_act Q m \<Longrightarrow> typed w \<Longrightarrow> m w = (r, w') \<Longrightarrow> typed w'"
  and typed_actQ: "typed_act Q m \<Longrightarrow> typed w \<Longrightarrow> m w = (Inr x, w') \<Longrightarrow> Q x"
  by (simp_all add: typed_act_def)

lemma typed_actE: "typed_act Q m \<Longrightarrow> typed w \<Longrightarrow> m w = (r, w') \<Longrightarrow> typed w' \<and> (\<forall>x. r = Inr x \<longrightarrow> Q x)"
  by (simp add: typed_act_def)

lemma typed_snd: "typed_act Q m \<Longrightarrow> typed w \<Longrightarrow> typed (snd (m w))"
  by (metis prod.collapse typed_actD)

lemma typed_weaken: "typed_act P m \<Longrightarrow> (\<And>x. P x \<Longrightarrow> Q x) \<Longrightarrow> typed_act Q m"
  by (simp add: typed_act_def)

lemma typed_bind:
  assumes "typed_act P m" "\<And>x. P x \<Longrightarrow> typed_act Q (f x)"
  shows "typed_act Q (bindS m f)"
proof (rule typed_actI)
  fix w r w' assume w: "typed w" and run: "bindS m f w = (r, w')"
  obtain r1 w1 where m: "m w = (r1, w1)" by fastforce
  note w1 = typed_actD[OF assms(1) w m]
  show "typed w' \<and> (\<forall>x. r = Inr x \<longrightarrow> Q x)"
  proof (cases r1)
    case (Inl e)
    with m run w1 show ?thesis by (auto simp: bindS_def)
  next
    case (Inr x)
    with m run have "f x w1 = (r, w')" by (simp add: bindS_def)
    with assms(2)[OF typed_actQ[OF assms(1) w m[unfolded Inr]]] w1 show ?thesis by (auto simp: typed_act_def)
  qed
qed

lemma typed_seq: "typed_act (\<lambda>_. True) m \<Longrightarrow> (\<And>x. typed_act Q (f x)) \<Longrightarrow> typed_act Q (bindS m f)"
  by (rule typed_bind)

lemma typed_pure:
  "Q x \<Longrightarrow> typed_act Q (returnS x)" "typed_act Q (throwS e)" "(\<And>x. r = Inr x \<Longrightarrow> Q x) \<Longrightarrow> typed_act Q (liftS r)"
  by (auto simp: typed_act_def)

lemma typed_getS: "(\<And>w. typed w \<Longrightarrow> Q (g w)) \<Longrightarrow> typed_act Q (getS g)"
  by (auto simp: typed_act_def)

lemma typed_modify: "(\<And>w. typed w \<Longrightarrow> typed (h w)) \<Longrightarrow> typed_act (\<lambda>_. True) (modifyS h)"
  by (auto simp: typed_act_def)

lemma typed_modify_db: "(\<And>t. typed_tables t \<Longrightarrow> typed_tables (h t)) \<Longrightarrow> typed_act (\<lambda>_. True) (modify_db h)"
  by (auto simp: typed_act_def typed_def typed_stores_def)

lemma typed_if: "(b \<Longrightarrow> typed_act Q m) \<Longrightarrow> (\<not> b \<Longrightarrow> typed_act Q n) \<Longrightarrow> typed_act Q (if b then m else n)"
  by simp

lemma typed_option:
  "(x = None \<Longrightarrow> typed_act Q m) \<Longrightarrow> (\<And>v. x = Some v \<Longrightarrow> typed_act Q (f v)) \<Longrightarrow>
   typed_act Q (case x of None \<Rightarrow> m | Some v \<Rightarrow> f v)"
  by (cases x) simp_all

lemma typed_look: "(\<And>w. typed w \<Longrightarrow> typed_act Q (F w)) \<Longrightarrow> typed_act Q (\<lambda>w. F w w)"
  unfolding typed_act_def by blast

lemma typed_lookup:
  assumes "\<And>w v. typed w \<Longrightarrow> g w = Some v \<Longrightarrow> typed_act (\<lambda>_. True) (F v)"
  shows "typed_act (\<lambda>_. True) (\<lambda>w. case g w of None \<Rightarrow> (r0, w) | Some v \<Rightarrow> F v w)"
proof (rule typed_actI)
  fix w r w' assume "typed w" "(case g w of None \<Rightarrow> (r0, w) | Some v \<Rightarrow> F v w) = (r, w')"
  then show "typed w' \<and> (\<forall>x. r = Inr x \<longrightarrow> True)"
    using assms by (cases "g w") (auto dest: typed_actD)
qed

lemma typed_same: "keeps (same typed_part) m \<Longrightarrow> typed_act (\<lambda>_. True) m"
  unfolding typed_act_def using keepsD same_def typed_part_typed by metis

lemma typed_part_basic:
  "keeps (same typed_part) (randomUUID rt)" "keeps (same typed_part) (count k)" "keeps (same typed_part) (emit e)"
  "keeps (same typed_part) (appendAuditLog rt i)" "keeps (same typed_part) (db_timestamp s)"
  by (simp_all add: keeps_def same_def typed_part_def count_def emit_def appendAuditLog_run db_timestamp_def split: option.split)

lemmas typed_basic = typed_part_basic[THEN typed_same]
lemmas typed_rules = typed_pure typed_seq typed_if typed_option typed_basic

subsection \<open>Evidence and candidates\<close>

lemma applied_range: "unit_range (applyAgreement base agreement)"
  using applyAgreement_bounds[of base agreement] ceilings(4) by (simp add: unit_range_def)

lemma detection_range: "run_detection rt e es w = (Inr (Some c), w') \<Longrightarrow> unit_range (ca_confidence c)"
  using applied_range
  by (auto simp: run_detection_def detectCandidateFromEvidence_def Let_def split: sum.splits option.splits if_splits)

definition typed_candidate :: "candidate_event option \<Rightarrow> bool" where
  "typed_candidate c \<longleftrightarrow> opt_all (\<lambda>c. unit_range (ca_confidence c)) c"

lemma typed_detection: "typed_act typed_candidate (run_detection rt e es)"
proof (rule typed_actI)
  fix w r w' assume "typed w" and run: "run_detection rt e es w = (r, w')"
  have "same typed_part w w'"
    using run by (auto simp: run_detection_def same_def typed_part_def split: sum.splits option.splits)
  with \<open>typed w\<close> have "typed w'" by (auto simp: same_def intro: typed_part_typed)
  with detection_range run show "typed w' \<and> (\<forall>x. r = Inr x \<longrightarrow> typed_candidate x)"
    by (auto simp: typed_candidate_def opt_all_def split: option.split)
qed

lemma typed_memory_candidate: "typed_act typed_candidate (storeMemoryCandidate rt e)"
  unfolding storeMemoryCandidate_def
proof (intro typed_bind[OF typed_getS] TrueI typed_bind[OF typed_detection] typed_option typed_pure)
  fix c v assume "typed_candidate c" "c = Some v"
  then have v: "unit_range (ca_confidence v)" by (simp add: typed_candidate_def)
  show "typed_act typed_candidate (bindS (modifyS (\<lambda>w. w\<lparr>candidatesByKey := jm_set (candidateKeyFor e) v (candidatesByKey w)\<rparr>))
      (\<lambda>_. returnS (Some v)))"
  proof (rule typed_seq[OF typed_modify typed_pure(1)])
    fix w assume "typed w"
    with v show "typed (w\<lparr>candidatesByKey := jm_set (candidateKeyFor e) v (candidatesByKey w)\<rparr>)"
      by (simp add: typed_def typed_stores_def all_values_set)
  qed (use v in \<open>simp add: typed_candidate_def\<close>)
qed (simp_all add: typed_candidate_def)

definition typed_result :: "ingest_store_result \<Rightarrow> bool" where
  "typed_result r \<longleftrightarrow> typed_candidate (ir_candidateEvent r)"

lemma typed_memory_evidence: "typed_act typed_result (upsert_memory_evidence rt k build)"
proof -
  have store: "typed_act typed_result (bindS (modifyS (\<lambda>w. w\<lparr>evidenceByIdempotencyKey := jm_set k e (evidenceByIdempotencyKey w)\<rparr>)) (\<lambda>_.
      bindS (storeMemoryCandidate rt e) (\<lambda>c.
      returnS \<lparr>ir_duplicate = False, ir_evidenceEvent = e, ir_candidateEvent = c\<rparr>)))" for e
    by (intro typed_seq[OF typed_modify] typed_bind[OF typed_memory_candidate] typed_pure)
      (auto simp: typed_result_def typed_def typed_stores_def)
  let ?new = "bindS (randomUUID rt) (\<lambda>a. bindS (randomUUID rt) (\<lambda>b w.
      (let e = build a b (to_iso (w_now w)) in bindS (modifyS (\<lambda>w. w\<lparr>evidenceByIdempotencyKey := jm_set k e (evidenceByIdempotencyKey w)\<rparr>)) (\<lambda>_.
      bindS (storeMemoryCandidate rt e) (\<lambda>c.
      returnS \<lparr>ir_duplicate = False, ir_evidenceEvent = e, ir_candidateEvent = c\<rparr>))) w))"
  have new: "typed_act typed_result ?new"
    unfolding Let_def by (intro typed_seq[OF typed_basic(1)] store
        typed_look[where F = "\<lambda>w. bindS (modifyS (\<lambda>v. v\<lparr>evidenceByIdempotencyKey := jm_set k (build _ _ (to_iso (w_now w)))
          (evidenceByIdempotencyKey v)\<rparr>)) (\<lambda>_. bindS (storeMemoryCandidate rt (build _ _ (to_iso (w_now w)))) (\<lambda>c.
          returnS \<lparr>ir_duplicate = False, ir_evidenceEvent = build _ _ (to_iso (w_now w)), ir_candidateEvent = c\<rparr>))"])
  show ?thesis
  proof (rule typed_actI)
    fix w r w' assume w: "typed w" and run: "upsert_memory_evidence rt k build w = (r, w')"
    show "typed w' \<and> (\<forall>x. r = Inr x \<longrightarrow> typed_result x)"
    proof (cases "jm_get (evidenceByIdempotencyKey w) k")
      case None
      have "?new w = (r, w')" using run None by (simp only: upsert_memory_evidence_def option.case Let_def)
      with new w show ?thesis by (rule typed_actE)
    next
      case (Some e)
      have "typed_candidate (findMemoryCandidate e w)"
        using w all_values_get[of "\<lambda>c. unit_range (ca_confidence c)" "candidatesByKey w" "candidateKeyFor e"]
        by (cases "jm_get (candidatesByKey w) (candidateKeyFor e)")
          (simp_all add: findMemoryCandidate_def typed_candidate_def typed_def typed_stores_def)
      moreover have "r = Inr \<lparr>ir_duplicate = True, ir_evidenceEvent = e, ir_candidateEvent = findMemoryCandidate e w\<rparr>" "w' = w"
        using run by (auto simp: upsert_memory_evidence_def Some)
      ultimately show ?thesis using w by (simp add: typed_result_def)
    qed
  qed
qed

subsection \<open>The database store\<close>

lemma typed_insert_new:
  assumes "distinct (map key rows)"
  shows "distinct (map key (snd (sql_insert_new key rows r)))"
  using assms by (rule sql_insert_new_laws(3))

lemma insert_new_all:
  "\<forall>x \<in> set rows. P x \<Longrightarrow> P r \<Longrightarrow> \<forall>x \<in> set (snd (sql_insert_new key rows r)). P x"
  by (simp add: sql_insert_new_def)

lemma insert_new_subset: "set rows \<subseteq> set (snd (sql_insert_new key rows r))"
  by (auto simp: sql_insert_new_def)

lemma typed_insert_candidate:
  assumes "unit_range (ca_confidence c)"
  shows "typed_act (\<lambda>_. True) (insert_candidate key c)"
proof -
  have "typed_tables (t\<lparr>t_candidate_events := snd (sql_insert_new cr_candidate_key (t_candidate_events t) row)\<rparr>)"
    if t: "typed_tables t" and row: "cr_confidence row = ca_confidence c" for t row
  proof -
    let ?rows = "snd (sql_insert_new cr_candidate_key (t_candidate_events t) row)"
    have "distinct (map cr_candidate_key ?rows)" using t by (intro typed_insert_new) (simp add: typed_tables_def)
    moreover have "\<forall>x \<in> set ?rows. unit_range (cr_confidence x)"
      using t row assms by (intro insert_new_all) (simp_all add: typed_tables_def)
    moreover have "\<forall>d \<in> set (t_agent_decisions t). \<exists>x \<in> set ?rows. cr_id x = dr_candidate_event_id d"
      using t insert_new_subset[of "t_candidate_events t" cr_candidate_key row] unfolding typed_tables_def tables_ok_def by blast
    ultimately show ?thesis using t by (simp add: typed_tables_def tables_ok_def)
  qed
  then show ?thesis
    unfolding insert_candidate_def
    by (intro typed_seq typed_basic) (auto simp: typed_act_def typed_def typed_stores_def Let_def case_prod_beta)
qed

lemma find_candidate_range: "typed w \<Longrightarrow> typed_candidate (findDatabaseCandidateByKey e w)"
  by (auto simp: findDatabaseCandidateByKey_def typed_candidate_def opt_all_def typed_def typed_tables_def mapCandidateRow_def
      dest!: sql_find_Some split: option.split)

lemma typed_database_candidate: "typed_act typed_candidate (storeDatabaseCandidate rt e)"
  unfolding storeDatabaseCandidate_def
  by (intro typed_bind[OF typed_getS] TrueI typed_bind[OF typed_detection] typed_option typed_pure
      typed_seq[OF typed_insert_candidate] typed_getS find_candidate_range) (simp_all add: typed_candidate_def)

lemma upsert_wallets:
  assumes "typed w" "\<And>r. pv_wallet_address (upd r) = pv_wallet_address r"
  shows "typed (w\<lparr>w_uuids := n, db := db w\<lparr>t_providers := snd (sql_upsert pv_wallet_address upd row (t_providers (db w)))\<rparr>\<rparr>)"
proof -
  have "distinct (map pv_wallet_address (snd (sql_upsert pv_wallet_address upd row (t_providers (db w)))))"
    using assms by (intro distinct_sql_upsert) (simp_all add: typed_def typed_tables_def)
  with assms(1) show ?thesis by (simp add: typed_defs)
qed

lemma typed_insert_evidence: "typed_act (\<lambda>_. True) (insert_evidence rt input pid)"
proof -
  have "typed_tables (t\<lparr>t_evidence_events := snd (sql_insert_new er_idempotency_key (t_evidence_events t) row)\<rparr>)"
    if t: "typed_tables t" and row: "er_confidence_hint row = None" for t row
  proof -
    let ?rows = "snd (sql_insert_new er_idempotency_key (t_evidence_events t) row)"
    have "distinct (map er_idempotency_key ?rows)" using t by (intro typed_insert_new) (simp add: typed_tables_def)
    moreover have "\<forall>x \<in> set ?rows. opt_all unit_range (er_confidence_hint x)"
      using t row by (intro insert_new_all) (simp_all add: typed_tables_def)
    ultimately show ?thesis using t by (simp add: typed_tables_def tables_ok_def)
  qed
  then show ?thesis
    unfolding insert_evidence_def
    by (intro typed_seq typed_basic) (auto simp: typed_act_def typed_def typed_stores_def Let_def case_prod_beta)
qed

lemma typed_zone: "typed_act (\<lambda>_. True) (ensureZone rt z)"
  by (rule typed_actI) (auto simp: ensureZone_def intro: typed_part_typed[rotated] simp: typed_part_def)

lemma typed_provider: "typed_act (\<lambda>_. True) (ensureProvider rt wallet ty z)"
  by (rule typed_actI) (auto simp: ensureProvider_def Let_def case_prod_beta intro!: upsert_wallets)

lemma typed_database_evidence: "typed_act typed_result (upsertDatabaseEvidence rt input)"
proof -
  have find: "typed_act (\<lambda>_. True) (findEvidenceByIdempotencyKey k)" for k
    by (rule typed_same) (simp add: keeps_def same_def findEvidenceByIdempotencyKey_def split: option.split)
  show ?thesis
    unfolding upsertDatabaseEvidence_def
    by (intro typed_seq[OF typed_zone] typed_seq[OF typed_provider] typed_seq[OF typed_insert_evidence] typed_seq[OF find]
        typed_bind[where P = typed_candidate] typed_if typed_database_candidate typed_getS find_candidate_range typed_pure)
      (simp_all add: typed_result_def)
qed

theorem typed_evidence:
  "typed_act typed_result (upsertTelemetryEvidence rt t)" "typed_act typed_result (upsertReporterEvidence rt p)"
  by (simp_all add: upsertTelemetryEvidence_def upsertReporterEvidence_def typed_database_evidence typed_memory_evidence)

subsection \<open>The pipeline\<close>

lemma gate_range: "ad_confidence (decisionForCandidate uuid now c) = ca_confidence c"
  by (simp add: decisionForCandidate_def Let_def)

lemma typed_upsert_decision:
  assumes "unit_range (ad_confidence d)"
  shows "typed_act (\<lambda>_. True) (upsertDatabaseDecision d)"
proof (rule typed_actI)
  fix w r w' assume w: "typed w" and run: "upsertDatabaseDecision d w = (r, w')"
  have ok: "tables_ok (db w')" using upsert_decision_ok[of w d] w run by (simp add: typed_def typed_tables_def)
  have range: "\<forall>x \<in> set (snd (stored_decision d created (t_agent_decisions (db w)))). unit_range (dr_confidence x)" for created
    unfolding stored_decision_def by (rule sql_upsert_all) (use w assms in \<open>simp_all add: typed_def typed_tables_def\<close>)
  have "w' = w \<or> (\<exists>created. w' = w\<lparr>db := db w\<lparr>t_agent_decisions := snd (stored_decision d created (t_agent_decisions (db w)))\<rparr>\<rparr>)"
    using run by (auto simp: upsert_decision_run split: option.splits if_splits)
  with ok range w show "typed w' \<and> (\<forall>x. r = Inr x \<longrightarrow> True)"
    by (auto simp: typed_def typed_tables_def typed_stores_def)
qed

text \<open>The score row that a commitment refers to is in the table when the commitment is written.\<close>

lemma typed_epoch_rows:
  assumes "typed w" "bps_range (ep_uptime_bps row)" "\<And>r. epoch_key (upd r) = epoch_key r" "\<And>r. ep_id (upd r) = ep_id r"
    and "\<And>r. ep_uptime_bps (upd r) = ep_uptime_bps row"
  defines "result \<equiv> sql_upsert epoch_key upd row (t_epoch_scores (db w))"
  shows "typed (w\<lparr>db := db w\<lparr>t_epoch_scores := snd result\<rparr>\<rparr>)" "fst result \<in> set (snd result)"
proof -
  have "\<forall>x \<in> set (snd result). 0 \<le> ep_uptime_bps x \<and> ep_uptime_bps x \<le> 10000"
    unfolding result_def by (rule sql_upsert_all) (use assms(1,2,5) in \<open>simp_all add: typed_defs bps_range_def\<close>)
  moreover have "distinct (map epoch_key (snd result))"
    unfolding result_def using assms(1,3) by (intro distinct_sql_upsert) (simp_all add: typed_defs)
  moreover have "\<exists>y \<in> set (snd result). ep_id y = ep_id x" if "x \<in> set (t_epoch_scores (db w))" for x
    unfolding result_def using that assms(4) by (rule sql_upsert_keeps)
  then have "\<forall>m \<in> set (t_chain_commitments (db w)). \<exists>s \<in> set (snd result). ep_id s = cm_epoch_score_id m"
    using assms(1) unfolding typed_defs by metis
  ultimately show "typed (w\<lparr>db := db w\<lparr>t_epoch_scores := snd result\<rparr>\<rparr>)"
    using assms(1) by (simp add: typed_defs)
  show "fst result \<in> set (snd result)" unfolding result_def using assms(3) by (rule sql_upsert_fst)
qed

lemma typed_commitment_rows:
  assumes "typed w" "\<exists>s \<in> set (t_epoch_scores (db w)). ep_id s = cm_epoch_score_id row"
    and "\<And>r. cm_epoch_score_id (upd r) = cm_epoch_score_id r"
  shows "typed (w\<lparr>db := db w\<lparr>t_chain_commitments := snd (sql_upsert cm_epoch_score_id upd row (t_chain_commitments (db w)))\<rparr>\<rparr>)"
proof -
  let ?rows = "snd (sql_upsert cm_epoch_score_id upd row (t_chain_commitments (db w)))"
  have "distinct (map cm_epoch_score_id ?rows)" using assms(1,3) by (intro distinct_sql_upsert) (simp_all add: typed_defs)
  moreover have "\<forall>m \<in> set ?rows. \<exists>s \<in> set (t_epoch_scores (db w)). ep_id s = cm_epoch_score_id m"
    by (rule sql_upsert_all) (use assms in \<open>simp_all add: typed_defs\<close>)
  ultimately show ?thesis using assms(1) by (simp add: typed_defs)
qed

definition stored_score :: "epoch_score \<Rightarrow> world \<Rightarrow> bool" where
  "stored_score s w \<longleftrightarrow> (\<exists>row \<in> set (t_epoch_scores (db w)). ep_id row = es_id s)"

lemma recompute_typed:
  assumes "typed w" "recomputeDatabaseEpochScore rt c w = (r, w')"
  shows "typed w' \<and> (\<forall>s. r = Inr s \<longrightarrow> stored_score s w')"
proof (cases "floorToEpoch (ca_windowEnd c)")
  case (Inl e)
  with assms show ?thesis by (auto simp: recomputeDatabaseEpochScore_def)
next
  case (Inr start)
  show ?thesis
  proof (cases "date_parse start")
    case None
    with assms Inr show ?thesis by (auto simp: recomputeDatabaseEpochScore_def db_timestamp_def)
  next
    case (Some t)
    let ?s = "epochScoreForApprovedCandidates rt (w_now w) (ca_zoneId c) start
      (map candidate_of_row (approved_rows (db w) (ca_zoneId c) t (t + EPOCH_DURATION_MS)))"
    let ?row = "\<lparr>ep_id = es_id ?s, ep_zone_id = es_zoneId ?s, ep_epoch_start = t, ep_uptime_bps = es_uptimeBps ?s,
      ep_evidence_hash = es_evidenceHash ?s, ep_created_at = w_now w\<rparr>"
    let ?result = "sql_upsert epoch_key (\<lambda>r. r\<lparr>ep_uptime_bps := es_uptimeBps ?s, ep_evidence_hash := es_evidenceHash ?s\<rparr>) ?row
      (t_epoch_scores (db w))"
    have run: "r = Inr (epoch_of_row (fst ?result))" "w' = w\<lparr>db := db w\<lparr>t_epoch_scores := snd ?result\<rparr>\<rparr>"
      using assms(2) Inr Some by (simp_all add: recomputeDatabaseEpochScore_def db_timestamp_def Let_def case_prod_beta)
    have "bps_range (ep_uptime_bps ?row)"
      by (simp add: bps_range_def epochScoreForApprovedCandidates_def uptime_bps_bounds)
    from typed_epoch_rows[OF assms(1) this, of "\<lambda>r. r\<lparr>ep_uptime_bps := es_uptimeBps ?s, ep_evidence_hash := es_evidenceHash ?s\<rparr>"]
    have "typed (w\<lparr>db := db w\<lparr>t_epoch_scores := snd ?result\<rparr>\<rparr>)" "fst ?result \<in> set (snd ?result)" by simp_all
    then show ?thesis by (auto simp: run stored_score_def)
  qed
qed

lemma typed_announce: "typed_act (\<lambda>_. True) (announce_commitment rt c d s m src)"
  unfolding announce_commitment_def auditChainQueued_def by (intro typed_rules TrueI)

lemma typed_database_commitment: "typed_act (\<lambda>_. True) (database_commitment rt c d src)"
proof (rule typed_actI)
  fix w r w' assume w: "typed w" and run: "database_commitment rt c d src w = (r, w')"
  obtain r1 w1 where first: "recomputeDatabaseEpochScore rt c w = (r1, w1)" by fastforce
  note one = recompute_typed[OF w first]
  show "typed w' \<and> (\<forall>x. r = Inr x \<longrightarrow> True)"
  proof (cases r1)
    case (Inl e)
    with run first one show ?thesis by (simp add: database_commitment_def bindS_Inl)
  next
    case (Inr s)
    define w2 where "w2 = w1\<lparr>db := db w1\<lparr>t_chain_commitments := snd (stored_commitment rt w1 s)\<rparr>\<rparr>"
    have "\<exists>x \<in> set (t_epoch_scores (db w1)). ep_id x = es_id s" using one Inr by (simp add: stored_score_def)
    then have "typed w2"
      unfolding w2_def stored_commitment_def Let_def using one by (intro typed_commitment_rows) simp_all
    moreover have "announce_commitment rt c d s (commitment_of_row (fst (stored_commitment rt w1 s))) src w2 = (r, w')"
      using run first Inr by (simp add: database_commitment_def bindS_def upsert_commitment_run w2_def)
    ultimately show ?thesis using typed_actD[OF typed_announce] by simp
  qed
qed

lemma typed_memory_commitment: "typed_act (\<lambda>_. True) (memory_commitment rt c d src)"
proof -
  have "typed_act (\<lambda>s. bps_range (es_uptimeBps s)) (recomputeMemoryEpochScore rt c)"
    unfolding recomputeMemoryEpochScore_def
    by (intro typed_bind[OF typed_pure(3)] TrueI)
      (auto simp: typed_act_def bps_range_def epochScoreForApprovedCandidates_def uptime_bps_bounds Let_def)
  moreover have "typed_act (\<lambda>_. True) (modifyS (\<lambda>w. w\<lparr>memoryEpochScoresByKey := jm_set k s (memoryEpochScoresByKey w),
      memoryCommitmentsByEpochScore := jm_set k' m (memoryCommitmentsByEpochScore w)\<rparr>))"
    if "bps_range (es_uptimeBps s)" for k s k' m
    by (rule typed_modify) (use that in \<open>simp add: typed_def typed_stores_def all_values_set\<close>)
  ultimately show ?thesis
    unfolding memory_commitment_def
    by (intro typed_bind[where P = "\<lambda>s. bps_range (es_uptimeBps s)"] typed_bind[OF typed_getS] typed_seq typed_announce TrueI)
qed

lemma typed_enqueue:
  assumes "unit_range (ca_confidence (jb_candidate job))"
  shows "typed_act (\<lambda>_. True) (enqueueAgentReviewJob rt job)"
  by (rule typed_actI)
    (use assms in \<open>auto simp: enqueueAgentReviewJob_def enqueueMemoryJob_def Let_def typed_def typed_stores_def split: option.splits if_splits\<close>)

lemma typed_act_on:
  assumes "unit_range (ca_confidence c)" "typed_act (\<lambda>_. True) commit"
  shows "typed_act (\<lambda>_. True) (act_on_decision rt c d e sim commit)"
  unfolding act_on_decision_def review_required_def queueAgentReview_def auditSimulationProofPreview_def
  by (cases "ad_decision d"; cases sim) (use assms in \<open>auto intro!: typed_rules typed_enqueue\<close>)

theorem typed_pipeline:
  assumes "unit_range (ca_confidence c)"
  shows "typed_act (\<lambda>_. True) (processCandidatePipeline rt c e sim)"
proof -
  have memory: "typed_act (\<lambda>_. True) (modifyS (\<lambda>w. w\<lparr>memoryDecisions := jm_set k d (memoryDecisions w),
      memoryCandidatesById := jm_set k' c (memoryCandidatesById w)\<rparr>))" if "unit_range (ad_confidence d)" for k k' d
    by (rule typed_modify) (use that assms in \<open>simp add: typed_def typed_stores_def all_values_set\<close>)
  have "typed_act (\<lambda>d. unit_range (ad_confidence d)) (getS (\<lambda>w. decisionForCandidate uuid (w_now w) c))" for uuid
    by (rule typed_getS) (simp add: gate_range assms)
  then show ?thesis
    unfolding processCandidatePipeline_def auditAgentDecision_def
    by (intro typed_seq[OF typed_basic(1)] typed_bind[where P = "\<lambda>d. unit_range (ad_confidence d)"] typed_if
        typed_seq[OF typed_upsert_decision] typed_seq[OF memory] typed_seq[OF typed_basic(4)] typed_seq[OF typed_basic(2)]
        typed_act_on assms typed_database_commitment typed_memory_commitment)
qed

subsection \<open>Reviews\<close>

lemma reviewed_ranges:
  "dr_confidence (reviewed_row at0 d n r) = dr_confidence r" "decision_key (reviewed_row at0 d n r) = decision_key r"
  "ad_confidence (reviewed_memory_decision x d n at0) = ad_confidence x"
  by (simp_all add: reviewed_row_def decision_key_def reviewed_memory_decision_def Let_def)

lemma typed_review_rows:
  assumes "typed_tables t"
  shows "typed_tables (t\<lparr>t_agent_decisions := sql_update P (reviewed_row at0 d n) (t_agent_decisions t)\<rparr>)"
proof -
  have "tables_ok (t\<lparr>t_agent_decisions := sql_update P (reviewed_row at0 d n) (t_agent_decisions t)\<rparr>)"
    using assms by (intro reviewed_tables_ok) (simp add: typed_tables_def)
  moreover have "\<forall>x \<in> set (sql_update P (reviewed_row at0 d n) (t_agent_decisions t)). unit_range (dr_confidence x)"
    using assms by (auto simp: sql_update_def typed_tables_def reviewed_ranges)
  ultimately show ?thesis using assms by (simp add: typed_tables_def)
qed

lemma typed_review_audit: "typed_act (\<lambda>_. True) (auditReviewDecision rt b a n u)"
  unfolding auditReviewDecision_def by (rule typed_basic)

lemma typed_find_candidate: "typed_act (\<lambda>_. True) (findDatabaseCandidate cid)"
  by (rule typed_same) (simp add: keeps_def same_def findDatabaseCandidate_def split: option.split)

lemma typed_find: "List.find P xs = Some x \<Longrightarrow> Q x" if "\<forall>x \<in> set xs. Q x" for Q
  using that by (auto simp: find_Some_iff)

lemma typed_resolve_database: "typed_act (\<lambda>_. True) (resolve_database rt i d n u)"
proof (rule typed_actI)
  fix w r w' assume w: "typed w" and run: "resolve_database rt i d n u w = (r, w')"
  show "typed w' \<and> (\<forall>x. r = Inr x \<longrightarrow> True)"
  proof (cases "sql_find dr_id (t_agent_decisions (db w)) i")
    case None
    with w run show ?thesis by (simp add: resolve_database_def)
  next
    case (Some row)
    have "typed_act (\<lambda>_. True) (bindS (modify_db (\<lambda>t. t\<lparr>t_agent_decisions :=
            sql_update (\<lambda>r. dr_id r = i) (reviewed_row (to_iso (w_now w)) d n) (t_agent_decisions t)\<rparr>)) (\<lambda>_.
          bindS (auditReviewDecision rt (Some (mapDecisionRow row)) (mapDecisionRow (reviewed_row (to_iso (w_now w)) d n row)) n u) (\<lambda>_.
          if ad_decision (mapDecisionRow (reviewed_row (to_iso (w_now w)) d n row)) \<noteq> Approve
          then returnS (decided (mapDecisionRow (reviewed_row (to_iso (w_now w)) d n row)))
          else bindS (findDatabaseCandidate (ad_candidateEventId (mapDecisionRow (reviewed_row (to_iso (w_now w)) d n row)))) (\<lambda>candidate.
            database_commitment rt candidate (mapDecisionRow (reviewed_row (to_iso (w_now w)) d n row)) ReviewApproval))))"
      by (intro typed_seq typed_modify_db typed_review_rows typed_review_audit typed_if typed_pure typed_find_candidate
          typed_database_commitment TrueI)
    from typed_actE[OF this w run[unfolded resolve_database_def Some option.case Let_def]] show ?thesis .
  qed
qed

lemma typed_resolve_memory: "typed_act (\<lambda>_. True) (resolve_memory rt i d n u)"
proof (rule typed_actI)
  fix w r w' assume w: "typed w" and run: "resolve_memory rt i d n u w = (r, w')"
  show "typed w' \<and> (\<forall>x. r = Inr x \<longrightarrow> True)"
  proof (cases "List.find (\<lambda>d. ad_id d = i) (jm_values (memoryDecisions w))")
    case None
    with w run show ?thesis by (simp add: resolve_memory_def)
  next
    case (Some current)
    let ?u = "reviewed_memory_decision current d n (to_iso (w_now w))"
    have range: "unit_range (ad_confidence ?u)"
      using typed_find[of "jm_values (memoryDecisions w)" "\<lambda>d. unit_range (ad_confidence d)", OF _ Some] w
      by (simp add: reviewed_ranges typed_def typed_stores_def all_values_def)
    have stored: "typed_act (\<lambda>_. True) (bindS (modifyS (\<lambda>w. w\<lparr>memoryCandidatesById := jm_set k c (memoryCandidatesById w)\<rparr>)) (\<lambda>_.
        if d = Approve then memory_commitment rt c ?u ReviewApproval else returnS (decided ?u)))"
      if "unit_range (ca_confidence c)" for k c
      by (intro typed_seq typed_modify typed_if typed_memory_commitment typed_pure TrueI)
        (use that in \<open>simp add: typed_def typed_stores_def all_values_set\<close>)
    have "typed_act (\<lambda>_. True) (\<lambda>w. case List.find (\<lambda>c. ca_id c = ad_candidateEventId current) (jm_values (candidatesByKey w)) of
          None \<Rightarrow> (Inr (decided ?u), w)
        | Some c \<Rightarrow> bindS (modifyS (\<lambda>w. w\<lparr>memoryCandidatesById := jm_set (ca_id c) c (memoryCandidatesById w)\<rparr>)) (\<lambda>_.
            if d = Approve then memory_commitment rt c ?u ReviewApproval else returnS (decided ?u)) w)"
      by (rule typed_lookup, rule stored, erule typed_find[rotated]) (simp add: typed_def typed_stores_def all_values_def)
    then have all: "typed_act (\<lambda>_. True) (bindS (modifyS (\<lambda>w. w\<lparr>memoryDecisions := jm_set (ad_candidateEventId current) ?u (memoryDecisions w)\<rparr>))
        (\<lambda>_. bindS (auditReviewDecision rt (Some current) ?u n u) (\<lambda>_ w.
          case List.find (\<lambda>c. ca_id c = ad_candidateEventId current) (jm_values (candidatesByKey w)) of
            None \<Rightarrow> (Inr (decided ?u), w)
          | Some c \<Rightarrow> bindS (modifyS (\<lambda>w. w\<lparr>memoryCandidatesById := jm_set (ca_id c) c (memoryCandidatesById w)\<rparr>)) (\<lambda>_.
              if d = Approve then memory_commitment rt c ?u ReviewApproval else returnS (decided ?u)) w)))" (is "typed_act _ ?m")
      by (intro typed_seq typed_modify typed_review_audit)
        (use range in \<open>simp add: typed_def typed_stores_def all_values_set\<close>)
    have "resolve_memory rt i d n u w = ?m w" unfolding resolve_memory_def Some option.case Let_def ..
    with run have "?m w = (r, w')" by simp
    with all w show ?thesis by (rule typed_actE)
  qed
qed

end
