(* ===== verification/Typing_Process.thy ===== *)
theory Typing_Process imports Typing Dashboard begin

section \<open>The other operations keep the types\<close>

lemma typed_get_seq: "(\<And>x. typed_act Q (f x)) \<Longrightarrow> typed_act Q (bindS (getS g) f)"
  by (rule typed_bind[where P = "\<lambda>_. True", OF typed_getS]) simp_all

subsection \<open>Chain sweeps\<close>

lemma typed_update_commitment:
  assumes "\<And>c. cm_epoch_score_id (upd c) = cm_epoch_score_id c"
  shows "typed_act (\<lambda>_. True) (update_commitment cid upd)"
  unfolding update_commitment_def
proof (rule typed_modify_db)
  fix t assume t: "typed_tables t"
  let ?rows = "sql_update (\<lambda>c. cm_id c = cid) upd (t_chain_commitments t)"
  have "map cm_epoch_score_id ?rows = map cm_epoch_score_id (t_chain_commitments t)"
    using assms by (rule sql_update_keys)
  moreover have "\<forall>m \<in> set ?rows. \<exists>s \<in> set (t_epoch_scores t). ep_id s = cm_epoch_score_id m"
    using t assms by (auto simp: sql_update_def typed_tables_def tables_ok_def)
  ultimately show "typed_tables (t\<lparr>t_chain_commitments := ?rows\<rparr>)"
    using t by (simp add: typed_tables_def tables_ok_def)
qed

lemma typed_submit_rows: "typed_act (\<lambda>_. True) (submit_rows rt ch rows hs)"
  by (induction rt ch rows hs rule: submit_rows.induct)
    (auto intro!: typed_rules typed_update_commitment simp del: act_apply split: sum.split)

lemma typed_index_rows: "typed_act (\<lambda>_. True) (index_rows rt ch rows result)"
proof (induction rows arbitrary: result)
  case (Cons row rows)
  show ?case
    unfolding index_rows.simps Let_def
    by (intro typed_seq[OF typed_pure(3)] typed_get_seq typed_option typed_seq[OF typed_update_commitment]
        typed_seq[OF typed_basic(3)] typed_seq[OF typed_basic(4)] Cons TrueI) simp_all
qed (simp add: typed_pure)

theorem typed_sweeps:
  "typed_act (\<lambda>_. True) (submitPendingCommitments rt ch n)" "typed_act (\<lambda>_. True) (indexPendingConfirmations rt ch n)"
  unfolding submitPendingCommitments_def indexPendingConfirmations_def submitPendingCommitmentsWithClient_def
    indexPendingConfirmationsWithClient_def skip_submission_def skip_index_def Let_def
  by (intro typed_rules typed_get_seq typed_submit_rows typed_index_rows TrueI)+

subsection \<open>The heartbeat sweep\<close>

lemma gap_range:
  assumes "c \<in> set (detectHeartbeatGapCandidates lc uuid z ev g now)"
  shows "unit_range (ca_confidence c)"
proof -
  obtain u i we ends cb where c: "c = buildGapCandidate u z (or_else g HEARTBEAT_GAP_MS) (heartbeatsFor lc z ev) i we ends cb now"
    using detect_built[OF assms] by blast
  then obtain x n where conf: "ca_confidence c = gapConfidence x (or_else g HEARTBEAT_GAP_MS) n" by simp
  have "MIN_GAP_CONFIDENCE \<le> ca_confidence c" "ca_confidence c \<le> MAX_GAP_CONFIDENCE"
    unfolding conf by (rule gapConfidence_min[OF detect_positive[OF assms]], rule gapConfidence_le_max)
  moreover have "0 \<le> MIN_GAP_CONFIDENCE" "MAX_GAP_CONFIDENCE \<le> 1"
    by (simp_all add: MIN_GAP_CONFIDENCE_def MAX_GAP_CONFIDENCE_def fl_eval)
  ultimately show ?thesis by (simp add: unit_range_def)
qed

lemma typed_record_gap:
  assumes "unit_range (ca_confidence c)"
  shows "typed_act typed_candidate (recordGapCandidate rt c)"
proof (cases "isDatabaseConfigured rt")
  case True
  have "typed_act typed_candidate (bindS (insert_candidate k c) (\<lambda>inserted. returnS (if inserted then Some c else None)))" for k
    by (intro typed_seq typed_insert_candidate typed_pure) (use assms in \<open>simp_all add: typed_candidate_def\<close>)
  with True show ?thesis by (simp add: typed_act_def recordGapCandidate_def)
next
  case False
  with assms show ?thesis
    by (auto simp: typed_act_def recordGapCandidate_def Let_def typed_candidate_def typed_def typed_stores_def all_values_set split: if_splits)
qed

lemma typed_sweep_candidates:
  assumes "\<forall>c \<in> set cs. unit_range (ca_confidence c)" "typed w" "sweep_candidates rt cs result w = (ok, result', w')"
  shows "typed w'"
  using assms
proof (induction cs arbitrary: result w)
  case (Cons c cs)
  obtain r w1 where rec: "recordGapCandidate rt c w = (r, w1)" by fastforce
  have range: "unit_range (ca_confidence c)" using Cons.prems(1) by simp
  note w1 = typed_actE[OF typed_record_gap[OF range] Cons.prems(2) rec]
  show ?case
  proof (cases r)
    case (Inl e)
    with Cons.prems(3) rec w1 show ?thesis by simp
  next
    case (Inr found)
    show ?thesis
    proof (cases found)
      case None
      with Cons.prems Inr rec w1 show ?thesis using Cons.IH[of w1 result] by simp
    next
      case (Some d)
      let ?w = "w1\<lparr>w_counters := (w_counters w1)\<lparr>candidatesDetected := candidatesDetected (w_counters w1) + 1\<rparr>,
        w_events := w_events w1 @ [CandidateDetected d]\<rparr>"
      have "typed ?w" using w1 by (auto intro: typed_part_typed[rotated] simp: typed_part_def)
      moreover have "unit_range (ca_confidence d)" using w1 Inr Some by (simp add: typed_candidate_def)
      ultimately have "typed (snd (processCandidatePipeline rt d None None ?w))" by (intro typed_snd[OF typed_pipeline])
      with Cons.prems Inr Some rec show ?thesis by (auto intro: Cons.IH)
    qed
  qed
qed simp

lemma typed_sweep_zones: "typed w \<Longrightarrow> sweep_zones rt now zones result w = (result', w') \<Longrightarrow> typed w'"
proof (induction zones arbitrary: result w)
  case (Cons zone zones)
  obtain z evidence where zone: "zone = (z, evidence)" by fastforce
  obtain cs w1 where cand: "zone_candidates rt now z evidence w = (cs, w1)" by fastforce
  have range: "\<forall>c \<in> set cs. unit_range (ca_confidence c)" and w1: "typed w1"
    using cand Cons.prems(1) gap_range by (auto simp: zone_candidates_def Let_def intro: typed_part_typed[rotated] simp: typed_part_def)
  obtain ok r2 w2 where sweep: "sweep_candidates rt cs (result\<lparr>hs_candidates := hs_candidates result + length cs\<rparr>) w1 = (ok, r2, w2)"
    by (metis prod_cases3)
  note w2 = typed_sweep_candidates[OF range w1 sweep]
  from Cons.prems(2) have "(if ok then sweep_zones rt now zones r2 w2 else (r2, w2)) = (result', w')"
    by (simp add: zone cand sweep)
  with w2 Cons.IH[of w2 r2] show ?case by (cases ok) simp_all
qed simp

theorem typed_timer: "typed w \<Longrightarrow> typed (run_timer rt ch s w)"
  using typed_sweep_zones typed_snd[OF typed_sweeps(1)] typed_snd[OF typed_sweeps(2)]
  by (cases s) (auto simp: run_timer_def runHeartbeatSweep_def Let_def runChainSubmit_def runChainIndex_def
      intro: typed_sweep_zones[OF _ prod.collapse[symmetric]])

subsection \<open>Users, providers, notifications\<close>

lemma typed_users:
  assumes "typed w" "\<And>r. ur_phone_or_email (upd r) = ur_phone_or_email r"
  shows "typed (w\<lparr>db := db w\<lparr>t_users := snd (sql_upsert ur_phone_or_email upd row (t_users (db w)))\<rparr>\<rparr>)"
proof -
  have "distinct (map ur_phone_or_email (snd (sql_upsert ur_phone_or_email upd row (t_users (db w)))))"
    using assms by (intro distinct_sql_upsert) (simp_all add: typed_defs)
  with assms(1) show ?thesis by (simp add: typed_defs)
qed

lemma typed_register_user: "typed_act (\<lambda>_. True) (registerUser rt input)"
proof -
  have memory: "typed_act (\<lambda>_. True) (modifyS (\<lambda>w. w\<lparr>memoryUsersByIdentity := h w\<rparr>))" for h
    by (rule typed_modify) (simp add: typed_defs)
  let ?upsert = "\<lambda>uuid w. sql_upsert ur_phone_or_email (\<lambda>r. r\<lparr>ur_role := sql_role_case (ur_role r) (rg_role input)\<rparr>)
    \<lparr>ur_id = uuid, ur_role = rg_role input, ur_phone_or_email = normalizeIdentity (rg_phoneOrEmail input), ur_created_at = w_now w\<rparr>
    (t_users (db w))"
  have database: "typed_act (\<lambda>_. True) (bindS (getS (?upsert uuid)) (\<lambda>(row, rows).
      bindS (modify_db (\<lambda>t. t\<lparr>t_users := rows\<rparr>)) (\<lambda>_. f row)))"
    if "\<And>row. typed_act (\<lambda>_. True) (f row)" for uuid and f :: "user_row \<Rightarrow> user act"
  proof (rule typed_actI)
    fix w r w' assume w: "typed w"
      and run: "bindS (getS (?upsert uuid)) (\<lambda>(row, rows). bindS (modify_db (\<lambda>t. t\<lparr>t_users := rows\<rparr>)) (\<lambda>_. f row)) w = (r, w')"
    have "typed (w\<lparr>db := db w\<lparr>t_users := snd (?upsert uuid w)\<rparr>\<rparr>)" by (rule typed_users[OF w]) simp
    moreover have "f (fst (?upsert uuid w)) (w\<lparr>db := db w\<lparr>t_users := snd (?upsert uuid w)\<rparr>\<rparr>) = (r, w')"
      using run by (simp add: case_prod_beta)
    ultimately show "typed w' \<and> (\<forall>x. r = Inr x \<longrightarrow> True)" by (rule typed_actE[OF that])
  qed
  show ?thesis
    unfolding registerUser_def Let_def
    by (intro typed_seq[OF typed_pure(3)] typed_if typed_get_seq typed_option typed_seq[OF typed_basic(1)]
        typed_seq[OF memory] typed_seq[OF typed_basic(4)] typed_pure database TrueI)
qed

lemma typed_register_provider: "typed_act (\<lambda>_. True) (registerProvider rt input actor)"
proof -
  have memory: "typed_act (\<lambda>_. True) (modifyS (\<lambda>w. w\<lparr>memoryProvidersByWallet := h w\<rparr>))" for h
    by (rule typed_modify) (simp add: typed_defs)
  have row: "typed_act (\<lambda>_. True) (upsert_provider_row rt wallet input)" for wallet
    by (rule typed_actI) (auto simp: upsert_provider_row_def Let_def case_prod_beta intro!: upsert_wallets)
  show ?thesis
    unfolding registerProvider_def register_memory_def register_database_def auditProviderRegistration_def Let_def
    by (intro typed_seq[OF typed_zone] typed_seq[OF row] typed_if typed_get_seq typed_option typed_seq[OF typed_basic(1)]
        typed_seq[OF memory] typed_seq typed_basic(4) typed_pure TrueI)
qed

lemma typed_notifications:
  "keeps (same typed_part) (attachNotifications rt e)" "keeps (same typed_part) (deliverNotification rt fetch n)"
proof -
  have "keeps (same typed_part) (storeNotification rt n)" for n
    unfolding storeNotification_def
    by (intro keeps_if same.keeps_modify same.keeps_bind same.keeps_db typed_part_basic) (simp_all add: same_def typed_part_def)
  then show "keeps (same typed_part) (attachNotifications rt e)"
    unfolding attachNotifications_def enqueueReviewRequired_def enqueueChainCommitted_def enqueueNotification_def
    by (cases e) (auto intro!: same.keeps_basic typed_part_basic)
  have mark: "keeps (same typed_part) (markNotificationDelivered rt i st err)" for i st err
    unfolding markNotificationDelivered_def
    by (intro same.keeps_basic keeps_if same.keeps_modify same.keeps_db) (auto simp: same_def typed_part_def split: option.split)
  show "keeps (same typed_part) (deliverNotification rt fetch n)"
    unfolding deliverNotification_def
    by (auto intro!: same.keeps_basic keeps_option mark split: webhook_reply.split)
qed

subsection \<open>The demo lab and the agent worker\<close>

lemma typed_demo_state:
  "typed_act (\<lambda>_. True) (modifyS (\<lambda>w. w\<lparr>memoryChallenges := h w\<rparr>))"
  "typed_act (\<lambda>_. True) (modifyS (\<lambda>w. w\<lparr>memoryRuns := k w\<rparr>))"
  by (rule typed_modify, simp add: typed_defs)+

lemma typed_challenge: "typed_act (\<lambda>_. True) (createDemoWalletChallenge rt input)"
  unfolding createDemoWalletChallenge_def Let_def
  by (intro typed_if typed_seq[OF typed_basic(1)] typed_get_seq typed_seq[OF typed_demo_state(1)] typed_pure TrueI)

lemma typed_submit_or_audit: "typed_act (\<lambda>_. True) (submit_or_audit rt ch i c)"
proof (rule typed_actI)
  fix w r w' assume w: "typed w" and run: "submit_or_audit rt ch i c w = (r, w')"
  obtain r1 w1 where sub: "submitPendingCommitments rt ch 5 w = (r1, w1)" by fastforce
  have "typed w1" by (rule typed_actD[OF typed_sweeps(1) w sub])
  with run sub show "typed w' \<and> (\<forall>x. r = Inr x \<longrightarrow> True)"
    by (auto simp: submit_or_audit_def split: sum.splits intro: typed_actD[OF typed_basic(4)])
qed

theorem typed_simulation: "typed_act (\<lambda>_. True) (runDemoSimulation rt ch verify input)"
proof -
  have consumed: "typed_act (\<lambda>_. True) (consumeChallenge verify input)"
    by (rule typed_same) (simp add: keeps_def same_def consumeChallenge_def typed_part_def split: sum.split)
  have observed: "typed_act (\<lambda>_. True) (demoObservedAt rt z b)" for z b
    by (rule typed_same) (simp add: keeps_def demoObservedAt_keeps same_def)
  show ?thesis
    unfolding runDemoSimulation_def simulate_def advance_simulation_def record_run_def
  proof (intro typed_seq[OF consumed] typed_seq[OF typed_basic(1)] typed_get_seq typed_seq[OF observed] TrueI
      typed_bind[OF typed_evidence(1)] typed_seq[OF typed_basic(2)] typed_option typed_pure)
    fix ingest candidate assume "typed_result ingest" "ir_candidateEvent ingest = Some candidate"
    then have range: "unit_range (ca_confidence candidate)" by (simp add: typed_result_def typed_candidate_def)
    show "typed_act (\<lambda>_. True) (bindS (processCandidatePipeline rt candidate e sim) (\<lambda>pipeline.
        bindS (if b pipeline then submit_or_audit rt ch i (ca_id candidate) else returnS ()) (\<lambda>_.
        bindS (modifyS (\<lambda>w. w\<lparr>memoryRuns := h w pipeline\<rparr>)) (\<lambda>_.
        bindS (appendAuditLog rt (a pipeline)) (\<lambda>_. getS (g pipeline))))))" for e sim b i h a g
      by (intro typed_seq[OF typed_pipeline] range typed_seq typed_if typed_submit_or_audit typed_pure typed_modify typed_basic(4)
          typed_getS TrueI) (simp add: typed_defs)
  qed
qed

lemma completeJson_schema: "completeJson al llm options messages name schema = Inr x \<Longrightarrow> \<exists>j. schema j = Some x"
  by (auto simp: completeJson_def bindR_def or_throw_def split: llm_reply.splits if_splits sum.splits list.splits option.splits)

lemma verification_range: "verificationOutputSchema j = Some v \<Longrightarrow> unit_range (vf_finalConfidence v)"
  by (auto simp: verificationOutputSchema_def unit_range_def split: option.splits if_splits)

lemma agent_range:
  assumes "orchestrateCandidateReview al llm job ao vo tools = AgentDecided a v"
  shows "unit_range (vf_finalConfidence v)"
proof -
  have "\<exists>options context. runVerificationAgent al llm options context a = Inr v"
    using assms by (auto simp: orchestrateCandidateReview_def run_agents_def Let_def bindR_def split: sum.splits if_splits)
  then obtain j where "verificationOutputSchema j = Some v"
    unfolding runVerificationAgent_def by (blast dest: completeJson_schema)
  then show ?thesis by (rule verification_range)
qed

lemma worker_epochs_range: "bps_range (es_uptimeBps (worker_epochScore rt now z start cs))"
proof -
  have "cs = map approved_of_row (map (\<lambda>a. \<lparr>cr_id = ap_id a, cr_candidate_key = None, cr_zone_id = ap_zoneId a,
      cr_status = ap_status a, cr_confidence = ap_confidence a, cr_window_start = 0, cr_window_end = 0,
      cr_evidence_event_ids = ap_evidenceEventIds a, cr_created_at = 0\<rparr>) cs)"
    by (simp add: o_def approved_of_row_def map_idI)
  then obtain rows where "cs = map approved_of_row rows" by blast
  then show ?thesis by (simp add: worker_score epochScoreForApprovedCandidates_def bps_range_def uptime_bps_bounds)
qed

lemma typed_insert_audit: "typed_act (\<lambda>_. True) (insert_audit rt action after)"
  unfolding insert_audit_def by (intro typed_seq[OF typed_basic(1)] typed_modify) (simp add: typed_defs)

lemma typed_queue_approved: "typed_act (\<lambda>_. True) (queueApprovedDecisionForChain rt c)"
proof -
  have stored: "typed w' \<and> (\<forall>x. r = Inr x \<longrightarrow> stored_score x w')"
    if w: "typed w" and range: "bps_range (es_uptimeBps s)" and run: "upsertEpochScore s w = (r, w')" for s w r w'
  proof (cases "date_parse (es_epochStart s)")
    case None
    with w run show ?thesis by (auto simp: upsertEpochScore_def db_timestamp_def)
  next
    case (Some start)
    show ?thesis
    proof (cases "date_parse (es_createdAt s)")
      case None
      with Some w run show ?thesis by (auto simp: upsertEpochScore_def db_timestamp_def)
    next
      case created: (Some created)
      let ?row = "\<lparr>ep_id = es_id s, ep_zone_id = es_zoneId s, ep_epoch_start = start, ep_uptime_bps = es_uptimeBps s,
        ep_evidence_hash = es_evidenceHash s, ep_created_at = created\<rparr>"
      let ?upd = "\<lambda>r. r\<lparr>ep_uptime_bps := es_uptimeBps s, ep_evidence_hash := es_evidenceHash s\<rparr>"
      have run': "r = Inr (epoch_of_row (fst (sql_upsert epoch_key ?upd ?row (t_epoch_scores (db w)))))"
        "w' = w\<lparr>db := db w\<lparr>t_epoch_scores := snd (sql_upsert epoch_key ?upd ?row (t_epoch_scores (db w)))\<rparr>\<rparr>"
        using run Some created by (simp_all add: upsertEpochScore_def db_timestamp_def Let_def case_prod_beta)
      have "bps_range (ep_uptime_bps ?row)" using range by simp
      from typed_epoch_rows[OF w this, of ?upd] show ?thesis by (auto simp: run' stored_score_def)
    qed
  qed
  have pending: "typed w'" if "typed w" "stored_score s w" "upsertPendingCommitment (worker_pendingCommitment rt now s) w = (r, w')"
    for s w now r w'
    using that by (auto simp: upsertPendingCommitment_def worker_pendingCommitment_def db_timestamp_def Let_def case_prod_beta
        stored_score_def intro!: typed_commitment_rows split: option.splits)
  have last: "typed_act (\<lambda>_. True) (bindS (upsertEpochScore s) (\<lambda>stored.
      bindS (getS (\<lambda>w. worker_pendingCommitment rt (w_now w) stored)) (\<lambda>pending.
      bindS (upsertPendingCommitment pending) (\<lambda>commitment. returnS (stored, commitment)))))"
    if range: "bps_range (es_uptimeBps s)" for s
  proof (rule typed_actI)
    fix w r w'
    assume w: "typed w" and run: "bindS (upsertEpochScore s) (\<lambda>stored.
      bindS (getS (\<lambda>w. worker_pendingCommitment rt (w_now w) stored)) (\<lambda>pending.
      bindS (upsertPendingCommitment pending) (\<lambda>commitment. returnS (stored, commitment)))) w = (r, w')"
    obtain r1 w1 where first: "upsertEpochScore s w = (r1, w1)" by fastforce
    note w1 = stored[OF w range first]
    show "typed w' \<and> (\<forall>x. r = Inr x \<longrightarrow> True)"
    proof (cases r1)
      case (Inl e)
      with run first w1 show ?thesis by (simp add: bindS_Inl)
    next
      case (Inr x)
      obtain r2 w2 where second: "upsertPendingCommitment (worker_pendingCommitment rt (w_now w1) x) w1 = (r2, w2)" by fastforce
      have "typed w2" using w1 Inr second pending by blast
      moreover have "w' = w2" using run first second Inr by (cases r2) (simp_all add: bindS_def)
      ultimately show ?thesis by simp
    qed
  qed
  have "typed_act (\<lambda>s. bps_range (es_uptimeBps s)) (getS (\<lambda>w. worker_epochScore rt (w_now w) z start cs))" for z start cs
    by (rule typed_getS) (rule worker_epochs_range)
  then show ?thesis
    unfolding queueApprovedDecisionForChain_def
    by (intro typed_seq[OF typed_pure(3)] typed_seq[OF typed_basic(5)] typed_get_seq
        typed_bind[where P = "\<lambda>s. bps_range (es_uptimeBps s)"] last TrueI)
qed

lemma typed_persist:
  assumes "unit_range (ca_confidence (jb_candidate job))" "\<And>a v. result = AgentDecided a v \<Longrightarrow> unit_range (vf_finalConfidence v)"
  shows "typed_act (\<lambda>_. True) (persistOrchestrationResult rt job result)"
proof -
  have range: "unit_range (ad_confidence (agentDecisionFromResult uuid now job result))" for uuid now
    using assms by (cases result) (simp_all add: agentDecisionFromResult_def Let_def)
  have insert: "typed_act (\<lambda>_. True) (insert_decision (agentDecisionFromResult uuid now job result))" for uuid now
    unfolding insert_decision_def by (intro typed_seq[OF typed_upsert_decision] range typed_pure TrueI)
  have queued: "typed_act (\<lambda>_. True) (bindS (queueApprovedDecisionForChain rt c) (\<lambda>(s, m). bindS (worker_auditChainQueued rt s m) (\<lambda>_. f s m)))"
    if "\<And>s m. typed_act (\<lambda>_. True) (f s m)" for c and f :: "epoch_score \<Rightarrow> worker_commitment \<Rightarrow> persist_result act"
    using that typed_queue_approved typed_insert_audit
    by (auto intro!: typed_seq simp: worker_auditChainQueued_def split: prod.split)
  show ?thesis
    unfolding persistOrchestrationResult_def Let_def worker_auditAgentDecision_def worker_auditSimulationProofPreview_def
    by (intro typed_get_seq typed_seq[OF typed_basic(1)] typed_if typed_seq[OF insert] typed_seq[OF typed_insert_audit]
        typed_pure queued TrueI)
qed

theorem typed_review:
  assumes "typed w" "job \<in> set (bullJobs w)"
  shows "typed (snd (review_candidate rt al llm config job w))"
proof -
  let ?result = "orchestrateCandidateReview al llm job (lc_analysis config) (lc_verification config) (readOnlyToolQueryFromEnv rt w)"
  have "unit_range (ca_confidence (jb_candidate job))" using assms by (simp add: typed_def typed_stores_def)
  then have "typed_act (\<lambda>_. True) (persistOrchestrationResult rt job ?result)"
    by (rule typed_persist) (rule agent_range)
  then have "typed (snd (bindS (persistOrchestrationResult rt job ?result) (\<lambda>persistence. returnS (?result, persistence)) w))"
    by (intro typed_snd[OF typed_seq] typed_pure TrueI assms(1))
  then show ?thesis by (simp add: review_candidate_def)
qed

end
