(* ===== verification/Api_Process.thy ===== *)
theory Api_Process imports Typing_Process Realtime Worker_Reports begin

section \<open>The API process\<close>

text \<open>
  \<open>app.ts\<close>, \<open>server.ts\<close>: which handler a request reaches, and the process as a whole, a step relation
  on the world: requests, timers, the listeners of domain events, the delivery of notifications, the
  jobs of the agent worker, the clock and restarts, in any order. Headers (helmet, CORS) and the
  decoding of the body are the libraries': a body that cannot be decoded is an error. The parameters
  of a path are given as they are after percent-decoding.
\<close>

subsection \<open>app.ts\<close>

record api_libs =
  lb_redis :: redis
  lb_jwt :: jwt_codec
  lb_ingest :: request_schemas
  lb_demo :: demo_schemas
  lb_chain :: chain_client
  lb_verify :: verify_message
  lb_formats :: zod_formats
  lb_zod_error :: js_error
  lb_register :: "json \<Rightarrow> register_request option"
  lb_login :: "json \<Rightarrow> string option"
  lb_review :: "json \<Rightarrow> review_request option"
  lb_provider :: "json \<Rightarrow> register_provider_request option"

record api_call =
  ac_method :: string
  ac_path :: string
  ac_decoded :: "http_request res"
    \<comment> \<open>what \<open>express.json\<close> makes of the request\<close>

datatype api_route = HealthRoute | MetricsRoute | ReadinessRoute | ZonesRoute | HistoryRoute string | AlertsRoute
  | ProofRoute string string | ReviewQueueRoute | ReviewDecisionRoute string | SubmitRoute | IndexRoute
  | NotificationsRoute | ChallengeRoute | SimulationsRoute | SimulationRoute string | UnknownDemoRoute
  | MeRoute | RegisterRoute | LoginRoute | TelemetryRoute | ReportRoute | WhatsappRoute
  | ProvidersRoute | RegisterProviderRoute

text \<open>The segments of a path; Express allows one trailing slash and no empty segment.\<close>

definition path_segments :: "string \<Rightarrow> string list option" where
  "path_segments path =
     (case split_on (CHR ''/'') path of
        [] # segments \<Rightarrow>
          let segments = (if segments \<noteq> [] \<and> last segments = [] then butlast segments else segments)
          in if [] \<in> set segments then None else Some segments
      | _ \<Rightarrow> None)"

text \<open>The routes without parameters, below \<open>/api/v1\<close>; static parts are matched without regard to case.\<close>

definition STATIC_ROUTES :: "((string \<times> string) \<times> api_route) list" where
  "STATIC_ROUTES =
     [((''GET'', ''health''), HealthRoute), ((''GET'', ''metrics''), MetricsRoute), ((''GET'', ''readiness''), ReadinessRoute),
      ((''GET'', ''zones''), ZonesRoute), ((''GET'', ''alerts''), AlertsRoute), ((''GET'', ''admin/review-queue''), ReviewQueueRoute),
      ((''POST'', ''chain/submit-pending''), SubmitRoute), ((''POST'', ''chain/index-confirmations''), IndexRoute),
      ((''GET'', ''admin/notifications''), NotificationsRoute), ((''POST'', ''demo/wallet-challenge''), ChallengeRoute),
      ((''POST'', ''demo/simulations''), SimulationsRoute), ((''GET'', ''auth/me''), MeRoute),
      ((''POST'', ''auth/register''), RegisterRoute), ((''POST'', ''auth/login''), LoginRoute),
      ((''POST'', ''ingest/telemetry''), TelemetryRoute), ((''POST'', ''ingest/report''), ReportRoute),
      ((''POST'', ''ingest/whatsapp-webhook''), WhatsappRoute), ((''GET'', ''providers''), ProvidersRoute),
      ((''POST'', ''providers''), RegisterProviderRoute)]"

definition parameter_route :: "string \<Rightarrow> string list \<Rightarrow> api_route option" where
  "parameter_route verb segments =
     (let static = (\<lambda>i. to_lower (segments ! i)) in
      if verb = ''GET'' \<and> length segments = 3 \<and> static 0 = ''zones'' \<and> static 2 = ''history'' then Some (HistoryRoute (segments ! 1))
      else if verb = ''GET'' \<and> length segments = 4 \<and> static 0 = ''chain'' \<and> static 1 = ''proof''
      then Some (ProofRoute (segments ! 2) (segments ! 3))
      else if verb = ''POST'' \<and> length segments = 4 \<and> static 0 = ''admin'' \<and> static 1 = ''review'' \<and> static 3 = ''decision''
      then Some (ReviewDecisionRoute (segments ! 2))
      else if verb = ''GET'' \<and> length segments = 3 \<and> static 0 = ''demo'' \<and> static 1 = ''simulations''
      then Some (SimulationRoute (segments ! 2))
      else if segments \<noteq> [] \<and> static 0 = ''demo'' then Some UnknownDemoRoute
      else None)"

text \<open>A HEAD request is routed like a GET request.\<close>

definition find_route :: "string \<Rightarrow> string \<Rightarrow> api_route option" where
  "find_route verb path =
     (let verb = (if verb = ''HEAD'' then ''GET'' else verb) in
      case path_segments path of
        Some (api # version # segments) \<Rightarrow>
          if to_lower api = ''api'' \<and> to_lower version = ''v1''
          then (case map_of STATIC_ROUTES (verb, join_with ''/'' (map to_lower segments)) of
              Some route \<Rightarrow> Some route
            | None \<Rightarrow> parameter_route verb segments)
          else None
      | _ \<Rightarrow> None)"

definition route_not_found :: js_error where
  "route_not_found = http_error 404 ''NOT_FOUND'' ''Route not found''"

definition finish :: "(nat \<times> 'a) act \<Rightarrow> world \<Rightarrow> unit handled \<times> world" where
  "finish m w = (case run_handler m w of (h, w') \<Rightarrow> (map_handled (\<lambda>_. ()) h, w'))"

definition handle_route :: "runtime \<Rightarrow> api_libs \<Rightarrow> int \<Rightarrow> api_route \<Rightarrow> http_request \<Rightarrow> world \<Rightarrow> unit handled \<times> world" where
  "handle_route rt L startedAt route req =
     (let F = lb_formats L; E = lb_zod_error L; authorization = hr_authorization req; body = hr_body req in
      case route of
        HealthRoute \<Rightarrow> finish (bindS (getS (\<lambda>w. health_handler (rt_env rt) (w_now w))) (respond E (healthResponseSchema F) 200))
      | MetricsRoute \<Rightarrow> finish (bindS (getS (metrics_handler startedAt)) (respond E metricsResponseSchema 200))
      | ReadinessRoute \<Rightarrow> finish (getS (\<lambda>w. readiness_handler (rt_env rt) (w_now w)))
      | ZonesRoute \<Rightarrow> finish (zones_route rt F E)
      | HistoryRoute zoneId \<Rightarrow> finish (history_route rt F E (Some zoneId))
      | AlertsRoute \<Rightarrow> finish (alerts_route rt F E)
      | ProofRoute zoneId epoch \<Rightarrow> finish (proof_route rt F E (Some zoneId) (Some epoch))
      | ReviewQueueRoute \<Rightarrow> finish (review_queue_route rt (lb_jwt L) E authorization)
      | ReviewDecisionRoute i \<Rightarrow> finish (review_decision_route rt (lb_jwt L) (lb_review L) authorization (Some i) body)
      | SubmitRoute \<Rightarrow> finish (submit_route rt (lb_jwt L) (lb_chain L) authorization)
      | IndexRoute \<Rightarrow> finish (index_route rt (lb_jwt L) (lb_chain L) authorization)
      | NotificationsRoute \<Rightarrow> finish (notifications_route rt (lb_jwt L) E authorization)
      | ChallengeRoute \<Rightarrow> finish (wallet_challenge_route rt (lb_redis L) (lb_demo L) req)
      | SimulationsRoute \<Rightarrow> finish (simulation_route rt (lb_redis L) (lb_demo L) (lb_chain L) (lb_verify L) req)
      | SimulationRoute i \<Rightarrow> finish (get_simulation_route rt (lb_demo L) i)
      | UnknownDemoRoute \<Rightarrow> finish (bindS (liftS (demo_enabled rt)) (\<lambda>_. throwS route_not_found) :: (nat \<times> unit) act)
      | MeRoute \<Rightarrow> finish (bindS (me_route (rt_env rt) (lb_jwt L) authorization) (\<lambda>u. returnS (200, u)))
      | RegisterRoute \<Rightarrow> finish (bindS (liftS (validateBody (lb_register L) body)) (register_route rt (lb_jwt L)))
      | LoginRoute \<Rightarrow> finish (bindS (liftS (validateBody (lb_login L) body)) (login_route rt (lb_jwt L)))
      | TelemetryRoute \<Rightarrow> (\<lambda>w. case telemetry_route rt (lb_redis L) (lb_ingest L) req w of (h, w') \<Rightarrow> (map_handled (\<lambda>_. ()) h, w'))
      | ReportRoute \<Rightarrow> finish (report_route rt (lb_redis L) (lb_jwt L) (lb_ingest L) req)
      | WhatsappRoute \<Rightarrow> finish (whatsapp_route rt (lb_redis L) (lb_ingest L) req)
      | ProvidersRoute \<Rightarrow> finish (providers_route rt F E)
      | RegisterProviderRoute \<Rightarrow> finish (register_provider_route rt (lb_jwt L) (lb_chain L) E (lb_provider L) authorization body))"

text \<open>How the client sees the end of a request: a status, or no answer when a promise is rejected
  outside every handler. A preflight request is answered by the cors package.\<close>

datatype api_outcome = Answered nat | Unanswered js_error

definition serve_request :: "runtime \<Rightarrow> api_libs \<Rightarrow> int \<Rightarrow> api_call \<Rightarrow> world \<Rightarrow> api_outcome \<times> world" where
  "serve_request rt L startedAt call w =
     (if ac_method call = ''OPTIONS'' then (Answered 204, w)
      else
        let (handled, w) = (case ac_decoded call of
            Inl e \<Rightarrow> (NextError e, w)
          | Inr req \<Rightarrow> (case find_route (ac_method call) (ac_path call) of
              None \<Rightarrow> (NextError route_not_found, w)
            | Some route \<Rightarrow> handle_route rt L startedAt route req w))
        in case handled of
             Responded status _ \<Rightarrow> (Answered status, w)
           | UnhandledRejection e \<Rightarrow> (Unanswered e, w)
           | NextError e \<Rightarrow> (case notFoundHandler (ac_method call) (ac_path call) e w of
               ((response, captured), w) \<Rightarrow> (Answered (eb_status response), w)))"

subsection \<open>The process\<close>

text \<open>A restart loses what the process keeps in memory; the database and the queue stay.\<close>

definition restarted :: "world \<Rightarrow> world" where
  "restarted w = (empty_world (w_now w))\<lparr>w_uuids := w_uuids w, bullJobs := bullJobs w, db := db w\<rparr>"

inductive process_step :: "runtime \<Rightarrow> world \<Rightarrow> world \<Rightarrow> bool" for rt where
  clock_ticks: "w_now w \<le> t \<Longrightarrow> process_step rt w (w\<lparr>w_now := t\<rparr>)"
| request_served: "serve_request rt L startedAt call w = (outcome, w') \<Longrightarrow> process_step rt w w'"
| timer_fires: "timers (startScheduler (rt_env rt)) s \<noteq> None \<Longrightarrow> process_step rt w (run_timer rt ch s w)"
| event_heard: "e \<in> set (w_events w) \<Longrightarrow> process_step rt w (snd (attachNotifications rt e w))"
| notification_sent: "process_step rt w (snd (deliverNotification rt fetch n w))"
| job_processed: "job \<in> set (bullJobs w) \<Longrightarrow> process_step rt w (snd (review_candidate rt al llm config job w))"
| process_restarts: "process_step rt w (restarted w)"

inductive_cases process_stepE: "process_step rt w w'"

definition reachable :: "runtime \<Rightarrow> world \<Rightarrow> world \<Rightarrow> bool" where
  "reachable rt = (process_step rt)\<^sup>*\<^sup>*"

lemma reachable_start [simp]: "reachable rt w w"
  by (simp add: reachable_def)

lemma reachable_step: "reachable rt w v \<Longrightarrow> process_step rt v v' \<Longrightarrow> reachable rt w v'"
  by (simp add: reachable_def)

lemma reachable_invariant [consumes 2, case_names step]:
  assumes "reachable rt w v" "I w" "\<And>a b. I a \<Longrightarrow> process_step rt a b \<Longrightarrow> I b"
  shows "I v"
  using assms(1,2) unfolding reachable_def by (induction rule: rtranclp_induct) (auto intro: assms(3))

subsection \<open>Frames of the whole process\<close>

text \<open>What the operations of the modules promise about a frame, and what follows for every step.\<close>

locale process_frame = frame R for R :: "world \<Rightarrow> world \<Rightarrow> bool" +
  fixes rt :: runtime
  assumes books: "R w (w\<lparr>w_counters := k\<rparr>)" "R w (w\<lparr>memoryCounters := m\<rparr>)" "R w (w\<lparr>redisFallbackKeys := ks\<rparr>)"
    and ticks: "R w (w\<lparr>w_now := t\<rparr>)" and restarts: "R w (restarted w)"
    and stores: "keeps R (store_and_respond rt sc (upsertTelemetryEvidence rt telemetry))"
      "keeps R (store_and_respond rt sc (upsertReporterEvidence rt report))"
    and registers: "keeps R (registerUser rt user_input)" "keeps R (registerProvider rt provider_input actor)"
    and resolves: "keeps R (resolveReviewDecision rt i d note u)"
    and sweeps: "keeps R (submitPendingCommitments rt ch n)" "keeps R (indexPendingConfirmations rt ch n)"
    and demo: "keeps R (createDemoWalletChallenge rt challenge_input)" "keeps R (runDemoSimulation rt ch verify simulation_input)"
    and timer: "R w (run_timer rt ch s w)"
    and notifies: "keeps R (attachNotifications rt e)" "keeps R (deliverNotification rt fetch notification)"
    and reviews: "job \<in> set (bullJobs w) \<Longrightarrow> R w (snd (review_candidate rt al llm config job w))"
begin

lemma frame_finish: "keeps R m \<Longrightarrow> R w (snd (finish m w))"
  using keeps_snd[of R m w] by (auto simp: finish_def run_handler_def split: prod.splits sum.splits)

lemma frame_respond: "keeps R (respond E schema status body)"
  by (simp add: respond_def keeps_return)

lemma frame_memory_counter: "keeps R (incrementMemoryCounter key n)"
  by (auto simp: keeps_def incrementMemoryCounter_def Let_def books split: option.split)

lemma frame_rate_limit: "keeps R (incrementRateLimit env rd key n)"
proof -
  have memory: "keeps R (bindS (incrementMemoryCounter key n) (\<lambda>c.
      returnS \<lparr>rr_count = Some (of_nat (rate_count c)), rr_resetAt = rate_resetAt c\<rparr>))"
    by (intro keeps_bind keeps_return frame_memory_counter)
  have fallback: "R w (snd (bindS (incrementMemoryCounter key n) (\<lambda>c.
      returnS \<lparr>rr_count = Some (of_nat (rate_count c)), rr_resetAt = rate_resetAt c\<rparr>)
      (w\<lparr>redisFallbackKeys := redisFallbackKeys w @ [key]\<rparr>)))" for w
    using R_trans[OF books(3)] keeps_snd[OF memory] by blast
  show ?thesis
    using keeps_snd[OF memory] fallback R_refl
    by (auto simp: keeps_def incrementRateLimit_def Let_def split: option.split sum.split)
qed

lemma frame_rate: "keeps R (check_rate rt rd name n key req)"
  unfolding check_rate_def rateLimit_def Let_def
  by (intro keeps_bind keeps_return frame_rate_limit) (auto intro: keeps_return split: option.split)

lemma frame_guarded: "(\<And>auth. keeps R (handler auth)) \<Longrightarrow> keeps R (guarded rt jc role authorization handler)"
  unfolding guarded_def by (intro keeps_return keeps_bind)

lemmas frame_rules = keeps_return keeps_bind frame_respond frame_rate stores registers resolves sweeps demo

lemma frame_chain_registration: "keeps R (providerChainRegistrationFor rt ch input)"
  unfolding providerChainRegistrationFor_def readOnChainRegistration_def Let_def
  by (intro keeps_bind keeps_return keeps_if keeps_option) (auto intro: keeps_return split: sum.split)

lemma frame_telemetry: "R w (snd (telemetry_route rt rd sc req w))"
proof -
  have middleware: "keeps R (telemetry_middleware rt rd sc req)"
    unfolding telemetry_middleware_def check_observedAt_def by (intro frame_rules)
  have stored: "R v (snd (run_handler (store_and_respond rt sc (upsertTelemetryEvidence rt input)) v))" for v input
    using keeps_snd[OF stores(1), of v sc input] by (auto simp: run_handler_def split: prod.splits sum.splits)
  show ?thesis
  proof (cases "telemetry_middleware rt rd sc req w")
    case (Pair r w1)
    have "R w w1" using middleware Pair by (rule keepsD)
    with stored R_trans show ?thesis
      unfolding telemetry_route_def Pair by (auto split: sum.split option.split)
  qed
qed

lemma frame_report_routes:
  "keeps R (report_route rt rd jc sc req)" "keeps R (whatsapp_route rt rd sc req)"
  unfolding report_route_def whatsapp_route_def check_observedAt_def by (intro frame_rules)+

lemma frame_auth_routes: "keeps R (register_route rt jc body)" "keeps R (login_route rt jc identity)" "keeps R (me_route env jc header)"
  unfolding register_route_def login_route_def me_route_def by (intro frame_rules keeps_option)+

lemma frame_read_routes:
  "keeps R (zones_route rt F E)" "keeps R (history_route rt F E zone)" "keeps R (alerts_route rt F E)"
  "keeps R (proof_route rt F E zone epoch)" "keeps R (review_queue_route rt jc E authorization)"
  "keeps R (notifications_route rt jc E authorization)" "keeps R (providers_route rt F E)"
  "keeps R (get_simulation_route rt sc i)"
  unfolding zones_route_def history_route_def alerts_route_def proof_route_def review_queue_route_def notifications_route_def
    providers_route_def get_simulation_route_def
  by (intro frame_rules frame_guarded)+

lemma frame_write_routes:
  "keeps R (review_decision_route rt jc parse authorization i body)" "keeps R (submit_route rt jc ch authorization)"
  "keeps R (index_route rt jc ch authorization)" "keeps R (wallet_challenge_route rt rd sc req)"
  "keeps R (simulation_route rt rd sc ch verify req)" "keeps R (register_provider_route rt jc ch E parse_provider authorization body)"
  unfolding review_decision_route_def submit_route_def index_route_def wallet_challenge_route_def simulation_route_def
    register_provider_route_def
  by (intro frame_rules frame_guarded frame_chain_registration)+

lemmas frame_routes = frame_report_routes frame_auth_routes frame_read_routes frame_write_routes

lemma frame_route: "R w (snd (handle_route rt L startedAt route req w))"
proof (cases route)
  case TelemetryRoute
  then show ?thesis using frame_telemetry[of w "lb_redis L" "lb_ingest L" req] by (auto simp: handle_route_def split: prod.split)
qed (simp_all add: handle_route_def, (rule frame_finish, intro frame_rules frame_routes)+)

lemma frame_request: "serve_request rt L startedAt call w = (outcome, w') \<Longrightarrow> R w w'"
proof -
  assume run: "serve_request rt L startedAt call w = (outcome, w')"
  have handler: "R w1 w2" if "notFoundHandler m path e w1 = (x, w2)" for m path e w1 x w2
    using that books(1) by (auto simp: notFoundHandler_def Let_def)
  have routed: "R w w1" if "handle_route rt L startedAt route req w = (h, w1)" for route req h w1
    using frame_route[of w L startedAt route req] that by simp
  have "R w w'" if "handle_route rt L startedAt route req w = (h, w1)"
    and "(case h of Responded status u \<Rightarrow> (Answered status, w1) | UnhandledRejection e \<Rightarrow> (Unanswered e, w1)
      | NextError e \<Rightarrow> (case notFoundHandler m path e w1 of ((response, captured), w) \<Rightarrow> (Answered (eb_status response), w))) = (outcome, w')"
    for route req h w1 m path
    using that(2) routed[OF that(1)] by (auto split: handled.splits prod.splits dest: handler intro: R_trans)
  with run show ?thesis
    unfolding serve_request_def
    by (auto simp: Let_def R_refl split: if_splits sum.splits option.splits prod.splits dest: handler)
qed

theorem frame_step: "process_step rt w w' \<Longrightarrow> R w w'"
  by (erule process_stepE)
    (use ticks restarts timer notifies reviews frame_request in \<open>auto intro: keeps_snd\<close>)

theorem frame_reachable: "reachable rt w w' \<Longrightarrow> R w w'"
  by (erule reachable_invariant[where I = "R w"]) (auto intro: R_refl R_trans frame_step)

end

end
