(* ===== verification/History.thy ===== *)
theory History imports Api_Process begin

section \<open>What holds in every reachable state\<close>

text \<open>
  Two frames of the whole process: the types of the stores, and the history of the database, which no
  step rewrites. A commitment that has a transaction is part of the history.
\<close>

subsection \<open>The history of the database\<close>

definition same_score :: "epoch_row \<Rightarrow> epoch_row \<Rightarrow> bool" where
  "same_score s s' \<longleftrightarrow> ep_id s' = ep_id s \<and> ep_zone_id s' = ep_zone_id s \<and> ep_epoch_start s' = ep_epoch_start s"

definition same_commitment :: "commitment_row \<Rightarrow> commitment_row \<Rightarrow> bool" where
  "same_commitment m m' \<longleftrightarrow> cm_id m' = cm_id m \<and> cm_epoch_score_id m' = cm_epoch_score_id m"

definition published :: "commitment_row \<Rightarrow> bool" where
  "published m \<longleftrightarrow> cm_tx_hash m \<noteq> None"

text \<open>Every row has a successor in the later table.\<close>

definition scores_kept :: "epoch_row list \<Rightarrow> epoch_row list \<Rightarrow> bool" where
  "scores_kept rows rows' \<longleftrightarrow> (\<forall>s \<in> set rows. \<exists>s' \<in> set rows'. same_score s s')"

definition commitments_kept :: "commitment_row list \<Rightarrow> commitment_row list \<Rightarrow> bool" where
  "commitments_kept rows rows' \<longleftrightarrow>
     (\<forall>m \<in> set rows. \<exists>m' \<in> set rows'. same_commitment m m' \<and> (published m \<longrightarrow> published m'))"

definition history_kept :: "tables \<Rightarrow> tables \<Rightarrow> bool" where
  "history_kept t t' \<longleftrightarrow>
     prefix (t_audit_logs t) (t_audit_logs t') \<and>
     prefix (t_evidence_events t) (t_evidence_events t') \<and>
     prefix (t_candidate_events t) (t_candidate_events t') \<and>
     scores_kept (t_epoch_scores t) (t_epoch_scores t') \<and>
     commitments_kept (t_chain_commitments t) (t_chain_commitments t')"

definition history :: "world \<Rightarrow> world \<Rightarrow> bool" where
  "history w w' \<longleftrightarrow> history_kept (db w) (db w')"

lemma same_commitment_refl [simp]: "same_commitment m m"
  by (simp add: same_commitment_def)

lemma rows_kept_refl [simp]: "scores_kept ss ss" "commitments_kept ms ms"
  by (auto simp: scores_kept_def commitments_kept_def same_score_def same_commitment_def)

lemma scores_kept_trans: "scores_kept a b \<Longrightarrow> scores_kept b c \<Longrightarrow> scores_kept a c"
  unfolding scores_kept_def same_score_def by metis

lemma commitments_kept_trans: "commitments_kept a b \<Longrightarrow> commitments_kept b c \<Longrightarrow> commitments_kept a c"
  unfolding commitments_kept_def same_commitment_def by metis

lemma history_refl [simp]: "history_kept t t"
  by (simp add: history_kept_def)

lemma history_trans: "history_kept a b \<Longrightarrow> history_kept b c \<Longrightarrow> history_kept a c"
  unfolding history_kept_def by (meson prefix_order.trans scores_kept_trans commitments_kept_trans)

interpretation history: frame history
  by unfold_locales (auto simp: history_def intro: history_trans)

text \<open>The tables that the history is about.\<close>

definition history_part :: "world \<Rightarrow> _" where
  "history_part w = (t_audit_logs (db w), t_evidence_events (db w), t_candidate_events (db w), t_epoch_scores (db w),
     t_chain_commitments (db w))"

lemma history_same: "keeps (same history_part) m \<Longrightarrow> keeps history m"
proof (rule keepsI)
  fix w assume "keeps (same history_part) m"
  then have "history_part (snd (m w)) = history_part w" by (simp add: keeps_def same_def)
  then show "history w (snd (m w))" by (auto simp: history_part_def history_def history_kept_def)
qed

lemma history_modify: "(\<And>w. history_part (h w) = history_part w) \<Longrightarrow> keeps history (modifyS h)"
  by (rule history_same) (simp add: keeps_def same_def)

lemma history_basic:
  "keeps history (randomUUID rt)" "keeps history (count k)" "keeps history (emit e)" "keeps history (appendAuditLog rt i)"
  by (auto simp: keeps_def history_def history_kept_def count_def emit_def appendAuditLog_def)

lemma history_enqueue: "keeps history (enqueueAgentReviewJob rt job)"
  by (auto simp: keeps_def history_def enqueueAgentReviewJob_def enqueueMemoryJob_def Let_def split: option.split)

lemma history_look: "(\<And>w. keeps history (F w)) \<Longrightarrow> keeps history (\<lambda>w. F w w)"
  by (simp add: keeps_def)

lemmas history_rules = history.keeps_return history.keeps_bind history.keeps_timestamp keeps_if keeps_option history_basic
  history_enqueue

subsection \<open>Evidence and candidates\<close>

lemma insert_new_prefix: "prefix rows (snd (sql_insert_new key rows r))"
  by (simp add: sql_insert_new_def)

lemma history_detection: "keeps history (run_detection rt e es)"
  by (auto simp: keeps_def history_def run_detection_def split: sum.split option.split)

lemma history_memory_candidate: "keeps history (storeMemoryCandidate rt e)"
  unfolding storeMemoryCandidate_def
  by (intro history_rules history_detection history_modify) (simp add: history_part_def)

lemma history_memory_evidence: "keeps history (upsert_memory_evidence rt k build)"
proof -
  let ?store = "\<lambda>e. bindS (modifyS (\<lambda>w. w\<lparr>evidenceByIdempotencyKey := jm_set k e (evidenceByIdempotencyKey w)\<rparr>)) (\<lambda>_.
      bindS (storeMemoryCandidate rt e) (\<lambda>c.
      returnS \<lparr>ir_duplicate = False, ir_evidenceEvent = e, ir_candidateEvent = c\<rparr>))"
  have store: "keeps history (?store e)" for e
    by (intro history_rules history_memory_candidate history_modify) (simp add: history_part_def)
  have new: "keeps history (bindS (randomUUID rt) (\<lambda>a. bindS (randomUUID rt) (\<lambda>b w. ?store (build a b (to_iso (w_now w))) w)))"
    by (intro history.keeps_bind history_basic history_look[where F = "\<lambda>w. ?store (build _ _ (to_iso (w_now w)))"] store)
  show ?thesis
  proof (rule keepsI)
    fix w
    show "history w (snd (upsert_memory_evidence rt k build w))"
      using keeps_snd[OF new, of w]
      by (cases "jm_get (evidenceByIdempotencyKey w) k") (simp_all add: upsert_memory_evidence_def Let_def history.R_refl)
  qed
qed

lemma history_inserts:
  "keeps history (insert_candidate key c)" "keeps history (insert_evidence rt input pid)"
  unfolding insert_candidate_def insert_evidence_def
  by (intro history_rules; simp add: keeps_def history_def history_kept_def Let_def case_prod_beta insert_new_prefix)+

lemma history_database_evidence: "keeps history (upsertDatabaseEvidence rt input)"
proof -
  have parts: "keeps history (ensureZone rt z)" "keeps history (findEvidenceByIdempotencyKey k)"
    "keeps history (ensureProvider rt wa pt z)" for z k wa pt
    by (simp_all add: keeps_def history_def history_kept_def ensureZone_def findEvidenceByIdempotencyKey_def
        ensureProvider_def Let_def case_prod_beta split: option.split)
  have "keeps history (storeDatabaseCandidate rt e)" for e
    unfolding storeDatabaseCandidate_def by (intro history_rules history_detection history_inserts)
  with parts show ?thesis
    unfolding upsertDatabaseEvidence_def by (intro history_rules history_inserts) auto
qed

theorem history_evidence:
  "keeps history (upsertTelemetryEvidence rt t)" "keeps history (upsertReporterEvidence rt p)"
  by (auto simp: upsertTelemetryEvidence_def upsertReporterEvidence_def history_database_evidence history_memory_evidence)

subsection \<open>The pipeline\<close>

lemma history_decision: "keeps history (upsertDatabaseDecision d)"
  by (auto simp: keeps_def history_def history_kept_def upsert_decision_run split: option.split)

text \<open>An upsert and an update leave every row a successor.\<close>

lemma upsert_successor:
  assumes "x \<in> set rows" "\<And>r. Rel r r" "\<And>r. Rel r (upd r)"
  shows "\<exists>y \<in> set (snd (sql_upsert key upd row rows)). Rel x y"
proof (cases "sql_find key rows (key row)")
  case None
  then have "x \<in> set (snd (sql_upsert key upd row rows))" using assms(1) by (simp add: sql_upsert_def)
  with assms(2) show ?thesis by blast
next
  case (Some old)
  let ?y = "if key x = key row then upd x else x"
  have "?y \<in> set (snd (sql_upsert key upd row rows))" using Some assms(1) by (auto simp: sql_upsert_def)
  moreover have "Rel x ?y" using assms by simp
  ultimately show ?thesis by blast
qed

lemma update_successor:
  assumes "x \<in> set rows" "\<And>r. Rel r r" "\<And>r. Rel r (upd r)"
  shows "\<exists>y \<in> set (sql_update P upd rows). Rel x y"
proof -
  let ?y = "if P x then upd x else x"
  have "?y \<in> set (sql_update P upd rows)" using assms(1) by (auto simp: sql_update_def)
  moreover have "Rel x ?y" using assms by simp
  ultimately show ?thesis by blast
qed

lemma upsert_scores_kept:
  "(\<And>r. same_score r (upd r)) \<Longrightarrow> scores_kept rows (snd (sql_upsert key upd row rows))"
  unfolding scores_kept_def by (auto intro: upsert_successor simp: same_score_def)

lemma upsert_commitments_kept:
  "(\<And>r. same_commitment r (upd r) \<and> (published r \<longrightarrow> published (upd r))) \<Longrightarrow>
   commitments_kept rows (snd (sql_upsert key upd row rows))"
  unfolding commitments_kept_def
  by (intro ballI, rule upsert_successor[where Rel = "\<lambda>m m'. same_commitment m m' \<and> (published m \<longrightarrow> published m')"]) auto

lemma update_commitments_kept:
  "(\<And>r. same_commitment r (upd r) \<and> (published r \<longrightarrow> published (upd r))) \<Longrightarrow> commitments_kept rows (sql_update P upd rows)"
  unfolding commitments_kept_def
  by (intro ballI, rule update_successor[where Rel = "\<lambda>m m'. same_commitment m m' \<and> (published m \<longrightarrow> published m')"]) auto

lemma history_commitment_parts:
  "keeps history (recomputeDatabaseEpochScore rt c)" "keeps history (upsertDatabasePendingCommitment rt s)"
proof -
  show "keeps history (recomputeDatabaseEpochScore rt c)"
    unfolding recomputeDatabaseEpochScore_def
    by (intro history_rules)
      (simp add: keeps_def history_def history_kept_def Let_def case_prod_beta upsert_scores_kept same_score_def)
  show "keeps history (upsertDatabasePendingCommitment rt s)"
    by (simp add: keeps_def upsertDatabasePendingCommitment_def history_def history_kept_def Let_def case_prod_beta
        upsert_commitments_kept same_commitment_def published_def)
qed

lemma history_announce: "keeps history (announce_commitment rt c d s m src)"
  unfolding announce_commitment_def auditChainQueued_def by (intro history_rules)

lemma history_commitment:
  "keeps history (database_commitment rt c d src)" "keeps history (memory_commitment rt c d src)"
proof -
  have "keeps history (recomputeMemoryEpochScore rt c)"
    unfolding recomputeMemoryEpochScore_def by (intro history_rules) (simp add: keeps_def history_def Let_def)
  then show "keeps history (database_commitment rt c d src)" "keeps history (memory_commitment rt c d src)"
    unfolding database_commitment_def memory_commitment_def
    by (intro history_rules history_commitment_parts history_announce history_modify; simp add: history_part_def)+
qed

lemma history_act_on: "keeps history commit \<Longrightarrow> keeps history (act_on_decision rt c d e sim commit)"
  unfolding act_on_decision_def review_required_def queueAgentReview_def auditSimulationProofPreview_def
  by (cases "ad_decision d"; cases sim) (auto intro!: history_rules)

theorem history_pipeline: "keeps history (processCandidatePipeline rt c e sim)"
  unfolding processCandidatePipeline_def auditAgentDecision_def
  by (intro history_rules history_decision history_act_on history_commitment history_modify) (simp add: history_part_def)

lemma history_review_parts:
  "keeps history (auditReviewDecision rt b a n u)" "keeps history (findDatabaseCandidate cid)"
  unfolding auditReviewDecision_def
  by (intro history_rules) (simp add: findDatabaseCandidate_def keeps_def history_def split: option.split)

lemma history_resolve: "keeps history (resolveReviewDecision rt i d n u)"
proof -
  have "history w (snd (resolve_database rt i d n u w))" for w
  proof (cases "sql_find dr_id (t_agent_decisions (db w)) i")
    case (Some row)
    show ?thesis
      unfolding resolve_database_def Some option.case Let_def
      by (rule keeps_snd, intro history_rules history_review_parts history_commitment history.keeps_db)
        (simp add: history_def history_kept_def)
  qed (simp add: resolve_database_def history.R_refl)
  moreover have "history w (snd (resolve_memory rt i d n u w))" for w
  proof (cases "List.find (\<lambda>d. ad_id d = i) (jm_values (memoryDecisions w))")
    case (Some current)
    have look: "keeps history (\<lambda>w. case g w of None \<Rightarrow> (r, w) | Some v \<Rightarrow> F v w)"
      if "\<And>v. keeps history (F v)" for g r and F :: "candidate_event \<Rightarrow> pipeline_result act"
      using that by (auto simp: keeps_def history_def split: option.split)
    show ?thesis
      unfolding resolve_memory_def Some option.case Let_def
      by (rule keeps_snd, intro history_rules history_review_parts history_commitment history_modify look)
        (simp_all add: history_part_def)
  qed (simp add: resolve_memory_def history.R_refl)
  ultimately show ?thesis by (simp add: keeps_def resolveReviewDecision_def)
qed

subsection \<open>Sweeps, registrations, notifications\<close>

lemma history_update:
  assumes "\<And>r. same_commitment r (upd r) \<and> (published r \<longrightarrow> published (upd r))"
  shows "keeps history (update_commitment cid upd)"
  unfolding update_commitment_def
  by (rule history.keeps_db) (use assms in \<open>simp add: history_def history_kept_def update_commitments_kept\<close>)

lemma history_submit_rows: "keeps history (submit_rows rt ch rows hs)"
  by (induction rt ch rows hs rule: submit_rows.induct)
    (auto intro!: history_rules history_update simp: same_commitment_def published_def simp del: act_apply split: sum.split)

lemma history_index_rows: "keeps history (index_rows rt ch rows result)"
proof (induction rows arbitrary: result)
  case (Cons row rows)
  show ?case
    unfolding index_rows.simps Let_def
    by (intro history_rules history_update Cons) (simp add: same_commitment_def published_def)
qed (simp add: history_rules)

theorem history_sweeps:
  "keeps history (submitPendingCommitments rt ch n)" "keeps history (indexPendingConfirmations rt ch n)"
  unfolding submitPendingCommitments_def indexPendingConfirmations_def submitPendingCommitmentsWithClient_def
    indexPendingConfirmationsWithClient_def skip_submission_def skip_index_def Let_def
  by (intro history_rules history_submit_rows history_index_rows)+

lemma history_record_gap: "keeps history (recordGapCandidate rt c)"
proof (rule keepsI)
  fix w
  have "keeps history (bindS (insert_candidate k c) (\<lambda>inserted. returnS (if inserted then Some c else None)))" for k
    by (intro history_rules history_inserts)
  from keeps_snd[OF this, of w] show "history w (snd (recordGapCandidate rt c w))"
    by (simp add: recordGapCandidate_def Let_def history_def)
qed

lemma history_sweep_candidates: "sweep_candidates rt cs result w = (ok, result', w') \<Longrightarrow> history w w'"
proof (induction cs arbitrary: result w)
  case (Cons c cs)
  obtain r w1 where rec: "recordGapCandidate rt c w = (r, w1)" by fastforce
  have w1: "history w w1" using history_record_gap rec by (rule keepsD)
  show ?case
  proof (cases r)
    case (Inl e)
    with Cons.prems rec w1 show ?thesis by simp
  next
    case (Inr found)
    show ?thesis
    proof (cases found)
      case None
      with Cons.prems Inr rec show ?thesis using Cons.IH[of result w1] history.R_trans[OF w1] by simp
    next
      case (Some d)
      let ?w = "w1\<lparr>w_counters := (w_counters w1)\<lparr>candidatesDetected := candidatesDetected (w_counters w1) + 1\<rparr>,
        w_events := w_events w1 @ [CandidateDetected d]\<rparr>"
      have "history w1 ?w" by (simp add: history_def)
      moreover have "history ?w (snd (processCandidatePipeline rt d None None ?w))" by (rule keeps_snd[OF history_pipeline])
      moreover have "history (snd (processCandidatePipeline rt d None None ?w)) w'"
        using Cons.prems Inr Some rec by (auto intro: Cons.IH)
      ultimately show ?thesis using w1 by (meson history.R_trans)
    qed
  qed
qed (simp add: history.R_refl)

lemma history_sweep_zones: "sweep_zones rt now zones result w = (result', w') \<Longrightarrow> history w w'"
proof (induction zones arbitrary: result w)
  case (Cons zone zones)
  obtain z evidence where zone: "zone = (z, evidence)" by fastforce
  obtain cs w1 where cand: "zone_candidates rt now z evidence w = (cs, w1)" by fastforce
  then have w1: "history w w1" by (auto simp: zone_candidates_def Let_def history_def)
  obtain ok r2 w2 where sweep: "sweep_candidates rt cs (result\<lparr>hs_candidates := hs_candidates result + length cs\<rparr>) w1 = (ok, r2, w2)"
    by (metis prod_cases3)
  have "(if ok then sweep_zones rt now zones r2 w2 else (r2, w2)) = (result', w')"
    using Cons.prems by (simp add: zone cand sweep)
  then have "history w2 w'" using Cons.IH[of r2 w2] by (cases ok) (simp_all add: history.R_refl)
  with w1 history_sweep_candidates[OF sweep] show ?case by (meson history.R_trans)
qed (simp add: history.R_refl)

theorem history_timer: "history w (run_timer rt ch s w)"
  using history_sweep_zones[of rt "w_now w"] keeps_snd[OF history_sweeps(1)] keeps_snd[OF history_sweeps(2)]
  by (cases s) (auto simp: run_timer_def runHeartbeatSweep_def Let_def runChainSubmit_def runChainIndex_def prod_eq_iff)

lemma history_users: "keeps history (registerUser rt input)"
  unfolding registerUser_def Let_def
  by (auto intro!: history_rules history_modify history.keeps_db simp: history_part_def history_def history_kept_def
      split: option.split prod.split)

lemma history_providers: "keeps history (registerProvider rt input actor)"
  unfolding registerProvider_def register_memory_def register_database_def auditProviderRegistration_def Let_def
  by (intro history_rules history_modify;
      simp add: history_part_def keeps_def history_def history_kept_def ensureZone_def upsert_provider_row_def Let_def case_prod_beta)

lemma history_notifications:
  "keeps history (attachNotifications rt e)" "keeps history (deliverNotification rt fetch n)"
proof -
  have "keeps history (storeNotification rt n)" for n
    unfolding storeNotification_def
    by (intro history_rules history_modify history.keeps_db) (simp_all add: history_part_def history_def history_kept_def)
  then show "keeps history (attachNotifications rt e)"
    unfolding attachNotifications_def enqueueReviewRequired_def enqueueChainCommitted_def enqueueNotification_def
    by (cases e) (auto intro!: history_rules)
  have "keeps history (markNotificationDelivered rt i st err)" for i st err
    unfolding markNotificationDelivered_def
    by (intro history_rules history_modify history.keeps_db) (auto simp: history_part_def history_def history_kept_def split: option.split)
  then show "keeps history (deliverNotification rt fetch n)"
    unfolding deliverNotification_def by (auto intro!: history_rules split: webhook_reply.split)
qed

subsection \<open>The demo lab and the agent worker\<close>

lemma history_demo:
  "keeps history (createDemoWalletChallenge rt input)" "keeps history (runDemoSimulation rt ch verify request)"
proof -
  show "keeps history (createDemoWalletChallenge rt input)"
    unfolding createDemoWalletChallenge_def Let_def by (intro history_rules history_modify) (simp add: history_part_def)
  have consumed: "keeps history (consumeChallenge verify request)"
    by (simp add: keeps_def history_def consumeChallenge_def split: sum.split)
  have observed: "keeps history (demoObservedAt rt z b)" for z b
    by (simp add: keeps_def demoObservedAt_keeps history_def)
  have submit: "keeps history (submit_or_audit rt ch i c)" for i c
  proof (rule keepsI)
    fix w
    obtain r w1 where sub: "submitPendingCommitments rt ch 5 w = (r, w1)" by fastforce
    have "history w w1" using history_sweeps(1) sub by (rule keepsD)
    then show "history w (snd (submit_or_audit rt ch i c w))"
      using keeps_snd[OF history_basic(4)] history.R_trans by (auto simp: submit_or_audit_def sub split: sum.split)
  qed
  show "keeps history (runDemoSimulation rt ch verify request)"
    unfolding runDemoSimulation_def simulate_def advance_simulation_def record_run_def
    by (intro history_rules consumed observed submit history_evidence history_pipeline history_modify) (simp add: history_part_def)
qed

lemma history_worker: "keeps history (persistOrchestrationResult rt job result)"
proof -
  have audit: "keeps history (insert_audit rt action after)" for action after
    unfolding insert_audit_def
    by (intro history_rules history.keeps_modify) (simp add: history_def history_kept_def)
  have insert: "keeps history (insert_decision d)" for d
    unfolding insert_decision_def by (intro history_rules history_decision)
  have score: "keeps history (upsertEpochScore s)" for s
    unfolding upsertEpochScore_def
    by (intro history_rules)
      (simp add: keeps_def history_def history_kept_def Let_def case_prod_beta upsert_scores_kept same_score_def)
  have pending: "keeps history (upsertPendingCommitment m)" for m
    unfolding upsertPendingCommitment_def
    by (intro history_rules)
      (simp add: keeps_def history_def history_kept_def Let_def case_prod_beta upsert_commitments_kept same_commitment_def published_def)
  have queue: "keeps history (queueApprovedDecisionForChain rt c)" for c
    unfolding queueApprovedDecisionForChain_def by (intro history_rules score pending)
  show ?thesis
    unfolding persistOrchestrationResult_def Let_def worker_auditAgentDecision_def worker_auditSimulationProofPreview_def
      worker_auditChainQueued_def
    by (intro history_rules insert audit queue; simp add: case_prod_beta; intro history_rules audit)
qed

theorem history_review: "keeps history (review_candidate rt al llm config job)"
  unfolding review_candidate_def by (intro history_rules history_worker)

subsection \<open>Storing, announcing, answering\<close>

lemma history_store: "keeps history store \<Longrightarrow> keeps history (store_and_respond rt sc store)"
  unfolding store_and_respond_def publishIngestResult_def respond_def
  by (intro history_rules history_pipeline)

lemma typed_store: "typed_act typed_result store \<Longrightarrow> typed_act (\<lambda>_. True) (store_and_respond rt sc store)"
proof -
  assume store: "typed_act typed_result store"
  have "typed_act (\<lambda>_. True) (publishIngestResult rt result)" if "typed_result result" for result
    unfolding publishIngestResult_def
    by (intro typed_rules typed_pipeline TrueI)
      (use that in \<open>simp add: typed_result_def typed_candidate_def\<close>)
  then show ?thesis
    unfolding store_and_respond_def respond_def
    by (intro typed_bind[OF store] typed_seq typed_if typed_pure TrueI)
qed

lemma typed_keeps: "typed_act Q m \<Longrightarrow> keeps (holds typed) m"
  by (auto simp: keeps_def holds_def intro: typed_snd)

interpretation history: process_frame history rt for rt
proof unfold_locales
  show "history w (snd (review_candidate rt al llm config job w))" for al llm config w and job :: agent_review_job
    by (rule keeps_snd[OF history_review])
qed (simp_all add: history_def restarted_def empty_world_def history_store history_evidence history_users history_providers
  history_resolve history_sweeps history_demo history_notifications history_timer[unfolded history_def])

interpretation types: process_frame "holds typed" rt for rt
proof unfold_locales
  show "holds typed w (restarted w)" for w
    by (simp add: holds_def typed_def typed_stores_def restarted_def empty_world_def)
  show "holds typed w (run_timer rt ch s w)" for w ch s by (simp add: holds_def typed_timer)
  show "holds typed w (snd (review_candidate rt al llm config job w))" if "job \<in> set (bullJobs w)" for al llm config w job
    using that typed_review by (simp add: holds_def)
  show "keeps (holds typed) (attachNotifications rt e)" "keeps (holds typed) (deliverNotification rt fetch n)" for e fetch n
    by (rule typed_keeps[OF typed_same[OF typed_notifications(1)]], rule typed_keeps[OF typed_same[OF typed_notifications(2)]])
  show "keeps (holds typed) (resolveReviewDecision rt i d remark u)" for i d remark u
    using typed_keeps[OF typed_resolve_database] typed_keeps[OF typed_resolve_memory] by (simp add: resolveReviewDecision_def)
qed (auto simp: holds_def typed_def typed_stores_def intro: typed_keeps typed_store typed_evidence typed_register_user
  typed_register_provider typed_sweeps typed_challenge typed_simulation)

end
