(* ===== verification/Process.thy ===== *)
theory Process imports History begin

section \<open>Properties of the process\<close>

text \<open>
  Invariants of every reachable state, whatever requests, timers, reviews of the agent worker and
  restarts led to it; what a late approval means for a published commitment; what a request without
  the role does.
\<close>

subsection \<open>Types and history\<close>


lemma typed_empty: "typed (empty_world now)"
  by (simp add: typed_defs empty_world_def empty_tables_def)

text \<open>Nothing is rewritten: audit entries, evidence and candidates are only ever added, in every state the
  process reaches the earlier rows are still there, unchanged and in their order; and a score keeps
  its zone and its hour.\<close>

theorem history_is_append_only:
  assumes "reachable rt w w'"
  shows "prefix (t_audit_logs (db w)) (t_audit_logs (db w')) \<and>
    prefix (t_evidence_events (db w)) (t_evidence_events (db w')) \<and>
    prefix (t_candidate_events (db w)) (t_candidate_events (db w')) \<and>
    (\<forall>s \<in> set (t_epoch_scores (db w)). \<exists>s' \<in> set (t_epoch_scores (db w')).
       ep_id s' = ep_id s \<and> ep_zone_id s' = ep_zone_id s \<and> ep_epoch_start s' = ep_epoch_start s)"
  using history.frame_reachable[OF assms]
  by (simp add: history_def history_kept_def scores_kept_def same_score_def)

subsection \<open>Published commitments\<close>

lemma published_kept:
  assumes "reachable rt w w'" "m \<in> set (t_chain_commitments (db w))" "published m"
  shows "\<exists>m' \<in> set (t_chain_commitments (db w')). same_commitment m m' \<and> published m'"
  using history.frame_reachable[OF assms(1)] assms(2,3) unfolding history_def history_kept_def commitments_kept_def by blast

lemma commitment_join_row: "(m, s, z) \<in> set (commitment_join t) \<Longrightarrow> m \<in> set (t_chain_commitments t)"
  by (auto simp: commitment_join_def)

lemma published_not_submittable:
  assumes "typed w" "reachable rt w w'" "m \<in> set (t_chain_commitments (db w))" "published m"
    and "(m', s, z) \<in> set (commitment_join (db w'))" "cm_epoch_score_id m' = cm_epoch_score_id m"
  shows "\<not> submittable now (m', s, z)"
proof -
  obtain m1 where m1: "m1 \<in> set (t_chain_commitments (db w'))" "same_commitment m m1" "published m1"
    using published_kept[OF assms(2-4)] by blast
  have "typed w'" using types.frame_reachable[OF assms(2)] assms(1) by (simp add: holds_def)
  then have "distinct (map cm_epoch_score_id (t_chain_commitments (db w')))" by (simp add: typed_defs)
  moreover have "m' \<in> set (t_chain_commitments (db w'))" using assms(5) by (rule commitment_join_row)
  ultimately have "m' = m1" using m1(1,2) assms(6) by (simp add: same_commitment_def distinct_map inj_on_def)
  with m1(3) show ?thesis by (auto simp: submittable_def published_def)
qed

text \<open>C3. A score is published at most once: once its commitment has a transaction, no state reached afterwards
  offers a commitment of this score to the submission sweep again, whatever approvals, reviews, worker
  jobs and restarts happen in between.\<close>

theorem published_once:
  assumes "typed w" "m \<in> set (t_chain_commitments (db w))" "cm_tx_hash m = Some h" "reachable rt w w'"
  shows "(\<exists>m' \<in> set (t_chain_commitments (db w')). cm_id m' = cm_id m \<and> cm_epoch_score_id m' = cm_epoch_score_id m \<and>
      cm_tx_hash m' \<noteq> None) \<and>
    (\<forall>(m', s, z) \<in> set (commitment_join (db w')). cm_epoch_score_id m' = cm_epoch_score_id m \<longrightarrow>
      \<not> submittable (w_now w') (m', s, z))"
proof -
  have p: "published m" using assms(3) by (simp add: published_def)
  with published_kept[OF assms(4,2)] published_not_submittable[OF assms(1,4,2)] show ?thesis
    by (fastforce simp: same_commitment_def published_def)
qed

text \<open>An approval that comes after its hour was published never reaches the chain: the operation that
  commits an hour, for the policy gate and for a reviewer alike, gives the published row a new
  uptime and evidence hash and sets the commitment back to pending with the old transaction, and in
  no later state a commitment of this score is submitted: the database and the chain disagree for
  good.\<close>

theorem late_approval_never_published:
  assumes "typed w" "date_parse (ca_windowEnd c) = Some t" "date_range t"
    and "s \<in> set (t_epoch_scores (db w))" "ep_zone_id s = ca_zoneId c" "ep_epoch_start s = floor_epoch_ms t"
    and "m \<in> set (t_chain_commitments (db w))" "cm_epoch_score_id m = ep_id s" "cm_tx_hash m = Some h"
    and "database_commitment rt c d src w = (r, w')"
  shows "(\<exists>s' \<in> set (t_epoch_scores (db w')). ep_id s' = ep_id s \<and>
      ep_uptime_bps s' = uptime_bps (map candidate_of_row
        (approved_rows (db w) (ca_zoneId c) (floor_epoch_ms t) (floor_epoch_ms t + EPOCH_DURATION_MS)))) \<and>
    (\<exists>m' \<in> set (t_chain_commitments (db w')). cm_epoch_score_id m' = ep_id s \<and> cm_tx_hash m' = Some h \<and> cm_status m' = Pending) \<and>
    (\<forall>v. reachable rt w' v \<longrightarrow> (\<forall>(m', s', z) \<in> set (commitment_join (db v)).
      cm_epoch_score_id m' = ep_id s \<longrightarrow> \<not> submittable (w_now v) (m', s', z)))"
proof -
  let ?er = "stored_epoch rt w c t"
  let ?w1 = "w\<lparr>db := db w\<lparr>t_epoch_scores := snd ?er\<rparr>\<rparr>"
  let ?cm = "stored_commitment rt ?w1 (epoch_of_row (fst ?er))"
  have rows: "t_epoch_scores (db w') = snd ?er" "t_chain_commitments (db w') = snd ?cm"
    using database_commitment_run[OF assms(2,3), of rt d src w] assms(10) by auto
  have dist: "distinct (map epoch_key (t_epoch_scores (db w)))" "distinct (map cm_epoch_score_id (t_chain_commitments (db w)))"
    using assms(1) by (simp_all add: typed_defs)
  have found: "sql_find epoch_key (t_epoch_scores (db w)) (ca_zoneId c, floor_epoch_ms t) = Some s"
    using sql_find_distinct[OF dist(1) assms(4)] assms(5,6) by (simp add: epoch_key_def)
  have "fst ?er = s\<lparr>ep_uptime_bps := es_uptimeBps (database_score rt w c t), ep_evidence_hash := es_evidenceHash (database_score rt w c t)\<rparr>"
    using found by (simp add: stored_epoch_def Let_def sql_upsert_def epoch_key_def)
  then have score: "ep_id (fst ?er) = ep_id s" "ep_uptime_bps (fst ?er) = es_uptimeBps (database_score rt w c t)" by simp_all
  have stored: "fst ?er \<in> set (snd ?er)" using assms(1) by (intro stored_epoch_ok(2)) (simp add: typed_def typed_tables_def)
  have "sql_find cm_epoch_score_id (t_chain_commitments (db w)) (ep_id s) = Some m"
    using sql_find_distinct[OF dist(2) assms(7)] assms(8) by simp
  then have "fst ?cm = m\<lparr>cm_status := Pending\<rparr>"
    using score(1) by (simp add: stored_commitment_def Let_def sql_upsert_def)
  moreover have "fst ?cm \<in> set (snd ?cm)" unfolding stored_commitment_def Let_def by (rule sql_upsert_fst) simp
  ultimately have m': "m\<lparr>cm_status := Pending\<rparr> \<in> set (t_chain_commitments (db w'))" by (simp add: rows)
  have "typed w'" using typed_actD[OF typed_database_commitment assms(1,10)] .
  moreover have "published (m\<lparr>cm_status := Pending\<rparr>)" using assms(9) by (simp add: published_def)
  ultimately have never: "\<not> submittable (w_now v) (m', s', z)"
    if "reachable rt w' v" "(m', s', z) \<in> set (commitment_join (db v))" "cm_epoch_score_id m' = ep_id s" for v m' s' z
    using published_not_submittable[of w' rt v "m\<lparr>cm_status := Pending\<rparr>" m' s' z "w_now v"] m' that assms(8) by simp
  have "es_uptimeBps (database_score rt w c t) = uptime_bps (map candidate_of_row
      (approved_rows (db w) (ca_zoneId c) (floor_epoch_ms t) (floor_epoch_ms t + EPOCH_DURATION_MS)))"
    by (simp add: database_score_def epochScoreForApprovedCandidates_def)
  with score stored rows have "\<exists>s' \<in> set (t_epoch_scores (db w')). ep_id s' = ep_id s \<and> ep_uptime_bps s' = uptime_bps (map candidate_of_row
      (approved_rows (db w) (ca_zoneId c) (floor_epoch_ms t) (floor_epoch_ms t + EPOCH_DURATION_MS)))"
    by (intro bexI[of _ "fst ?er"]) simp_all
  moreover have "\<exists>m' \<in> set (t_chain_commitments (db w')). cm_epoch_score_id m' = ep_id s \<and> cm_tx_hash m' = Some h \<and> cm_status m' = Pending"
    using m' assms(8,9) by (intro bexI[of _ "m\<lparr>cm_status := Pending\<rparr>"]) simp_all
  ultimately show ?thesis using never by blast
qed

subsection \<open>Requests without a role\<close>






end
