(* ===== verification/Process_Cases.thy ===== *)
theory Process_Cases imports Process Settlement Access Demo_Scenarios begin

section \<open>The process on concrete inputs\<close>

text \<open>Libraries and requests on which the properties of \<open>Process\<close> are exhibited.\<close>

definition sample_libs :: api_libs where
  "sample_libs = \<lparr>lb_redis = sample_redis, lb_jwt = sample_codec JNull,
     lb_ingest = \<lparr>rs_formats = lax_formats, rs_error = plain_error ''zod'', rs_telemetry = (\<lambda>j. Some sample_telemetry),
       rs_report = (\<lambda>j. Some sample_report), rs_whatsapp = (\<lambda>j. None)\<rparr>,
     lb_demo = \<lparr>dh_formats = lax_formats, dh_error = plain_error ''zod'', dh_challenge = (\<lambda>j. Some sample_challenge_request),
       dh_simulation = (\<lambda>j. Some sample_simulation_request)\<rparr>,
     lb_chain = sample_chain (\<lambda>input. Inr sample_bytes32), lb_verify = sample_verify, lb_formats = lax_formats,
     lb_zod_error = plain_error ''zod'', lb_register = (\<lambda>j. None), lb_login = (\<lambda>j. None), lb_review = (\<lambda>j. None),
     lb_provider = (\<lambda>j. None)\<rparr>"

definition sample_request :: http_request where
  "sample_request = \<lparr>hr_body = JNull, hr_rawBody = None, hr_authorization = None, hr_signature256 = None,
     hr_ip = Some ''127.0.0.1'', hr_remoteAddress = None\<rparr>"

definition post :: "string \<Rightarrow> api_call" where
  "post path = \<lparr>ac_method = ''POST'', ac_path = path, ac_decoded = Inr sample_request\<rparr>"

text \<open>A telemetry request, then a restart.\<close>

definition after_request :: "runtime \<Rightarrow> world \<Rightarrow> world" where
  "after_request rt w = restarted (snd (serve_request rt sample_libs 0 (post ''/api/v1/ingest/telemetry'') w))"

lemma after_request_reachable: "reachable rt w (after_request rt w)"
proof -
  let ?call = "post ''/api/v1/ingest/telemetry''"
  obtain outcome w1 where run: "serve_request rt sample_libs 0 ?call w = (outcome, w1)" by fastforce
  have "reachable rt w w1" by (rule reachable_step[OF reachable_start request_served[OF run]])
  then have "reachable rt w (restarted w1)" by (rule reachable_step) (rule process_restarts)
  then show ?thesis by (simp add: after_request_def run)
qed



theorem history_is_append_only_witness:
  "prefix (t_candidate_events (db (sample_world 1))) (t_candidate_events (db (after_request database_rt (sample_world 1)))) \<and>
   t_candidate_events (db (sample_world 1)) = [sample_row 1]"
  using history_is_append_only[OF after_request_reachable[of database_rt "sample_world 1"]]
  by (simp add: sample_world_def sample_tables_def)

definition published_world :: world where
  "published_world = chain_world (Some sample_bytes32)"

lemma typed_published: "typed published_world"
  by (simp add: typed_def typed_tables_def tables_ok_def typed_stores_def published_world_def chain_world_def empty_world_def
      empty_tables_def sample_commitment_def sample_epoch_def)

lemma published_sel:
  "sample_commitment (Some sample_bytes32) \<in> set (t_chain_commitments (db published_world))"
  "sample_epoch \<in> set (t_epoch_scores (db published_world))"
  "cm_tx_hash (sample_commitment (Some sample_bytes32)) = Some sample_bytes32"
  "cm_epoch_score_id (sample_commitment (Some sample_bytes32)) = ep_id sample_epoch"
  by (simp_all add: published_world_def sample_commitment_def sample_epoch_def)

theorem published_once_witness:
  "\<exists>m' \<in> set (t_chain_commitments (db (after_request database_rt published_world))).
     cm_id m' = ''commitment-1'' \<and> cm_tx_hash m' \<noteq> None"
  using published_once[OF typed_published published_sel(1,3) after_request_reachable[of database_rt published_world]]
  by (auto simp: sample_commitment_def)

definition late_candidate :: candidate_event where
  "late_candidate = (sample_candidate 1)\<lparr>ca_windowEnd := ''1970-01-01T00:30:00.000Z''\<rparr>"

theorem late_approval_never_published_witness:
  "\<exists>s' \<in> set (t_epoch_scores (db (snd (database_commitment database_rt late_candidate demoDecision ReviewApproval published_world)))).
     ep_id s' = ''epoch-1'' \<and> ep_uptime_bps s' = uptime_bps [] \<and> ep_uptime_bps sample_epoch = 5000"
proof -
  have t: "date_parse (ca_windowEnd late_candidate) = Some 1800000" "date_range 1800000"
    unfolding late_candidate_def by code_simp+
  have s: "ep_zone_id sample_epoch = ca_zoneId late_candidate" "ep_epoch_start sample_epoch = floor_epoch_ms 1800000"
    by (simp_all add: sample_epoch_def late_candidate_def sample_candidate_def floor_epoch_ms_def EPOCH_DURATION_MS_def)
  have none: "approved_rows (db published_world) z a b = []" for z a b
    by (simp add: approved_rows_def published_world_def empty_tables_def)
  obtain r w' where run: "database_commitment database_rt late_candidate demoDecision ReviewApproval published_world = (r, w')"
    by fastforce
  from late_approval_never_published[OF typed_published t published_sel(2) s published_sel(1,4,3) run] none
  show ?thesis by (auto simp: run sample_epoch_def)
qed


end
