(* ===== verification/Contract_Manifest.thy ===== *)
theory Contract_Manifest imports Chain Js_Json Configuration Agent_Review begin

section \<open>The contract manifest\<close>

text \<open>
  \<open>scripts/verify-contract-manifest.ts\<close>: whether the deployment manifest and the environment of the
  API agree. The file system and \<open>path.resolve\<close> are parameters; the message of a syntax error of
  \<open>JSON.parse\<close> is the engine's. What the verifier accepts is compared with what the API does with
  the same environment.
\<close>

subsection \<open>Values of unknown type\<close>

record check_result =
  vr_name :: string
  vr_status :: check_status
  vr_detail :: string

definition check_result_of :: "string \<Rightarrow> check_status \<Rightarrow> string \<Rightarrow> check_result" where
  "check_result_of name status detail = \<lparr>vr_name = name, vr_status = status, vr_detail = detail\<rparr>"

lemma check_result_of_sel [simp]: "vr_name (check_result_of a b c) = a" "vr_status (check_result_of a b c) = b"
  "vr_detail (check_result_of a b c) = c"
  by (simp_all add: check_result_of_def)

record file_lib =
  fi_resolve :: "string list \<Rightarrow> string"
  fi_exists :: "string \<Rightarrow> bool"
  fi_read :: "string \<Rightarrow> string res"

definition json_syntax_error :: js_error where
  "json_syntax_error = plain_error ''JSON''"

text \<open>\<open>env.X?.trim()\<close>, where the empty text counts as unset.\<close>

definition trimmed :: "env \<Rightarrow> string \<Rightarrow> string option" where
  "trimmed env name = (case env name of Some v \<Rightarrow> if trim v = [] then None else Some (trim v) | None \<Rightarrow> None)"

definition objectRecord :: "json option \<Rightarrow> json_object option" where
  "objectRecord value = (case value of Some (JObj kvs) \<Rightarrow> Some kvs | _ \<Rightarrow> None)"

definition requiredString :: "json option \<Rightarrow> string \<Rightarrow> string res" where
  "requiredString value name =
     (case value of
        Some (JStr s) \<Rightarrow> if trim s = [] then Inl (plain_error (name @ '' must be a non-empty string.'')) else Inr (trim s)
      | _ \<Rightarrow> Inl (plain_error (name @ '' must be a non-empty string.'')))"

definition requiredDigits :: "json option \<Rightarrow> string \<Rightarrow> string res" where
  "requiredDigits value name =
     bindR (requiredString value name) (\<lambda>normalized.
     if all_digits normalized then Inr normalized else Inl (plain_error (name @ '' must contain only digits.'')))"

definition requiredDateTime :: "json option \<Rightarrow> string \<Rightarrow> string res" where
  "requiredDateTime value name =
     bindR (requiredString value name) (\<lambda>normalized.
     if date_parse normalized = None then Inl (plain_error (name @ '' must be a valid ISO date-time string.''))
     else Inr normalized)"

definition requiredAddress :: "json option \<Rightarrow> string \<Rightarrow> string res" where
  "requiredAddress value name =
     bindR (requiredString value name) (\<lambda>normalized.
     if hex_string 40 normalized then Inr normalized else Inl (plain_error (name @ '' must be an EVM address.'')))"

subsection \<open>The manifest\<close>

definition contractManifestPathFromEnv :: "file_lib \<Rightarrow> env \<Rightarrow> string" where
  "contractManifestPathFromEnv L env =
     (case trimmed env ''GRIDPROOF_CONTRACT_MANIFEST_PATH'' of
        Some path \<Rightarrow> fi_resolve L [path]
      | None \<Rightarrow> (case trimmed env ''GRIDPROOF_CONTRACT_NETWORK'' of
          Some network \<Rightarrow> fi_resolve L [''smart-contracts'', ''deployments'', network @ ''.json'']
        | None \<Rightarrow> fi_resolve L [''smart-contracts'', ''deployments'', ''botchainTestnet.json'']))"

definition parse_contracts :: "json_object \<Rightarrow> chain_contracts res" where
  "parse_contracts record_fields =
     bindR (requiredAddress (map_of record_fields ''NodeRegistry'') ''contracts.NodeRegistry'') (\<lambda>node.
     bindR (requiredAddress (map_of record_fields ''UptimeAttestation'') ''contracts.UptimeAttestation'') (\<lambda>attestation.
     bindR (requiredAddress (map_of record_fields ''ReputationEscrow'') ''contracts.ReputationEscrow'') (\<lambda>escrow.
     Inr \<lparr>NodeRegistry = node, UptimeAttestation = attestation, ReputationEscrow = escrow\<rparr>)))"

definition parse_manifest_fields :: "json_object \<Rightarrow> json_object \<Rightarrow> json_object \<Rightarrow> deployment_manifest res" where
  "parse_manifest_fields rec addressFields params =
     bindR (requiredString (map_of rec ''network'') ''network'') (\<lambda>network.
     bindR (requiredDigits (map_of rec ''chainId'') ''chainId'') (\<lambda>chainId.
     bindR (requiredDateTime (map_of rec ''deployedAt'') ''deployedAt'') (\<lambda>deployedAt.
     bindR (requiredAddress (map_of rec ''admin'') ''admin'') (\<lambda>admin.
     bindR (requiredAddress (map_of rec ''relayer'') ''relayer'') (\<lambda>relayer.
     bindR (parse_contracts addressFields) (\<lambda>addresses.
     bindR (requiredDigits (map_of params ''epochDurationSeconds'') ''params.epochDurationSeconds'') (\<lambda>epochDuration.
     bindR (requiredDigits (map_of params ''slashPolicyCap'') ''params.slashPolicyCap'') (\<lambda>slashCap.
     bindR (requiredDigits (map_of params ''minimumStake'') ''params.minimumStake'') (\<lambda>stake.
     bindR (requiredDigits (map_of params ''withdrawCooldownSeconds'') ''params.withdrawCooldownSeconds'') (\<lambda>cooldown.
     Inr \<lparr>dm_network = network, dm_chainId = chainId, dm_deployedAt = deployedAt, dm_admin = admin, dm_relayer = relayer,
       dm_contracts = addresses, dm_epochDurationSeconds = epochDuration, dm_slashPolicyCap = slashCap,
       dm_minimumStake = stake, dm_withdrawCooldownSeconds = cooldown\<rparr>))))))))))"

definition parseManifest :: "string \<Rightarrow> deployment_manifest res" where
  "parseManifest raw =
     bindR (or_throw json_syntax_error (json_parse raw)) (\<lambda>value.
     bindR (or_throw (plain_error ''Manifest must be a JSON object.'') (objectRecord (Some value))) (\<lambda>rec.
     bindR (or_throw (plain_error ''Manifest contracts must be an object.'') (objectRecord (map_of rec ''contracts''))) (\<lambda>addressFields.
     bindR (or_throw (plain_error ''Manifest params must be an object.'') (objectRecord (map_of rec ''params''))) (\<lambda>params.
     bindR (parse_manifest_fields rec addressFields params) (\<lambda>manifest.
     if digits_val 0 (dm_chainId manifest) \<le> 0 then Inl (plain_error ''chainId must be greater than zero.'')
     else if digits_val 0 (dm_epochDurationSeconds manifest) \<le> 0
     then Inl (plain_error ''params.epochDurationSeconds must be greater than zero.'')
     else Inr manifest)))))"

subsection \<open>The checks\<close>

definition zeroAddress :: string where
  "zeroAddress = ''0x0000000000000000000000000000000000000000''"

definition checkNetworkIdentity :: "deployment_manifest \<Rightarrow> env \<Rightarrow> check_result" where
  "checkNetworkIdentity manifest env = check_result_of ''network_identity''
     (case trimmed env ''BOTCHAIN_CHAIN_ID'' of
        None \<Rightarrow> CheckWarn
      | Some expected \<Rightarrow> if expected \<noteq> dm_chainId manifest then CheckFail else CheckPass)
     (case trimmed env ''BOTCHAIN_CHAIN_ID'' of
        None \<Rightarrow> ''BOTCHAIN_CHAIN_ID is not set; cannot compare API relayer chain ID to the manifest.''
      | Some expected \<Rightarrow>
          if expected \<noteq> dm_chainId manifest
          then ''BOTCHAIN_CHAIN_ID='' @ expected @ '' does not match manifest chainId='' @ dm_chainId manifest @ ''.''
          else ''Manifest network '' @ dm_network manifest @ '' uses chain ID '' @ dm_chainId manifest @ ''.'')"

definition checkActors :: "deployment_manifest \<Rightarrow> check_result" where
  "checkActors manifest =
     (let admin = to_lower (dm_admin manifest); relayer = to_lower (dm_relayer manifest) in
      if admin = zeroAddress \<or> relayer = zeroAddress
      then check_result_of ''actors'' CheckFail ''Admin and relayer must not be the zero address.''
      else if admin = relayer
      then check_result_of ''actors'' CheckFail
        ''Admin and relayer are the same address; use a multisig/admin wallet separate from the hot relayer.''
      else check_result_of ''actors'' CheckPass ''Manifest uses separate non-zero admin and relayer addresses.'')"

definition contract_addresses :: "chain_contracts \<Rightarrow> string list" where
  "contract_addresses c = map to_lower [NodeRegistry c, UptimeAttestation c, ReputationEscrow c]"

definition checkContracts :: "deployment_manifest \<Rightarrow> check_result" where
  "checkContracts manifest =
     (let addresses = contract_addresses (dm_contracts manifest) in
      if zeroAddress \<in> set addresses
      then check_result_of ''contract_addresses'' CheckFail ''Contract addresses must not include the zero address.''
      else if card (set addresses) \<noteq> length addresses
      then check_result_of ''contract_addresses'' CheckFail ''Contract addresses must be unique.''
      else check_result_of ''contract_addresses'' CheckPass
        ''NodeRegistry, UptimeAttestation, and ReputationEscrow addresses are unique and non-zero.'')"

definition checkParams :: "deployment_manifest \<Rightarrow> check_result" where
  "checkParams manifest =
     (if digits_val 0 (dm_epochDurationSeconds manifest) > 86400
      then check_result_of ''contract_params'' CheckWarn
        ''Epoch duration is longer than one day; confirm this is intentional for the demo cadence.''
      else if digits_val 0 (dm_withdrawCooldownSeconds manifest) = 0
      then check_result_of ''contract_params'' CheckWarn
        ''Withdraw cooldown is zero; acceptable for local tests, but document the risk before a live fallback-mode demo.''
      else check_result_of ''contract_params'' CheckPass
        ''Epoch duration and escrow timing parameters are non-zero and demo-compatible.'')"

definition compareAddressEnv :: "string \<Rightarrow> string \<Rightarrow> string \<Rightarrow> env \<Rightarrow> check_result" where
  "compareAddressEnv name envName manifestAddress env =
     (case trimmed env envName of
        None \<Rightarrow> check_result_of name CheckWarn
          (envName @ '' is not set; set it to '' @ manifestAddress @ '' in the API service before live submission.'')
      | Some value \<Rightarrow>
          if \<not> hex_string 40 value then check_result_of name CheckFail (envName @ '' is not a valid EVM address.'')
          else if to_lower value \<noteq> to_lower manifestAddress
          then check_result_of name CheckFail
            (envName @ ''='' @ value @ '' does not match manifest address '' @ manifestAddress @ ''.'')
          else check_result_of name CheckPass (envName @ '' matches the deployment manifest.''))"

definition checkApiEnvAlignment :: "deployment_manifest \<Rightarrow> env \<Rightarrow> check_result list" where
  "checkApiEnvAlignment manifest env =
     [compareAddressEnv ''env_node_registry'' ''BOTCHAIN_NODE_REGISTRY_ADDRESS'' (NodeRegistry (dm_contracts manifest)) env,
      compareAddressEnv ''env_uptime_attestation'' ''BOTCHAIN_UPTIME_ATTESTATION_ADDRESS''
        (UptimeAttestation (dm_contracts manifest)) env,
      compareAddressEnv ''env_reputation_escrow'' ''BOTCHAIN_REPUTATION_ESCROW_ADDRESS''
        (ReputationEscrow (dm_contracts manifest)) env]"

definition missing_manifest :: "string \<Rightarrow> check_result" where
  "missing_manifest path = check_result_of ''manifest_file'' CheckFail
     (''No deployment manifest found at '' @ path @ ''. Run the Forge deploy script first: '' @
      ''forge script script/Deploy.s.sol:Deploy --root smart-contracts --rpc-url '' @ quoted ''$BOTCHAIN_RPC_URL'' @ '' --broadcast'')"

definition verifyContractDeploymentManifest :: "file_lib \<Rightarrow> env \<Rightarrow> check_result list" where
  "verifyContractDeploymentManifest L env =
     (let path = contractManifestPathFromEnv L env in
      if \<not> fi_exists L path then [missing_manifest path]
      else check_result_of ''manifest_file'' CheckPass (''Loaded '' @ path @ ''.'') #
        (case bindR (fi_read L path) parseManifest of
           Inl e \<Rightarrow> [check_result_of ''manifest_shape'' CheckFail (message e)]
         | Inr manifest \<Rightarrow>
             [check_result_of ''manifest_shape'' CheckPass ''Deployment manifest has the expected GridProof shape.'',
              checkNetworkIdentity manifest env, checkActors manifest, checkContracts manifest, checkParams manifest] @
             checkApiEnvAlignment manifest env))"

text \<open>The exit code.\<close>

definition manifest_exit_code :: "file_lib \<Rightarrow> env \<Rightarrow> int" where
  "manifest_exit_code L env =
     (if list_ex (\<lambda>c. vr_status c = CheckFail) (verifyContractDeploymentManifest L env) then 1 else 0)"

subsection \<open>What a verified manifest means for the API\<close>

lemma requiredString_Inr: "requiredString v n = Inr s \<Longrightarrow> s \<noteq> []"
  by (auto simp: requiredString_def split: option.splits json.splits if_splits)

lemma required_Inr:
  "requiredDigits v n = Inr s \<Longrightarrow> all_digits s" "requiredAddress v n = Inr s \<Longrightarrow> hex_string 40 s"
  "requiredDateTime v n = Inr s \<Longrightarrow> date_parse s \<noteq> None"
  by (auto simp: requiredDigits_def requiredAddress_def requiredDateTime_def split: if_splits)

lemma parseManifest_ok:
  assumes "parseManifest raw = Inr m"
  shows "dm_network m \<noteq> []" "all_digits (dm_chainId m)" "date_parse (dm_deployedAt m) \<noteq> None"
    "hex_string 40 (dm_admin m)" "hex_string 40 (dm_relayer m)" "hex_string 40 (NodeRegistry (dm_contracts m))"
    "hex_string 40 (UptimeAttestation (dm_contracts m))" "hex_string 40 (ReputationEscrow (dm_contracts m))"
    "all_digits (dm_epochDurationSeconds m)" "all_digits (dm_slashPolicyCap m)" "all_digits (dm_minimumStake m)"
    "all_digits (dm_withdrawCooldownSeconds m)" "0 < digits_val 0 (dm_chainId m)"
    "0 < digits_val 0 (dm_epochDurationSeconds m)"
proof -
  obtain rec cs params where fields: "parse_manifest_fields rec cs params = Inr m"
    and pos: "0 < digits_val 0 (dm_chainId m)" "0 < digits_val 0 (dm_epochDurationSeconds m)"
    using assms by (auto simp: parseManifest_def split: if_splits)
  show "0 < digits_val 0 (dm_chainId m)" "0 < digits_val 0 (dm_epochDurationSeconds m)" by fact+
  show "dm_network m \<noteq> []" "all_digits (dm_chainId m)" "date_parse (dm_deployedAt m) \<noteq> None"
    "hex_string 40 (dm_admin m)" "hex_string 40 (dm_relayer m)" "hex_string 40 (NodeRegistry (dm_contracts m))"
    "hex_string 40 (UptimeAttestation (dm_contracts m))" "hex_string 40 (ReputationEscrow (dm_contracts m))"
    "all_digits (dm_epochDurationSeconds m)" "all_digits (dm_slashPolicyCap m)" "all_digits (dm_minimumStake m)"
    "all_digits (dm_withdrawCooldownSeconds m)"
    using fields unfolding parse_manifest_fields_def parse_contracts_def bindR_eq_Inr
    by (auto dest: requiredString_Inr required_Inr simp del: not_None_eq)
qed

lemma manifest_loads:
  assumes "parseManifest raw = Inr m" "fmt_datetime F (dm_deployedAt m)"
  shows "deploymentManifestSchema F m"
  using parseManifest_ok[OF assms(1)] assms(2)
  by (auto simp: deploymentManifestSchema_def walletAddressSchema_def Suc_le_eq)

definition all_pass :: "check_result list \<Rightarrow> bool" where
  "all_pass checks \<longleftrightarrow> (\<forall>c \<in> set checks. vr_status c = CheckPass)"

lemma all_pass_exit: "all_pass (verifyContractDeploymentManifest L env) \<Longrightarrow> manifest_exit_code L env = 0"
  by (auto simp: all_pass_def manifest_exit_code_def list_ex_iff)

definition CLIENT_KEYS :: "string list" where
  "CLIENT_KEYS = [''BOTCHAIN_RPC_URL'', ''RELAYER_PRIVATE_KEY'', ''BOTCHAIN_NODE_REGISTRY_ADDRESS'',
     ''BOTCHAIN_UPTIME_ATTESTATION_ADDRESS'', ''BOTCHAIN_REPUTATION_ESCROW_ADDRESS'']"

lemma relayer_config_Some:
  "isChainRelayerConfigured env \<longleftrightarrow> (\<forall>k \<in> set CLIENT_KEYS. env_set env k \<noteq> None)"
  "readRelayerConfig env = Some config \<longleftrightarrow>
     env_set env ''BOTCHAIN_RPC_URL'' = Some (rpcUrl config) \<and> env_set env ''RELAYER_PRIVATE_KEY'' = Some (relayerPrivateKey config) \<and>
     env_set env ''BOTCHAIN_NODE_REGISTRY_ADDRESS'' = Some (NodeRegistry (contracts config)) \<and>
     env_set env ''BOTCHAIN_UPTIME_ATTESTATION_ADDRESS'' = Some (UptimeAttestation (contracts config)) \<and>
     env_set env ''BOTCHAIN_REPUTATION_ESCROW_ADDRESS'' = Some (ReputationEscrow (contracts config))"
proof -
  have "readRelayerConfig env =
      (case (env_set env ''BOTCHAIN_RPC_URL'', env_set env ''RELAYER_PRIVATE_KEY'', env_set env ''BOTCHAIN_NODE_REGISTRY_ADDRESS'',
            env_set env ''BOTCHAIN_UPTIME_ATTESTATION_ADDRESS'', env_set env ''BOTCHAIN_REPUTATION_ESCROW_ADDRESS'') of
        (Some url, Some key, Some nodeRegistry, Some uptimeAttestation, Some reputationEscrow) \<Rightarrow>
          Some \<lparr>rpcUrl = url, relayerPrivateKey = key, contracts = \<lparr>NodeRegistry = nodeRegistry,
            UptimeAttestation = uptimeAttestation, ReputationEscrow = reputationEscrow\<rparr>\<rparr>
      | _ \<Rightarrow> None)"
    unfolding readRelayerConfig_def Let_def env_set_def ..
  note run = this
  show "isChainRelayerConfigured env \<longleftrightarrow> (\<forall>k \<in> set CLIENT_KEYS. env_set env k \<noteq> None)"
    unfolding isChainRelayerConfigured_def run CLIENT_KEYS_def by (simp split: option.split)
  show "readRelayerConfig env = Some config \<longleftrightarrow>
     env_set env ''BOTCHAIN_RPC_URL'' = Some (rpcUrl config) \<and> env_set env ''RELAYER_PRIVATE_KEY'' = Some (relayerPrivateKey config) \<and>
     env_set env ''BOTCHAIN_NODE_REGISTRY_ADDRESS'' = Some (NodeRegistry (contracts config)) \<and>
     env_set env ''BOTCHAIN_UPTIME_ATTESTATION_ADDRESS'' = Some (UptimeAttestation (contracts config)) \<and>
     env_set env ''BOTCHAIN_REPUTATION_ESCROW_ADDRESS'' = Some (ReputationEscrow (contracts config))"
    unfolding run by (cases config; cases "contracts config") (auto split: option.split)
qed

lemma env_set_update: "env_set (env(k \<mapsto> v)) n = (if n = k then (if v = [] then None else Some v) else env_set env n)"
  by (simp add: env_set_def)

lemma env_set_Some: "env_set env k = Some v \<longleftrightarrow> env k = Some v \<and> v \<noteq> []"
  by (auto simp: env_set_def split: option.split)

lemma compareAddressEnv_pass:
  "vr_status (compareAddressEnv name k a env) = CheckPass \<longleftrightarrow>
     (\<exists>v. env k = Some v \<and> hex_string 40 (trim v) \<and> to_lower (trim v) = to_lower a)"
  by (auto simp: compareAddressEnv_def trimmed_def hex_string_def split: option.splits)

lemma all_pass_run:
  assumes "all_pass (verifyContractDeploymentManifest L env)"
  obtains raw m where "fi_read L (contractManifestPathFromEnv L env) = Inr raw" "parseManifest raw = Inr m"
    "all_pass [checkNetworkIdentity m env, checkActors m, checkContracts m, checkParams m]"
    "all_pass (checkApiEnvAlignment m env)"
proof -
  have "fi_exists L (contractManifestPathFromEnv L env)"
    using assms by (auto simp: verifyContractDeploymentManifest_def Let_def all_pass_def missing_manifest_def split: if_splits)
  with assms obtain m where m: "bindR (fi_read L (contractManifestPathFromEnv L env)) parseManifest = Inr m"
    "all_pass [checkNetworkIdentity m env, checkActors m, checkContracts m, checkParams m]" "all_pass (checkApiEnvAlignment m env)"
    by (auto simp: verifyContractDeploymentManifest_def Let_def all_pass_def split: sum.splits)
  then obtain raw where "fi_read L (contractManifestPathFromEnv L env) = Inr raw" "parseManifest raw = Inr m" by auto
  with m that show ?thesis by blast
qed

text \<open>A passing run means: the manifest has two different actors and three different contracts, none
  of them zero, on the chain the API names; and the contracts the API reads from its environment are
  those of the manifest, up to blanks around them and the case of their digits.\<close>

theorem verified_manifest_is_configured:
  assumes "all_pass (verifyContractDeploymentManifest L env)" "readRelayerConfig env = Some config"
  shows "\<exists>raw m. fi_read L (contractManifestPathFromEnv L env) = Inr raw \<and> parseManifest raw = Inr m \<and>
    trimmed env ''BOTCHAIN_CHAIN_ID'' = Some (dm_chainId m) \<and>
    to_lower (dm_admin m) \<noteq> to_lower (dm_relayer m) \<and>
    zeroAddress \<notin> set (contract_addresses (dm_contracts m)) \<and> distinct (contract_addresses (dm_contracts m)) \<and>
    map (to_lower \<circ> trim) [NodeRegistry (contracts config), UptimeAttestation (contracts config), ReputationEscrow (contracts config)] =
      contract_addresses (dm_contracts m)"
proof -
  from assms(1) obtain raw m where read: "fi_read L (contractManifestPathFromEnv L env) = Inr raw" "parseManifest raw = Inr m"
    and c: "all_pass [checkNetworkIdentity m env, checkActors m, checkContracts m, checkParams m]"
    and e: "all_pass (checkApiEnvAlignment m env)"
    by (rule all_pass_run)
  have "trimmed env ''BOTCHAIN_CHAIN_ID'' = Some (dm_chainId m)"
    using c by (auto simp: all_pass_def checkNetworkIdentity_def split: option.splits if_splits)
  moreover have "to_lower (dm_admin m) \<noteq> to_lower (dm_relayer m)"
    using c by (auto simp: all_pass_def checkActors_def Let_def split: if_splits)
  moreover have "zeroAddress \<notin> set (contract_addresses (dm_contracts m))" "distinct (contract_addresses (dm_contracts m))"
    using c by (auto simp: all_pass_def checkContracts_def Let_def card_distinct split: if_splits)
  moreover have "map (to_lower \<circ> trim) [NodeRegistry (contracts config), UptimeAttestation (contracts config), ReputationEscrow (contracts config)] =
      contract_addresses (dm_contracts m)"
    using e assms(2) unfolding relayer_config_Some(2) env_set_Some
    by (simp add: all_pass_def checkApiEnvAlignment_def compareAddressEnv_pass contract_addresses_def)
  ultimately show ?thesis using read by blast
qed

lemma configured_update:
  assumes "isChainRelayerConfigured env" "v \<noteq> []"
  shows "isChainRelayerConfigured (env(k \<mapsto> v))"
  using assms by (simp add: relayer_config_Some(1) env_set_update)

lemma trim_blank: "trim (v @ '' '') = trim v"
  by (cases "dropWhile is_space v = []")
    (auto simp: trim_def dropWhile_append is_space_def ccode_def dropWhile_eq_Nil_conv dest: set_dropWhileD)

text \<open>Blanks around an address are invisible to the verifier, but the API, which does not remove them,
  refuses to start its client.\<close>

theorem blank_hidden_from_verifier:
  assumes "k \<in> {''BOTCHAIN_NODE_REGISTRY_ADDRESS'', ''BOTCHAIN_UPTIME_ATTESTATION_ADDRESS'', ''BOTCHAIN_REPUTATION_ESCROW_ADDRESS''}"
    and "rt_env rt k = Some v" "hex_string 40 v" "isChainRelayerConfigured (rt_env rt)"
  shows "verifyContractDeploymentManifest L ((rt_env rt)(k \<mapsto> v @ '' '')) = verifyContractDeploymentManifest L (rt_env rt) \<and>
    createClientFromEnv (rt\<lparr>rt_env := (rt_env rt)(k \<mapsto> v @ '' '')\<rparr>) ch = Inl (ch_zod_error ch ''config'')"
proof -
  let ?env = "(rt_env rt)(k \<mapsto> v @ '' '')"
  have same: "trimmed ?env n = trimmed (rt_env rt) n" for n
    using assms(2) by (simp add: trimmed_def trim_blank)
  have "verifyContractDeploymentManifest L ?env = verifyContractDeploymentManifest L (rt_env rt)"
    unfolding verifyContractDeploymentManifest_def contractManifestPathFromEnv_def checkNetworkIdentity_def
        checkApiEnvAlignment_def compareAddressEnv_def same ..
  moreover have "createClientFromEnv (rt\<lparr>rt_env := ?env\<rparr>) ch = Inl (ch_zod_error ch ''config'')"
  proof -
    have bad: "\<not> hex_string 40 (v @ '' '')" using assms(3) by (simp add: hex_string_def)
    obtain config where old: "readRelayerConfig (rt_env rt) = Some config" using assms(4) by (auto simp: isChainRelayerConfigured_def)
    obtain config' where new: "readRelayerConfig ?env = Some config'"
      using configured_update[OF assms(4), of "v @ '' ''" k] by (auto simp: isChainRelayerConfigured_def)
    then have "env_set ?env k = Some (v @ '' '')" by (simp add: env_set_update)
    with new assms(1) have "v @ '' '' \<in> {NodeRegistry (contracts config'), UptimeAttestation (contracts config'), ReputationEscrow (contracts config')}"
      unfolding relayer_config_Some(2) by auto
    with bad have "\<not> blockchainClientConfigSchema (ch_formats ch) config'"
      by (auto simp: blockchainClientConfigSchema_def walletAddressSchema_def)
    then show ?thesis by (simp add: createClientFromEnv_def new)
  qed
  ultimately show ?thesis by blast
qed

end
