(* ===== verification/Deployment_Verifier.thy ===== *)
theory Deployment_Verifier imports Contract_Manifest Demo Dashboard Agent_Worker begin

section \<open>The deployment verifier\<close>

text \<open>
  \<open>scripts/verify-deployment.ts\<close>: smoke checks of a deployed API, web page and agent worker over HTTP.
  \<open>fetch\<close> (with its headers and its timeout) and the URL parser are parameters; so is the message of a
  \<open>TypeError\<close>. Its checks are compared with what the routes of the API and the health server of the
  worker answer.
\<close>

subsection \<open>Configuration\<close>

record fetched =
  fe_status :: nat
  fe_json :: "json res"
  fe_text :: "string res"
  fe_contentType :: "string option"

text \<open>\<open>new URL(text)\<close> without its fragment and query, as text; None when it throws.\<close>

type_synonym url_lib = "string \<Rightarrow> string option"

record verifier_config =
  vc_apiBaseUrl :: string
  vc_webUrl :: "string option"
  vc_workerBaseUrl :: "string option"
  vc_proofZoneId :: "string option"
  vc_proofEpoch :: string
  vc_requireConfirmedProof :: bool
  vc_timeoutMs :: rat
  vc_allowDegradedReadiness :: bool

definition normalizeBaseUrl :: "url_lib \<Rightarrow> string option \<Rightarrow> string option res" where
  "normalizeBaseUrl U value =
     (case value of
        None \<Rightarrow> Inr None
      | Some v \<Rightarrow>
          if trim v = [] then Inr None
          else (case U (trim v) of
              Some url \<Rightarrow> Inr (let base = drop_last_slash url in if base = [] then None else Some base)
            | None \<Rightarrow> Inl (plain_error (''Invalid URL: '' @ v))))"

definition verifier_requiredUrl :: "url_lib \<Rightarrow> env \<Rightarrow> string \<Rightarrow> string res" where
  "verifier_requiredUrl U env name =
     bindR (normalizeBaseUrl U (env name)) (\<lambda>value.
     or_throw (plain_error (name @ '' is required. Example: '' @ name @
       ''=https://gridproof-api.example.com pnpm deployment:verify'')) value)"

definition apiBaseUrlFromEnv :: "url_lib \<Rightarrow> env \<Rightarrow> string res" where
  "apiBaseUrlFromEnv U env =
     bindR (verifier_requiredUrl U env ''GRIDPROOF_API_BASE_URL'') (\<lambda>raw.
     Inr (if ends_with raw ''/api/v1'' then raw else raw @ ''/api/v1''))"

definition numberEnv :: "env \<Rightarrow> string \<Rightarrow> rat \<Rightarrow> rat" where
  "numberEnv env name fallback =
     (case env name of
        Some v \<Rightarrow> (case number_of_string v of Some parsed \<Rightarrow> if 0 < parsed then parsed else fallback | None \<Rightarrow> fallback)
      | None \<Rightarrow> fallback)"

definition booleanEnv :: "env \<Rightarrow> string \<Rightarrow> bool" where
  "booleanEnv env name \<longleftrightarrow> (case env name of Some v \<Rightarrow> to_lower (trim v) = ''true'' | None \<Rightarrow> False)"

definition deploymentConfigFromEnv :: "url_lib \<Rightarrow> env \<Rightarrow> verifier_config res" where
  "deploymentConfigFromEnv U env =
     bindR (apiBaseUrlFromEnv U env) (\<lambda>api.
     bindR (normalizeBaseUrl U (env ''GRIDPROOF_WEB_URL'')) (\<lambda>web.
     bindR (normalizeBaseUrl U (env ''GRIDPROOF_WORKER_BASE_URL'')) (\<lambda>worker.
     Inr \<lparr>vc_apiBaseUrl = api, vc_webUrl = web, vc_workerBaseUrl = worker,
       vc_proofZoneId = trimmed env ''GRIDPROOF_PROOF_ZONE_ID'',
       vc_proofEpoch = or_else (trimmed env ''GRIDPROOF_PROOF_EPOCH'') ''latest'',
       vc_requireConfirmedProof = booleanEnv env ''GRIDPROOF_REQUIRE_CONFIRMED_PROOF'',
       vc_timeoutMs = numberEnv env ''GRIDPROOF_DEPLOYMENT_VERIFY_TIMEOUT_MS'' 10000,
       vc_allowDegradedReadiness = booleanEnv env ''GRIDPROOF_ALLOW_DEGRADED_READINESS''\<rparr>)))"

text \<open>\<open>encodeURIComponent\<close>\<close>

definition uri_unreserved :: "char \<Rightarrow> bool" where
  "uri_unreserved c \<longleftrightarrow> is_word_char c \<or> c \<in> set ''-.!~*()'' \<or> c = CHR 0x27"

definition encodeURIComponent :: "string \<Rightarrow> string" where
  "encodeURIComponent s = concat (map (\<lambda>c. if uri_unreserved c then [c]
     else CHR 0x25 # to_upper [hex_digit (ccode c div 16), hex_digit (ccode c mod 16)]) s)"

subsection \<open>The shapes of the responses\<close>

text \<open>The message of an unexpected shape, or None.\<close>

definition isApiHealth :: "json \<Rightarrow> string option" where
  "isApiHealth value =
     (case objectRecord (Some value) of
        None \<Rightarrow> Some ''Health response must be an object.''
      | Some rec \<Rightarrow>
          if map_of rec ''ok'' \<noteq> Some (JBool True) then Some ''Health response ok must be true.''
          else if map_of rec ''service'' \<noteq> Some (JStr ''gridproof-api'') then Some ''Health response service must be gridproof-api.''
          else if json_text_of (map_of rec ''timestamp'') = None then Some ''Health response timestamp must be a string.''
          else None)"

definition isApiMetrics :: "json \<Rightarrow> string option" where
  "isApiMetrics value =
     (case objectRecord (Some value) of
        None \<Rightarrow> Some ''Metrics response must include counters.''
      | Some rec \<Rightarrow> (case objectRecord (map_of rec ''counters'') of
          None \<Rightarrow> Some ''Metrics response must include counters.''
        | Some counters \<Rightarrow>
            (case List.find (\<lambda>key. json_num_of (map_of counters key) = None)
                [''evidenceIngested'', ''candidatesDetected'', ''agentDecisions'', ''chainSubmissions'', ''failures''] of
               Some key \<Rightarrow> Some (''Metrics counter '' @ key @ '' must be a number.'')
             | None \<Rightarrow> None)))"

definition isServiceReadiness :: "json \<Rightarrow> string \<Rightarrow> string option" where
  "isServiceReadiness value service =
     (case objectRecord (Some value) of
        None \<Rightarrow> Some ''Readiness response must be an object.''
      | Some rec \<Rightarrow>
          if map_of rec ''service'' \<noteq> Some (JStr service) then Some (''Readiness response service must be '' @ service @ ''.'')
          else if map_of rec ''status'' \<notin> Some ` JStr ` {''ready'', ''degraded'', ''not_ready''}
          then Some ''Readiness status must be ready, degraded, or not_ready.''
          else (case map_of rec ''checks'' of Some (JArr _) \<Rightarrow> None | _ \<Rightarrow> Some ''Readiness response must include checks.''))"

definition isReadiness :: "json \<Rightarrow> string option" where
  "isReadiness value = isServiceReadiness value ''gridproof-api''"

definition array_member :: "json \<Rightarrow> string \<Rightarrow> bool" where
  "array_member value key \<longleftrightarrow>
     (case objectRecord (Some value) of Some rec \<Rightarrow> (case map_of rec key of Some (JArr _) \<Rightarrow> True | _ \<Rightarrow> False) | None \<Rightarrow> False)"

definition isZonesResponse :: "json \<Rightarrow> string option" where
  "isZonesResponse value = (if array_member value ''zones'' then None else Some ''Zones response must include a zones array.'')"

definition isProvidersResponse :: "json \<Rightarrow> string option" where
  "isProvidersResponse value =
     (if array_member value ''providers'' then None else Some ''Providers response must include a providers array.'')"

definition isBytes32 :: "json option \<Rightarrow> bool" where
  "isBytes32 value \<longleftrightarrow> (case value of Some (JStr s) \<Rightarrow> hex_string 64 s | _ \<Rightarrow> False)"

definition epoch_shape :: "json option \<Rightarrow> string option" where
  "epoch_shape value =
     (if value = Some JNull then None
      else case objectRecord value of
        None \<Rightarrow> Some ''Proof epochScore must be an object or null.''
      | Some e \<Rightarrow>
          if json_text_of (map_of e ''epochStart'') = None then Some ''Proof epochScore.epochStart must be a string.''
          else if json_num_of (map_of e ''uptimeBps'') = None then Some ''Proof epochScore.uptimeBps must be a number.''
          else if \<not> isBytes32 (map_of e ''evidenceHash'') then Some ''Proof epochScore.evidenceHash must be a bytes32 value.''
          else None)"

definition commitment_shape :: "json option \<Rightarrow> string option" where
  "commitment_shape value =
     (if value = Some JNull then None
      else case objectRecord value of
        None \<Rightarrow> Some ''Proof commitment must be an object or null.''
      | Some c \<Rightarrow>
          if map_of c ''status'' \<notin> Some ` JStr ` {''pending'', ''confirmed'', ''failed''}
          then Some ''Proof commitment.status must be pending, confirmed, or failed.''
          else if map_of c ''txHash'' \<noteq> Some JNull \<and> \<not> isBytes32 (map_of c ''txHash'')
          then Some ''Proof commitment.txHash must be a transaction hash or null.''
          else if map_of c ''blockNumber'' \<noteq> Some JNull \<and> json_num_of (map_of c ''blockNumber'') = None
          then Some ''Proof commitment.blockNumber must be a number or null.''
          else if map_of c ''explorerUrl'' \<noteq> Some JNull \<and> json_text_of (map_of c ''explorerUrl'') = None
          then Some ''Proof commitment.explorerUrl must be a URL string or null.''
          else None)"

definition isProofResponse :: "json \<Rightarrow> string option" where
  "isProofResponse value =
     (case objectRecord (Some value) of
        None \<Rightarrow> Some ''Proof response must be an object.''
      | Some rec \<Rightarrow> (case epoch_shape (map_of rec ''epochScore'') of
          Some e \<Rightarrow> Some e
        | None \<Rightarrow> commitment_shape (map_of rec ''commitment'')))"

definition isWorkerHealth :: "json \<Rightarrow> string option" where
  "isWorkerHealth value =
     (case objectRecord (Some value) of
        None \<Rightarrow> Some ''Worker health response must be an object.''
      | Some rec \<Rightarrow>
          if map_of rec ''ok'' \<noteq> Some (JBool True) then Some ''Worker health response ok must be true.''
          else if map_of rec ''service'' \<noteq> Some (JStr ''gridproof-agent-worker'')
          then Some ''Worker health service must be gridproof-agent-worker.''
          else None)"

subsection \<open>The checks\<close>

type_synonym fetch = "string \<Rightarrow> fetched res"

definition response_ok :: "fetched \<Rightarrow> bool" where
  "response_ok response \<longleftrightarrow> 200 \<le> fe_status response \<and> fe_status response \<le> 299"

definition http_failure :: "fetched \<Rightarrow> string" where
  "http_failure response = ''Expected 2xx but received HTTP '' @ nat_string (fe_status response) @ ''.''"

text \<open>A check: what is thrown while it runs is its failure.\<close>

definition checked :: "string \<Rightarrow> check_result res \<Rightarrow> check_result" where
  "checked name r = (case r of Inr result \<Rightarrow> result | Inl e \<Rightarrow> check_result_of name CheckFail (message e))"

definition checkJson :: "fetch \<Rightarrow> string \<Rightarrow> string \<Rightarrow> (json \<Rightarrow> string option) \<Rightarrow> check_result" where
  "checkJson fetch url name predicate = checked name
     (bindR (fetch url) (\<lambda>response.
      bindR (fe_json response) (\<lambda>value.
      Inr (if \<not> response_ok response then check_result_of name CheckFail (http_failure response)
        else case predicate value of
          Some e \<Rightarrow> check_result_of name CheckFail e
        | None \<Rightarrow> check_result_of name CheckPass
            (''HTTP '' @ nat_string (fe_status response) @ ''; response shape is valid.'')))))"

text \<open>The verdict on a proof whose shape is right.\<close>

definition proof_verdict :: "bool \<Rightarrow> json_object \<Rightarrow> check_status \<times> string" where
  "proof_verdict requireConfirmed pr =
     (case (map_of pr ''epochScore'', map_of pr ''commitment'') of
        (Some (JObj es), Some (JObj cm)) \<Rightarrow>
          let status = or_else (json_text_of (map_of cm ''status'')) []; start = or_else (json_text_of (map_of es ''epochStart'')) [] in
          if requireConfirmed \<and> status \<noteq> ''confirmed''
          then (CheckFail, ''Expected a confirmed BOT Chain proof but commitment is '' @ status @ ''.'')
          else if status = ''confirmed''
          then if json_text_of (map_of cm ''txHash'') \<in> {None, Some []} then (CheckFail, ''Confirmed proof is missing txHash.'')
            else if map_of cm ''blockNumber'' = Some JNull then (CheckFail, ''Confirmed proof is missing blockNumber.'')
            else if json_text_of (map_of cm ''explorerUrl'') \<in> {None, Some []} then (CheckFail, ''Confirmed proof is missing explorerUrl.'')
            else (CheckPass, ''Confirmed proof for epoch '' @ start @ ''; uptime '' @
              number_string (or_else (json_num_of (map_of es ''uptimeBps'')) 0) @ '' bps.'')
          else if status = ''pending''
          then (if requireConfirmed then CheckFail else CheckPass,
            ''Pending proof for epoch '' @ start @ ''; confirmed transaction not required for this run.'')
          else (CheckFail, ''Proof commitment is failed.'')
      | (Some (JObj _), _) \<Rightarrow> (CheckFail, ''Proof response does not include a chain commitment.'')
      | _ \<Rightarrow> (CheckFail, ''Proof response does not include an epoch score.''))"

definition checkProof :: "verifier_config \<Rightarrow> fetch \<Rightarrow> string \<Rightarrow> check_result" where
  "checkProof config fetch url = checked ''api_proof''
     (bindR (fetch url) (\<lambda>response.
      bindR (fe_json response) (\<lambda>value.
      Inr (case isProofResponse value of
          Some e \<Rightarrow> check_result_of ''api_proof'' CheckFail e
        | None \<Rightarrow>
            if \<not> response_ok response then check_result_of ''api_proof'' CheckFail (http_failure response)
            else case proof_verdict (vc_requireConfirmedProof config) (or_else (objectRecord (Some value)) []) of
              (status, detail) \<Rightarrow> check_result_of ''api_proof'' status detail))))"

text \<open>The description of a check of a readiness response: members of values that are not objects are
  undefined, those of null throw, and only arrays can be joined.\<close>

definition type_error :: js_error where
  "type_error = plain_error ''TypeError''"

definition item_text :: "json \<Rightarrow> string" where
  "item_text j = (if j = JNull then [] else js_String j)"

definition missing_text :: "json option \<Rightarrow> string res" where
  "missing_text missing =
     (case missing of
        Some (JArr (x # xs)) \<Rightarrow> Inr ('' missing '' @ join_with '', '' (map item_text (x # xs)))
      | Some (JStr (c # cs)) \<Rightarrow> Inl type_error
      | Some (JObj kvs) \<Rightarrow>
          (case map_of kvs ''length'' of
             None \<Rightarrow> Inr [] | Some JNull \<Rightarrow> Inr [] | Some (JBool False) \<Rightarrow> Inr [] | Some (JStr []) \<Rightarrow> Inr []
           | Some (JNum n) \<Rightarrow> if n = 0 then Inr [] else Inl type_error
           | _ \<Rightarrow> Inl type_error)
      | _ \<Rightarrow> Inr [])"

definition check_text :: "json \<Rightarrow> string option res" where
  "check_text check =
     (if check = JNull then Inl type_error
      else let member = (\<lambda>key. case objectRecord (Some check) of Some kvs \<Rightarrow> map_of kvs key | None \<Rightarrow> None);
               shown = (\<lambda>key. case member key of Some j \<Rightarrow> js_String j | None \<Rightarrow> ''undefined'')
        in if member ''status'' = Some (JStr ''pass'') then Inr None
           else bindR (missing_text (member ''missingEnv'')) (\<lambda>missing.
             Inr (Some (shown ''name'' @ '':'' @ shown ''status'' @ missing))))"

definition readiness_detail :: "string \<Rightarrow> json list \<Rightarrow> string res" where
  "readiness_detail status checks =
     bindR (map_res check_text checks) (\<lambda>texts.
     let failing = map the (filter (\<lambda>t. t \<noteq> None) texts) in
     Inr (''Readiness is '' @ status @ (if failing = [] then [] else '' ('' @ join_with ''; '' failing @ '')'') @ ''.''))"

definition readiness_verdict :: "verifier_config \<Rightarrow> string \<Rightarrow> string \<Rightarrow> fetched \<Rightarrow> json \<Rightarrow> check_result res" where
  "readiness_verdict config name passed response value =
     (let rec = or_else (objectRecord (Some value)) [];
          status = or_else (json_text_of (map_of rec ''status'')) [];
          checks = (case map_of rec ''checks'' of Some (JArr cs) \<Rightarrow> cs | _ \<Rightarrow> [])
      in if status = ''ready'' \<and> response_ok response then Inr (check_result_of name CheckPass passed)
         else bindR (readiness_detail status checks) (\<lambda>detail.
           Inr (check_result_of name
             (if status = ''degraded'' \<and> vc_allowDegradedReadiness config then CheckWarn else CheckFail) detail)))"

definition checkReadiness :: "verifier_config \<Rightarrow> fetch \<Rightarrow> string \<Rightarrow> check_result" where
  "checkReadiness config fetch url = checked ''api_readiness''
     (bindR (fetch url) (\<lambda>response.
      bindR (fe_json response) (\<lambda>value.
      case isReadiness value of
        Some e \<Rightarrow> Inr (check_result_of ''api_readiness'' CheckFail e)
      | None \<Rightarrow> readiness_verdict config ''api_readiness'' ''Deployment readiness is ready.'' response value)))"

definition checkWorkerReadiness :: "verifier_config \<Rightarrow> fetch \<Rightarrow> string \<Rightarrow> check_result" where
  "checkWorkerReadiness config fetch url = checked ''worker_readiness''
     (bindR (fetch url) (\<lambda>response.
      bindR (fe_json response) (\<lambda>value.
      case isServiceReadiness value ''gridproof-agent-worker'' of
        Some e \<Rightarrow> Inr (check_result_of ''worker_readiness'' CheckFail e)
      | None \<Rightarrow> readiness_verdict config ''worker_readiness'' ''Agent worker readiness is ready.'' response value)))"

definition checkWeb :: "fetch \<Rightarrow> string \<Rightarrow> check_result" where
  "checkWeb fetch url = checked ''web_frontend''
     (bindR (fetch url) (\<lambda>response.
      bindR (fe_text response) (\<lambda>html.
      let contentType = or_else (fe_contentType response) [] in
      Inr (if \<not> response_ok response then check_result_of ''web_frontend'' CheckFail (http_failure response)
        else if \<not> includes_str contentType ''text/html''
        then check_result_of ''web_frontend'' CheckFail
          (''Expected HTML but received content-type '' @ (if contentType = [] then ''unknown'' else contentType) @ ''.'')
        else if \<not> includes_str html (''<div id='' @ quoted ''root'')
        then check_result_of ''web_frontend'' CheckFail ''HTML does not look like the GridProof Vite app shell.''
        else if includes_str html ''localhost:4000''
        then check_result_of ''web_frontend'' CheckFail ''Frontend HTML references localhost API configuration.''
        else check_result_of ''web_frontend'' CheckPass
          (''HTTP '' @ nat_string (fe_status response) @ ''; Vite app shell loaded.'')))))"

definition deployment_checks :: "verifier_config \<Rightarrow> fetch \<Rightarrow> check_result list" where
  "deployment_checks config fetch =
     (let api = vc_apiBaseUrl config in
      [checkJson fetch (api @ ''/health'') ''api_health'' isApiHealth,
       checkJson fetch (api @ ''/metrics'') ''api_metrics'' isApiMetrics,
       checkReadiness config fetch (api @ ''/readiness''),
       checkJson fetch (api @ ''/zones'') ''api_zones'' isZonesResponse,
       checkJson fetch (api @ ''/providers'') ''api_providers'' isProvidersResponse,
       (case vc_proofZoneId config of
          Some zone \<Rightarrow> checkProof config fetch (api @ ''/chain/proof/'' @ encodeURIComponent zone @ ''/'' @
            encodeURIComponent (vc_proofEpoch config))
        | None \<Rightarrow> check_result_of ''api_proof'' CheckWarn
            ''GRIDPROOF_PROOF_ZONE_ID is not set; skipping deployed proof smoke check.''),
       (case vc_webUrl config of
          Some web \<Rightarrow> checkWeb fetch web
        | None \<Rightarrow> check_result_of ''web_url'' CheckWarn
            ''GRIDPROOF_WEB_URL is not set; skipping public frontend smoke check.'')] @
      (case vc_workerBaseUrl config of
         Some worker \<Rightarrow> [checkJson fetch (worker @ ''/health'') ''worker_health'' isWorkerHealth,
           checkWorkerReadiness config fetch (worker @ ''/readiness'')]
       | None \<Rightarrow> [check_result_of ''worker_health'' CheckWarn
           ''GRIDPROOF_WORKER_BASE_URL is not set; skipping agent-worker health/readiness checks.'']))"

definition verifyDeployment :: "url_lib \<Rightarrow> fetch \<Rightarrow> env \<Rightarrow> check_result list res" where
  "verifyDeployment U fetch env =
     bindR (deploymentConfigFromEnv U env) (\<lambda>config. Inr (deployment_checks config fetch))"

definition deployment_exit_code :: "url_lib \<Rightarrow> fetch \<Rightarrow> env \<Rightarrow> int" where
  "deployment_exit_code U fetch env =
     (case verifyDeployment U fetch env of
        Inl _ \<Rightarrow> 1
      | Inr checks \<Rightarrow> if list_ex (\<lambda>c. vr_status c = CheckFail) checks then 1 else 0)"

end
