(* ===== verification/Deployment_Checks.thy ===== *)
theory Deployment_Checks imports Deployment_Verifier begin

section \<open>The deployment verifier and the services it checks\<close>

subsection \<open>The responses of the services as JSON\<close>

definition answer :: "nat \<Rightarrow> json \<Rightarrow> fetched res" where
  "answer status value = Inr \<lparr>fe_status = status, fe_json = Inr value, fe_text = Inr (json_stringify value),
     fe_contentType = Some ''application/json; charset=utf-8''\<rparr>"

definition health_json :: "health_response \<Rightarrow> json" where
  "health_json r = JObj [(''ok'', JBool (hl_ok r)), (''service'', JStr (hl_service r)), (''version'', JStr (hl_version r)),
     (''timestamp'', JStr (hl_timestamp r))]"

definition metrics_json :: "metrics_snapshot \<Rightarrow> json" where
  "metrics_json m = JObj [(''uptimeSeconds'', JNum (of_int (uptimeSeconds m))), (''counters'',
     JObj (map (\<lambda>(key, count_of). (key, JNum (of_nat (count_of (snapshot_counters m)))))
       [(''evidenceIngested'', evidenceIngested), (''candidatesDetected'', candidatesDetected), (''agentDecisions'', agentDecisions),
        (''chainSubmissions'', chainSubmissions), (''failures'', failures)]))]"

fun check_status_string :: "check_status \<Rightarrow> string" where
  "check_status_string CheckPass = ''pass''"
| "check_status_string CheckWarn = ''warn''"
| "check_status_string CheckFail = ''fail''"

fun ready_status_string :: "ready_status \<Rightarrow> string" where
  "ready_status_string Ready = ''ready''"
| "ready_status_string Degraded = ''degraded''"
| "ready_status_string NotReady = ''not_ready''"

definition readiness_check_json :: "readiness_check \<Rightarrow> json" where
  "readiness_check_json c = JObj [(''name'', JStr (rc_name c)), (''status'', JStr (check_status_string (rc_check c))),
     (''required'', JBool (rc_required c)), (''message'', JStr (rc_message c)), (''missingEnv'', JArr (map JStr (rc_missingEnv c)))]"

definition readiness_json :: "readiness_response \<Rightarrow> json" where
  "readiness_json r = JObj [(''ok'', JBool (rs_ok r)), (''service'', JStr (rs_service r)),
     (''status'', JStr (ready_status_string (rs_status r))), (''timestamp'', JStr (rs_timestamp r)),
     (''checks'', JArr (map readiness_check_json (rs_checks r)))]"

definition epoch_score_json :: "epoch_score \<Rightarrow> json" where
  "epoch_score_json s = JObj [(''id'', JStr (es_id s)), (''zoneId'', JStr (es_zoneId s)), (''epochStart'', JStr (es_epochStart s)),
     (''uptimeBps'', JNum (of_int (es_uptimeBps s))), (''evidenceHash'', JStr (es_evidenceHash s)), (''createdAt'', JStr (es_createdAt s))]"

definition commitment_json :: "chain_commitment \<Rightarrow> json" where
  "commitment_json c = JObj [(''id'', JStr (cc_id c)), (''epochScoreId'', JStr (cc_epochScoreId c)),
     (''txHash'', json_of_option JStr (cc_txHash c)), (''blockNumber'', json_of_option (\<lambda>n. JNum (of_int n)) (cc_blockNumber c)),
     (''status'', JStr (commitment_status_string (cc_status c))), (''explorerUrl'', json_of_option JStr (cc_explorerUrl c)),
     (''createdAt'', JStr (cc_createdAt c)), (''confirmedAt'', json_of_option JStr (cc_confirmedAt c))]"

definition proof_json :: "proof_response \<Rightarrow> json" where
  "proof_json p = JObj [(''epochScore'', json_of_option epoch_score_json (fst p)),
     (''commitment'', json_of_option commitment_json (snd p))]"

definition worker_check_json :: "worker_readiness_check \<Rightarrow> json" where
  "worker_check_json c = JObj ([(''name'', JStr (wr_name c)), (''status'', JStr (if wr_pass c then ''pass'' else ''fail'')),
     (''message'', JStr (wr_message c)), (''missingEnv'', JArr (map JStr (wr_missingEnv c)))])"

fun health_body_json :: "health_body \<Rightarrow> json" where
  "health_body_json (ReadinessBody r) = JObj [(''ok'', JBool (wy_ok r)), (''service'', JStr ''gridproof-agent-worker''),
     (''status'', JStr (wy_status r)), (''timestamp'', JStr (wy_timestamp r)), (''checks'', JArr (map worker_check_json (wy_checks r)))]"
| "health_body_json NotFoundBody = JObj [(''error'', JStr ''not_found'')]"
| "health_body_json (HealthBody ok t) = JObj [(''ok'', JBool ok), (''service'', JStr ''gridproof-agent-worker''), (''timestamp'', JStr t)]"

subsection \<open>The API\<close>

definition serves_api :: "fetch \<Rightarrow> string \<Rightarrow> runtime \<Rightarrow> int \<Rightarrow> world \<Rightarrow> bool" where
  "serves_api fetch base rt startedAt w \<longleftrightarrow>
     fetch (base @ ''/health'') = answer 200 (health_json (health_handler (rt_env rt) (w_now w))) \<and>
     fetch (base @ ''/metrics'') = answer 200 (metrics_json (metrics_handler startedAt w)) \<and>
     fetch (base @ ''/readiness'') = (case readiness_handler (rt_env rt) (w_now w) of (status, r) \<Rightarrow> answer status (readiness_json r)) \<and>
     (\<exists>zs. fetch (base @ ''/zones'') = answer 200 (JObj [(''zones'', JArr zs)])) \<and>
     (\<exists>ps. fetch (base @ ''/providers'') = answer 200 (JObj [(''providers'', JArr ps)]))"

text \<open>The verdict on a readiness status.\<close>

definition readiness_status_of :: "bool \<Rightarrow> ready_status \<Rightarrow> check_status" where
  "readiness_status_of allow status = (case status of Ready \<Rightarrow> CheckPass | Degraded \<Rightarrow> if allow then CheckWarn else CheckFail
     | NotReady \<Rightarrow> CheckFail)"

lemma checkJson_fetch: "fetch url = answer 200 value \<Longrightarrow> predicate value = None \<Longrightarrow> vr_status (checkJson fetch url name predicate) = CheckPass"
  by (simp add: checkJson_def checked_def answer_def response_ok_def)

lemma texts_ok: "list_all (\<lambda>c. \<exists>t. check_text c = Inr t) cs \<Longrightarrow> \<exists>d. readiness_detail status cs = Inr d"
proof -
  assume "list_all (\<lambda>c. \<exists>t. check_text c = Inr t) cs"
  then have "\<exists>ts. map_res check_text cs = Inr ts"
    by (induction cs) auto
  then show ?thesis by (auto simp: readiness_detail_def Let_def)
qed

lemma check_text_ok: "\<exists>t. check_text (readiness_check_json c) = Inr t" "\<exists>t. check_text (worker_check_json d) = Inr t"
  by (cases "rc_missingEnv c"; cases "wr_missingEnv d"; cases "rc_check c";
      simp add: check_text_def readiness_check_json_def worker_check_json_def objectRecord_def missing_text_def)+

lemma health_accepted: "isApiHealth (health_json (health_handler env now)) = None"
  by (simp add: isApiHealth_def health_json_def health_handler_def objectRecord_def json_text_of_def)

lemma metrics_accepted: "isApiMetrics (metrics_json m) = None"
  by (simp add: isApiMetrics_def metrics_json_def objectRecord_def json_num_of_def)

lemma readiness_shape: "rs_service r = ''gridproof-api'' \<Longrightarrow> isReadiness (readiness_json r) = None"
  by (cases "rs_status r") (simp_all add: isReadiness_def isServiceReadiness_def readiness_json_def objectRecord_def)

lemma readiness_served:
  assumes "fetch url = (case readiness_handler env now of (status, r) \<Rightarrow> answer status (readiness_json r))"
  shows "vr_status (checkReadiness config fetch url) =
    readiness_status_of (vc_allowDegradedReadiness config) (rs_status (readinessSnapshot env now))"
proof -
  define r where "r = readinessSnapshot env now"
  have facts: "rs_service r = ''gridproof-api''" "rs_ok r \<longleftrightarrow> rs_status r \<noteq> NotReady"
    by (simp_all add: r_def readinessSnapshot_def Let_def)
  obtain d where d: "readiness_detail (ready_status_string (rs_status r)) (map readiness_check_json (rs_checks r)) = Inr d"
    using texts_ok[of "map readiness_check_json (rs_checks r)"] check_text_ok(1) by (auto simp: list_all_iff)
  have "fetch url = answer (if rs_ok r then 200 else 503) (readiness_json r)"
    using assms by (simp add: readiness_handler_def r_def Let_def)
  then show ?thesis
    using readiness_shape[OF facts(1)] facts d
    by (cases "rs_status r")
      (simp_all add: checkReadiness_def checked_def answer_def readiness_verdict_def Let_def readiness_json_def objectRecord_def
        json_text_of_def response_ok_def readiness_status_of_def flip: r_def)
qed

text \<open>The deployment verifier understands the API: against a running API its checks of health, metrics, zones
  and providers pass, and its check of readiness says exactly what the API reports about itself,
  degraded being a warning only where that is allowed.\<close>

theorem verifier_reads_api:
  assumes "serves_api fetch (vc_apiBaseUrl config) rt startedAt w"
  shows "map vr_status (take 5 (deployment_checks config fetch)) =
    [CheckPass, CheckPass,
     readiness_status_of (vc_allowDegradedReadiness config) (rs_status (readinessSnapshot (rt_env rt) (w_now w))),
     CheckPass, CheckPass]"
proof -
  obtain zs ps where a:
    "fetch (vc_apiBaseUrl config @ ''/health'') = answer 200 (health_json (health_handler (rt_env rt) (w_now w)))"
    "fetch (vc_apiBaseUrl config @ ''/metrics'') = answer 200 (metrics_json (metrics_handler startedAt w))"
    "fetch (vc_apiBaseUrl config @ ''/zones'') = answer 200 (JObj [(''zones'', JArr zs)])"
    "fetch (vc_apiBaseUrl config @ ''/providers'') = answer 200 (JObj [(''providers'', JArr ps)])"
    and r: "fetch (vc_apiBaseUrl config @ ''/readiness'') =
      (case readiness_handler (rt_env rt) (w_now w) of (status, r) \<Rightarrow> answer status (readiness_json r))"
    using assms by (auto simp: serves_api_def)
  show ?thesis
    unfolding deployment_checks_def Let_def
    by (simp add: checkJson_fetch[of fetch, OF a(1)] health_accepted checkJson_fetch[of fetch, OF a(2)] metrics_accepted readiness_served[of fetch, OF r]
        checkJson_fetch[of fetch, OF a(3)] checkJson_fetch[of fetch, OF a(4)] isZonesResponse_def isProvidersResponse_def array_member_def objectRecord_def)
qed

text \<open>The verdict on what the proof route answers.\<close>

definition proof_status_of :: "bool \<Rightarrow> proof_response \<Rightarrow> check_status" where
  "proof_status_of requireConfirmed p =
     (case p of
        (Some s, Some c) \<Rightarrow>
          (case cc_status c of
             Confirmed \<Rightarrow> if cc_txHash c = None \<or> cc_blockNumber c = None \<or> cc_explorerUrl c \<in> {None, Some []} then CheckFail else CheckPass
           | Pending \<Rightarrow> if requireConfirmed then CheckFail else CheckPass
           | Failed \<Rightarrow> CheckFail)
      | _ \<Rightarrow> CheckFail)"

lemma proof_shape:
  assumes "proofResponseSchema F p"
  shows "isProofResponse (proof_json p) = None"
proof -
  have "epoch_shape (Some (json_of_option epoch_score_json (fst p))) = None"
    using assms by (auto simp: epoch_shape_def json_of_option_def epoch_score_json_def objectRecord_def json_text_of_def json_num_of_def
        isBytes32_def proofResponseSchema_def opt_all_def epochScoreSchema_def bytes32Schema_def split: option.split)
  moreover have "commitment_shape (Some (json_of_option commitment_json (snd p))) = None"
  proof (cases "snd p")
    case (Some c)
    have "opt_all txHashSchema (cc_txHash c)" using assms by (simp add: proofResponseSchema_def Some chainCommitmentSchema_def opt_all_def)
    then show ?thesis
      by (cases "cc_status c"; cases "cc_txHash c"; cases "cc_blockNumber c"; cases "cc_explorerUrl c")
        (simp_all add: Some commitment_shape_def json_of_option_def commitment_json_def objectRecord_def json_text_of_def json_num_of_def
          isBytes32_def opt_all_def txHashSchema_def)
  qed (simp add: commitment_shape_def json_of_option_def)
  ultimately show ?thesis by (simp add: isProofResponse_def proof_json_def objectRecord_def)
qed

lemma verdict_of_proof:
  assumes "proofResponseSchema F p"
  shows "fst (proof_verdict require (or_else (objectRecord (Some (proof_json p))) [])) = proof_status_of require p"
proof (cases p)
  case (Pair es cm)
  show ?thesis
  proof (cases es; cases cm)
    fix s c assume es: "es = Some s" and cm: "cm = Some c"
    have tx: "cc_txHash c \<noteq> Some []" using assms Pair cm
      by (auto simp: proofResponseSchema_def chainCommitmentSchema_def opt_all_def txHashSchema_def hex_string_def)
    show ?thesis unfolding Pair es cm
      using tx by (cases "cc_status c"; cases "cc_txHash c"; cases "cc_blockNumber c"; cases "cc_explorerUrl c")
        (simp_all add: proof_verdict_def proof_json_def objectRecord_def json_of_option_def epoch_score_json_def commitment_json_def
          json_text_of_def proof_status_of_def Let_def)
  qed (simp_all add: Pair proof_verdict_def proof_json_def objectRecord_def json_of_option_def epoch_score_json_def
      commitment_json_def proof_status_of_def)
qed

text \<open>The check of a proof says what the proof route answers: it passes when there is a score whose commitment is
  confirmed with its transaction, block and link, or still pending when that is enough; whatever the
  database holds, an answer of the route is never rejected for its shape.\<close>

theorem proof_check_verdict:
  assumes "proof_route rt F E (Some zone) (Some epoch) w = (Inr (200, p), w')" "fetch url = answer 200 (proof_json p)"
  shows "vr_status (checkProof config fetch url) = proof_status_of (vc_requireConfirmedProof config) p"
proof -
  have "proofResponseSchema F p"
    using assms(1)
    by (auto simp: proof_route_def bindS_def liftS_def getS_def respond_def returnS_def throwS_def split: sum.splits if_splits prod.splits)
  then show ?thesis
    using verdict_of_proof[of F p "vc_requireConfirmedProof config"] assms(2)
    by (simp add: checkProof_def checked_def answer_def proof_shape response_ok_def split_beta)
qed

subsection \<open>The worker\<close>

text \<open>The checks of the worker pass exactly while it is ready and configured.\<close>

theorem verifier_reads_worker:
  assumes "fetch (base @ ''/health'') = (case health_server env workerReady ''/health'' now of (status, body) \<Rightarrow> answer status (health_body_json body))"
    and "fetch (base @ ''/readiness'') = (case health_server env workerReady ''/readiness'' now of (status, body) \<Rightarrow> answer status (health_body_json body))"
  shows "vr_status (checkJson fetch (base @ ''/health'') ''worker_health'' isWorkerHealth) = CheckPass \<longleftrightarrow> workerReady"
    "vr_status (checkWorkerReadiness config fetch (base @ ''/readiness'')) = CheckPass \<longleftrightarrow> wy_ok (workerReadinessSnapshot env workerReady now)"
    "vr_status (checkWorkerReadiness config fetch (base @ ''/readiness'')) \<noteq> CheckWarn"
proof -
  show "vr_status (checkJson fetch (base @ ''/health'') ''worker_health'' isWorkerHealth) = CheckPass \<longleftrightarrow> workerReady"
    using assms(1) by (simp add: health_server_def checkJson_def checked_def answer_def response_ok_def isWorkerHealth_def objectRecord_def)
  define r where "r = workerReadinessSnapshot env workerReady now"
  have st: "wy_status r = (if wy_ok r then ''ready'' else ''not_ready'')" by (simp add: r_def workerReadinessSnapshot_def Let_def)
  obtain d where d: "readiness_detail ''not_ready'' (map worker_check_json (wy_checks r)) = Inr d"
    using texts_ok[of "map worker_check_json (wy_checks r)"] check_text_ok(2) by (auto simp: list_all_iff)
  have run: "vr_status (checkWorkerReadiness config fetch (base @ ''/readiness'')) = (if wy_ok r then CheckPass else CheckFail)"
    using assms(2) st d
    by (simp add: health_server_def checkWorkerReadiness_def checked_def answer_def isServiceReadiness_def objectRecord_def
        readiness_verdict_def json_text_of_def response_ok_def Let_def flip: r_def)
  show "vr_status (checkWorkerReadiness config fetch (base @ ''/readiness'')) = CheckPass \<longleftrightarrow> wy_ok (workerReadinessSnapshot env workerReady now)"
    "vr_status (checkWorkerReadiness config fetch (base @ ''/readiness'')) \<noteq> CheckWarn"
    unfolding run by (simp_all flip: r_def)
qed

end
