(* ===== verification/Web_Client.thy ===== *)
theory Web_Client imports Api_Process Contract_Manifest begin

section \<open>The web client\<close>

text \<open>
  \<open>apps/web/src/lib\<close> and \<open>stores\<close>: the requests of the web application, how it reads errors, its session
  token, the browser wallet, error reporting, the realtime handlers and the store they feed. \<open>fetch\<close>, the
  schemas, the wallet extension, the cache of queries (which keys are invalidated) and Sentry are the
  libraries'. React, its rendering and the formatting of dates are left out.
\<close>

subsection \<open>api-error.ts, api-client.ts\<close>

datatype web_error = ApiError (ae_status: nat) (ae_code: "string option") (ae_message: string) | OtherError js_error

definition isAuthenticationError :: "web_error \<Rightarrow> bool" where
  "isAuthenticationError e \<longleftrightarrow> (case e of ApiError status _ _ \<Rightarrow> status = 401 \<or> status = 403 | OtherError _ \<Rightarrow> False)"

definition isAuthorizationError :: "web_error \<Rightarrow> bool" where
  "isAuthorizationError e \<longleftrightarrow> (case e of ApiError status _ _ \<Rightarrow> status = 403 | OtherError _ \<Rightarrow> False)"

text \<open>\<open>import.meta.env\<close> and \<open>localStorage\<close>, when there is one.\<close>

record browser =
  br_env :: env
  br_storage :: "env option"

definition apiBaseUrl :: "browser \<Rightarrow> string" where
  "apiBaseUrl B = or_else (br_env B ''VITE_API_BASE_URL'') ''http://localhost:4000/api/v1''"

definition authTokenStorageKey :: string where
  "authTokenStorageKey = ''gridproof.authToken''"

definition authToken :: "browser \<Rightarrow> string option" where
  "authToken B =
     (case env_set (br_env B) ''VITE_DEMO_AUTH_TOKEN'' of
        Some token \<Rightarrow> Some token
      | None \<Rightarrow> (case br_storage B of None \<Rightarrow> None | Some storage \<Rightarrow> storage authTokenStorageKey))"

text \<open>The empty token counts as none.\<close>

definition authHeaders :: "browser \<Rightarrow> (string \<times> string) list" where
  "authHeaders B =
     (case authToken B of
        Some token \<Rightarrow> if token = [] then [] else [(''Authorization'', ''Bearer '' @ token)]
      | None \<Rightarrow> [])"

record web_request =
  wr_method :: string
  wr_url :: string
  wr_headers :: "(string \<times> string) list"
  wr_body :: "json option"

record web_response =
  ws_status :: nat
  ws_json :: "json res"

type_synonym web_fetch = "web_request \<Rightarrow> web_response res"

definition error_member :: "json \<Rightarrow> string \<Rightarrow> json option" where
  "error_member body key = (case json_member ''error'' body of Some e \<Rightarrow> json_member key e | None \<Rightarrow> None)"

definition apiError :: "web_response \<Rightarrow> web_error" where
  "apiError response =
     (let fallback = ''GridProof API request failed: '' @ nat_string (ws_status response) in
      case ws_json response of
        Inl _ \<Rightarrow> ApiError (ws_status response) None fallback
      | Inr body \<Rightarrow> ApiError (ws_status response) (json_text_of (error_member body ''code''))
          (or_else (json_text_of (error_member body ''message'')) fallback))"

definition or_other :: "'a res \<Rightarrow> web_error + 'a" where
  "or_other r = (case r of Inl e \<Rightarrow> Inl (OtherError e) | Inr x \<Rightarrow> Inr x)"

definition read_response :: "(json \<Rightarrow> 'a res) \<Rightarrow> nat list \<Rightarrow> web_response \<Rightarrow> web_error + 'a" where
  "read_response parse allowedErrorStatuses response =
     (if \<not> (200 \<le> ws_status response \<and> ws_status response \<le> 299) \<and> ws_status response \<notin> set allowedErrorStatuses
      then Inl (apiError response)
      else or_other (bindR (ws_json response) parse))"

definition getJson :: "browser \<Rightarrow> web_fetch \<Rightarrow> string \<Rightarrow> (json \<Rightarrow> 'a res) \<Rightarrow> nat list \<Rightarrow> web_error + 'a" where
  "getJson B fetch path parse allowedErrorStatuses =
     (case fetch \<lparr>wr_method = ''GET'', wr_url = apiBaseUrl B @ path, wr_headers = authHeaders B, wr_body = None\<rparr> of
        Inl e \<Rightarrow> Inl (OtherError e)
      | Inr response \<Rightarrow> read_response parse allowedErrorStatuses response)"

definition postJson :: "browser \<Rightarrow> web_fetch \<Rightarrow> string \<Rightarrow> json \<Rightarrow> (json \<Rightarrow> 'a res) \<Rightarrow> web_error + 'a" where
  "postJson B fetch path body parse =
     (case fetch \<lparr>wr_method = ''POST'', wr_url = apiBaseUrl B @ path,
         wr_headers = (''Content-Type'', ''application/json'') # authHeaders B, wr_body = Some body\<rparr> of
        Inl e \<Rightarrow> Inl (OtherError e)
      | Inr response \<Rightarrow> read_response parse [] response)"

text \<open>The operations of \<open>apiClient\<close>, with the bodies that are posted.\<close>

datatype client_call = AuthMe | AuthRegister json | AuthLogin json | Health | Metrics | Readiness | Alerts | Zones
  | ZoneHistory string | Providers | RegisterProvider json | SubmitReport json | Notifications | DemoWalletChallenge json
  | RunDemoSimulation json | DemoSimulation string | Proof string string | ReviewQueue | ResolveReview string json

text \<open>Method, path and body of a request.\<close>

fun client_path :: "client_call \<Rightarrow> string" where
  "client_path AuthMe = ''/auth/me''"
| "client_path (AuthRegister body) = ''/auth/register''"
| "client_path (AuthLogin body) = ''/auth/login''"
| "client_path Health = ''/health''"
| "client_path Metrics = ''/metrics''"
| "client_path Readiness = ''/readiness''"
| "client_path Alerts = ''/alerts''"
| "client_path Zones = ''/zones''"
| "client_path (ZoneHistory zoneId) = ''/zones/'' @ zoneId @ ''/history''"
| "client_path Providers = ''/providers''"
| "client_path (RegisterProvider body) = ''/providers''"
| "client_path (SubmitReport body) = ''/ingest/report''"
| "client_path Notifications = ''/admin/notifications''"
| "client_path (DemoWalletChallenge body) = ''/demo/wallet-challenge''"
| "client_path (RunDemoSimulation body) = ''/demo/simulations''"
| "client_path (DemoSimulation i) = ''/demo/simulations/'' @ i"
| "client_path (Proof zoneId epoch) = ''/chain/proof/'' @ zoneId @ ''/'' @ epoch"
| "client_path ReviewQueue = ''/admin/review-queue''"
| "client_path (ResolveReview reviewId body) = ''/admin/review/'' @ reviewId @ ''/decision''"

fun client_body :: "client_call \<Rightarrow> json option" where
  "client_body (AuthRegister body) = Some body"
| "client_body (AuthLogin body) = Some body"
| "client_body (RegisterProvider body) = Some body"
| "client_body (SubmitReport body) = Some body"
| "client_body (DemoWalletChallenge body) = Some body"
| "client_body (RunDemoSimulation body) = Some body"
| "client_body (ResolveReview reviewId body) = Some body"
| "client_body _ = None"

text \<open>The bodies that are parsed before they are sent; the others are sent as they are.\<close>

fun parses_body :: "client_call \<Rightarrow> bool" where
  "parses_body (RegisterProvider body) = False"
| "parses_body (ResolveReview reviewId body) = False"
| "parses_body call = (client_body call \<noteq> None)"

record web_schemas =
  sc_request :: "client_call \<Rightarrow> json \<Rightarrow> json res"
  sc_response :: "client_call \<Rightarrow> json \<Rightarrow> json res"

definition apiClient :: "browser \<Rightarrow> web_fetch \<Rightarrow> web_schemas \<Rightarrow> client_call \<Rightarrow> web_error + json" where
  "apiClient B fetch S call =
     (case client_body call of
        None \<Rightarrow> getJson B fetch (client_path call) (sc_response S call) (if call = Readiness then [503] else [])
      | Some body \<Rightarrow>
          (case (if parses_body call then sc_request S call body else Inr body) of
             Inl e \<Rightarrow> Inl (OtherError e)
           | Inr body \<Rightarrow> postJson B fetch (client_path call) body (sc_response S call)))"

subsection \<open>wallet.ts\<close>

text \<open>The extension answers requests of a method with parameters; None is a browser without one.\<close>

type_synonym wallet = "(string \<Rightarrow> json list \<Rightarrow> json res) option"

definition connectInjectedWallet :: "wallet \<Rightarrow> string res" where
  "connectInjectedWallet provider =
     (case provider of
        None \<Rightarrow> Inl (plain_error ''No browser wallet detected. Install MetaMask or another EVM wallet to continue.'')
      | Some request \<Rightarrow> bindR (request ''eth_requestAccounts'' []) (\<lambda>accounts.
          case accounts of
            JArr (JStr address # _) \<Rightarrow>
              if address = [] then Inl (plain_error ''The wallet did not return an account.'') else Inr address
          | _ \<Rightarrow> Inl (plain_error ''The wallet did not return an account.'')))"

definition signWalletMessage :: "wallet \<Rightarrow> string \<Rightarrow> string \<Rightarrow> string res" where
  "signWalletMessage provider address text =
     (case provider of
        None \<Rightarrow> Inl (plain_error ''The connected wallet is no longer available.'')
      | Some request \<Rightarrow> bindR (request ''personal_sign'' [JStr text, JStr address]) (\<lambda>signature.
          case signature of JStr s \<Rightarrow> Inr s | _ \<Rightarrow> Inl (plain_error ''The wallet did not return a signature.'')))"

subsection \<open>observability.tsx\<close>

text \<open>Values of the environment of a build may be booleans.\<close>

datatype build_value = BuildText string | BuildFlag bool

type_synonym build_env = "string \<Rightarrow> build_value option"

record web_sentry_config =
  se_dsn :: string
  se_environment :: "string option"
  se_release :: "string option"
  se_tracesSampleRate :: rat

definition stringEnv :: "build_value option \<Rightarrow> string option" where
  "stringEnv value = (case value of Some (BuildText s) \<Rightarrow> if trim s = [] then None else Some (trim s) | _ \<Rightarrow> None)"

definition web_fractionFromEnv :: "string option \<Rightarrow> rat \<Rightarrow> rat" where
  "web_fractionFromEnv value fallback =
     (case value of
        None \<Rightarrow> fallback
      | Some v \<Rightarrow> if v = [] then fallback
          else (case number_of_string v of Some parsed \<Rightarrow> if 0 \<le> parsed \<and> parsed \<le> 1 then parsed else fallback | None \<Rightarrow> fallback))"

definition web_sentryConfigFromEnv :: "build_env \<Rightarrow> web_sentry_config option" where
  "web_sentryConfigFromEnv env =
     map_option (\<lambda>dsn. \<lparr>se_dsn = dsn,
       se_environment = (case stringEnv (env ''VITE_SENTRY_ENVIRONMENT'') of None \<Rightarrow> stringEnv (env ''MODE'') | e \<Rightarrow> e),
       se_release = stringEnv (env ''VITE_SENTRY_RELEASE''),
       se_tracesSampleRate = web_fractionFromEnv (stringEnv (env ''VITE_SENTRY_TRACES_SAMPLE_RATE'')) 0\<rparr>)
     (stringEnv (env ''VITE_SENTRY_DSN''))"

text \<open>Whether Sentry is started, and what is reported: the error's extra data without secrets.\<close>

definition initWebObservability :: "build_env \<Rightarrow> bool \<Rightarrow> bool \<times> web_sentry_config option \<times> bool" where
  "initWebObservability env initialized =
     (case web_sentryConfigFromEnv env of
        None \<Rightarrow> (False, None, initialized)
      | Some config \<Rightarrow> (True, Some config, True))"

definition captureWebException :: "bool \<Rightarrow> json_object \<Rightarrow> json_object option" where
  "captureWebException initialized extra = (if initialized then Some (redactSensitiveExtra extra) else None)"

subsection \<open>dashboard-store.ts\<close>

record dashboard_state =
  ds_selectedZoneId :: "string option"
  ds_realtimeStatuses :: "(string, evidence_status) jsmap"

definition initial_dashboard :: dashboard_state where
  "initial_dashboard = \<lparr>ds_selectedZoneId = None, ds_realtimeStatuses = []\<rparr>"

definition selectZone :: "string \<Rightarrow> dashboard_state \<Rightarrow> dashboard_state" where
  "selectZone zoneId s = s\<lparr>ds_selectedZoneId := Some zoneId\<rparr>"

definition applyRealtimeStatus :: "string \<Rightarrow> evidence_status \<Rightarrow> dashboard_state \<Rightarrow> dashboard_state" where
  "applyRealtimeStatus zoneId status s = s\<lparr>ds_realtimeStatuses := jm_set zoneId status (ds_realtimeStatuses s)\<rparr>"

subsection \<open>realtime.ts\<close>

text \<open>What a handler does to the page: the store, the cached zones, and the keys that are invalidated,
  whose queries are fetched again.\<close>

record page =
  pg_store :: dashboard_state
  pg_zones :: "zone_view list option"
  pg_invalidated :: "string list list"

datatype page_message = ZoneStatusChanged string evidence_status | ChainCommittedMessage string
  | ReviewRequiredMessage | ConnectError | Disconnected

definition invalidate :: "string list list \<Rightarrow> page \<Rightarrow> page" where
  "invalidate keys p = p\<lparr>pg_invalidated := pg_invalidated p @ keys\<rparr>"

definition refreshRestFallback :: "string option \<Rightarrow> page \<Rightarrow> page" where
  "refreshRestFallback zoneId = invalidate ([[''zones''], [''review-queue''], [''notifications'']] @
     (case zoneId of Some z \<Rightarrow> if z = [] then [] else [[''zone-history'', z], [''proof'', z]] | None \<Rightarrow> []))"

fun useRealtime :: "string option \<Rightarrow> page_message \<Rightarrow> page \<Rightarrow> page" where
  "useRealtime zoneId (ZoneStatusChanged z status) p =
     invalidate [[''zone-history'', z]] (p\<lparr>pg_store := applyRealtimeStatus z status (pg_store p),
       pg_zones := map_option (map (\<lambda>zone. if zo_id (zv_zone zone) = z then zone\<lparr>zv_latestStatus := status\<rparr> else zone)) (pg_zones p)\<rparr>)"
| "useRealtime zoneId (ChainCommittedMessage z) p =
     invalidate [[''zones''], [''zone-history'', z], [''proof'', z], [''notifications'']] p"
| "useRealtime zoneId ReviewRequiredMessage p = invalidate [[''review-queue''], [''alerts''], [''notifications'']] p"
| "useRealtime zoneId ConnectError p = refreshRestFallback zoneId p"
| "useRealtime zoneId Disconnected p = refreshRestFallback zoneId p"

definition realtimeAuth :: "browser \<Rightarrow> string option" where
  "realtimeAuth B =
     (case env_set (br_env B) ''VITE_DEMO_AUTH_TOKEN'' of
        Some token \<Rightarrow> Some token
      | None \<Rightarrow> (case br_storage B of None \<Rightarrow> None | Some storage \<Rightarrow> env_set storage authTokenStorageKey))"

text \<open>A successful fetch of the zones replaces the cached ones.\<close>

definition zones_fetched :: "zone_view list \<Rightarrow> page \<Rightarrow> page" where
  "zones_fetched zones p = p\<lparr>pg_zones := Some zones\<rparr>"

section \<open>The client and the API\<close>

text \<open>The route each operation is meant for.\<close>

fun client_route :: "client_call \<Rightarrow> api_route" where
  "client_route AuthMe = MeRoute"
| "client_route (AuthRegister body) = RegisterRoute"
| "client_route (AuthLogin body) = LoginRoute"
| "client_route Health = HealthRoute"
| "client_route Metrics = MetricsRoute"
| "client_route Readiness = ReadinessRoute"
| "client_route Alerts = AlertsRoute"
| "client_route Zones = ZonesRoute"
| "client_route (ZoneHistory zoneId) = HistoryRoute zoneId"
| "client_route Providers = ProvidersRoute"
| "client_route (RegisterProvider body) = RegisterProviderRoute"
| "client_route (SubmitReport body) = ReportRoute"
| "client_route Notifications = NotificationsRoute"
| "client_route (DemoWalletChallenge body) = ChallengeRoute"
| "client_route (RunDemoSimulation body) = SimulationsRoute"
| "client_route (DemoSimulation i) = SimulationRoute i"
| "client_route (Proof zoneId epoch) = ProofRoute zoneId epoch"
| "client_route ReviewQueue = ReviewQueueRoute"
| "client_route (ResolveReview reviewId body) = ReviewDecisionRoute reviewId"

fun client_ids :: "client_call \<Rightarrow> string list" where
  "client_ids (ZoneHistory zoneId) = [zoneId]"
| "client_ids (DemoSimulation i) = [i]"
| "client_ids (Proof zoneId epoch) = [zoneId, epoch]"
| "client_ids (ResolveReview reviewId body) = [reviewId]"
| "client_ids _ = []"

definition client_method :: "client_call \<Rightarrow> string" where
  "client_method call = (if client_body call = None then ''GET'' else ''POST'')"


lemma split_path:
  "p \<noteq> [] \<Longrightarrow> hd p = CHR ''/'' \<Longrightarrow> split_on CHR ''/'' (''/api/v1'' @ p) = [[], ''api'', ''v1''] @ split_on CHR ''/'' (tl p)"
  by (cases p) auto

lemma find_route_api:
  assumes "p \<noteq> []" "hd p = CHR ''/''" "split_on CHR ''/'' (tl p) = segments" "segments \<noteq> []" "\<forall>x \<in> set segments. x \<noteq> []" "verb \<noteq> ''HEAD''"
  shows "find_route verb (''/api/v1'' @ p) =
    (case map_of STATIC_ROUTES (verb, join_with ''/'' (map to_lower segments)) of
       Some route \<Rightarrow> Some route | None \<Rightarrow> parameter_route verb segments)"
proof -
  have "last segments \<noteq> []" using assms(4,5) by simp
  moreover have "to_lower ''api'' = ''api''" "to_lower ''v1'' = ''v1''" by code_simp+
  ultimately show ?thesis
    unfolding find_route_def path_segments_def split_path[OF assms(1,2)] assms(3)
    using assms(4-6) by (auto simp: Let_def)
qed

lemmas route_defs = client_method_def STATIC_ROUTES_def parameter_route_def lower_char_def is_upper_def ccode_def

text \<open>The web application and the API agree on their routes: every operation of the client with
  identifiers in its path reaches the route it is meant for with exactly these
  identifiers.\<close>

theorem client_calls_routed:
  assumes "client_ids call \<noteq> []" "\<forall>i \<in> set (client_ids call). i \<noteq> [] \<and> CHR ''/'' \<notin> set i"
  shows "find_route (client_method call) (''/api/v1'' @ client_path call) = Some (client_route call)"
proof (cases call)
  case (ZoneHistory z)
  with assms have "split_on CHR ''/'' (tl (client_path call)) = [''zones'', z, ''history'']" by (simp add: split_on_append)
  from find_route_api[OF _ _ this, of "client_method call"] assms ZoneHistory show ?thesis by (simp add: route_defs)
next
  case (DemoSimulation i)
  with assms have "split_on CHR ''/'' (tl (client_path call)) = [''demo'', ''simulations'', i]" by (simp add: split_on_no_sep)
  from find_route_api[OF _ _ this, of "client_method call"] assms DemoSimulation show ?thesis by (simp add: route_defs)
next
  case (Proof z e)
  with assms have "split_on CHR ''/'' (tl (client_path call)) = [''chain'', ''proof'', z, e]"
    by (simp add: split_on_append split_on_no_sep)
  from find_route_api[OF _ _ this, of "client_method call"] assms Proof show ?thesis by (simp add: route_defs numeral_eq_Suc)
next
  case (ResolveReview i body)
  with assms have "split_on CHR ''/'' (tl (client_path call)) = [''admin'', ''review'', i, ''decision'']" by (simp add: split_on_append)
  from find_route_api[OF _ _ this, of "client_method call"] assms ResolveReview show ?thesis by (simp add: route_defs numeral_eq_Suc)
qed (use assms(1) in simp_all)

text \<open>The token of the client is the token the API reads, as long as it has no blanks.\<close>

theorem client_token_read:
  assumes "authToken B = Some token" "token \<noteq> []" "CHR '' '' \<notin> set token"
  shows "bearerToken (map_of (authHeaders B) ''Authorization'') = Some token"
proof -
  have "split_on CHR '' '' (''Bearer '' @ token) = [''Bearer'', token]" using assms(3) by (simp add: split_on_no_sep)
  moreover have "to_lower ''Bearer'' = ''bearer''" by code_simp
  ultimately show ?thesis using assms by (simp add: authHeaders_def bearerToken_def)
qed

end
