(* ===== verification/Spec2Isabelle.thy ===== *)
theory Spec2Isabelle
  imports Worker_Reports Demo_Scenarios Gate Commitment Ingestion Settlement Configuration Middleware Access Intake Scheduler
    Notifications Providers Dashboard Realtime Simulator_Checks Process_Cases
    Deployment_Checks Web_Client
begin

text \<open>
  GridProof turns evidence of power outages, from sensors and from reporters, into epoch scores that
  are committed on a chain. This development models the API process (\<open>apps/api/src\<close>), the agent worker
  (\<open>apps/agent-worker/src\<close>), its tools and agents (\<open>packages/ai/src\<close>), the shared types
  (\<open>packages/shared-types/src\<close>), the blockchain client (\<open>packages/blockchain-client/src\<close>), the hardware
  simulator and the deployment checks (\<open>scripts\<close>), and the client library of the web application
  (\<open>apps/web/src/lib\<close>).

  \<^bold>\<open>How the parts interact.\<close> A request passes the middleware (validation, rate limit, session
  token) and reaches a route; the ingestion routes store evidence once per idempotency key and detect
  a candidate from the agreement of the recent readings; a candidate passes the policy gate, which
  approves, escalates or rejects it; an approved candidate gives the score of its hour and a pending
  commitment, an escalated one a review job and a review event; a reviewer resolves it, and the agent
  worker, which takes the jobs from the queue, lets two language model agents decide it. The scheduler
  finds silent sensors and drives the submission of pending commitments and the indexing of receipts.
  Domain events reach the notification outbox and the sockets. The dashboard reads all of it.

  \<^bold>\<open>The theories and the code.\<close>
  \<^item> \<open>Prelude\<close>, \<open>Js_String\<close>, \<open>Js_Number\<close>, \<open>Js_Date\<close>: results with errors, the \<open>Map\<close> and sort of
    JavaScript, strings, doubles, dates; the locales \<open>keyed_store\<close>, \<open>once_store\<close>, \<open>quota_store\<close>.
  \<^item> \<open>Domain\<close>, \<open>Demo_Zones\<close>: \<open>packages/shared-types/src\<close>; the schemas of \<open>api.ts\<close> stand with the
    routes that use them.
  \<^item> \<open>Detection\<close>, \<open>Heartbeat\<close>: \<open>modules/detection\<close>. \<open>World\<close>: the state of the process and its database,
    operations as functions of the world; \<open>Frames\<close>: what operations keep. \<open>Audit_Jobs\<close>:
    \<open>modules/audit\<close>, \<open>modules/jobs\<close>. \<open>Pipeline\<close>: \<open>modules/pipeline/service.ts\<close>.
  \<^item> \<open>Ingestion_Store\<close>, \<open>Ingestion_Routes\<close>: \<open>modules/ingestion\<close>. \<open>Chain\<close>: \<open>modules/blockchain\<close> and
    the blockchain client. \<open>Scheduler\<close>: \<open>modules/pipeline/scheduler.ts\<close>.
  \<^item> \<open>Configuration\<close>: \<open>lib/cors.ts\<close>, \<open>lib/observability.ts\<close>, \<open>routes\<close>. \<open>Middleware\<close>: \<open>middleware\<close>.
    \<open>Auth\<close>: \<open>modules/auth\<close>. \<open>Notifications\<close>, \<open>Providers\<close>, \<open>Dashboard\<close>, \<open>Realtime\<close>: the modules
    of these names. \<open>Demo\<close>: \<open>modules/demo\<close>.
  \<^item> \<open>Js_Json\<close>: \<open>JSON.parse\<close>, which reads back what \<open>JSON.stringify\<close> wrote. \<open>Agent_Tools\<close>, \<open>Agent_Review\<close>:
    \<open>packages/ai/src\<close>, \<open>orchestrator.ts\<close> and \<open>llm-config.ts\<close> of the worker. \<open>Agent_Sink\<close>, \<open>Agent_Worker\<close>:
    \<open>result-sink.ts\<close>, \<open>index.ts\<close>, \<open>readiness.ts\<close>. \<open>Worker\<close>, \<open>Worker_Cases\<close>, \<open>Worker_Reports\<close>: the properties
    of the worker and their witnesses.
  \<^item> \<open>Effects\<close>: which stores the operations that others call may touch (frames over projections of the
    world); \<open>Demo_Lab\<close>, \<open>Demo_Scenarios\<close>: the properties of the demo lab.
  \<^item> \<open>Hardware_Scenario\<close>, \<open>Simulator\<close>: \<open>scripts/hardware-scenario.ts\<close> and \<open>scripts/simulate-hardware.ts\<close>.
    \<open>Scenario_Answers\<close> lets the simulator call the model of the API; \<open>Scenario_Events\<close>, \<open>Scenario_Run\<close> and
    \<open>Simulator_Checks\<close>: the API answers every event as the scenario expects, its signatures and tokens
    are those of the API, its loops end.
  \<^item> \<open>Typing\<close>, \<open>Typing_Process\<close>: the types of the stores and the operations that keep them.
    \<open>Api_Process\<close>: \<open>app.ts\<close> and \<open>server.ts\<close>, the whole process as a step relation. \<open>History\<close>: what no step
    rewrites. \<open>Process\<close>, \<open>Process_Cases\<close>: invariants of the reachable states and their witnesses.
  \<^item> \<open>Contract_Manifest\<close>, \<open>Deployment_Verifier\<close>: \<open>scripts/verify-contract-manifest.ts\<close> and
    \<open>scripts/verify-deployment.ts\<close>. \<open>Deployment_Checks\<close>: what their verdicts mean for the API
    they check. \<open>Web_Client\<close>: \<open>apps/web/src/lib\<close> and \<open>stores\<close>, and that its requests with identifiers reach
    the routes of the API they are meant for.
  \<^item> \<open>Gate\<close>, \<open>Commitment\<close>, \<open>Ingestion\<close>, \<open>Settlement\<close>, \<open>Access\<close>, \<open>Intake\<close>: the properties of the parts
    above that need several of them; \<open>Samples\<close>: the concrete inputs of the witnesses.

  \<^bold>\<open>Reading the model.\<close> A module-level \<open>Map\<close> is an association list in insertion order, a table a
  list of rows, a double a rational that \<open>fl\<close> rounds, a timestamp its milliseconds, a string a list of
  ASCII characters. An operation is a function of the world that returns a value or a thrown error; it
  runs as one step, so an interleaving is a sequence of operations. Both backends are modelled: the
  memory maps, and the database with its unique keys and conflict clauses. The clock, \<open>randomUUID\<close>,
  \<open>localeCompare\<close>, SHA-256, HMAC, the environment, BullMQ, Redis, \<open>fetch\<close>, the JWT codec, the
  language model, the average of PostgreSQL and the chain contract are parameters; no law is assumed of them unless a theorem states it.

  \<^bold>\<open>Bounds.\<close> A loop is a structural recursion or has its measure. Two take fuel: \<open>JSON.parse\<close>, where twice
  the length of the text is enough (\<open>fuel_enough\<close>), and the digits of a double, which 17 digits always determine.

  \<^bold>\<open>Not modelled.\<close> The pages of the web application (React markup over the client), the scripts that seed
  data or check documents and services, the migrations, logging, the connection pool, the socket
  transport and the smart contracts. Of the database: failures of its statements, the format and the
  uniqueness that migration 001 demands of a transaction hash, the order of the keys of a JSON column,
  its own clock (rows get the time of the process) and the notations of timestamps beyond those of
  \<open>Date.parse\<close>. Of dates: the \<open>RangeError\<close> at the two ends of the range of \<open>Date\<close> where a window is
  computed from a valid instant. Of the agent worker: that its health server stops answering once it has been shut down.
\<close>

end
